(* ===== verification/Prelude.thy ===== *)
theory Prelude
  imports Main "HOL-Library.Sublist"
begin

text \<open>
  Shared vocabulary of the development: the JavaScript string and number operations the
  source uses, database tables as lists of rows with the SQL statements the source issues
  on them, and the generic lemmas on lists, options and sums that the components use.

  Strings are \<^typ>\<open>string\<close> values, one character per UTF-16 code unit below 256.
  Timestamps (ISO strings and database \<open>timestamptz\<close> columns) are milliseconds since the
  epoch, the value \<open>Date.parse\<close> gives for them.
\<close>

named_theorems table_simps \<open>statements on tables\<close>
named_theorems result_elims \<open>inversion of computations that may fail\<close>

section \<open>Strings\<close>

text \<open>The white space that \<open>String.prototype.trim\<close> strips, within Latin-1.\<close>

definition js_space :: "char \<Rightarrow> bool" where
  "js_space c \<longleftrightarrow> of_char c \<in> {9, 10, 11, 12, 13, 32, 160 :: nat}"

definition js_trim :: "string \<Rightarrow> string" where
  "js_trim s = rev (dropWhile js_space (rev (dropWhile js_space s)))"

text \<open>\<open>String.prototype.toLowerCase\<close>, within Latin-1.\<close>

definition js_lower_char :: "char \<Rightarrow> char" where
  "js_lower_char c =
     (let n = (of_char c :: nat)
      in if (65 \<le> n \<and> n \<le> 90) \<or> (192 \<le> n \<and> n \<le> 222 \<and> n \<noteq> 215) then char_of (n + 32) else c)"

definition js_lower :: "string \<Rightarrow> string" where
  "js_lower s = map js_lower_char s"

text \<open>A nullable string in a boolean position: null and the empty string are false.\<close>

fun truthy :: "string option \<Rightarrow> bool" where
  "truthy None = False"
| "truthy (Some s) = (s \<noteq> [])"

lemma truthy_iff: "truthy x \<longleftrightarrow> (\<exists>s. x = Some s \<and> s \<noteq> [])"
  by (cases x) auto

lemma js_trim_Nil [simp]: "js_trim [] = []"
  by (simp add: js_trim_def)

lemma dropWhile_eq_self: "xs \<noteq> [] \<Longrightarrow> \<not> P (hd xs) \<Longrightarrow> dropWhile P xs = xs"
  by (cases xs) auto

lemma hd_rev_dropWhile_rev: "dropWhile P xs \<noteq> [] \<Longrightarrow> \<not> P (hd (dropWhile P xs))"
  by (induction xs) auto

text \<open>Trimming leaves no white space at either end, so trimming twice is trimming once.\<close>

lemma js_trim_hd: "js_trim s \<noteq> [] \<Longrightarrow> \<not> js_space (hd (js_trim s))"
proof -
  assume ne: "js_trim s \<noteq> []"
  let ?t = "dropWhile js_space s"
  have t: "?t \<noteq> []"
  proof
    assume "?t = []"
    then have "js_trim s = []" by (simp only: js_trim_def rev.simps dropWhile.simps)
    with ne show False ..
  qed
  obtain zs where zs: "?t = js_trim s @ zs"
    using suffix_dropWhile [of js_space "rev ?t"]
    by (auto simp: js_trim_def suffix_def) (metis rev_append rev_rev_ident)
  have "hd (js_trim s) = hd ?t" using ne zs by simp
  then show ?thesis using hd_rev_dropWhile_rev [OF t] by simp
qed

lemma js_trim_last: "js_trim s \<noteq> [] \<Longrightarrow> \<not> js_space (last (js_trim s))"
  unfolding js_trim_def last_rev rev_is_Nil_conv by (rule hd_rev_dropWhile_rev)

lemma js_trim_idem [simp]: "js_trim (js_trim s) = js_trim s"
proof (cases "js_trim s = []")
  case False
  have 1: "dropWhile js_space (js_trim s) = js_trim s"
    using False js_trim_hd by (intro dropWhile_eq_self) auto
  have 2: "dropWhile js_space (rev (js_trim s)) = rev (js_trim s)"
    using False js_trim_last by (intro dropWhile_eq_self) (auto simp: hd_rev)
  show ?thesis by (subst js_trim_def) (simp add: 1 2)
qed simp

section \<open>Tables\<close>

text \<open>
  A table is the list of its rows in insertion order. \<open>select_first\<close> is
  \<open>SELECT ... WHERE ... LIMIT 1\<close> (and \<open>Array.prototype.find\<close>), \<open>update_where\<close> is
  \<open>UPDATE ... SET ... WHERE ...\<close>, and \<open>returning_first\<close> the first row that statement returns.
\<close>

definition select_first :: "('r \<Rightarrow> bool) \<Rightarrow> 'r list \<Rightarrow> 'r option" where
  "select_first p t = List.find p t"

definition update_where :: "('r \<Rightarrow> bool) \<Rightarrow> ('r \<Rightarrow> 'r) \<Rightarrow> 'r list \<Rightarrow> 'r list" where
  "update_where p f t = map (\<lambda>r. if p r then f r else r) t"

definition returning_first :: "('r \<Rightarrow> bool) \<Rightarrow> ('r \<Rightarrow> 'r) \<Rightarrow> 'r list \<Rightarrow> 'r option" where
  "returning_first p f t = map_option f (List.find p t)"

lemma find_SomeD: "List.find p xs = Some x \<Longrightarrow> x \<in> set xs \<and> p x"
  by (induction xs) (auto split: if_splits)

lemma find_NoneD: "List.find p xs = None \<Longrightarrow> x \<in> set xs \<Longrightarrow> \<not> p x"
  by (induction xs) (auto split: if_splits)

lemma find_append_None: "List.find p xs = None \<Longrightarrow> List.find p (xs @ ys) = List.find p ys"
  by (induction xs) (auto split: if_splits)

lemma select_first_SomeD: "select_first p t = Some r \<Longrightarrow> r \<in> set t \<and> p r"
  unfolding select_first_def by (rule find_SomeD)

lemma select_first_None: "select_first p t = None \<longleftrightarrow> (\<forall>r \<in> set t. \<not> p r)"
  by (auto simp: select_first_def find_None_iff)

lemma select_first_Some_ex: "r \<in> set t \<Longrightarrow> p r \<Longrightarrow> \<exists>r'. select_first p t = Some r'"
  using select_first_None [of p t] by (cases "select_first p t") auto

lemma set_update_where [table_simps]:
  "set (update_where p f t) = {f r |r. r \<in> set t \<and> p r} \<union> {r \<in> set t. \<not> p r}"
  by (auto simp: update_where_def)

lemma ball_update_where:
  "(\<forall>x \<in> set (update_where p f t). P x) \<longleftrightarrow> (\<forall>r \<in> set t. P (if p r then f r else r))"
  unfolding update_where_def set_map by blast

lemma update_where_mem: "r \<in> set t \<Longrightarrow> (if p r then f r else r) \<in> set (update_where p f t)"
  by (simp add: update_where_def)

lemma length_update_where [table_simps]: "length (update_where p f t) = length t"
  by (simp add: update_where_def)

lemma update_where_none: "(\<And>r. r \<in> set t \<Longrightarrow> \<not> p r) \<Longrightarrow> update_where p f t = t"
  by (simp add: update_where_def map_idI)

text \<open>An update that leaves a key column alone leaves the keys of the table alone.\<close>

lemma map_key_update_where [table_simps]:
  "(\<And>r. key (f r) = key r) \<Longrightarrow> map key (update_where p f t) = map key t"
  by (simp add: update_where_def)

lemma distinct_key_inj:
  "distinct (map key t) \<Longrightarrow> r \<in> set t \<Longrightarrow> r' \<in> set t \<Longrightarrow> key r = key r' \<Longrightarrow> r = r'"
  by (simp add: distinct_map inj_on_def)

lemma select_first_stronger:
  "select_first q t = Some r \<Longrightarrow> p r \<Longrightarrow> (\<And>x. p x \<Longrightarrow> q x) \<Longrightarrow> select_first p t = Some r"
  unfolding select_first_def by (induction t) (auto split: if_splits)

lemma select_first_update_where:
  "(\<And>r. p r \<Longrightarrow> p (f r)) \<Longrightarrow> select_first p (update_where p f t) = map_option f (select_first p t)"
  unfolding select_first_def update_where_def by (induction t) auto

lemma select_first_update_other:
  "(\<And>r. q r \<Longrightarrow> \<not> p r) \<Longrightarrow> (\<And>r. p r \<Longrightarrow> \<not> q (f r)) \<Longrightarrow>
     select_first q (update_where p f t) = select_first q t"
  unfolding select_first_def update_where_def by (induction t) auto

lemma select_first_key:
  assumes "distinct (map key t)" "r \<in> set t" "p r" "\<And>r'. p r' \<Longrightarrow> key r' = key r"
  shows "select_first p t = Some r"
proof -
  obtain r' where r': "select_first p t = Some r'"
    using select_first_Some_ex [of r t p] assms by blast
  then have "r' \<in> set t" "p r'" by (auto dest: select_first_SomeD)
  then have "r' = r" using assms distinct_key_inj [of key t r' r] by blast
  with r' show ?thesis by simp
qed

section \<open>Computations that may fail\<close>

text \<open>Sequencing of \<open>error + value\<close>: the first thrown error is the result.\<close>

definition bind_result :: "'e + 'a \<Rightarrow> ('a \<Rightarrow> 'e + 'b) \<Rightarrow> 'e + 'b" where
  "bind_result m k = (case m of Inl e \<Rightarrow> Inl e | Inr a \<Rightarrow> k a)"

definition guard_result :: "bool \<Rightarrow> 'e \<Rightarrow> 'e + unit" where
  "guard_result b e = (if b then Inr () else Inl e)"

lemma bind_result_simps [simp]:
  "bind_result (Inl e) k = Inl e" "bind_result (Inr a) k = k a"
  by (simp_all add: bind_result_def)

lemma bind_result_Inr [result_elims]:
  "bind_result m k = Inr b \<longleftrightarrow> (\<exists>a. m = Inr a \<and> k a = Inr b)"
  by (cases m) auto

lemma guard_result_Inr [result_elims]: "guard_result b e = Inr u \<longleftrightarrow> b"
  by (simp add: guard_result_def)

lemma guard_result_simps [simp]:
  "guard_result True e = Inr ()" "guard_result False e = Inl e"
  by (simp_all add: guard_result_def)

text \<open>
  A database transaction: the body sees the database and either throws, which rolls every
  write back, or returns its value with the database to commit.
\<close>

definition transaction :: "('d \<Rightarrow> 'e + 'a \<times> 'd) \<Rightarrow> 'd \<Rightarrow> ('e + 'a) \<times> 'd" where
  "transaction body db = (case body db of Inl e \<Rightarrow> (Inl e, db) | Inr (a, db') \<Rightarrow> (Inr a, db'))"

lemma transaction_Inl: "transaction body db = (Inl e, db') \<Longrightarrow> db' = db"
  by (auto simp: transaction_def split: sum.splits)

lemma transaction_Inr [result_elims]:
  "transaction body db = (Inr a, db') \<longleftrightarrow> body db = Inr (a, db')"
  by (auto simp: transaction_def split: sum.splits)

lemma transaction_cases:
  assumes "transaction body db = (r, db')"
  obtains (rolled_back) e where "r = Inl e" "db' = db" "body db = Inl e"
    | (committed) a where "r = Inr a" "body db = Inr (a, db')"
  using assms by (auto simp: transaction_def split: sum.splits)

text \<open>A nullable row: absence throws.\<close>

definition require :: "'a option \<Rightarrow> 'e \<Rightarrow> 'e + 'a" where
  "require x e = (case x of None \<Rightarrow> Inl e | Some a \<Rightarrow> Inr a)"

lemma require_Inr [result_elims]: "require x e = Inr a \<longleftrightarrow> x = Some a"
  by (cases x) (auto simp: require_def)

lemma require_simps [simp]: "require None e = Inl e" "require (Some a) e = Inr a"
  by (simp_all add: require_def)

section \<open>Interfaces shared by several components\<close>

text \<open>
  A fence: a token that a guarded write re-validates. \<open>step\<close> is one change of the shared
  state, \<open>holds s f\<close> says that the token is accepted in state \<open>s\<close>, and \<open>known s f\<close> that the
  object it refers to exists and has reached the token's clock. The laws: a known token
  stays known, and no step turns a known token that is rejected into an accepted one.
\<close>

locale monotone_fence =
  fixes step :: "'s \<Rightarrow> 's \<Rightarrow> bool"
    and holds :: "'s \<Rightarrow> 'f \<Rightarrow> bool"
    and known :: "'s \<Rightarrow> 'f \<Rightarrow> bool"
  assumes known_step: "step s t \<Longrightarrow> known s f \<Longrightarrow> known t f"
    and lost_step: "step s t \<Longrightarrow> known s f \<Longrightarrow> \<not> holds s f \<Longrightarrow> \<not> holds t f"
begin

lemma lost_forever:
  assumes "step\<^sup>*\<^sup>* s t" "known s f" "\<not> holds s f"
  shows "\<not> holds t f"
proof -
  from assms have "known t f \<and> \<not> holds t f"
    by (induction rule: rtranclp_induct) (auto dest: known_step lost_step)
  then show ?thesis ..
qed

text \<open>A token held at both ends of a run was held all along.\<close>

lemma held_between:
  assumes "known s f" "step\<^sup>*\<^sup>* s t" "step\<^sup>*\<^sup>* t u" "holds u f"
  shows "holds t f"
proof (rule ccontr)
  assume "\<not> holds t f"
  moreover have "known t f"
    using assms(2,1) by (induction rule: rtranclp_induct) (auto dest: known_step)
  ultimately show False using lost_forever [OF assms(3)] assms(4) by blast
qed

end

text \<open>
  A transition table: the pairs a state machine allows, read by a step function that
  refuses every other pair. \<open>rank\<close> is not required; closed sets of states are derived.
\<close>

locale transition_table =
  fixes allowed :: "'q \<Rightarrow> 'q \<Rightarrow> bool"
    and move :: "'q \<Rightarrow> 'q \<Rightarrow> 'e + 'q"
  assumes move_Inr: "move p q = Inr r \<longleftrightarrow> r = q \<and> (p = q \<or> allowed p q)"
begin

lemma move_terminal: "(\<And>q. \<not> allowed p q) \<Longrightarrow> move p q = Inr r \<Longrightarrow> r = p"
  by (auto simp: move_Inr)

lemma move_closed:
  assumes "p \<in> S" "\<And>a b. a \<in> S \<Longrightarrow> allowed a b \<Longrightarrow> b \<in> S" "move p q = Inr r"
  shows "r \<in> S"
  using assms by (auto simp: move_Inr)

lemma moves_closed:
  assumes "(\<lambda>a b. \<exists>q. move a q = Inr b)\<^sup>*\<^sup>* p r" "p \<in> S" "\<And>a b. a \<in> S \<Longrightarrow> allowed a b \<Longrightarrow> b \<in> S"
  shows "r \<in> S"
  using assms(1,2)
proof (induction rule: rtranclp_induct)
  case (step y z)
  then show ?case using move_closed [of y S] assms(3) by blast
qed

end

end
