(* ===== verification/LeaseStore.thy ===== *)
theory LeaseStore
  imports Prelude
begin

text \<open>
  The tables of task coordination and the statements on them:
  \<^verbatim>\<open>src/api/db/coordination/lease-rows.ts\<close>, \<^verbatim>\<open>task-leases.ts\<close>, the types of
  \<^verbatim>\<open>src/api/db/types/tasks.ts\<close> and the indexes of \<^verbatim>\<open>src/api/db/schema/tasks.ts\<close>.
  A transaction is a function from the database to an error or a result with the new
  database; an error leaves the database as it was. Columns that none of the modelled
  statements reads or writes are left out of the rows.
\<close>

section \<open>Rows\<close>

datatype lease_kind = Work | Review
datatype lease_status = Active | Released | Revoked | Expired

record task_lease =
  tl_id :: string
  tl_room :: string
  tl_task :: string
  tl_kind :: lease_kind
  tl_status :: lease_status
  tl_agent_key :: string
  tl_instance :: "string option"
  tl_session :: "string option"
  tl_label :: string
  tl_epoch :: int
  tl_branch :: "string option"
  tl_pr_url :: "string option"
  tl_output :: "string option"
  tl_expires_at :: "int option"
  tl_heartbeat_at :: "int option"
  tl_revoked_reason :: "string option"
  tl_created_by :: string
  tl_created_at :: int
  tl_updated_at :: int

record lease_input =
  li_room :: string
  li_task :: string
  li_kind :: lease_kind
  li_agent_key :: string
  li_label :: string
  li_created_by :: string
  li_instance :: "string option"
  li_session :: "string option"
  li_branch :: "string option"
  li_pr_url :: "string option"
  li_output :: "string option"
  li_expires_at :: "int option"

record agent_session =
  as_id :: string
  as_room :: string
  as_agent_key :: string
  as_instance :: "string option"
  as_label :: string
  as_worker :: bool
  as_owner :: string
  as_grant :: "string option"
  as_token_hash :: string
  as_created_at :: int
  as_ended_at :: "int option"

record host_grant =
  hg_id :: string
  hg_owner :: string
  hg_rooms :: "string list"
  hg_agent_keys :: "string list"
  hg_generation :: int
  hg_token_version :: int
  hg_expires_at :: int
  hg_revoked_at :: "int option"

record session_bearer =
  sb_id :: string
  sb_session :: string
  sb_room :: string
  sb_grant :: "string option"
  sb_generation :: int
  sb_capabilities :: "string list"
  sb_expires_at :: int
  sb_revoked_at :: "int option"

record attestation =
  at_id :: string
  at_room :: string
  at_lease :: string
  at_epoch :: int
  at_from :: string
  at_grant :: string
  at_generation :: int
  at_attempt :: string
  at_execution :: string
  at_cause :: string
  at_attested_at :: int
  at_consumed_at :: "int option"
  at_consumed_by :: "int option"

record coord_db =
  leases :: "task_lease list"
  sessions :: "agent_session list"
  grants :: "host_grant list"
  bearers :: "session_bearer list"
  attestations :: "attestation list"

section \<open>Creating a lease\<close>

text \<open>\<open>createTaskLeaseRow\<close>; the random identifier of \<open>coordinationId\<close> is an argument.\<close>

definition create_task_lease_row :: "string \<Rightarrow> lease_input \<Rightarrow> int \<Rightarrow> task_lease" where
  "create_task_lease_row new_id inp now =
     \<lparr>tl_id = new_id, tl_room = li_room inp, tl_task = li_task inp, tl_kind = li_kind inp,
      tl_status = Active, tl_agent_key = li_agent_key inp, tl_instance = li_instance inp,
      tl_session = li_session inp, tl_label = li_label inp, tl_epoch = 0,
      tl_branch = li_branch inp, tl_pr_url = li_pr_url inp, tl_output = li_output inp,
      tl_expires_at = li_expires_at inp, tl_heartbeat_at = Some now,
      tl_revoked_reason = None, tl_created_by = li_created_by inp,
      tl_created_at = now, tl_updated_at = now\<rparr>"

text \<open>The unique indexes of the table: primary key, one active work lease per task, one
  active review lease per task and agent.\<close>

definition lease_conflict :: "task_lease \<Rightarrow> task_lease \<Rightarrow> bool" where
  "lease_conflict a b \<longleftrightarrow>
     tl_id a = tl_id b \<or>
     (tl_status a = Active \<and> tl_status b = Active \<and> tl_kind a = tl_kind b \<and>
      tl_room a = tl_room b \<and> tl_task a = tl_task b \<and>
      (tl_kind a = Work \<or> tl_agent_key a = tl_agent_key b))"

definition insert_lease :: "task_lease \<Rightarrow> task_lease list \<Rightarrow> task_lease list option" where
  "insert_lease r t = (if \<exists>x \<in> set t. lease_conflict r x then None else Some (t @ [r]))"

definition expire_stale_task_leases :: "string \<Rightarrow> int \<Rightarrow> task_lease list \<Rightarrow> task_lease list" where
  "expire_stale_task_leases room now =
     update_where
       (\<lambda>r. tl_room r = room \<and> tl_status r = Active \<and>
            (case tl_expires_at r of None \<Rightarrow> False | Some e \<Rightarrow> e \<le> now))
       (\<lambda>r. r\<lparr>tl_status := Expired, tl_updated_at := now\<rparr>)"

text \<open>\<open>createTaskLease\<close>: the expiry sweep commits on its own, then the insert may fail.\<close>

definition create_task_lease ::
  "string \<Rightarrow> lease_input \<Rightarrow> int \<Rightarrow> coord_db \<Rightarrow> task_lease option \<times> coord_db" where
  "create_task_lease new_id inp now db =
     (let swept = expire_stale_task_leases (li_room inp) now (leases db);
          row = create_task_lease_row new_id inp now
      in case insert_lease row swept of
           None \<Rightarrow> (None, db\<lparr>leases := swept\<rparr>)
         | Some t \<Rightarrow> (Some row, db\<lparr>leases := t\<rparr>))"

section \<open>Reading, releasing and revoking\<close>

text \<open>\<open>ORDER BY created_at\<close>, stable on the insertion order.\<close>

definition get_active_task_leases ::
  "string \<Rightarrow> string option \<Rightarrow> int \<Rightarrow> coord_db \<Rightarrow> task_lease list \<times> coord_db" where
  "get_active_task_leases room task now db =
     (let swept = expire_stale_task_leases room now (leases db);
          hit = (\<lambda>r. tl_room r = room \<and> tl_status r = Active \<and>
                     (case tl_expires_at r of None \<Rightarrow> True | Some e \<Rightarrow> now < e) \<and>
                     (if truthy task then Some (tl_task r) = task else True))
      in (sort_key tl_created_at (filter hit swept), db\<lparr>leases := swept\<rparr>))"

definition revoke_task_lease ::
  "string \<Rightarrow> string \<Rightarrow> string \<Rightarrow> int \<Rightarrow> coord_db \<Rightarrow> task_lease option \<times> coord_db" where
  "revoke_task_lease room lease_id reason now db =
     (let p = (\<lambda>r. tl_room r = room \<and> tl_id r = lease_id);
          f = (\<lambda>r. r\<lparr>tl_status := Revoked, tl_revoked_reason := Some reason, tl_updated_at := now\<rparr>)
      in (returning_first p f (leases db), db\<lparr>leases := update_where p f (leases db)\<rparr>))"

record release_fence =
  rf_kind :: "lease_kind option"
  rf_epoch :: "int option"
  rf_session :: "string option"

definition release_matches :: "string \<Rightarrow> string \<Rightarrow> release_fence option \<Rightarrow> task_lease \<Rightarrow> bool" where
  "release_matches room lease_id fence r \<longleftrightarrow>
     tl_room r = room \<and> tl_id r = lease_id \<and> tl_status r = Active \<and>
     (case fence of None \<Rightarrow> True
      | Some f \<Rightarrow>
          (case rf_kind f of None \<Rightarrow> True | Some k \<Rightarrow> tl_kind r = k) \<and>
          (case rf_epoch f of None \<Rightarrow> True | Some e \<Rightarrow> tl_epoch r = e) \<and>
          (truthy (rf_session f) \<longrightarrow> tl_session r = rf_session f))"

definition release_task_lease ::
  "string \<Rightarrow> string \<Rightarrow> release_fence option \<Rightarrow> int \<Rightarrow> coord_db \<Rightarrow> task_lease option \<times> coord_db" where
  "release_task_lease room lease_id fence now db =
     (let p = release_matches room lease_id fence;
          f = (\<lambda>r. r\<lparr>tl_status := Released, tl_updated_at := now\<rparr>)
      in (returning_first p f (leases db), db\<lparr>leases := update_where p f (leases db)\<rparr>))"

text \<open>\<open>updateTaskLeaseWorkflowRefs\<close>: an absent field is \<open>None\<close>, a present one carries its
  nullable value.\<close>

definition update_task_lease_workflow_refs ::
  "string \<Rightarrow> string \<Rightarrow> string option option \<Rightarrow> string option option \<Rightarrow> int \<Rightarrow> coord_db
   \<Rightarrow> task_lease option \<times> coord_db" where
  "update_task_lease_workflow_refs room lease_id branch pr now db =
     (let p = (\<lambda>r. tl_room r = room \<and> tl_id r = lease_id);
          f = (\<lambda>r. r\<lparr>tl_branch := (case branch of None \<Rightarrow> tl_branch r | Some b \<Rightarrow> b),
                      tl_pr_url := (case pr of None \<Rightarrow> tl_pr_url r | Some u \<Rightarrow> u),
                      tl_updated_at := now\<rparr>)
      in (returning_first p f (leases db), db\<lparr>leases := update_where p f (leases db)\<rparr>))"

section \<open>The well-formed table\<close>

text \<open>The unique indexes hold: no two different rows of the table conflict.\<close>

definition leases_wf :: "task_lease list \<Rightarrow> bool" where
  "leases_wf t \<longleftrightarrow>
     distinct (map tl_id t) \<and>
     (\<forall>a \<in> set t. \<forall>b \<in> set t. lease_conflict a b \<longrightarrow> tl_id a = tl_id b)"

lemma leases_wf_key: "leases_wf t \<Longrightarrow> a \<in> set t \<Longrightarrow> b \<in> set t \<Longrightarrow> tl_id a = tl_id b \<Longrightarrow> a = b"
  unfolding leases_wf_def using distinct_key_inj [of tl_id t a b] by blast

lemma lease_conflict_sym: "lease_conflict a b \<Longrightarrow> lease_conflict b a"
  by (auto simp: lease_conflict_def)

lemma insert_lease_wf:
  assumes wf: "leases_wf t" and ins: "insert_lease r t = Some t'"
  shows "leases_wf t'"
proof -
  from ins have t': "t' = t @ [r]" and free: "\<forall>x \<in> set t. \<not> lease_conflict r x"
    by (simp_all add: insert_lease_def split: if_splits)
  have "tl_id r \<notin> tl_id ` set t" using free by (auto simp: lease_conflict_def)
  with wf have "distinct (map tl_id t')" by (simp add: t' leases_wf_def)
  moreover have "tl_id a = tl_id b"
    if "a \<in> set t'" "b \<in> set t'" "lease_conflict a b" for a b
    using that wf free lease_conflict_sym [of a b] unfolding t' leases_wf_def by fastforce
  ultimately show ?thesis unfolding leases_wf_def by blast
qed

text \<open>An update that keeps the indexed columns, or only takes rows out of the active status,
  keeps the indexes.\<close>

definition narrows :: "(task_lease \<Rightarrow> task_lease) \<Rightarrow> bool" where
  "narrows f \<longleftrightarrow>
     (\<forall>r. tl_id (f r) = tl_id r \<and> tl_room (f r) = tl_room r \<and> tl_task (f r) = tl_task r \<and>
          tl_kind (f r) = tl_kind r \<and> tl_agent_key (f r) = tl_agent_key r \<and>
          (tl_status (f r) = Active \<longrightarrow> tl_status r = Active))"

lemma update_where_wf:
  assumes wf: "leases_wf t" and f: "narrows f"
  shows "leases_wf (update_where p f t)"
proof -
  let ?g = "\<lambda>r. if p r then f r else r"
  have keys: "map tl_id (update_where p f t) = map tl_id t"
    using f by (intro map_key_update_where) (simp add: narrows_def)
  have conf: "lease_conflict (?g a) (?g b) \<Longrightarrow> lease_conflict a b" for a b
    using f by (auto simp: narrows_def lease_conflict_def split: if_splits)
  have id: "tl_id (?g a) = tl_id a" for a
    using f by (simp add: narrows_def)
  show ?thesis
    unfolding leases_wf_def keys
  proof (intro conjI ballI impI)
    show "distinct (map tl_id t)" using wf by (simp add: leases_wf_def)
  next
    fix x y assume "x \<in> set (update_where p f t)" "y \<in> set (update_where p f t)"
      and c: "lease_conflict x y"
    then obtain a b where ab: "a \<in> set t" "b \<in> set t" "x = ?g a" "y = ?g b"
      by (auto simp: update_where_def)
    with c conf [of a b] have "lease_conflict a b" by simp
    with wf ab(1,2) have "tl_id a = tl_id b" by (simp add: leases_wf_def)
    then show "tl_id x = tl_id y" unfolding ab(3,4) id .
  qed
qed

lemma expire_wf: "leases_wf t \<Longrightarrow> leases_wf (expire_stale_task_leases room now t)"
  unfolding expire_stale_task_leases_def by (rule update_where_wf) (simp_all add: narrows_def)

lemma create_task_lease_wf:
  "leases_wf (leases db) \<Longrightarrow> create_task_lease i inp now db = (r, db') \<Longrightarrow> leases_wf (leases db')"
  by (auto simp: create_task_lease_def Let_def intro: insert_lease_wf expire_wf split: option.splits)

lemma get_active_task_leases_wf:
  "leases_wf (leases db) \<Longrightarrow> get_active_task_leases room task now db = (rs, db') \<Longrightarrow> leases_wf (leases db')"
  by (auto simp: get_active_task_leases_def Let_def intro: expire_wf)

lemma revoke_task_lease_wf:
  "leases_wf (leases db) \<Longrightarrow> revoke_task_lease room i reason now db = (r, db') \<Longrightarrow> leases_wf (leases db')"
  by (auto simp: revoke_task_lease_def Let_def narrows_def intro!: update_where_wf)

lemma release_task_lease_wf:
  "leases_wf (leases db) \<Longrightarrow> release_task_lease room i fence now db = (r, db') \<Longrightarrow> leases_wf (leases db')"
  by (auto simp: release_task_lease_def Let_def narrows_def intro!: update_where_wf)

lemma update_refs_wf:
  "leases_wf (leases db) \<Longrightarrow> update_task_lease_workflow_refs room i b u now db = (r, db')
   \<Longrightarrow> leases_wf (leases db')"
  by (auto simp: update_task_lease_workflow_refs_def Let_def narrows_def intro!: update_where_wf)

end
