(* ===== verification/LeaseRebind.thy ===== *)
theory LeaseRebind
  imports LeaseStore
begin

text \<open>
  Fenced rebinding of task leases: \<^verbatim>\<open>src/api/db/coordination/lease-rebind.ts\<close> and
  \<open>assertSupervisorGrantFenceTx\<close> of \<^verbatim>\<open>src/api/db/auth/supervisor-grants.ts\<close>. Each
  function of the source is one transaction under the advisory lock of its lease, so it is
  one atomic step of the database. The step relation \<open>coord_step\<close> interleaves these
  transactions with the statements of \<open>LeaseStore\<close> and with arbitrary changes of the
  session, grant and bearer tables, which other parts of the system make.
\<close>

section \<open>Authority and failures\<close>

record grant_fence =
  gf_grant :: string
  gf_generation :: int
  gf_token_version :: int

definition assert_supervisor_grant_fence :: "grant_fence \<Rightarrow> int \<Rightarrow> coord_db \<Rightarrow> bool" where
  "assert_supervisor_grant_fence f now db =
     (select_first (\<lambda>g. hg_id g = gf_grant f \<and> hg_generation g = gf_generation f \<and>
        hg_token_version g = gf_token_version f \<and> hg_revoked_at g = None \<and>
        now < hg_expires_at g) (grants db) \<noteq> None)"

datatype rebind_failure =
    LostRace | GrantFenceStale | GrantScope | SessionMismatch | PredecessorLive
  | KindNotRebindable | AttestationMissing | AttestationStale | AttestationMismatch

record rebind_input =
  ri_lease :: string
  ri_epoch :: int
  ri_from :: string
  ri_to :: string
  ri_fence :: grant_fence
  ri_attestation :: string
  ri_attempt :: string
  ri_execution :: string

section \<open>Rebinding\<close>

definition rebind_lease_row :: "rebind_input \<Rightarrow> task_lease \<Rightarrow> bool" where
  "rebind_lease_row inp r \<longleftrightarrow>
     tl_id r = ri_lease inp \<and> tl_status r = Active \<and> tl_epoch r = ri_epoch inp \<and>
     tl_session r = Some (ri_from inp)"

definition pending_attestation :: "string \<Rightarrow> int \<Rightarrow> string \<Rightarrow> attestation \<Rightarrow> bool" where
  "pending_attestation lease epoch from a \<longleftrightarrow>
     at_lease a = lease \<and> at_epoch a = epoch \<and> at_from a = from \<and> at_consumed_at a = None"

text \<open>The checks before the first write, in the order of the source.\<close>

definition rebind_validate ::
  "rebind_input \<Rightarrow> int \<Rightarrow> coord_db \<Rightarrow> rebind_failure + (task_lease \<times> agent_session)" where
  "rebind_validate inp now db =
    bind_result (guard_result (assert_supervisor_grant_fence (ri_fence inp) now db) GrantFenceStale) (\<lambda>_.
    bind_result (require (select_first (rebind_lease_row inp) (leases db)) LostRace) (\<lambda>lease.
    bind_result (guard_result (tl_kind lease = Work) KindNotRebindable) (\<lambda>_.
    bind_result (require (select_first (\<lambda>g. hg_id g = gf_grant (ri_fence inp)) (grants db)) GrantScope) (\<lambda>grant.
    bind_result (guard_result (tl_room lease \<in> set (hg_rooms grant) \<and>
        tl_agent_key lease \<in> set (hg_agent_keys grant)) GrantScope) (\<lambda>_.
    bind_result (require (select_first (\<lambda>x. as_id x = ri_from inp) (sessions db)) SessionMismatch) (\<lambda>old.
    bind_result (require (select_first (\<lambda>x. as_id x = ri_to inp) (sessions db)) SessionMismatch) (\<lambda>new.
    bind_result (guard_result (as_agent_key old = as_agent_key new \<and>
        as_agent_key new = tl_agent_key lease \<and>
        as_room old = tl_room lease \<and> as_room new = tl_room lease) SessionMismatch) (\<lambda>_.
    bind_result (guard_result (as_ended_at new = None \<and> as_worker new \<and> as_worker old \<and>
        as_owner new = hg_owner grant \<and> as_owner old = hg_owner grant \<and>
        as_grant new = Some (hg_id grant) \<and> as_grant old = Some (hg_id grant)) SessionMismatch) (\<lambda>_.
    bind_result (require (as_ended_at old) PredecessorLive) (\<lambda>ended.
    bind_result (guard_result (ended < as_created_at new) SessionMismatch) (\<lambda>_.
    bind_result (require (select_first
        (pending_attestation (ri_lease inp) (ri_epoch inp) (ri_from inp)) (attestations db))
        AttestationMissing) (\<lambda>a.
    bind_result (guard_result (at_grant a = hg_id grant \<and>
        at_generation a \<le> gf_generation (ri_fence inp)) AttestationStale) (\<lambda>_.
    bind_result (guard_result (at_id a = ri_attestation inp \<and> at_attempt a = ri_attempt inp \<and>
        at_execution a = ri_execution inp) AttestationMismatch) (\<lambda>_.
    Inr (lease, new)))))))))))))))"

text \<open>The writes: revoke surviving bearers, consume the attestation, move the lease. Each
  compare-and-set that matches no row aborts the transaction.\<close>

definition revoke_bearers :: "string \<Rightarrow> int \<Rightarrow> session_bearer list \<Rightarrow> session_bearer list" where
  "revoke_bearers s now = update_where (\<lambda>b. sb_session b = s \<and> sb_revoked_at b = None)
     (\<lambda>b. b\<lparr>sb_revoked_at := Some now\<rparr>)"

definition consume_row :: "rebind_input \<Rightarrow> attestation \<Rightarrow> bool" where
  "consume_row inp a \<longleftrightarrow>
     at_id a = ri_attestation inp \<and>
     pending_attestation (ri_lease inp) (ri_epoch inp) (ri_from inp) a"

definition consumed_row :: "int \<Rightarrow> int \<Rightarrow> attestation \<Rightarrow> attestation" where
  "consumed_row now epoch a = a\<lparr>at_consumed_at := Some now, at_consumed_by := Some epoch\<rparr>"

definition moved_lease :: "agent_session \<Rightarrow> int \<Rightarrow> int \<Rightarrow> task_lease \<Rightarrow> task_lease" where
  "moved_lease new epoch now r =
     r\<lparr>tl_session := Some (as_id new), tl_agent_key := as_agent_key new,
       tl_instance := as_instance new, tl_label := as_label new, tl_epoch := epoch,
       tl_updated_at := now, tl_heartbeat_at := Some now\<rparr>"

definition rebind_commit ::
  "rebind_input \<Rightarrow> int \<Rightarrow> task_lease \<Rightarrow> agent_session \<Rightarrow> coord_db
   \<Rightarrow> rebind_failure + task_lease \<times> coord_db" where
  "rebind_commit inp now lease new db =
    (let epoch = tl_epoch lease + 1;
         db1 = db\<lparr>bearers := revoke_bearers (ri_from inp) now (bearers db)\<rparr>
     in bind_result (require (returning_first (consume_row inp) (consumed_row now epoch)
          (attestations db1)) AttestationMissing) (\<lambda>_.
        let db2 = db1\<lparr>attestations := update_where (consume_row inp) (consumed_row now epoch)
                         (attestations db1)\<rparr>
        in bind_result (require (returning_first (rebind_lease_row inp) (moved_lease new epoch now)
             (leases db2)) LostRace) (\<lambda>updated.
           Inr (updated, db2\<lparr>leases := update_where (rebind_lease_row inp)
                                (moved_lease new epoch now) (leases db2)\<rparr>))))"

definition rebind_task_lease ::
  "rebind_input \<Rightarrow> int \<Rightarrow> coord_db \<Rightarrow> (rebind_failure + task_lease) \<times> coord_db" where
  "rebind_task_lease inp now =
     transaction (\<lambda>db. bind_result (rebind_validate inp now db)
       (\<lambda>(lease, new). rebind_commit inp now lease new db))"

section \<open>The fence of lease-guarded writes\<close>

record lease_fence =
  lf_lease :: string
  lf_room :: string
  lf_task :: string
  lf_kind :: lease_kind
  lf_epoch :: int
  lf_session :: string

definition fence_row :: "lease_fence \<Rightarrow> task_lease \<Rightarrow> bool" where
  "fence_row f r \<longleftrightarrow>
     tl_id r = lf_lease f \<and> tl_room r = lf_room f \<and> tl_task r = lf_task f \<and>
     tl_kind r = lf_kind f \<and> tl_status r = Active \<and> tl_epoch r = lf_epoch f \<and>
     tl_session r = Some (lf_session f)"

definition acquire_lease_fence :: "lease_fence \<Rightarrow> coord_db \<Rightarrow> task_lease option" where
  "acquire_lease_fence f db = select_first (fence_row f) (leases db)"

definition assert_lease_epoch_current :: "string \<Rightarrow> int \<Rightarrow> string \<Rightarrow> coord_db \<Rightarrow> bool" where
  "assert_lease_epoch_current lease epoch session db =
     (select_first (\<lambda>r. tl_id r = lease \<and> tl_status r = Active \<and> tl_epoch r = epoch \<and>
        tl_session r = Some session) (leases db) \<noteq> None)"

section \<open>Recording terminal attestations\<close>

datatype attest_failure =
    InvalidCause | InvalidExecutionIdentity | AttestGrantFenceStale | LeaseNotFound
  | AttestGrantScope | LeaseMismatch | AttestSessionMismatch | AttestPredecessorLive
  | EvidenceConflict | UniqueViolation

record attest_input =
  ai_lease :: string
  ai_epoch :: int
  ai_from :: string
  ai_fence :: grant_fence
  ai_attempt :: string
  ai_execution :: string
  ai_cause :: string

definition is_rebind_attestation_cause :: "string \<Rightarrow> bool" where
  "is_rebind_attestation_cause c \<longleftrightarrow>
     c \<in> {''exited'', ''killed'', ''stopped'', ''crashed'', ''protocol_error''}"

definition hex_char :: "char \<Rightarrow> bool" where
  "hex_char c \<longleftrightarrow> c \<in> set ''0123456789abcdefABCDEF''"

text \<open>The pattern \<open>UUID_SHAPE\<close>: hexadecimal groups of 8, 4, 4, 4 and 12 digits.\<close>

fun uuid_groups :: "nat list \<Rightarrow> string \<Rightarrow> bool" where
  "uuid_groups [] s \<longleftrightarrow> s = []"
| "uuid_groups [n] s \<longleftrightarrow> length s = n \<and> list_all hex_char s"
| "uuid_groups (n # ns) s \<longleftrightarrow>
     n < length s \<and> list_all hex_char (take n s) \<and> s ! n = CHR ''-'' \<and> uuid_groups ns (drop (Suc n) s)"

definition is_uuid_shaped_execution_id :: "string \<Rightarrow> bool" where
  "is_uuid_shaped_execution_id s = uuid_groups [8, 4, 4, 4, 12] s"

text \<open>Authority and lease checks of \<open>recordRebindAttestation\<close>; the result is the grant and
  the lease.\<close>

definition attest_validate ::
  "attest_input \<Rightarrow> int \<Rightarrow> coord_db \<Rightarrow> attest_failure + (host_grant \<times> task_lease)" where
  "attest_validate inp now db =
    bind_result (guard_result (is_rebind_attestation_cause (ai_cause inp)) InvalidCause) (\<lambda>_.
    bind_result (guard_result (is_uuid_shaped_execution_id (ai_attempt inp) \<and>
        is_uuid_shaped_execution_id (ai_execution inp)) InvalidExecutionIdentity) (\<lambda>_.
    bind_result (guard_result (0 \<le> ai_epoch inp) LeaseMismatch) (\<lambda>_.
    bind_result (guard_result (assert_supervisor_grant_fence (ai_fence inp) now db)
        AttestGrantFenceStale) (\<lambda>_.
    bind_result (require (select_first (\<lambda>g. hg_id g = gf_grant (ai_fence inp)) (grants db))
        AttestGrantFenceStale) (\<lambda>grant.
    bind_result (require (select_first (\<lambda>r. tl_id r = ai_lease inp) (leases db)) LeaseNotFound) (\<lambda>lease.
    bind_result (guard_result (tl_room lease \<in> set (hg_rooms grant) \<and>
        tl_agent_key lease \<in> set (hg_agent_keys grant)) AttestGrantScope) (\<lambda>_.
    bind_result (guard_result (tl_status lease = Active \<and> tl_kind lease = Work \<and>
        tl_epoch lease = ai_epoch inp \<and> tl_session lease = Some (ai_from inp)) LeaseMismatch) (\<lambda>_.
    bind_result (require (select_first (\<lambda>x. as_id x = ai_from inp) (sessions db))
        AttestSessionMismatch) (\<lambda>old.
    bind_result (guard_result (as_room old = tl_room lease \<and> as_agent_key old = tl_agent_key lease \<and>
        as_worker old \<and> as_owner old = hg_owner grant \<and> as_grant old = Some (hg_id grant))
        AttestSessionMismatch) (\<lambda>_.
    bind_result (guard_result (as_ended_at old \<noteq> None) AttestPredecessorLive) (\<lambda>_.
    Inr (grant, lease))))))))))))"

definition attestation_row :: "string \<Rightarrow> attest_input \<Rightarrow> int \<Rightarrow> host_grant \<Rightarrow> task_lease \<Rightarrow> attestation" where
  "attestation_row new_id inp now grant lease =
     \<lparr>at_id = new_id, at_room = tl_room lease, at_lease = ai_lease inp, at_epoch = ai_epoch inp,
      at_from = ai_from inp, at_grant = hg_id grant, at_generation = gf_generation (ai_fence inp),
      at_attempt = ai_attempt inp, at_execution = ai_execution inp, at_cause = ai_cause inp,
      at_attested_at = now, at_consumed_at = None, at_consumed_by = None\<rparr>"

definition identical_evidence :: "attest_input \<Rightarrow> host_grant \<Rightarrow> attestation \<Rightarrow> bool" where
  "identical_evidence inp grant a \<longleftrightarrow>
     at_grant a = hg_id grant \<and> at_generation a \<le> gf_generation (ai_fence inp) \<and>
     at_attempt a = ai_attempt inp \<and> at_execution a = ai_execution inp \<and> at_cause a = ai_cause inp"

text \<open>\<open>INSERT ... ON CONFLICT DO NOTHING\<close> on the partial unique index of pending rows, then
  the comparison with the pending row. A clash of the random primary key is a database error.\<close>

definition record_rebind_attestation ::
  "string \<Rightarrow> attest_input \<Rightarrow> int \<Rightarrow> coord_db \<Rightarrow> (attest_failure + attestation \<times> bool) \<times> coord_db" where
  "record_rebind_attestation new_id inp now =
    transaction (\<lambda>db.
      bind_result (attest_validate inp now db) (\<lambda>(grant, lease).
      case select_first (pending_attestation (ai_lease inp) (ai_epoch inp) (ai_from inp))
             (attestations db) of
        None \<Rightarrow>
          (let row = attestation_row new_id inp now grant lease
           in if new_id \<in> at_id ` set (attestations db) then Inl UniqueViolation
              else Inr ((row, True), db\<lparr>attestations := attestations db @ [row]\<rparr>))
      | Some a \<Rightarrow>
          if identical_evidence inp grant a then Inr ((a, False), db) else Inl EvidenceConflict))"

end
