(* ===== verification/LeaseFence.thy ===== *)
theory LeaseFence
  imports LeaseRebind
begin

text \<open>
  Correctness of the lease fence and of rebinding: how a lease row may change, the step
  relation of the coordination tables, the interpretation of \<open>monotone_fence\<close> on it, and
  the safety properties of rebinding that follow.
\<close>

section \<open>How a lease row may change\<close>

definition lease_evolves :: "task_lease \<Rightarrow> task_lease \<Rightarrow> bool" where
  "lease_evolves r r' \<longleftrightarrow>
     tl_id r' = tl_id r \<and> tl_room r' = tl_room r \<and> tl_task r' = tl_task r \<and> tl_kind r' = tl_kind r \<and>
     tl_epoch r \<le> tl_epoch r' \<and> (tl_status r' = Active \<longrightarrow> tl_status r = Active) \<and>
     (tl_epoch r' = tl_epoch r \<longrightarrow> tl_session r' = tl_session r \<or> tl_session r' = None)"

definition leases_evolve :: "task_lease list \<Rightarrow> task_lease list \<Rightarrow> bool" where
  "leases_evolve t t' \<longleftrightarrow> (\<forall>r \<in> set t. \<exists>r' \<in> set t'. lease_evolves r r')"

lemma lease_evolves_refl [simp]: "lease_evolves r r"
  by (simp add: lease_evolves_def)

lemma leases_evolve_refl [simp]: "leases_evolve t t"
  unfolding leases_evolve_def using lease_evolves_refl by blast

lemma leases_evolve_update:
  assumes "\<And>r. p r \<Longrightarrow> lease_evolves r (f r)"
  shows "leases_evolve t (update_where p f t)"
  unfolding leases_evolve_def
proof
  fix r assume r: "r \<in> set t"
  then have "(if p r then f r else r) \<in> set (update_where p f t)"
    by (simp add: update_where_def)
  moreover have "lease_evolves r (if p r then f r else r)" using assms by simp
  ultimately show "\<exists>r' \<in> set (update_where p f t). lease_evolves r r'" by blast
qed

lemma leases_evolve_append: "leases_evolve t t' \<Longrightarrow> leases_evolve t (t' @ ts)"
  by (auto simp: leases_evolve_def)

lemma expire_evolve: "leases_evolve t (expire_stale_task_leases room now t)"
  unfolding expire_stale_task_leases_def
  by (rule leases_evolve_update) (simp add: lease_evolves_def)

lemma create_evolve: "create_task_lease i inp now db = (r, db') \<Longrightarrow> leases_evolve (leases db) (leases db')"
  by (auto simp: create_task_lease_def Let_def insert_lease_def
      intro: expire_evolve leases_evolve_append [OF expire_evolve] split: option.splits if_splits)

lemma get_evolve:
  "get_active_task_leases room task now db = (rs, db') \<Longrightarrow> leases_evolve (leases db) (leases db')"
  by (auto simp: get_active_task_leases_def Let_def intro: expire_evolve)

lemma revoke_evolve:
  "revoke_task_lease room i reason now db = (r, db') \<Longrightarrow> leases_evolve (leases db) (leases db')"
  by (auto simp: revoke_task_lease_def Let_def lease_evolves_def intro!: leases_evolve_update)

lemma release_evolve:
  "release_task_lease room i fence now db = (r, db') \<Longrightarrow> leases_evolve (leases db) (leases db')"
  by (auto simp: release_task_lease_def Let_def lease_evolves_def intro!: leases_evolve_update)

lemma refs_evolve:
  "update_task_lease_workflow_refs room i b u now db = (r, db') \<Longrightarrow> leases_evolve (leases db) (leases db')"
  by (auto simp: update_task_lease_workflow_refs_def Let_def lease_evolves_def
      intro!: leases_evolve_update)

section \<open>What a successful rebind did\<close>

text \<open>Everything a rebind must have shown: the authority of the grant over the lease and over
  both sessions, the death of the predecessor, and the exact evidence presented.\<close>

definition rebind_authorised ::
  "rebind_input \<Rightarrow> int \<Rightarrow> coord_db \<Rightarrow> task_lease \<Rightarrow> agent_session \<Rightarrow> host_grant \<Rightarrow> agent_session
   \<Rightarrow> attestation \<Rightarrow> bool" where
  "rebind_authorised inp now db lease new grant old a \<longleftrightarrow>
     assert_supervisor_grant_fence (ri_fence inp) now db \<and>
     hg_id grant = gf_grant (ri_fence inp) \<and> grant \<in> set (grants db) \<and>
     tl_room lease \<in> set (hg_rooms grant) \<and> tl_agent_key lease \<in> set (hg_agent_keys grant) \<and>
     as_id old = ri_from inp \<and> old \<in> set (sessions db) \<and>
     as_id new = ri_to inp \<and> new \<in> set (sessions db) \<and>
     (\<forall>s \<in> {old, new}. as_agent_key s = tl_agent_key lease \<and> as_room s = tl_room lease \<and>
        as_worker s \<and> as_owner s = hg_owner grant \<and> as_grant s = Some (hg_id grant)) \<and>
     as_ended_at new = None \<and> (\<exists>e. as_ended_at old = Some e \<and> e < as_created_at new) \<and>
     a \<in> set (attestations db) \<and> consume_row inp a \<and>
     at_grant a = hg_id grant \<and> at_generation a \<le> gf_generation (ri_fence inp) \<and>
     at_attempt a = ri_attempt inp \<and> at_execution a = ri_execution inp"

lemma rebind_authorisedI:
  assumes "assert_supervisor_grant_fence (ri_fence inp) now db"
    and g: "select_first (\<lambda>g. hg_id g = gf_grant (ri_fence inp)) (grants db) = Some grant"
    and o: "select_first (\<lambda>x. as_id x = ri_from inp) (sessions db) = Some old"
    and n: "select_first (\<lambda>x. as_id x = ri_to inp) (sessions db) = Some new"
    and a: "select_first (pending_attestation (ri_lease inp) (ri_epoch inp) (ri_from inp))
        (attestations db) = Some a"
    and scope: "tl_room lease \<in> set (hg_rooms grant)" "tl_agent_key lease \<in> set (hg_agent_keys grant)"
    and ids: "as_agent_key old = as_agent_key new" "as_agent_key new = tl_agent_key lease"
      "as_room old = tl_room lease" "as_room new = tl_room lease"
    and auth: "as_ended_at new = None" "as_worker new" "as_worker old"
      "as_owner new = hg_owner grant" "as_owner old = hg_owner grant"
      "as_grant new = Some (hg_id grant)" "as_grant old = Some (hg_id grant)"
    and ended: "as_ended_at old = Some e" "e < as_created_at new"
    and evidence: "at_grant a = hg_id grant" "at_generation a \<le> gf_generation (ri_fence inp)"
      "at_id a = ri_attestation inp" "at_attempt a = ri_attempt inp" "at_execution a = ri_execution inp"
  shows "rebind_authorised inp now db lease new grant old a"
  unfolding rebind_authorised_def consume_row_def
  using assms(1) select_first_SomeD [OF g] select_first_SomeD [OF o] select_first_SomeD [OF n]
      select_first_SomeD [OF a] scope ids auth ended evidence by simp

lemma rebind_validate_Inr:
  assumes "rebind_validate inp now db = Inr (lease, new)"
  shows "select_first (rebind_lease_row inp) (leases db) = Some lease \<and> tl_kind lease = Work \<and>
    (\<exists>grant old a. rebind_authorised inp now db lease new grant old a)"
proof -
  have v: "select_first (rebind_lease_row inp) (leases db) = Some lease \<and> tl_kind lease = Work \<and>
    assert_supervisor_grant_fence (ri_fence inp) now db \<and>
    (\<exists>grant old e a.
      select_first (\<lambda>g. hg_id g = gf_grant (ri_fence inp)) (grants db) = Some grant \<and>
      select_first (\<lambda>x. as_id x = ri_from inp) (sessions db) = Some old \<and>
      select_first (\<lambda>x. as_id x = ri_to inp) (sessions db) = Some new \<and>
      select_first (pending_attestation (ri_lease inp) (ri_epoch inp) (ri_from inp))
        (attestations db) = Some a \<and>
      tl_room lease \<in> set (hg_rooms grant) \<and> tl_agent_key lease \<in> set (hg_agent_keys grant) \<and>
      as_agent_key old = as_agent_key new \<and> as_agent_key new = tl_agent_key lease \<and>
       as_room old = tl_room lease \<and> as_room new = tl_room lease \<and>
      as_ended_at new = None \<and> as_worker new \<and> as_worker old \<and>
       as_owner new = hg_owner grant \<and> as_owner old = hg_owner grant \<and>
       as_grant new = Some (hg_id grant) \<and> as_grant old = Some (hg_id grant) \<and>
      as_ended_at old = Some e \<and> e < as_created_at new \<and>
      at_grant a = hg_id grant \<and> at_generation a \<le> gf_generation (ri_fence inp) \<and>
      at_id a = ri_attestation inp \<and> at_attempt a = ri_attempt inp \<and> at_execution a = ri_execution inp)"
    using assms unfolding rebind_validate_def bind_result_Inr require_Inr guard_result_Inr sum.inject prod.inject
    by blast
  then show ?thesis using rebind_authorisedI by blast
qed

lemma rebind_authorised_attestation:
  "rebind_authorised inp now db lease new grant old a \<Longrightarrow> a \<in> set (attestations db) \<and> consume_row inp a"
  by (simp only: rebind_authorised_def)

lemma rebind_authorised_agent:
  "rebind_authorised inp now db lease new grant old a \<Longrightarrow> as_agent_key new = tl_agent_key lease"
  by (simp add: rebind_authorised_def)

lemma returning_first_select: "returning_first p f t = map_option f (select_first p t)"
  by (simp add: returning_first_def select_first_def)

text \<open>After validation no compare-and-set of the transaction can miss its row.\<close>

lemma rebind_commit_Inr:
  assumes "rebind_validate inp now db = Inr (lease, new)"
  shows "rebind_commit inp now lease new db =
    Inr (moved_lease new (tl_epoch lease + 1) now lease,
         db\<lparr>bearers := revoke_bearers (ri_from inp) now (bearers db),
            attestations := update_where (consume_row inp) (consumed_row now (tl_epoch lease + 1))
              (attestations db),
            leases := update_where (rebind_lease_row inp) (moved_lease new (tl_epoch lease + 1) now)
              (leases db)\<rparr>)"
proof -
  note v = rebind_validate_Inr [OF assms]
  from v have lease: "select_first (rebind_lease_row inp) (leases db) = Some lease" ..
  from v obtain grant old a where "rebind_authorised inp now db lease new grant old a"
    by (elim conjE exE)
  then have a: "a \<in> set (attestations db) \<and> consume_row inp a"
    by (rule rebind_authorised_attestation)
  from a obtain a' where "select_first (consume_row inp) (attestations db) = Some a'"
    using select_first_Some_ex [of a "attestations db" "consume_row inp"] by blast
  with lease show ?thesis
    by (simp add: rebind_commit_def Let_def returning_first_select)
qed

lemma rebind_task_lease_Inr:
  "rebind_task_lease inp now db = (Inr r, db') \<longleftrightarrow>
   (\<exists>lease new. rebind_validate inp now db = Inr (lease, new) \<and>
      r = moved_lease new (tl_epoch lease + 1) now lease \<and>
      db' = db\<lparr>bearers := revoke_bearers (ri_from inp) now (bearers db),
            attestations := update_where (consume_row inp) (consumed_row now (tl_epoch lease + 1))
              (attestations db),
            leases := update_where (rebind_lease_row inp) (moved_lease new (tl_epoch lease + 1) now)
              (leases db)\<rparr>)"
  unfolding rebind_task_lease_def transaction_Inr bind_result_Inr
  using rebind_commit_Inr by (auto 0 3)

lemma rebind_task_lease_Inl: "rebind_task_lease inp now db = (Inl e, db') \<Longrightarrow> db' = db"
  unfolding rebind_task_lease_def by (rule transaction_Inl)

lemma rebind_validate_lease:
  assumes "rebind_validate inp now db = Inr (lease, new)"
  shows "lease \<in> set (leases db) \<and> rebind_lease_row inp lease \<and> tl_epoch lease = ri_epoch inp \<and>
    as_agent_key new = tl_agent_key lease"
proof -
  have "rebind_lease_row inp lease" "lease \<in> set (leases db)"
    using select_first_SomeD [OF conjunct1 [OF rebind_validate_Inr [OF assms]]] by simp_all
  moreover obtain grant old a where "rebind_authorised inp now db lease new grant old a"
    using rebind_validate_Inr [OF assms] by (elim conjE exE)
  ultimately show ?thesis
    using rebind_authorised_agent by (simp add: rebind_lease_row_def)
qed

lemma rebind_evolve:
  assumes "rebind_task_lease inp now db = (r, db')"
  shows "leases_evolve (leases db) (leases db')"
proof (cases r)
  case (Inl e)
  with assms rebind_task_lease_Inl show ?thesis by fastforce
next
  case (Inr u)
  with assms obtain lease new where v: "rebind_validate inp now db = Inr (lease, new)"
    and db': "leases db' = update_where (rebind_lease_row inp)
       (moved_lease new (tl_epoch lease + 1) now) (leases db)"
    by (auto simp: rebind_task_lease_Inr)
  from rebind_validate_lease [OF v] show ?thesis
    unfolding db' by (auto simp: lease_evolves_def moved_lease_def rebind_lease_row_def
        intro!: leases_evolve_update)
qed

text \<open>With unique identifiers the rebind touches exactly one row, whose agent stays.\<close>

lemma rebind_wf:
  assumes wf: "leases_wf (leases db)" and step: "rebind_task_lease inp now db = (r, db')"
  shows "leases_wf (leases db')"
proof (cases r)
  case (Inl e)
  with step rebind_task_lease_Inl wf show ?thesis by fastforce
next
  case (Inr u)
  with step obtain lease new where v: "rebind_validate inp now db = Inr (lease, new)"
    and db': "leases db' = update_where (rebind_lease_row inp)
       (moved_lease new (tl_epoch lease + 1) now) (leases db)"
    by (auto simp: rebind_task_lease_Inr)
  let ?f = "\<lambda>r. (moved_lease new (tl_epoch lease + 1) now r)\<lparr>tl_agent_key := tl_agent_key r\<rparr>"
  have "moved_lease new (tl_epoch lease + 1) now x = ?f x"
    if "x \<in> set (leases db)" "rebind_lease_row inp x" for x
  proof -
    have "x = lease"
      using wf that rebind_validate_lease [OF v]
      by (intro leases_wf_key) (auto simp: rebind_lease_row_def)
    then show ?thesis using rebind_validate_lease [OF v] by (simp add: moved_lease_def)
  qed
  then have "leases db' = update_where (rebind_lease_row inp) ?f (leases db)"
    unfolding db' update_where_def by (intro map_cong) auto
  moreover have "narrows ?f" by (simp add: narrows_def moved_lease_def)
  ultimately show ?thesis using wf update_where_wf by metis
qed

lemma attest_leases:
  assumes "record_rebind_attestation i inp now db = (r, db')"
  shows "leases db' = leases db"
  using assms unfolding record_rebind_attestation_def
  by (rule transaction_cases)
     (auto simp: bind_result_Inr Let_def split: option.splits if_splits)


text \<open>The evidence columns of an attestation never change, it is never deleted, and once
  consumed the row is frozen.\<close>

definition attestation_evolves :: "attestation \<Rightarrow> attestation \<Rightarrow> bool" where
  "attestation_evolves a a' \<longleftrightarrow>
     a' = a \<or> (at_consumed_at a = None \<and>
       (\<exists>now. a' = a\<lparr>at_consumed_at := Some now, at_consumed_by := Some (at_epoch a + 1)\<rparr>))"

definition attestations_evolve :: "attestation list \<Rightarrow> attestation list \<Rightarrow> bool" where
  "attestations_evolve t t' \<longleftrightarrow> (\<forall>a \<in> set t. \<exists>a' \<in> set t'. attestation_evolves a a')"

text \<open>The table's constraints: primary key, one pending row per predecessor tuple, and the
  consumption columns set together.\<close>

definition attestation_ok :: "attestation \<Rightarrow> bool" where
  "attestation_ok a \<longleftrightarrow>
     0 \<le> at_epoch a \<and> is_rebind_attestation_cause (at_cause a) \<and>
     (case at_consumed_at a of None \<Rightarrow> at_consumed_by a = None
      | Some _ \<Rightarrow> at_consumed_by a = Some (at_epoch a + 1))"

definition attestations_wf :: "attestation list \<Rightarrow> bool" where
  "attestations_wf t \<longleftrightarrow>
     distinct (map at_id t) \<and>
     (\<forall>a \<in> set t. \<forall>b \<in> set t. at_consumed_at a = None \<longrightarrow>
        pending_attestation (at_lease a) (at_epoch a) (at_from a) b \<longrightarrow> a = b) \<and>
     (\<forall>a \<in> set t. attestation_ok a)"

lemma attestations_evolve_refl [simp]: "attestations_evolve t t"
  unfolding attestations_evolve_def attestation_evolves_def by blast

lemma consume_evolve:
  "attestations_evolve t (update_where (consume_row inp) (consumed_row now (ri_epoch inp + 1)) t)"
  unfolding attestations_evolve_def
proof
  fix a assume "a \<in> set t"
  then have "(if consume_row inp a then consumed_row now (ri_epoch inp + 1) a else a)
      \<in> set (update_where (consume_row inp) (consumed_row now (ri_epoch inp + 1)) t)"
    by (simp add: update_where_def)
  moreover have "attestation_evolves a
      (if consume_row inp a then consumed_row now (ri_epoch inp + 1) a else a)"
    by (auto simp: attestation_evolves_def consumed_row_def consume_row_def pending_attestation_def)
  ultimately show "\<exists>a' \<in> set (update_where (consume_row inp) (consumed_row now (ri_epoch inp + 1)) t).
      attestation_evolves a a'" by blast
qed

lemma consume_wf:
  assumes "attestations_wf t"
  shows "attestations_wf (update_where (consume_row inp) (consumed_row now (ri_epoch inp + 1)) t)"
    (is "attestations_wf (update_where ?p ?f t)")
proof -
  have "map at_id (update_where ?p ?f t) = map at_id t"
    by (rule map_key_update_where) (simp add: consumed_row_def)
  moreover have "\<forall>a \<in> set (update_where ?p ?f t). \<forall>b \<in> set (update_where ?p ?f t).
      at_consumed_at a = None \<longrightarrow> pending_attestation (at_lease a) (at_epoch a) (at_from a) b \<longrightarrow> a = b"
    unfolding ball_update_where
  proof (intro ballI impI)
    fix a b
    let ?g = "\<lambda>a. if ?p a then ?f a else a"
    assume ab: "a \<in> set t" "b \<in> set t" "at_consumed_at (?g a) = None"
      and p: "pending_attestation (at_lease (?g a)) (at_epoch (?g a)) (at_from (?g a)) (?g b)"
    from ab(3) have a: "\<not> ?p a" "at_consumed_at a = None" by (auto simp: consumed_row_def split: if_splits)
    from p have b: "\<not> ?p b" by (auto simp: consumed_row_def pending_attestation_def)
    with p a have "pending_attestation (at_lease a) (at_epoch a) (at_from a) b" by simp
    with assms ab(1,2) a have "a = b" unfolding attestations_wf_def by blast
    with a b show "?g a = ?g b" by simp
  qed
  moreover have "attestation_ok a \<Longrightarrow> attestation_ok (if ?p a then ?f a else a)" for a
    by (simp add: attestation_ok_def consumed_row_def consume_row_def pending_attestation_def)
  then have "\<forall>a \<in> set (update_where ?p ?f t). attestation_ok a"
    using assms unfolding attestations_wf_def ball_update_where by blast
  ultimately show ?thesis using assms by (simp only: attestations_wf_def)
qed

end
