(* ===== verification/LeaseSafety.thy ===== *)
theory LeaseSafety
  imports LeaseFence
begin

text \<open>
  The step relation of the coordination tables, its invariants, the interpretation of the
  fence interface on it, and the safety properties of rebinding: an advanced epoch is lost for
  ever, an epoch has one winner, and death evidence is immutable and used once.
\<close>

section \<open>Recording evidence\<close>

lemma attest_validate_facts:
  assumes "attest_validate inp now db = Inr (grant, lease)"
  shows "is_rebind_attestation_cause (ai_cause inp) \<and> 0 \<le> ai_epoch inp \<and>
    hg_id grant = gf_grant (ai_fence inp) \<and>
    lease \<in> set (leases db) \<and> tl_id lease = ai_lease inp \<and> tl_status lease = Active \<and>
    tl_kind lease = Work \<and> tl_epoch lease = ai_epoch inp \<and> tl_session lease = Some (ai_from inp)"
proof -
  have v: "is_rebind_attestation_cause (ai_cause inp) \<and> 0 \<le> ai_epoch inp \<and>
    select_first (\<lambda>g. hg_id g = gf_grant (ai_fence inp)) (grants db) = Some grant \<and>
    select_first (\<lambda>r. tl_id r = ai_lease inp) (leases db) = Some lease \<and>
    tl_status lease = Active \<and> tl_kind lease = Work \<and> tl_epoch lease = ai_epoch inp \<and>
    tl_session lease = Some (ai_from inp)"
    using assms
    unfolding attest_validate_def bind_result_Inr require_Inr guard_result_Inr sum.inject prod.inject
    by blast
  then show ?thesis
    using select_first_SomeD [of "\<lambda>g. hg_id g = gf_grant (ai_fence inp)" "grants db" grant]
      select_first_SomeD [of "\<lambda>r. tl_id r = ai_lease inp" "leases db" lease] by simp
qed

lemma record_attestation_cases:
  assumes "record_rebind_attestation i inp now db = (r, db')"
  obtains (failed) e where "r = Inl e" "db' = db"
    | (created) grant lease where "attest_validate inp now db = Inr (grant, lease)"
        "select_first (pending_attestation (ai_lease inp) (ai_epoch inp) (ai_from inp))
          (attestations db) = None"
        "i \<notin> at_id ` set (attestations db)"
        "r = Inr (attestation_row i inp now grant lease, True)"
        "db' = db\<lparr>attestations := attestations db @ [attestation_row i inp now grant lease]\<rparr>"
    | (retried) grant lease a where "attest_validate inp now db = Inr (grant, lease)"
        "select_first (pending_attestation (ai_lease inp) (ai_epoch inp) (ai_from inp))
          (attestations db) = Some a"
        "identical_evidence inp grant a" "r = Inr (a, False)" "db' = db"
  using assms unfolding record_rebind_attestation_def
proof (rule transaction_cases)
  fix u assume u: "r = Inr u" and *: "bind_result (attest_validate inp now db) (\<lambda>(grant, lease).
      case select_first (pending_attestation (ai_lease inp) (ai_epoch inp) (ai_from inp))
             (attestations db) of
        None \<Rightarrow>
          (let row = attestation_row i inp now grant lease
           in if i \<in> at_id ` set (attestations db) then Inl UniqueViolation
              else Inr ((row, True), db\<lparr>attestations := attestations db @ [row]\<rparr>))
      | Some a \<Rightarrow>
          if identical_evidence inp grant a then Inr ((a, False), db) else Inl EvidenceConflict)
      = Inr (u, db')"
  from * obtain grant lease where v: "attest_validate inp now db = Inr (grant, lease)"
    unfolding bind_result_Inr by (elim exE conjE) (metis surj_pair)
  show thesis
  proof (cases "select_first (pending_attestation (ai_lease inp) (ai_epoch inp) (ai_from inp))
             (attestations db)")
    case None
    with * v u show thesis by (intro created) (auto simp: Let_def split: if_splits)
  next
    case (Some a)
    with * v u show thesis by (intro retried) (auto split: if_splits)
  qed
qed (rule failed)

lemma attest_evolve:
  assumes "record_rebind_attestation i inp now db = (r, db')"
  shows "attestations_evolve (attestations db) (attestations db')"
  using assms
proof (cases rule: record_attestation_cases)
  case (created grant lease)
  then show ?thesis by (auto simp: attestations_evolve_def attestation_evolves_def)
qed simp_all

lemma attest_wf:
  assumes "record_rebind_attestation i inp now db = (r, db')" "attestations_wf (attestations db)"
  shows "attestations_wf (attestations db')"
  using assms(1)
proof (cases rule: record_attestation_cases)
  case (created grant lease)
  let ?row = "attestation_row i inp now grant lease"
  have ok: "attestation_ok ?row"
    using attest_validate_facts [OF created(1)] by (simp add: attestation_ok_def attestation_row_def)
  have new: "\<not> pending_attestation (ai_lease inp) (ai_epoch inp) (ai_from inp) a"
    if "a \<in> set (attestations db)" for a
    using created(2) that by (simp add: select_first_None)
  have old: "distinct (map at_id (attestations db))" "\<forall>a \<in> set (attestations db). attestation_ok a"
    using assms(2) unfolding attestations_wf_def by blast+
  have distinct: "distinct (map at_id (attestations db'))"
    using old(1) created(3) by (simp add: created(5) attestation_row_def)
  have rows: "\<forall>a \<in> set (attestations db'). attestation_ok a"
    using old(2) ok by (simp add: created(5))
  have "a = b" if "a \<in> set (attestations db')" "b \<in> set (attestations db')"
    "at_consumed_at a = None" "pending_attestation (at_lease a) (at_epoch a) (at_from a) b" for a b
  proof -
    have row: "pending_attestation l e f ?row \<longleftrightarrow>
        l = ai_lease inp \<and> e = ai_epoch inp \<and> f = ai_from inp" for l e f
      by (auto simp: pending_attestation_def attestation_row_def)
    have self: "pending_attestation (at_lease a) (at_epoch a) (at_from a) a"
      using that(3) by (simp add: pending_attestation_def)
    have "a \<in> set (attestations db) \<or> a = ?row" "b \<in> set (attestations db) \<or> b = ?row"
      using that(1,2) by (auto simp: created(5))
    moreover have "a \<noteq> ?row" if "b \<in> set (attestations db)"
      using new [OF that] \<open>pending_attestation (at_lease a) (at_epoch a) (at_from a) b\<close>
      by (auto simp: attestation_row_def)
    moreover have "b \<noteq> ?row" if "a \<in> set (attestations db)"
      using new [OF that] self \<open>pending_attestation (at_lease a) (at_epoch a) (at_from a) b\<close> row
      by metis
    moreover have "a = b" if "a \<in> set (attestations db)" "b \<in> set (attestations db)"
      using assms(2) that \<open>at_consumed_at a = None\<close>
        \<open>pending_attestation (at_lease a) (at_epoch a) (at_from a) b\<close>
      unfolding attestations_wf_def by blast
    ultimately show ?thesis by blast
  qed
  with distinct rows show ?thesis unfolding attestations_wf_def by blast
qed (use assms in simp_all)

section \<open>The step relation\<close>

text \<open>
  The transactions of \<open>LeaseStore\<close> and \<open>LeaseRebind\<close>, the deletion of an agent session (its
  foreign key in \<open>task_leases\<close> is \<open>ON DELETE SET NULL\<close>), and any change of the session,
  grant and bearer tables.
\<close>

inductive coord_step :: "coord_db \<Rightarrow> coord_db \<Rightarrow> bool" where
  create: "create_task_lease i inp now db = (r, db') \<Longrightarrow> coord_step db db'"
| read: "get_active_task_leases room task now db = (rs, db') \<Longrightarrow> coord_step db db'"
| revoke: "revoke_task_lease room i reason now db = (r, db') \<Longrightarrow> coord_step db db'"
| release: "release_task_lease room i fence now db = (r, db') \<Longrightarrow> coord_step db db'"
| refs: "update_task_lease_workflow_refs room i b u now db = (r, db') \<Longrightarrow> coord_step db db'"
| rebind: "rebind_task_lease rinp now db = (rr, db') \<Longrightarrow> coord_step db db'"
| attest: "record_rebind_attestation i ainp now db = (ar, db') \<Longrightarrow> coord_step db db'"
| session_deleted: "db' = db\<lparr>sessions := filter (\<lambda>x. as_id x \<noteq> sid) (sessions db),
    leases := update_where (\<lambda>r. tl_session r = Some sid) (\<lambda>r. r\<lparr>tl_session := None\<rparr>) (leases db)\<rparr>
    \<Longrightarrow> coord_step db db'"
| environment: "leases db' = leases db \<Longrightarrow> attestations db' = attestations db \<Longrightarrow> coord_step db db'"

lemma session_deleted_evolve:
  "leases_evolve t (update_where (\<lambda>r. tl_session r = Some sid) (\<lambda>r. r\<lparr>tl_session := None\<rparr>) t)"
  by (rule leases_evolve_update) (simp add: lease_evolves_def)

lemma session_deleted_wf:
  "leases_wf t \<Longrightarrow> leases_wf (update_where (\<lambda>r. tl_session r = Some sid) (\<lambda>r. r\<lparr>tl_session := None\<rparr>) t)"
  by (rule update_where_wf) (simp_all add: narrows_def)

lemma coord_step_evolve: "coord_step db db' \<Longrightarrow> leases_evolve (leases db) (leases db')"
  by (cases rule: coord_step.cases)
    (auto simp: attest_leases intro: create_evolve get_evolve revoke_evolve release_evolve refs_evolve
      rebind_evolve session_deleted_evolve)

lemma coord_step_wf: "coord_step db db' \<Longrightarrow> leases_wf (leases db) \<Longrightarrow> leases_wf (leases db')"
  by (cases rule: coord_step.cases)
    (auto simp: attest_leases intro: create_task_lease_wf get_active_task_leases_wf revoke_task_lease_wf
      release_task_lease_wf update_refs_wf rebind_wf session_deleted_wf)

lemma other_attestations:
  "create_task_lease i inp now db = (r, db') \<Longrightarrow> attestations db' = attestations db"
  "get_active_task_leases room task now db = (rs, db') \<Longrightarrow> attestations db' = attestations db"
  "revoke_task_lease room i reason now db = (r, db') \<Longrightarrow> attestations db' = attestations db"
  "release_task_lease room i fence now db = (r, db') \<Longrightarrow> attestations db' = attestations db"
  "update_task_lease_workflow_refs room i b u now db = (r, db') \<Longrightarrow> attestations db' = attestations db"
  by (auto simp: create_task_lease_def get_active_task_leases_def revoke_task_lease_def
      release_task_lease_def update_task_lease_workflow_refs_def Let_def split: option.splits)

lemma rebind_attestations:
  assumes "rebind_task_lease inp now db = (r, db')"
  shows "attestations db' = attestations db \<or>
    attestations db' = update_where (consume_row inp) (consumed_row now (ri_epoch inp + 1)) (attestations db)"
proof (cases r)
  case (Inl e)
  with assms rebind_task_lease_Inl show ?thesis by fastforce
next
  case (Inr u)
  with assms obtain lease new where v: "rebind_validate inp now db = Inr (lease, new)"
    and db': "attestations db' =
       update_where (consume_row inp) (consumed_row now (tl_epoch lease + 1)) (attestations db)"
    by (auto simp: rebind_task_lease_Inr)
  then show ?thesis using rebind_validate_lease [OF v] by simp
qed

lemma rebind_attestations_evolve:
  "rebind_task_lease inp now db = (r, db') \<Longrightarrow> attestations_evolve (attestations db) (attestations db')"
  using rebind_attestations consume_evolve attestations_evolve_refl by metis

lemma rebind_attestations_wf:
  "rebind_task_lease inp now db = (r, db') \<Longrightarrow> attestations_wf (attestations db)
   \<Longrightarrow> attestations_wf (attestations db')"
  using rebind_attestations consume_wf by metis

lemma coord_step_attestations_evolve:
  "coord_step db db' \<Longrightarrow> attestations_evolve (attestations db) (attestations db')"
  by (cases rule: coord_step.cases)
    (auto simp: other_attestations intro: attest_evolve rebind_attestations_evolve)

lemma coord_step_attestations_wf:
  "coord_step db db' \<Longrightarrow> attestations_wf (attestations db) \<Longrightarrow> attestations_wf (attestations db')"
  by (cases rule: coord_step.cases)
    (auto simp: other_attestations intro: attest_wf rebind_attestations_wf)

lemma attestations_evolve_trans:
  assumes "attestations_evolve t u" "attestations_evolve u v"
  shows "attestations_evolve t v"
proof -
  have "attestation_evolves a c" if "attestation_evolves a b" "attestation_evolves b c" for a b c
    using that by (auto simp: attestation_evolves_def)
  with assms show ?thesis unfolding attestations_evolve_def by metis
qed

lemma coord_run_attestations_evolve:
  "coord_step\<^sup>*\<^sup>* db db' \<Longrightarrow> attestations_evolve (attestations db) (attestations db')"
  by (induction rule: rtranclp_induct)
    (auto intro: attestations_evolve_trans coord_step_attestations_evolve)

section \<open>The fence interface\<close>

definition fence_holds :: "coord_db \<Rightarrow> lease_fence \<Rightarrow> bool" where
  "fence_holds db f \<longleftrightarrow> acquire_lease_fence f db \<noteq> None"

definition fence_known :: "coord_db \<Rightarrow> lease_fence \<Rightarrow> bool" where
  "fence_known db f \<longleftrightarrow>
     leases_wf (leases db) \<and> (\<exists>r \<in> set (leases db). tl_id r = lf_lease f \<and> lf_epoch f \<le> tl_epoch r)"

lemma fence_holds_iff: "fence_holds db f \<longleftrightarrow> (\<exists>r \<in> set (leases db). fence_row f r)"
  by (auto simp: fence_holds_def acquire_lease_fence_def select_first_None)

lemma fence_row_evolves:
  "lease_evolves r r' \<Longrightarrow> lf_epoch f \<le> tl_epoch r \<Longrightarrow> fence_row f r' \<Longrightarrow> fence_row f r"
  by (auto simp: lease_evolves_def fence_row_def)

text \<open>Any change under which the rows evolve and the indexes hold keeps what is known of a fence.\<close>

lemma fence_known_change:
  assumes "leases_evolve (leases db) (leases db')" "leases_wf (leases db')" "fence_known db f"
  shows "fence_known db' f"
proof -
  from assms(3) obtain r where r: "r \<in> set (leases db)" "tl_id r = lf_lease f" "lf_epoch f \<le> tl_epoch r"
    by (auto simp: fence_known_def)
  then obtain r' where "r' \<in> set (leases db')" "lease_evolves r r'"
    using assms(1) unfolding leases_evolve_def by blast
  with r have "r' \<in> set (leases db')" "tl_id r' = lf_lease f" "lf_epoch f \<le> tl_epoch r'"
    by (auto simp: lease_evolves_def)
  with assms(2) show ?thesis unfolding fence_known_def by blast
qed

lemma fence_lost_change:
  assumes "leases_evolve (leases db) (leases db')" "leases_wf (leases db')"
    and known: "fence_known db f" and lost: "\<not> fence_holds db f"
  shows "\<not> fence_holds db' f"
proof
  assume "fence_holds db' f"
  then obtain x where x: "x \<in> set (leases db')" "fence_row f x" by (auto simp: fence_holds_iff)
  from known obtain r where r: "r \<in> set (leases db)" "tl_id r = lf_lease f" "lf_epoch f \<le> tl_epoch r"
    by (auto simp: fence_known_def)
  then obtain r' where r': "r' \<in> set (leases db')" "lease_evolves r r'"
    using assms(1) unfolding leases_evolve_def by blast
  from assms(2) have "r' = x"
    using x r' r by (intro leases_wf_key) (auto simp: lease_evolves_def fence_row_def)
  with x r r' have "fence_row f r" using fence_row_evolves by blast
  with r lost show False by (auto simp: fence_holds_iff)
qed

lemma fence_known_step: "coord_step db db' \<Longrightarrow> fence_known db f \<Longrightarrow> fence_known db' f"
  by (rule fence_known_change [OF coord_step_evolve coord_step_wf]) (auto simp: fence_known_def)

lemma fence_lost_step:
  "coord_step db db' \<Longrightarrow> fence_known db f \<Longrightarrow> \<not> fence_holds db f \<Longrightarrow> \<not> fence_holds db' f"
  by (rule fence_lost_change [OF coord_step_evolve coord_step_wf]) (auto simp: fence_known_def)

interpretation fence: monotone_fence coord_step fence_holds fence_known
  by unfold_locales (rule fence_known_step, assumption+, rule fence_lost_step, assumption+)

section \<open>A concrete database\<close>

text \<open>One room, one agent with a dead and a fresh session under one grant, one work lease held
  by the dead session. The witnesses below run on it.\<close>

definition demo_session :: "string \<Rightarrow> int \<Rightarrow> int option \<Rightarrow> agent_session" where
  "demo_session i created ended =
     \<lparr>as_id = i, as_room = ''room'', as_agent_key = ''key'', as_instance = None, as_label = ''agent'',
      as_worker = True, as_owner = ''owner'', as_grant = Some ''grant'', as_token_hash = ''hash'', as_created_at = created,
      as_ended_at = ended\<rparr>"

definition demo_grant :: host_grant where
  "demo_grant = \<lparr>hg_id = ''grant'', hg_owner = ''owner'', hg_rooms = [''room''], hg_agent_keys = [''key''],
     hg_generation = 2, hg_token_version = 1, hg_expires_at = 1000, hg_revoked_at = None\<rparr>"

definition demo_lease :: task_lease where
  "demo_lease = create_task_lease_row ''lease''
     \<lparr>li_room = ''room'', li_task = ''task_1'', li_kind = Work, li_agent_key = ''key'', li_label = ''agent'',
      li_created_by = ''manager'', li_instance = None, li_session = Some ''old'', li_branch = None,
      li_pr_url = None, li_output = None, li_expires_at = None\<rparr> 5"

definition demo_uuid :: string where
  "demo_uuid = ''01234567-0123-0123-0123-0123456789ab''"

definition demo_fence :: grant_fence where
  "demo_fence = \<lparr>gf_grant = ''grant'', gf_generation = 2, gf_token_version = 1\<rparr>"

definition demo_attest :: attest_input where
  "demo_attest = \<lparr>ai_lease = ''lease'', ai_epoch = 0, ai_from = ''old'', ai_fence = demo_fence,
     ai_attempt = demo_uuid, ai_execution = demo_uuid, ai_cause = ''killed''\<rparr>"

definition demo_rebind :: rebind_input where
  "demo_rebind = \<lparr>ri_lease = ''lease'', ri_epoch = 0, ri_from = ''old'', ri_to = ''new'',
     ri_fence = demo_fence, ri_attestation = ''proof'', ri_attempt = demo_uuid, ri_execution = demo_uuid\<rparr>"

definition demo_db :: coord_db where
  "demo_db = \<lparr>leases = [demo_lease], sessions = [demo_session ''old'' 1 (Some 10), demo_session ''new'' 20 None],
     grants = [demo_grant], bearers = [\<lparr>sb_id = ''b1'', sb_session = ''old'', sb_room = ''room'', sb_grant = Some ''grant'', sb_generation = 1,
       sb_capabilities = [], sb_expires_at = 900, sb_revoked_at = None\<rparr>], attestations = []\<rparr>"

definition demo_attested :: coord_db where
  "demo_attested = snd (record_rebind_attestation ''proof'' demo_attest 50 demo_db)"

definition demo_rebound :: coord_db where
  "demo_rebound = snd (rebind_task_lease demo_rebind 60 demo_attested)"

lemmas demo_defs = demo_session_def demo_grant_def demo_lease_def demo_uuid_def demo_fence_def
  demo_attest_def demo_rebind_def demo_db_def

lemma demo_attested_run:
  "fst (record_rebind_attestation ''proof'' demo_attest 50 demo_db) =
     Inr (attestation_row ''proof'' demo_attest 50 demo_grant demo_lease, True)"
  by code_simp

lemma demo_rebound_run:
  "rebind_task_lease demo_rebind 60 demo_attested =
     (Inr (moved_lease (demo_session ''new'' 20 None) 1 60 demo_lease), demo_rebound)"
  by code_simp

lemma demo_wf: "leases_wf (leases demo_attested)" "attestations_wf (attestations demo_attested)"
  by code_simp+

section \<open>Lemmas for the properties\<close>

lemma coord_run_wf:
  "coord_step\<^sup>*\<^sup>* db db' \<Longrightarrow> leases_wf (leases db) \<Longrightarrow> leases_wf (leases db')"
  by (induction rule: rtranclp_induct) (auto intro: coord_step_wf)

lemma coord_run_attestations_wf:
  "coord_step\<^sup>*\<^sup>* db db' \<Longrightarrow> attestations_wf (attestations db) \<Longrightarrow> attestations_wf (attestations db')"
  by (induction rule: rtranclp_induct) (auto intro: coord_step_attestations_wf)

lemma coord_run_epoch:
  assumes "coord_step\<^sup>*\<^sup>* db db'" "r \<in> set (leases db)"
  shows "\<exists>r' \<in> set (leases db'). tl_id r' = tl_id r \<and> tl_epoch r \<le> tl_epoch r'"
  using assms
proof (induction rule: rtranclp_induct)
  case (step y z)
  then obtain r' where r': "r' \<in> set (leases y)" "tl_id r' = tl_id r" "tl_epoch r \<le> tl_epoch r'" by blast
  then obtain r'' where "r'' \<in> set (leases z)" "lease_evolves r' r''"
    using coord_step_evolve [OF step.hyps(2)] unfolding leases_evolve_def by blast
  with r' show ?case by (intro bexI [of _ r'']) (auto simp: lease_evolves_def)
qed blast

text \<open>A rebind against an epoch the lease has left fails.\<close>

lemma rebind_past_epoch:
  assumes wf: "leases_wf (leases db)" and r: "r \<in> set (leases db)" "tl_id r = ri_lease inp" "ri_epoch inp < tl_epoch r"
  shows "\<exists>e. rebind_task_lease inp now db = (Inl e, db)"
proof -
  have "\<not> rebind_lease_row inp x" if "x \<in> set (leases db)" for x
  proof
    assume x: "rebind_lease_row inp x"
    then have "x = r" using that r by (intro leases_wf_key [OF wf]) (auto simp: rebind_lease_row_def)
    with x r show False by (simp add: rebind_lease_row_def)
  qed
  then have "rebind_validate inp now db \<noteq> Inr (lease, new)" for lease new
    using rebind_validate_lease by blast
  then obtain e where "rebind_validate inp now db = Inl e"
    by (metis surj_pair sum.exhaust)
  then show ?thesis by (simp add: rebind_task_lease_def transaction_def)
qed

lemma rebind_spent_attestation:
  assumes wf: "attestations_wf (attestations db)" and a: "a \<in> set (attestations db)"
    "at_consumed_at a \<noteq> None" "at_id a = ri_attestation inp"
  shows "\<exists>e. rebind_task_lease inp now db = (Inl e, db)"
proof -
  have "rebind_validate inp now db \<noteq> Inr (lease, new)" for lease new
  proof
    assume v: "rebind_validate inp now db = Inr (lease, new)"
    obtain grant old b where "rebind_authorised inp now db lease new grant old b"
      using rebind_validate_Inr [OF v] by (elim conjE exE)
    then have b: "b \<in> set (attestations db) \<and> consume_row inp b" by (rule rebind_authorised_attestation)
    then have "b = a"
      using wf a distinct_key_inj [of at_id "attestations db" b a]
      by (simp add: attestations_wf_def consume_row_def)
    with b a show False by (simp add: consume_row_def pending_attestation_def)
  qed
  then obtain e where "rebind_validate inp now db = Inl e"
    by (metis surj_pair sum.exhaust)
  then show ?thesis by (simp add: rebind_task_lease_def transaction_def)
qed

lemma coord_run_consumed:
  assumes "coord_step\<^sup>*\<^sup>* db db'" "a \<in> set (attestations db)" "at_consumed_at a \<noteq> None"
  shows "a \<in> set (attestations db')"
  using coord_run_attestations_evolve [OF assms(1)] assms(2,3)
  unfolding attestations_evolve_def attestation_evolves_def by force

text \<open>What recording evidence has established of the lease is what a rebind with that evidence
  needs, so a live successor minted under the grant after the death can take over.\<close>

lemma attest_validate_selects:
  assumes "attest_validate inp now db = Inr (grant, lease)"
  obtains old e where
    "select_first (\<lambda>g. hg_id g = gf_grant (ai_fence inp)) (grants db) = Some grant"
    "select_first (\<lambda>r. tl_id r = ai_lease inp) (leases db) = Some lease"
    "tl_room lease \<in> set (hg_rooms grant)" "tl_agent_key lease \<in> set (hg_agent_keys grant)"
    "select_first (\<lambda>x. as_id x = ai_from inp) (sessions db) = Some old"
    "as_room old = tl_room lease" "as_agent_key old = tl_agent_key lease" "as_worker old"
    "as_owner old = hg_owner grant" "as_grant old = Some (hg_id grant)" "as_ended_at old = Some e"
  using assms
  unfolding attest_validate_def bind_result_Inr require_Inr guard_result_Inr sum.inject prod.inject not_None_eq
  by blast

lemma recorded_attestation_pending:
  assumes "record_rebind_attestation i inp now db = (Inr (a, created), db')"
  shows "select_first (pending_attestation (ai_lease inp) (ai_epoch inp) (ai_from inp)) (attestations db') = Some a \<and>
    (\<exists>grant lease. attest_validate inp now db = Inr (grant, lease) \<and> identical_evidence inp grant a) \<and>
    (\<exists>t. db' = db\<lparr>attestations := t\<rparr>)"
  using assms
proof (cases rule: record_attestation_cases)
  case (created grant lease)
  then have "identical_evidence inp grant a"
    by (simp add: identical_evidence_def attestation_row_def)
  moreover have "select_first (pending_attestation (ai_lease inp) (ai_epoch inp) (ai_from inp))
      (attestations db') = Some a"
    using created by (auto simp: select_first_def pending_attestation_def attestation_row_def
        find_append_None)
  ultimately show ?thesis using created(1,5) by blast
next
  case (retried grant lease b)
  have "\<exists>t. db = db\<lparr>attestations := t\<rparr>" by (rule exI [of _ "attestations db"]) simp
  with retried show ?thesis by auto
qed simp

definition successor_of :: "attest_input \<Rightarrow> int \<Rightarrow> agent_session \<Rightarrow> coord_db \<Rightarrow> bool" where
  "successor_of inp now new db \<longleftrightarrow>
     select_first (\<lambda>x. as_id x = as_id new) (sessions db) = Some new \<and>
     as_ended_at new = None \<and> as_worker new \<and>
     (case select_first (\<lambda>x. as_id x = ai_from inp) (sessions db) of None \<Rightarrow> False
      | Some old \<Rightarrow> as_agent_key new = as_agent_key old \<and> as_room new = as_room old \<and>
          as_owner new = as_owner old \<and> as_grant new = as_grant old \<and>
          (case as_ended_at old of None \<Rightarrow> True | Some e \<Rightarrow> e < as_created_at new))"

section \<open>The properties\<close>

text \<open>The exact effect of \<open>rebindTaskLease\<close>: the first failed check is the result and the
  database is untouched; when every check passes, the bearers of the predecessor are revoked,
  the presented attestation is consumed at the new epoch and exactly the presented lease row
  moves to the successor at the next epoch. In particular no compare-and-set of the write phase
  can fail after validation, so a one-time proof is never burnt without moving the lease.\<close>

theorem rebind_effect:
  "rebind_task_lease inp now db =
     (case rebind_validate inp now db of
        Inl e \<Rightarrow> (Inl e, db)
      | Inr (lease, new) \<Rightarrow>
          (Inr (moved_lease new (ri_epoch inp + 1) now lease),
           db\<lparr>bearers := revoke_bearers (ri_from inp) now (bearers db),
              attestations := update_where (consume_row inp) (consumed_row now (ri_epoch inp + 1))
                (attestations db),
              leases := update_where (rebind_lease_row inp) (moved_lease new (ri_epoch inp + 1) now)
                (leases db)\<rparr>))"
proof (cases "rebind_validate inp now db")
  case (Inl e)
  then show ?thesis by (simp add: rebind_task_lease_def transaction_def)
next
  case (Inr u)
  obtain lease new where u: "u = (lease, new)" by (cases u)
  note v = Inr [unfolded u]
  show ?thesis
    using rebind_commit_Inr [OF v] rebind_validate_lease [OF v]
    by (simp add: v rebind_task_lease_def transaction_def)
qed

text \<open>C1: A rebind that succeeds had full authority: the supervisor's grant was current and
  covers the room and agent of the lease, both sessions are workers of that agent minted under
  that grant, the predecessor was dead before the live successor was created, and a pending
  attestation of exactly the presented execution existed; the lease was an active work lease
  held by the predecessor at the presented epoch.\<close>

theorem rebind_requires_authority:
  assumes "rebind_task_lease inp now db = (Inr r, db')"
  shows "\<exists>lease new grant old a.
    lease \<in> set (leases db) \<and> rebind_lease_row inp lease \<and> tl_kind lease = Work \<and>
    rebind_authorised inp now db lease new grant old a \<and>
    r = moved_lease new (ri_epoch inp + 1) now lease"
proof -
  from assms obtain lease new where v: "rebind_validate inp now db = Inr (lease, new)"
    and r: "r = moved_lease new (tl_epoch lease + 1) now lease"
    unfolding rebind_task_lease_Inr by blast
  obtain grant old a where "rebind_authorised inp now db lease new grant old a"
    using rebind_validate_Inr [OF v] by (elim conjE exE)
  then show ?thesis
    using rebind_validate_lease [OF v] conjunct1 [OF conjunct2 [OF rebind_validate_Inr [OF v]]] r by metis
qed

theorem rebind_requires_authority_witness:
  "\<exists>lease new grant old a.
    lease \<in> set (leases demo_attested) \<and> rebind_lease_row demo_rebind lease \<and> tl_kind lease = Work \<and>
    rebind_authorised demo_rebind 60 demo_attested lease new grant old a \<and>
    moved_lease (demo_session ''new'' 20 None) 1 60 demo_lease = moved_lease new (ri_epoch demo_rebind + 1) 60 lease"
  by (rule rebind_requires_authority [OF demo_rebound_run])

text \<open>Once a work lease is lost it stays lost: a fence (lease, epoch, session) that the
  canonical check \<open>acquireLeaseFenceTx\<close> rejects while the lease is at that epoch or beyond is
  rejected after every later sequence of lease transactions, session deletions and changes of
  the authority tables.\<close>

theorem lost_fence_never_returns:
  assumes "leases_wf (leases db)" "r \<in> set (leases db)" "tl_id r = lf_lease f" "lf_epoch f \<le> tl_epoch r"
    and "acquire_lease_fence f db = None" "coord_step\<^sup>*\<^sup>* db db'"
  shows "acquire_lease_fence f db' = None"
  using fence.lost_forever [of db db' f] assms by (auto simp: fence_known_def fence_holds_def)

theorem lost_fence_never_returns_witness:
  "acquire_lease_fence \<lparr>lf_lease = ''lease'', lf_room = ''room'', lf_task = ''task_1'', lf_kind = Work,
     lf_epoch = 0, lf_session = ''old''\<rparr> demo_rebound = None"
proof (rule lost_fence_never_returns [where db = demo_rebound and
      r = "moved_lease (demo_session ''new'' 20 None) 1 60 demo_lease"])
  show "leases_wf (leases demo_rebound)" by code_simp
  show "moved_lease (demo_session ''new'' 20 None) 1 60 demo_lease \<in> set (leases demo_rebound)" by code_simp
  show "tl_id (moved_lease (demo_session ''new'' 20 None) 1 60 demo_lease) = lf_lease \<lparr>lf_lease = ''lease'',
     lf_room = ''room'', lf_task = ''task_1'', lf_kind = Work, lf_epoch = 0, lf_session = ''old''\<rparr>" by code_simp
  show "lf_epoch \<lparr>lf_lease = ''lease'', lf_room = ''room'', lf_task = ''task_1'', lf_kind = Work,
     lf_epoch = 0, lf_session = ''old''\<rparr> \<le> tl_epoch (moved_lease (demo_session ''new'' 20 None) 1 60 demo_lease)"
    by code_simp
  show "acquire_lease_fence \<lparr>lf_lease = ''lease'', lf_room = ''room'', lf_task = ''task_1'', lf_kind = Work,
     lf_epoch = 0, lf_session = ''old''\<rparr> demo_rebound = None" by code_simp
qed simp

text \<open>An epoch of a lease has at most one winner: after one supervisor has rebound a lease
  from an epoch, every attempt to rebind it from that epoch or an earlier one, at any later
  time and with whatever authority and evidence, fails and changes nothing.\<close>

theorem rebind_single_winner:
  assumes "leases_wf (leases db)" "rebind_task_lease inp now db = (Inr r, db1)"
    and "coord_step\<^sup>*\<^sup>* db1 db2" "ri_lease inp' = ri_lease inp" "ri_epoch inp' \<le> ri_epoch inp"
  shows "\<exists>e. rebind_task_lease inp' now' db2 = (Inl e, db2)"
proof -
  from assms(2) obtain lease new where v: "rebind_validate inp now db = Inr (lease, new)"
    and db1: "leases db1 = update_where (rebind_lease_row inp)
       (moved_lease new (tl_epoch lease + 1) now) (leases db)"
    by (auto simp: rebind_task_lease_Inr)
  let ?r = "moved_lease new (tl_epoch lease + 1) now lease"
  have "?r \<in> set (leases db1)"
    unfolding db1 using update_where_mem [of lease "leases db" "rebind_lease_row inp"]
      rebind_validate_lease [OF v] by metis
  then obtain x where "x \<in> set (leases db2)" "tl_id x = tl_id lease" "tl_epoch lease + 1 \<le> tl_epoch x"
    using coord_run_epoch [OF assms(3)] by (fastforce simp: moved_lease_def)
  moreover have "leases_wf (leases db2)"
    using assms rebind_wf coord_run_wf by blast
  ultimately show ?thesis
    using rebind_validate_lease [OF v] assms(4,5)
    by (intro rebind_past_epoch) (auto simp: rebind_lease_row_def)
qed

theorem rebind_single_winner_witness:
  "\<exists>e. rebind_task_lease demo_rebind 70 demo_rebound = (Inl e, demo_rebound)"
  by (rule rebind_single_winner [OF demo_wf(1) demo_rebound_run]) simp_all

text \<open>Death evidence is used once: an attestation that a rebind has consumed authorises no
  later rebind, of whatever lease, epoch or session.\<close>

theorem consumed_evidence_is_spent:
  assumes "attestations_wf (attestations db)" "a \<in> set (attestations db)" "at_consumed_at a \<noteq> None"
    and "coord_step\<^sup>*\<^sup>* db db'" "ri_attestation inp = at_id a"
  shows "\<exists>e. rebind_task_lease inp now db' = (Inl e, db')"
  using assms coord_run_consumed coord_run_attestations_wf
  by (intro rebind_spent_attestation [of db' a]) auto

theorem consumed_evidence_is_spent_witness:
  "\<exists>e. rebind_task_lease (demo_rebind\<lparr>ri_epoch := 1, ri_from := ''new''\<rparr>) 90 demo_rebound = (Inl e, demo_rebound)"
proof (rule consumed_evidence_is_spent [where db = demo_rebound and
      a = "consumed_row 60 1 (attestation_row ''proof'' demo_attest 50 demo_grant demo_lease)"])
  show "attestations_wf (attestations demo_rebound)" by code_simp
  show "consumed_row 60 1 (attestation_row ''proof'' demo_attest 50 demo_grant demo_lease)
      \<in> set (attestations demo_rebound)" by code_simp
qed (simp_all add: consumed_row_def attestation_row_def demo_rebind_def)

text \<open>Death evidence is immutable and permanent: along every run an attestation keeps its row,
  and the only change it ever sees is its own consumption at the epoch after the attested one.\<close>

theorem evidence_is_immutable:
  assumes "coord_step\<^sup>*\<^sup>* db db'" "a \<in> set (attestations db)"
  shows "\<exists>a' \<in> set (attestations db'). a' = a \<or>
    (at_consumed_at a = None \<and>
     (\<exists>now. a' = a\<lparr>at_consumed_at := Some now, at_consumed_by := Some (at_epoch a + 1)\<rparr>))"
  using coord_run_attestations_evolve [OF assms(1)] assms(2)
  unfolding attestations_evolve_def attestation_evolves_def by blast

theorem evidence_is_immutable_witness:
  "\<exists>a' \<in> set (attestations demo_rebound). a' = attestation_row ''proof'' demo_attest 50 demo_grant demo_lease \<or>
    (at_consumed_at (attestation_row ''proof'' demo_attest 50 demo_grant demo_lease) = None \<and>
     (\<exists>now. a' = (attestation_row ''proof'' demo_attest 50 demo_grant demo_lease)
       \<lparr>at_consumed_at := Some now,
        at_consumed_by := Some (at_epoch (attestation_row ''proof'' demo_attest 50 demo_grant demo_lease) + 1)\<rparr>))"
  by (rule evidence_is_immutable [where db = demo_attested])
    (rule r_into_rtranclp, rule coord_step.rebind [OF demo_rebound_run], code_simp)

text \<open>The lease table and the attestation table stay well formed along every run: identifiers
  are unique, a task has at most one active work lease, an agent at most one active review lease
  per task, a predecessor tuple at most one pending attestation, and a consumed attestation
  names exactly the epoch after the attested one.\<close>

theorem coordination_tables_invariant:
  assumes "coord_step\<^sup>*\<^sup>* db db'" "leases_wf (leases db)" "attestations_wf (attestations db)"
  shows "leases_wf (leases db') \<and> attestations_wf (attestations db')"
  using assms coord_run_wf coord_run_attestations_wf by blast

theorem coordination_tables_invariant_witness:
  "leases_wf (leases demo_rebound) \<and> attestations_wf (attestations demo_rebound)"
  by (rule coordination_tables_invariant [OF _ demo_wf])
    (rule r_into_rtranclp, rule coord_step.rebind [OF demo_rebound_run])

text \<open>Recording evidence is idempotent: repeating a recording that succeeded, at any time at
  which the grant is still current and with any fresh identifier, returns the row recorded first
  and writes nothing.\<close>

theorem attestation_retry_idempotent:
  assumes "record_rebind_attestation i inp now db = (Inr (a, created), db')"
    and "assert_supervisor_grant_fence (ai_fence inp) now' db"
  shows "record_rebind_attestation j inp now' db' = (Inr (a, False), db')"
proof -
  obtain grant lease where v: "attest_validate inp now db = Inr (grant, lease)"
    using assms(1) by (cases rule: record_attestation_cases) auto
  then have v': "attest_validate inp now' db = Inr (grant, lease)"
    using assms(2) unfolding attest_validate_def bind_result_Inr guard_result_Inr by blast
  have same: "attest_validate inp now' db' = attest_validate inp now' db"
    if "db' = db\<lparr>attestations := t\<rparr>" for t
    unfolding that by (simp add: attest_validate_def assert_supervisor_grant_fence_def)
  show ?thesis
    using assms(1)
  proof (cases rule: record_attestation_cases)
    case (created grant' lease')
    with v have "grant' = grant" "lease' = lease" by auto
    note created = created [unfolded this]
    let ?row = "attestation_row i inp now grant lease"
    have "select_first (pending_attestation (ai_lease inp) (ai_epoch inp) (ai_from inp)) (attestations db') = Some ?row"
      using created(2,5) by (auto simp: select_first_def pending_attestation_def attestation_row_def
          find_append_None)
    moreover have "identical_evidence inp grant ?row"
      by (simp add: identical_evidence_def attestation_row_def)
    ultimately show ?thesis
      using v' same [OF created(5)] created(4)
      by (simp add: record_rebind_attestation_def transaction_def)
  next
    case (retried grant' lease' a')
    with v v' show ?thesis
      by (auto simp: record_rebind_attestation_def transaction_def)
  qed simp
qed

theorem attestation_retry_idempotent_witness:
  "record_rebind_attestation ''other'' demo_attest 70 demo_attested =
     (Inr (attestation_row ''proof'' demo_attest 50 demo_grant demo_lease, False), demo_attested)"
proof (rule attestation_retry_idempotent)
  show "record_rebind_attestation ''proof'' demo_attest 50 demo_db =
    (Inr (attestation_row ''proof'' demo_attest 50 demo_grant demo_lease, True), demo_attested)"
    using demo_attested_run unfolding demo_attested_def by (metis prod.collapse)
  show "assert_supervisor_grant_fence (ai_fence demo_attest) 70 demo_db" by code_simp
qed

text \<open>C19: A dead worker's lease can always be recovered: once evidence of its death is recorded, a
  live worker session of the same agent, minted under the same grant after that death, takes the
  lease over with that evidence as long as the supervisor's fence is current, and then passes the
  lease fence at the next epoch.\<close>

theorem recorded_evidence_allows_rebind:
  assumes "record_rebind_attestation i inp now db = (Inr (a, created), db')"
    and "assert_supervisor_grant_fence (ai_fence inp) now' db'" "successor_of inp now' new db'"
  shows "\<exists>r db2. rebind_task_lease \<lparr>ri_lease = ai_lease inp, ri_epoch = ai_epoch inp, ri_from = ai_from inp,
      ri_to = as_id new, ri_fence = ai_fence inp, ri_attestation = at_id a, ri_attempt = ai_attempt inp,
      ri_execution = ai_execution inp\<rparr> now' db' = (Inr r, db2) \<and>
    fence_holds db2 \<lparr>lf_lease = ai_lease inp, lf_room = tl_room r, lf_task = tl_task r, lf_kind = Work,
      lf_epoch = ai_epoch inp + 1, lf_session = as_id new\<rparr>"
proof -
  let ?rinp = "\<lparr>ri_lease = ai_lease inp, ri_epoch = ai_epoch inp, ri_from = ai_from inp,
      ri_to = as_id new, ri_fence = ai_fence inp, ri_attestation = at_id a, ri_attempt = ai_attempt inp,
      ri_execution = ai_execution inp\<rparr>"
  obtain grant lease t where pend: "select_first (pending_attestation (ai_lease inp) (ai_epoch inp)
        (ai_from inp)) (attestations db') = Some a"
    and v: "attest_validate inp now db = Inr (grant, lease)" and same: "identical_evidence inp grant a"
    and db': "db' = db\<lparr>attestations := t\<rparr>"
    using recorded_attestation_pending [OF assms(1)] by blast
  have facts: "lease \<in> set (leases db)" "tl_kind lease = Work" "rebind_lease_row ?rinp lease"
    using attest_validate_facts [OF v] by (auto simp: rebind_lease_row_def)
  have rv: "rebind_validate ?rinp now' db' = Inr (lease, new)"
    using v
  proof (rule attest_validate_selects)
    fix old e assume *:
      "select_first (\<lambda>g. hg_id g = gf_grant (ai_fence inp)) (grants db) = Some grant"
      "select_first (\<lambda>r. tl_id r = ai_lease inp) (leases db) = Some lease"
      "tl_room lease \<in> set (hg_rooms grant)" "tl_agent_key lease \<in> set (hg_agent_keys grant)"
      "select_first (\<lambda>x. as_id x = ai_from inp) (sessions db) = Some old"
      "as_room old = tl_room lease" "as_agent_key old = tl_agent_key lease" "as_worker old"
      "as_owner old = hg_owner grant" "as_grant old = Some (hg_id grant)" "as_ended_at old = Some e"
    have row: "select_first (rebind_lease_row ?rinp) (leases db) = Some lease"
      using *(2) facts(3) by (rule select_first_stronger) (simp add: rebind_lease_row_def)
    show ?thesis
      using * row facts pend same assms(2,3)
      by (simp add: rebind_validate_def db' successor_of_def identical_evidence_def)
  qed
  let ?r = "moved_lease new (ai_epoch inp + 1) now' lease"
  obtain db2 where db2: "rebind_task_lease ?rinp now' db' = (Inr ?r, db2)"
    "leases db2 = update_where (rebind_lease_row ?rinp) (moved_lease new (ai_epoch inp + 1) now') (leases db')"
    unfolding rebind_effect rv by simp
  have "?r \<in> set (leases db2)"
    using update_where_mem [of lease "leases db'" "rebind_lease_row ?rinp"] facts by (simp add: db2(2) db')
  then have "fence_holds db2 \<lparr>lf_lease = ai_lease inp, lf_room = tl_room ?r, lf_task = tl_task ?r,
      lf_kind = Work, lf_epoch = ai_epoch inp + 1, lf_session = as_id new\<rparr>"
    unfolding fence_holds_iff using attest_validate_facts [OF v]
    by (intro bexI [of _ ?r]) (simp_all add: fence_row_def moved_lease_def)
  with db2(1) show ?thesis by blast
qed

theorem recorded_evidence_allows_rebind_witness:
  "\<exists>r db2. rebind_task_lease \<lparr>ri_lease = ai_lease demo_attest, ri_epoch = ai_epoch demo_attest,
      ri_from = ai_from demo_attest, ri_to = as_id (demo_session ''new'' 20 None),
      ri_fence = ai_fence demo_attest,
      ri_attestation = at_id (attestation_row ''proof'' demo_attest 50 demo_grant demo_lease),
      ri_attempt = ai_attempt demo_attest, ri_execution = ai_execution demo_attest\<rparr> 60 demo_attested = (Inr r, db2) \<and>
    fence_holds db2 \<lparr>lf_lease = ai_lease demo_attest, lf_room = tl_room r, lf_task = tl_task r,
      lf_kind = Work, lf_epoch = ai_epoch demo_attest + 1, lf_session = as_id (demo_session ''new'' 20 None)\<rparr>"
proof (rule recorded_evidence_allows_rebind)
  show "record_rebind_attestation ''proof'' demo_attest 50 demo_db =
    (Inr (attestation_row ''proof'' demo_attest 50 demo_grant demo_lease, True), demo_attested)"
    using demo_attested_run unfolding demo_attested_def by (metis prod.collapse)
  show "assert_supervisor_grant_fence (ai_fence demo_attest) 60 demo_attested" by code_simp
  show "successor_of demo_attest 60 (demo_session ''new'' 20 None) demo_attested" by code_simp
qed

text \<open>A work lease is granted exactly when the task is free: with a fresh identifier,
  \<open>createTaskLease\<close> refuses a work lease if and only if the task already has an active work
  lease that has not expired at that moment; an expired one never blocks.\<close>

theorem create_work_lease_admission:
  assumes "li_kind inp = Work" "i \<notin> tl_id ` set (leases db)"
  shows "fst (create_task_lease i inp now db) = None \<longleftrightarrow>
    (\<exists>r \<in> set (leases db). tl_status r = Active \<and> tl_kind r = Work \<and> tl_room r = li_room inp \<and>
       tl_task r = li_task inp \<and> (case tl_expires_at r of None \<Rightarrow> True | Some e \<Rightarrow> now < e))"
proof -
  let ?row = "create_task_lease_row i inp now"
  let ?p = "\<lambda>r. tl_room r = li_room inp \<and> tl_status r = Active \<and>
            (case tl_expires_at r of None \<Rightarrow> False | Some e \<Rightarrow> e \<le> now)"
  have "lease_conflict ?row (if ?p r then r\<lparr>tl_status := Expired, tl_updated_at := now\<rparr> else r) \<longleftrightarrow>
      tl_status r = Active \<and> tl_kind r = Work \<and> tl_room r = li_room inp \<and> tl_task r = li_task inp \<and>
      (case tl_expires_at r of None \<Rightarrow> True | Some e \<Rightarrow> now < e)"
    if "r \<in> set (leases db)" for r
    using assms that
    by (auto simp: lease_conflict_def create_task_lease_row_def split: option.splits)
  then have "(\<exists>x \<in> set (expire_stale_task_leases (li_room inp) now (leases db)). lease_conflict ?row x) \<longleftrightarrow>
    (\<exists>r \<in> set (leases db). tl_status r = Active \<and> tl_kind r = Work \<and> tl_room r = li_room inp \<and>
       tl_task r = li_task inp \<and> (case tl_expires_at r of None \<Rightarrow> True | Some e \<Rightarrow> now < e))"
    unfolding expire_stale_task_leases_def update_where_def set_map by (simp only: bex_simps(7) cong: bex_cong)
  then show ?thesis
    by (simp add: create_task_lease_def insert_lease_def Let_def split: option.splits)
qed

theorem create_work_lease_admission_witness:
  "fst (create_task_lease ''lease2'' \<lparr>li_room = ''room'', li_task = ''task_1'', li_kind = Work,
      li_agent_key = ''other'', li_label = ''x'', li_created_by = ''manager'', li_instance = None,
      li_session = None, li_branch = None, li_pr_url = None, li_output = None, li_expires_at = None\<rparr> 7 demo_db)
   = None"
  by (subst create_work_lease_admission) (simp_all add: demo_defs create_task_lease_row_def)

end
