(* ===== verification/Json.thy ===== *)
theory Json
  imports Complex_Main Prelude
begin

text \<open>
  JavaScript values as the source receives them: numbers with the non-finite values that
  \<open>Number.isFinite\<close> excludes, JSON documents, decimal numerals, and the traversal of an
  array by a function that may throw. Finite numbers are exact rationals; the rounding of
  IEEE doubles is not modelled.
\<close>

section \<open>Numbers\<close>

datatype js_num = Fin rat | PosInf | NegInf | NaN

fun js_finite :: "js_num \<Rightarrow> bool" where
  "js_finite (Fin _) = True"
| "js_finite _ = False"

text \<open>\<open>Number.isInteger\<close>.\<close>

fun js_integer :: "js_num \<Rightarrow> bool" where
  "js_integer (Fin q) = (of_int \<lfloor>q\<rfloor> = q)"
| "js_integer _ = False"

section \<open>Decimal numerals\<close>

definition digit_char :: "nat \<Rightarrow> char" where
  "digit_char d = char_of (48 + d)"

definition is_digit :: "char \<Rightarrow> bool" where
  "is_digit c \<longleftrightarrow> (let n = (of_char c :: nat) in 48 \<le> n \<and> n \<le> 57)"

fun show_nat :: "nat \<Rightarrow> string" where
  "show_nat n = (if n < 10 then [digit_char n] else show_nat (n div 10) @ [digit_char (n mod 10)])"

declare show_nat.simps [simp del]

definition show_int :: "int \<Rightarrow> string" where
  "show_int i = (if i < 0 then ''-'' @ show_nat (nat (- i)) else show_nat (nat i))"

text \<open>\<open>Number(s)\<close> for a string of decimal digits.\<close>

definition read_nat :: "string \<Rightarrow> nat" where
  "read_nat s = foldl (\<lambda>n c. 10 * n + (of_char c - 48)) 0 s"

lemma is_digit_digit_char: "d < 10 \<Longrightarrow> is_digit (digit_char d)"
  by (simp add: is_digit_def digit_char_def)

lemma of_digit_char: "d < 10 \<Longrightarrow> of_char (digit_char d) = 48 + d"
  by (simp add: digit_char_def)

lemma read_show_nat [simp]: "read_nat (show_nat n) = n"
proof (induction n rule: show_nat.induct)
  case (1 n)
  then show ?case
    by (subst show_nat.simps) (auto simp: read_nat_def of_digit_char)
qed

lemma show_nat_inject [simp]: "show_nat m = show_nat n \<longleftrightarrow> m = n"
  by (metis read_show_nat)

section \<open>Documents\<close>

datatype json =
    JNull
  | JBool bool
  | JNum js_num
  | JStr string
  | JArr "json list"
  | JObj "(string \<times> json) list"

type_synonym json_record = "(string \<times> json) list"

text \<open>The guard \<open>!value || typeof value !== "object" || Array.isArray(value)\<close>.\<close>

fun as_record :: "json \<Rightarrow> json_record option" where
  "as_record (JObj kvs) = Some kvs"
| "as_record _ = None"

text \<open>Reading a property; \<open>None\<close> is \<open>undefined\<close>.\<close>

definition jget :: "string \<Rightarrow> json_record \<Rightarrow> json option" where
  "jget k kvs = map_of kvs k"

section \<open>Traversing an array\<close>

fun traverse :: "(nat \<Rightarrow> 'a \<Rightarrow> 'e + 'b) \<Rightarrow> nat \<Rightarrow> 'a list \<Rightarrow> 'e + 'b list" where
  "traverse f i [] = Inr []"
| "traverse f i (x # xs) =
     bind_result (f i x) (\<lambda>y. bind_result (traverse f (Suc i) xs) (\<lambda>ys. Inr (y # ys)))"

lemma traverse_Inr:
  "traverse f i xs = Inr ys \<longleftrightarrow>
     length ys = length xs \<and> (\<forall>k < length xs. f (i + k) (xs ! k) = Inr (ys ! k))"
proof (induction xs arbitrary: i ys)
  case (Cons x xs)
  show ?case
  proof (cases ys)
    case (Cons z zs)
    have "(\<forall>k < Suc (length xs). f (i + k) ((x # xs) ! k) = Inr ((z # zs) ! k)) \<longleftrightarrow>
      f i x = Inr z \<and> (\<forall>k < length xs. f (Suc i + k) (xs ! k) = Inr (zs ! k))"
      unfolding All_less_Suc2 by simp
    with Cons.IH Cons show ?thesis by (auto simp: bind_result_Inr)
  qed (auto simp: bind_result_Inr)
qed auto

lemma traverse_length: "traverse f i xs = Inr ys \<Longrightarrow> length ys = length xs"
  by (simp add: traverse_Inr)

lemma traverse_mem:
  assumes "traverse f i xs = Inr ys" "y \<in> set ys"
  obtains k x where "x \<in> set xs" "f k x = Inr y"
  using assms unfolding traverse_Inr in_set_conv_nth by (metis nth_mem)

text \<open>Traversing the image of earlier results with a function that reproduces them.\<close>

lemma traverse_map_ok:
  assumes "\<And>k y. y \<in> set ys \<Longrightarrow> f k (g y) = Inr y"
  shows "traverse f i (map g ys) = Inr ys"
  using assms by (induction ys arbitrary: i) auto

end
