(* ===== verification/Artifacts.thy ===== *)
theory Artifacts
  imports Json
begin

text \<open>
  Workflow artifacts of a task: \<^verbatim>\<open>src/api/repo-workflow/task-artifacts.ts\<close> with the types of
  \<^verbatim>\<open>repo-workflow/types.ts\<close> and \<^verbatim>\<open>db/schema/artifacts.ts\<close>. An absent property of an artifact
  and a null one are both \<open>None\<close>: every operation reads them with \<open>?? null\<close> or as booleans.
  The platform's URL parser is the parameter \<open>url_parse\<close>: \<open>None\<close> when \<open>new URL\<close> throws, else
  host name and path.
\<close>

section \<open>Data\<close>

datatype provider = Git | Github | Gitlab | Bitbucket | UnknownProvider

datatype artifact_kind =
    Issue | Branch | Commit | Diff | ChangeSummary | PullRequest | MergeRequest | ReviewArtifact
  | CheckRun | Merge

record changed_file =
  cf_path :: string
  cf_previous :: "string option"
  cf_status :: string
  cf_additions :: int
  cf_deletions :: int
  cf_binary :: bool
  cf_staged :: bool
  cf_unstaged :: bool
  cf_untracked :: bool

record change_summary =
  cs_changed :: int
  cs_additions :: int
  cs_deletions :: int
  cs_staged :: int
  cs_unstaged :: int
  cs_untracked :: int
  cs_hidden :: int
  cs_files :: "changed_file list"

record artifact =
  ar_provider :: provider
  ar_kind :: artifact_kind
  ar_id :: "string option"
  ar_number :: "int option"
  ar_title :: "string option"
  ar_url :: "string option"
  ar_ref :: "string option"
  ar_state :: "string option"
  ar_detail :: "change_summary option"

definition provider_names :: "(string \<times> provider) list" where
  "provider_names = [(''git'', Git), (''github'', Github), (''gitlab'', Gitlab),
     (''bitbucket'', Bitbucket), (''unknown'', UnknownProvider)]"

definition kind_names :: "(string \<times> artifact_kind) list" where
  "kind_names = [(''issue'', Issue), (''branch'', Branch), (''commit'', Commit), (''diff'', Diff),
     (''change_summary'', ChangeSummary), (''pull_request'', PullRequest),
     (''merge_request'', MergeRequest), (''review'', ReviewArtifact), (''check_run'', CheckRun),
     (''merge'', Merge)]"

fun provider_name :: "provider \<Rightarrow> string" where
  "provider_name Git = ''git''"
| "provider_name Github = ''github''"
| "provider_name Gitlab = ''gitlab''"
| "provider_name Bitbucket = ''bitbucket''"
| "provider_name UnknownProvider = ''unknown''"

fun kind_name :: "artifact_kind \<Rightarrow> string" where
  "kind_name Issue = ''issue''"
| "kind_name Branch = ''branch''"
| "kind_name Commit = ''commit''"
| "kind_name Diff = ''diff''"
| "kind_name ChangeSummary = ''change_summary''"
| "kind_name PullRequest = ''pull_request''"
| "kind_name MergeRequest = ''merge_request''"
| "kind_name ReviewArtifact = ''review''"
| "kind_name CheckRun = ''check_run''"
| "kind_name Merge = ''merge''"

definition artifact_of :: "provider \<Rightarrow> artifact_kind \<Rightarrow> artifact" where
  "artifact_of p k = \<lparr>ar_provider = p, ar_kind = k, ar_id = None, ar_number = None, ar_title = None,
     ar_url = None, ar_ref = None, ar_state = None, ar_detail = None\<rparr>"

section \<open>Identity of artifacts\<close>

definition same_artifact :: "artifact \<Rightarrow> artifact \<Rightarrow> bool" where
  "same_artifact l r =
     (if truthy (ar_url l) \<and> truthy (ar_url r) then ar_url l = ar_url r
      else ar_provider l = ar_provider r \<and> ar_kind l = ar_kind r \<and> ar_number l = ar_number r \<and>
           ar_ref l = ar_ref r \<and> ar_id l = ar_id r)"

lemma same_artifact_refl [simp]: "same_artifact a a"
  by (simp add: same_artifact_def)

lemma same_artifact_sym: "same_artifact a b = same_artifact b a"
  by (auto simp: same_artifact_def)

section \<open>Artifacts of a pull-request URL\<close>

text \<open>The trailing group of digits of a path, and the path before it.\<close>

definition split_number :: "string \<Rightarrow> string \<times> string" where
  "split_number path = (rev (dropWhile is_digit (rev path)), rev (takeWhile is_digit (rev path)))"

definition strip_slashes :: "string \<Rightarrow> string" where
  "strip_slashes s = rev (dropWhile (\<lambda>c. c = CHR ''/'') (rev s))"

fun split_on :: "char \<Rightarrow> string \<Rightarrow> string list" where
  "split_on d [] = [[]]"
| "split_on d (c # cs) =
     (if c = d then [] # split_on d cs
      else (case split_on d cs of [] \<Rightarrow> [[c]] | w # ws \<Rightarrow> (c # w) # ws))"

text \<open>\<open>^/[^/]+/[^/]+/<word>/(digits)$\<close>\<close>

definition match_repo_path :: "string \<Rightarrow> string \<Rightarrow> nat option" where
  "match_repo_path word path =
     (case split_on CHR ''/'' path of
        [e, a, b, w, d] \<Rightarrow>
          if e = [] \<and> a \<noteq> [] \<and> b \<noteq> [] \<and> w = word \<and> d \<noteq> [] \<and> list_all is_digit d
          then Some (read_nat d) else None
      | _ \<Rightarrow> None)"

text \<open>\<open>^/.+/-/merge_requests/(digits)$\<close>; the dot matches no line terminator.\<close>

definition match_gitlab_path :: "string \<Rightarrow> nat option" where
  "match_gitlab_path path =
     (let (front, digits) = split_number path; word = ''/-/merge_requests/'';
          base = take (length front - length word) front
      in if digits \<noteq> [] \<and> suffix word front \<and> 2 \<le> length base \<and> hd base = CHR ''/'' \<and>
            list_all (\<lambda>c. c \<noteq> CHR 0x0A \<and> c \<noteq> CHR 0x0D) (tl base)
         then Some (read_nat digits) else None)"

definition legacy_artifacts ::
  "(string \<Rightarrow> (string \<times> string) option) \<Rightarrow> string option \<Rightarrow> artifact list" where
  "legacy_artifacts url_parse pr_url =
     (case pr_url of
        None \<Rightarrow> []
      | Some u \<Rightarrow>
         if u = [] then []
         else
          (let generic = (artifact_of UnknownProvider PullRequest)\<lparr>ar_url := Some u\<rparr>
           in case url_parse u of
                None \<Rightarrow> [generic]
              | Some (host, pathname) \<Rightarrow>
                 (let h = js_lower host; path = strip_slashes pathname;
                      linked = (\<lambda>p k n. (artifact_of p k)\<lparr>ar_number := Some (int n), ar_url := Some u\<rparr>)
                  in if h = ''github.com'' then
                       (case match_repo_path ''pull'' path of
                          Some n \<Rightarrow> [linked Github PullRequest n] | None \<Rightarrow> [generic])
                     else if h = ''gitlab.com'' then
                       (case match_gitlab_path path of
                          Some n \<Rightarrow> [linked Gitlab MergeRequest n] | None \<Rightarrow> [generic])
                     else if h = ''bitbucket.org'' then
                       (case match_repo_path ''pull-requests'' path of
                          Some n \<Rightarrow> [linked Bitbucket PullRequest n] | None \<Rightarrow> [generic])
                     else [generic])))"

section \<open>Normalization\<close>

definition max_artifacts :: nat where
  "max_artifacts = 32"

definition push_artifact :: "artifact list \<Rightarrow> artifact \<Rightarrow> artifact list" where
  "push_artifact merged a = (if \<exists>x \<in> set merged. same_artifact x a then merged else merged @ [a])"

text \<open>\<open>slice(-n)\<close>\<close>

definition newest :: "nat \<Rightarrow> 'a list \<Rightarrow> 'a list" where
  "newest n xs = drop (length xs - n) xs"

definition merge_artifacts :: "artifact list \<Rightarrow> artifact list" where
  "merge_artifacts as = foldl push_artifact [] as"

definition normalize_artifacts ::
  "(string \<Rightarrow> (string \<times> string) option) \<Rightarrow> artifact list \<Rightarrow> string option \<Rightarrow> artifact list" where
  "normalize_artifacts url_parse persisted pr_url =
     newest max_artifacts
       (foldl push_artifact (foldl push_artifact [] persisted) (legacy_artifacts url_parse pr_url))"

definition synchronize_artifacts ::
  "(string \<Rightarrow> (string \<times> string) option) \<Rightarrow> artifact list \<Rightarrow> string option \<Rightarrow> string option
   \<Rightarrow> artifact list" where
  "synchronize_artifacts url_parse as previous next_url =
     (if truthy previous \<and> previous \<noteq> next_url
      then (let gone = legacy_artifacts url_parse previous
            in normalize_artifacts url_parse
                 (filter (\<lambda>a. \<not> (\<exists>g \<in> set gone. same_artifact a g)) as) next_url)
      else normalize_artifacts url_parse as next_url)"

section \<open>Labels and links\<close>

definition ref_label_or :: "string \<Rightarrow> string \<Rightarrow> string option \<Rightarrow> string" where
  "ref_label_or lead plain x = (if truthy x then lead @ the x else plain)"

definition number_label :: "string \<Rightarrow> string \<Rightarrow> int option \<Rightarrow> string" where
  "number_label lead plain n =
     (case n of None \<Rightarrow> plain | Some i \<Rightarrow> if i = 0 then plain else lead @ show_int i)"

definition workflow_ref_label :: "artifact \<Rightarrow> string" where
  "workflow_ref_label a =
     (case ar_kind a of
        Issue \<Rightarrow> number_label ''Issue #'' ''Issue'' (ar_number a)
      | Branch \<Rightarrow> ref_label_or ''Branch '' ''Branch'' (ar_ref a)
      | Commit \<Rightarrow> ref_label_or ''Commit '' ''Commit'' (map_option (take 12) (ar_id a))
      | Diff \<Rightarrow> ref_label_or ''Diff '' ''Diff'' (ar_title a)
      | ChangeSummary \<Rightarrow> ref_label_or ''Change summary '' ''Change summary'' (ar_title a)
      | PullRequest \<Rightarrow> number_label ''PR #'' ''PR'' (ar_number a)
      | MergeRequest \<Rightarrow> number_label ''MR !'' ''MR'' (ar_number a)
      | ReviewArtifact \<Rightarrow> ''Review''
      | CheckRun \<Rightarrow> ref_label_or ''Check '' ''Check'' (ar_title a)
      | Merge \<Rightarrow> ''Merge'')"

record workflow_ref =
  wr_provider :: provider
  wr_kind :: artifact_kind
  wr_label :: string
  wr_url :: string

definition workflow_refs ::
  "(string \<Rightarrow> (string \<times> string) option) \<Rightarrow> artifact list \<Rightarrow> string option \<Rightarrow> workflow_ref list" where
  "workflow_refs url_parse as pr_url =
     map (\<lambda>a. \<lparr>wr_provider = ar_provider a, wr_kind = ar_kind a, wr_label = workflow_ref_label a,
               wr_url = the (ar_url a)\<rparr>)
       (filter (\<lambda>a. truthy (ar_url a)) (normalize_artifacts url_parse as pr_url))"

text \<open>The alternatives under which an artifact may be looked up, one identifying property each.\<close>

record artifact_match =
  am_provider :: provider
  am_kind :: artifact_kind
  am_id :: "string option"
  am_number :: "int option"
  am_title :: "string option"
  am_url :: "string option"
  am_ref :: "string option"

definition add_match :: "artifact_match list \<Rightarrow> artifact_match \<Rightarrow> artifact_match list" where
  "add_match ms m = (if m \<in> set ms then ms else ms @ [m])"

definition artifact_matches :: "artifact_match \<Rightarrow> artifact_match list" where
  "artifact_matches inp =
     (let base = \<lparr>am_provider = am_provider inp, am_kind = am_kind inp, am_id = None,
                  am_number = None, am_title = None, am_url = None, am_ref = None\<rparr>;
          ms1 = (if truthy (am_url inp) then add_match [] (base\<lparr>am_url := am_url inp\<rparr>) else []);
          ms2 = (if am_number inp \<noteq> None then add_match ms1 (base\<lparr>am_number := am_number inp\<rparr>) else ms1);
          ms3 = (if truthy (am_id inp) then add_match ms2 (base\<lparr>am_id := am_id inp\<rparr>) else ms2);
          ms4 = (if truthy (am_ref inp) then add_match ms3 (base\<lparr>am_ref := am_ref inp\<rparr>) else ms3)
      in if truthy (am_title inp) then add_match ms4 (base\<lparr>am_title := am_title inp\<rparr>) else ms4)"

section \<open>Deduplication\<close>

text \<open>No earlier artifact of the list is the same as a later one.\<close>

definition dedup :: "artifact list \<Rightarrow> bool" where
  "dedup as \<longleftrightarrow> sorted_wrt (\<lambda>a b. \<not> same_artifact a b) as"

lemma dedup_push: "dedup as \<Longrightarrow> dedup (push_artifact as a)"
  by (auto simp: dedup_def push_artifact_def sorted_wrt_append)

lemma dedup_foldl: "dedup as \<Longrightarrow> dedup (foldl push_artifact as bs)"
  by (induction bs arbitrary: as) (simp_all add: dedup_push)

lemma dedup_newest: "dedup as \<Longrightarrow> dedup (newest n as)"
  by (simp add: dedup_def newest_def sorted_wrt_drop)

lemma length_newest: "length (newest n xs) \<le> n"
  by (simp add: newest_def)

lemma newest_short [simp]: "length xs \<le> n \<Longrightarrow> newest n xs = xs"
  by (simp add: newest_def)

lemma set_newest: "x \<in> set (newest n xs) \<Longrightarrow> x \<in> set xs"
  unfolding newest_def by (rule in_set_dropD)

text \<open>Merging artifacts that are pairwise different into a list none of them is the same as.\<close>

lemma foldl_push_dedup: "dedup (as @ bs) \<Longrightarrow> foldl push_artifact as bs = as @ bs"
proof (induction bs arbitrary: as)
  case (Cons b bs)
  from Cons.prems have "\<forall>x \<in> set as. \<not> same_artifact x b"
    by (auto simp: dedup_def sorted_wrt_append)
  with Cons show ?case by (simp add: push_artifact_def)
qed simp

lemma set_push: "set (push_artifact as a) \<subseteq> set as \<union> {a}"
  by (auto simp: push_artifact_def)

lemma set_foldl_push: "set (foldl push_artifact as bs) \<subseteq> set as \<union> set bs"
proof (induction bs arbitrary: as)
  case (Cons b bs)
  then show ?case using set_push [of as b] by fastforce
qed simp

lemma foldl_push_keeps: "x \<in> set as \<Longrightarrow> x \<in> set (foldl push_artifact as bs)"
  by (induction bs arbitrary: as) (simp_all add: push_artifact_def)

lemma push_represents: "\<exists>x \<in> set (push_artifact as a). same_artifact x a"
  by (auto simp: push_artifact_def)

lemma foldl_push_represents:
  "b \<in> set as \<union> set bs \<Longrightarrow> \<exists>x \<in> set (foldl push_artifact as bs). same_artifact x b"
proof (induction bs arbitrary: as)
  case Nil
  then show ?case using same_artifact_refl [of b] by (intro bexI [of _ b]) auto
next
  case (Cons c bs)
  then consider "b \<in> set as" | "b = c" | "b \<in> set bs" by auto
  then show ?case
  proof cases
    case 1
    then show ?thesis using foldl_push_keeps same_artifact_refl [of b] by blast
  next
    case 2
    obtain x where "x \<in> set (push_artifact as c)" "same_artifact x c" using push_represents by blast
    with 2 show ?thesis using foldl_push_keeps [of x "push_artifact as c" bs] by auto
  next
    case 3
    then show ?thesis using Cons.IH [of "push_artifact as c"] by simp
  qed
qed

lemma legacy_length: "length (legacy_artifacts url_parse u) \<le> 1"
  by (auto simp: legacy_artifacts_def Let_def split: option.splits)

lemma legacy_url: "g \<in> set (legacy_artifacts url_parse u) \<Longrightarrow> truthy u \<and> ar_url g = u"
  by (auto simp: legacy_artifacts_def Let_def split: option.splits if_splits)

definition demo_parse :: "string \<Rightarrow> (string \<times> string) option" where
  "demo_parse u = (if u = ''https://GitHub.com/o/r/pull/42/'' then Some (''github.com'', ''/o/r/pull/42/'')
     else if u = ''https://gitlab.com/g/s/r/-/merge_requests/7'' then
       Some (''gitlab.com'', ''/g/s/r/-/merge_requests/7'') else None)"

section \<open>The properties\<close>

text \<open>Normalization keeps at most 32 artifacts, no two of which denote the same thing, takes
  every one of them from the stored artifacts or from the pull-request URL, and loses nothing
  while at most 32 remain: each stored artifact and the pull request is then represented.\<close>

theorem normalized_artifacts:
  "length (normalize_artifacts url_parse as pr_url) \<le> 32 \<and>
   dedup (normalize_artifacts url_parse as pr_url) \<and>
   set (normalize_artifacts url_parse as pr_url) \<subseteq> set as \<union> set (legacy_artifacts url_parse pr_url) \<and>
   (length (normalize_artifacts url_parse as pr_url) < 32 \<longrightarrow>
     (\<forall>a \<in> set as \<union> set (legacy_artifacts url_parse pr_url).
       \<exists>x \<in> set (normalize_artifacts url_parse as pr_url). same_artifact x a))"
proof -
  let ?m = "foldl push_artifact (foldl push_artifact [] as) (legacy_artifacts url_parse pr_url)"
  define out where "out = normalize_artifacts url_parse as pr_url"
  have out: "out = newest max_artifacts ?m" by (simp add: out_def normalize_artifacts_def)
  have "dedup ?m" by (intro dedup_foldl) (simp add: dedup_def)
  then have "dedup out" unfolding out by (rule dedup_newest)
  moreover have "length out \<le> 32" unfolding out using length_newest [of max_artifacts ?m]
    by (simp add: max_artifacts_def)
  moreover have sub: "set ?m \<subseteq> set as \<union> set (legacy_artifacts url_parse pr_url)"
    using set_foldl_push [of "foldl push_artifact [] as"] set_foldl_push [of "[]" as] by fastforce
  moreover have "set out \<subseteq> set ?m" unfolding out by (auto dest: set_newest)
  moreover have "\<exists>x \<in> set out. same_artifact x a"
    if "length out < 32" "a \<in> set as \<union> set (legacy_artifacts url_parse pr_url)" for a
  proof -
    have m: "out = ?m" using that(1) unfolding out by (simp add: newest_def max_artifacts_def split: if_splits)
    have "?m = foldl push_artifact [] (as @ legacy_artifacts url_parse pr_url)" by simp
    moreover have "a \<in> set [] \<union> set (as @ legacy_artifacts url_parse pr_url)" using that(2) by simp
    ultimately show ?thesis unfolding m using foldl_push_represents by metis
  qed
  ultimately show ?thesis unfolding out_def by blast
qed

theorem normalized_artifacts_witness:
  "length (normalize_artifacts demo_parse [artifact_of Git Branch, artifact_of Git Branch]
      (Some ''https://GitHub.com/o/r/pull/42/'')) = 2 \<and>
   (\<exists>x \<in> set (normalize_artifacts demo_parse [artifact_of Git Branch, artifact_of Git Branch]
      (Some ''https://GitHub.com/o/r/pull/42/'')). same_artifact x (artifact_of Git Branch))"
proof -
  have "length (normalize_artifacts demo_parse [artifact_of Git Branch, artifact_of Git Branch]
      (Some ''https://GitHub.com/o/r/pull/42/'')) = 2" by code_simp
  with normalized_artifacts [of demo_parse "[artifact_of Git Branch, artifact_of Git Branch]"
      "Some ''https://GitHub.com/o/r/pull/42/''"]
  show ?thesis by simp
qed

text \<open>Normalization settles: as long as nothing had to be dropped, normalizing again with the
  same pull-request URL changes nothing.\<close>

theorem normalize_idempotent:
  assumes "length (normalize_artifacts url_parse as pr_url) < 32"
  shows "normalize_artifacts url_parse (normalize_artifacts url_parse as pr_url) pr_url =
    normalize_artifacts url_parse as pr_url"
proof -
  let ?n = "normalize_artifacts url_parse as pr_url" and ?l = "legacy_artifacts url_parse pr_url"
  have "dedup ([] @ ?n)" and rep: "\<forall>a \<in> set ?l. \<exists>x \<in> set ?n. same_artifact x a"
    using normalized_artifacts [of url_parse as pr_url] assms by (auto simp: max_artifacts_def)
  then have "foldl push_artifact [] ?n = ?n" using foldl_push_dedup [of "[]" ?n] by simp
  moreover have "foldl push_artifact ?n bs = ?n" if "\<forall>a \<in> set bs. \<exists>x \<in> set ?n. same_artifact x a" for bs
    using that by (induction bs) (simp_all add: push_artifact_def)
  ultimately have "normalize_artifacts url_parse ?n pr_url = newest max_artifacts ?n"
    using rep by (subst normalize_artifacts_def) simp
  with assms show ?thesis by (simp add: max_artifacts_def)
qed

theorem normalize_idempotent_witness:
  "normalize_artifacts demo_parse (normalize_artifacts demo_parse [artifact_of Git Branch, artifact_of Git Branch]
      (Some ''https://GitHub.com/o/r/pull/42/'')) (Some ''https://GitHub.com/o/r/pull/42/'') =
    normalize_artifacts demo_parse [artifact_of Git Branch, artifact_of Git Branch]
      (Some ''https://GitHub.com/o/r/pull/42/'')"
  by (rule normalize_idempotent) code_simp

text \<open>When a task's pull request changes, the link of the previous one is gone: after
  synchronization no artifact denotes the previous pull request, and as long as fewer than 32
  remain, the new one is represented.\<close>

theorem synchronized_artifacts:
  assumes "truthy previous" "previous \<noteq> next_url"
  shows "(\<forall>a \<in> set (synchronize_artifacts url_parse as previous next_url).
      \<forall>g \<in> set (legacy_artifacts url_parse previous). \<not> same_artifact a g) \<and>
    (length (synchronize_artifacts url_parse as previous next_url) < 32 \<longrightarrow>
      (\<forall>g \<in> set (legacy_artifacts url_parse next_url).
        \<exists>a \<in> set (synchronize_artifacts url_parse as previous next_url). same_artifact a g))"
proof -
  let ?kept = "filter (\<lambda>a. \<not> (\<exists>g \<in> set (legacy_artifacts url_parse previous). same_artifact a g)) as"
  have sync: "synchronize_artifacts url_parse as previous next_url = normalize_artifacts url_parse ?kept next_url"
    using assms by (simp add: synchronize_artifacts_def Let_def)
  have "\<not> same_artifact a g"
    if "a \<in> set ?kept \<union> set (legacy_artifacts url_parse next_url)"
      "g \<in> set (legacy_artifacts url_parse previous)" for a g
  proof (cases "a \<in> set ?kept")
    case False
    with that have "truthy next_url" "ar_url a = next_url" "ar_url g = previous"
      using legacy_url by auto
    with assms show ?thesis by (auto simp: same_artifact_def)
  qed (use that in auto)
  then show ?thesis unfolding sync using normalized_artifacts [of url_parse ?kept next_url] by blast
qed

theorem synchronized_artifacts_witness:
  "list_all (\<lambda>a. list_all (\<lambda>g. \<not> same_artifact a g)
       (legacy_artifacts demo_parse (Some ''https://GitHub.com/o/r/pull/42/'')))
     (synchronize_artifacts demo_parse (legacy_artifacts demo_parse (Some ''https://GitHub.com/o/r/pull/42/''))
       (Some ''https://GitHub.com/o/r/pull/42/'') (Some ''https://gitlab.com/g/s/r/-/merge_requests/7''))"
  using synchronized_artifacts [of "Some ''https://GitHub.com/o/r/pull/42/''"
      "Some ''https://gitlab.com/g/s/r/-/merge_requests/7''" demo_parse
      "legacy_artifacts demo_parse (Some ''https://GitHub.com/o/r/pull/42/'')"]
  by (simp add: list_all_iff)

end
