(* ===== verification/ArtifactInput.thy ===== *)
theory ArtifactInput
  imports Artifacts
begin

text \<open>
  Validation of the artifacts a client submits: \<open>validateTaskWorkflowArtifactsInput\<close> and the
  functions it calls in \<^verbatim>\<open>src/api/repo-workflow/task-artifacts.ts\<close>. Each \<open>throw\<close> of the source
  is an error value; its indexes are the ones the message carries.
\<close>

datatype file_error = FileNotObject | FilePathInvalid

datatype artifact_error =
    NotAnArray | TooMany | EntryNotObject nat | UnsupportedKey nat string | ProviderInvalid nat
  | KindInvalid nat | NotAString nat string | NotAnInteger nat string | DetailNotObject nat
  | DetailType nat | DetailVersion nat | DetailFile nat nat file_error | DetailInconsistent nat
  | DetailKind nat | DetailOnClean nat

definition artifact_keys :: "string list" where
  "artifact_keys = [''provider'', ''kind'', ''id'', ''number'', ''title'', ''url'', ''ref'', ''state'', ''detail'']"

definition max_files :: nat where
  "max_files = 200"

definition max_path :: nat where
  "max_path = 1024"

definition file_statuses :: "string list" where
  "file_statuses = [''added'', ''modified'', ''deleted'', ''renamed'', ''copied'', ''typechange'',
     ''untracked'', ''unknown'']"

definition as_optional_string :: "json option \<Rightarrow> string \<Rightarrow> nat \<Rightarrow> artifact_error + string option" where
  "as_optional_string v field i =
     (case v of None \<Rightarrow> Inr None | Some JNull \<Rightarrow> Inr None | Some (JStr s) \<Rightarrow> Inr (Some s)
      | Some _ \<Rightarrow> Inl (NotAString i field))"

definition as_optional_integer :: "json option \<Rightarrow> string \<Rightarrow> nat \<Rightarrow> artifact_error + int option" where
  "as_optional_integer v field i =
     (case v of None \<Rightarrow> Inr None | Some JNull \<Rightarrow> Inr None
      | Some (JNum (Fin q)) \<Rightarrow>
          if js_integer (Fin q) \<and> 0 \<le> q then Inr (Some \<lfloor>q\<rfloor>) else Inl (NotAnInteger i field)
      | Some _ \<Rightarrow> Inl (NotAnInteger i field))"

definition as_count :: "json option \<Rightarrow> int" where
  "as_count v = (case v of Some (JNum (Fin q)) \<Rightarrow> if 0 < q then \<lfloor>q\<rfloor> else 0 | _ \<Rightarrow> 0)"

definition kept_previous :: "json option \<Rightarrow> string option" where
  "kept_previous v =
     (case v of Some (JStr p) \<Rightarrow> if length p \<le> max_path then Some p else None | _ \<Rightarrow> None)"

definition known_status :: "json option \<Rightarrow> string" where
  "known_status v =
     (case v of Some (JStr s) \<Rightarrow> if s \<in> set file_statuses then s else ''unknown'' | _ \<Rightarrow> ''unknown'')"

definition sanitize_file :: "nat \<Rightarrow> nat \<Rightarrow> json \<Rightarrow> artifact_error + changed_file" where
  "sanitize_file i j v =
     (case as_record v of
        None \<Rightarrow> Inl (DetailFile i j FileNotObject)
      | Some r \<Rightarrow>
          (case jget ''path'' r of
             Some (JStr path) \<Rightarrow>
               if js_trim path = [] \<or> max_path < length path then Inl (DetailFile i j FilePathInvalid)
               else Inr \<lparr>cf_path = path,
                   cf_previous = kept_previous (jget ''previousPath'' r),
                   cf_status = known_status (jget ''status'' r),
                   cf_additions = as_count (jget ''additions'' r),
                   cf_deletions = as_count (jget ''deletions'' r),
                   cf_binary = (jget ''binary'' r = Some (JBool True)),
                   cf_staged = (jget ''staged'' r = Some (JBool True)),
                   cf_unstaged = (jget ''unstaged'' r = Some (JBool True)),
                   cf_untracked = (jget ''untracked'' r = Some (JBool True))\<rparr>
           | _ \<Rightarrow> Inl (DetailFile i j FilePathInvalid)))"

definition detail_files :: "json option \<Rightarrow> json list" where
  "detail_files v = (case v of Some (JArr xs) \<Rightarrow> xs | _ \<Rightarrow> [])"

definition sanitize_record :: "nat \<Rightarrow> json_record \<Rightarrow> artifact_error + change_summary" where
  "sanitize_record i r =
     (if jget ''type'' r \<noteq> Some (JStr ''change_summary'') then Inl (DetailType i)
      else if jget ''version'' r \<noteq> Some (JNum (Fin 1)) then Inl (DetailVersion i)
      else
       (let input = detail_files (jget ''files'' r)
        in bind_result (traverse (sanitize_file i) 0 (take max_files input)) (\<lambda>files.
           let dropped = max 0 (int (length input) - int (length files));
               changed = as_count (jget ''changedFileCount'' r);
               hidden = as_count (jget ''hiddenFileCount'' r) + dropped
           in if changed \<noteq> int (length files) + hidden then Inl (DetailInconsistent i)
              else Inr \<lparr>cs_changed = changed, cs_additions = as_count (jget ''additions'' r),
                       cs_deletions = as_count (jget ''deletions'' r),
                       cs_staged = as_count (jget ''stagedFileCount'' r),
                       cs_unstaged = as_count (jget ''unstagedFileCount'' r),
                       cs_untracked = as_count (jget ''untrackedFileCount'' r),
                       cs_hidden = hidden, cs_files = files\<rparr>)))"

definition sanitize_detail :: "nat \<Rightarrow> json option \<Rightarrow> artifact_error + change_summary option" where
  "sanitize_detail i v =
     (case v of
        None \<Rightarrow> Inr None
      | Some JNull \<Rightarrow> Inr None
      | Some j \<Rightarrow>
          (case as_record j of
             None \<Rightarrow> Inl (DetailNotObject i)
           | Some r \<Rightarrow> bind_result (sanitize_record i r) (\<lambda>d. Inr (Some d))))"

definition lookup_name :: "(string \<times> 'a) list \<Rightarrow> json option \<Rightarrow> 'a option" where
  "lookup_name names v = (case v of Some (JStr s) \<Rightarrow> map_of names s | _ \<Rightarrow> None)"

definition state_is_clean :: "json option \<Rightarrow> bool" where
  "state_is_clean v = (case v of Some (JStr s) \<Rightarrow> js_trim s = ''clean'' | _ \<Rightarrow> False)"

definition validate_fields :: "nat \<Rightarrow> json_record \<Rightarrow> artifact_error + artifact" where
  "validate_fields i r =
     bind_result (require (lookup_name provider_names (jget ''provider'' r)) (ProviderInvalid i)) (\<lambda>p.
     bind_result (require (lookup_name kind_names (jget ''kind'' r)) (KindInvalid i)) (\<lambda>k.
     bind_result (sanitize_detail i (jget ''detail'' r)) (\<lambda>detail.
     bind_result (guard_result (detail = None \<or> k = ChangeSummary) (DetailKind i)) (\<lambda>_.
     bind_result (guard_result (detail = None \<or> \<not> state_is_clean (jget ''state'' r)) (DetailOnClean i)) (\<lambda>_.
     bind_result (as_optional_string (jget ''id'' r) ''id'' i) (\<lambda>aid.
     bind_result (as_optional_integer (jget ''number'' r) ''number'' i) (\<lambda>num.
     bind_result (as_optional_string (jget ''title'' r) ''title'' i) (\<lambda>title.
     bind_result (as_optional_string (jget ''url'' r) ''url'' i) (\<lambda>url.
     bind_result (as_optional_string (jget ''ref'' r) ''ref'' i) (\<lambda>ref.
     bind_result (as_optional_string (jget ''state'' r) ''state'' i) (\<lambda>state.
     Inr \<lparr>ar_provider = p, ar_kind = k, ar_id = aid, ar_number = num, ar_title = title,
          ar_url = url, ar_ref = ref, ar_state = state, ar_detail = detail\<rparr>)))))))))))"

definition validate_record :: "nat \<Rightarrow> json_record \<Rightarrow> artifact_error + artifact" where
  "validate_record i r =
     (case filter (\<lambda>k. k \<notin> set artifact_keys) (map fst r) of
        k # _ \<Rightarrow> Inl (UnsupportedKey i k)
      | [] \<Rightarrow> validate_fields i r)"

definition validate_entry :: "nat \<Rightarrow> json \<Rightarrow> artifact_error + artifact" where
  "validate_entry i v =
     (case as_record v of None \<Rightarrow> Inl (EntryNotObject i) | Some r \<Rightarrow> validate_record i r)"

definition validate_artifacts_input :: "json option \<Rightarrow> artifact_error + artifact list option" where
  "validate_artifacts_input v =
     (case v of
        None \<Rightarrow> Inr None
      | Some (JArr xs) \<Rightarrow>
          if max_artifacts < length xs then Inl TooMany
          else bind_result (traverse validate_entry 0 xs) (\<lambda>as. Inr (Some as))
      | Some _ \<Rightarrow> Inl NotAnArray)"

section \<open>The document of an artifact\<close>

text \<open>\<open>JSON.stringify\<close> of a validated artifact, as it is stored and sent to clients.\<close>

definition opt_field :: "string \<Rightarrow> ('a \<Rightarrow> json) \<Rightarrow> 'a option \<Rightarrow> json_record" where
  "opt_field k f x = (case x of None \<Rightarrow> [] | Some a \<Rightarrow> [(k, f a)])"

definition count_json :: "int \<Rightarrow> json" where
  "count_json n = JNum (Fin (of_int n))"

definition nullable_json :: "string option \<Rightarrow> json" where
  "nullable_json x = (case x of None \<Rightarrow> JNull | Some s \<Rightarrow> JStr s)"

definition file_json :: "changed_file \<Rightarrow> json" where
  "file_json f = JObj
     [(''path'', JStr (cf_path f)), (''previousPath'', nullable_json (cf_previous f)),
      (''status'', JStr (cf_status f)), (''additions'', count_json (cf_additions f)),
      (''deletions'', count_json (cf_deletions f)), (''binary'', JBool (cf_binary f)),
      (''staged'', JBool (cf_staged f)), (''unstaged'', JBool (cf_unstaged f)),
      (''untracked'', JBool (cf_untracked f))]"

definition detail_json :: "change_summary \<Rightarrow> json" where
  "detail_json d = JObj
     [(''type'', JStr ''change_summary''), (''version'', JNum (Fin 1)),
      (''changedFileCount'', count_json (cs_changed d)), (''additions'', count_json (cs_additions d)),
      (''deletions'', count_json (cs_deletions d)), (''stagedFileCount'', count_json (cs_staged d)),
      (''unstagedFileCount'', count_json (cs_unstaged d)),
      (''untrackedFileCount'', count_json (cs_untracked d)),
      (''hiddenFileCount'', count_json (cs_hidden d)), (''files'', JArr (map file_json (cs_files d)))]"

definition artifact_json :: "artifact \<Rightarrow> json" where
  "artifact_json a = JObj
     ([(''provider'', JStr (provider_name (ar_provider a))), (''kind'', JStr (kind_name (ar_kind a)))] @
      opt_field ''id'' JStr (ar_id a) @ opt_field ''number'' count_json (ar_number a) @
      opt_field ''title'' JStr (ar_title a) @ opt_field ''url'' JStr (ar_url a) @
      opt_field ''ref'' JStr (ar_ref a) @ opt_field ''state'' JStr (ar_state a) @
      opt_field ''detail'' detail_json (ar_detail a))"

section \<open>What validation accepts\<close>

definition file_ok :: "changed_file \<Rightarrow> bool" where
  "file_ok f \<longleftrightarrow> js_trim (cf_path f) \<noteq> [] \<and> length (cf_path f) \<le> max_path \<and>
     (case cf_previous f of None \<Rightarrow> True | Some p \<Rightarrow> length p \<le> max_path) \<and>
     cf_status f \<in> set file_statuses \<and> 0 \<le> cf_additions f \<and> 0 \<le> cf_deletions f"

definition detail_ok :: "change_summary \<Rightarrow> bool" where
  "detail_ok d \<longleftrightarrow> length (cs_files d) \<le> max_files \<and> (\<forall>f \<in> set (cs_files d). file_ok f) \<and>
     cs_changed d = int (length (cs_files d)) + cs_hidden d \<and> 0 \<le> cs_hidden d \<and>
     0 \<le> cs_additions d \<and> 0 \<le> cs_deletions d \<and> 0 \<le> cs_staged d \<and> 0 \<le> cs_unstaged d \<and>
     0 \<le> cs_untracked d"

definition artifact_ok :: "artifact \<Rightarrow> bool" where
  "artifact_ok a \<longleftrightarrow>
     (case ar_number a of None \<Rightarrow> True | Some n \<Rightarrow> 0 \<le> n) \<and>
     (case ar_detail a of None \<Rightarrow> True
      | Some d \<Rightarrow> detail_ok d \<and> ar_kind a = ChangeSummary \<and>
          (case ar_state a of None \<Rightarrow> True | Some s \<Rightarrow> js_trim s \<noteq> ''clean''))"

lemma as_count_nonneg [simp]: "0 \<le> as_count v"
  by (auto simp: as_count_def split: option.splits json.splits js_num.splits)

lemma as_count_json [simp]: "0 \<le> n \<Longrightarrow> as_count (Some (count_json n)) = n"
  by (auto simp: as_count_def count_json_def)

lemma kept_previous_ok: "kept_previous v = Some p \<Longrightarrow> length p \<le> max_path"
  by (auto simp: kept_previous_def split: option.splits json.splits if_splits)

lemma known_status_ok: "known_status v \<in> set file_statuses"
proof -
  have "''unknown'' \<in> set file_statuses" by (simp add: file_statuses_def)
  then show ?thesis by (auto simp: known_status_def split: option.splits json.splits)
qed

lemma kept_previous_json [simp]:
  "(case x of None \<Rightarrow> True | Some p \<Rightarrow> length p \<le> max_path) \<Longrightarrow> kept_previous (Some (nullable_json x)) = x"
  by (cases x) (auto simp: kept_previous_def nullable_json_def)

lemma known_status_json [simp]: "s \<in> set file_statuses \<Longrightarrow> known_status (Some (JStr s)) = s"
  by (simp add: known_status_def)

lemma sanitize_file_ok: "sanitize_file i j v = Inr f \<Longrightarrow> file_ok f"
  using kept_previous_ok known_status_ok
  by (auto simp: sanitize_file_def file_ok_def split: option.splits json.splits if_splits)

lemma sanitize_file_json: "file_ok f \<Longrightarrow> sanitize_file i j (file_json f) = Inr f"
  by (simp add: sanitize_file_def file_json_def file_ok_def jget_def)

lemma sanitize_record_ok:
  assumes "sanitize_record i r = Inr d"
  shows "detail_ok d"
proof -
  let ?input = "detail_files (jget ''files'' r)"
  from assms obtain files where
      t: "traverse (sanitize_file i) 0 (take max_files ?input) = Inr files"
    and d: "cs_files d = files \<and> cs_changed d = int (length files) + cs_hidden d \<and> 0 \<le> cs_hidden d \<and>
      0 \<le> cs_additions d \<and> 0 \<le> cs_deletions d \<and> 0 \<le> cs_staged d \<and> 0 \<le> cs_unstaged d \<and>
      0 \<le> cs_untracked d"
    by (auto simp: sanitize_record_def Let_def bind_result_Inr split: if_splits)
  have "length files \<le> max_files" using traverse_length [OF t] by simp
  moreover have "file_ok f" if "f \<in> set files" for f
    using t that by (rule traverse_mem) (rule sanitize_file_ok)
  ultimately show ?thesis using d unfolding detail_ok_def by blast
qed

lemma detail_json_fields:
  "jget ''type'' r = Some (JStr ''change_summary'')" "jget ''version'' r = Some (JNum (Fin 1))"
  "jget ''changedFileCount'' r = Some (count_json (cs_changed d))"
  "jget ''additions'' r = Some (count_json (cs_additions d))"
  "jget ''deletions'' r = Some (count_json (cs_deletions d))"
  "jget ''stagedFileCount'' r = Some (count_json (cs_staged d))"
  "jget ''unstagedFileCount'' r = Some (count_json (cs_unstaged d))"
  "jget ''untrackedFileCount'' r = Some (count_json (cs_untracked d))"
  "jget ''hiddenFileCount'' r = Some (count_json (cs_hidden d))"
  "jget ''files'' r = Some (JArr (map file_json (cs_files d)))"
  if "as_record (detail_json d) = Some r"
  using that by (auto simp: detail_json_def jget_def)

lemma sanitize_record_json:
  assumes r: "as_record (detail_json d) = Some r" and ok: "detail_ok d"
  shows "sanitize_record i r = Inr d"
proof -
  have "traverse (sanitize_file i) 0 (take max_files (map file_json (cs_files d))) = Inr (cs_files d)"
    using ok by (auto simp: detail_ok_def intro!: traverse_map_ok sanitize_file_json)
  then show ?thesis
    using ok by (simp add: sanitize_record_def detail_json_fields [OF r] Let_def detail_ok_def detail_files_def)
qed

lemma sanitize_detail_ok: "sanitize_detail i v = Inr (Some d) \<Longrightarrow> detail_ok d"
  by (auto simp: sanitize_detail_def bind_result_Inr intro: sanitize_record_ok
      split: option.splits json.splits)

lemma sanitize_detail_json:
  assumes "detail_ok d"
  shows "sanitize_detail i (Some (detail_json d)) = Inr (Some d)"
proof -
  obtain r where r: "detail_json d = JObj r" by (simp add: detail_json_def)
  then have "sanitize_record i r = Inr d" using sanitize_record_json [of d r i] assms by simp
  with r show ?thesis by (simp add: sanitize_detail_def)
qed

lemma as_optional_integer_nonneg: "as_optional_integer v field i = Inr (Some n) \<Longrightarrow> 0 \<le> n"
  by (auto simp: as_optional_integer_def split: option.splits json.splits js_num.splits if_splits)

lemma as_optional_integer_json [simp]:
  "0 \<le> n \<Longrightarrow> as_optional_integer (Some (count_json n)) field i = Inr (Some n)"
  by (simp add: as_optional_integer_def count_json_def)

lemma as_optional_string_Some:
  "as_optional_string v field i = Inr (Some s) \<longleftrightarrow> v = Some (JStr s)"
  by (auto simp: as_optional_string_def split: option.splits json.splits)

lemma as_optional_string_None:
  "as_optional_string v field i = Inr None \<longleftrightarrow> v = None \<or> v = Some JNull"
  by (auto simp: as_optional_string_def split: option.splits json.splits)

lemma as_optional_string_field [simp]:
  "as_optional_string (map_option JStr x) field i = Inr x"
  by (cases x) (simp_all add: as_optional_string_Some as_optional_string_None)

lemma lookup_provider_name [simp]: "lookup_name provider_names (Some (JStr (provider_name p))) = Some p"
  by (cases p) (simp_all add: lookup_name_def provider_names_def)

lemma lookup_kind_name [simp]: "lookup_name kind_names (Some (JStr (kind_name k))) = Some k"
  by (cases k) (simp_all add: lookup_name_def kind_names_def)

lemma validate_record_Inr:
  "validate_record i r = Inr a \<longleftrightarrow> (\<forall>k \<in> fst ` set r. k \<in> set artifact_keys) \<and> validate_fields i r = Inr a"
proof (cases "filter (\<lambda>k. k \<notin> set artifact_keys) (map fst r)")
  case Nil
  then have "\<forall>k \<in> fst ` set r. k \<in> set artifact_keys" unfolding filter_empty_conv by simp
  with Nil show ?thesis by (simp add: validate_record_def)
next
  case (Cons k ks)
  then have "k \<in> set (filter (\<lambda>k. k \<notin> set artifact_keys) (map fst r))" by simp
  with Cons show ?thesis by (auto simp: validate_record_def)
qed

lemma validate_fields_Inr:
  "validate_fields i r = Inr a \<longleftrightarrow>
     lookup_name provider_names (jget ''provider'' r) = Some (ar_provider a) \<and>
     lookup_name kind_names (jget ''kind'' r) = Some (ar_kind a) \<and>
     sanitize_detail i (jget ''detail'' r) = Inr (ar_detail a) \<and>
     (ar_detail a = None \<or> ar_kind a = ChangeSummary) \<and>
     (ar_detail a = None \<or> \<not> state_is_clean (jget ''state'' r)) \<and>
     as_optional_string (jget ''id'' r) ''id'' i = Inr (ar_id a) \<and>
     as_optional_integer (jget ''number'' r) ''number'' i = Inr (ar_number a) \<and>
     as_optional_string (jget ''title'' r) ''title'' i = Inr (ar_title a) \<and>
     as_optional_string (jget ''url'' r) ''url'' i = Inr (ar_url a) \<and>
     as_optional_string (jget ''ref'' r) ''ref'' i = Inr (ar_ref a) \<and>
     as_optional_string (jget ''state'' r) ''state'' i = Inr (ar_state a)"
  unfolding validate_fields_def bind_result_Inr require_Inr guard_result_Inr sum.inject
  by (cases a) auto

lemma validate_record_ok:
  assumes "validate_record i r = Inr a"
  shows "artifact_ok a"
proof -
  note * = assms [unfolded validate_record_Inr validate_fields_Inr]
  have "\<not> state_is_clean (jget ''state'' r) \<Longrightarrow> ar_state a = Some s \<Longrightarrow> js_trim s \<noteq> ''clean''" for s
    using * by (auto simp: state_is_clean_def as_optional_string_Some)
  then show ?thesis
    using * sanitize_detail_ok as_optional_integer_nonneg
    by (auto simp: artifact_ok_def split: option.splits)
qed

lemma map_of_opt_field [simp]:
  "map_of (opt_field k f x @ kvs) k' = (if k' = k \<and> x \<noteq> None then map_option f x else map_of kvs k')"
  "map_of (opt_field k f x) k' = (if k' = k then map_option f x else None)"
  by (cases x; simp add: opt_field_def del: map_of_append)+

lemma keys_opt_field: "fst ` set (opt_field k f x) \<subseteq> {k}"
  by (auto simp: opt_field_def split: option.splits)

lemma validate_entry_json:
  assumes "artifact_ok a"
  shows "validate_entry i (artifact_json a) = Inr a"
proof -
  obtain r where r: "artifact_json a = JObj r" by (simp add: artifact_json_def)
  have keys: "k \<in> set artifact_keys" if "k \<in> fst ` set r" for k
    using that r keys_opt_field by (auto simp: artifact_json_def artifact_keys_def opt_field_def split: option.splits)
  have get: "jget ''provider'' r = Some (JStr (provider_name (ar_provider a)))"
    "jget ''kind'' r = Some (JStr (kind_name (ar_kind a)))"
    "jget ''id'' r = map_option JStr (ar_id a)" "jget ''number'' r = map_option count_json (ar_number a)"
    "jget ''title'' r = map_option JStr (ar_title a)" "jget ''url'' r = map_option JStr (ar_url a)"
    "jget ''ref'' r = map_option JStr (ar_ref a)" "jget ''state'' r = map_option JStr (ar_state a)"
    "jget ''detail'' r = map_option detail_json (ar_detail a)"
    using r by (auto simp: artifact_json_def jget_def simp del: map_of_append)
  have num: "as_optional_integer (map_option count_json (ar_number a)) ''number'' i = Inr (ar_number a)"
    using assms by (cases "ar_number a") (auto simp: artifact_ok_def as_optional_string_None as_optional_integer_def count_json_def)
  have detail: "sanitize_detail i (map_option detail_json (ar_detail a)) = Inr (ar_detail a)"
    using assms by (cases "ar_detail a") (simp_all add: artifact_ok_def sanitize_detail_json, simp add: sanitize_detail_def)
  have "validate_fields i r = Inr a"
    unfolding validate_fields_Inr get using num detail assms
    by (auto simp: artifact_ok_def state_is_clean_def split: option.splits)
  then show ?thesis using r keys by (simp add: validate_entry_def validate_record_Inr)
qed

lemma validated:
  assumes "validate_artifacts_input v = Inr (Some as)"
  shows "length as \<le> max_artifacts \<and> (\<forall>a \<in> set as. artifact_ok a)"
proof -
  from assms obtain xs where v: "v = Some (JArr xs)"
    by (auto simp: validate_artifacts_input_def split: option.splits json.splits)
  with assms have xs: "length xs \<le> max_artifacts" "traverse validate_entry 0 xs = Inr as"
    by (auto simp: validate_artifacts_input_def bind_result_Inr split: if_splits)
  have "artifact_ok a" if "a \<in> set as" for a
    using xs(2) that by (rule traverse_mem)
      (auto simp: validate_entry_def intro: validate_record_ok split: option.splits)
  with xs traverse_length [OF xs(2)] show ?thesis by simp
qed

section \<open>The properties\<close>

text \<open>Validation accepts only well-formed artifacts: at most 32, numbers and all counts are
  non-negative, a structured detail only appears on a change summary whose state is not clean, it
  lists at most 200 files with non-blank paths of at most 1024 characters and known statuses, and
  its changed-file count is the listed files plus the hidden ones.\<close>

theorem validated_artifacts_ok:
  assumes "validate_artifacts_input v = Inr (Some as)"
  shows "length as \<le> 32 \<and> (\<forall>a \<in> set as. artifact_ok a)"
  using validated [OF assms] by (simp add: max_artifacts_def)

definition demo_summary :: artifact where
  "demo_summary = (artifact_of Github ChangeSummary)\<lparr>ar_number := Some 7, ar_state := Some ''dirty'',
     ar_detail := Some \<lparr>cs_changed = 3, cs_additions = 10, cs_deletions = 0, cs_staged = 0, cs_unstaged = 1,
       cs_untracked = 0, cs_hidden = 2, cs_files = [\<lparr>cf_path = ''a.ts'', cf_previous = None,
       cf_status = ''modified'', cf_additions = 10, cf_deletions = 0, cf_binary = False, cf_staged = False,
       cf_unstaged = True, cf_untracked = False\<rparr>]\<rparr>\<rparr>"

lemma demo_summary_ok: "artifact_ok demo_summary"
  by code_simp

theorem validated_artifacts_ok_witness:
  "length [demo_summary] \<le> 32 \<and> artifact_ok demo_summary"
  using validated_artifacts_ok [of "Some (JArr [artifact_json demo_summary])" "[demo_summary]"]
  by (simp add: validate_artifacts_input_def validate_entry_json [OF demo_summary_ok] max_artifacts_def)

text \<open>Validation is a round trip: the stored document of artifacts that validation once
  returned is accepted again and gives the same artifacts, so sanitizing is stable.\<close>

theorem validation_roundtrip:
  assumes "validate_artifacts_input v = Inr (Some as)"
  shows "validate_artifacts_input (Some (JArr (map artifact_json as))) = Inr (Some as)"
proof -
  have "traverse validate_entry 0 (map artifact_json as) = Inr as"
    using validated [OF assms] by (intro traverse_map_ok validate_entry_json) simp
  then show ?thesis using validated [OF assms] by (simp add: validate_artifacts_input_def)
qed

theorem validation_roundtrip_witness:
  "validate_artifacts_input (Some (JArr (map artifact_json [demo_summary]))) = Inr (Some [demo_summary])"
  by (rule validation_roundtrip [of "Some (JArr [artifact_json demo_summary])"])
    (simp add: validate_artifacts_input_def validate_entry_json [OF demo_summary_ok] max_artifacts_def)

end
