(* ===== verification/CoordinationPolicy.thy ===== *)
theory CoordinationPolicy
  imports LeaseStore Artifacts
begin

text \<open>
  The decisions of task coordination, \<^verbatim>\<open>src/api/coordination-policy/\<close>: who holds a lease
  (\<^verbatim>\<open>leases.ts\<close>), which locks apply (\<^verbatim>\<open>locks.ts\<close>), whether a mutation is allowed
  (\<^verbatim>\<open>mutations.ts\<close>, \<^verbatim>\<open>workflow-artifacts.ts\<close>), who may review (\<^verbatim>\<open>review.ts\<close>) and whether new
  work duplicates existing work (\<^verbatim>\<open>identity.ts\<close>, \<^verbatim>\<open>duplicates.ts\<close>). Leases are the rows of
  \<open>LeaseStore\<close>; the messages of denials are the source's.
\<close>

section \<open>Data\<close>

record actor =
  ca_label :: "string option"
  ca_agent_key :: "string option"
  ca_instance :: "string option"
  ca_session :: "string option"

datatype lock_scope = RoomScope | TaskScope
datatype lock_reason = HumanStop | DuplicateLock | ManagerPause | RevokedLock | PolicyLock

record coord_lock =
  lk_id :: string
  lk_room :: string
  lk_task :: "string option"
  lk_scope :: lock_scope
  lk_reason :: lock_reason
  lk_message :: "string option"
  lk_cleared_at :: "int option"

datatype mutation =
    TaskAdmit | TaskClaim | TaskUpdate | TaskComplete | FocusRoomOpen | FocusRoomConclude
  | WorkflowArtifactAttach | WebhookProjection

datatype deny_code =
    ActiveLock | MissingActor | MissingLease | WrongLeaseKind | WrongActor | WrongWorkflowArtifact

datatype decision =
    Allow task_lease
  | Deny deny_code string "coord_lock option" "task_lease option"

fun mutation_name :: "mutation \<Rightarrow> string" where
  "mutation_name TaskAdmit = ''task_admit''"
| "mutation_name TaskClaim = ''task_claim''"
| "mutation_name TaskUpdate = ''task_update''"
| "mutation_name TaskComplete = ''task_complete''"
| "mutation_name FocusRoomOpen = ''focus_room_open''"
| "mutation_name FocusRoomConclude = ''focus_room_conclude''"
| "mutation_name WorkflowArtifactAttach = ''workflow_artifact_attach''"
| "mutation_name WebhookProjection = ''webhook_projection''"

fun lock_reason_name :: "lock_reason \<Rightarrow> string" where
  "lock_reason_name HumanStop = ''human_stop''"
| "lock_reason_name DuplicateLock = ''duplicate''"
| "lock_reason_name ManagerPause = ''manager_pause''"
| "lock_reason_name RevokedLock = ''revoked''"
| "lock_reason_name PolicyLock = ''policy''"

fun lease_kind_name :: "lease_kind \<Rightarrow> string" where
  "lease_kind_name Work = ''work''"
| "lease_kind_name Review = ''review''"

section \<open>Leases and locks\<close>

definition is_active_lease :: "int \<Rightarrow> task_lease \<Rightarrow> bool" where
  "is_active_lease now l \<longleftrightarrow>
     tl_status l = Active \<and> (case tl_expires_at l of None \<Rightarrow> True | Some e \<Rightarrow> now < e)"

definition lease_matches_actor :: "task_lease \<Rightarrow> actor \<Rightarrow> bool" where
  "lease_matches_actor l a =
     (if \<not> truthy (ca_agent_key a) \<or> Some (tl_agent_key l) \<noteq> ca_agent_key a then False
      else if truthy (tl_session l) then tl_session l = ca_session a
      else if truthy (tl_instance l) then tl_instance l = ca_instance a
      else True)"

definition find_actor_lease ::
  "task_lease list \<Rightarrow> string \<Rightarrow> lease_kind \<Rightarrow> actor \<Rightarrow> int \<Rightarrow> task_lease option" where
  "find_actor_lease ls task kind a now =
     List.find (\<lambda>l. tl_task l = task \<and> tl_kind l = kind \<and> is_active_lease now l \<and>
                    lease_matches_actor l a) ls"

definition is_active_lock :: "coord_lock \<Rightarrow> bool" where
  "is_active_lock k \<longleftrightarrow> lk_cleared_at k = None"

definition lock_applies :: "coord_lock \<Rightarrow> string option \<Rightarrow> bool" where
  "lock_applies k task =
     (if \<not> is_active_lock k then False
      else if lk_scope k = RoomScope then True
      else truthy task \<and> lk_task k = task)"

definition find_applicable_lock :: "coord_lock list \<Rightarrow> string option \<Rightarrow> coord_lock option" where
  "find_applicable_lock ks task = List.find (\<lambda>k. lock_applies k task) ks"

section \<open>Mutations\<close>

definition locked_reason :: "mutation \<Rightarrow> coord_lock \<Rightarrow> string" where
  "locked_reason m k = ''Mutation '' @ mutation_name m @ '' is blocked by '' @
     lock_reason_name (lk_reason k) @ '' lock '' @ lk_id k @ ''.''"

text \<open>The three denials after the actor's lease was not found among the active leases.\<close>

definition deny_mutation :: "mutation \<Rightarrow> lease_kind \<Rightarrow> actor \<Rightarrow> task_lease list \<Rightarrow> decision" where
  "deny_mutation m kind a active =
     (let missing = Deny MissingLease (''Mutation '' @ mutation_name m @ '' requires an active '' @
            lease_kind_name kind @ '' lease.'') None None;
          not_own = (case List.find (\<lambda>l. tl_kind l = kind) active of
              Some l \<Rightarrow>
                if \<not> lease_matches_actor l a then
                  Deny WrongActor (''Mutation '' @ mutation_name m @ '' requires lease '' @ tl_id l @
                    '', which belongs to a different agent.'') None (Some l)
                else missing
            | None \<Rightarrow> missing)
      in case List.find (\<lambda>l. lease_matches_actor l a) active of
           Some l \<Rightarrow>
             if tl_kind l \<noteq> kind then
               Deny WrongLeaseKind (''Mutation '' @ mutation_name m @ '' requires a '' @
                 lease_kind_name kind @ '' lease, but actor holds '' @ lease_kind_name (tl_kind l) @
                 '' lease '' @ tl_id l @ ''.'') None (Some l)
             else not_own
         | None \<Rightarrow> not_own)"

definition evaluate_mutation ::
  "mutation \<Rightarrow> string \<Rightarrow> lease_kind \<Rightarrow> actor \<Rightarrow> task_lease list \<Rightarrow> coord_lock list \<Rightarrow> int \<Rightarrow> decision" where
  "evaluate_mutation m task kind a ls ks now =
     (case find_applicable_lock ks (Some task) of
        Some k \<Rightarrow> Deny ActiveLock (locked_reason m k) (Some k) None
      | None \<Rightarrow>
        if \<not> truthy (ca_agent_key a) then
          Deny MissingActor (''Mutation '' @ mutation_name m @ '' requires an authenticated agent key.'') None None
        else
         (let active = filter (\<lambda>l. tl_task l = task \<and> is_active_lease now l) ls
          in case find_actor_lease active task kind a now of
               Some l \<Rightarrow> Allow l
             | None \<Rightarrow> deny_mutation m kind a active))"

section \<open>Workflow artifacts\<close>

definition normalize_workflow_ref :: "string option \<Rightarrow> string option" where
  "normalize_workflow_ref v =
     (if truthy v then (if js_trim (the v) = [] then None else Some (js_trim (the v))) else None)"

definition branch_refs_match :: "string \<Rightarrow> string \<Rightarrow> bool" where
  "branch_refs_match l r \<longleftrightarrow> l = r \<or> l = ''refs/heads/'' @ r \<or> ''refs/heads/'' @ l = r"

definition lease_matches_artifact :: "task_lease \<Rightarrow> string option \<Rightarrow> string option \<Rightarrow> bool" where
  "lease_matches_artifact l pr branch =
     (let p = normalize_workflow_ref pr; b = normalize_workflow_ref branch;
          lp = normalize_workflow_ref (tl_pr_url l); lb = normalize_workflow_ref (tl_branch l)
      in if p \<noteq> None \<and> lp \<noteq> None \<and> p = lp then True
         else if b \<noteq> None \<and> lb \<noteq> None \<and> branch_refs_match (the lb) (the b) then True
         else False)"

definition find_artifact_lease ::
  "task_lease list \<Rightarrow> string \<Rightarrow> string option \<Rightarrow> string option \<Rightarrow> int \<Rightarrow> task_lease option" where
  "find_artifact_lease ls task pr branch now =
     List.find (\<lambda>l. tl_task l = task \<and> tl_kind l = Work \<and> is_active_lease now l \<and>
                    lease_matches_artifact l pr branch) ls"

definition evaluate_artifact_mutation ::
  "mutation \<Rightarrow> string \<Rightarrow> task_lease list \<Rightarrow> coord_lock list \<Rightarrow> string option \<Rightarrow> string option \<Rightarrow> int
   \<Rightarrow> decision" where
  "evaluate_artifact_mutation m task ls ks pr branch now =
     (case find_applicable_lock ks (Some task) of
        Some k \<Rightarrow> Deny ActiveLock (locked_reason m k) (Some k) None
      | None \<Rightarrow>
        (case find_artifact_lease ls task pr branch now of
           Some l \<Rightarrow> Allow l
         | None \<Rightarrow>
           (case List.find (\<lambda>l. tl_task l = task \<and> tl_kind l = Work \<and> is_active_lease now l) ls of
              Some l \<Rightarrow> Deny WrongWorkflowArtifact (''Mutation '' @ mutation_name m @
                 '' requires a workflow artifact matching active work lease '' @ tl_id l @ ''.'') None (Some l)
            | None \<Rightarrow> Deny MissingLease (''Mutation '' @ mutation_name m @
                 '' requires an active work lease matching the workflow artifact.'') None None)))"

section \<open>Review\<close>

datatype review_deny = ReviewMissingActor | UnassignedReviewer | WorkLeaseHolder

datatype review_routing =
    ReviewAllow "task_lease option" "task_lease option"
  | ReviewDeny review_deny string "task_lease option"

definition evaluate_review_routing ::
  "string \<Rightarrow> actor \<Rightarrow> task_lease list \<Rightarrow> string list option \<Rightarrow> int \<Rightarrow> review_routing" where
  "evaluate_review_routing task a ls reviewers now =
     (if \<not> truthy (ca_agent_key a) then
        ReviewDeny ReviewMissingActor ''Review lease routing requires an authenticated agent key.'' None
      else
       (let key = the (ca_agent_key a)
        in if (case reviewers of None \<Rightarrow> False | Some ks \<Rightarrow> key \<notin> set ks) then
             ReviewDeny UnassignedReviewer
               (''Agent '' @ key @ '' is not assigned to review '' @ task @ ''.'') None
           else
            (let active = filter (\<lambda>l. tl_task l = task \<and> is_active_lease now l) ls;
                 work = List.find (\<lambda>l. tl_kind l = Work) active
             in case work of
                  Some w \<Rightarrow>
                    if tl_agent_key w = key then
                      ReviewDeny WorkLeaseHolder (''Agent '' @ key @ '' holds work lease '' @ tl_id w @
                        '' and cannot review '' @ task @ ''.'') (Some w)
                    else ReviewAllow work (find_actor_lease active task Review a now)
                | None \<Rightarrow> ReviewAllow work (find_actor_lease active task Review a now))))"

definition find_review_lease_for_merge ::
  "string \<Rightarrow> task_lease list \<Rightarrow> int \<Rightarrow> task_lease option" where
  "find_review_lease_for_merge task ls now =
     (let active = filter (\<lambda>l. tl_task l = task \<and> is_active_lease now l) ls;
          work = List.find (\<lambda>l. tl_kind l = Work) active
      in List.find (\<lambda>l. tl_kind l = Review \<and>
           (case work of None \<Rightarrow> True | Some w \<Rightarrow> tl_agent_key l \<noteq> tl_agent_key w)) active)"

section \<open>Duplicate work\<close>

record coord_task =
  ct_id :: string
  ct_room :: string
  ct_status :: "string option"
  ct_source_message :: "string option"
  ct_pr_url :: "string option"
  ct_artifacts :: "artifact list"

record focus_room =
  fr_room :: string
  fr_key :: "string option"
  fr_source_task :: "string option"
  fr_status :: "string option"

record work_intent =
  wi_source_message :: "string option"
  wi_source_task :: "string option"
  wi_branch :: "string option"
  wi_pr_url :: "string option"
  wi_output :: "string option"
  wi_artifacts :: "artifact list"

datatype duplicate_reason =
    SourceMessage | SourceTask | FocusRoomDup | PrUrl | WorkflowArtifactDup | LeaseBranchRef
  | LeasePrUrl | LeaseOutputIntent

record duplicate_match =
  dm_reason :: duplicate_reason
  dm_task_id :: string
  dm_value :: string
  dm_task :: "coord_task option"
  dm_lease :: "task_lease option"
  dm_focus :: "focus_room option"
  dm_artifact :: "artifact option"

fun duplicate_reason_name :: "duplicate_reason \<Rightarrow> string" where
  "duplicate_reason_name SourceMessage = ''source_message''"
| "duplicate_reason_name SourceTask = ''source_task''"
| "duplicate_reason_name FocusRoomDup = ''focus_room''"
| "duplicate_reason_name PrUrl = ''pr_url''"
| "duplicate_reason_name WorkflowArtifactDup = ''workflow_artifact''"
| "duplicate_reason_name LeaseBranchRef = ''lease_branch_ref''"
| "duplicate_reason_name LeasePrUrl = ''lease_pr_url''"
| "duplicate_reason_name LeaseOutputIntent = ''lease_output_intent''"

definition normalize_identity :: "string option \<Rightarrow> string option" where
  "normalize_identity v =
     (case v of None \<Rightarrow> None | Some s \<Rightarrow> if js_trim s = [] then None else Some (js_trim s))"

definition normalize_url_identity :: "string option \<Rightarrow> string option" where
  "normalize_url_identity v = map_option strip_slashes (normalize_identity v)"

definition is_open_task :: "coord_task \<Rightarrow> bool" where
  "is_open_task t \<longleftrightarrow> ct_status t \<noteq> Some ''done'' \<and> ct_status t \<noteq> Some ''cancelled''"

definition artifact_identity_values :: "artifact \<Rightarrow> string list" where
  "artifact_identity_values a =
     (let lead = provider_name (ar_provider a) @ '':'' @ kind_name (ar_kind a);
          url = normalize_url_identity (ar_url a)
      in (if truthy url then [''url:'' @ the url] else []) @
         (if truthy (ar_id a) then [lead @ '':id:'' @ the (ar_id a)] else []) @
         (case ar_number a of None \<Rightarrow> [] | Some n \<Rightarrow> [lead @ '':number:'' @ show_int n]) @
         (if truthy (ar_ref a) then [lead @ '':ref:'' @ the (ar_ref a)] else []))"

definition artifacts_share_identity :: "artifact \<Rightarrow> artifact \<Rightarrow> string option" where
  "artifacts_share_identity l r =
     List.find (\<lambda>v. v \<in> set (artifact_identity_values r)) (artifact_identity_values l)"

section \<open>Lemmas\<close>

lemma find_actor_lease_SomeD:
  "find_actor_lease ls task kind a now = Some l \<Longrightarrow>
     l \<in> set ls \<and> tl_task l = task \<and> tl_kind l = kind \<and> is_active_lease now l \<and> lease_matches_actor l a"
  unfolding find_actor_lease_def by (auto dest: find_SomeD)

lemma find_actor_lease_None:
  "find_actor_lease ls task kind a now = None \<longleftrightarrow>
     (\<forall>l \<in> set ls. \<not> (tl_task l = task \<and> tl_kind l = kind \<and> is_active_lease now l \<and> lease_matches_actor l a))"
  by (auto simp: find_actor_lease_def find_None_iff)

lemma lease_matches_actor_key: "lease_matches_actor l a \<Longrightarrow> ca_agent_key a = Some (tl_agent_key l) \<and> tl_agent_key l \<noteq> []"
  by (auto simp: lease_matches_actor_def truthy_iff split: if_splits)

text \<open>The lease of a mutation: active, of the task and kind, and held by the actor.\<close>

definition holds_lease :: "string \<Rightarrow> lease_kind \<Rightarrow> actor \<Rightarrow> int \<Rightarrow> task_lease \<Rightarrow> bool" where
  "holds_lease task kind a now l \<longleftrightarrow>
     tl_task l = task \<and> tl_kind l = kind \<and> is_active_lease now l \<and> lease_matches_actor l a"

lemma find_actor_lease_filter:
  "find_actor_lease (filter (\<lambda>l. tl_task l = task \<and> is_active_lease now l) ls) task kind a now =
   List.find (holds_lease task kind a now) ls"
  unfolding find_actor_lease_def by (induction ls) (auto simp: holds_lease_def)

lemma holds_lease_key: "holds_lease task kind a now l \<Longrightarrow> truthy (ca_agent_key a)"
  unfolding holds_lease_def using lease_matches_actor_key by (auto simp: truthy_iff)

lemma evaluate_mutation_Allow:
  "evaluate_mutation m task kind a ls ks now = Allow l \<longleftrightarrow>
     find_applicable_lock ks (Some task) = None \<and> List.find (holds_lease task kind a now) ls = Some l"
proof -
  have "truthy (ca_agent_key a)" if "List.find (holds_lease task kind a now) ls = Some l"
    using find_SomeD [OF that] holds_lease_key by blast
  moreover have "deny_mutation m kind a active \<noteq> Allow l" for active
    by (simp add: deny_mutation_def Let_def split: option.split)
  ultimately show ?thesis
    unfolding evaluate_mutation_def Let_def find_actor_lease_filter
    by (auto split: option.split)
qed

lemma deny_mutation_cases:
  obtains (wrong_kind) l s where "deny_mutation m kind a active = Deny WrongLeaseKind s None (Some l)"
      "l \<in> set active" "lease_matches_actor l a" "tl_kind l \<noteq> kind"
    | (wrong_actor) l s where "deny_mutation m kind a active = Deny WrongActor s None (Some l)"
      "l \<in> set active" "tl_kind l = kind" "\<not> lease_matches_actor l a"
    | (missing) s where "deny_mutation m kind a active = Deny MissingLease s None None"
      "\<forall>l \<in> set active. tl_kind l \<noteq> kind"
    | (own) l where "l \<in> set active" "tl_kind l = kind" "lease_matches_actor l a"
proof (cases "List.find (\<lambda>l. lease_matches_actor l a) active")
  case (Some l)
  note l = find_SomeD [OF Some]
  show thesis
  proof (cases "tl_kind l = kind")
    case True
    with l show thesis by (intro own) auto
  next
    case False
    with Some l show thesis by (intro wrong_kind [of _ l]) (auto simp: deny_mutation_def)
  qed
next
  case none: None
  show thesis
  proof (cases "List.find (\<lambda>l. tl_kind l = kind) active")
    case None
    then have "\<forall>l \<in> set active. tl_kind l \<noteq> kind" by (auto dest: find_NoneD)
    with none None show thesis by (intro missing) (auto simp: deny_mutation_def)
  next
    case (Some l)
    note l = find_SomeD [OF Some]
    with none have "\<not> lease_matches_actor l a" by (auto dest: find_NoneD)
    with none Some l show thesis by (intro wrong_actor [of _ l]) (auto simp: deny_mutation_def)
  qed
qed

text \<open>The active leases of a room read from a well-formed table: a task has one work lease.\<close>

lemma active_leases_facts:
  assumes "get_active_task_leases room t now db = (rs, db')" "l \<in> set rs"
  shows "l \<in> set (leases db') \<and> tl_room l = room \<and> is_active_lease now l"
  using assms by (auto simp: get_active_task_leases_def Let_def is_active_lease_def)

lemma one_active_work_lease:
  assumes wf: "leases_wf (leases db)" and get: "get_active_task_leases room t now db = (rs, db')"
    and l: "l \<in> set rs" "tl_kind l = Work" and l': "l' \<in> set rs" "tl_kind l' = Work" "tl_task l' = tl_task l"
  shows "l' = l"
proof -
  have wf': "leases_wf (leases db')" using get_active_task_leases_wf [OF wf get] .
  have "lease_conflict l' l"
    using active_leases_facts [OF get l(1)] active_leases_facts [OF get l'(1)] l l'
    by (simp add: lease_conflict_def is_active_lease_def)
  then have "tl_id l' = tl_id l"
    using wf' active_leases_facts [OF get l(1)] active_leases_facts [OF get l'(1)]
    unfolding leases_wf_def by blast
  then show ?thesis
    using leases_wf_key [OF wf'] active_leases_facts [OF get l(1)] active_leases_facts [OF get l'(1)] by blast
qed

lemma find_work_lease:
  assumes wf: "leases_wf (leases db)" and get: "get_active_task_leases room t now db = (rs, db')"
    and l: "l \<in> set rs" "tl_kind l = Work" "tl_task l = task"
  shows "List.find (\<lambda>l. tl_kind l = Work) (filter (\<lambda>l. tl_task l = task \<and> is_active_lease now l) rs) = Some l"
    (is "List.find ?p ?active = _")
proof -
  have "l \<in> set ?active" using active_leases_facts [OF get l(1)] l by simp
  then obtain w where w: "List.find ?p ?active = Some w"
    using l(2) by (cases "List.find ?p ?active") (auto dest: find_NoneD)
  then have "w \<in> set rs" "tl_kind w = Work" "tl_task w = task" using find_SomeD [OF w] by auto
  then have "w = l" using one_active_work_lease [OF wf get l(1,2)] l(3) by simp
  with w show ?thesis by simp
qed

section \<open>The properties\<close>

text \<open>C35: A mutation is allowed exactly when no lock of the room or the task is in force and the
  actor itself holds an active lease of the required kind on the task: same agent key, and the
  session the lease is bound to, or else the instance. The lease returned is such a lease.\<close>

theorem mutation_allowed_iff:
  "((\<exists>l. evaluate_mutation m task kind a ls ks now = Allow l) \<longleftrightarrow>
     \<not> (\<exists>k \<in> set ks. lock_applies k (Some task)) \<and> (\<exists>l \<in> set ls. holds_lease task kind a now l)) \<and>
   \<not> (\<exists>l. evaluate_mutation m task kind a ls ks now = Allow l \<and> \<not> (l \<in> set ls \<and> holds_lease task kind a now l))"
proof -
  have "(\<exists>l. List.find (holds_lease task kind a now) ls = Some l) \<longleftrightarrow> (\<exists>l \<in> set ls. holds_lease task kind a now l)"
    using find_None_iff [of "holds_lease task kind a now" ls] by auto
  moreover have "find_applicable_lock ks (Some task) = None \<longleftrightarrow> \<not> (\<exists>k \<in> set ks. lock_applies k (Some task))"
    by (auto simp: find_applicable_lock_def find_None_iff)
  ultimately show ?thesis
    unfolding evaluate_mutation_Allow using find_SomeD [of "holds_lease task kind a now" ls] by blast
qed

text \<open>A denial says why, in this order: a lock in force; no agent key; the actor's first active
  lease on the task is of the other kind; the required lease exists but another agent holds it;
  otherwise there is no active lease of that kind on the task.\<close>

theorem mutation_denial_code:
  "(case evaluate_mutation m task kind a ls ks now of
      Allow l \<Rightarrow> True
    | Deny ActiveLock _ k l \<Rightarrow> l = None \<and> (\<exists>x \<in> set ks. k = Some x \<and> lock_applies x (Some task))
    | Deny MissingActor _ k l \<Rightarrow> k = None \<and> l = None \<and> \<not> truthy (ca_agent_key a)
    | Deny WrongLeaseKind _ k l \<Rightarrow> k = None \<and> truthy (ca_agent_key a) \<and>
        (\<exists>x \<in> set ls. l = Some x \<and> tl_kind x \<noteq> kind \<and> holds_lease task (tl_kind x) a now x)
    | Deny WrongActor _ k l \<Rightarrow> k = None \<and> truthy (ca_agent_key a) \<and>
        (\<exists>x \<in> set ls. l = Some x \<and> tl_task x = task \<and> tl_kind x = kind \<and> is_active_lease now x \<and>
           \<not> lease_matches_actor x a)
    | Deny MissingLease _ k l \<Rightarrow> k = None \<and> l = None \<and> truthy (ca_agent_key a) \<and>
        \<not> (\<exists>x \<in> set ls. tl_task x = task \<and> tl_kind x = kind \<and> is_active_lease now x)
    | Deny WrongWorkflowArtifact _ k l \<Rightarrow> False)"
proof (cases "find_applicable_lock ks (Some task)")
  case (Some k)
  then show ?thesis
    using find_SomeD [OF Some [unfolded find_applicable_lock_def]] by (simp add: evaluate_mutation_def)
next
  case None
  let ?active = "filter (\<lambda>l. tl_task l = task \<and> is_active_lease now l) ls"
  consider "\<not> truthy (ca_agent_key a)"
    | l where "truthy (ca_agent_key a)" "List.find (holds_lease task kind a now) ls = Some l"
    | "truthy (ca_agent_key a)" "List.find (holds_lease task kind a now) ls = None"
    by (cases "List.find (holds_lease task kind a now) ls") auto
  then show ?thesis
  proof cases
    case 3
    have eq: "evaluate_mutation m task kind a ls ks now = deny_mutation m kind a ?active"
      using 3 by (simp add: evaluate_mutation_def find_actor_lease_filter None)
    show ?thesis
    proof (cases rule: deny_mutation_cases [of m kind a ?active])
      case (own l)
      then show ?thesis using find_NoneD [OF 3(2), of l] by (simp add: holds_lease_def)
    qed (use 3(1) in \<open>auto simp: eq holds_lease_def\<close>)
  qed (simp_all add: evaluate_mutation_def find_actor_lease_filter None)
qed

text \<open>Nobody reviews their own work: when review routing admits an agent over the active leases
  of a room, the agent has a key, is on the reviewer list if there is one, and is not the agent of
  the task's active work lease; the lease it is shown as the work lease is that lease.\<close>

theorem reviewer_is_not_the_implementer:
  assumes "leases_wf (leases db)" "get_active_task_leases room t now db = (rs, db')"
    and "evaluate_review_routing task a rs reviewers now = ReviewAllow work mine"
  shows "truthy (ca_agent_key a) \<and>
    (case reviewers of None \<Rightarrow> True | Some ks \<Rightarrow> the (ca_agent_key a) \<in> set ks) \<and>
    (\<forall>l \<in> set rs. tl_kind l = Work \<longrightarrow> tl_task l = task \<longrightarrow>
       work = Some l \<and> ca_agent_key a \<noteq> Some (tl_agent_key l))"
proof (intro conjI ballI impI)
  show "truthy (ca_agent_key a)"
    using assms(3) by (auto simp: evaluate_review_routing_def split: if_splits)
  show "case reviewers of None \<Rightarrow> True | Some ks \<Rightarrow> the (ca_agent_key a) \<in> set ks"
    using assms(3) by (auto simp: evaluate_review_routing_def Let_def split: if_splits option.splits)
next
  fix l assume l: "l \<in> set rs" "tl_kind l = Work" "tl_task l = task"
  note w = find_work_lease [OF assms(1,2) l]
  show "work = Some l" "ca_agent_key a \<noteq> Some (tl_agent_key l)"
    using assms(3) by (auto simp: evaluate_review_routing_def Let_def w split: if_splits)
qed

definition policy_lease :: "string \<Rightarrow> lease_kind \<Rightarrow> string \<Rightarrow> task_lease" where
  "policy_lease i kind key = create_task_lease_row i
     \<lparr>li_room = ''room'', li_task = ''task_1'', li_kind = kind, li_agent_key = key, li_label = key,
      li_created_by = ''manager'', li_instance = None, li_session = None, li_branch = Some ''feature'',
      li_pr_url = None, li_output = None, li_expires_at = None\<rparr> 5"

definition policy_db :: coord_db where
  "policy_db = \<lparr>leases = [policy_lease ''l1'' Work ''builder'', policy_lease ''l2'' Review ''reviewer''],
     sessions = [], grants = [], bearers = [], attestations = []\<rparr>"

definition policy_actor :: "string \<Rightarrow> actor" where
  "policy_actor key = \<lparr>ca_label = None, ca_agent_key = Some key, ca_instance = None, ca_session = None\<rparr>"

theorem reviewer_is_not_the_implementer_witness:
  "truthy (ca_agent_key (policy_actor ''reviewer'')) \<and>
   Some (policy_lease ''l1'' Work ''builder'') = Some (policy_lease ''l1'' Work ''builder'') \<and>
   ca_agent_key (policy_actor ''reviewer'') \<noteq> Some (tl_agent_key (policy_lease ''l1'' Work ''builder''))"
proof -
  let ?rs = "[policy_lease ''l1'' Work ''builder'', policy_lease ''l2'' Review ''reviewer'']"
  have 1: "leases_wf (leases policy_db)" by code_simp
  have 2: "get_active_task_leases ''room'' None 9 policy_db = (?rs, policy_db)" by code_simp
  have 3: "evaluate_review_routing ''task_1'' (policy_actor ''reviewer'') ?rs (Some [''reviewer'']) 9 =
     ReviewAllow (Some (policy_lease ''l1'' Work ''builder'')) (Some (policy_lease ''l2'' Review ''reviewer''))"
    by code_simp
  have 4: "tl_kind (policy_lease ''l1'' Work ''builder'') = Work"
    "tl_task (policy_lease ''l1'' Work ''builder'') = ''task_1''" by code_simp+
  show ?thesis using reviewer_is_not_the_implementer [OF 1 2 3] 4 by simp
qed

text \<open>The review that permits a merge is independent: over the active leases of a room, the
  lease found for the merge is an active review lease of the task whose agent differs from the
  agent of the task's work lease, and none is found exactly when no such lease exists.\<close>

theorem merge_review_is_independent:
  assumes "leases_wf (leases db)" "get_active_task_leases room t now db = (rs, db')"
  shows "(find_review_lease_for_merge task rs now = None \<longleftrightarrow>
      \<not> (\<exists>r \<in> set rs. tl_task r = task \<and> tl_kind r = Review \<and>
          (\<forall>l \<in> set rs. tl_task l = task \<longrightarrow> tl_kind l = Work \<longrightarrow> tl_agent_key l \<noteq> tl_agent_key r))) \<and>
    (\<forall>r. find_review_lease_for_merge task rs now = Some r \<longrightarrow>
      r \<in> set rs \<and> tl_task r = task \<and> tl_kind r = Review \<and> is_active_lease now r \<and>
      (\<forall>l \<in> set rs. tl_task l = task \<longrightarrow> tl_kind l = Work \<longrightarrow> tl_agent_key l \<noteq> tl_agent_key r))"
proof -
  let ?active = "filter (\<lambda>l. tl_task l = task \<and> is_active_lease now l) rs"
  let ?work = "List.find (\<lambda>l. tl_kind l = Work) ?active"
  have indep: "(case ?work of None \<Rightarrow> True | Some w \<Rightarrow> tl_agent_key r \<noteq> tl_agent_key w) \<longleftrightarrow>
      (\<forall>l \<in> set rs. tl_task l = task \<longrightarrow> tl_kind l = Work \<longrightarrow> tl_agent_key l \<noteq> tl_agent_key r)"
    for r :: task_lease
  proof (cases ?work)
    case None
    have "\<not> (tl_task l = task \<and> tl_kind l = Work)" if "l \<in> set rs" for l
      using find_NoneD [OF None, of l] active_leases_facts [OF assms(2) that] that by auto
    with None show ?thesis by auto
  next
    case (Some w)
    then have w: "w \<in> set rs" "tl_kind w = Work" "tl_task w = task" using find_SomeD [OF Some] by auto
    have "l = w" if "l \<in> set rs" "tl_task l = task" "tl_kind l = Work" for l
      using one_active_work_lease [OF assms w(1,2) that(1,3)] that(2) w(3) by simp
    then have "(\<forall>l \<in> set rs. tl_task l = task \<longrightarrow> tl_kind l = Work \<longrightarrow> tl_agent_key l \<noteq> tl_agent_key r) \<longleftrightarrow>
        tl_agent_key r \<noteq> tl_agent_key w"
      using w by metis
    then show ?thesis unfolding Some by simp
  qed
  have act: "is_active_lease now r" if "r \<in> set rs" for r
    using active_leases_facts [OF assms(2) that] by simp
  let ?q = "\<lambda>l. tl_kind l = Review \<and> (case ?work of None \<Rightarrow> True | Some w \<Rightarrow> tl_agent_key l \<noteq> tl_agent_key w)"
  have def: "find_review_lease_for_merge task rs now = List.find ?q ?active"
    by (simp add: find_review_lease_for_merge_def Let_def)
  define Q where "Q r \<longleftrightarrow> (\<forall>l \<in> set rs. tl_task l = task \<longrightarrow> tl_kind l = Work \<longrightarrow>
      tl_agent_key l \<noteq> tl_agent_key r)" for r :: task_lease
  have q: "?q = (\<lambda>r. tl_kind r = Review \<and> Q r)" unfolding Q_def indep ..
  have none: "List.find ?q ?active = None \<longleftrightarrow>
      \<not> (\<exists>r \<in> set rs. tl_task r = task \<and> tl_kind r = Review \<and> Q r)"
    unfolding q find_None_iff using act by auto
  have some: "r \<in> set rs \<and> tl_task r = task \<and> tl_kind r = Review \<and> is_active_lease now r \<and> Q r"
    if "List.find ?q ?active = Some r" for r
    using find_SomeD [OF that [unfolded q]] by simp
  show ?thesis
    unfolding def Q_def [symmetric] using none some by blast
qed

theorem merge_review_is_independent_witness:
  "find_review_lease_for_merge ''task_1''
     [policy_lease ''l1'' Work ''builder'', policy_lease ''l2'' Review ''reviewer''] 9 =
     Some (policy_lease ''l2'' Review ''reviewer'') \<and>
   tl_agent_key (policy_lease ''l1'' Work ''builder'') \<noteq> tl_agent_key (policy_lease ''l2'' Review ''reviewer'')"
proof -
  let ?rs = "[policy_lease ''l1'' Work ''builder'', policy_lease ''l2'' Review ''reviewer'']"
  have 1: "leases_wf (leases policy_db)" and 2: "get_active_task_leases ''room'' None 9 policy_db = (?rs, policy_db)"
    and 3: "find_review_lease_for_merge ''task_1'' ?rs 9 = Some (policy_lease ''l2'' Review ''reviewer'')"
    by code_simp+
  have 4: "tl_kind (policy_lease ''l1'' Work ''builder'') = Work"
    "tl_task (policy_lease ''l1'' Work ''builder'') = ''task_1''" by code_simp+
  show ?thesis
    using conjunct2 [OF merge_review_is_independent [OF 1 2, of "''task_1''"]] 3 4 by simp
qed

text \<open>A workflow artifact is attached to a task exactly when no lock is in force and an active
  work lease of the task names the same pull request or the same branch.\<close>

theorem artifact_mutation_allowed_iff:
  "(\<exists>l. evaluate_artifact_mutation m task ls ks pr branch now = Allow l) \<longleftrightarrow>
     \<not> (\<exists>k \<in> set ks. lock_applies k (Some task)) \<and>
     (\<exists>l \<in> set ls. tl_task l = task \<and> tl_kind l = Work \<and> is_active_lease now l \<and>
        ((normalize_workflow_ref pr \<noteq> None \<and> normalize_workflow_ref pr = normalize_workflow_ref (tl_pr_url l)) \<or>
         (\<exists>b lb. normalize_workflow_ref branch = Some b \<and> normalize_workflow_ref (tl_branch l) = Some lb \<and>
            branch_refs_match lb b)))"
proof -
  have match: "lease_matches_artifact l pr branch \<longleftrightarrow>
      (normalize_workflow_ref pr \<noteq> None \<and> normalize_workflow_ref pr = normalize_workflow_ref (tl_pr_url l)) \<or>
      (\<exists>b lb. normalize_workflow_ref branch = Some b \<and> normalize_workflow_ref (tl_branch l) = Some lb \<and>
         branch_refs_match lb b)" for l
    by (auto simp: lease_matches_artifact_def Let_def)
  have "(\<exists>l. evaluate_artifact_mutation m task ls ks pr branch now = Allow l) \<longleftrightarrow>
      find_applicable_lock ks (Some task) = None \<and> find_artifact_lease ls task pr branch now \<noteq> None"
    by (auto simp: evaluate_artifact_mutation_def split: option.split)
  then show ?thesis
    unfolding match [symmetric] by (auto simp: find_applicable_lock_def find_artifact_lease_def find_None_iff)
qed

end
