(* ===== verification/DuplicateWork.thy ===== *)
theory DuplicateWork
  imports CoordinationPolicy
begin

text \<open>
  Duplicate detection and task admission: \<open>findDuplicateCoordinationIntent\<close> and
  \<open>evaluateTaskAdmission\<close> of \<^verbatim>\<open>src/api/coordination-policy/duplicates.ts\<close>. The function is a
  chain of blocks with early returns; each block is one definition and the chain takes the
  first match. The arguments \<open>focusRooms\<close> and \<open>leases\<close> that the source makes optional are
  empty lists when absent.
\<close>

fun first_some :: "'a option list \<Rightarrow> 'a option" where
  "first_some [] = None"
| "first_some (None # xs) = first_some xs"
| "first_some (Some a # xs) = Some a"

lemma first_some_None: "first_some xs = None \<longleftrightarrow> (\<forall>x \<in> set xs. x = None)"
  by (induction xs rule: first_some.induct) auto

lemma first_some_SomeD: "first_some xs = Some a \<Longrightarrow> Some a \<in> set xs"
  by (induction xs rule: first_some.induct) auto

section \<open>The blocks\<close>

text \<open>\<open>new Map(openTasks.map(...)).get(id)\<close>: a later entry replaces an earlier one.\<close>

definition task_by_id :: "coord_task list \<Rightarrow> string \<Rightarrow> coord_task option" where
  "task_by_id live i = map_of (rev (map (\<lambda>t. (ct_id t, t)) live)) i"

definition task_artifacts ::
  "(string \<Rightarrow> (string \<times> string) option) \<Rightarrow> coord_task \<Rightarrow> artifact list" where
  "task_artifacts url_parse t = normalize_artifacts url_parse (ct_artifacts t) (ct_pr_url t)"

definition intent_artifacts ::
  "(string \<Rightarrow> (string \<times> string) option) \<Rightarrow> work_intent \<Rightarrow> artifact list" where
  "intent_artifacts url_parse w = normalize_artifacts url_parse (wi_artifacts w) (wi_pr_url w)"

definition lease_artifacts ::
  "(string \<Rightarrow> (string \<times> string) option) \<Rightarrow> task_lease \<Rightarrow> artifact list" where
  "lease_artifacts url_parse l = normalize_artifacts url_parse [] (tl_pr_url l)"

definition task_match :: "duplicate_reason \<Rightarrow> string \<Rightarrow> string \<Rightarrow> coord_task option \<Rightarrow> duplicate_match" where
  "task_match reason task v t =
     \<lparr>dm_reason = reason, dm_task_id = task, dm_value = v, dm_task = t, dm_lease = None,
      dm_focus = None, dm_artifact = None\<rparr>"

definition lease_match ::
  "duplicate_reason \<Rightarrow> coord_task list \<Rightarrow> string \<Rightarrow> task_lease \<Rightarrow> duplicate_match" where
  "lease_match reason live v l =
     \<lparr>dm_reason = reason, dm_task_id = tl_task l, dm_value = v, dm_task = task_by_id live (tl_task l),
      dm_lease = Some l, dm_focus = None, dm_artifact = None\<rparr>"

definition dup_source_message :: "work_intent \<Rightarrow> coord_task list \<Rightarrow> duplicate_match option" where
  "dup_source_message w live =
     (case normalize_identity (wi_source_message w) of
        None \<Rightarrow> None
      | Some m \<Rightarrow>
          map_option (\<lambda>t. task_match SourceMessage (ct_id t) m (Some t))
            (List.find (\<lambda>t. normalize_identity (ct_source_message t) = Some m) live))"

definition dup_source_task :: "work_intent \<Rightarrow> coord_task list \<Rightarrow> duplicate_match option" where
  "dup_source_task w live =
     (case normalize_identity (wi_source_task w) of
        None \<Rightarrow> None
      | Some i \<Rightarrow>
          (case task_by_id live i of None \<Rightarrow> None | Some t \<Rightarrow> Some (task_match SourceTask i i (Some t))))"

definition dup_focus_room ::
  "work_intent \<Rightarrow> coord_task list \<Rightarrow> focus_room list \<Rightarrow> duplicate_match option" where
  "dup_focus_room w live rooms =
     (case normalize_identity (wi_source_task w) of
        None \<Rightarrow> None
      | Some i \<Rightarrow>
          map_option (\<lambda>r. (task_match FocusRoomDup i (fr_room r) (task_by_id live i))\<lparr>dm_focus := Some r\<rparr>)
            (List.find (\<lambda>r. fr_status r \<noteq> Some ''concluded'' \<and>
               normalize_identity (fr_source_task r) = Some i) rooms))"

definition dup_pr_url :: "work_intent \<Rightarrow> coord_task list \<Rightarrow> duplicate_match option" where
  "dup_pr_url w live =
     (let u = normalize_url_identity (wi_pr_url w)
      in if truthy u then
           map_option (\<lambda>t. task_match PrUrl (ct_id t) (the u) (Some t))
             (List.find (\<lambda>t. normalize_url_identity (ct_pr_url t) = u) live)
         else None)"

definition dup_task_artifact ::
  "(string \<Rightarrow> (string \<times> string) option) \<Rightarrow> work_intent \<Rightarrow> coord_task list \<Rightarrow> duplicate_match option" where
  "dup_task_artifact url_parse w live =
     first_some [map_option (\<lambda>v. (task_match WorkflowArtifactDup (ct_id t) v (Some t))\<lparr>dm_artifact := Some ta\<rparr>)
                   (artifacts_share_identity ia ta).
                 t \<leftarrow> live, ta \<leftarrow> task_artifacts url_parse t, ia \<leftarrow> intent_artifacts url_parse w]"

definition dup_lease_branch ::
  "work_intent \<Rightarrow> coord_task list \<Rightarrow> task_lease list \<Rightarrow> duplicate_match option" where
  "dup_lease_branch w live active =
     (case normalize_identity (wi_branch w) of
        None \<Rightarrow> None
      | Some b \<Rightarrow> map_option (lease_match LeaseBranchRef live b)
          (List.find (\<lambda>l. normalize_identity (tl_branch l) = Some b) active))"

definition dup_lease_pr ::
  "work_intent \<Rightarrow> coord_task list \<Rightarrow> task_lease list \<Rightarrow> duplicate_match option" where
  "dup_lease_pr w live active =
     (let u = normalize_url_identity (wi_pr_url w)
      in if truthy u then
           map_option (lease_match LeasePrUrl live (the u))
             (List.find (\<lambda>l. normalize_url_identity (tl_pr_url l) = u) active)
         else None)"

definition dup_lease_artifact ::
  "(string \<Rightarrow> (string \<times> string) option) \<Rightarrow> work_intent \<Rightarrow> coord_task list \<Rightarrow> task_lease list
   \<Rightarrow> duplicate_match option" where
  "dup_lease_artifact url_parse w live active =
     first_some [map_option (\<lambda>v. (lease_match LeasePrUrl live v l)\<lparr>dm_artifact := Some la\<rparr>)
                   (artifacts_share_identity ia la).
                 l \<leftarrow> active, la \<leftarrow> lease_artifacts url_parse l, ia \<leftarrow> intent_artifacts url_parse w]"

definition dup_lease_output ::
  "work_intent \<Rightarrow> coord_task list \<Rightarrow> task_lease list \<Rightarrow> duplicate_match option" where
  "dup_lease_output w live active =
     (case normalize_identity (wi_output w) of
        None \<Rightarrow> None
      | Some i \<Rightarrow> map_option (lease_match LeaseOutputIntent live i)
          (List.find (\<lambda>l. normalize_identity (tl_output l) = Some i) active))"

definition find_duplicate ::
  "(string \<Rightarrow> (string \<times> string) option) \<Rightarrow> work_intent \<Rightarrow> coord_task list \<Rightarrow> focus_room list
   \<Rightarrow> task_lease list \<Rightarrow> int \<Rightarrow> duplicate_match option" where
  "find_duplicate url_parse w tasks rooms ls now =
     (let live = filter is_open_task tasks; active = filter (is_active_lease now) ls
      in first_some
           [dup_source_message w live, dup_source_task w live, dup_focus_room w live rooms,
            dup_pr_url w live, dup_task_artifact url_parse w live, dup_lease_branch w live active,
            dup_lease_pr w live active, dup_lease_artifact url_parse w live active,
            dup_lease_output w live active])"

datatype admission = Admit | RouteToReview string duplicate_match

definition evaluate_admission ::
  "(string \<Rightarrow> (string \<times> string) option) \<Rightarrow> work_intent \<Rightarrow> coord_task list \<Rightarrow> focus_room list
   \<Rightarrow> task_lease list \<Rightarrow> int \<Rightarrow> admission" where
  "evaluate_admission url_parse w tasks rooms ls now =
     (case find_duplicate url_parse w tasks rooms ls now of
        None \<Rightarrow> Admit
      | Some d \<Rightarrow> RouteToReview
          (''Duplicate work intent matched '' @ duplicate_reason_name (dm_reason d) @ '' on '' @ dm_task_id d @
           ''; route the actor to review the existing work instead of creating a new implementation lane.'') d)"

section \<open>What admission excludes\<close>

text \<open>An intent and a task, or an intent and a lease, denote the same work.\<close>

definition shares :: "string option \<Rightarrow> string option \<Rightarrow> bool" where
  "shares x y \<longleftrightarrow> truthy x \<and> x = y"

definition artifact_lists_share :: "artifact list \<Rightarrow> artifact list \<Rightarrow> bool" where
  "artifact_lists_share as bs \<longleftrightarrow>
     (\<exists>a \<in> set as. \<exists>b \<in> set bs. set (artifact_identity_values a) \<inter> set (artifact_identity_values b) \<noteq> {})"

definition same_work_task ::
  "(string \<Rightarrow> (string \<times> string) option) \<Rightarrow> work_intent \<Rightarrow> coord_task \<Rightarrow> bool" where
  "same_work_task url_parse w t \<longleftrightarrow>
     shares (normalize_identity (wi_source_message w)) (normalize_identity (ct_source_message t)) \<or>
     shares (normalize_identity (wi_source_task w)) (Some (ct_id t)) \<or>
     shares (normalize_url_identity (wi_pr_url w)) (normalize_url_identity (ct_pr_url t)) \<or>
     artifact_lists_share (intent_artifacts url_parse w) (task_artifacts url_parse t)"

definition same_work_lease ::
  "(string \<Rightarrow> (string \<times> string) option) \<Rightarrow> work_intent \<Rightarrow> task_lease \<Rightarrow> bool" where
  "same_work_lease url_parse w l \<longleftrightarrow>
     shares (normalize_identity (wi_branch w)) (normalize_identity (tl_branch l)) \<or>
     shares (normalize_url_identity (wi_pr_url w)) (normalize_url_identity (tl_pr_url l)) \<or>
     shares (normalize_identity (wi_output w)) (normalize_identity (tl_output l)) \<or>
     artifact_lists_share (intent_artifacts url_parse w) (lease_artifacts url_parse l)"

definition same_work_room :: "work_intent \<Rightarrow> focus_room \<Rightarrow> bool" where
  "same_work_room w r \<longleftrightarrow> fr_status r \<noteq> Some ''concluded'' \<and>
     shares (normalize_identity (wi_source_task w)) (normalize_identity (fr_source_task r))"

lemma normalize_identity_truthy: "normalize_identity v = Some s \<Longrightarrow> s \<noteq> []"
  by (auto simp: normalize_identity_def split: option.splits if_splits)

lemma shares_identity:
  "shares (normalize_identity v) y \<longleftrightarrow> (\<exists>s. normalize_identity v = Some s \<and> y = Some s)"
  using normalize_identity_truthy [of v] by (cases "normalize_identity v") (auto simp: shares_def)

lemma share_identity_None:
  "artifacts_share_identity l r = None \<longleftrightarrow>
     set (artifact_identity_values l) \<inter> set (artifact_identity_values r) = {}"
  by (auto simp: artifacts_share_identity_def find_None_iff)

lemma task_by_id_None: "task_by_id live i = None \<longleftrightarrow> (\<forall>t \<in> set live. ct_id t \<noteq> i)"
  by (auto simp: task_by_id_def map_of_eq_None_iff image_image)

lemma dup_source_message_None:
  "dup_source_message w live = None \<longleftrightarrow>
     (\<forall>t \<in> set live. \<not> shares (normalize_identity (wi_source_message w)) (normalize_identity (ct_source_message t)))"
  by (auto simp: dup_source_message_def shares_identity find_None_iff split: option.splits)

lemma dup_source_task_None:
  "dup_source_task w live = None \<longleftrightarrow>
     (\<forall>t \<in> set live. \<not> shares (normalize_identity (wi_source_task w)) (Some (ct_id t)))"
proof (cases "normalize_identity (wi_source_task w)")
  case (Some i)
  then show ?thesis
    using task_by_id_None [of live i] normalize_identity_truthy [OF Some]
    by (cases "task_by_id live i") (auto simp: dup_source_task_def shares_def)
qed (simp add: dup_source_task_def shares_def)

lemma dup_focus_room_None:
  "dup_focus_room w live rooms = None \<longleftrightarrow> (\<forall>r \<in> set rooms. \<not> same_work_room w r)"
  by (auto simp: dup_focus_room_def same_work_room_def shares_identity find_None_iff split: option.splits)

lemma dup_pr_url_None:
  "dup_pr_url w live = None \<longleftrightarrow>
     (\<forall>t \<in> set live. \<not> shares (normalize_url_identity (wi_pr_url w)) (normalize_url_identity (ct_pr_url t)))"
  by (auto simp: dup_pr_url_def shares_def find_None_iff Let_def)

lemma dup_task_artifact_None:
  "dup_task_artifact url_parse w live = None \<longleftrightarrow>
     (\<forall>t \<in> set live. \<not> artifact_lists_share (intent_artifacts url_parse w) (task_artifacts url_parse t))"
  unfolding dup_task_artifact_def first_some_None artifact_lists_share_def
  by (simp add: share_identity_None) blast

lemma dup_lease_branch_None:
  "dup_lease_branch w live active = None \<longleftrightarrow>
     (\<forall>l \<in> set active. \<not> shares (normalize_identity (wi_branch w)) (normalize_identity (tl_branch l)))"
  by (auto simp: dup_lease_branch_def shares_identity find_None_iff split: option.splits)

lemma dup_lease_pr_None:
  "dup_lease_pr w live active = None \<longleftrightarrow>
     (\<forall>l \<in> set active. \<not> shares (normalize_url_identity (wi_pr_url w)) (normalize_url_identity (tl_pr_url l)))"
  by (auto simp: dup_lease_pr_def shares_def find_None_iff Let_def)

lemma dup_lease_artifact_None:
  "dup_lease_artifact url_parse w live active = None \<longleftrightarrow>
     (\<forall>l \<in> set active. \<not> artifact_lists_share (intent_artifacts url_parse w) (lease_artifacts url_parse l))"
  unfolding dup_lease_artifact_def first_some_None artifact_lists_share_def
  by (simp add: share_identity_None) blast

lemma dup_lease_output_None:
  "dup_lease_output w live active = None \<longleftrightarrow>
     (\<forall>l \<in> set active. \<not> shares (normalize_identity (wi_output w)) (normalize_identity (tl_output l)))"
  by (auto simp: dup_lease_output_def shares_identity find_None_iff split: option.splits)

lemmas dup_None = dup_source_message_None dup_source_task_None dup_focus_room_None dup_pr_url_None
  dup_task_artifact_None dup_lease_branch_None dup_lease_pr_None dup_lease_artifact_None
  dup_lease_output_None

section \<open>The properties\<close>

text \<open>New work is admitted exactly when nothing in the room already does it: no open task comes
  from the same message or is the task it derives from, no open task and no active lease shares a
  pull request, a workflow artifact, a branch or an output intent with it, and no unconcluded focus
  room works on its source task. Finished tasks and expired leases never block.\<close>

theorem admitted_iff_no_duplicate_work:
  "evaluate_admission url_parse w tasks rooms ls now = Admit \<longleftrightarrow>
     \<not> (\<exists>t \<in> set tasks. is_open_task t \<and> same_work_task url_parse w t) \<and>
     \<not> (\<exists>r \<in> set rooms. same_work_room w r) \<and>
     \<not> (\<exists>l \<in> set ls. is_active_lease now l \<and> same_work_lease url_parse w l)"
proof -
  have "evaluate_admission url_parse w tasks rooms ls now = Admit \<longleftrightarrow>
      find_duplicate url_parse w tasks rooms ls now = None"
    by (simp add: evaluate_admission_def split: option.splits)
  also have "\<dots> \<longleftrightarrow>
      (\<forall>t \<in> set (filter is_open_task tasks). \<not> same_work_task url_parse w t) \<and>
      (\<forall>r \<in> set rooms. \<not> same_work_room w r) \<and>
      (\<forall>l \<in> set (filter (is_active_lease now) ls). \<not> same_work_lease url_parse w l)"
    unfolding find_duplicate_def Let_def first_some_None same_work_task_def same_work_lease_def
    by (simp add: dup_None) blast
  finally show ?thesis by auto
qed

end
