(* ===== verification/Lrt.thy ===== *)
theory Lrt
  imports Json
begin

text \<open>
  LetAgents Rental Tokens, \<^verbatim>\<open>src/shared/rental/lrt.ts\<close>: weights, the cost of a usage delta, the
  percent-window estimate, and the confidence ladder with its stop thresholds. Amounts are
  exact rationals; arguments that the source tests with \<open>Number.isFinite\<close> are \<^typ>\<open>js_num\<close>.
\<close>

section \<open>Confidence\<close>

datatype quota_confidence =
    UnknownConfidence | WeakEstimate | Estimated | Calibrated | Derived | LocalExact | OfficialExact

definition confidence_order :: "quota_confidence list" where
  "confidence_order = [UnknownConfidence, WeakEstimate, Estimated, Calibrated, Derived, LocalExact, OfficialExact]"

text \<open>\<open>Array.prototype.indexOf\<close>, -1 when absent.\<close>

fun index_from :: "int \<Rightarrow> 'a list \<Rightarrow> 'a \<Rightarrow> int" where
  "index_from i [] x = -1"
| "index_from i (y # ys) x = (if y = x then i else index_from (i + 1) ys x)"

definition compare_confidence :: "quota_confidence \<Rightarrow> quota_confidence \<Rightarrow> int" where
  "compare_confidence a b = index_from 0 confidence_order a - index_from 0 confidence_order b"

definition is_exact_confidence :: "quota_confidence \<Rightarrow> bool" where
  "is_exact_confidence c \<longleftrightarrow> c = OfficialExact \<or> c = LocalExact"

text \<open>The order the comparison induces.\<close>

lemma confidence_rank:
  "index_from 0 confidence_order c =
     (case c of UnknownConfidence \<Rightarrow> 0 | WeakEstimate \<Rightarrow> 1 | Estimated \<Rightarrow> 2 | Calibrated \<Rightarrow> 3 | Derived \<Rightarrow> 4
      | LocalExact \<Rightarrow> 5 | OfficialExact \<Rightarrow> 6)"
  by (cases c) (simp_all add: confidence_order_def)

instantiation quota_confidence :: linorder
begin

definition less_eq_quota_confidence :: "quota_confidence \<Rightarrow> quota_confidence \<Rightarrow> bool" where
  "a \<le> b \<longleftrightarrow> compare_confidence a b \<le> 0"

definition less_quota_confidence :: "quota_confidence \<Rightarrow> quota_confidence \<Rightarrow> bool" where
  "a < b \<longleftrightarrow> compare_confidence a b < 0"

instance
proof
  fix x y z :: quota_confidence
  show "(x < y) = (x \<le> y \<and> \<not> y \<le> x)" "x \<le> x" "x \<le> y \<or> y \<le> x"
    by (auto simp: less_eq_quota_confidence_def less_quota_confidence_def compare_confidence_def)
  show "x \<le> y \<Longrightarrow> y \<le> z \<Longrightarrow> x \<le> z"
    by (simp add: less_eq_quota_confidence_def compare_confidence_def)
  show "x \<le> y \<Longrightarrow> y \<le> x \<Longrightarrow> x = y"
    by (cases x; cases y) (simp_all add: less_eq_quota_confidence_def compare_confidence_def confidence_rank)
qed

end

section \<open>Stop thresholds\<close>

fun stop_threshold :: "quota_confidence \<Rightarrow> rat" where
  "stop_threshold OfficialExact = 98 / 100"
| "stop_threshold LocalExact = 98 / 100"
| "stop_threshold Derived = 95 / 100"
| "stop_threshold Calibrated = 92 / 100"
| "stop_threshold Estimated = 87 / 100"
| "stop_threshold WeakEstimate = 80 / 100"
| "stop_threshold UnknownConfidence = 75 / 100"

definition floor_rat :: "rat \<Rightarrow> rat" where
  "floor_rat q = of_int \<lfloor>q\<rfloor>"

definition lrt_ceiling_for_limit :: "js_num \<Rightarrow> quota_confidence \<Rightarrow> rat" where
  "lrt_ceiling_for_limit limit c =
     (case limit of Fin q \<Rightarrow> if q \<le> 0 then 0 else floor_rat (q * stop_threshold c) | _ \<Rightarrow> 0)"

lemma stop_threshold_bounds: "0 < stop_threshold c \<and> stop_threshold c < 1"
  by (cases c) simp_all

lemma stop_threshold_mono: "a \<le> b \<Longrightarrow> stop_threshold a \<le> stop_threshold b"
  by (cases a; cases b) (simp_all add: less_eq_quota_confidence_def compare_confidence_def confidence_rank)

lemma floor_rat_mono: "a \<le> b \<Longrightarrow> floor_rat a \<le> floor_rat b"
  by (simp add: floor_rat_def floor_mono)

lemma floor_rat_le: "floor_rat q \<le> q"
  by (simp add: floor_rat_def)

lemma floor_rat_nonneg: "0 \<le> q \<Longrightarrow> 0 \<le> floor_rat q"
  by (simp add: floor_rat_def)

section \<open>Weights and cost\<close>

record lrt_weights =
  w_input :: rat
  w_output :: rat
  w_cache_creation :: rat
  w_cache_read :: rat
  w_reasoning :: rat
  w_tool :: rat
  w_command :: rat
  w_request :: rat
  w_usd :: rat
  w_credits :: rat

text \<open>\<open>Partial<LrtWeights>\<close>\<close>

record partial_weights =
  p_input :: "rat option"
  p_output :: "rat option"
  p_cache_creation :: "rat option"
  p_cache_read :: "rat option"
  p_reasoning :: "rat option"
  p_tool :: "rat option"
  p_command :: "rat option"
  p_request :: "rat option"
  p_usd :: "rat option"
  p_credits :: "rat option"

record usage_delta =
  ud_input :: rat
  ud_output :: rat
  ud_cache_creation :: rat
  ud_cache_read :: rat
  ud_reasoning :: rat
  ud_tool_calls :: rat
  ud_command_runs :: rat
  ud_requests :: rat
  ud_credits :: rat
  ud_usd :: rat
  ud_files_exposed :: rat
  ud_heartbeats :: rat

definition default_weights :: lrt_weights where
  "default_weights = \<lparr>w_input = 1, w_output = 4, w_cache_creation = 125 / 100, w_cache_read = 1 / 10,
     w_reasoning = 4, w_tool = 0, w_command = 0, w_request = 0, w_usd = 0, w_credits = 0\<rparr>"

definition no_weights :: partial_weights where
  "no_weights = \<lparr>p_input = None, p_output = None, p_cache_creation = None, p_cache_read = None,
     p_reasoning = None, p_tool = None, p_command = None, p_request = None, p_usd = None, p_credits = None\<rparr>"

definition provider_weights :: "(string \<times> partial_weights) list" where
  "provider_weights = [(''claude_code'', no_weights), (''codex'', no_weights), (''antigravity'', no_weights),
     (''cursor'', no_weights)]"

definition override :: "'a \<Rightarrow> 'a option \<Rightarrow> 'a" where
  "override a x = (case x of None \<Rightarrow> a | Some b \<Rightarrow> b)"

text \<open>\<open>{...w, ...p}\<close>\<close>

definition spread_weights :: "lrt_weights \<Rightarrow> partial_weights \<Rightarrow> lrt_weights" where
  "spread_weights w p =
     \<lparr>w_input = override (w_input w) (p_input p), w_output = override (w_output w) (p_output p),
      w_cache_creation = override (w_cache_creation w) (p_cache_creation p),
      w_cache_read = override (w_cache_read w) (p_cache_read p),
      w_reasoning = override (w_reasoning w) (p_reasoning p), w_tool = override (w_tool w) (p_tool p),
      w_command = override (w_command w) (p_command p), w_request = override (w_request w) (p_request p),
      w_usd = override (w_usd w) (p_usd p), w_credits = override (w_credits w) (p_credits p)\<rparr>"

definition resolve_weights :: "string \<Rightarrow> partial_weights option \<Rightarrow> lrt_weights" where
  "resolve_weights provider calibrated =
     spread_weights
       (spread_weights default_weights (override no_weights (map_of provider_weights provider)))
       (override no_weights calibrated)"

definition compute_lrt :: "usage_delta \<Rightarrow> string \<Rightarrow> partial_weights option \<Rightarrow> rat" where
  "compute_lrt d provider calibrated =
     (let w = resolve_weights provider calibrated;
          tokens = max 0 (ud_input d) * w_input w + max 0 (ud_output d) * w_output w +
                   max 0 (ud_cache_creation d) * w_cache_creation w +
                   max 0 (ud_cache_read d) * w_cache_read w + max 0 (ud_reasoning d) * w_reasoning w;
          events = max 0 (ud_tool_calls d) * w_tool w + max 0 (ud_command_runs d) * w_command w +
                   max 0 (ud_requests d) * w_request w;
          money = max 0 (ud_credits d) * w_credits w + max 0 (ud_usd d) * w_usd w
      in tokens + events + money)"

definition estimate_lrt_from_percent_window :: "js_num \<Rightarrow> js_num \<Rightarrow> rat option" where
  "estimate_lrt_from_percent_window percent observed =
     (case percent of
        Fin p \<Rightarrow>
          if p < 0 \<or> 1 < p then None
          else (case observed of
                  Fin u \<Rightarrow>
                    if u \<le> 0 then None
                    else if 1 - p \<le> 0 then None
                    else Some (max 0 (u / (1 - p) * p))
                | _ \<Rightarrow> None)
      | _ \<Rightarrow> None)"

text \<open>No negative weight, and one delta dominated by another axis by axis.\<close>

definition weights_nonneg :: "lrt_weights \<Rightarrow> bool" where
  "weights_nonneg w \<longleftrightarrow> 0 \<le> w_input w \<and> 0 \<le> w_output w \<and> 0 \<le> w_cache_creation w \<and> 0 \<le> w_cache_read w \<and>
     0 \<le> w_reasoning w \<and> 0 \<le> w_tool w \<and> 0 \<le> w_command w \<and> 0 \<le> w_request w \<and> 0 \<le> w_usd w \<and> 0 \<le> w_credits w"

definition delta_le :: "usage_delta \<Rightarrow> usage_delta \<Rightarrow> bool" where
  "delta_le d e \<longleftrightarrow> ud_input d \<le> ud_input e \<and> ud_output d \<le> ud_output e \<and>
     ud_cache_creation d \<le> ud_cache_creation e \<and> ud_cache_read d \<le> ud_cache_read e \<and>
     ud_reasoning d \<le> ud_reasoning e \<and> ud_tool_calls d \<le> ud_tool_calls e \<and>
     ud_command_runs d \<le> ud_command_runs e \<and> ud_requests d \<le> ud_requests e \<and>
     ud_credits d \<le> ud_credits e \<and> ud_usd d \<le> ud_usd e"

lemma clamped_mult_mono: "0 \<le> (w :: rat) \<Longrightarrow> a \<le> b \<Longrightarrow> max 0 a * w \<le> max 0 b * w"
  by (intro mult_right_mono) auto

section \<open>The properties\<close>

text \<open>The cost of usage is never negative and grows with usage: with weights that are not
  negative, more usage on some axes and no less on the others never costs less, whatever the
  provider and the calibration, and a meter that goes backwards costs nothing and refunds nothing.\<close>

theorem compute_lrt_monotone:
  assumes "weights_nonneg (resolve_weights provider calibrated)" "delta_le d e"
  shows "0 \<le> compute_lrt d provider calibrated \<and>
    compute_lrt d provider calibrated \<le> compute_lrt e provider calibrated"
proof
  note w = assms(1) [unfolded weights_nonneg_def]
  note d = assms(2) [unfolded delta_le_def]
  show "0 \<le> compute_lrt d provider calibrated"
    unfolding compute_lrt_def Let_def using w by (intro add_nonneg_nonneg mult_nonneg_nonneg) auto
  show "compute_lrt d provider calibrated \<le> compute_lrt e provider calibrated"
    unfolding compute_lrt_def Let_def using w d by (intro add_mono clamped_mult_mono) auto
qed

definition demo_delta :: "rat \<Rightarrow> usage_delta" where
  "demo_delta n = \<lparr>ud_input = n, ud_output = 10, ud_cache_creation = 0, ud_cache_read = 100, ud_reasoning = -3,
     ud_tool_calls = 2, ud_command_runs = 0, ud_requests = 1, ud_credits = 0, ud_usd = 0,
     ud_files_exposed = 0, ud_heartbeats = 1\<rparr>"

theorem compute_lrt_monotone_witness:
  "0 \<le> compute_lrt (demo_delta 5) ''codex'' None \<and>
   compute_lrt (demo_delta 5) ''codex'' None \<le> compute_lrt (demo_delta 7) ''codex'' None"
  by (rule compute_lrt_monotone)
    (simp_all add: weights_nonneg_def resolve_weights_def spread_weights_def override_def provider_weights_def
      no_weights_def default_weights_def delta_le_def demo_delta_def)

end
