(* ===== verification/BudgetSentinel.thy ===== *)
theory BudgetSentinel
  imports Lrt
begin

text \<open>
  The pure decisions on a rental session's budget: \<^verbatim>\<open>src/api/rental/budget-sentinel.ts\<close>. The
  reserved and used amounts are finite numbers (integer columns of the database); limits,
  thresholds and step costs may be any number and are tested as the source tests them. The
  time of the latest meter snapshot is \<open>None\<close> when it is missing or not a date.
\<close>

record sentinel_state =
  ss_session :: string
  ss_status :: string
  ss_limit :: "js_num option"
  ss_threshold :: "js_num option"
  ss_reserved :: rat
  ss_used :: rat
  ss_confidence :: "quota_confidence option"
  ss_last_meter :: "int option"

record sentinel_options =
  so_stale_ms :: "rat option"
  so_stale_fraction :: "rat option"

record resolved_options =
  ro_stale_ms :: rat
  ro_stale_fraction :: rat

definition resolve_options :: "sentinel_options \<Rightarrow> resolved_options" where
  "resolve_options o' = \<lparr>ro_stale_ms = override 30000 (so_stale_ms o'),
     ro_stale_fraction = override (5 / 10) (so_stale_fraction o')\<rparr>"

datatype sentinel_reason =
    Authorized | StepCostInvalid | NoLrtLimit | BudgetExhausted | CeilingExceeded
  | MeterStaleConservative

record authorize_decision =
  ad_allowed :: bool
  ad_reason :: sentinel_reason
  ad_ceiling :: rat
  ad_reserved_after :: rat
  ad_remaining :: rat
  ad_stale :: bool
  ad_stale_since :: "rat option"

text \<open>The per-session override of the stop threshold, when it is a number in \<open>(0, 1]\<close>.\<close>

definition threshold_override :: "sentinel_state \<Rightarrow> rat option" where
  "threshold_override s =
     (case ss_threshold s of
        Some (Fin q) \<Rightarrow> if 0 < q \<and> q \<le> 1 then Some q else None
      | _ \<Rightarrow> None)"

definition state_confidence :: "sentinel_state \<Rightarrow> quota_confidence" where
  "state_confidence s = (case ss_confidence s of None \<Rightarrow> UnknownConfidence | Some c \<Rightarrow> c)"

definition resolve_stop_threshold_fraction :: "sentinel_state \<Rightarrow> rat" where
  "resolve_stop_threshold_fraction s =
     (case threshold_override s of Some q \<Rightarrow> q | None \<Rightarrow> stop_threshold (state_confidence s))"

definition effective_lrt_ceiling :: "sentinel_state \<Rightarrow> rat" where
  "effective_lrt_ceiling s =
     (case ss_limit s of
        Some (Fin limit) \<Rightarrow>
          if limit \<le> 0 then 0
          else (case threshold_override s of
                  Some q \<Rightarrow> floor_rat (limit * q)
                | None \<Rightarrow> lrt_ceiling_for_limit (Fin limit) (state_confidence s))
      | _ \<Rightarrow> 0)"

definition is_meter_stale :: "sentinel_state \<Rightarrow> int \<Rightarrow> resolved_options \<Rightarrow> bool" where
  "is_meter_stale s now opts =
     (case ss_last_meter s of None \<Rightarrow> True | Some t \<Rightarrow> ro_stale_ms opts < of_int (now - t))"

definition stale_age_ms :: "sentinel_state \<Rightarrow> int \<Rightarrow> resolved_options \<Rightarrow> rat option" where
  "stale_age_ms s now opts =
     (if \<not> is_meter_stale s now opts then None
      else (case ss_last_meter s of None \<Rightarrow> Some (-1) | Some t \<Rightarrow> Some (max 0 (of_int (now - t)))))"

definition authorize :: "js_num \<Rightarrow> sentinel_state \<Rightarrow> sentinel_options \<Rightarrow> int \<Rightarrow> authorize_decision" where
  "authorize cost s options now =
     (let opts = resolve_options options;
          ceiling = effective_lrt_ceiling s;
          before = ss_reserved s + ss_used s;
          stale = is_meter_stale s now opts;
          deny = (\<lambda>reason. \<lparr>ad_allowed = False, ad_reason = reason, ad_ceiling = ceiling,
             ad_reserved_after = before, ad_remaining = max 0 (ceiling - before), ad_stale = stale,
             ad_stale_since = stale_age_ms s now opts\<rparr>)
      in case cost of
           Fin c \<Rightarrow>
             if c < 0 then deny StepCostInvalid
             else if ss_status s = ''budget_exhausted'' then deny BudgetExhausted
             else if ceiling \<le> 0 then deny NoLrtLimit
             else if ceiling < before + c then deny CeilingExceeded
             else if stale \<and> floor_rat (ceiling * ro_stale_fraction opts) < before + c
               then deny MeterStaleConservative
             else (deny Authorized)\<lparr>ad_allowed := True, ad_reserved_after := before + c\<rparr>
         | _ \<Rightarrow> deny StepCostInvalid)"

text \<open>A positive finite amount, everything else counts as zero.\<close>

definition positive_amount :: "js_num \<Rightarrow> rat" where
  "positive_amount x = (case x of Fin q \<Rightarrow> if 0 < q then q else 0 | _ \<Rightarrow> 0)"

definition apply_reservation :: "js_num \<Rightarrow> sentinel_state \<Rightarrow> sentinel_state \<times> rat" where
  "apply_reservation cost s =
     (let delta = positive_amount cost in (s\<lparr>ss_reserved := ss_reserved s + delta\<rparr>, delta))"

record reconciliation =
  rc_state :: sentinel_state
  rc_reserved_delta :: rat
  rc_used_delta :: rat
  rc_became_exhausted :: bool

definition apply_reconciliation :: "js_num \<Rightarrow> js_num \<Rightarrow> sentinel_state \<Rightarrow> reconciliation" where
  "apply_reconciliation actual reserved s =
     (let used_delta = positive_amount actual;
          reserved_delta =
            (case reserved of Fin q \<Rightarrow> if 0 < q then min q (ss_reserved s) else 0 | _ \<Rightarrow> 0);
          new_reserved = max 0 (ss_reserved s - reserved_delta);
          new_used = ss_used s + used_delta;
          ceiling = effective_lrt_ceiling s;
          exhausted = (0 < ceiling \<and> ss_status s \<noteq> ''budget_exhausted'' \<and> ceiling \<le> new_used + new_reserved)
      in \<lparr>rc_state = s\<lparr>ss_status := (if exhausted then ''budget_exhausted'' else ss_status s),
                       ss_reserved := new_reserved, ss_used := new_used\<rparr>,
          rc_reserved_delta = reserved_delta, rc_used_delta = used_delta,
          rc_became_exhausted = exhausted\<rparr>)"

section \<open>Lemmas\<close>

lemma threshold_override_bounds: "threshold_override s = Some q \<Longrightarrow> 0 < q \<and> q \<le> 1"
  by (auto simp: threshold_override_def split: option.splits js_num.splits if_splits)

lemma effective_ceiling_fraction:
  "effective_lrt_ceiling s =
     (case ss_limit s of Some (Fin l) \<Rightarrow> if l \<le> 0 then 0 else floor_rat (l * resolve_stop_threshold_fraction s)
      | _ \<Rightarrow> 0)"
  by (simp add: effective_lrt_ceiling_def resolve_stop_threshold_fraction_def lrt_ceiling_for_limit_def
      split: option.split js_num.split)

lemma stop_fraction_bounds: "0 < resolve_stop_threshold_fraction s \<and> resolve_stop_threshold_fraction s \<le> 1"
  using threshold_override_bounds [of s] stop_threshold_bounds [of "state_confidence s"]
  by (auto simp: resolve_stop_threshold_fraction_def split: option.split)

lemma ceiling_nonneg: "0 \<le> effective_lrt_ceiling s"
  using stop_fraction_bounds [of s]
  by (auto simp: effective_ceiling_fraction floor_rat_nonneg split: option.split js_num.split)

lemma ceiling_le_limit:
  assumes "ss_limit s = Some (Fin l)" "0 \<le> l"
  shows "effective_lrt_ceiling s \<le> l"
proof -
  have "l * resolve_stop_threshold_fraction s \<le> l * 1"
    using assms(2) stop_fraction_bounds [of s] by (intro mult_left_mono) auto
  then have "floor_rat (l * resolve_stop_threshold_fraction s) \<le> l"
    using floor_rat_le [of "l * resolve_stop_threshold_fraction s"] by linarith
  with assms show ?thesis by (simp add: effective_ceiling_fraction)
qed

lemma authorize_reserved_after:
  "ad_allowed (authorize cost s options now) \<Longrightarrow>
     ad_reserved_after (authorize cost s options now) = ss_reserved s + ss_used s + positive_amount cost"
  by (auto simp: authorize_def Let_def positive_amount_def split: js_num.splits if_splits)

section \<open>The properties\<close>

text \<open>A step is authorised exactly when its cost is a finite non-negative number, the session
  is not exhausted, it has a positive ceiling, and reserved plus used plus the cost stay within the
  ceiling, and within the conservative fraction of it while the meter is stale. The reason of the
  decision is \<open>Authorized\<close> exactly then.\<close>

theorem authorize_allowed_iff:
  "(ad_allowed (authorize cost s options now) \<longleftrightarrow>
     (\<exists>c. cost = Fin c \<and> 0 \<le> c \<and> ss_status s \<noteq> ''budget_exhausted'' \<and> 0 < effective_lrt_ceiling s \<and>
        ss_reserved s + ss_used s + c \<le> effective_lrt_ceiling s \<and>
        (if is_meter_stale s now (resolve_options options)
         then ss_reserved s + ss_used s + c \<le>
           floor_rat (effective_lrt_ceiling s * ro_stale_fraction (resolve_options options))
         else True))) \<and>
   (ad_reason (authorize cost s options now) = Authorized \<longleftrightarrow> ad_allowed (authorize cost s options now))"
  by (auto simp: authorize_def Let_def not_less not_le split: js_num.split)

text \<open>The effective ceiling lies between zero and the session's limit, and a better meter never
  lowers it: with the other fields equal and no per-session override, raising the confidence
  raises or keeps the ceiling.\<close>

theorem ceiling_bounds_and_monotone:
  assumes "ss_limit s = Some (Fin l)" "0 \<le> l" "threshold_override s = None" "c \<le> c'"
  shows "0 \<le> effective_lrt_ceiling (s\<lparr>ss_confidence := Some c\<rparr>) \<and>
    effective_lrt_ceiling (s\<lparr>ss_confidence := Some c\<rparr>) \<le> effective_lrt_ceiling (s\<lparr>ss_confidence := Some c'\<rparr>) \<and>
    effective_lrt_ceiling (s\<lparr>ss_confidence := Some c'\<rparr>) \<le> l"
proof -
  have "effective_lrt_ceiling (s\<lparr>ss_confidence := Some c'\<rparr>) \<le> l"
    using assms(1,2) by (intro ceiling_le_limit) auto
  moreover have o: "threshold_override (s\<lparr>ss_confidence := x\<rparr>) = None" for x
    using assms(3) by (simp add: threshold_override_def)
  have "floor_rat (l * stop_threshold c) \<le> floor_rat (l * stop_threshold c')"
    using assms(2) stop_threshold_mono [OF assms(4)] by (intro floor_rat_mono mult_left_mono)
  then have "effective_lrt_ceiling (s\<lparr>ss_confidence := Some c\<rparr>) \<le> effective_lrt_ceiling (s\<lparr>ss_confidence := Some c'\<rparr>)"
    using assms(1) o by (simp add: effective_lrt_ceiling_def state_confidence_def lrt_ceiling_for_limit_def)
  ultimately show ?thesis using ceiling_nonneg by blast
qed

definition demo_sentinel :: sentinel_state where
  "demo_sentinel = \<lparr>ss_session = ''s1'', ss_status = ''active'', ss_limit = Some (Fin 100), ss_threshold = None,
     ss_reserved = 10, ss_used = 20, ss_confidence = None, ss_last_meter = Some 1000\<rparr>"

theorem ceiling_bounds_and_monotone_witness:
  "0 \<le> effective_lrt_ceiling (demo_sentinel\<lparr>ss_confidence := Some Estimated\<rparr>) \<and>
   effective_lrt_ceiling (demo_sentinel\<lparr>ss_confidence := Some Estimated\<rparr>) \<le>
     effective_lrt_ceiling (demo_sentinel\<lparr>ss_confidence := Some LocalExact\<rparr>) \<and>
   effective_lrt_ceiling (demo_sentinel\<lparr>ss_confidence := Some LocalExact\<rparr>) \<le> 100"
  by (rule ceiling_bounds_and_monotone)
    (simp_all add: demo_sentinel_def threshold_override_def less_eq_quota_confidence_def compare_confidence_def
      confidence_rank)

end
