(* ===== verification/BudgetLedger.thy ===== *)
theory BudgetLedger
  imports BudgetSentinel
begin

text \<open>
  The database side of the rental budget: \<open>reserveBudget\<close> and \<open>reconcileBudget\<close> of
  \<^verbatim>\<open>src/api/rental/budget-orchestrator.ts\<close>. Both run in a transaction under the
  advisory lock of the session, so each is one atomic step on the session row. Activity events
  are written by \<open>emitActivityEvent\<close> on its own connection: they are not rolled back with the
  transaction. Whether that insert succeeds is the parameter \<open>emit_ok\<close>.
\<close>

section \<open>Data\<close>

record budget_session =
  bs_id :: string
  bs_room :: "string option"
  bs_status :: string
  bs_limit :: "int option"
  bs_threshold :: "rat option"
  bs_reserved :: int
  bs_used :: int
  bs_confidence :: "quota_confidence option"
  bs_renter :: string
  bs_provider :: string

record usage_meter =
  um_session :: string
  um_created_at :: int
  um_confidence :: quota_confidence

datatype event_type =
    BudgetReserved | BudgetReconciled | BudgetExhaustedEvent | ExtensionRequested | ExtensionApproved
  | ExtensionDenied

record session_summary =
  su_session :: string
  su_status :: string
  su_limit :: "int option"
  su_reserved :: int
  su_used :: int
  su_ceiling :: rat
  su_confidence :: "quota_confidence option"
  su_last_meter :: "int option"

datatype event_payload =
    ReservedPayload string rat rat authorize_decision session_summary
  | ReconciledPayload string rat rat rat rat bool session_summary
  | ExhaustedPayload string session_summary "authorize_decision option" "(rat \<times> rat) option"
  | ExtensionRequestPayload rat string
  | ExtensionApprovedPayload string rat rat "int option" "int option" string string string
  | ExtensionDeniedPayload string rat string
  | OtherPayload

record activity_event =
  ev_id :: string
  ev_session :: string
  ev_room :: string
  ev_type :: event_type
  ev_payload :: event_payload

record budget_db =
  bd_sessions :: "budget_session list"
  bd_meters :: "usage_meter list"
  bd_events :: "activity_event list"

datatype budget_error =
    SessionNotFound | InvalidInput | IdempotencyConflict | RoomNotAssigned | DatabaseError | EmitFailed

type_synonym ('e, 'a) db_result = "('e + 'a) \<times> budget_db"

type_synonym 'a budget_result = "(budget_error, 'a) db_result"

section \<open>The database operations\<close>

definition load_session :: "string \<Rightarrow> budget_db \<Rightarrow> budget_session option" where
  "load_session sid db = select_first (\<lambda>s. bs_id s = sid) (bd_sessions db)"

text \<open>\<open>ORDER BY created_at DESC LIMIT 1\<close>\<close>

fun latest_meter :: "'a usage_meter_scheme list \<Rightarrow> 'a usage_meter_scheme option" where
  "latest_meter [] = None"
| "latest_meter (m # ms) =
     (case latest_meter ms of None \<Rightarrow> Some m
      | Some n \<Rightarrow> if um_created_at n \<le> um_created_at m then Some m else Some n)"

definition load_latest_meter :: "string \<Rightarrow> budget_db \<Rightarrow> usage_meter option" where
  "load_latest_meter sid db = latest_meter (filter (\<lambda>m. um_session m = sid) (bd_meters db))"

fun payload_key :: "event_payload \<Rightarrow> string option" where
  "payload_key (ReservedPayload k _ _ _ _) = Some k"
| "payload_key (ReconciledPayload k _ _ _ _ _ _) = Some k"
| "payload_key _ = None"

text \<open>Events are in insertion order, the newest last.\<close>

definition load_event :: "string \<Rightarrow> event_type \<Rightarrow> string \<Rightarrow> budget_db \<Rightarrow> activity_event option" where
  "load_event sid type key db =
     select_first (\<lambda>e. ev_session e = sid \<and> ev_type e = type \<and> payload_key (ev_payload e) = Some key)
       (rev (bd_events db))"

text \<open>The columns \<open>lrt_reserved\<close> and \<open>lrt_used\<close> are 32-bit integers: any other number is a
  database error.\<close>

definition int4 :: "rat \<Rightarrow> int option" where
  "int4 q = (if of_int \<lfloor>q\<rfloor> = q \<and> - (2 ^ 31) \<le> q \<and> q < 2 ^ 31 then Some \<lfloor>q\<rfloor> else None)"

definition patched_session ::
  "int \<Rightarrow> int \<Rightarrow> string option \<Rightarrow> quota_confidence option \<Rightarrow> budget_session \<Rightarrow> budget_session" where
  "patched_session reserved used status confidence s =
     s\<lparr>bs_reserved := reserved, bs_used := used,
       bs_status := (case status of None \<Rightarrow> bs_status s | Some t \<Rightarrow> t),
       bs_confidence := (case confidence of None \<Rightarrow> bs_confidence s | Some c \<Rightarrow> Some c)\<rparr>"

definition update_session_budget ::
  "string \<Rightarrow> rat \<Rightarrow> rat \<Rightarrow> string option \<Rightarrow> quota_confidence option \<Rightarrow> budget_db
   \<Rightarrow> budget_session budget_result" where
  "update_session_budget sid reserved used status confidence db =
     (case (int4 reserved, int4 used) of
        (Some r, Some u) \<Rightarrow>
          (case returning_first (\<lambda>s. bs_id s = sid) (patched_session r u status confidence) (bd_sessions db) of
             None \<Rightarrow> (Inl SessionNotFound, db)
           | Some s \<Rightarrow> (Inr s, db\<lparr>bd_sessions := update_where (\<lambda>s. bs_id s = sid)
                (patched_session r u status confidence) (bd_sessions db)\<rparr>))
      | _ \<Rightarrow> (Inl DatabaseError, db))"

definition emit_activity ::
  "'e \<Rightarrow> (event_type \<Rightarrow> bool) \<Rightarrow> string \<Rightarrow> string \<Rightarrow> string \<Rightarrow> event_type \<Rightarrow> event_payload \<Rightarrow> budget_db
   \<Rightarrow> ('e, activity_event) db_result" where
  "emit_activity err emit_ok new_id sid room type payload db =
     (if emit_ok type then
        (let e = \<lparr>ev_id = new_id, ev_session = sid, ev_room = room, ev_type = type, ev_payload = payload\<rparr>
         in (Inr e, db\<lparr>bd_events := bd_events db @ [e]\<rparr>))
      else (Inl err, db))"

text \<open>\<open>withSessionLock\<close>: an error rolls the session table back, the events stay.\<close>

definition with_session_lock ::
  "(budget_db \<Rightarrow> ('e, 'a) db_result) \<Rightarrow> budget_db \<Rightarrow> ('e, 'a) db_result" where
  "with_session_lock body db =
     (case body db of
        (Inl e, db') \<Rightarrow> (Inl e, db'\<lparr>bd_sessions := bd_sessions db\<rparr>)
      | (Inr a, db') \<Rightarrow> (Inr a, db'))"

text \<open>Sequencing of the operations of a body.\<close>

definition bind_db ::
  "('e, 'a) db_result \<Rightarrow> ('a \<Rightarrow> budget_db \<Rightarrow> ('e, 'b) db_result) \<Rightarrow> ('e, 'b) db_result" where
  "bind_db m k = (case m of (Inl e, db) \<Rightarrow> (Inl e, db) | (Inr a, db) \<Rightarrow> k a db)"

lemma bind_db_simps [simp]:
  "bind_db (Inl e, db) k = (Inl e, db)" "bind_db (Inr a, db) k = k a db"
  by (simp_all add: bind_db_def)

section \<open>Sentinel state and summaries\<close>

definition to_sentinel_state :: "budget_session \<Rightarrow> usage_meter option \<Rightarrow> sentinel_state" where
  "to_sentinel_state s m =
     \<lparr>ss_session = bs_id s, ss_status = bs_status s,
      ss_limit = map_option (\<lambda>l. Fin (of_int l)) (bs_limit s),
      ss_threshold = map_option Fin (bs_threshold s),
      ss_reserved = of_int (bs_reserved s), ss_used = of_int (bs_used s),
      ss_confidence = Some (case m of Some um \<Rightarrow> um_confidence um
                            | None \<Rightarrow> (case bs_confidence s of Some c \<Rightarrow> c | None \<Rightarrow> UnknownConfidence)),
      ss_last_meter = map_option um_created_at m\<rparr>"

definition summarize :: "budget_session \<Rightarrow> usage_meter option \<Rightarrow> session_summary" where
  "summarize s m =
     (let st = to_sentinel_state s m
      in \<lparr>su_session = bs_id s, su_status = bs_status s, su_limit = bs_limit s,
          su_reserved = bs_reserved s, su_used = bs_used s, su_ceiling = effective_lrt_ceiling st,
          su_confidence = ss_confidence st, su_last_meter = ss_last_meter st\<rparr>)"

text \<open>An empty room string is no room.\<close>

definition activity_room :: "budget_session \<Rightarrow> string option" where
  "activity_room s = (if truthy (bs_room s) then bs_room s else None)"

definition finite_non_negative :: "js_num \<Rightarrow> bool" where
  "finite_non_negative x \<longleftrightarrow> (case x of Fin q \<Rightarrow> 0 \<le> q | _ \<Rightarrow> False)"

definition require_idempotency_key :: "string option \<Rightarrow> budget_error + string" where
  "require_idempotency_key k =
     (case k of None \<Rightarrow> Inl InvalidInput
      | Some s \<Rightarrow> if js_trim s = [] then Inl InvalidInput else Inr (js_trim s))"

section \<open>Reserving\<close>

record reserve_input =
  rv_key :: "string option"
  rv_cost :: js_num
  rv_options :: sentinel_options

record reserve_result =
  rr_decision :: authorize_decision
  rr_delta :: rat
  rr_session :: session_summary
  rr_event :: "activity_event option"
  rr_exhausted :: "activity_event option"

text \<open>Reading a stored reservation back: the requested cost must be the same.\<close>

definition replay_reservation ::
  "js_num \<Rightarrow> session_summary \<Rightarrow> activity_event \<Rightarrow> budget_error + reserve_result" where
  "replay_reservation cost summary e =
     (case ev_payload e of
        ReservedPayload _ requested delta decision _ \<Rightarrow>
          if Fin requested \<noteq> cost then Inl IdempotencyConflict
          else Inr \<lparr>rr_decision = decision, rr_delta = delta, rr_session = summary,
                    rr_event = Some e, rr_exhausted = None\<rparr>
      | _ \<Rightarrow> Inl IdempotencyConflict)"

text \<open>Emitting into the room of a session, when it has one.\<close>

definition emit_if_room ::
  "(event_type \<Rightarrow> bool) \<Rightarrow> string \<Rightarrow> budget_session \<Rightarrow> event_type \<Rightarrow> event_payload \<Rightarrow> budget_db
   \<Rightarrow> activity_event option budget_result" where
  "emit_if_room emit_ok new_id s type payload db =
     (case activity_room s of
        None \<Rightarrow> (Inr None, db)
      | Some room \<Rightarrow> bind_db (emit_activity EmitFailed emit_ok new_id (bs_id s) room type payload db)
                       (\<lambda>e db. (Inr (Some e), db)))"

definition reserve_denied ::
  "(event_type \<Rightarrow> bool) \<Rightarrow> string \<Rightarrow> budget_session \<Rightarrow> usage_meter option \<Rightarrow> authorize_decision \<Rightarrow> budget_db
   \<Rightarrow> reserve_result budget_result" where
  "reserve_denied emit_ok new_id s m decision db =
     (let st = to_sentinel_state s m
      in if ad_reason decision = CeilingExceeded \<and> bs_status s \<noteq> ''budget_exhausted'' then
           bind_db (update_session_budget (bs_id s) (ss_reserved st) (ss_used st) (Some ''budget_exhausted'')
             (ss_confidence st) db) (\<lambda>updated db.
           let summary = (summarize updated m)\<lparr>su_ceiling :=
                 effective_lrt_ceiling (st\<lparr>ss_status := ''budget_exhausted''\<rparr>)\<rparr>
           in bind_db (emit_if_room emit_ok new_id updated BudgetExhaustedEvent
                (ExhaustedPayload ''ceiling_exceeded'' summary (Some decision) None) db) (\<lambda>e db.
              (Inr \<lparr>rr_decision = decision, rr_delta = 0, rr_session = summary, rr_event = None,
                    rr_exhausted = e\<rparr>, db)))
         else
           (Inr \<lparr>rr_decision = decision, rr_delta = 0, rr_session = summarize s m, rr_event = None,
                 rr_exhausted = None\<rparr>, db))"

definition reserve_allowed ::
  "(event_type \<Rightarrow> bool) \<Rightarrow> string \<Rightarrow> string \<Rightarrow> js_num \<Rightarrow> budget_session \<Rightarrow> usage_meter option
   \<Rightarrow> authorize_decision \<Rightarrow> budget_db \<Rightarrow> reserve_result budget_result" where
  "reserve_allowed emit_ok new_id key cost s m decision db =
     (let st = to_sentinel_state s m; (st', delta) = apply_reservation cost st
      in bind_db (update_session_budget (bs_id s) (ss_reserved st') (ss_used st') None (ss_confidence st) db)
          (\<lambda>updated db.
           let summary = summarize updated m
           in bind_db (emit_if_room emit_ok new_id updated BudgetReserved
                (ReservedPayload key (case cost of Fin c \<Rightarrow> c | _ \<Rightarrow> 0) delta decision summary) db) (\<lambda>e db.
              (Inr \<lparr>rr_decision = decision, rr_delta = delta, rr_session = summary, rr_event = e,
                    rr_exhausted = None\<rparr>, db))))"

definition reserve_locked ::
  "(event_type \<Rightarrow> bool) \<Rightarrow> string \<Rightarrow> string \<Rightarrow> string \<Rightarrow> reserve_input \<Rightarrow> int \<Rightarrow> budget_db
   \<Rightarrow> reserve_result budget_result" where
  "reserve_locked emit_ok new_id sid key inp now db =
     (case load_session sid db of
        None \<Rightarrow> (Inl SessionNotFound, db)
      | Some s \<Rightarrow>
         (case activity_room s of
            None \<Rightarrow> (Inl RoomNotAssigned, db)
          | Some _ \<Rightarrow>
             (let m = load_latest_meter sid db
              in case load_event sid BudgetReserved key db of
                   Some e \<Rightarrow> (replay_reservation (rv_cost inp) (summarize s m) e, db)
                 | None \<Rightarrow>
                    (let decision = authorize (rv_cost inp) (to_sentinel_state s m) (rv_options inp) now
                     in if \<not> ad_allowed decision then reserve_denied emit_ok new_id s m decision db
                        else reserve_allowed emit_ok new_id key (rv_cost inp) s m decision db))))"

definition reserve_budget ::
  "(event_type \<Rightarrow> bool) \<Rightarrow> string \<Rightarrow> string \<Rightarrow> reserve_input \<Rightarrow> int \<Rightarrow> budget_db
   \<Rightarrow> reserve_result budget_result" where
  "reserve_budget emit_ok new_id sid inp now db =
     (case require_idempotency_key (rv_key inp) of
        Inl e \<Rightarrow> (Inl e, db)
      | Inr key \<Rightarrow>
          if \<not> finite_non_negative (rv_cost inp) then (Inl InvalidInput, db)
          else with_session_lock (reserve_locked emit_ok new_id sid key inp now) db)"

section \<open>Reconciling\<close>

record reconcile_input =
  rcn_key :: "string option"
  rcn_actual :: js_num
  rcn_reserved :: js_num

record reconcile_result =
  rx_reserved_delta :: rat
  rx_used_delta :: rat
  rx_became_exhausted :: bool
  rx_session :: session_summary
  rx_event :: "activity_event option"
  rx_exhausted :: "activity_event option"

definition replay_reconciliation ::
  "reconcile_input \<Rightarrow> session_summary \<Rightarrow> activity_event \<Rightarrow> budget_error + reconcile_result" where
  "replay_reconciliation inp summary e =
     (case ev_payload e of
        ReconciledPayload _ actual reserved reserved_delta used_delta exhausted _ \<Rightarrow>
          if Fin actual \<noteq> rcn_actual inp \<or> Fin reserved \<noteq> rcn_reserved inp then Inl IdempotencyConflict
          else Inr \<lparr>rx_reserved_delta = reserved_delta, rx_used_delta = used_delta,
                    rx_became_exhausted = exhausted, rx_session = summary, rx_event = Some e,
                    rx_exhausted = None\<rparr>
      | _ \<Rightarrow> Inl IdempotencyConflict)"

definition fin_or_zero :: "js_num \<Rightarrow> rat" where
  "fin_or_zero x = (case x of Fin q \<Rightarrow> q | _ \<Rightarrow> 0)"

definition reconcile_fresh ::
  "(event_type \<Rightarrow> bool) \<Rightarrow> string \<Rightarrow> string \<Rightarrow> string \<Rightarrow> reconcile_input \<Rightarrow> budget_session \<Rightarrow> usage_meter option
   \<Rightarrow> budget_db \<Rightarrow> reconcile_result budget_result" where
  "reconcile_fresh emit_ok new_id new_id2 key inp s m db =
     (let st = to_sentinel_state s m; r = apply_reconciliation (rcn_actual inp) (rcn_reserved inp) st
      in bind_db (update_session_budget (bs_id s) (ss_reserved (rc_state r)) (ss_used (rc_state r))
           (Some (ss_status (rc_state r))) (ss_confidence st) db) (\<lambda>updated db.
         let summary = summarize updated m
         in bind_db (emit_if_room emit_ok new_id updated BudgetReconciled
              (ReconciledPayload key (fin_or_zero (rcn_actual inp)) (fin_or_zero (rcn_reserved inp))
                 (rc_reserved_delta r) (rc_used_delta r) (rc_became_exhausted r) summary) db) (\<lambda>e db.
            bind_db (if rc_became_exhausted r
                     then emit_if_room emit_ok new_id2 updated BudgetExhaustedEvent
                       (ExhaustedPayload ''reconciled_ceiling_crossed'' summary None
                          (Some (rc_used_delta r, rc_reserved_delta r))) db
                     else (Inr None, db)) (\<lambda>x db.
            (Inr \<lparr>rx_reserved_delta = rc_reserved_delta r, rx_used_delta = rc_used_delta r,
                  rx_became_exhausted = rc_became_exhausted r, rx_session = summary, rx_event = e,
                  rx_exhausted = x\<rparr>, db)))))"

definition reconcile_locked ::
  "(event_type \<Rightarrow> bool) \<Rightarrow> string \<Rightarrow> string \<Rightarrow> string \<Rightarrow> string \<Rightarrow> reconcile_input \<Rightarrow> budget_db
   \<Rightarrow> reconcile_result budget_result" where
  "reconcile_locked emit_ok new_id new_id2 sid key inp db =
     (case load_session sid db of
        None \<Rightarrow> (Inl SessionNotFound, db)
      | Some s \<Rightarrow>
         (case activity_room s of
            None \<Rightarrow> (Inl RoomNotAssigned, db)
          | Some _ \<Rightarrow>
             (let m = load_latest_meter sid db
              in case load_event sid BudgetReconciled key db of
                   Some e \<Rightarrow> (replay_reconciliation inp (summarize s m) e, db)
                 | None \<Rightarrow> reconcile_fresh emit_ok new_id new_id2 key inp s m db)))"

definition reconcile_budget ::
  "(event_type \<Rightarrow> bool) \<Rightarrow> string \<Rightarrow> string \<Rightarrow> string \<Rightarrow> reconcile_input \<Rightarrow> budget_db
   \<Rightarrow> reconcile_result budget_result" where
  "reconcile_budget emit_ok new_id new_id2 sid inp db =
     (case require_idempotency_key (rcn_key inp) of
        Inl e \<Rightarrow> (Inl e, db)
      | Inr key \<Rightarrow>
          if \<not> finite_non_negative (rcn_actual inp) \<or> \<not> finite_non_negative (rcn_reserved inp)
          then (Inl InvalidInput, db)
          else with_session_lock (reconcile_locked emit_ok new_id new_id2 sid key inp) db)"

section \<open>Inversion of the operations\<close>

lemma int4_Some: "int4 q = Some i \<Longrightarrow> of_int i = q"
  by (auto simp: int4_def split: if_splits)

lemma int4_of_int: "- (2 ^ 31) \<le> i \<Longrightarrow> i < 2 ^ 31 \<Longrightarrow> int4 (of_int i) = Some i"
  by (simp add: int4_def)

lemma update_session_budget_Inr:
  assumes "update_session_budget sid r u st c db = (Inr x, db')"
  shows "\<exists>s ri ui. load_session sid db = Some s \<and> of_int ri = r \<and> of_int ui = u \<and>
     x = patched_session ri ui st c s \<and> load_session sid db' = Some x \<and>
     bd_events db' = bd_events db \<and> bd_meters db' = bd_meters db \<and>
     (\<forall>sid'. sid' \<noteq> sid \<longrightarrow> load_session sid' db' = load_session sid' db)"
proof -
  from assms obtain ri ui where i: "int4 r = Some ri" "int4 u = Some ui"
    by (auto simp: update_session_budget_def split: option.splits prod.splits)
  let ?f = "patched_session ri ui st c"
  from assms i obtain s where s: "load_session sid db = Some s" "x = ?f s"
    and db': "db' = db\<lparr>bd_sessions := update_where (\<lambda>s. bs_id s = sid) ?f (bd_sessions db)\<rparr>"
    by (auto simp: update_session_budget_def load_session_def returning_first_def select_first_def
        split: option.splits)
  have "load_session sid db' = Some x"
    using s unfolding load_session_def db' by (simp add: select_first_update_where patched_session_def)
  moreover have "load_session sid' db' = load_session sid' db" if "sid' \<noteq> sid" for sid'
    unfolding load_session_def db' using that
    by (simp add: select_first_update_other patched_session_def)
  ultimately show ?thesis
    using s db' int4_Some [OF i(1)] int4_Some [OF i(2)] by auto
qed

lemma update_session_budget_Inl: "update_session_budget sid r u st c db = (Inl e, db') \<Longrightarrow> db' = db"
  by (auto simp: update_session_budget_def split: option.splits)

lemma emit_if_room_cases:
  assumes "emit_if_room ok i s type payload db = (x, db')"
  obtains (none) "x = Inr None" "activity_room s = None" "db' = db"
    | (failed) "x = Inl EmitFailed" "\<not> ok type" "db' = db"
    | (event) e room where "x = Inr (Some e)" "activity_room s = Some room" "ok type"
        "db' = db\<lparr>bd_events := bd_events db @ [e]\<rparr>"
        "e = \<lparr>ev_id = i, ev_session = bs_id s, ev_room = room, ev_type = type, ev_payload = payload\<rparr>"
  using assms
  by (auto simp: emit_if_room_def emit_activity_def Let_def split: option.splits if_splits)

lemma bind_db_Inr:
  "bind_db m k = (Inr b, db') \<longleftrightarrow> (\<exists>a db1. m = (Inr a, db1) \<and> k a db1 = (Inr b, db'))"
  by (cases m; cases "fst m") (auto simp: bind_db_def split: sum.splits)

lemma with_session_lock_Inr: "with_session_lock body db = (Inr a, db') \<longleftrightarrow> body db = (Inr a, db')"
  by (auto simp: with_session_lock_def split: prod.splits sum.splits)

lemma with_session_lock_Inl:
  "with_session_lock body db = (Inl e, db') \<Longrightarrow> bd_sessions db' = bd_sessions db"
  by (auto simp: with_session_lock_def split: prod.splits sum.splits)

lemma load_session_events: "load_session sid (db\<lparr>bd_events := es\<rparr>) = load_session sid db"
  by (simp add: load_session_def)

lemma load_session_id: "load_session sid db = Some s \<Longrightarrow> bs_id s = sid"
  by (auto simp: load_session_def dest: select_first_SomeD)

lemma reserve_denied_effect:
  assumes "reserve_denied ok i s m decision db = (Inr r, db')" "load_session (bs_id s) db = Some s"
  shows "\<exists>s'. load_session (bs_id s) db' = Some s' \<and> bs_reserved s' = bs_reserved s \<and> bs_used s' = bs_used s \<and>
    bs_limit s' = bs_limit s \<and> rr_decision r = decision \<and> rr_event r = None \<and> rr_delta r = 0 \<and>
    (if ad_reason decision = CeilingExceeded then bs_status s' = ''budget_exhausted'' else s' = s)"
proof (cases "ad_reason decision = CeilingExceeded \<and> bs_status s \<noteq> ''budget_exhausted''")
  case False
  with assms show ?thesis by (auto simp: reserve_denied_def Let_def)
next
  case True
  let ?st = "to_sentinel_state s m"
  from assms True obtain x db1 where u: "update_session_budget (bs_id s) (ss_reserved ?st) (ss_used ?st)
       (Some ''budget_exhausted'') (ss_confidence ?st) db = (Inr x, db1)"
    and e: "\<exists>y. emit_if_room ok i x BudgetExhaustedEvent (ExhaustedPayload ''ceiling_exceeded''
         ((summarize x m)\<lparr>su_ceiling := effective_lrt_ceiling (?st\<lparr>ss_status := ''budget_exhausted''\<rparr>)\<rparr>)
         (Some decision) None) db1 = (Inr y, db')"
    and r: "rr_decision r = decision" "rr_event r = None" "rr_delta r = 0"
    by (auto simp: reserve_denied_def Let_def bind_db_Inr)
  from update_session_budget_Inr [OF u] assms(2) obtain ri ui where
    x: "x = patched_session ri ui (Some ''budget_exhausted'') (ss_confidence ?st) s"
      "of_int ri = ss_reserved ?st" "of_int ui = ss_used ?st" "load_session (bs_id s) db1 = Some x" by auto
  have "load_session (bs_id s) db' = Some x"
    using e x(4) by (auto elim!: emit_if_room_cases simp: load_session_events)
  with x(1-3) r True show ?thesis
    by (auto simp: patched_session_def to_sentinel_state_def)
qed

lemma reserve_allowed_effect:
  assumes "reserve_allowed ok i key cost s m decision db = (Inr r, db')" "load_session (bs_id s) db = Some s"
  shows "\<exists>s'. load_session (bs_id s) db' = Some s' \<and>
    of_int (bs_reserved s') = of_int (bs_reserved s) + positive_amount cost \<and> bs_used s' = bs_used s \<and>
    bs_limit s' = bs_limit s \<and> bs_status s' = bs_status s \<and> rr_decision r = decision \<and>
    rr_delta r = positive_amount cost \<and> bs_room s' = bs_room s \<and>
    emit_if_room ok i s' BudgetReserved (ReservedPayload key (fin_or_zero cost) (positive_amount cost) decision
      (summarize s' m)) (db'\<lparr>bd_events := bd_events db\<rparr>) = (Inr (rr_event r), db')"
proof -
  let ?st = "to_sentinel_state s m"
  from assms obtain x db1 where u: "update_session_budget (bs_id s) (ss_reserved ?st + positive_amount cost)
       (ss_used ?st) None (ss_confidence ?st) db = (Inr x, db1)"
    and e: "emit_if_room ok i x BudgetReserved (ReservedPayload key (fin_or_zero cost) (positive_amount cost)
         decision (summarize x m)) db1 = (Inr (rr_event r), db')"
    and r: "rr_decision r = decision" "rr_delta r = positive_amount cost"
    by (auto simp: reserve_allowed_def apply_reservation_def Let_def bind_db_Inr fin_or_zero_def)
  from update_session_budget_Inr [OF u] assms(2) obtain ri ui where
    x: "x = patched_session ri ui None (ss_confidence ?st) s"
      "of_int ri = ss_reserved ?st + positive_amount cost" "of_int ui = ss_used ?st"
      "load_session (bs_id s) db1 = Some x" "bd_events db1 = bd_events db" by auto
  have l: "load_session (bs_id s) db' = Some x"
    using e x(4) by (auto elim!: emit_if_room_cases simp: load_session_events)
  have "db'\<lparr>bd_events := bd_events db\<rparr> = db1"
    using e x(5) [symmetric] by (auto elim!: emit_if_room_cases)
  with l x(1-3) r e show ?thesis
    by (auto simp: patched_session_def to_sentinel_state_def)
qed

lemma reserve_budget_Inr:
  assumes "reserve_budget ok i sid inp now db = (Inr r, db')"
  obtains (replayed) s key e where "load_session sid db = Some s" "truthy (bs_room s)"
      "require_idempotency_key (rv_key inp) = Inr key" "finite_non_negative (rv_cost inp)"
      "load_event sid BudgetReserved key db = Some e"
      "replay_reservation (rv_cost inp) (summarize s (load_latest_meter sid db)) e = Inr r" "db' = db"
    | (fresh) s key decision where "load_session sid db = Some s" "truthy (bs_room s)" "bs_id s = sid"
      "require_idempotency_key (rv_key inp) = Inr key" "finite_non_negative (rv_cost inp)"
      "load_event sid BudgetReserved key db = None"
      "decision = authorize (rv_cost inp) (to_sentinel_state s (load_latest_meter sid db)) (rv_options inp) now"
      "(if ad_allowed decision
        then reserve_allowed ok i key (rv_cost inp) s (load_latest_meter sid db) decision db
        else reserve_denied ok i s (load_latest_meter sid db) decision db) = (Inr r, db')"
proof -
  from assms obtain key where key: "require_idempotency_key (rv_key inp) = Inr key"
    "finite_non_negative (rv_cost inp)" "reserve_locked ok i sid key inp now db = (Inr r, db')"
    by (auto simp: reserve_budget_def with_session_lock_Inr split: sum.splits if_splits)
  then obtain s where s: "load_session sid db = Some s" "truthy (bs_room s)"
    by (auto simp: reserve_locked_def activity_room_def split: option.splits if_splits)
  show thesis
  proof (cases "load_event sid BudgetReserved key db")
    case (Some e)
    with key s show thesis
      by (intro replayed [of s key e]) (auto simp: reserve_locked_def activity_room_def split: option.splits)
  next
    case None
    show thesis
      by (rule fresh [OF s load_session_id [OF s(1)] key(1,2) None refl])
        (use key(3) s None in \<open>simp add: reserve_locked_def activity_room_def truthy_iff Let_def split: if_splits option.splits\<close>)
  qed
qed

lemma reconcile_fresh_effect:
  assumes "reconcile_fresh ok i j key inp s m db = (Inr r, db')" "load_session (bs_id s) db = Some s"
  shows "\<exists>s'. load_session (bs_id s) db' = Some s' \<and> bs_limit s' = bs_limit s \<and>
    (let rc = apply_reconciliation (rcn_actual inp) (rcn_reserved inp) (to_sentinel_state s m)
     in of_int (bs_reserved s') = ss_reserved (rc_state rc) \<and> of_int (bs_used s') = ss_used (rc_state rc) \<and>
        bs_status s' = ss_status (rc_state rc) \<and> rx_became_exhausted r = rc_became_exhausted rc)"
proof -
  let ?st = "to_sentinel_state s m"
  let ?rc = "apply_reconciliation (rcn_actual inp) (rcn_reserved inp) ?st"
  from assms obtain x db1 e db2 y where
      u: "update_session_budget (bs_id s) (ss_reserved (rc_state ?rc)) (ss_used (rc_state ?rc))
           (Some (ss_status (rc_state ?rc))) (ss_confidence ?st) db = (Inr x, db1)"
    and e: "emit_if_room ok i x BudgetReconciled (ReconciledPayload key (fin_or_zero (rcn_actual inp))
         (fin_or_zero (rcn_reserved inp)) (rc_reserved_delta ?rc) (rc_used_delta ?rc) (rc_became_exhausted ?rc)
         (summarize x m)) db1 = (Inr e, db2)"
    and y: "(if rc_became_exhausted ?rc
        then emit_if_room ok j x BudgetExhaustedEvent (ExhaustedPayload ''reconciled_ceiling_crossed''
          (summarize x m) None (Some (rc_used_delta ?rc, rc_reserved_delta ?rc))) db2
        else (Inr None, db2)) = (Inr y, db')"
    and r: "rx_became_exhausted r = rc_became_exhausted ?rc"
    unfolding reconcile_fresh_def Let_def bind_db_Inr by auto
  from update_session_budget_Inr [OF u] assms(2) obtain ri ui where
    x: "x = patched_session ri ui (Some (ss_status (rc_state ?rc))) (ss_confidence ?st) s"
      "of_int ri = ss_reserved (rc_state ?rc)" "of_int ui = ss_used (rc_state ?rc)"
      "load_session (bs_id s) db1 = Some x" by auto
  have "load_session (bs_id s) db2 = Some x"
    using e x(4) by (auto elim!: emit_if_room_cases simp: load_session_events)
  then have "load_session (bs_id s) db' = Some x"
    using y by (auto elim!: emit_if_room_cases simp: load_session_events split: if_splits)
  with x(1-3) r show ?thesis by (auto simp: patched_session_def Let_def)
qed

lemma reconcile_budget_Inr:
  assumes "reconcile_budget ok i j sid inp db = (Inr r, db')"
  obtains s key where "load_session sid db = Some s" "bs_id s = sid"
    "require_idempotency_key (rcn_key inp) = Inr key"
    "(load_event sid BudgetReconciled key db \<noteq> None \<and> db' = db) \<or>
     (load_event sid BudgetReconciled key db = None \<and>
      reconcile_fresh ok i j key inp s (load_latest_meter sid db) db = (Inr r, db'))"
proof -
  from assms obtain key where key: "require_idempotency_key (rcn_key inp) = Inr key"
    "reconcile_locked ok i j sid key inp db = (Inr r, db')"
    by (auto simp: reconcile_budget_def with_session_lock_Inr split: sum.splits if_splits)
  then obtain s where s: "load_session sid db = Some s"
    by (auto simp: reconcile_locked_def split: option.splits)
  show thesis
    by (rule that [OF s load_session_id [OF s] key(1)])
      (use key(2) s in \<open>auto simp: reconcile_locked_def Let_def split: option.splits\<close>)
qed

section \<open>The properties\<close>

text \<open>C36: The exact effect of a successful \<open>reserveBudget\<close> on the session: a key that was used
  before changes nothing; otherwise the decision is the sentinel's on the stored row, an authorised
  cost is added to the reserved amount and nothing else of the money changes, reserved plus used
  then stay within the effective ceiling, and a denial changes no amount and marks the session
  exhausted exactly when the ceiling was the reason.\<close>

theorem reserve_effect:
  assumes "reserve_budget ok i sid inp now db = (Inr r, db')"
  shows "\<exists>s s' key. load_session sid db = Some s \<and> load_session sid db' = Some s' \<and>
    require_idempotency_key (rv_key inp) = Inr key \<and>
    (if load_event sid BudgetReserved key db \<noteq> None then db' = db
     else rr_decision r = authorize (rv_cost inp) (to_sentinel_state s (load_latest_meter sid db))
            (rv_options inp) now \<and>
       bs_used s' = bs_used s \<and> bs_limit s' = bs_limit s \<and>
       (if ad_allowed (rr_decision r) then
          of_int (bs_reserved s') = of_int (bs_reserved s) + positive_amount (rv_cost inp) \<and>
          bs_status s' = bs_status s \<and>
          of_int (bs_reserved s' + bs_used s') \<le>
            effective_lrt_ceiling (to_sentinel_state s (load_latest_meter sid db))
        else bs_reserved s' = bs_reserved s \<and>
          (if ad_reason (rr_decision r) = CeilingExceeded then bs_status s' = ''budget_exhausted'' else s' = s)))"
  using assms
proof (cases rule: reserve_budget_Inr)
  case (replayed s key e)
  then show ?thesis by auto
next
  case (fresh s key decision)
  let ?st = "to_sentinel_state s (load_latest_meter sid db)"
  show ?thesis
  proof (cases "ad_allowed decision")
    case True
    with fresh reserve_allowed_effect [of ok i key "rv_cost inp" s "load_latest_meter sid db" decision db r db']
    obtain s' where s': "load_session sid db' = Some s'"
      "of_int (bs_reserved s') = of_int (bs_reserved s) + positive_amount (rv_cost inp)"
      "bs_used s' = bs_used s" "bs_limit s' = bs_limit s" "bs_status s' = bs_status s" "rr_decision r = decision"
      by auto
    have "of_int (bs_reserved s' + bs_used s') \<le> effective_lrt_ceiling ?st"
      using conjunct1 [OF authorize_allowed_iff, of "rv_cost inp" ?st "rv_options inp" now] True fresh(7) s'(2,3)
      by (auto simp: to_sentinel_state_def positive_amount_def)
    with s' fresh True show ?thesis by auto
  next
    case False
    with fresh reserve_denied_effect [of ok i s "load_latest_meter sid db" decision db r db']
    show ?thesis by auto
  qed
qed

definition demo_budget :: budget_db where
  "demo_budget = \<lparr>bd_sessions = [\<lparr>bs_id = ''s1'', bs_room = Some ''room'', bs_status = ''active'',
       bs_limit = Some 100, bs_threshold = None, bs_reserved = 10, bs_used = 20, bs_confidence = Some LocalExact,
       bs_renter = ''alice'', bs_provider = ''bob''\<rparr>],
     bd_meters = [\<lparr>um_session = ''s1'', um_created_at = 1000, um_confidence = LocalExact\<rparr>], bd_events = []\<rparr>"

definition demo_reserve :: reserve_input where
  "demo_reserve = \<lparr>rv_key = Some '' k1 '', rv_cost = Fin 30,
     rv_options = \<lparr>so_stale_ms = None, so_stale_fraction = None\<rparr>\<rparr>"

definition demo_reserved :: budget_db where
  "demo_reserved = snd (reserve_budget (\<lambda>_. True) ''e1'' ''s1'' demo_reserve 2000 demo_budget)"

definition demo_reserve_result :: reserve_result where
  "demo_reserve_result =
     (case fst (reserve_budget (\<lambda>_. True) ''e1'' ''s1'' demo_reserve 2000 demo_budget) of
        Inr r \<Rightarrow> r | Inl _ \<Rightarrow> \<lparr>rr_decision = authorize NaN demo_sentinel (rv_options demo_reserve) 0, rr_delta = 0,
          rr_session = summarize (hd (bd_sessions demo_budget)) None, rr_event = None, rr_exhausted = None\<rparr>)"

lemma demo_reserve_run:
  "reserve_budget (\<lambda>_. True) ''e1'' ''s1'' demo_reserve 2000 demo_budget = (Inr demo_reserve_result, demo_reserved)"
  "ad_allowed (rr_decision demo_reserve_result)"
  by code_simp+

theorem reserve_effect_witness:
  "\<exists>s s' key. load_session ''s1'' demo_budget = Some s \<and> load_session ''s1'' demo_reserved = Some s' \<and>
    require_idempotency_key (rv_key demo_reserve) = Inr key \<and>
    (if load_event ''s1'' BudgetReserved key demo_budget \<noteq> None then demo_reserved = demo_budget
     else rr_decision demo_reserve_result = authorize (rv_cost demo_reserve)
            (to_sentinel_state s (load_latest_meter ''s1'' demo_budget)) (rv_options demo_reserve) 2000 \<and>
       bs_used s' = bs_used s \<and> bs_limit s' = bs_limit s \<and>
       (if ad_allowed (rr_decision demo_reserve_result) then
          of_int (bs_reserved s') = of_int (bs_reserved s) + positive_amount (rv_cost demo_reserve) \<and>
          bs_status s' = bs_status s \<and>
          of_int (bs_reserved s' + bs_used s') \<le>
            effective_lrt_ceiling (to_sentinel_state s (load_latest_meter ''s1'' demo_budget))
        else bs_reserved s' = bs_reserved s \<and>
          (if ad_reason (rr_decision demo_reserve_result) = CeilingExceeded
           then bs_status s' = ''budget_exhausted'' else s' = s)))"
  by (rule reserve_effect [OF demo_reserve_run(1)])

text \<open>A reservation is idempotent: after an authorised reservation, any retry with the same
  key and the same cost returns the recorded decision, amount and event and changes nothing, whatever
  the meter, the clock and the options say by then; with another cost it is refused.\<close>

theorem reserve_idempotent:
  assumes "reserve_budget ok i sid inp now db = (Inr r, db')" "ad_allowed (rr_decision r)"
    and "rv_key inp' = rv_key inp" "finite_non_negative (rv_cost inp')"
  shows "\<exists>s'. load_session sid db' = Some s' \<and>
    reserve_budget ok' j sid inp' now' db' =
      (if rv_cost inp' = rv_cost inp
       then Inr \<lparr>rr_decision = rr_decision r, rr_delta = rr_delta r,
              rr_session = summarize s' (load_latest_meter sid db'), rr_event = rr_event r, rr_exhausted = None\<rparr>
       else Inl IdempotencyConflict, db')"
proof -
  obtain s' key e cost where s': "load_session sid db' = Some s'" "truthy (bs_room s')"
    and key: "require_idempotency_key (rv_key inp) = Inr key"
    and e: "load_event sid BudgetReserved key db' = Some e"
      "\<exists>k summary. ev_payload e = ReservedPayload k cost (rr_delta r) (rr_decision r) summary"
    and cost: "rv_cost inp = Fin cost" and ev: "rr_event r = Some e"
    using assms(1)
  proof (cases rule: reserve_budget_Inr)
    case (replayed s key e)
    then have "\<exists>k c summary. ev_payload e = ReservedPayload k c (rr_delta r) (rr_decision r) summary \<and>
        rv_cost inp = Fin c \<and> rr_event r = Some e"
      by (auto simp: replay_reservation_def split: event_payload.splits if_splits)
    with replayed that show thesis by blast
  next
    case (fresh s key decision)
    from fresh(5) obtain c where c: "rv_cost inp = Fin c"
      by (auto simp: finite_non_negative_def split: js_num.splits)
    show thesis
    proof (cases "ad_allowed decision")
      case False
      with fresh reserve_denied_effect [of ok i s "load_latest_meter sid db" decision db r db'] assms(2)
      show thesis by auto
    next
      case True
      with fresh reserve_allowed_effect [of ok i key "rv_cost inp" s "load_latest_meter sid db" decision db r db']
      obtain s' where s': "load_session sid db' = Some s'" "bs_room s' = bs_room s" "rr_decision r = decision"
        "rr_delta r = positive_amount (rv_cost inp)"
        and em: "emit_if_room ok i s' BudgetReserved (ReservedPayload key (fin_or_zero (rv_cost inp))
          (positive_amount (rv_cost inp)) decision (summarize s' (load_latest_meter sid db)))
          (db'\<lparr>bd_events := bd_events db\<rparr>) = (Inr (rr_event r), db')"
        by auto
      have id: "bs_id s' = sid" using load_session_id [OF s'(1)] .
      from em show thesis
      proof (cases rule: emit_if_room_cases)
        case none
        with fresh(2) s'(2) show thesis by (auto simp: activity_room_def)
      next
        case (event e room)
        then have evs: "bd_events db' = bd_events db @ [e]"
          by (metis budget_db.select_convs(3) budget_db.surjective budget_db.update_convs(3))
        have "load_event sid BudgetReserved key db' = Some e"
          using event(5) id by (simp add: load_event_def evs select_first_def)
        then show thesis
          using that [of s' key e c] s' fresh(2,4) event(1,5) c by (simp add: fin_or_zero_def)
      qed simp
    qed
  qed
  have "reserve_locked ok' j sid key inp' now' db' =
      (replay_reservation (rv_cost inp') (summarize s' (load_latest_meter sid db')) e, db')"
    using s' e by (simp add: reserve_locked_def activity_room_def Let_def truthy_iff)
      (auto split: option.splits)
  moreover have "replay_reservation (rv_cost inp') (summarize s' (load_latest_meter sid db')) e =
      (if rv_cost inp' = rv_cost inp
       then Inr \<lparr>rr_decision = rr_decision r, rr_delta = rr_delta r,
              rr_session = summarize s' (load_latest_meter sid db'), rr_event = rr_event r, rr_exhausted = None\<rparr>
       else Inl IdempotencyConflict)"
    using e(2) cost ev by (auto simp: replay_reservation_def)
  ultimately show ?thesis
    using s'(1) key assms(3,4) by (auto simp: reserve_budget_def with_session_lock_def split: if_splits)
qed

theorem reserve_idempotent_witness:
  "\<exists>s'. load_session ''s1'' demo_reserved = Some s' \<and>
    reserve_budget (\<lambda>_. True) ''e2'' ''s1'' demo_reserve 99999 demo_reserved =
      (if rv_cost demo_reserve = rv_cost demo_reserve
       then Inr \<lparr>rr_decision = rr_decision demo_reserve_result, rr_delta = rr_delta demo_reserve_result,
              rr_session = summarize s' (load_latest_meter ''s1'' demo_reserved),
              rr_event = rr_event demo_reserve_result, rr_exhausted = None\<rparr>
       else Inl IdempotencyConflict, demo_reserved)"
  by (rule reserve_idempotent [OF demo_reserve_run])
    (simp_all add: demo_reserve_def finite_non_negative_def)

text \<open>The exact effect of a successful \<open>reconcileBudget\<close>: a key that was used before changes
  nothing; otherwise the actual cost is added to the used amount, the reservation is released down
  to zero at most, the limit stays, and the session becomes exhausted exactly when it has a
  positive ceiling that used plus reserved now reach.\<close>

theorem reconcile_effect:
  assumes "reconcile_budget ok i j sid inp db = (Inr r, db')"
  shows "\<exists>s s' key. load_session sid db = Some s \<and> load_session sid db' = Some s' \<and>
    require_idempotency_key (rcn_key inp) = Inr key \<and>
    (if load_event sid BudgetReconciled key db \<noteq> None then db' = db
     else of_int (bs_used s') = of_int (bs_used s) + positive_amount (rcn_actual inp) \<and>
       of_int (bs_reserved s') = max 0 (of_int (bs_reserved s) - positive_amount (rcn_reserved inp)) \<and>
       bs_limit s' = bs_limit s \<and>
       (let ceiling = effective_lrt_ceiling (to_sentinel_state s (load_latest_meter sid db))
        in bs_status s' = (if 0 < ceiling \<and> ceiling \<le> of_int (bs_used s' + bs_reserved s')
                           then ''budget_exhausted'' else bs_status s)))"
proof -
  obtain s key where s: "load_session sid db = Some s" "bs_id s = sid"
    and key: "require_idempotency_key (rcn_key inp) = Inr key"
    and run: "(load_event sid BudgetReconciled key db \<noteq> None \<and> db' = db) \<or>
     (load_event sid BudgetReconciled key db = None \<and>
      reconcile_fresh ok i j key inp s (load_latest_meter sid db) db = (Inr r, db'))"
    using assms by (rule reconcile_budget_Inr)
  show ?thesis
  proof (cases "load_event sid BudgetReconciled key db")
    case (Some e)
    with s key run show ?thesis by auto
  next
    case None
    let ?st = "to_sentinel_state s (load_latest_meter sid db)"
    let ?rc = "apply_reconciliation (rcn_actual inp) (rcn_reserved inp) ?st"
    from None run s reconcile_fresh_effect [of ok i j key inp s "load_latest_meter sid db" db r db']
    obtain s' where s': "load_session sid db' = Some s'" "bs_limit s' = bs_limit s"
      "of_int (bs_reserved s') = ss_reserved (rc_state ?rc)" "of_int (bs_used s') = ss_used (rc_state ?rc)"
      "bs_status s' = ss_status (rc_state ?rc)"
      by (auto simp: Let_def)
    have used: "of_int (bs_used s') = of_int (bs_used s) + positive_amount (rcn_actual inp)"
      using s'(4) by (simp add: apply_reconciliation_def Let_def to_sentinel_state_def)
    have reserved: "of_int (bs_reserved s') = max 0 (of_int (bs_reserved s) - positive_amount (rcn_reserved inp))"
      using s'(3) by (auto simp: apply_reconciliation_def Let_def to_sentinel_state_def positive_amount_def
          split: js_num.split)
    have "bs_status s' = (if 0 < effective_lrt_ceiling ?st \<and>
          effective_lrt_ceiling ?st \<le> of_int (bs_used s' + bs_reserved s')
        then ''budget_exhausted'' else bs_status s)"
      using s'(3,4,5) by (auto simp: apply_reconciliation_def Let_def to_sentinel_state_def)
    with used reserved s' s key None show ?thesis by (auto simp: Let_def)
  qed
qed

definition demo_reconcile :: reconcile_input where
  "demo_reconcile = \<lparr>rcn_key = Some ''k2'', rcn_actual = Fin 80, rcn_reserved = Fin 30\<rparr>"

theorem reconcile_effect_witness:
  "\<exists>s s' key. load_session ''s1'' demo_reserved = Some s \<and>
    load_session ''s1'' (snd (reconcile_budget (\<lambda>_. True) ''e2'' ''e3'' ''s1'' demo_reconcile demo_reserved)) = Some s' \<and>
    require_idempotency_key (rcn_key demo_reconcile) = Inr key \<and>
    (if load_event ''s1'' BudgetReconciled key demo_reserved \<noteq> None
     then snd (reconcile_budget (\<lambda>_. True) ''e2'' ''e3'' ''s1'' demo_reconcile demo_reserved) = demo_reserved
     else of_int (bs_used s') = of_int (bs_used s) + positive_amount (rcn_actual demo_reconcile) \<and>
       of_int (bs_reserved s') = max 0 (of_int (bs_reserved s) - positive_amount (rcn_reserved demo_reconcile)) \<and>
       bs_limit s' = bs_limit s \<and>
       (let ceiling = effective_lrt_ceiling (to_sentinel_state s (load_latest_meter ''s1'' demo_reserved))
        in bs_status s' = (if 0 < ceiling \<and> ceiling \<le> of_int (bs_used s' + bs_reserved s')
                           then ''budget_exhausted'' else bs_status s)))"
proof -
  have "\<not> isl (fst (reconcile_budget (\<lambda>_. True) ''e2'' ''e3'' ''s1'' demo_reconcile demo_reserved))"
    by code_simp
  then obtain r where "reconcile_budget (\<lambda>_. True) ''e2'' ''e3'' ''s1'' demo_reconcile demo_reserved =
      (Inr r, snd (reconcile_budget (\<lambda>_. True) ''e2'' ''e3'' ''s1'' demo_reconcile demo_reserved))"
    by (metis prod.collapse sum.collapse(2))
  then show ?thesis by (rule reconcile_effect)
qed

section \<open>Observations\<close>

text \<open>
  A fractional step cost passes the finite-and-non-negative test and the sentinel authorises it,
  but the integer column refuses the new amount: the request fails with a database error.
\<close>

lemma fractional_cost_is_a_database_error:
  "ad_allowed (authorize (Fin (1 / 2)) (to_sentinel_state (hd (bd_sessions demo_budget))
      (load_latest_meter ''s1'' demo_budget)) (rv_options demo_reserve) 2000) \<and>
   reserve_budget (\<lambda>_. True) ''e1'' ''s1'' (demo_reserve\<lparr>rv_cost := Fin (1 / 2)\<rparr>) 2000 demo_budget =
     (Inl DatabaseError, demo_budget)"
  by code_simp

text \<open>
  The activity events are not part of the transaction. When the second event of a reconciliation
  that exhausts the budget cannot be written, the row is rolled back but the first event stays; the
  retry then takes that event for a finished reconciliation and the usage is never booked.
\<close>

lemma lost_reconciliation:
  "let r1 = reconcile_budget (\<lambda>t. t \<noteq> BudgetExhaustedEvent) ''e2'' ''e3'' ''s1'' demo_reconcile demo_reserved;
       r2 = reconcile_budget (\<lambda>_. True) ''e4'' ''e5'' ''s1'' demo_reconcile (snd r1)
   in fst r1 = Inl EmitFailed \<and> \<not> isl (fst r2) \<and> rx_used_delta (projr (fst r2)) = 80 \<and>
      bd_sessions (snd r2) = bd_sessions demo_reserved"
  by code_simp

end
