(* ===== verification/BudgetExtension.thy ===== *)
theory BudgetExtension
  imports BudgetLedger
begin

text \<open>
  Budget extensions, \<^verbatim>\<open>src/api/rental/budget-extension.ts\<close>: a participant requests more
  tokens, only the renter decides, and an approval is what raises the limit. Decisions run under
  the session lock; of an event's payload the parts that are read back are kept.
\<close>

datatype extension_error =
    InvalidAmount | ExtSessionNotFound | SessionTerminal | ExtRoomNotAssigned | NotRenter
  | RequestNotFound | AlreadyDecided | InvalidRequest | ExtDatabaseError | ExtEmitFailed

datatype participant_role = Renter | Provider

definition terminal_statuses :: "string list" where
  "terminal_statuses = [''completed'', ''cancelled'', ''expired'', ''failed'']"

text \<open>A finite positive integer.\<close>

definition positive_integer :: "js_num \<Rightarrow> bool" where
  "positive_integer x = (case x of Fin q \<Rightarrow> js_integer (Fin q) \<and> 0 < q | _ \<Rightarrow> False)"

definition role_for_account :: "budget_session \<Rightarrow> string \<Rightarrow> participant_role option" where
  "role_for_account s account =
     (if bs_renter s = account then Some Renter else if bs_provider s = account then Some Provider else None)"

definition ensure_participant ::
  "budget_session option \<Rightarrow> string \<Rightarrow> extension_error + participant_role" where
  "ensure_participant s account =
     bind_result (require s ExtSessionNotFound) (\<lambda>s.
     bind_result (require (role_for_account s account) ExtSessionNotFound) (\<lambda>role.
     bind_result (guard_result (bs_status s \<notin> set terminal_statuses) SessionTerminal) (\<lambda>_.
     bind_result (guard_result (truthy (bs_room s)) ExtRoomNotAssigned) (\<lambda>_.
     Inr role))))"

definition requested_lrt_from :: "activity_event \<Rightarrow> extension_error + rat" where
  "requested_lrt_from e =
     (case ev_payload e of
        ExtensionRequestPayload amount _ \<Rightarrow>
          if positive_integer (Fin amount) then Inr amount else Inl InvalidRequest
      | _ \<Rightarrow> Inl InvalidRequest)"

definition get_request_event :: "string \<Rightarrow> string \<Rightarrow> budget_db \<Rightarrow> activity_event option" where
  "get_request_event sid rid db =
     select_first (\<lambda>e. ev_id e = rid \<and> ev_session e = sid \<and> ev_type e = ExtensionRequested) (bd_events db)"

fun payload_request :: "event_payload \<Rightarrow> string option" where
  "payload_request (ExtensionApprovedPayload r _ _ _ _ _ _ _) = Some r"
| "payload_request (ExtensionDeniedPayload r _ _) = Some r"
| "payload_request _ = None"

definition decides :: "string \<Rightarrow> string \<Rightarrow> activity_event \<Rightarrow> bool" where
  "decides sid rid e \<longleftrightarrow> ev_session e = sid \<and> ev_type e \<in> {ExtensionApproved, ExtensionDenied} \<and>
     payload_request (ev_payload e) = Some rid"

definition has_decision :: "string \<Rightarrow> string \<Rightarrow> budget_db \<Rightarrow> bool" where
  "has_decision sid rid db \<longleftrightarrow> (\<exists>e \<in> set (bd_events db). decides sid rid e)"

definition extended_session :: "int \<Rightarrow> string \<Rightarrow> budget_session \<Rightarrow> budget_session" where
  "extended_session limit status s = s\<lparr>bs_limit := Some limit, bs_status := status\<rparr>"

text \<open>\<open>SET lrt_limit = COALESCE(lrt_limit, 0) + n\<close> on a 32-bit integer column.\<close>

definition increment_session_budget ::
  "string \<Rightarrow> rat \<Rightarrow> string \<Rightarrow> budget_db \<Rightarrow> (extension_error, budget_session) db_result" where
  "increment_session_budget sid additional status db =
     (case load_session sid db of
        None \<Rightarrow> (Inl ExtSessionNotFound, db)
      | Some s \<Rightarrow>
         (case int4 (of_int (override 0 (bs_limit s)) + additional) of
            None \<Rightarrow> (Inl ExtDatabaseError, db)
          | Some limit \<Rightarrow> (Inr (extended_session limit status s),
              db\<lparr>bd_sessions := update_where (\<lambda>x. bs_id x = sid) (extended_session limit status) (bd_sessions db)\<rparr>)))"

definition request_budget_extension ::
  "(event_type \<Rightarrow> bool) \<Rightarrow> string \<Rightarrow> string \<Rightarrow> string \<Rightarrow> js_num \<Rightarrow> budget_db
   \<Rightarrow> (extension_error, activity_event) db_result" where
  "request_budget_extension emit_ok new_id sid account amount db =
     (if \<not> positive_integer amount then (Inl InvalidAmount, db)
      else case ensure_participant (load_session sid db) account of
             Inl e \<Rightarrow> (Inl e, db)
           | Inr role \<Rightarrow>
               emit_activity ExtEmitFailed emit_ok new_id sid (the (bs_room (the (load_session sid db))))
                 ExtensionRequested (ExtensionRequestPayload (fin_or_zero amount) account) db)"

record extension_decision =
  ed_session :: budget_session
  ed_request :: activity_event
  ed_decision :: activity_event
  ed_previous_limit :: "int option"
  ed_new_limit :: "int option"

text \<open>The checks both decisions share: an undecided request of a live session, decided by the
  renter; the result is the session, the request and its amount.\<close>

definition decision_checks ::
  "string \<Rightarrow> string \<Rightarrow> string \<Rightarrow> budget_db \<Rightarrow> extension_error + (budget_session \<times> activity_event \<times> rat)" where
  "decision_checks sid account rid db =
     bind_result (ensure_participant (load_session sid db) account) (\<lambda>role.
     bind_result (guard_result (role = Renter) NotRenter) (\<lambda>_.
     bind_result (require (get_request_event sid rid db) RequestNotFound) (\<lambda>request.
     bind_result (guard_result (\<not> has_decision sid rid db) AlreadyDecided) (\<lambda>_.
     bind_result (requested_lrt_from request) (\<lambda>amount.
     bind_result (require (load_session sid db) ExtSessionNotFound) (\<lambda>s.
     Inr (s, request, amount)))))))"

definition approve_locked ::
  "(event_type \<Rightarrow> bool) \<Rightarrow> string \<Rightarrow> string \<Rightarrow> string \<Rightarrow> string \<Rightarrow> js_num option \<Rightarrow> budget_db
   \<Rightarrow> (extension_error, extension_decision) db_result" where
  "approve_locked emit_ok new_id sid account rid approved db =
     (case decision_checks sid account rid db of
        Inl e \<Rightarrow> (Inl e, db)
      | Inr (s, request, requested) \<Rightarrow>
         (let amount = override (Fin requested) approved
          in if \<not> positive_integer amount then (Inl InvalidAmount, db)
             else
              (let next_status = (if bs_status s = ''budget_exhausted'' then ''active'' else bs_status s)
               in bind_db (increment_session_budget sid (fin_or_zero amount) next_status db) (\<lambda>updated db.
                  bind_db (emit_activity ExtEmitFailed emit_ok new_id sid (the (bs_room s)) ExtensionApproved
                    (ExtensionApprovedPayload rid requested (fin_or_zero amount) (bs_limit s) (bs_limit updated)
                       (bs_status s) next_status account) db) (\<lambda>decision db.
                  (Inr \<lparr>ed_session = updated, ed_request = request, ed_decision = decision,
                        ed_previous_limit = bs_limit s, ed_new_limit = bs_limit updated\<rparr>, db))))))"

definition deny_locked ::
  "(event_type \<Rightarrow> bool) \<Rightarrow> string \<Rightarrow> string \<Rightarrow> string \<Rightarrow> string \<Rightarrow> budget_db
   \<Rightarrow> (extension_error, extension_decision) db_result" where
  "deny_locked emit_ok new_id sid account rid db =
     (case decision_checks sid account rid db of
        Inl e \<Rightarrow> (Inl e, db)
      | Inr (s, request, requested) \<Rightarrow>
          bind_db (emit_activity ExtEmitFailed emit_ok new_id sid (the (bs_room s)) ExtensionDenied
            (ExtensionDeniedPayload rid requested account) db) (\<lambda>decision db.
          (Inr \<lparr>ed_session = s, ed_request = request, ed_decision = decision,
                ed_previous_limit = bs_limit s, ed_new_limit = bs_limit s\<rparr>, db)))"

definition approve_budget_extension ::
  "(event_type \<Rightarrow> bool) \<Rightarrow> string \<Rightarrow> string \<Rightarrow> string \<Rightarrow> string \<Rightarrow> js_num option \<Rightarrow> budget_db
   \<Rightarrow> (extension_error, extension_decision) db_result" where
  "approve_budget_extension emit_ok new_id sid account rid approved =
     with_session_lock (approve_locked emit_ok new_id sid account rid approved)"

definition deny_budget_extension ::
  "(event_type \<Rightarrow> bool) \<Rightarrow> string \<Rightarrow> string \<Rightarrow> string \<Rightarrow> string \<Rightarrow> budget_db
   \<Rightarrow> (extension_error, extension_decision) db_result" where
  "deny_budget_extension emit_ok new_id sid account rid =
     with_session_lock (deny_locked emit_ok new_id sid account rid)"

section \<open>How the money of a session evolves\<close>

definition session_evolves :: "budget_session \<Rightarrow> budget_session \<Rightarrow> bool" where
  "session_evolves s s' \<longleftrightarrow>
     bs_used s \<le> bs_used s' \<and> (0 \<le> bs_reserved s \<longrightarrow> 0 \<le> bs_reserved s') \<and>
     (case bs_limit s of None \<Rightarrow> True
      | Some l \<Rightarrow> (case bs_limit s' of None \<Rightarrow> False | Some l' \<Rightarrow> l \<le> l'))"

definition db_evolves :: "budget_db \<Rightarrow> budget_db \<Rightarrow> bool" where
  "db_evolves db db' \<longleftrightarrow>
     (\<forall>sid. rel_option session_evolves (load_session sid db) (load_session sid db'))"

lemma session_evolves_refl [simp]: "session_evolves s s"
  by (simp add: session_evolves_def split: option.split)

lemma session_evolves_trans: "session_evolves a b \<Longrightarrow> session_evolves b c \<Longrightarrow> session_evolves a c"
  by (auto simp: session_evolves_def split: option.splits)

lemma rel_option_trans:
  "rel_option R x y \<Longrightarrow> rel_option R y z \<Longrightarrow> (\<And>a b c. R a b \<Longrightarrow> R b c \<Longrightarrow> R a c) \<Longrightarrow> rel_option R x z"
  by (cases x; cases y; cases z) auto

lemma db_evolves_refl [simp]: "db_evolves db db"
  by (simp add: db_evolves_def option.rel_refl)

lemma db_evolves_trans: "db_evolves a b \<Longrightarrow> db_evolves b c \<Longrightarrow> db_evolves a c"
  unfolding db_evolves_def using rel_option_trans [of session_evolves] session_evolves_trans by metis

lemma db_evolves_sessions: "bd_sessions db' = bd_sessions db \<Longrightarrow> db_evolves db db'"
  by (simp add: db_evolves_def load_session_def option.rel_refl)

lemma update_budget_evolves:
  assumes "update_session_budget sid r u st c db = (Inr x, db')" "load_session sid db = Some s"
    and "of_int (bs_used s) \<le> u" "0 \<le> bs_reserved s \<Longrightarrow> 0 \<le> r"
  shows "db_evolves db db'"
  unfolding db_evolves_def
proof
  fix sid'
  obtain ri ui where x: "x = patched_session ri ui st c s" "of_int ri = r" "of_int ui = u"
    "load_session sid db' = Some x" "\<forall>t. t \<noteq> sid \<longrightarrow> load_session t db' = load_session t db"
    using update_session_budget_Inr [OF assms(1)] assms(2) by auto
  have "(0::rat) \<le> of_int ri \<Longrightarrow> 0 \<le> ri" "(of_int (bs_used s) :: rat) \<le> of_int ui \<Longrightarrow> bs_used s \<le> ui"
    by simp_all
  then have "session_evolves s x"
    using assms(3,4) x(2,3) by (auto simp: x(1) session_evolves_def patched_session_def split: option.split)
  then show "rel_option session_evolves (load_session sid' db) (load_session sid' db')"
    using x assms(2) by (cases "sid' = sid") (auto simp: option.rel_refl)
qed

lemma emit_if_room_evolves: "emit_if_room ok i s type payload db = (x, db') \<Longrightarrow> db_evolves db db'"
  by (erule emit_if_room_cases) (simp_all add: db_evolves_sessions)

lemma emit_activity_sessions:
  "emit_activity err ok i sid room type payload db = (x, db') \<Longrightarrow> bd_sessions db' = bd_sessions db"
  by (auto simp: emit_activity_def Let_def split: if_splits)

lemma reserve_denied_evolves:
  assumes "reserve_denied ok i s m d db = (Inr r, db')" "load_session (bs_id s) db = Some s"
  shows "db_evolves db db'"
proof (cases "ad_reason d = CeilingExceeded \<and> bs_status s \<noteq> ''budget_exhausted''")
  case True
  with assms(1) obtain x db1 e where
      u: "update_session_budget (bs_id s) (of_int (bs_reserved s)) (of_int (bs_used s)) (Some ''budget_exhausted'')
        (ss_confidence (to_sentinel_state s m)) db = (Inr x, db1)"
    and e: "emit_if_room ok i x BudgetExhaustedEvent e db1 = (Inr (rr_exhausted r), db')"
    by (auto simp: reserve_denied_def Let_def bind_db_Inr to_sentinel_state_def)
  have "db_evolves db db1" using u assms(2) by (rule update_budget_evolves) auto
  then show ?thesis using emit_if_room_evolves [OF e] by (rule db_evolves_trans)
qed (use assms in \<open>auto simp: reserve_denied_def Let_def\<close>)

lemma positive_amount_nonneg [simp]: "0 \<le> positive_amount x"
  by (simp add: positive_amount_def split: js_num.split)

lemma reserve_allowed_evolves:
  assumes "reserve_allowed ok i key cost s m d db = (Inr r, db')" "load_session (bs_id s) db = Some s"
  shows "db_evolves db db'"
proof -
  from assms(1) obtain x db1 p where
      u: "update_session_budget (bs_id s) (of_int (bs_reserved s) + positive_amount cost) (of_int (bs_used s)) None
        (ss_confidence (to_sentinel_state s m)) db = (Inr x, db1)"
    and e: "emit_if_room ok i x BudgetReserved p db1 = (Inr (rr_event r), db')"
    by (auto simp: reserve_allowed_def apply_reservation_def Let_def bind_db_Inr to_sentinel_state_def)
  have "db_evolves db db1" using u assms(2) by (rule update_budget_evolves) auto
  then show ?thesis using emit_if_room_evolves [OF e] by (rule db_evolves_trans)
qed

lemma reserve_evolves:
  assumes "reserve_budget ok i sid inp now db = (x, db')"
  shows "db_evolves db db'"
proof (cases x)
  case (Inl e)
  with assms show ?thesis
    by (auto simp: reserve_budget_def intro: db_evolves_sessions dest: with_session_lock_Inl
        split: sum.splits if_splits)
next
  case (Inr r)
  from assms [unfolded Inr] show ?thesis
    by (cases rule: reserve_budget_Inr)
      (auto intro: reserve_denied_evolves reserve_allowed_evolves split: if_splits)
qed

lemma reconcile_evolves:
  assumes "reconcile_budget ok i j sid inp db = (x, db')"
  shows "db_evolves db db'"
proof (cases x)
  case (Inl e)
  with assms show ?thesis
    by (auto simp: reconcile_budget_def intro: db_evolves_sessions dest: with_session_lock_Inl
        split: sum.splits if_splits)
next
  case (Inr r)
  obtain s key where s: "load_session sid db = Some s" "bs_id s = sid"
    and run: "(load_event sid BudgetReconciled key db \<noteq> None \<and> db' = db) \<or>
     (load_event sid BudgetReconciled key db = None \<and>
      reconcile_fresh ok i j key inp s (load_latest_meter sid db) db = (Inr r, db'))"
    using assms [unfolded Inr] by (rule reconcile_budget_Inr)
  let ?m = "load_latest_meter sid db"
  let ?rc = "apply_reconciliation (rcn_actual inp) (rcn_reserved inp) (to_sentinel_state s ?m)"
  from run show ?thesis
  proof (elim disjE conjE)
    assume "reconcile_fresh ok i j key inp s ?m db = (Inr r, db')"
    then obtain x1 db1 p e db2 q y where
        u: "update_session_budget sid (ss_reserved (rc_state ?rc)) (ss_used (rc_state ?rc))
           (Some (ss_status (rc_state ?rc))) (ss_confidence (to_sentinel_state s ?m)) db = (Inr x1, db1)"
      and e: "emit_if_room ok i x1 BudgetReconciled p db1 = (Inr e, db2)"
      and y: "(if rc_became_exhausted ?rc then emit_if_room ok j x1 BudgetExhaustedEvent q db2
          else (Inr None, db2)) = (Inr y, db')"
      unfolding reconcile_fresh_def Let_def bind_db_Inr s(2) by blast
    have "db_evolves db db1"
      using u s(1) by (rule update_budget_evolves)
        (auto simp: apply_reconciliation_def Let_def to_sentinel_state_def)
    moreover have "db_evolves db2 db'" using y emit_if_room_evolves by (auto split: if_splits)
    ultimately show ?thesis using emit_if_room_evolves [OF e] db_evolves_trans by blast
  qed simp
qed

section \<open>Decisions\<close>

lemma decision_checks_Inr:
  assumes "decision_checks sid account rid db = Inr (s, request, amount)"
  shows "load_session sid db = Some s \<and> bs_renter s = account \<and> bs_status s \<notin> set terminal_statuses \<and>
    get_request_event sid rid db = Some request \<and> \<not> has_decision sid rid db \<and>
    (\<exists>who. ev_payload request = ExtensionRequestPayload amount who) \<and> positive_integer (Fin amount)"
  using assms
  unfolding decision_checks_def ensure_participant_def bind_result_Inr require_Inr guard_result_Inr
  by (auto simp: role_for_account_def requested_lrt_from_def split: if_splits event_payload.splits)

lemma increment_Inr:
  assumes "increment_session_budget sid additional status db = (Inr x, db')"
  shows "\<exists>s limit. load_session sid db = Some s \<and> of_int limit = of_int (override 0 (bs_limit s)) + additional \<and>
     x = extended_session limit status s \<and> load_session sid db' = Some x \<and> bd_events db' = bd_events db \<and>
     (\<forall>sid'. sid' \<noteq> sid \<longrightarrow> load_session sid' db' = load_session sid' db)"
proof -
  from assms obtain s limit where s: "load_session sid db = Some s"
    "int4 (of_int (override 0 (bs_limit s)) + additional) = Some limit" "x = extended_session limit status s"
    and db': "db' = db\<lparr>bd_sessions := update_where (\<lambda>x. bs_id x = sid) (extended_session limit status) (bd_sessions db)\<rparr>"
    by (auto simp: increment_session_budget_def split: option.splits)
  have "load_session sid db' = Some x"
    using s(1,3) unfolding load_session_def db' by (simp add: select_first_update_where extended_session_def)
  moreover have "load_session sid' db' = load_session sid' db" if "sid' \<noteq> sid" for sid'
    unfolding load_session_def db' using that by (simp add: select_first_update_other extended_session_def)
  ultimately show ?thesis using s db' int4_Some [OF s(2)] by auto
qed

lemma approve_locked_Inr:
  assumes "approve_locked ok i sid account rid approved db = (Inr d, db')"
  obtains s request requested amount limit where
    "decision_checks sid account rid db = Inr (s, request, requested)"
    "amount = override (Fin requested) approved" "positive_integer amount"
    "of_int limit = of_int (override 0 (bs_limit s)) + fin_or_zero amount"
    "load_session sid db' = Some (extended_session limit
       (if bs_status s = ''budget_exhausted'' then ''active'' else bs_status s) s)"
    "\<forall>sid'. sid' \<noteq> sid \<longrightarrow> load_session sid' db' = load_session sid' db"
    "\<exists>e. bd_events db' = bd_events db @ [e] \<and> decides sid rid e"
proof -
  from assms obtain s request requested where c: "decision_checks sid account rid db = Inr (s, request, requested)"
    by (auto simp: approve_locked_def split: sum.splits)
  let ?amount = "override (Fin requested) approved"
  let ?next = "if bs_status s = ''budget_exhausted'' then ''active'' else bs_status s"
  from assms c obtain x db1 e p where pos: "positive_integer ?amount"
    and u: "increment_session_budget sid (fin_or_zero ?amount) ?next db = (Inr x, db1)"
    and e: "emit_activity ExtEmitFailed ok i sid (the (bs_room s)) ExtensionApproved
       (ExtensionApprovedPayload rid requested (fin_or_zero ?amount) (bs_limit s) (bs_limit x) (bs_status s) ?next account)
       db1 = (Inr e, db')"
    by (auto simp: approve_locked_def Let_def bind_db_Inr split: if_splits)
  obtain limit where x: "of_int limit = of_int (override 0 (bs_limit s)) + fin_or_zero ?amount"
    "x = extended_session limit ?next s" "load_session sid db1 = Some x" "bd_events db1 = bd_events db"
    "\<forall>sid'. sid' \<noteq> sid \<longrightarrow> load_session sid' db1 = load_session sid' db"
    using increment_Inr [OF u] decision_checks_Inr [OF c] by auto
  have same: "load_session t db' = load_session t db1" for t
    using emit_activity_sessions [OF e] by (simp add: load_session_def)
  have "\<exists>e. bd_events db' = bd_events db @ [e] \<and> decides sid rid e"
    using e x(4) by (auto simp: emit_activity_def Let_def decides_def split: if_splits)
  then show thesis using that [OF c refl pos x(1)] x(2,3,5) same by simp
qed

lemma deny_locked_Inr:
  assumes "deny_locked ok i sid account rid db = (Inr d, db')"
  shows "bd_sessions db' = bd_sessions db \<and> (\<exists>c. decision_checks sid account rid db = Inr c) \<and>
    (\<exists>e. bd_events db' = bd_events db @ [e] \<and> decides sid rid e)"
  using assms
  by (auto simp: deny_locked_def bind_db_def emit_activity_def Let_def decides_def
      split: sum.splits prod.splits if_splits)

lemma approve_Inr: "approve_budget_extension ok i sid account rid approved db = (Inr d, db') \<longleftrightarrow>
    approve_locked ok i sid account rid approved db = (Inr d, db')"
  by (simp add: approve_budget_extension_def with_session_lock_Inr)

lemma deny_Inr: "deny_budget_extension ok i sid account rid db = (Inr d, db') \<longleftrightarrow>
    deny_locked ok i sid account rid db = (Inr d, db')"
  by (simp add: deny_budget_extension_def with_session_lock_Inr)

lemma fin_or_zero_positive: "positive_integer x \<Longrightarrow> 0 < fin_or_zero x"
  by (cases x) (simp_all add: positive_integer_def fin_or_zero_def)

lemma approve_evolves:
  assumes "approve_budget_extension ok i sid account rid approved db = (x, db')"
  shows "db_evolves db db'"
proof (cases x)
  case (Inl e)
  with assms show ?thesis
    by (auto simp: approve_budget_extension_def intro: db_evolves_sessions dest: with_session_lock_Inl)
next
  case (Inr d)
  from assms [unfolded Inr approve_Inr] show ?thesis
  proof (rule approve_locked_Inr)
    fix s request requested amount limit
    assume c: "decision_checks sid account rid db = Inr (s, request, requested)"
      and pos: "positive_integer amount"
      and limit: "of_int limit = of_int (override 0 (bs_limit s)) + fin_or_zero amount"
      and l: "load_session sid db' = Some (extended_session limit
         (if bs_status s = ''budget_exhausted'' then ''active'' else bs_status s) s)"
        "\<forall>sid'. sid' \<noteq> sid \<longrightarrow> load_session sid' db' = load_session sid' db"
    have "(of_int (override 0 (bs_limit s)) :: rat) < of_int limit"
      using limit fin_or_zero_positive [OF pos] by linarith
    then have "override 0 (bs_limit s) < limit" by simp
    then have "session_evolves s (extended_session limit t s)" for t
      by (auto simp: session_evolves_def extended_session_def override_def split: option.splits)
    with c l show ?thesis
      unfolding db_evolves_def using decision_checks_Inr [OF c]
      by (metis option.rel_inject(2) option.rel_refl session_evolves_refl)
  qed
qed

lemma deny_evolves:
  assumes "deny_budget_extension ok i sid account rid db = (x, db')"
  shows "db_evolves db db'"
proof (cases x)
  case (Inl e)
  with assms show ?thesis
    by (auto simp: deny_budget_extension_def intro: db_evolves_sessions dest: with_session_lock_Inl)
next
  case (Inr d)
  from assms [unfolded Inr deny_Inr] show ?thesis
    by (intro db_evolves_sessions) (simp add: deny_locked_Inr)
qed

lemma request_evolves:
  "request_budget_extension ok i sid account amount db = (x, db') \<Longrightarrow> db_evolves db db'"
  by (rule db_evolves_sessions)
    (auto simp: request_budget_extension_def emit_activity_def Let_def split: if_splits sum.splits)

section \<open>Runs\<close>

text \<open>The operations on the ledger, new meter snapshots, and status changes made elsewhere.\<close>

inductive budget_step :: "budget_db \<Rightarrow> budget_db \<Rightarrow> bool" where
  reserve: "reserve_budget ok i sid rinp now db = (rr, db') \<Longrightarrow> budget_step db db'"
| reconcile: "reconcile_budget ok i j sid cinp db = (cr, db') \<Longrightarrow> budget_step db db'"
| request: "request_budget_extension ok i sid account amount db = (er, db') \<Longrightarrow> budget_step db db'"
| approve: "approve_budget_extension ok i sid account rid approved db = (dr, db') \<Longrightarrow> budget_step db db'"
| deny: "deny_budget_extension ok i sid account rid db = (dr, db') \<Longrightarrow> budget_step db db'"
| meter: "db' = db\<lparr>bd_meters := bd_meters db @ [m]\<rparr> \<Longrightarrow> budget_step db db'"
| status: "db' = db\<lparr>bd_sessions := update_where (\<lambda>s. bs_id s = sid) (\<lambda>s. s\<lparr>bs_status := st\<rparr>) (bd_sessions db)\<rparr>
    \<Longrightarrow> budget_step db db'"

lemma status_evolves:
  "db_evolves db (db\<lparr>bd_sessions := update_where (\<lambda>s. bs_id s = sid) (\<lambda>s. s\<lparr>bs_status := st\<rparr>) (bd_sessions db)\<rparr>)"
  unfolding db_evolves_def load_session_def
proof
  fix t
  show "rel_option session_evolves (select_first (\<lambda>s. bs_id s = t) (bd_sessions db))
      (select_first (\<lambda>s. bs_id s = t) (bd_sessions (db\<lparr>bd_sessions :=
        update_where (\<lambda>s. bs_id s = sid) (\<lambda>s. s\<lparr>bs_status := st\<rparr>) (bd_sessions db)\<rparr>)))"
    by (cases "t = sid") (auto simp: select_first_update_where select_first_update_other option.rel_map
        session_evolves_def intro!: option.rel_refl split: option.split)
qed

lemma budget_step_evolves: "budget_step db db' \<Longrightarrow> db_evolves db db'"
  by (cases rule: budget_step.cases)
    (auto intro: reserve_evolves reconcile_evolves request_evolves approve_evolves deny_evolves
      status_evolves db_evolves_sessions)

lemma budget_run_evolves: "budget_step\<^sup>*\<^sup>* db db' \<Longrightarrow> db_evolves db db'"
  by (induction rule: rtranclp_induct) (auto intro: db_evolves_trans budget_step_evolves)

section \<open>The event log only grows\<close>

definition grows :: "budget_db \<Rightarrow> budget_db \<Rightarrow> bool" where
  "grows db db' \<longleftrightarrow> prefix (bd_events db) (bd_events db')"

lemma grows_refl [simp, intro]: "grows db db"
  by (simp add: grows_def)

lemma grows_trans: "grows a b \<Longrightarrow> grows b c \<Longrightarrow> grows a c"
  by (auto simp: grows_def intro: prefix_order.trans)

lemma grows_events: "bd_events db' = bd_events db \<Longrightarrow> grows db db'"
  by (simp add: grows_def)

lemma grows_bind [intro]:
  "grows db (snd m) \<Longrightarrow> (\<And>a db1. grows db1 (snd (k a db1))) \<Longrightarrow> grows db (snd (bind_db m k))"
  by (cases m) (auto simp: bind_db_def intro: grows_trans split: sum.split)

lemma grows_emit [intro]: "grows db (snd (emit_activity err ok i sid room type payload db))"
  by (simp add: emit_activity_def grows_def Let_def)

lemma grows_emit_if_room [intro]: "grows db (snd (emit_if_room ok i s type payload db))"
  by (auto simp: emit_if_room_def split: option.split)

lemma grows_update [intro]: "grows db (snd (update_session_budget sid r u st c db))"
  by (auto simp: update_session_budget_def grows_def split: option.split prod.split)

lemma grows_increment [intro]: "grows db (snd (increment_session_budget sid n st db))"
  by (auto simp: increment_session_budget_def grows_def split: option.split)

lemma grows_lock [intro]: "grows db (snd (body db)) \<Longrightarrow> grows db (snd (with_session_lock body db))"
  by (auto simp: with_session_lock_def grows_def split: prod.split sum.split)

lemma grows_reserve: "grows db (snd (reserve_budget ok i sid inp now db))"
  by (auto simp: reserve_budget_def reserve_locked_def reserve_denied_def reserve_allowed_def Let_def
      split: sum.split option.split prod.split intro!: grows_lock grows_bind grows_update grows_emit_if_room grows_emit grows_increment)

lemma grows_reconcile: "grows db (snd (reconcile_budget ok i j sid inp db))"
  by (auto simp: reconcile_budget_def reconcile_locked_def reconcile_fresh_def Let_def
      split: sum.split option.split intro!: grows_lock grows_bind grows_update grows_emit_if_room grows_emit grows_increment)

lemma grows_request: "grows db (snd (request_budget_extension ok i sid account amount db))"
  by (auto simp: request_budget_extension_def split: sum.split)

lemma grows_approve: "grows db (snd (approve_budget_extension ok i sid account rid approved db))"
  by (auto simp: approve_budget_extension_def approve_locked_def Let_def
      split: sum.split prod.split intro!: grows_lock grows_bind grows_update grows_emit_if_room grows_emit grows_increment)

lemma grows_deny: "grows db (snd (deny_budget_extension ok i sid account rid db))"
  by (auto simp: deny_budget_extension_def deny_locked_def
      split: sum.split prod.split intro!: grows_lock grows_bind grows_update grows_emit_if_room grows_emit grows_increment)

lemma grows_result: "m = (x, db') \<Longrightarrow> grows db (snd m) \<Longrightarrow> grows db db'"
  by simp

lemma budget_step_grows: "budget_step db db' \<Longrightarrow> grows db db'"
  by (cases rule: budget_step.cases)
    (auto intro: grows_result [OF _ grows_reserve] grows_result [OF _ grows_reconcile]
      grows_result [OF _ grows_request] grows_result [OF _ grows_approve] grows_result [OF _ grows_deny]
      grows_events)

lemma budget_run_grows: "budget_step\<^sup>*\<^sup>* db db' \<Longrightarrow> grows db db'"
  by (induction rule: rtranclp_induct) (auto intro: grows_trans budget_step_grows)

lemma has_decision_grows: "grows db db' \<Longrightarrow> has_decision sid rid db \<Longrightarrow> has_decision sid rid db'"
  unfolding grows_def has_decision_def by (blast dest: set_mono_prefix)

lemma decided_refuses:
  assumes "has_decision sid rid db"
  shows "\<exists>e. approve_budget_extension ok i sid account rid approved db = (Inl e, db)"
    and "\<exists>e. deny_budget_extension ok i sid account rid db = (Inl e, db)"
proof -
  have "decision_checks sid account rid db \<noteq> Inr (s, request, amount)" for s request amount
    using assms decision_checks_Inr [of sid account rid db s request amount] by blast
  then obtain e where e: "decision_checks sid account rid db = Inl e"
    by (metis prod_cases3 sum.exhaust)
  show "\<exists>e. approve_budget_extension ok i sid account rid approved db = (Inl e, db)"
    by (simp add: approve_budget_extension_def approve_locked_def with_session_lock_def e)
  show "\<exists>e. deny_budget_extension ok i sid account rid db = (Inl e, db)"
    by (simp add: deny_budget_extension_def deny_locked_def with_session_lock_def e)
qed

section \<open>The properties\<close>

text \<open>C37: Only the renter can raise a budget, and by exactly the approved amount: an approval that
  succeeds was made by the session's renter, on a session that is not finished, for a request that
  exists and had no decision; it adds a positive integer, the requested one unless another was
  given, to the limit, leaves the used and reserved amounts alone, and reopens an exhausted session.\<close>

theorem approval_effect:
  assumes "approve_budget_extension ok i sid account rid approved db = (Inr d, db')"
  shows "\<exists>s s' requested amount. load_session sid db = Some s \<and> load_session sid db' = Some s' \<and>
    bs_renter s = account \<and> bs_status s \<notin> set terminal_statuses \<and>
    get_request_event sid rid db \<noteq> None \<and> \<not> has_decision sid rid db \<and> has_decision sid rid db' \<and>
    amount = override (Fin requested) approved \<and> positive_integer amount \<and>
    (\<exists>limit. bs_limit s' = Some limit \<and> of_int limit = of_int (override 0 (bs_limit s)) + fin_or_zero amount) \<and>
    bs_used s' = bs_used s \<and> bs_reserved s' = bs_reserved s \<and>
    bs_status s' = (if bs_status s = ''budget_exhausted'' then ''active'' else bs_status s)"
  using assms unfolding approve_Inr
proof (rule approve_locked_Inr)
  fix s request requested amount limit
  assume *: "decision_checks sid account rid db = Inr (s, request, requested)"
    "amount = override (Fin requested) approved" "positive_integer amount"
    "of_int limit = of_int (override 0 (bs_limit s)) + fin_or_zero amount"
    "load_session sid db' = Some (extended_session limit
       (if bs_status s = ''budget_exhausted'' then ''active'' else bs_status s) s)"
    "\<exists>e. bd_events db' = bd_events db @ [e] \<and> decides sid rid e"
  have "has_decision sid rid db'" using *(6) by (auto simp: has_decision_def)
  with decision_checks_Inr [OF *(1)] *(2-5) show ?thesis
    by (auto simp: extended_session_def)
qed

text \<open>A request is decided at most once: after an approval or a denial that succeeded, every
  later approval or denial of the same request fails and changes nothing, after whatever else has
  happened to the ledger.\<close>

theorem extension_decided_once:
  assumes "fst (approve_budget_extension ok i sid account rid approved db) = Inr d \<and>
      db' = snd (approve_budget_extension ok i sid account rid approved db) \<or>
     fst (deny_budget_extension ok i sid account rid db) = Inr d \<and>
      db' = snd (deny_budget_extension ok i sid account rid db)"
    and "budget_step\<^sup>*\<^sup>* db' db''"
  shows "(\<exists>e. approve_budget_extension ok' j sid account' rid approved' db'' = (Inl e, db'')) \<and>
    (\<exists>e. deny_budget_extension ok' j sid account' rid db'' = (Inl e, db''))"
proof -
  have "has_decision sid rid db'"
  proof (cases "fst (approve_budget_extension ok i sid account rid approved db) = Inr d \<and>
      db' = snd (approve_budget_extension ok i sid account rid approved db)")
    case True
    then have "approve_budget_extension ok i sid account rid approved db = (Inr d, db')"
      by (metis prod.collapse)
    then show ?thesis unfolding approve_Inr by (rule approve_locked_Inr) (auto simp: has_decision_def)
  next
    case False
    with assms(1) have "deny_budget_extension ok i sid account rid db = (Inr d, db')"
      by (metis prod.collapse)
    then show ?thesis unfolding deny_Inr using deny_locked_Inr by (fastforce simp: has_decision_def)
  qed
  then have "has_decision sid rid db''" using has_decision_grows budget_run_grows [OF assms(2)] by blast
  then show ?thesis using decided_refuses by blast
qed

text \<open>Along every run of the ledger the money only moves forward: the used amount of a session
  never decreases, its reserved amount never becomes negative, and its limit never shrinks.\<close>

theorem ledger_moves_forward:
  assumes "budget_step\<^sup>*\<^sup>* db db'" "load_session sid db = Some s"
  shows "\<exists>s'. load_session sid db' = Some s' \<and> session_evolves s s'"
  using budget_run_evolves [OF assms(1)] assms(2) unfolding db_evolves_def
  by (metis option.rel_distinct(2) option.rel_inject(2) option.exhaust)

section \<open>Witnesses\<close>

definition demo_requested :: budget_db where
  "demo_requested = snd (request_budget_extension (\<lambda>_. True) ''req'' ''s1'' ''bob'' (Fin 50) demo_reserved)"

definition demo_approved :: "(extension_error, extension_decision) db_result" where
  "demo_approved = approve_budget_extension (\<lambda>_. True) ''dec'' ''s1'' ''alice'' ''req'' None demo_requested"

lemma demo_approved_ok: "\<not> isl (fst demo_approved)"
  by code_simp

lemma demo_approved_run:
  "approve_budget_extension (\<lambda>_. True) ''dec'' ''s1'' ''alice'' ''req'' None demo_requested =
     (Inr (projr (fst demo_approved)), snd demo_approved)"
  using demo_approved_ok unfolding demo_approved_def by (metis prod.collapse sum.collapse(2))

theorem approval_effect_witness:
  "\<exists>s s' requested amount. load_session ''s1'' demo_requested = Some s \<and>
    load_session ''s1'' (snd demo_approved) = Some s' \<and>
    bs_renter s = ''alice'' \<and> bs_status s \<notin> set terminal_statuses \<and>
    get_request_event ''s1'' ''req'' demo_requested \<noteq> None \<and> \<not> has_decision ''s1'' ''req'' demo_requested \<and>
    has_decision ''s1'' ''req'' (snd demo_approved) \<and>
    amount = override (Fin requested) None \<and> positive_integer amount \<and>
    (\<exists>limit. bs_limit s' = Some limit \<and> of_int limit = of_int (override 0 (bs_limit s)) + fin_or_zero amount) \<and>
    bs_used s' = bs_used s \<and> bs_reserved s' = bs_reserved s \<and>
    bs_status s' = (if bs_status s = ''budget_exhausted'' then ''active'' else bs_status s)"
  by (rule approval_effect [OF demo_approved_run])

theorem extension_decided_once_witness:
  "(\<exists>e. approve_budget_extension (\<lambda>_. True) ''dec2'' ''s1'' ''alice'' ''req'' (Some (Fin 9)) (snd demo_approved) =
      (Inl e, snd demo_approved)) \<and>
   (\<exists>e. deny_budget_extension (\<lambda>_. True) ''dec2'' ''s1'' ''alice'' ''req'' (snd demo_approved) =
      (Inl e, snd demo_approved))"
  by (rule extension_decided_once [where db' = "snd demo_approved" and db = demo_requested and
        ok = "\<lambda>_. True" and i = "''dec''" and account = "''alice''" and approved = None and d = "projr (fst demo_approved)"])
    (simp_all add: demo_approved_run)

theorem ledger_moves_forward_witness:
  "\<exists>s'. load_session ''s1'' (snd demo_approved) = Some s' \<and>
     session_evolves (the (load_session ''s1'' demo_requested)) s'"
proof (rule ledger_moves_forward)
  show "budget_step\<^sup>*\<^sup>* demo_requested (snd demo_approved)"
    by (rule r_into_rtranclp, rule budget_step.approve [OF demo_approved_run])
  have "load_session ''s1'' demo_requested \<noteq> None" by code_simp
  then show "load_session ''s1'' demo_requested = Some (the (load_session ''s1'' demo_requested))" by simp
qed

end
