(* ===== verification/Reconciler.thy ===== *)
theory Reconciler
  imports Prelude
begin

text \<open>
  Convergence of a supervised agent in the desktop daemon: the policy
  (\<^verbatim>\<open>apps/desktop/daemon/reconciler-policy.ts\<close>), the persisted bookkeeping
  (\<^verbatim>\<open>reconciler-state.ts\<close>) and the execution of the chosen action through the provider port
  (\<^verbatim>\<open>reconciler-runner.ts\<close>). Times are milliseconds. The provider port is a parameter: for each
  call, whether it throws; the calls made are returned as a list. The opaque terminal payload that
  the bookkeeping copies along is a type variable-free \<^typ>\<open>string\<close> token.
\<close>

section \<open>States and the policy\<close>

datatype desired_state = DesiredRunning | DesiredPaused | DesiredStopped

datatype observed_state =
    Absent | Starting | Idle | Working | Checkpointing | Pausing | Paused | Recovering | Stopping
  | Stopped | Failed

datatype policy_condition =
    NoCondition | Quarantined | CoordinationBlocked | AuthBlocked | BudgetBlocked | SecurityBlocked

datatype reconciler_action =
    Wait | Poke | RestartWithResume | RestartFresh | Quarantine | HoldCoordination | Stop

record reconciler_capabilities =
  rcap_resume :: bool
  rcap_mid_turn :: bool

record reconciler_snapshot =
  sn_desired :: desired_state
  sn_observed :: observed_state
  sn_condition :: policy_condition
  sn_now :: int
  sn_last_poll :: "int option"
  sn_waiting :: int
  sn_poke_ignored :: bool
  sn_active_lease :: bool
  sn_rebind_proven :: bool
  sn_exits :: int
  sn_next_restart :: "int option"

record reconciler_decision =
  dec_action :: reconciler_action
  dec_observed :: observed_state
  dec_condition :: policy_condition
  dec_reason :: string

definition crash_loop_exit_limit :: int where
  "crash_loop_exit_limit = 5"

definition crash_loop_window_ms :: int where
  "crash_loop_window_ms = 10 * 60 * 1000"

definition max_backoff_ms :: int where
  "max_backoff_ms = 5 * 60 * 1000"

definition restart_backoff_ms :: "int \<Rightarrow> int" where
  "restart_backoff_ms failures = min max_backoff_ms (1000 * 2 ^ nat (max 0 (failures - 1)))"

definition make_decision ::
  "reconciler_action \<Rightarrow> observed_state \<Rightarrow> policy_condition \<Rightarrow> string \<Rightarrow> reconciler_decision" where
  "make_decision a o' c r = \<lparr>dec_action = a, dec_observed = o', dec_condition = c, dec_reason = r\<rparr>"

definition decide_reconciliation ::
  "reconciler_snapshot \<Rightarrow> reconciler_capabilities \<Rightarrow> int \<Rightarrow> reconciler_decision" where
  "decide_reconciliation s caps watchdog =
     (if sn_desired s = DesiredStopped then
        (if sn_observed s \<in> {Stopped, Failed, Absent}
         then make_decision Wait (sn_observed s) (sn_condition s) ''desired stop already converged''
         else make_decision Stop Stopping NoCondition ''desired state is stopped'')
      else if crash_loop_exit_limit \<le> sn_exits s then
        make_decision Quarantine Failed Quarantined ''crash-loop threshold reached''
      else if sn_desired s = DesiredRunning \<and> sn_observed s \<in> {Failed, Stopped, Absent} then
        (if sn_active_lease s \<and> \<not> sn_rebind_proven s then
           make_decision HoldCoordination Recovering CoordinationBlocked
             ''active lease requires fenced rebind before restart''
         else if (case sn_next_restart s of None \<Rightarrow> False | Some t \<Rightarrow> sn_now s < t) then
           make_decision Wait (sn_observed s) (sn_condition s) ''restart backoff has not elapsed''
         else if rcap_resume caps then
           make_decision RestartWithResume Recovering NoCondition ''provider negotiated resume''
         else
           make_decision RestartFresh Recovering NoCondition
             ''bounded recovery: provider has no resume capability'')
      else if sn_desired s = DesiredRunning \<and> rcap_mid_turn caps \<and> 0 < sn_waiting s \<and>
          (case sn_last_poll s of None \<Rightarrow> False | Some t \<Rightarrow> watchdog \<le> sn_now s - t) \<and> \<not> sn_poke_ignored s then
        make_decision Poke (sn_observed s) (sn_condition s) ''addressed messages waiting at a poll boundary''
      else make_decision Wait (sn_observed s) (sn_condition s) ''no convergence action required'')"

section \<open>Bookkeeping\<close>

datatype pending_kind = PokeKind | RestartFreshKind | RestartWithResumeKind | StopKind

record pending_action =
  pa_id :: string
  pa_sequence :: int
  pa_kind :: pending_kind
  pa_recorded_at :: int

record reconciliation_state =
  rs_exits :: "int list"
  rs_failures :: int
  rs_last_observed :: observed_state
  rs_next_restart :: "int option"
  rs_completed :: "string list"
  rs_last_sequence :: int
  rs_pending :: "pending_action option"
  rs_last_terminal :: "string option"

definition max_completed_ids :: nat where
  "max_completed_ids = 32"

definition last_n :: "nat \<Rightarrow> 'a list \<Rightarrow> 'a list" where
  "last_n n xs = drop (length xs - n) xs"

text \<open>The state a previous \<open>undefined\<close> stands for; its last observed state equals none of the
  compared ones.\<close>

definition previous_field :: "'a \<Rightarrow> ('s \<Rightarrow> 'a) \<Rightarrow> 's option \<Rightarrow> 'a" where
  "previous_field d f p = (case p of None \<Rightarrow> d | Some s \<Rightarrow> f s)"

definition live_exits :: "reconciliation_state option \<Rightarrow> int \<Rightarrow> int list" where
  "live_exits p now = filter (\<lambda>t. now - crash_loop_window_ms \<le> t) (previous_field [] rs_exits p)"

definition completed_ids :: "string list \<Rightarrow> string option \<Rightarrow> string list" where
  "completed_ids ids action =
     last_n max_completed_ids
       (if truthy action then filter (\<lambda>i. i \<noteq> the action) ids @ [the action] else ids)"

definition advance_reconciliation ::
  "reconciliation_state option \<Rightarrow> observed_state \<Rightarrow> int \<Rightarrow> reconciliation_state" where
  "advance_reconciliation p observed now =
     (let exits = live_exits p now;
          keep = \<lparr>rs_exits = exits, rs_failures = previous_field 0 rs_failures p,
            rs_last_observed = observed, rs_next_restart = previous_field None rs_next_restart p,
            rs_completed = completed_ids (previous_field [] rs_completed p) None,
            rs_last_sequence = previous_field 0 rs_last_sequence p,
            rs_pending = previous_field None rs_pending p,
            rs_last_terminal = previous_field None rs_last_terminal p\<rparr>
      in if observed = Idle \<or> observed = Working then
           keep\<lparr>rs_failures := 0, rs_next_restart := None\<rparr>
         else if observed \<noteq> Failed \<or> previous_field False (\<lambda>s. rs_last_observed s = Failed) p then keep
         else
          (let failures = previous_field 0 rs_failures p + 1
           in keep\<lparr>rs_exits := exits @ [now], rs_failures := failures, rs_last_observed := Failed,
                   rs_next_restart := Some (now + restart_backoff_ms failures)\<rparr>))"

datatype action_error = ReplayedAction string | StaleSequence int | UnresolvedAction string

definition begin_action ::
  "reconciliation_state \<Rightarrow> pending_action \<Rightarrow> action_error + reconciliation_state" where
  "begin_action s a =
     (if pa_id a \<in> set (rs_completed s) then Inl (ReplayedAction (pa_id a))
      else if pa_sequence a \<le> rs_last_sequence s then Inl (StaleSequence (pa_sequence a))
      else case rs_pending s of
             Some q \<Rightarrow>
               if pa_id q \<noteq> pa_id a then Inl (UnresolvedAction (pa_id q))
               else Inr (s\<lparr>rs_last_sequence := pa_sequence a, rs_pending := Some a\<rparr>)
           | None \<Rightarrow> Inr (s\<lparr>rs_last_sequence := pa_sequence a, rs_pending := Some a\<rparr>))"

definition record_action_failure :: "reconciliation_state \<Rightarrow> string \<Rightarrow> int \<Rightarrow> reconciliation_state" where
  "record_action_failure s action now =
     (if action \<in> set (rs_completed s) then s
      else
       (let failures = rs_failures s + 1
        in s\<lparr>rs_last_observed := Failed, rs_failures := failures,
             rs_next_restart := Some (now + restart_backoff_ms failures),
             rs_completed := completed_ids (rs_completed s) (Some action), rs_pending := None\<rparr>))"

definition complete_action :: "reconciliation_state \<Rightarrow> string \<Rightarrow> reconciliation_state" where
  "complete_action s action =
     s\<lparr>rs_failures := 0, rs_next_restart := None,
       rs_completed := completed_ids (rs_completed s) (Some action), rs_pending := None\<rparr>"

definition remember_control_action :: "reconciliation_state \<Rightarrow> string \<Rightarrow> reconciliation_state" where
  "remember_control_action s action = s\<lparr>rs_completed := completed_ids (rs_completed s) (Some action)\<rparr>"

section \<open>Running an action\<close>

datatype provider_call = CallPoke string | CallSpawn string | CallResume string | CallStop string | CallHook

text \<open>The parts of the input that the runner reads; handles and continuations are their work
  attempt identifiers.\<close>

record runner_input =
  ru_snapshot :: reconciler_snapshot
  ru_attempt :: string
  ru_forced :: "reconciler_action option"
  ru_spawn :: string
  ru_handle :: "string option"
  ru_resume_from :: "string option"

text \<open>The port: for the capabilities and for each call, the message of the error it throws or the
  value it returns (the handle of the replacement, for a spawn or a resume).\<close>

record provider_port =
  pp_capabilities :: "string \<Rightarrow> string + reconciler_capabilities"
  pp_call :: "provider_call \<Rightarrow> string + string"

datatype disposition = Executed | Held | FailedDisposition

record runner_result =
  rn_decision :: reconciler_decision
  rn_disposition :: disposition
  rn_replacement :: "string option"
  rn_calls :: "provider_call list"

definition runner_done ::
  "reconciler_decision \<Rightarrow> disposition \<Rightarrow> provider_call list \<Rightarrow> runner_result" where
  "runner_done d disp calls = \<lparr>rn_decision = d, rn_disposition = disp, rn_replacement = None, rn_calls = calls\<rparr>"

fun action_name :: "reconciler_action \<Rightarrow> string" where
  "action_name Wait = ''wait''"
| "action_name Poke = ''poke''"
| "action_name RestartWithResume = ''restart_with_resume''"
| "action_name RestartFresh = ''restart_fresh''"
| "action_name Quarantine = ''quarantine''"
| "action_name HoldCoordination = ''hold_coordination''"
| "action_name Stop = ''stop''"

text \<open>The hook before an action, then the action itself; either may throw.\<close>

definition perform ::
  "provider_port \<Rightarrow> reconciler_decision \<Rightarrow> provider_call \<Rightarrow> bool \<Rightarrow> runner_result" where
  "perform port d call replaces =
     (let failed = (\<lambda>msg. make_decision Wait Failed NoCondition
            (''provider '' @ action_name (dec_action d) @ '' failed: '' @ msg))
      in case pp_call port CallHook of
           Inl msg \<Rightarrow> runner_done (failed msg) FailedDisposition [CallHook]
         | Inr _ \<Rightarrow>
             (case pp_call port call of
                Inl msg \<Rightarrow> runner_done (failed msg) FailedDisposition [CallHook, call]
              | Inr h \<Rightarrow> (runner_done d Executed [CallHook, call])
                    \<lparr>rn_replacement := (if replaces then Some h else None)\<rparr>))"

definition blocked_conditions :: "policy_condition set" where
  "blocked_conditions = {Quarantined, CoordinationBlocked, AuthBlocked, BudgetBlocked, SecurityBlocked}"

definition execute_decision ::
  "provider_port \<Rightarrow> runner_input \<Rightarrow> reconciler_decision \<Rightarrow> runner_result" where
  "execute_decision port inp d =
     (case dec_action d of
        Poke \<Rightarrow>
          (case ru_handle inp of
             None \<Rightarrow> runner_done (d\<lparr>dec_action := Wait, dec_reason := ''poke requires a live provider handle''\<rparr>) Held []
           | Some h \<Rightarrow> perform port d (CallPoke h) False)
      | RestartFresh \<Rightarrow> perform port d (CallSpawn (ru_spawn inp)) True
      | RestartWithResume \<Rightarrow>
          (case ru_resume_from inp of
             None \<Rightarrow> runner_done (d\<lparr>dec_action := HoldCoordination, dec_condition := CoordinationBlocked,
               dec_reason := ''resume requires a durable provider continuation''\<rparr>) Held []
           | Some r \<Rightarrow> perform port d (CallResume r) True)
      | Stop \<Rightarrow>
          (case ru_handle inp of
             None \<Rightarrow> runner_done (d\<lparr>dec_action := Wait, dec_reason := ''stop requires a live provider handle''\<rparr>) Held []
           | Some h \<Rightarrow> perform port d (CallStop h) False)
      | _ \<Rightarrow> runner_done d Held [])"

text \<open>A durable pending action is redispatched only when the policy still selects it.\<close>

definition run_policy :: "provider_port \<Rightarrow> runner_input \<Rightarrow> reconciler_decision \<Rightarrow> runner_result" where
  "run_policy port inp policy =
     (let s = ru_snapshot inp
      in case ru_forced inp of
           None \<Rightarrow> execute_decision port inp policy
         | Some forced \<Rightarrow>
             if (sn_active_lease s \<and> forced \<in> {RestartFresh, RestartWithResume}) \<or>
                sn_condition s \<in> blocked_conditions \<or> dec_action policy \<noteq> forced then
               runner_done (make_decision
                 (if sn_condition s = Quarantined then Quarantine else HoldCoordination)
                 (sn_observed s)
                 (if sn_condition s = Quarantined then Quarantined else CoordinationBlocked)
                 ''durable pending action is no longer authorized by current policy'') Held []
             else execute_decision port inp (policy\<lparr>dec_action := forced,
                    dec_reason := ''redispatching durable '' @ action_name forced @ '' intent''\<rparr>))"

definition reconcile :: "provider_port \<Rightarrow> runner_input \<Rightarrow> int \<Rightarrow> runner_result" where
  "reconcile port inp watchdog =
     (let s = ru_snapshot inp;
          owned = (ru_spawn inp = ru_attempt inp \<and>
             (case ru_handle inp of None \<Rightarrow> True | Some h \<Rightarrow> h = ru_attempt inp) \<and>
             (case ru_resume_from inp of None \<Rightarrow> True | Some r \<Rightarrow> r = ru_attempt inp))
      in if \<not> owned then
           runner_done (make_decision HoldCoordination Recovering CoordinationBlocked
             ''provider action ownership does not match work attempt'') Held []
         else case pp_capabilities port (ru_attempt inp) of
                Inl msg \<Rightarrow> runner_done (make_decision Wait Failed NoCondition
                  (''provider capabilities failed: '' @ msg)) FailedDisposition []
              | Inr caps \<Rightarrow>
                 (let policy = decide_reconciliation
                        (s\<lparr>sn_rebind_proven := (if sn_active_lease s then False else sn_rebind_proven s)\<rparr>) caps watchdog
                  in run_policy port inp policy))"

section \<open>Lemmas\<close>

lemma backoff_bounds: "1000 \<le> restart_backoff_ms n \<and> restart_backoff_ms n \<le> max_backoff_ms"
  by (simp add: restart_backoff_ms_def max_backoff_ms_def)

lemma backoff_mono: "m \<le> n \<Longrightarrow> restart_backoff_ms m \<le> restart_backoff_ms n"
  unfolding restart_backoff_ms_def
  by (intro min.mono mult_left_mono power_increasing nat_mono) auto

lemma length_last_n: "length (last_n n xs) \<le> n"
  by (simp add: last_n_def)

lemma set_last_n: "set (last_n n xs) \<subseteq> set xs"
  unfolding last_n_def by (rule set_drop_subset)

lemma distinct_last_n: "distinct xs \<Longrightarrow> distinct (last_n n xs)"
  by (simp add: last_n_def)

lemma completed_ids_facts:
  "length (completed_ids ids a) \<le> max_completed_ids \<and> (distinct ids \<longrightarrow> distinct (completed_ids ids a))"
  by (auto simp: completed_ids_def length_last_n distinct_last_n)

lemma completed_ids_last:
  "a \<noteq> [] \<Longrightarrow> completed_ids ids (Some a) \<noteq> [] \<and> last (completed_ids ids (Some a)) = a"
  by (simp add: completed_ids_def last_n_def max_completed_ids_def last_drop)

lemma runner_done_simps [simp]:
  "rn_calls (runner_done d x cs) = cs" "rn_decision (runner_done d x cs) = d"
  "rn_disposition (runner_done d x cs) = x"
  by (simp_all add: runner_done_def)

lemma perform_calls: "c \<in> set (rn_calls (perform port d call r)) \<Longrightarrow> c = CallHook \<or> c = call"
  by (auto simp: perform_def Let_def split: sum.splits)

text \<open>Which provider calls a decision may lead to.\<close>

lemma execute_calls:
  "c \<in> set (rn_calls (execute_decision port inp d)) \<Longrightarrow>
     c = CallHook \<or>
     (dec_action d = Poke \<and> (\<exists>h. ru_handle inp = Some h \<and> c = CallPoke h)) \<or>
     (dec_action d = RestartFresh \<and> c = CallSpawn (ru_spawn inp)) \<or>
     (dec_action d = RestartWithResume \<and> (\<exists>r. ru_resume_from inp = Some r \<and> c = CallResume r)) \<or>
     (dec_action d = Stop \<and> (\<exists>h. ru_handle inp = Some h \<and> c = CallStop h))"
  by (auto simp: execute_decision_def dest: perform_calls split: reconciler_action.splits option.splits)

lemma restart_iff_lemma:
  "(dec_action (decide_reconciliation s caps watchdog) \<in> {RestartWithResume, RestartFresh} \<longleftrightarrow>
     sn_desired s = DesiredRunning \<and> sn_observed s \<in> {Failed, Stopped, Absent} \<and> sn_exits s < 5 \<and>
     (\<not> sn_active_lease s \<or> sn_rebind_proven s) \<and>
     (case sn_next_restart s of None \<Rightarrow> True | Some t \<Rightarrow> t \<le> sn_now s)) \<and>
   (dec_action (decide_reconciliation s caps watchdog) \<in> {RestartWithResume, RestartFresh} \<longrightarrow>
     (dec_action (decide_reconciliation s caps watchdog) = RestartWithResume \<longleftrightarrow> rcap_resume caps))"
  by (auto simp: decide_reconciliation_def make_decision_def crash_loop_exit_limit_def split: option.splits)

lemma run_policy_calls:
  assumes "c \<in> set (rn_calls (run_policy port inp policy))"
  shows "\<exists>d. c \<in> set (rn_calls (execute_decision port inp d)) \<and> dec_action d = dec_action policy"
proof (cases "ru_forced inp")
  case None
  with assms show ?thesis by (auto simp: run_policy_def)
next
  case (Some f)
  with assms show ?thesis
    by (intro exI [of _ "policy\<lparr>dec_action := f, dec_reason := ''redispatching durable '' @ action_name f @ '' intent''\<rparr>"])
      (auto simp: run_policy_def Let_def split: if_splits)
qed

lemma reconcile_calls:
  assumes "c \<in> set (rn_calls (reconcile port inp watchdog))"
  obtains caps d where "ru_spawn inp = ru_attempt inp"
    "\<And>h. ru_handle inp = Some h \<Longrightarrow> h = ru_attempt inp" "\<And>r. ru_resume_from inp = Some r \<Longrightarrow> r = ru_attempt inp"
    "c \<in> set (rn_calls (execute_decision port inp d))"
    "dec_action d = dec_action (decide_reconciliation ((ru_snapshot inp)\<lparr>sn_rebind_proven :=
       (if sn_active_lease (ru_snapshot inp) then False else sn_rebind_proven (ru_snapshot inp))\<rparr>) caps watchdog)"
proof -
  have owned: "ru_spawn inp = ru_attempt inp" "case ru_handle inp of None \<Rightarrow> True | Some h \<Rightarrow> h = ru_attempt inp"
    "case ru_resume_from inp of None \<Rightarrow> True | Some r \<Rightarrow> r = ru_attempt inp"
    using assms by (auto simp: reconcile_def Let_def split: if_splits)
  then obtain caps where "c \<in> set (rn_calls (run_policy port inp (decide_reconciliation
      ((ru_snapshot inp)\<lparr>sn_rebind_proven :=
       (if sn_active_lease (ru_snapshot inp) then False else sn_rebind_proven (ru_snapshot inp))\<rparr>) caps watchdog)))"
    using assms by (cases "pp_capabilities port (ru_attempt inp)") (auto simp: reconcile_def Let_def)
  then obtain d where d: "c \<in> set (rn_calls (execute_decision port inp d))"
    "dec_action d = dec_action (decide_reconciliation ((ru_snapshot inp)\<lparr>sn_rebind_proven :=
       (if sn_active_lease (ru_snapshot inp) then False else sn_rebind_proven (ru_snapshot inp))\<rparr>) caps watchdog)"
    using run_policy_calls by blast
  show thesis by (rule that [OF owned(1) _ _ d]) (use owned in simp_all)
qed

section \<open>The properties\<close>

text \<open>An agent is restarted exactly when it should be: the operator wants it running, it is
  down, fewer than five exits fell into the crash-loop window, no active lease lacks a fenced
  rebind, and the backoff deadline has passed; it resumes exactly when the provider can.\<close>

theorem restart_iff:
  "(dec_action (decide_reconciliation s caps watchdog) \<in> {RestartWithResume, RestartFresh} \<longleftrightarrow>
     sn_desired s = DesiredRunning \<and> sn_observed s \<in> {Failed, Stopped, Absent} \<and> sn_exits s < 5 \<and>
     (\<not> sn_active_lease s \<or> sn_rebind_proven s) \<and>
     (case sn_next_restart s of None \<Rightarrow> True | Some t \<Rightarrow> t \<le> sn_now s)) \<and>
   (dec_action (decide_reconciliation s caps watchdog) \<in> {RestartWithResume, RestartFresh} \<longrightarrow>
     (dec_action (decide_reconciliation s caps watchdog) = RestartWithResume \<longleftrightarrow> rcap_resume caps))"
  by (rule restart_iff_lemma)

definition demo_snapshot :: reconciler_snapshot where
  "demo_snapshot = \<lparr>sn_desired = DesiredRunning, sn_observed = Failed, sn_condition = NoCondition, sn_now = 5000,
     sn_last_poll = None, sn_waiting = 0, sn_poke_ignored = False, sn_active_lease = False,
     sn_rebind_proven = False, sn_exits = 2, sn_next_restart = Some 4000\<rparr>"

theorem restart_iff_witness:
  "dec_action (decide_reconciliation demo_snapshot \<lparr>rcap_resume = True, rcap_mid_turn = False\<rparr> 60000) = RestartWithResume"
proof -
  have "dec_action (decide_reconciliation demo_snapshot \<lparr>rcap_resume = True, rcap_mid_turn = False\<rparr> 60000)
      \<in> {RestartWithResume, RestartFresh}"
    using conjunct1 [OF restart_iff, of demo_snapshot "\<lparr>rcap_resume = True, rcap_mid_turn = False\<rparr>" 60000]
    by (simp add: demo_snapshot_def)
  then show ?thesis
    using conjunct2 [OF restart_iff, of demo_snapshot "\<lparr>rcap_resume = True, rcap_mid_turn = False\<rparr>" 60000] by simp
qed

text \<open>The runner never restarts an agent that holds an active lease, whatever the policy, a
  durable pending action and a claimed rebind proof say: while the lease is active no spawn and no
  resume reaches the provider. Every call it makes is for its own work attempt.\<close>

theorem no_restart_under_active_lease:
  assumes "c \<in> set (rn_calls (reconcile port inp watchdog))"
  shows "(sn_active_lease (ru_snapshot inp) \<longrightarrow> (\<forall>x. c \<noteq> CallSpawn x \<and> c \<noteq> CallResume x)) \<and>
    (c = CallHook \<or> c \<in> {CallPoke (ru_attempt inp), CallSpawn (ru_attempt inp), CallResume (ru_attempt inp),
       CallStop (ru_attempt inp)})"
proof -
  let ?s = "ru_snapshot inp"
  let ?s' = "?s\<lparr>sn_rebind_proven := (if sn_active_lease ?s then False else sn_rebind_proven ?s)\<rparr>"
  obtain caps d where owned: "ru_spawn inp = ru_attempt inp"
      "\<And>h. ru_handle inp = Some h \<Longrightarrow> h = ru_attempt inp" "\<And>r. ru_resume_from inp = Some r \<Longrightarrow> r = ru_attempt inp"
    and c: "c \<in> set (rn_calls (execute_decision port inp d))"
    and d: "dec_action d = dec_action (decide_reconciliation ?s' caps watchdog)"
    using assms by (rule reconcile_calls) blast
  have "dec_action d \<noteq> RestartFresh \<and> dec_action d \<noteq> RestartWithResume" if "sn_active_lease ?s"
    using d conjunct1 [OF restart_iff_lemma, of ?s'] that by auto
  with execute_calls [OF c] owned show ?thesis by auto
qed

definition demo_port :: provider_port where
  "demo_port = \<lparr>pp_capabilities = (\<lambda>_. Inr \<lparr>rcap_resume = False, rcap_mid_turn = True\<rparr>), pp_call = (\<lambda>_. Inr ''h'')\<rparr>"

definition demo_runner :: "bool \<Rightarrow> runner_input" where
  "demo_runner lease = \<lparr>ru_snapshot = demo_snapshot\<lparr>sn_active_lease := lease, sn_desired := DesiredStopped,
       sn_observed := Working\<rparr>, ru_attempt = ''w1'', ru_forced = None, ru_spawn = ''w1'', ru_handle = Some ''w1'',
     ru_resume_from = None\<rparr>"

theorem no_restart_under_active_lease_witness:
  "CallStop ''w1'' \<noteq> CallSpawn ''w1'' \<and> CallStop ''w1'' \<in> set (rn_calls (reconcile demo_port (demo_runner True) 60000))"
proof -
  have c: "CallStop ''w1'' \<in> set (rn_calls (reconcile demo_port (demo_runner True) 60000))" by code_simp
  have "sn_active_lease (ru_snapshot (demo_runner True))" by (simp add: demo_runner_def)
  with no_restart_under_active_lease [OF c] c show ?thesis by blast
qed

end
