(* ===== verification/ReconcilerRuns.thy ===== *)
theory ReconcilerRuns
  imports Reconciler
begin

text \<open>
  The bookkeeping of the reconciler over time: the invariant of the persisted state, the replay
  fence of the action sequence as an instance of the shared fence interface, and the crash-loop
  counter.
\<close>

inductive recon_step :: "reconciliation_state \<Rightarrow> reconciliation_state \<Rightarrow> bool" where
  observe: "recon_step s (advance_reconciliation (Some s) observed now)"
| dispatch: "begin_action s a = Inr s' \<Longrightarrow> recon_step s s'"
| failure: "recon_step s (record_action_failure s i now)"
| complete: "recon_step s (complete_action s i)"
| control: "recon_step s (remember_control_action s i)"

inductive_cases recon_stepE: "recon_step s s'"

definition recon_ok :: "reconciliation_state \<Rightarrow> bool" where
  "recon_ok s \<longleftrightarrow> length (rs_completed s) \<le> max_completed_ids \<and> distinct (rs_completed s) \<and>
     0 \<le> rs_failures s \<and>
     (case rs_pending s of None \<Rightarrow> True | Some a \<Rightarrow> pa_sequence a \<le> rs_last_sequence s)"

lemma begin_action_Inr:
  "begin_action s a = Inr s' \<longleftrightarrow>
     pa_id a \<notin> set (rs_completed s) \<and> rs_last_sequence s < pa_sequence a \<and>
     (case rs_pending s of None \<Rightarrow> True | Some q \<Rightarrow> pa_id q = pa_id a) \<and>
     s' = s\<lparr>rs_last_sequence := pa_sequence a, rs_pending := Some a\<rparr>"
  by (auto simp: begin_action_def split: option.splits)

lemma completed_ids_ok:
  "distinct ids \<Longrightarrow> length (completed_ids ids a) \<le> max_completed_ids \<and> distinct (completed_ids ids a)"
  using completed_ids_facts by blast

lemma advance_fields:
  "rs_completed (advance_reconciliation p o' now) = completed_ids (previous_field [] rs_completed p) None"
  "rs_last_sequence (advance_reconciliation p o' now) = previous_field 0 rs_last_sequence p"
  "rs_pending (advance_reconciliation p o' now) = previous_field None rs_pending p"
  "rs_last_observed (advance_reconciliation p o' now) = o'"
  by (auto simp: advance_reconciliation_def Let_def)

lemma advance_failures:
  "0 \<le> previous_field 0 rs_failures p \<Longrightarrow> 0 \<le> rs_failures (advance_reconciliation p o' now)"
  by (simp add: advance_reconciliation_def Let_def)

lemma advance_ok: "recon_ok s \<Longrightarrow> recon_ok (advance_reconciliation (Some s) o' now)"
  using completed_ids_ok [of "rs_completed s" None] advance_failures [of "Some s" o' now]
  by (simp add: recon_ok_def advance_fields previous_field_def split: option.splits)

lemma recon_step_ok: "recon_step s s' \<Longrightarrow> recon_ok s \<Longrightarrow> recon_ok s'"
proof (induction rule: recon_step.induct)
  case (observe s observed now)
  then show ?case by (rule advance_ok)
next
  case (dispatch s a s')
  then show ?case by (auto simp: begin_action_Inr recon_ok_def)
next
  case (failure s i now)
  then show ?case
    using completed_ids_ok [of "rs_completed s" "Some i"]
    by (auto simp: record_action_failure_def recon_ok_def Let_def)
next
  case (complete s i)
  then show ?case
    using completed_ids_ok [of "rs_completed s" "Some i"] by (auto simp: complete_action_def recon_ok_def)
next
  case (control s i)
  then show ?case
    using completed_ids_ok [of "rs_completed s" "Some i"]
    by (auto simp: remember_control_action_def recon_ok_def split: option.splits)
qed

lemma recon_step_sequence: "recon_step s s' \<Longrightarrow> rs_last_sequence s \<le> rs_last_sequence s'"
  by (induction rule: recon_step.induct)
    (auto simp: advance_fields previous_field_def begin_action_Inr record_action_failure_def Let_def
      complete_action_def remember_control_action_def)

text \<open>The replay fence: the token is a sequence number, it is accepted while it lies above the
  watermark, and it is known once the watermark has reached it.\<close>

definition sequence_open :: "reconciliation_state \<Rightarrow> int \<Rightarrow> bool" where
  "sequence_open s n \<longleftrightarrow> rs_last_sequence s < n"

definition sequence_known :: "reconciliation_state \<Rightarrow> int \<Rightarrow> bool" where
  "sequence_known s n \<longleftrightarrow> True"

interpretation replay: monotone_fence recon_step sequence_open sequence_known
  by unfold_locales (auto simp: sequence_known_def sequence_open_def dest: recon_step_sequence)

section \<open>The crash-loop counter\<close>

text \<open>The times at which an observation sequence enters the failed state.\<close>

fun failed_edges :: "observed_state \<Rightarrow> (observed_state \<times> int) list \<Rightarrow> int list" where
  "failed_edges prev [] = []"
| "failed_edges prev ((o', t) # obs) =
     (if o' = Failed \<and> prev \<noteq> Failed then [t] else []) @ failed_edges o' obs"

definition observe_all ::
  "reconciliation_state \<Rightarrow> (observed_state \<times> int) list \<Rightarrow> reconciliation_state" where
  "observe_all s obs = foldl (\<lambda>s (o', t). advance_reconciliation (Some s) o' t) s obs"

lemma advance_exits:
  "rs_exits (advance_reconciliation (Some s) o' t) =
     live_exits (Some s) t @ (if o' = Failed \<and> rs_last_observed s \<noteq> Failed then [t] else [])"
  by (auto simp: advance_reconciliation_def Let_def previous_field_def)

lemma observe_all_exits:
  assumes "\<forall>x \<in> set (rs_exits s) \<union> snd ` set obs. \<forall>t \<in> snd ` set obs. t - crash_loop_window_ms \<le> x"
  shows "rs_exits (observe_all s obs) = rs_exits s @ failed_edges (rs_last_observed s) obs"
  using assms
proof (induction obs arbitrary: s)
  case (Cons ob obs)
  obtain o' t where ob: "ob = (o', t)" by (cases ob)
  let ?s' = "advance_reconciliation (Some s) o' t"
  have live: "live_exits (Some s) t = rs_exits s"
    using Cons.prems ob by (auto simp: live_exits_def previous_field_def filter_id_conv)
  have "rs_exits (observe_all ?s' obs) = rs_exits ?s' @ failed_edges (rs_last_observed ?s') obs"
  proof (rule Cons.IH, intro ballI)
    fix x u assume "x \<in> set (rs_exits ?s') \<union> snd ` set obs" "u \<in> snd ` set obs"
    moreover have "set (rs_exits ?s') \<subseteq> set (rs_exits s) \<union> {t}"
      by (auto simp: advance_exits live split: if_splits)
    ultimately show "u - crash_loop_window_ms \<le> x" using Cons.prems ob by auto
  qed
  then show ?case by (simp add: observe_all_def ob advance_exits live advance_fields)
qed (simp add: observe_all_def)

section \<open>The properties\<close>


definition demo_recon :: reconciliation_state where
  "demo_recon = \<lparr>rs_exits = [], rs_failures = 0, rs_last_observed = Working, rs_next_restart = None,
     rs_completed = [], rs_last_sequence = 3, rs_pending = None, rs_last_terminal = None\<rparr>"

definition demo_action :: "string \<Rightarrow> int \<Rightarrow> pending_action" where
  "demo_action i n = \<lparr>pa_id = i, pa_sequence = n, pa_kind = RestartFreshKind, pa_recorded_at = 10\<rparr>"


text \<open>The persisted bookkeeping stays well formed along every run: at most 32 distinct completed
  identifiers, a non-negative failure count, and a pending action no newer than the watermark,
  which never moves back.\<close>

theorem reconciliation_state_invariant:
  assumes "recon_step\<^sup>*\<^sup>* s s'" "recon_ok s"
  shows "recon_ok s' \<and> rs_last_sequence s \<le> rs_last_sequence s'"
  using assms by (induction rule: rtranclp_induct) (auto intro: recon_step_ok dest: recon_step_sequence)

theorem reconciliation_state_invariant_witness:
  "recon_ok (complete_action demo_recon ''a'') \<and> rs_last_sequence demo_recon \<le> rs_last_sequence (complete_action demo_recon ''a'')"
  by (rule reconciliation_state_invariant)
    (auto intro: recon_step.complete simp: recon_ok_def demo_recon_def max_completed_ids_def)

text \<open>The crash loop is detected: while everything happens within one ten-minute window, the exit
  list grows by exactly the times at which the agent entered the failed state, however often it
  recovered in between; with five of them the policy quarantines an agent that is to run.\<close>

theorem crash_loop_is_detected:
  assumes "\<forall>x \<in> set (rs_exits s) \<union> snd ` set obs. \<forall>t \<in> snd ` set obs. t - crash_loop_window_ms \<le> x"
    and "sn_exits snap = int (length (rs_exits (observe_all s obs)))" "sn_desired snap \<noteq> DesiredStopped"
  shows "rs_exits (observe_all s obs) = rs_exits s @ failed_edges (rs_last_observed s) obs \<and>
    (5 \<le> length (rs_exits s @ failed_edges (rs_last_observed s) obs) \<longrightarrow>
      dec_action (decide_reconciliation snap caps watchdog) = Quarantine)"
proof -
  note e = observe_all_exits [OF assms(1)]
  have "dec_action (decide_reconciliation snap caps watchdog) = Quarantine"
    if "5 \<le> length (rs_exits s @ failed_edges (rs_last_observed s) obs)"
    using that assms(2,3) unfolding e
    by (simp add: decide_reconciliation_def make_decision_def crash_loop_exit_limit_def)
  with e show ?thesis by blast
qed

definition demo_crashes :: "(observed_state \<times> int) list" where
  "demo_crashes = [(Failed, 1), (Failed, 2), (Recovering, 3), (Failed, 4), (Working, 5), (Failed, 6), (Absent, 7),
     (Failed, 8), (Working, 9), (Failed, 10)]"

theorem crash_loop_is_detected_witness:
  "rs_exits (observe_all demo_recon demo_crashes) = [1, 4, 6, 8, 10] \<and>
   dec_action (decide_reconciliation (demo_snapshot\<lparr>sn_exits := 5\<rparr>) \<lparr>rcap_resume = True, rcap_mid_turn = True\<rparr> 60000) =
     Quarantine"
proof -
  have edges: "rs_exits demo_recon @ failed_edges (rs_last_observed demo_recon) demo_crashes = [1, 4, 6, 8, 10]"
    by code_simp
  have exits: "rs_exits (observe_all demo_recon demo_crashes) = [1, 4, 6, 8, 10]" by code_simp
  have "rs_exits (observe_all demo_recon demo_crashes) =
      rs_exits demo_recon @ failed_edges (rs_last_observed demo_recon) demo_crashes \<and>
    (5 \<le> length (rs_exits demo_recon @ failed_edges (rs_last_observed demo_recon) demo_crashes) \<longrightarrow>
      dec_action (decide_reconciliation (demo_snapshot\<lparr>sn_exits := 5\<rparr>) \<lparr>rcap_resume = True, rcap_mid_turn = True\<rparr> 60000) =
        Quarantine)"
  proof (rule crash_loop_is_detected)
    show "\<forall>x \<in> set (rs_exits demo_recon) \<union> snd ` set demo_crashes.
        \<forall>t \<in> snd ` set demo_crashes. t - crash_loop_window_ms \<le> x" by code_simp
  qed (simp_all add: exits demo_snapshot_def)
  then show ?thesis unfolding edges by simp
qed

end
