(* ===== verification/ExecutionReducer.thy ===== *)
theory ExecutionReducer
  imports Prelude
begin

text \<open>
  The evidence of a provider execution (\<^verbatim>\<open>apps/desktop/daemon/execution-protocol.ts\<close>, types in
  \<^verbatim>\<open>apps/desktop/shared/execution-protocol.d.ts\<close>) and its pure projection
  (\<^verbatim>\<open>apps/desktop/daemon/execution-reducer.ts\<close>): the four transition tables, operations, turns and
  the whole projection. A fact is a value of the parsed type; the checks of the schema that the
  type does not express are \<open>schema_ok\<close>. Maps from identifiers are partial functions; the insertion
  order of a JavaScript \<open>Map\<close> is not observed here.
\<close>

section \<open>Facts\<close>

datatype runtime_state = RtStarting | RtReady | RtStopping | RtExited
datatype control_state = CtConnecting | CtResponsive | CtDegraded | CtLost | CtUnprobeable
datatype continuation_state = CnAvailable | CnRepairing | CnUnavailable
datatype turn_state = TnNone | TnActive | TnTerminal | TnLost
datatype turn_outcome = TurnCompleted | TurnFailed | TurnInterrupted | TurnUnreadable
datatype side_effects = NoEffects | PossibleEffects | ObservedEffects

datatype execution_outcome =
    Succeeded | OutcomeFailed | DeniedBeforeStart | CancelledBeforeStart | InterruptedAfterStart
  | LostAfterStart

datatype hard_evidence =
    ProcessExit | ProcessBirthChanged | TransportRefused | ControlEpochGone | NativeSessionTerminated

datatype operation_sort = CommandOp | FileReadOp | FileChangeOp | NetworkOp | QuestionOp | OtherOp

record native_turn =
  nt_turn :: string
  nt_continuation :: string
  nt_provider_turn :: string

record fact_envelope =
  fe_fact :: string
  fe_agent :: string
  fe_execution_generation :: string
  fe_runtime_generation :: string
  fe_epoch :: int
  fe_sequence :: int
  fe_native_event :: "string option"
  fe_observed_at :: int

datatype operation_kind =
    OpStarted
  | OpOutput int
  | OpCompleted execution_outcome "int option" "int option"

record operation_fact =
  of_execution :: string
  of_operation :: operation_sort
  of_effects :: side_effects
  of_kind :: operation_kind

datatype fact_body =
    RuntimeFact runtime_state "hard_evidence option"
  | ControlFact control_state "hard_evidence option"
  | ContinuationFact continuation_state
  | TurnFact native_turn turn_state "turn_outcome option"
  | OperationFact native_turn operation_fact

record execution_fact =
  ef_envelope :: fact_envelope
  ef_body :: fact_body

datatype protocol_error =
    InvalidFact | IdentityMismatch | StaleObserver | SequenceConflict | InvalidTransition
  | AttemptSettled | SourceUnverified | SourceGap | RetentionLimit

definition max_safe_integer :: int where
  "max_safe_integer = 2 ^ 53 - 1"

definition is_alnum :: "char \<Rightarrow> bool" where
  "is_alnum c \<longleftrightarrow> (let n = of_char c :: nat
     in (48 \<le> n \<and> n \<le> 57) \<or> (65 \<le> n \<and> n \<le> 90) \<or> (97 \<le> n \<and> n \<le> 122))"

definition execution_identity :: "string \<Rightarrow> bool" where
  "execution_identity s \<longleftrightarrow> 1 \<le> length s \<and> length s \<le> 512 \<and> is_alnum (hd s) \<and>
     list_all (\<lambda>c. is_alnum c \<or> c \<in> set ''_.:/-'') (tl s)"

definition safe_integer_from :: "int \<Rightarrow> int \<Rightarrow> bool" where
  "safe_integer_from lo n \<longleftrightarrow> lo \<le> n \<and> n \<le> max_safe_integer"

definition envelope_ok :: "fact_envelope \<Rightarrow> bool" where
  "envelope_ok e \<longleftrightarrow> execution_identity (fe_fact e) \<and> execution_identity (fe_agent e) \<and>
     execution_identity (fe_execution_generation e) \<and> execution_identity (fe_runtime_generation e) \<and>
     safe_integer_from 1 (fe_epoch e) \<and> safe_integer_from 1 (fe_sequence e) \<and>
     (case fe_native_event e of None \<Rightarrow> True | Some i \<Rightarrow> execution_identity i) \<and>
     safe_integer_from 0 (fe_observed_at e)"

definition native_turn_ok :: "native_turn \<Rightarrow> bool" where
  "native_turn_ok t \<longleftrightarrow> execution_identity (nt_turn t) \<and> execution_identity (nt_continuation t) \<and>
     execution_identity (nt_provider_turn t)"

definition before_start :: "execution_outcome \<Rightarrow> bool" where
  "before_start r \<longleftrightarrow> r \<in> {DeniedBeforeStart, CancelledBeforeStart}"

fun operation_kind_ok :: "side_effects \<Rightarrow> operation_kind \<Rightarrow> bool" where
  "operation_kind_ok se OpStarted = True"
| "operation_kind_ok se (OpOutput n) = safe_integer_from 0 n"
| "operation_kind_ok se (OpCompleted r exit signal) =
     ((case exit of None \<Rightarrow> True | Some n \<Rightarrow> - 2147483648 \<le> n \<and> n \<le> 2147483647) \<and>
      (case signal of None \<Rightarrow> True | Some n \<Rightarrow> safe_integer_from 1 n) \<and>
      (\<not> before_start r \<or> se = NoEffects \<and> exit = None \<and> signal = None))"

fun body_ok :: "fact_body \<Rightarrow> bool" where
  "body_ok (RuntimeFact s ev) = ((s = RtExited) = (ev \<noteq> None))"
| "body_ok (ControlFact s ev) = ((s = CtLost) = (ev \<noteq> None))"
| "body_ok (ContinuationFact s) = True"
| "body_ok (TurnFact t s r) = (native_turn_ok t \<and> (s = TnTerminal) = (r \<noteq> None))"
| "body_ok (OperationFact t f) =
     (native_turn_ok t \<and> execution_identity (of_execution f) \<and> operation_kind_ok (of_effects f) (of_kind f))"

definition schema_ok :: "execution_fact \<Rightarrow> bool" where
  "schema_ok f \<longleftrightarrow> envelope_ok (ef_envelope f) \<and> body_ok (ef_body f)"

definition parse_execution_fact :: "execution_fact \<Rightarrow> protocol_error + execution_fact" where
  "parse_execution_fact f = (if schema_ok f then Inr f else Inl InvalidFact)"

definition combine_side_effects :: "side_effects \<Rightarrow> side_effects \<Rightarrow> side_effects" where
  "combine_side_effects a b =
     (if a = ObservedEffects \<or> b = ObservedEffects then ObservedEffects
      else if a = PossibleEffects \<or> b = PossibleEffects then PossibleEffects else NoEffects)"

definition same_native_turn :: "native_turn \<Rightarrow> native_turn \<Rightarrow> bool" where
  "same_native_turn a b \<longleftrightarrow> nt_turn a = nt_turn b \<and> nt_continuation a = nt_continuation b \<and>
     nt_provider_turn a = nt_provider_turn b"

text \<open>Side effects are ordered by how much is known to have happened.\<close>

instantiation side_effects :: linorder
begin

fun effect_rank :: "side_effects \<Rightarrow> nat" where
  "effect_rank NoEffects = 0"
| "effect_rank PossibleEffects = 1"
| "effect_rank ObservedEffects = 2"

definition less_eq_side_effects :: "side_effects \<Rightarrow> side_effects \<Rightarrow> bool" where
  "less_eq_side_effects a b \<longleftrightarrow> effect_rank a \<le> effect_rank b"

definition less_side_effects :: "side_effects \<Rightarrow> side_effects \<Rightarrow> bool" where
  "less_side_effects a b \<longleftrightarrow> effect_rank a < effect_rank b"

instance
proof
  fix x y :: side_effects
  show "x \<le> y \<Longrightarrow> y \<le> x \<Longrightarrow> x = y"
    by (cases x; cases y) (simp_all add: less_eq_side_effects_def)
qed (auto simp: less_eq_side_effects_def less_side_effects_def)

end

lemma combine_is_max: "combine_side_effects a b = max a b"
  by (cases a; cases b) (simp_all add: combine_side_effects_def max_def less_eq_side_effects_def)

lemma no_effects_least [simp]: "NoEffects \<le> (a :: side_effects)"
  by (cases a) (simp_all add: less_eq_side_effects_def)

section \<open>Transition tables\<close>

definition transition :: "('q \<Rightarrow> 'q list) \<Rightarrow> 'q \<Rightarrow> 'q \<Rightarrow> protocol_error + 'q" where
  "transition allowed p q = (if p \<noteq> q \<and> q \<notin> set (allowed p) then Inl InvalidTransition else Inr q)"

fun runtime_moves :: "runtime_state \<Rightarrow> runtime_state list" where
  "runtime_moves RtStarting = [RtReady, RtStopping, RtExited]"
| "runtime_moves RtReady = [RtStopping, RtExited]"
| "runtime_moves RtStopping = [RtExited]"
| "runtime_moves RtExited = []"

fun control_moves :: "control_state \<Rightarrow> control_state list" where
  "control_moves CtConnecting = [CtResponsive, CtDegraded, CtLost, CtUnprobeable]"
| "control_moves CtResponsive = [CtDegraded, CtLost, CtUnprobeable]"
| "control_moves CtDegraded = [CtResponsive, CtLost, CtUnprobeable]"
| "control_moves CtUnprobeable = [CtResponsive, CtDegraded, CtLost]"
| "control_moves CtLost = []"

fun continuation_moves :: "continuation_state \<Rightarrow> continuation_state list" where
  "continuation_moves CnAvailable = [CnRepairing, CnUnavailable]"
| "continuation_moves CnRepairing = [CnAvailable, CnUnavailable]"
| "continuation_moves CnUnavailable = [CnRepairing]"

fun turn_moves :: "turn_state \<Rightarrow> turn_state list" where
  "turn_moves TnNone = [TnActive, TnTerminal, TnLost]"
| "turn_moves TnActive = [TnTerminal, TnLost]"
| "turn_moves TnLost = [TnActive, TnTerminal]"
| "turn_moves TnTerminal = []"

interpretation runtime_table: transition_table "\<lambda>p q. q \<in> set (runtime_moves p)" "transition runtime_moves"
  by unfold_locales (auto simp: transition_def)

interpretation control_table: transition_table "\<lambda>p q. q \<in> set (control_moves p)" "transition control_moves"
  by unfold_locales (auto simp: transition_def)

interpretation continuation_table:
  transition_table "\<lambda>p q. q \<in> set (continuation_moves p)" "transition continuation_moves"
  by unfold_locales (auto simp: transition_def)

interpretation turn_table: transition_table "\<lambda>p q. q \<in> set (turn_moves p)" "transition turn_moves"
  by unfold_locales (auto simp: transition_def)

section \<open>The projection\<close>

record operation_projection =
  op_operation :: operation_sort
  op_terminal :: bool
  op_started :: bool
  op_output :: int
  op_effects :: side_effects
  op_outcome :: "execution_outcome option"
  op_exit :: "int option"
  op_signal :: "int option"

record turn_projection =
  tp_identity :: native_turn
  tp_state :: turn_state
  tp_outcome :: "turn_outcome option"
  tp_effects :: side_effects
  tp_operations :: "string \<Rightarrow> operation_projection option"

record execution_projection =
  ep_epoch :: int
  ep_control_epoch :: int
  ep_runtime :: runtime_state
  ep_control :: control_state
  ep_continuation :: continuation_state
  ep_turns :: "string \<Rightarrow> turn_projection option"

definition empty_execution_projection :: execution_projection where
  "empty_execution_projection = \<lparr>ep_epoch = 0, ep_control_epoch = 0, ep_runtime = RtStarting,
     ep_control = CtConnecting, ep_continuation = CnAvailable, ep_turns = Map.empty\<rparr>"

definition fresh_operation :: "operation_sort \<Rightarrow> operation_projection" where
  "fresh_operation k = \<lparr>op_operation = k, op_terminal = False, op_started = False, op_output = 0,
     op_effects = NoEffects, op_outcome = None, op_exit = None, op_signal = None\<rparr>"

definition reduce_operation ::
  "operation_projection option \<Rightarrow> operation_fact \<Rightarrow> protocol_error + operation_projection" where
  "reduce_operation previous f =
     (if (case previous of None \<Rightarrow> False | Some p \<Rightarrow> op_operation p \<noteq> of_operation f)
      then Inl IdentityMismatch
      else
       (let operation = (case previous of None \<Rightarrow> fresh_operation (of_operation f) | Some p \<Rightarrow> p);
            effects = combine_side_effects (op_effects operation) (of_effects f)
        in if op_terminal operation then
             (case of_kind f of
                OpCompleted r exit signal \<Rightarrow>
                  if op_outcome operation = Some r \<and> op_exit operation = exit \<and> op_signal operation = signal
                  then Inr (operation\<lparr>op_effects := effects\<rparr>) else Inl InvalidTransition
              | _ \<Rightarrow> Inl InvalidTransition)
           else
            (case of_kind f of
               OpStarted \<Rightarrow> Inr (operation\<lparr>op_started := True, op_effects := effects\<rparr>)
             | OpOutput n \<Rightarrow>
                 if \<bar>op_output operation + n\<bar> \<le> max_safe_integer
                 then Inr (operation\<lparr>op_output := op_output operation + n, op_effects := effects\<rparr>)
                 else Inl InvalidFact
             | OpCompleted r exit signal \<Rightarrow>
                 if before_start r \<and> (op_started operation \<or> 0 < op_output operation \<or> op_effects operation \<noteq> NoEffects)
                 then Inl InvalidTransition
                 else Inr (operation\<lparr>op_terminal := True, op_outcome := Some r, op_effects := effects,
                        op_exit := exit, op_signal := signal\<rparr>))))"

definition fresh_turn :: "native_turn \<Rightarrow> turn_projection" where
  "fresh_turn t = \<lparr>tp_identity = t, tp_state = TnNone, tp_outcome = None, tp_effects = NoEffects,
     tp_operations = Map.empty\<rparr>"

definition current_turn ::
  "execution_projection \<Rightarrow> native_turn \<Rightarrow> protocol_error + turn_projection" where
  "current_turn p t =
     (case ep_turns p (nt_turn t) of
        None \<Rightarrow> Inr (fresh_turn t)
      | Some c \<Rightarrow> if same_native_turn (tp_identity c) t then Inr c else Inl IdentityMismatch)"

fun reduce_turn :: "turn_projection \<Rightarrow> fact_body \<Rightarrow> protocol_error + turn_projection" where
  "reduce_turn turn (TurnFact t s r) =
     bind_result (transition turn_moves (tp_state turn) s)
      (\<lambda>state. if tp_state turn = TnTerminal \<and> tp_outcome turn \<noteq> r then Inl InvalidTransition
        else Inr (turn\<lparr>tp_state := state, tp_outcome := r\<rparr>))"
| "reduce_turn turn (OperationFact t f) =
     (if tp_state turn \<in> {TnTerminal, TnLost} \<and>
          (case of_kind f of OpCompleted _ _ _ \<Rightarrow> False | _ \<Rightarrow> True) then Inl InvalidTransition
      else bind_result (reduce_operation (tp_operations turn (of_execution f)) f)
        (\<lambda>operation. Inr (turn\<lparr>tp_operations := (tp_operations turn)(of_execution f \<mapsto> operation),
           tp_effects := combine_side_effects (tp_effects turn) (of_effects f)\<rparr>)))"
| "reduce_turn turn _ = Inr turn"

definition reduce_control :: "execution_projection \<Rightarrow> int \<Rightarrow> control_state \<Rightarrow> protocol_error + execution_projection"
where
  "reduce_control p epoch s =
     (if s = CtConnecting \<and> ep_control_epoch p < epoch
      then Inr (p\<lparr>ep_control := CtConnecting, ep_control_epoch := epoch\<rparr>)
      else bind_result (transition control_moves (ep_control p) s)
        (\<lambda>c. Inr (p\<lparr>ep_control_epoch := epoch, ep_control := c\<rparr>)))"

definition reduce_in_turn :: "execution_projection \<Rightarrow> native_turn \<Rightarrow> fact_body \<Rightarrow> protocol_error + execution_projection"
where
  "reduce_in_turn p t body =
     bind_result (current_turn p t) (\<lambda>turn.
     bind_result (reduce_turn turn body) (\<lambda>next'.
       Inr (p\<lparr>ep_turns := (ep_turns p)(nt_turn t \<mapsto> next')\<rparr>)))"

definition reduce_body :: "execution_projection \<Rightarrow> int \<Rightarrow> fact_body \<Rightarrow> protocol_error + execution_projection" where
  "reduce_body p epoch body =
     (case body of
        RuntimeFact s _ \<Rightarrow> bind_result (transition runtime_moves (ep_runtime p) s) (\<lambda>s. Inr (p\<lparr>ep_runtime := s\<rparr>))
      | ControlFact s _ \<Rightarrow> reduce_control p epoch s
      | ContinuationFact s \<Rightarrow>
          bind_result (transition continuation_moves (ep_continuation p) s) (\<lambda>s. Inr (p\<lparr>ep_continuation := s\<rparr>))
      | TurnFact t _ _ \<Rightarrow> reduce_in_turn p t body
      | OperationFact t _ \<Rightarrow> reduce_in_turn p t body)"

definition reduce_execution_fact ::
  "execution_projection \<Rightarrow> execution_fact \<Rightarrow> protocol_error + execution_projection" where
  "reduce_execution_fact previous v =
     bind_result (parse_execution_fact v) (\<lambda>f.
       let epoch = fe_epoch (ef_envelope f)
       in if epoch < ep_epoch previous then Inl StaleObserver
          else reduce_body (if ep_epoch previous < epoch then previous\<lparr>ep_epoch := epoch\<rparr> else previous)
                 epoch (ef_body f))"

end
