(* ===== verification/ExecutionHistory.thy ===== *)
theory ExecutionHistory
  imports ExecutionReducer
begin

text \<open>
  What the projection of execution evidence guarantees: the well-formedness that every accepted
  fact keeps, and the order in which a history only grows. Both are stated for one fact and for a
  whole journal, replayed by \<open>run_facts\<close>.
\<close>

fun run_facts :: "execution_projection \<Rightarrow> execution_fact list \<Rightarrow> protocol_error + execution_projection" where
  "run_facts p [] = Inr p"
| "run_facts p (f # fs) = bind_result (reduce_execution_fact p f) (\<lambda>q. run_facts q fs)"

section \<open>Well-formed projections\<close>

definition operation_ok :: "operation_projection \<Rightarrow> bool" where
  "operation_ok a \<longleftrightarrow> 0 \<le> op_output a \<and> op_output a \<le> max_safe_integer \<and>
     (op_terminal a \<longleftrightarrow> op_outcome a \<noteq> None) \<and>
     (\<not> op_terminal a \<longrightarrow> op_exit a = None \<and> op_signal a = None) \<and>
     (case op_outcome a of None \<Rightarrow> True
      | Some r \<Rightarrow> before_start r \<longrightarrow> \<not> op_started a \<and> op_output a = 0 \<and> op_effects a = NoEffects \<and>
          op_exit a = None \<and> op_signal a = None)"

definition turn_ok :: "turn_projection \<Rightarrow> bool" where
  "turn_ok t \<longleftrightarrow> (tp_state t = TnTerminal \<longleftrightarrow> tp_outcome t \<noteq> None) \<and>
     (\<forall>e a. tp_operations t e = Some a \<longrightarrow> operation_ok a \<and> op_effects a \<le> tp_effects t)"

definition projection_ok :: "execution_projection \<Rightarrow> bool" where
  "projection_ok p \<longleftrightarrow> 0 \<le> ep_control_epoch p \<and> ep_control_epoch p \<le> ep_epoch p \<and>
     (\<forall>i t. ep_turns p i = Some t \<longrightarrow> nt_turn (tp_identity t) = i \<and> turn_ok t)"

lemma fresh_operation_ok: "operation_ok (fresh_operation k)"
  by (simp add: operation_ok_def fresh_operation_def max_safe_integer_def)

lemma reduce_operation_ok:
  assumes "reduce_operation prev f = Inr a" "\<And>p. prev = Some p \<Longrightarrow> operation_ok p"
    and "operation_kind_ok (of_effects f) (of_kind f)"
  shows "operation_ok a"
proof -
  let ?p = "case prev of None \<Rightarrow> fresh_operation (of_operation f) | Some p \<Rightarrow> p"
  have p: "operation_ok ?p" using assms(2) fresh_operation_ok by (auto split: option.splits)
  show ?thesis
  proof (cases "of_kind f")
    case (OpCompleted r exit signal)
    then show ?thesis
      using assms(1,3) p
      by (auto simp: reduce_operation_def Let_def operation_ok_def combine_is_max max_def split: if_splits option.splits)
  qed (use assms(1,3) p in \<open>auto simp: reduce_operation_def Let_def operation_ok_def safe_integer_from_def
         split: if_splits option.splits\<close>)
qed

lemma reduce_operation_effects:
  assumes "reduce_operation prev f = Inr a"
  shows "op_effects a = combine_side_effects (case prev of None \<Rightarrow> NoEffects | Some p \<Rightarrow> op_effects p) (of_effects f)"
  using assms
  by (auto simp: reduce_operation_def Let_def fresh_operation_def
      split: if_splits option.splits operation_kind.splits)

lemma reduce_turn_ok:
  assumes "reduce_turn t b = Inr u" "turn_ok t" "body_ok b"
  shows "turn_ok u \<and> tp_identity u = tp_identity t"
proof (cases b)
  case (TurnFact i s r)
  then show ?thesis
    using assms by (auto simp: turn_ok_def bind_result_Inr turn_table.move_Inr split: if_splits)
next
  case (OperationFact i f)
  then obtain a where a: "reduce_operation (tp_operations t (of_execution f)) f = Inr a"
    and u: "u = t\<lparr>tp_operations := (tp_operations t)(of_execution f \<mapsto> a),
      tp_effects := combine_side_effects (tp_effects t) (of_effects f)\<rparr>"
    using assms(1) by (auto simp: bind_result_Inr split: if_splits)
  have kind: "operation_kind_ok (of_effects f) (of_kind f)" using assms(3) OperationFact by simp
  have "operation_ok a"
    using assms(2) by (intro reduce_operation_ok [OF a _ kind]) (auto simp: turn_ok_def)
  moreover have "(case tp_operations t (of_execution f) of None \<Rightarrow> NoEffects | Some p \<Rightarrow> op_effects p) \<le> tp_effects t"
    using assms(2) by (auto simp: turn_ok_def split: option.splits)
  then have "op_effects a \<le> tp_effects u"
    unfolding reduce_operation_effects [OF a] u combine_is_max by (simp add: max.coboundedI1)
  moreover have "op_effects a' \<le> tp_effects u" if "tp_operations t e = Some a'" for e a'
    using that assms(2) unfolding u by (auto simp: turn_ok_def combine_is_max le_max_iff_disj)
  ultimately show ?thesis using assms(2) u by (auto simp: turn_ok_def)
qed (use assms in auto)

lemma fresh_turn_ok: "turn_ok (fresh_turn t)"
  by (simp add: turn_ok_def fresh_turn_def)

lemma current_turn_ok:
  assumes "current_turn p t = Inr c" "projection_ok p"
  shows "turn_ok c \<and> nt_turn (tp_identity c) = nt_turn t"
  using assms fresh_turn_ok [of t]
  by (auto simp: current_turn_def projection_ok_def fresh_turn_def split: option.splits if_splits)

lemma reduce_in_turn_ok:
  assumes "reduce_in_turn p t b = Inr q" "projection_ok p" "body_ok b"
  shows "projection_ok q"
proof -
  obtain c u where c: "current_turn p t = Inr c" and u: "reduce_turn c b = Inr u"
    and q: "q = p\<lparr>ep_turns := (ep_turns p)(nt_turn t \<mapsto> u)\<rparr>"
    using assms(1) by (auto simp: reduce_in_turn_def bind_result_Inr)
  from current_turn_ok [OF c assms(2)] reduce_turn_ok [OF u _ assms(3)] assms(2) show ?thesis
    unfolding q by (auto simp: projection_ok_def)
qed

lemma reduce_body_ok:
  assumes "reduce_body p epoch b = Inr q" "projection_ok p" "body_ok b" "ep_epoch p = epoch"
  shows "projection_ok q"
proof (cases b)
  case (ControlFact s ev)
  then show ?thesis
    using assms by (auto simp: reduce_body_def reduce_control_def bind_result_Inr projection_ok_def split: if_splits)
next
  case (TurnFact t s r)
  then show ?thesis using assms reduce_in_turn_ok [of p t b q] by (simp add: reduce_body_def)
next
  case (OperationFact t f)
  then show ?thesis using assms reduce_in_turn_ok [of p t b q] by (simp add: reduce_body_def)
qed (use assms in \<open>auto simp: reduce_body_def bind_result_Inr projection_ok_def\<close>)

lemma reduce_fact_Inr:
  "reduce_execution_fact p f = Inr q \<longleftrightarrow>
     schema_ok f \<and> ep_epoch p \<le> fe_epoch (ef_envelope f) \<and>
     reduce_body (p\<lparr>ep_epoch := fe_epoch (ef_envelope f)\<rparr>) (fe_epoch (ef_envelope f)) (ef_body f) = Inr q"
proof -
  have "(if ep_epoch p < e then p\<lparr>ep_epoch := e\<rparr> else p) = p\<lparr>ep_epoch := e\<rparr>" if "ep_epoch p \<le> e" for e
    using that by (cases p) auto
  then show ?thesis
    by (auto simp: reduce_execution_fact_def bind_result_Inr parse_execution_fact_def Let_def split: if_splits)
qed

lemma reduce_fact_ok:
  assumes "reduce_execution_fact p f = Inr q" "projection_ok p"
  shows "projection_ok q"
proof (rule reduce_body_ok)
  show "reduce_body (p\<lparr>ep_epoch := fe_epoch (ef_envelope f)\<rparr>) (fe_epoch (ef_envelope f)) (ef_body f) = Inr q"
    using assms(1) by (simp add: reduce_fact_Inr)
qed (use assms in \<open>auto simp: reduce_fact_Inr projection_ok_def schema_ok_def\<close>)

lemma run_facts_ok: "run_facts p fs = Inr q \<Longrightarrow> projection_ok p \<Longrightarrow> projection_ok q"
  by (induction fs arbitrary: p) (auto simp: bind_result_Inr dest: reduce_fact_ok)

lemma empty_projection_ok: "projection_ok empty_execution_projection"
  by (simp add: projection_ok_def empty_execution_projection_def)

section \<open>Histories only grow\<close>

definition operation_grows :: "operation_projection \<Rightarrow> operation_projection \<Rightarrow> bool" where
  "operation_grows a b \<longleftrightarrow> op_operation b = op_operation a \<and>
     (op_terminal a \<longrightarrow> op_terminal b \<and> op_outcome b = op_outcome a \<and> op_exit b = op_exit a \<and> op_signal b = op_signal a) \<and>
     (op_started a \<longrightarrow> op_started b) \<and> op_output a \<le> op_output b \<and> op_effects a \<le> op_effects b"

definition turn_grows :: "turn_projection \<Rightarrow> turn_projection \<Rightarrow> bool" where
  "turn_grows t u \<longleftrightarrow> tp_identity u = tp_identity t \<and>
     (tp_state t = TnTerminal \<longrightarrow> tp_state u = TnTerminal \<and> tp_outcome u = tp_outcome t) \<and>
     tp_effects t \<le> tp_effects u \<and>
     (\<forall>e a. tp_operations t e = Some a \<longrightarrow> (\<exists>b. tp_operations u e = Some b \<and> operation_grows a b))"

fun runtime_rank :: "runtime_state \<Rightarrow> nat" where
  "runtime_rank RtStarting = 0"
| "runtime_rank RtReady = 1"
| "runtime_rank RtStopping = 2"
| "runtime_rank RtExited = 3"

definition projection_grows :: "execution_projection \<Rightarrow> execution_projection \<Rightarrow> bool" where
  "projection_grows p q \<longleftrightarrow> ep_epoch p \<le> ep_epoch q \<and> ep_control_epoch p \<le> ep_control_epoch q \<and>
     runtime_rank (ep_runtime p) \<le> runtime_rank (ep_runtime q) \<and>
     (ep_control p = CtLost \<longrightarrow> ep_control q = CtLost \<or> ep_control_epoch p < ep_control_epoch q) \<and>
     (\<forall>i t. ep_turns p i = Some t \<longrightarrow> (\<exists>u. ep_turns q i = Some u \<and> turn_grows t u))"

lemma operation_grows_refl: "operation_grows a a"
  by (simp add: operation_grows_def)

lemma operation_grows_trans: "operation_grows a b \<Longrightarrow> operation_grows b c \<Longrightarrow> operation_grows a c"
  by (auto simp: operation_grows_def)

lemma turn_grows_refl: "turn_grows t t"
  by (simp add: turn_grows_def operation_grows_refl)

lemma turn_grows_trans: "turn_grows t u \<Longrightarrow> turn_grows u v \<Longrightarrow> turn_grows t v"
  unfolding turn_grows_def by (fastforce intro: operation_grows_trans order_trans)

lemma projection_grows_refl: "projection_grows p p"
  by (simp add: projection_grows_def turn_grows_refl)

lemma projection_grows_trans:
  assumes "projection_grows p q" "projection_grows q r"
  shows "projection_grows p r"
proof -
  have "\<exists>v. ep_turns r i = Some v \<and> turn_grows t v" if "ep_turns p i = Some t" for i t
    using that assms unfolding projection_grows_def by (meson turn_grows_trans)
  moreover have "ep_control r = CtLost \<or> ep_control_epoch p < ep_control_epoch r" if "ep_control p = CtLost"
    using that assms unfolding projection_grows_def by linarith
  ultimately show ?thesis
    using assms unfolding projection_grows_def by simp
qed

lemma reduce_operation_grows:
  assumes "reduce_operation (Some a) f = Inr b" "operation_kind_ok (of_effects f) (of_kind f)"
  shows "operation_grows a b"
  using assms
  by (auto simp: reduce_operation_def Let_def operation_grows_def combine_is_max safe_integer_from_def
      split: if_splits operation_kind.splits)

lemma reduce_turn_grows:
  assumes "reduce_turn t b = Inr u" "body_ok b"
  shows "turn_grows t u"
proof (cases b)
  case (TurnFact i s r)
  then show ?thesis
    using assms by (auto simp: turn_grows_def operation_grows_refl bind_result_Inr turn_table.move_Inr split: if_splits)
next
  case (OperationFact i f)
  then obtain a where a: "reduce_operation (tp_operations t (of_execution f)) f = Inr a"
    and u: "u = t\<lparr>tp_operations := (tp_operations t)(of_execution f \<mapsto> a),
      tp_effects := combine_side_effects (tp_effects t) (of_effects f)\<rparr>"
    using assms(1) by (auto simp: bind_result_Inr split: if_splits)
  have kind: "operation_kind_ok (of_effects f) (of_kind f)" using assms(2) OperationFact by simp
  show ?thesis
    using a reduce_operation_grows [OF _ kind] unfolding u
    by (auto simp: turn_grows_def operation_grows_refl combine_is_max)
qed (use assms in \<open>auto simp: turn_grows_refl\<close>)

lemma reduce_in_turn_grows:
  assumes "reduce_in_turn p t b = Inr q" "body_ok b"
  shows "projection_grows p q"
proof -
  obtain c u where c: "current_turn p t = Inr c" and u: "reduce_turn c b = Inr u"
    and q: "q = p\<lparr>ep_turns := (ep_turns p)(nt_turn t \<mapsto> u)\<rparr>"
    using assms(1) by (auto simp: reduce_in_turn_def bind_result_Inr)
  have "ep_turns p (nt_turn t) = Some c'  \<Longrightarrow> c' = c" for c'
    using c by (auto simp: current_turn_def split: if_splits)
  then show ?thesis
    using reduce_turn_grows [OF u assms(2)] unfolding q by (auto simp: projection_grows_def turn_grows_refl)
qed

lemma reduce_body_grows:
  assumes "reduce_body p epoch b = Inr q" "body_ok b" "ep_control_epoch p \<le> epoch"
  shows "projection_grows p q"
proof (cases b)
  case (RuntimeFact s ev)
  then show ?thesis
    using assms
    by (cases "ep_runtime p")
      (auto simp: reduce_body_def bind_result_Inr runtime_table.move_Inr projection_grows_def turn_grows_refl)
next
  case (ControlFact s ev)
  then show ?thesis
    using assms
    by (auto simp: reduce_body_def reduce_control_def bind_result_Inr control_table.move_Inr projection_grows_def
        turn_grows_refl split: if_splits)
next
  case (ContinuationFact s)
  then show ?thesis
    using assms by (auto simp: reduce_body_def bind_result_Inr projection_grows_def turn_grows_refl)
next
  case (TurnFact t s r)
  then show ?thesis using assms reduce_in_turn_grows [of p t b q] by (simp add: reduce_body_def)
next
  case (OperationFact t f)
  then show ?thesis using assms reduce_in_turn_grows [of p t b q] by (simp add: reduce_body_def)
qed

lemma reduce_fact_grows:
  assumes "reduce_execution_fact p f = Inr q" "projection_ok p"
  shows "projection_grows p q"
proof (rule projection_grows_trans)
  let ?e = "fe_epoch (ef_envelope f)"
  show "projection_grows p (p\<lparr>ep_epoch := ?e\<rparr>)"
    using assms(1) by (simp add: reduce_fact_Inr projection_grows_def turn_grows_refl)
  show "projection_grows (p\<lparr>ep_epoch := ?e\<rparr>) q"
    using assms by (intro reduce_body_grows [of _ ?e "ef_body f"])
      (auto simp: reduce_fact_Inr schema_ok_def projection_ok_def)
qed

lemma run_facts_grows: "run_facts p fs = Inr q \<Longrightarrow> projection_ok p \<Longrightarrow> projection_grows p q"
  by (induction fs arbitrary: p)
    (auto simp: bind_result_Inr projection_grows_refl dest: reduce_fact_ok reduce_fact_grows intro: projection_grows_trans)


section \<open>The properties\<close>

text \<open>Every projection computed from accepted evidence is well formed: the control epoch never runs
  ahead of the observer epoch, every turn is filed under its own identifier, a turn has an outcome
  exactly when it is terminal, an operation exactly when it is concluded, no operation claims more
  side effects than its turn, and an operation reported as denied or cancelled before its start has
  neither started, nor written output, nor had any side effect.\<close>

theorem execution_projection_well_formed:
  assumes "run_facts p fs = Inr q" "projection_ok p"
  shows "projection_ok q"
  using assms by (rule run_facts_ok)

definition demo_envelope :: "int \<Rightarrow> fact_envelope" where
  "demo_envelope n = \<lparr>fe_fact = ''f'', fe_agent = ''a'', fe_execution_generation = ''g'', fe_runtime_generation = ''r'',
     fe_epoch = n, fe_sequence = 1, fe_native_event = None, fe_observed_at = 5\<rparr>"

definition demo_turn :: native_turn where
  "demo_turn = \<lparr>nt_turn = ''t1'', nt_continuation = ''c1'', nt_provider_turn = ''p1''\<rparr>"

definition demo_fact :: "int \<Rightarrow> fact_body \<Rightarrow> execution_fact" where
  "demo_fact n b = \<lparr>ef_envelope = demo_envelope n, ef_body = b\<rparr>"

definition demo_operation :: "side_effects \<Rightarrow> operation_kind \<Rightarrow> fact_body" where
  "demo_operation e k = OperationFact demo_turn
     \<lparr>of_execution = ''e1'', of_operation = CommandOp, of_effects = e, of_kind = k\<rparr>"

definition demo_journal :: "execution_fact list" where
  "demo_journal = [demo_fact 1 (RuntimeFact RtReady None), demo_fact 1 (TurnFact demo_turn TnActive None),
     demo_fact 1 (demo_operation PossibleEffects OpStarted), demo_fact 1 (demo_operation NoEffects (OpOutput 40)),
     demo_fact 1 (ControlFact CtLost (Some ProcessExit)), demo_fact 2 (ControlFact CtConnecting None),
     demo_fact 2 (TurnFact demo_turn TnTerminal (Some TurnCompleted)),
     demo_fact 2 (demo_operation ObservedEffects (OpCompleted Succeeded (Some 0) None))]"

lemma demo_journal_runs: "\<exists>q. run_facts empty_execution_projection demo_journal = Inr q"
proof -
  have "\<not> isl (run_facts empty_execution_projection demo_journal)" by code_simp
  then show ?thesis by (cases "run_facts empty_execution_projection demo_journal") auto
qed

theorem execution_projection_well_formed_witness:
  "\<exists>q. run_facts empty_execution_projection demo_journal = Inr q \<and> projection_ok q"
  using demo_journal_runs execution_projection_well_formed [OF _ empty_projection_ok] by blast

text \<open>Evidence is never taken back: along an accepted journal the observer and control epochs
  and the runtime only move forward, an exited runtime stays exited, lost control is regained only
  with control evidence of a later epoch, a terminal turn stays terminal with its outcome, no turn or
  operation disappears, concluded operations keep their outcome and exit code, and output counts and
  recorded side effects never shrink.\<close>

theorem execution_history_grows:
  assumes "run_facts p fs = Inr q" "projection_ok p"
  shows "projection_grows p q"
  using assms by (rule run_facts_grows)

theorem execution_history_grows_witness:
  "\<exists>q. run_facts empty_execution_projection demo_journal = Inr q \<and> projection_grows empty_execution_projection q"
  using demo_journal_runs execution_history_grows [OF _ empty_projection_ok] by blast

end
