(* ===== verification/ExecutionDelivery.thy ===== *)
theory ExecutionDelivery
  imports ExecutionReducer
begin

text \<open>
  Approvals and message delivery as functions of recorded evidence
  (\<^verbatim>\<open>apps/desktop/daemon/execution-reducer.ts\<close>): which step the daemon recommends for a message that
  was, or may have been, handed to a provider.
\<close>

section \<open>Approvals\<close>

datatype approval_state =
    ApRequested | ApDecisionRecorded | ApDispatching | ApResolved | ApSuperseded | ApLost

datatype approval_decision = AllowOnce | Deny

datatype public_approval =
    PubPending | PubDecisionRecorded | PubApplied | PubDenied | PubRequestChanged | PubUnavailable

definition waiting_for_approval :: "turn_state \<Rightarrow> approval_state list \<Rightarrow> bool" where
  "waiting_for_approval turn approvals \<longleftrightarrow>
     turn = TnActive \<and> list_ex (\<lambda>a. a \<in> {ApRequested, ApDecisionRecorded, ApDispatching}) approvals"

definition public_approval_state ::
  "approval_state \<Rightarrow> approval_decision option \<Rightarrow> protocol_error + public_approval" where
  "public_approval_state s decision =
     (if s = ApLost then Inr PubUnavailable
      else if s = ApSuperseded then Inr PubRequestChanged
      else if s = ApResolved then
        (case decision of
           None \<Rightarrow> Inl InvalidTransition
         | Some d \<Rightarrow> Inr (if d = AllowOnce then PubApplied else PubDenied))
      else Inr (if s = ApRequested then PubPending else PubDecisionRecorded))"

section \<open>Delivery\<close>

datatype dispatch_evidence = NotDispatched | PossiblyDispatched | NativeBound
datatype completion_evidence = ReplySaved | NoReplySaved
datatype delivery_authority = AuthorityValid | AuthorityAmbiguous

record delivery_evidence =
  de_dispatch :: dispatch_evidence
  de_turn :: "native_turn option"
  de_terminal :: "turn_outcome option"
  de_completion :: "completion_evidence option"
  de_published :: bool
  de_interrupted :: bool
  de_authority :: delivery_authority
  de_continuation :: continuation_state
  de_pre_dispatch_failures :: int
  de_result_failures :: int
  de_publication_failures :: int

record delivery_limits =
  lim_pre_dispatch :: int
  lim_rereads :: int
  lim_publication :: int

definition default_limits :: delivery_limits where
  "default_limits = \<lparr>lim_pre_dispatch = 3, lim_rereads = 3, lim_publication = 3\<rparr>"

datatype delivery_state =
    DvPending | DvRetryable | DvResultRecovery | DvPublishing | DvBlocked | DvAcknowledged
  | DvAcknowledgedNoReply | DvAcknowledgedFailed | DvCancelledByUser

datatype delivery_action =
    DoDispatch | DoRetryProvider | DoRecoverExactTurn | DoRetryPublication | DoRestoreContinuation
  | DoAttentionRequired | DoNothing

datatype fifo_action = FifoHold | FifoAdvance
datatype conclusion = CleanlyConcluded | ConcludedFailed | ConcludedInterrupted

record delivery_projection =
  dp_state :: delivery_state
  dp_action :: delivery_action
  dp_fifo :: fifo_action
  dp_conclusion :: "conclusion option"

definition hold_delivery :: "delivery_state \<Rightarrow> delivery_action \<Rightarrow> delivery_projection" where
  "hold_delivery s a = \<lparr>dp_state = s, dp_action = a, dp_fifo = FifoHold, dp_conclusion = None\<rparr>"

definition settled_delivery :: "delivery_state \<Rightarrow> conclusion \<Rightarrow> delivery_projection" where
  "settled_delivery s c = \<lparr>dp_state = s, dp_action = DoNothing, dp_fifo = FifoAdvance, dp_conclusion = Some c\<rparr>"

definition counters_ok :: "delivery_evidence \<Rightarrow> delivery_limits \<Rightarrow> bool" where
  "counters_ok e l \<longleftrightarrow> list_all (\<lambda>n. 0 \<le> n \<and> n \<le> max_safe_integer)
     [de_pre_dispatch_failures e, de_result_failures e, de_publication_failures e,
      lim_pre_dispatch l, lim_rereads l, lim_publication l]"

definition inconsistent_evidence :: "delivery_evidence \<Rightarrow> bool" where
  "inconsistent_evidence e \<longleftrightarrow>
     (de_terminal e \<noteq> None \<and> de_turn e = None) \<or>
     (de_turn e \<noteq> None \<and> de_dispatch e \<noteq> NativeBound) \<or>
     (de_dispatch e = NativeBound \<and> de_turn e = None) \<or>
     (de_completion e \<noteq> None \<and> de_turn e = None) \<or>
     (de_published e \<and> de_completion e \<noteq> Some ReplySaved)"

text \<open>The recommendation, once the counters are known to be valid.\<close>

definition delivery_recommendation :: "delivery_evidence \<Rightarrow> delivery_limits \<Rightarrow> delivery_projection" where
  "delivery_recommendation e l =
     (if de_authority e \<noteq> AuthorityValid then hold_delivery DvBlocked DoAttentionRequired
     else if inconsistent_evidence e then hold_delivery DvBlocked DoAttentionRequired
     else if de_completion e = Some ReplySaved then
       (if de_published e then settled_delivery DvAcknowledged CleanlyConcluded
        else if lim_publication l \<le> de_publication_failures e then hold_delivery DvBlocked DoAttentionRequired
        else hold_delivery DvPublishing DoRetryPublication)
     else if de_completion e = Some NoReplySaved then settled_delivery DvAcknowledgedNoReply CleanlyConcluded
     else if de_terminal e = Some TurnFailed \<or> de_terminal e = Some TurnInterrupted then
       settled_delivery DvAcknowledgedFailed ConcludedFailed
     else if de_terminal e \<noteq> None \<and> de_terminal e \<noteq> Some TurnUnreadable \<and> de_interrupted e then
       settled_delivery DvCancelledByUser ConcludedInterrupted
     else if de_turn e \<noteq> None then
       (if lim_rereads l \<le> de_result_failures e then hold_delivery DvBlocked DoAttentionRequired
        else hold_delivery DvResultRecovery DoRecoverExactTurn)
     else if de_dispatch e = PossiblyDispatched then hold_delivery DvBlocked DoAttentionRequired
     else if de_interrupted e then settled_delivery DvCancelledByUser ConcludedInterrupted
     else if de_continuation e \<noteq> CnAvailable then hold_delivery DvBlocked DoRestoreContinuation
     else if lim_pre_dispatch l \<le> de_pre_dispatch_failures e then hold_delivery DvBlocked DoAttentionRequired
     else if de_pre_dispatch_failures e = 0 then hold_delivery DvPending DoDispatch
     else hold_delivery DvRetryable DoRetryProvider)"

definition reduce_delivery_evidence ::
  "delivery_evidence \<Rightarrow> delivery_limits \<Rightarrow> protocol_error + delivery_projection" where
  "reduce_delivery_evidence e l =
     (if \<not> counters_ok e l then Inl InvalidFact else Inr (delivery_recommendation e l))"

lemmas delivery_simps = delivery_recommendation_def hold_delivery_def settled_delivery_def

lemma delivery_Inr:
  "reduce_delivery_evidence e l = Inr d \<longleftrightarrow> counters_ok e l \<and> d = delivery_recommendation e l"
  by (auto simp: reduce_delivery_evidence_def)

lemma completion_cases:
  obtains "c = None" | "c = Some ReplySaved" | "c = Some NoReplySaved"
  by (cases c; cases "the c") auto

lemma terminal_cases:
  obtains "t = None" | "t = Some TurnCompleted" | "t = Some TurnFailed" | "t = Some TurnInterrupted"
    | "t = Some TurnUnreadable"
  by (cases t; cases "the t") auto

text \<open>A sign that a provider may have seen the prompt.\<close>

definition maybe_delivered :: "delivery_evidence \<Rightarrow> bool" where
  "maybe_delivered e \<longleftrightarrow> de_dispatch e \<noteq> NotDispatched \<or> de_turn e \<noteq> None \<or> de_terminal e \<noteq> None \<or>
     de_completion e \<noteq> None \<or> de_published e"

text \<open>The message is over: it was answered and the answer published, the provider concluded without
  a reply, the exact turn failed, or the user interrupted it while nothing is left to read.\<close>

definition delivery_over :: "delivery_evidence \<Rightarrow> bool" where
  "delivery_over e \<longleftrightarrow>
     (case de_completion e of
        Some ReplySaved \<Rightarrow> de_published e
      | Some NoReplySaved \<Rightarrow> True
      | None \<Rightarrow>
          (case de_terminal e of
             Some TurnFailed \<Rightarrow> True
           | Some TurnInterrupted \<Rightarrow> True
           | Some TurnCompleted \<Rightarrow> de_interrupted e
           | Some TurnUnreadable \<Rightarrow> False
           | None \<Rightarrow> de_interrupted e \<and> \<not> maybe_delivered e))"

lemma recommended_dispatch:
  "dp_action (delivery_recommendation e l) \<in> {DoDispatch, DoRetryProvider} \<longleftrightarrow>
    \<not> maybe_delivered e \<and> de_authority e = AuthorityValid \<and> \<not> de_interrupted e \<and>
    de_continuation e = CnAvailable \<and> de_pre_dispatch_failures e < lim_pre_dispatch l"
  by (cases "de_completion e" rule: completion_cases; cases "de_terminal e" rule: terminal_cases;
      cases "de_turn e"; cases "de_dispatch e")
    (auto simp: delivery_simps maybe_delivered_def inconsistent_evidence_def)

lemma recommended_advance:
  "dp_fifo (delivery_recommendation e l) = FifoAdvance \<longleftrightarrow>
     de_authority e = AuthorityValid \<and> \<not> inconsistent_evidence e \<and> delivery_over e"
  by (cases "de_completion e" rule: completion_cases; cases "de_terminal e" rule: terminal_cases;
      cases "de_turn e"; cases "de_dispatch e")
    (simp_all add: delivery_simps delivery_over_def maybe_delivered_def inconsistent_evidence_def)

lemma recommended_conclusion:
  "(dp_fifo (delivery_recommendation e l) = FifoAdvance \<longleftrightarrow> dp_conclusion (delivery_recommendation e l) \<noteq> None) \<and>
   (dp_fifo (delivery_recommendation e l) = FifoAdvance \<longleftrightarrow> dp_action (delivery_recommendation e l) = DoNothing)"
  by (simp add: delivery_simps)

section \<open>The properties\<close>

text \<open>A prompt is handed to a provider, or handed over again, exactly when nothing in the
  evidence suggests that a provider has already seen it, the authority is valid, the user has not
  interrupted, the continuation is available, and fewer failures than the limit were recorded: a
  message is never prompted twice.\<close>

theorem dispatch_only_undelivered:
  assumes "reduce_delivery_evidence e l = Inr d"
  shows "dp_action d \<in> {DoDispatch, DoRetryProvider} \<longleftrightarrow>
    \<not> maybe_delivered e \<and> de_authority e = AuthorityValid \<and> \<not> de_interrupted e \<and>
    de_continuation e = CnAvailable \<and> de_pre_dispatch_failures e < lim_pre_dispatch l"
  using assms recommended_dispatch by (simp add: delivery_Inr)

definition demo_delivery :: delivery_evidence where
  "demo_delivery = \<lparr>de_dispatch = NotDispatched, de_turn = None, de_terminal = None, de_completion = None,
     de_published = False, de_interrupted = False, de_authority = AuthorityValid, de_continuation = CnAvailable,
     de_pre_dispatch_failures = 1, de_result_failures = 0, de_publication_failures = 0\<rparr>"

theorem dispatch_only_undelivered_witness:
  "\<not> maybe_delivered demo_delivery \<and> de_pre_dispatch_failures demo_delivery < lim_pre_dispatch default_limits \<and>
   reduce_delivery_evidence demo_delivery default_limits = Inr (hold_delivery DvRetryable DoRetryProvider)"
proof -
  have r: "reduce_delivery_evidence demo_delivery default_limits = Inr (hold_delivery DvRetryable DoRetryProvider)"
    by code_simp
  have "dp_action (hold_delivery DvRetryable DoRetryProvider) \<in> {DoDispatch, DoRetryProvider}"
    by (simp add: hold_delivery_def)
  with dispatch_only_undelivered [OF r] r show ?thesis by blast
qed

text \<open>The queue of an agent moves past a message exactly when the message is over, and never
  without a conclusion: an unreadable outcome, a saved but unpublished reply, ambiguous authority or
  contradictory evidence hold the queue, whatever failures are counted.\<close>

theorem fifo_advances_iff_over:
  assumes "reduce_delivery_evidence e l = Inr d"
  shows "(dp_fifo d = FifoAdvance \<longleftrightarrow>
      de_authority e = AuthorityValid \<and> \<not> inconsistent_evidence e \<and> delivery_over e) \<and>
    (dp_fifo d = FifoAdvance \<longleftrightarrow> dp_conclusion d \<noteq> None) \<and>
    (dp_fifo d = FifoAdvance \<longleftrightarrow> dp_action d = DoNothing)"
  using assms recommended_advance [of e l] recommended_conclusion [of e l] unfolding delivery_Inr by blast

theorem fifo_advances_iff_over_witness:
  "delivery_over (demo_delivery\<lparr>de_interrupted := True\<rparr>) \<and>
   reduce_delivery_evidence (demo_delivery\<lparr>de_interrupted := True\<rparr>) default_limits =
     Inr (settled_delivery DvCancelledByUser ConcludedInterrupted)"
proof -
  have r: "reduce_delivery_evidence (demo_delivery\<lparr>de_interrupted := True\<rparr>) default_limits =
      Inr (settled_delivery DvCancelledByUser ConcludedInterrupted)" by code_simp
  with fifo_advances_iff_over [OF r] show ?thesis by (simp add: settled_delivery_def)
qed

end
