(* ===== verification/ExecutionRows.thy ===== *)
theory ExecutionRows
  imports ExecutionReducer
begin

text \<open>
  The stored form of an execution fact (\<^verbatim>\<open>apps/desktop/daemon/execution-shadow-store.ts\<close>): the row
  of the table \<open>execution_facts\<close>, its encoding and decoding, its share of the retention budget, and
  the identities by which a replayed native event is recognised. The provider's identifiers of a
  turn are not part of the row; decoding takes them from the turn row, as the source's join does.
\<close>

section \<open>Enumerated columns\<close>

fun runtime_state_name :: "runtime_state \<Rightarrow> string" where
  "runtime_state_name RtStarting = ''starting''" | "runtime_state_name RtReady = ''ready''"
| "runtime_state_name RtStopping = ''stopping''" | "runtime_state_name RtExited = ''exited''"

fun control_state_name :: "control_state \<Rightarrow> string" where
  "control_state_name CtConnecting = ''connecting''" | "control_state_name CtResponsive = ''responsive''"
| "control_state_name CtDegraded = ''degraded''" | "control_state_name CtLost = ''lost''"
| "control_state_name CtUnprobeable = ''unprobeable''"

fun continuation_state_name :: "continuation_state \<Rightarrow> string" where
  "continuation_state_name CnAvailable = ''available''" | "continuation_state_name CnRepairing = ''repairing''"
| "continuation_state_name CnUnavailable = ''unavailable''"

fun turn_state_name :: "turn_state \<Rightarrow> string" where
  "turn_state_name TnNone = ''none''" | "turn_state_name TnActive = ''active''"
| "turn_state_name TnTerminal = ''terminal''" | "turn_state_name TnLost = ''lost''"

fun turn_outcome_name :: "turn_outcome \<Rightarrow> string" where
  "turn_outcome_name TurnCompleted = ''completed''" | "turn_outcome_name TurnFailed = ''failed''"
| "turn_outcome_name TurnInterrupted = ''interrupted''" | "turn_outcome_name TurnUnreadable = ''unreadable''"

fun side_effects_name :: "side_effects \<Rightarrow> string" where
  "side_effects_name NoEffects = ''none''" | "side_effects_name PossibleEffects = ''possible''"
| "side_effects_name ObservedEffects = ''observed''"

fun execution_outcome_name :: "execution_outcome \<Rightarrow> string" where
  "execution_outcome_name Succeeded = ''succeeded''" | "execution_outcome_name OutcomeFailed = ''failed''"
| "execution_outcome_name DeniedBeforeStart = ''denied_before_start''"
| "execution_outcome_name CancelledBeforeStart = ''cancelled_before_start''"
| "execution_outcome_name InterruptedAfterStart = ''interrupted_after_start''"
| "execution_outcome_name LostAfterStart = ''lost_after_start''"

fun hard_evidence_name :: "hard_evidence \<Rightarrow> string" where
  "hard_evidence_name ProcessExit = ''process_exit''"
| "hard_evidence_name ProcessBirthChanged = ''process_birth_changed''"
| "hard_evidence_name TransportRefused = ''transport_refused''"
| "hard_evidence_name ControlEpochGone = ''control_epoch_gone''"
| "hard_evidence_name NativeSessionTerminated = ''native_session_terminated''"

fun operation_sort_name :: "operation_sort \<Rightarrow> string" where
  "operation_sort_name CommandOp = ''command''" | "operation_sort_name FileReadOp = ''file_read''"
| "operation_sort_name FileChangeOp = ''file_change''" | "operation_sort_name NetworkOp = ''network''"
| "operation_sort_name QuestionOp = ''question''" | "operation_sort_name OtherOp = ''other''"

text \<open>Reading an enumeration back: the member with that name.\<close>

definition read_enum :: "('a \<Rightarrow> string) \<Rightarrow> 'a list \<Rightarrow> string \<Rightarrow> protocol_error + 'a" where
  "read_enum name members s = require (List.find (\<lambda>x. name x = s) members) InvalidFact"

definition runtime_states where "runtime_states = [RtStarting, RtReady, RtStopping, RtExited]"
definition control_states where
  "control_states = [CtConnecting, CtResponsive, CtDegraded, CtLost, CtUnprobeable]"
definition continuation_states where "continuation_states = [CnAvailable, CnRepairing, CnUnavailable]"
definition turn_states where "turn_states = [TnNone, TnActive, TnTerminal, TnLost]"
definition turn_outcomes where "turn_outcomes = [TurnCompleted, TurnFailed, TurnInterrupted, TurnUnreadable]"
definition side_effect_states where "side_effect_states = [NoEffects, PossibleEffects, ObservedEffects]"
definition execution_outcomes where
  "execution_outcomes = [Succeeded, OutcomeFailed, DeniedBeforeStart, CancelledBeforeStart,
     InterruptedAfterStart, LostAfterStart]"
definition hard_control_evidence where
  "hard_control_evidence = [ProcessExit, ProcessBirthChanged, TransportRefused, ControlEpochGone,
     NativeSessionTerminated]"
definition operation_sorts where
  "operation_sorts = [CommandOp, FileReadOp, FileChangeOp, NetworkOp, QuestionOp, OtherOp]"

lemmas enum_members = runtime_states_def control_states_def continuation_states_def turn_states_def
  turn_outcomes_def side_effect_states_def execution_outcomes_def hard_control_evidence_def operation_sorts_def

lemmas read_enum_defs = read_enum_def require_def enum_members

lemma read_runtime_state [simp]: "read_enum runtime_state_name runtime_states (runtime_state_name x) = Inr x"
  by (cases x) (simp_all add: read_enum_defs)

lemma read_control_state [simp]: "read_enum control_state_name control_states (control_state_name x) = Inr x"
  by (cases x) (simp_all add: read_enum_defs)

lemma read_continuation_state [simp]: "read_enum continuation_state_name continuation_states (continuation_state_name x) = Inr x"
  by (cases x) (simp_all add: read_enum_defs)

lemma read_turn_state [simp]: "read_enum turn_state_name turn_states (turn_state_name x) = Inr x"
  by (cases x) (simp_all add: read_enum_defs)

lemma read_turn_outcome [simp]: "read_enum turn_outcome_name turn_outcomes (turn_outcome_name x) = Inr x"
  by (cases x) (simp_all add: read_enum_defs)

lemma read_side_effects [simp]: "read_enum side_effects_name side_effect_states (side_effects_name x) = Inr x"
  by (cases x) (simp_all add: read_enum_defs)

lemma read_execution_outcome [simp]: "read_enum execution_outcome_name execution_outcomes (execution_outcome_name x) = Inr x"
  by (cases x) (simp_all add: read_enum_defs)

lemma read_hard_evidence [simp]: "read_enum hard_evidence_name hard_control_evidence (hard_evidence_name x) = Inr x"
  by (cases x) (simp_all add: read_enum_defs)

lemma read_operation_sort [simp]: "read_enum operation_sort_name operation_sorts (operation_sort_name x) = Inr x"
  by (cases x) (simp_all add: read_enum_defs)

section \<open>Rows\<close>

record fact_row =
  fr_fact :: string
  fr_agent :: string
  fr_generation :: string
  fr_runtime :: string
  fr_epoch :: int
  fr_sequence :: int
  fr_native_event :: "string option"
  fr_turn :: "string option"
  fr_execution :: "string option"
  fr_domain :: string
  fr_kind :: string
  fr_state :: "string option"
  fr_operation :: "string option"
  fr_outcome :: "string option"
  fr_effects :: string
  fr_output :: "int option"
  fr_exit :: "int option"
  fr_signal :: "int option"
  fr_observed_at :: int
  fr_turn_outcome :: "string option"
  fr_evidence :: "string option"

fun fact_domain :: "fact_body \<Rightarrow> string" where
  "fact_domain (RuntimeFact _ _) = ''runtime''"
| "fact_domain (ControlFact _ _) = ''control''"
| "fact_domain (ContinuationFact _) = ''continuation''"
| "fact_domain (TurnFact _ _ _) = ''turn''"
| "fact_domain (OperationFact _ _) = ''execution''"

fun operation_kind_name :: "operation_kind \<Rightarrow> string" where
  "operation_kind_name OpStarted = ''started''"
| "operation_kind_name (OpOutput _) = ''output''"
| "operation_kind_name (OpCompleted _ _ _) = ''completed''"

fun fact_kind :: "fact_body \<Rightarrow> string" where
  "fact_kind (OperationFact _ f) = operation_kind_name (of_kind f)"
| "fact_kind _ = ''state_changed''"

fun fact_turn :: "fact_body \<Rightarrow> native_turn option" where
  "fact_turn (TurnFact t _ _) = Some t"
| "fact_turn (OperationFact t _) = Some t"
| "fact_turn _ = None"

fun fact_execution :: "fact_body \<Rightarrow> string option" where
  "fact_execution (OperationFact _ f) = Some (of_execution f)"
| "fact_execution _ = None"

text \<open>The columns that depend on the body, written over a row with those columns empty.\<close>

fun body_columns :: "fact_body \<Rightarrow> fact_row \<Rightarrow> fact_row" where
  "body_columns (RuntimeFact s ev) r = r\<lparr>fr_state := Some (runtime_state_name s),
     fr_evidence := map_option hard_evidence_name ev\<rparr>"
| "body_columns (ControlFact s ev) r = r\<lparr>fr_state := Some (control_state_name s),
     fr_evidence := map_option hard_evidence_name ev\<rparr>"
| "body_columns (ContinuationFact s) r = r\<lparr>fr_state := Some (continuation_state_name s)\<rparr>"
| "body_columns (TurnFact t s out) r = r\<lparr>fr_state := Some (turn_state_name s),
     fr_turn_outcome := map_option turn_outcome_name out\<rparr>"
| "body_columns (OperationFact t f) r = r\<lparr>fr_operation := Some (operation_sort_name (of_operation f)),
     fr_effects := side_effects_name (of_effects f),
     fr_output := (case of_kind f of OpOutput n \<Rightarrow> Some n | _ \<Rightarrow> None),
     fr_outcome := (case of_kind f of OpCompleted out _ _ \<Rightarrow> Some (execution_outcome_name out) | _ \<Rightarrow> None),
     fr_exit := (case of_kind f of OpCompleted _ exit _ \<Rightarrow> exit | _ \<Rightarrow> None),
     fr_signal := (case of_kind f of OpCompleted _ _ signal \<Rightarrow> signal | _ \<Rightarrow> None)\<rparr>"

definition encode_fact :: "execution_fact \<Rightarrow> fact_row" where
  "encode_fact f = 
     body_columns (ef_body f) \<lparr>fr_fact = fe_fact (ef_envelope f), fr_agent = fe_agent (ef_envelope f), fr_generation = fe_execution_generation (ef_envelope f),
       fr_runtime = fe_runtime_generation (ef_envelope f), fr_epoch = fe_epoch (ef_envelope f), fr_sequence = fe_sequence (ef_envelope f),
       fr_native_event = fe_native_event (ef_envelope f), fr_turn = map_option nt_turn (fact_turn (ef_body f)),
       fr_execution = fact_execution (ef_body f), fr_domain = fact_domain (ef_body f), fr_kind = fact_kind (ef_body f), fr_state = None,
       fr_operation = None, fr_outcome = None, fr_effects = ''none'', fr_output = None, fr_exit = None,
       fr_signal = None, fr_observed_at = fe_observed_at (ef_envelope f), fr_turn_outcome = None, fr_evidence = None\<rparr>"

definition row_envelope :: "fact_row \<Rightarrow> fact_envelope" where
  "row_envelope r = \<lparr>fe_fact = fr_fact r, fe_agent = fr_agent r, fe_execution_generation = fr_generation r,
     fe_runtime_generation = fr_runtime r, fe_epoch = fr_epoch r, fe_sequence = fr_sequence r,
     fe_native_event = fr_native_event r, fe_observed_at = fr_observed_at r\<rparr>"

text \<open>A nullable column of an optional property.\<close>

definition optional_column :: "('a \<Rightarrow> string) \<Rightarrow> 'a list \<Rightarrow> string option \<Rightarrow> protocol_error + 'a option" where
  "optional_column name members c =
     (case c of None \<Rightarrow> Inr None | Some s \<Rightarrow> bind_result (read_enum name members s) (\<lambda>x. Inr (Some x)))"

definition state_column :: "('a \<Rightarrow> string) \<Rightarrow> 'a list \<Rightarrow> fact_row \<Rightarrow> protocol_error + 'a" where
  "state_column name members r = bind_result (require (fr_state r) InvalidFact) (read_enum name members)"

definition decode_state_change :: "fact_row \<Rightarrow> native_turn option \<Rightarrow> protocol_error + fact_body" where
  "decode_state_change r turn =
     bind_result (guard_result (fr_kind r = ''state_changed'' \<and> fr_effects r = ''none'') InvalidFact) (\<lambda>_.
     bind_result (optional_column turn_outcome_name turn_outcomes (fr_turn_outcome r)) (\<lambda>out.
     bind_result (optional_column hard_evidence_name hard_control_evidence (fr_evidence r)) (\<lambda>ev.
       if fr_domain r = ''runtime'' \<and> out = None then
         bind_result (state_column runtime_state_name runtime_states r) (\<lambda>s. Inr (RuntimeFact s ev))
       else if fr_domain r = ''control'' \<and> out = None then
         bind_result (state_column control_state_name control_states r) (\<lambda>s. Inr (ControlFact s ev))
       else if fr_domain r = ''continuation'' \<and> out = None \<and> ev = None then
         bind_result (state_column continuation_state_name continuation_states r) (\<lambda>s. Inr (ContinuationFact s))
       else if fr_domain r = ''turn'' \<and> ev = None then
         bind_result (require turn InvalidFact) (\<lambda>t.
         bind_result (state_column turn_state_name turn_states r) (\<lambda>s. Inr (TurnFact t s out)))
       else Inl InvalidFact)))"

definition decode_kind :: "fact_row \<Rightarrow> protocol_error + operation_kind" where
  "decode_kind r =
     (if fr_kind r = ''started'' then Inr OpStarted
      else if fr_kind r = ''output'' then bind_result (require (fr_output r) InvalidFact) (\<lambda>n. Inr (OpOutput n))
      else if fr_kind r = ''completed'' then
        bind_result (require (fr_outcome r) InvalidFact) (\<lambda>c.
        bind_result (read_enum execution_outcome_name execution_outcomes c) (\<lambda>out.
          Inr (OpCompleted out (fr_exit r) (fr_signal r))))
      else Inl InvalidFact)"

definition decode_operation :: "fact_row \<Rightarrow> native_turn option \<Rightarrow> protocol_error + fact_body" where
  "decode_operation r turn =
     bind_result (require turn InvalidFact) (\<lambda>t.
     bind_result (require (fr_execution r) InvalidFact) (\<lambda>i.
     bind_result (require (fr_operation r) InvalidFact) (\<lambda>c.
     bind_result (read_enum operation_sort_name operation_sorts c) (\<lambda>sort'.
     bind_result (read_enum side_effects_name side_effect_states (fr_effects r)) (\<lambda>se.
     bind_result (decode_kind r) (\<lambda>k.
       Inr (OperationFact t \<lparr>of_execution = i, of_operation = sort', of_effects = se, of_kind = k\<rparr>)))))))"

text \<open>The joined identifiers of the turn row: both are present or the fact is invalid.\<close>

definition row_turn :: "fact_row \<Rightarrow> (string \<times> string) option \<Rightarrow> native_turn option" where
  "row_turn r joined =
     (case (fr_turn r, joined) of
        (Some t, Some (c, p)) \<Rightarrow> Some \<lparr>nt_turn = t, nt_continuation = c, nt_provider_turn = p\<rparr>
      | _ \<Rightarrow> None)"

definition decode_fact :: "fact_row \<Rightarrow> (string \<times> string) option \<Rightarrow> protocol_error + execution_fact" where
  "decode_fact r joined =
     bind_result (if fr_domain r = ''execution'' then decode_operation r (row_turn r joined)
                  else decode_state_change r (row_turn r joined)) (\<lambda>b.
     parse_execution_fact \<lparr>ef_envelope = row_envelope r, ef_body = b\<rparr>)"

lemma optional_column_None [simp]: "optional_column name members None = Inr None"
  by (simp add: optional_column_def)

lemma optional_column_name [simp]:
  "optional_column turn_outcome_name turn_outcomes (map_option turn_outcome_name x) = Inr x"
  "optional_column hard_evidence_name hard_control_evidence (map_option hard_evidence_name y) = Inr y"
  by (cases x; simp add: optional_column_def) (cases y; simp add: optional_column_def)

definition fact_joined :: "fact_body \<Rightarrow> (string \<times> string) option" where
  "fact_joined b = map_option (\<lambda>t. (nt_continuation t, nt_provider_turn t)) (fact_turn b)"

lemma row_envelope_encode [simp]: "row_envelope (encode_fact f) = ef_envelope f"
  by (cases "ef_body f") (simp_all add: row_envelope_def encode_fact_def Let_def)

lemma decode_encode:
  assumes "schema_ok f"
  shows "decode_fact (encode_fact f) (fact_joined (ef_body f)) = Inr f"
proof -
  let ?r = "encode_fact f"
  have body: "(if fr_domain ?r = ''execution'' then decode_operation ?r (row_turn ?r (fact_joined (ef_body f)))
      else decode_state_change ?r (row_turn ?r (fact_joined (ef_body f)))) = Inr (ef_body f)"
  proof (cases "ef_body f")
    case (OperationFact t g)
    then show ?thesis
      by (cases "of_kind g")
        (simp_all add: encode_fact_def decode_operation_def decode_kind_def row_turn_def fact_joined_def)
  qed (simp_all add: encode_fact_def decode_state_change_def state_column_def row_turn_def fact_joined_def)
  have eta: "\<lparr>ef_envelope = ef_envelope f, ef_body = ef_body f\<rparr> = f" by (cases f) simp
  show ?thesis
    using assms unfolding decode_fact_def body by (simp add: parse_execution_fact_def eta)
qed

section \<open>Budget and identities\<close>

text \<open>UTF-8 bytes of a Latin-1 string.\<close>

definition utf8_bytes :: "string \<Rightarrow> int" where
  "utf8_bytes s = sum_list (map (\<lambda>c. if (of_char c :: nat) < 128 then 1 else 2) s)"

definition column_bytes :: "string option \<Rightarrow> int" where
  "column_bytes c = (case c of None \<Rightarrow> 0 | Some s \<Rightarrow> utf8_bytes s)"

definition fact_bookkeeping_bytes :: int where
  "fact_bookkeeping_bytes = 256"

definition fact_text_columns :: "fact_row \<Rightarrow> string option list" where
  "fact_text_columns r = [Some (fr_fact r), Some (fr_agent r), Some (fr_generation r), Some (fr_runtime r),
     fr_native_event r, fr_turn r, fr_execution r, Some (fr_domain r), Some (fr_kind r), fr_state r, fr_operation r,
     fr_outcome r, Some (fr_effects r), fr_turn_outcome r, fr_evidence r]"

definition fact_bytes :: "fact_row \<Rightarrow> int" where
  "fact_bytes r = fact_bookkeeping_bytes + sum_list (map column_bytes (fact_text_columns r))"

type_synonym retained_budget = "int \<times> int"

definition max_retained_facts :: int where
  "max_retained_facts = 10000"

definition max_retained_bytes :: int where
  "max_retained_bytes = 50 * 1024 * 1024"

datatype budget_limit = LimitFacts | LimitBytes

definition exceeded_budget :: "retained_budget \<Rightarrow> budget_limit option" where
  "exceeded_budget b =
     (if max_retained_facts < fst b then Some LimitFacts
      else if max_retained_bytes < snd b then Some LimitBytes else None)"

definition unverified_historical_fact :: "fact_row \<Rightarrow> bool" where
  "unverified_historical_fact r \<longleftrightarrow>
     (fr_domain r = ''turn'' \<and> fr_state r = Some ''terminal'' \<and> fr_turn_outcome r = None) \<or>
     ((fr_domain r = ''runtime'' \<and> fr_state r = Some ''exited'' \<or>
       fr_domain r = ''control'' \<and> fr_state r = Some ''lost'') \<and> fr_evidence r = None)"

type_synonym event_key = "string \<times> string \<times> string option \<times> string option \<times> string \<times> string \<times> string"

definition native_event_key :: "execution_fact \<Rightarrow> event_key option" where
  "native_event_key f = (let e = ef_envelope f; b = ef_body f in
     map_option (\<lambda>i. (fe_agent e, fe_runtime_generation e, map_option nt_turn (fact_turn b), fact_execution b,
       fact_domain b, fact_kind b, i)) (fe_native_event e))"

text \<open>A fact without its own identity, position and time.\<close>

definition semantic_fact :: "execution_fact \<Rightarrow> string \<times> string \<times> string \<times> string option \<times> fact_body" where
  "semantic_fact f = (let e = ef_envelope f in
     (fe_agent e, fe_execution_generation e, fe_runtime_generation e, fe_native_event e, ef_body f))"

lemma utf8_bytes_nonneg: "0 \<le> utf8_bytes s"
  unfolding utf8_bytes_def by (rule sum_list_nonneg) auto

lemma fact_bytes_pos: "0 < fact_bytes r"
proof -
  have "0 \<le> sum_list (map column_bytes (fact_text_columns r))"
    by (rule sum_list_nonneg) (auto simp: column_bytes_def utf8_bytes_nonneg split: option.split)
  then show ?thesis by (simp add: fact_bytes_def fact_bookkeeping_bytes_def)
qed

lemma encoded_is_verified: "schema_ok f \<Longrightarrow> \<not> unverified_historical_fact (encode_fact f)"
proof -
  assume ok: "schema_ok f"
  show ?thesis
  proof (cases "ef_body f")
    case (RuntimeFact s ev)
    then show ?thesis
      using ok by (cases s) (auto simp: unverified_historical_fact_def encode_fact_def schema_ok_def)
  next
    case (ControlFact s ev)
    then show ?thesis
      using ok by (cases s) (auto simp: unverified_historical_fact_def encode_fact_def schema_ok_def)
  next
    case (TurnFact t s out)
    then show ?thesis
      using ok by (cases s) (auto simp: unverified_historical_fact_def encode_fact_def schema_ok_def)
  qed (simp_all add: unverified_historical_fact_def encode_fact_def)
qed

end
