(* ===== verification/LifecycleLedger.thy ===== *)
theory LifecycleLedger
  imports ExecutionReducer
begin

text \<open>
  The comparison ledger of lifecycle evidence
  (\<^verbatim>\<open>apps/desktop/daemon/lifecycle-projection-ledger.ts\<close>): two independent observers, the typed
  execution journal and the legacy event path, report the phases of a provider turn; the ledger
  pairs the reports of one native event, and when both sides have reported the end of a turn it
  classifies every report since the last compared turn.

  The lane identifier is the SHA-256 digest of the lane's identity. Digests are taken to be free of
  collisions: a lane is identified by its identity itself. The three columns of a side of a pair
  are null together and are one optional triple.
\<close>

section \<open>Tables\<close>

datatype lifecycle_provider = CodexProvider | ClaudeCodeProvider | CursorProvider | OpenModelProvider
datatype lifecycle_phase = TurnActivePhase | TurnTerminalPhase
datatype lifecycle_state = LcWorking | LcIdle | LcTerminal | LcFailed
datatype ledger_side = TypedSide | LegacySide

datatype classification =
    Incomplete | Matched | Divergent | MissingInTyped | MissingInLegacy | Conflict

type_synonym lane_key = "string \<times> lifecycle_provider \<times> string \<times> string"

record lifecycle_observation =
  lo_agent :: string
  lo_provider :: lifecycle_provider
  lo_attempt :: string
  lo_generation :: string
  lo_event :: string
  lo_phase :: lifecycle_phase
  lo_state :: lifecycle_state

record ledger_lane =
  ln_key :: lane_key
  ln_typed :: int
  ln_legacy :: int
  ln_compared_typed :: int
  ln_compared_legacy :: int
  ln_count :: int
  ln_limited :: bool
  ln_unavailable :: bool
  ln_created :: int
  ln_updated :: int

type_synonym side_report = "int \<times> lifecycle_phase \<times> lifecycle_state"

record ledger_pair =
  lp_lane :: lane_key
  lp_event :: string
  lp_typed :: "side_report option"
  lp_legacy :: "side_report option"
  lp_class :: classification
  lp_conflict :: bool
  lp_accounted :: bool
  lp_recorded :: int

record ledger_totals =
  tot_compared :: int
  tot_matched :: int
  tot_missing_typed :: int
  tot_missing_legacy :: int
  tot_different :: int
  tot_conflicts :: int
  tot_unavailable :: int
  tot_first :: "int option"
  tot_last :: "int option"

record ledger =
  lg_lanes :: "ledger_lane list"
  lg_pairs :: "ledger_pair list"
  lg_totals :: "lifecycle_provider \<Rightarrow> ledger_totals"

datatype ledger_error = LedgerInvalid

definition max_lanes :: nat where
  "max_lanes = 1024"

definition max_observations :: int where
  "max_observations = 10000"

definition empty_totals :: ledger_totals where
  "empty_totals = \<lparr>tot_compared = 0, tot_matched = 0, tot_missing_typed = 0, tot_missing_legacy = 0,
     tot_different = 0, tot_conflicts = 0, tot_unavailable = 0, tot_first = None, tot_last = None\<rparr>"

definition empty_ledger :: ledger where
  "empty_ledger = \<lparr>lg_lanes = [], lg_pairs = [], lg_totals = (\<lambda>_. empty_totals)\<rparr>"

section \<open>Recording a report\<close>

definition validate_observation ::
  "ledger_side \<Rightarrow> lifecycle_observation \<Rightarrow> ledger_error + lifecycle_observation" where
  "validate_observation side v =
     (if (side = TypedSide \<longrightarrow>
            (lo_phase v = TurnActivePhase \<and> lo_state v = LcWorking) \<or>
            (lo_phase v = TurnTerminalPhase \<and> lo_state v = LcTerminal)) \<and>
         execution_identity (lo_agent v) \<and> execution_identity (lo_attempt v) \<and>
         execution_identity (lo_generation v) \<and> execution_identity (lo_event v)
      then Inr v else Inl LedgerInvalid)"

definition lane_id :: "lifecycle_observation \<Rightarrow> lane_key" where
  "lane_id v = (lo_agent v, lo_provider v, lo_attempt v, lo_generation v)"

definition update_totals :: "lifecycle_provider \<Rightarrow> (ledger_totals \<Rightarrow> ledger_totals) \<Rightarrow> ledger \<Rightarrow> ledger" where
  "update_totals p f g = g\<lparr>lg_totals := (lg_totals g)(p := f (lg_totals g p))\<rparr>"

definition touch_totals :: "lifecycle_provider \<Rightarrow> int \<Rightarrow> ledger \<Rightarrow> ledger" where
  "touch_totals p now = update_totals p (\<lambda>t. t
     \<lparr>tot_first := (case tot_first t of None \<Rightarrow> Some now | Some f \<Rightarrow> Some f),
      tot_last := Some (case tot_last t of None \<Rightarrow> now | Some l \<Rightarrow> max l now)\<rparr>)"

definition unavailable :: "lifecycle_provider \<Rightarrow> int \<Rightarrow> ledger \<Rightarrow> ledger" where
  "unavailable p n = update_totals p (\<lambda>t. t\<lparr>tot_unavailable := tot_unavailable t + n\<rparr>)"

definition lane_row :: "lane_key \<Rightarrow> ledger \<Rightarrow> ledger_lane option" where
  "lane_row k g = select_first (\<lambda>l. ln_key l = k) (lg_lanes g)"

definition pair_key :: "lane_key \<Rightarrow> string \<Rightarrow> ledger_pair \<Rightarrow> bool" where
  "pair_key k e p \<longleftrightarrow> lp_lane p = k \<and> lp_event p = e"

definition pair_row :: "lane_key \<Rightarrow> string \<Rightarrow> ledger \<Rightarrow> ledger_pair option" where
  "pair_row k e g = select_first (pair_key k e) (lg_pairs g)"

definition update_lane :: "lane_key \<Rightarrow> (ledger_lane \<Rightarrow> ledger_lane) \<Rightarrow> ledger \<Rightarrow> ledger" where
  "update_lane k f g = g\<lparr>lg_lanes := update_where (\<lambda>l. ln_key l = k) f (lg_lanes g)\<rparr>"

definition update_pair :: "lane_key \<Rightarrow> string \<Rightarrow> (ledger_pair \<Rightarrow> ledger_pair) \<Rightarrow> ledger \<Rightarrow> ledger" where
  "update_pair k e f g = g\<lparr>lg_pairs := update_where (pair_key k e) f (lg_pairs g)\<rparr>"

definition agent_observations :: "string \<Rightarrow> ledger \<Rightarrow> int" where
  "agent_observations a g = sum_list (map ln_count (filter (\<lambda>l. fst (ln_key l) = a) (lg_lanes g)))"

definition mark_conflict :: "lane_key \<Rightarrow> lifecycle_provider \<Rightarrow> string \<Rightarrow> ledger \<Rightarrow> ledger" where
  "mark_conflict k p e g =
     (if \<exists>x \<in> set (lg_pairs g). pair_key k e x \<and> \<not> lp_conflict x
      then update_totals p (\<lambda>t. t\<lparr>tot_conflicts := tot_conflicts t + 1\<rparr>)
        (g\<lparr>lg_pairs := update_where (\<lambda>x. pair_key k e x \<and> \<not> lp_conflict x)
              (\<lambda>x. x\<lparr>lp_conflict := True, lp_class := Conflict\<rparr>) (lg_pairs g)\<rparr>)
      else g)"

text \<open>The classification of a report when its turn is compared.\<close>

definition classify :: "ledger_pair \<Rightarrow> classification" where
  "classify p =
     (if lp_conflict p then Conflict
      else case (lp_typed p, lp_legacy p) of
             (None, _) \<Rightarrow> MissingInTyped
           | (_, None) \<Rightarrow> MissingInLegacy
           | (Some (_, f, s), Some (_, f', s')) \<Rightarrow> if f = f' \<and> s = s' then Matched else Divergent)"

definition report_after :: "int \<Rightarrow> side_report option \<Rightarrow> bool" where
  "report_after n r = (case r of None \<Rightarrow> False | Some (m, _) \<Rightarrow> n < m)"

definition report_within :: "int \<Rightarrow> int \<Rightarrow> side_report option \<Rightarrow> bool" where
  "report_within lo hi r = (case r of None \<Rightarrow> False | Some (m, _) \<Rightarrow> lo < m \<and> m \<le> hi)"

definition account :: "classification \<Rightarrow> ledger_totals \<Rightarrow> ledger_totals" where
  "account c t =
     (case c of
        Matched \<Rightarrow> t\<lparr>tot_matched := tot_matched t + 1\<rparr>
      | MissingInTyped \<Rightarrow> t\<lparr>tot_missing_typed := tot_missing_typed t + 1\<rparr>
      | MissingInLegacy \<Rightarrow> t\<lparr>tot_missing_legacy := tot_missing_legacy t + 1\<rparr>
      | Divergent \<Rightarrow> t\<lparr>tot_different := tot_different t + 1\<rparr>
      | _ \<Rightarrow> t)"

text \<open>One row of the compared window: a pair that straddles the end of the turn is a conflict and stays
  open, every other row is classified and accounted for.\<close>

definition compare_row ::
  "lane_key \<Rightarrow> lifecycle_provider \<Rightarrow> int \<Rightarrow> int \<Rightarrow> ledger_pair \<Rightarrow> ledger \<Rightarrow> ledger" where
  "compare_row k p typed_end legacy_end row g =
     (if lp_typed row \<noteq> None \<and> lp_legacy row \<noteq> None \<and>
         (report_after typed_end (lp_typed row) \<or> report_after legacy_end (lp_legacy row))
      then mark_conflict k p (lp_event row) g
      else update_totals p (account (classify row))
             (update_pair k (lp_event row) (\<lambda>x. x\<lparr>lp_class := classify row, lp_accounted := True\<rparr>) g))"

definition window_rows :: "lane_key \<Rightarrow> int \<Rightarrow> int \<Rightarrow> int \<Rightarrow> int \<Rightarrow> ledger \<Rightarrow> ledger_pair list" where
  "window_rows k typed_from typed_end legacy_from legacy_end g =
     filter (\<lambda>x. lp_lane x = k \<and> \<not> lp_accounted x \<and>
       (report_within typed_from typed_end (lp_typed x) \<or> report_within legacy_from legacy_end (lp_legacy x)))
       (lg_pairs g)"

definition reconcile_terminal ::
  "lane_key \<Rightarrow> lifecycle_provider \<Rightarrow> string \<Rightarrow> lifecycle_phase \<Rightarrow> int \<Rightarrow> ledger \<Rightarrow> ledger" where
  "reconcile_terminal k p e phase now g =
     (case (pair_row k e g, lane_row k g) of
        (Some x, Some lane) \<Rightarrow>
         (case (lp_typed x, lp_legacy x) of
            (Some (typed_end, TurnTerminalPhase, _), Some (legacy_end, TurnTerminalPhase, _)) \<Rightarrow>
             if phase \<noteq> TurnTerminalPhase then g
             else if typed_end \<le> ln_compared_typed lane \<and> legacy_end \<le> ln_compared_legacy lane then g
             else if typed_end \<le> ln_compared_typed lane \<or> legacy_end \<le> ln_compared_legacy lane then
               unavailable p 1 (update_lane k (\<lambda>l. l\<lparr>ln_unavailable := True, ln_updated := max (ln_updated l) now\<rparr>) g)
             else
              (let rows = window_rows k (ln_compared_typed lane) typed_end (ln_compared_legacy lane) legacy_end g;
                   g1 = fold (compare_row k p typed_end legacy_end) rows g;
                   g2 = update_totals p (\<lambda>t. t\<lparr>tot_compared := tot_compared t + 1\<rparr>) g1
               in update_lane k (\<lambda>l. l\<lparr>ln_compared_typed := typed_end, ln_compared_legacy := legacy_end,
                    ln_updated := max (ln_updated l) now\<rparr>) g2)
          | _ \<Rightarrow> g)
      | _ \<Rightarrow> g)"

fun side_of :: "ledger_side \<Rightarrow> ledger_pair \<Rightarrow> side_report option" where
  "side_of TypedSide p = lp_typed p"
| "side_of LegacySide p = lp_legacy p"

fun opposite :: "ledger_side \<Rightarrow> ledger_side" where
  "opposite TypedSide = LegacySide"
| "opposite LegacySide = TypedSide"

fun set_side :: "ledger_side \<Rightarrow> side_report \<Rightarrow> ledger_pair \<Rightarrow> ledger_pair" where
  "set_side TypedSide r p = p\<lparr>lp_typed := Some r\<rparr>"
| "set_side LegacySide r p = p\<lparr>lp_legacy := Some r\<rparr>"

fun lane_sequence :: "ledger_side \<Rightarrow> ledger_lane \<Rightarrow> int" where
  "lane_sequence TypedSide l = ln_typed l"
| "lane_sequence LegacySide l = ln_legacy l"

fun set_lane_sequence :: "ledger_side \<Rightarrow> int \<Rightarrow> ledger_lane \<Rightarrow> ledger_lane" where
  "set_lane_sequence TypedSide n l = l\<lparr>ln_typed := n\<rparr>"
| "set_lane_sequence LegacySide n l = l\<lparr>ln_legacy := n\<rparr>"

definition new_lane :: "lane_key \<Rightarrow> int \<Rightarrow> ledger_lane" where
  "new_lane k now = \<lparr>ln_key = k, ln_typed = 0, ln_legacy = 0, ln_compared_typed = 0, ln_compared_legacy = 0,
     ln_count = 0, ln_limited = False, ln_unavailable = False, ln_created = now, ln_updated = now\<rparr>"

definition new_pair :: "lane_key \<Rightarrow> string \<Rightarrow> ledger_side \<Rightarrow> side_report \<Rightarrow> int \<Rightarrow> ledger_pair" where
  "new_pair k e side r now = set_side side r \<lparr>lp_lane = k, lp_event = e, lp_typed = None, lp_legacy = None,
     lp_class = Incomplete, lp_conflict = False, lp_accounted = False, lp_recorded = now\<rparr>"

text \<open>A report of an event the side has not reported yet.\<close>

definition record_new ::
  "ledger_side \<Rightarrow> lifecycle_observation \<Rightarrow> int \<Rightarrow> ledger_lane \<Rightarrow> ledger_pair option \<Rightarrow> ledger \<Rightarrow> ledger" where
  "record_new side v now lane existing g =
     (let k = lane_id v; p = lo_provider v; e = lo_event v;
          n = lane_sequence side lane + 1;
          r = (n, lo_phase v, lo_state v)
      in if max_safe_integer < n then unavailable p 1 g
         else
          (let g1 = update_lane k (\<lambda>l. (set_lane_sequence side n l)\<lparr>ln_updated := max (ln_updated l) now\<rparr>) g;
               g2 = (case existing of
                       None \<Rightarrow> update_lane k (\<lambda>l. l\<lparr>ln_count := ln_count l + 1\<rparr>)
                                 (g1\<lparr>lg_pairs := lg_pairs g1 @ [new_pair k e side r now]\<rparr>)
                     | Some x \<Rightarrow>
                        (let g' = update_pair k e (set_side side r) g1
                         in if (case side_of (opposite side) x of None \<Rightarrow> True | Some (_, f, _) \<Rightarrow> f \<noteq> lo_phase v)
                            then mark_conflict k p e g' else g'))
           in reconcile_terminal k p e (lo_phase v) now g2))"

definition record_in_lane ::
  "ledger_side \<Rightarrow> lifecycle_observation \<Rightarrow> int \<Rightarrow> ledger_lane \<Rightarrow> ledger \<Rightarrow> ledger" where
  "record_in_lane side v now lane g =
     (let k = lane_id v; p = lo_provider v; e = lo_event v; existing = pair_row k e g
      in if ln_limited lane \<and> existing = None then g
         else case (case existing of None \<Rightarrow> None | Some x \<Rightarrow> side_of side x) of
           Some (_, f, s) \<Rightarrow>
             reconcile_terminal k p e (lo_phase v) now
               (if f \<noteq> lo_phase v \<or> s \<noteq> lo_state v then mark_conflict k p e g else g)
         | None \<Rightarrow>
             if (case existing of None \<Rightarrow> False | Some x \<Rightarrow> lp_accounted x) then mark_conflict k p e g
             else if existing = None \<and> max_observations \<le> agent_observations (lo_agent v) g then
               unavailable p 1 (update_lane k (\<lambda>l. l\<lparr>ln_limited := True, ln_unavailable := True,
                 ln_updated := max (ln_updated l) now\<rparr>) g)
             else record_new side v now lane existing g)"

definition record_report ::
  "ledger_side \<Rightarrow> lifecycle_observation \<Rightarrow> int \<Rightarrow> ledger \<Rightarrow> ledger_error + ledger" where
  "record_report side v now g =
     (if \<not> (0 \<le> now \<and> now \<le> max_safe_integer) then Inl LedgerInvalid
      else
       (let k = lane_id v; p = lo_provider v; g0 = touch_totals p now g
        in Inr (case lane_row k g0 of
             Some lane \<Rightarrow> record_in_lane side v now lane g0
           | None \<Rightarrow>
               if max_observations \<le> agent_observations (lo_agent v) g0 then unavailable p 1 g0
               else if max_lanes \<le> length (lg_lanes g0) then unavailable p 1 g0
               else record_in_lane side v now (new_lane k now) (g0\<lparr>lg_lanes := lg_lanes g0 @ [new_lane k now]\<rparr>))))"

text \<open>The two entries: the typed side runs inside the transaction of the journal, the legacy side in its
  own.\<close>

definition record_typed :: "lifecycle_observation \<Rightarrow> int \<Rightarrow> ledger \<Rightarrow> ledger_error + ledger" where
  "record_typed v now g = bind_result (validate_observation TypedSide v) (\<lambda>v. record_report TypedSide v now g)"

definition record_legacy :: "lifecycle_observation \<Rightarrow> int \<Rightarrow> ledger \<Rightarrow> (ledger_error + unit) \<times> ledger" where
  "record_legacy v now =
     transaction (\<lambda>g. bind_result (validate_observation LegacySide v)
       (\<lambda>v. bind_result (record_report LegacySide v now g) (\<lambda>g'. Inr ((), g'))))"

definition record_unavailable ::
  "lifecycle_provider \<Rightarrow> int \<Rightarrow> int \<Rightarrow> ledger \<Rightarrow> (ledger_error + unit) \<times> ledger" where
  "record_unavailable p count now g =
     (if \<not> (1 \<le> count \<and> count \<le> max_safe_integer) then (Inl LedgerInvalid, g)
      else if \<not> (0 \<le> now \<and> now \<le> max_safe_integer) then (Inl LedgerInvalid, g)
      else (Inr (), unavailable p count (touch_totals p now g)))"

end
