(* ===== verification/ExecutionJournal.thy ===== *)
theory ExecutionJournal
  imports ExecutionRows LifecycleLedger
begin

text \<open>
  The execution journal of the daemon (\<^verbatim>\<open>apps/desktop/daemon/execution-shadow-store.ts\<close>): identities of
  executions, runtimes, messages and turns, the fenced observer of an agent with its position in the
  source, the append-only table of facts, and the replay that projects it. Every method is one
  SQLite transaction. The unique constraints of the tables that a statement can violate are checked
  where it inserts; the cache of projections is a separate theory.
\<close>

section \<open>Tables\<close>

datatype authority_mode = AuthorityLegacy | AuthorityTypedShadow | AuthorityTyped

record generation_row =
  eg_id :: string
  eg_agent :: string
  eg_created :: int

record runtime_row =
  er_id :: string
  er_generation :: string
  er_agent :: string
  er_provider :: lifecycle_provider
  er_authority :: authority_mode
  er_config :: int
  er_runtime :: runtime_state
  er_control :: control_state
  er_continuation :: continuation_state
  er_created :: int
  er_ended :: "int option"

datatype attempt_state = AttemptActive | AttemptCleanlyConcluded | AttemptFailed | AttemptInterrupted | AttemptLost

record attempt_row =
  ea_id :: string
  ea_agent :: string
  ea_room :: string
  ea_message :: string
  ea_state :: attempt_state
  ea_created :: int

record attempt_generation_row =
  ag_attempt :: string
  ag_agent :: string
  ag_room :: string
  ag_generation :: string
  ag_workspace :: string
  ag_created :: int

text \<open>The provider identifiers of a turn are null together.\<close>

record turn_row =
  et_id :: string
  et_attempt :: string
  et_agent :: string
  et_room :: string
  et_generation :: string
  et_runtime :: string
  et_provider :: "(string \<times> string) option"
  et_state :: turn_state
  et_effects :: side_effects
  et_created :: int
  et_ended :: "int option"

record observer_row =
  ob_agent :: string
  ob_generation :: string
  ob_runtime :: string
  ob_observer_generation :: string
  ob_observer_runtime :: string
  ob_daemon :: string
  ob_epoch :: int
  ob_last :: int
  ob_max :: int
  ob_recovery :: "string option"
  ob_bound_at :: int
  ob_source :: "string option"

datatype effect_kind = EffectNone | ManifestWorking | ManifestIdle | ManifestFailed
datatype effect_state = EffectPending | EffectShadowed | EffectApplied

record lifecycle_effect =
  le_fact :: string
  le_sequence :: int
  le_agent :: string
  le_observer_generation :: string
  le_observer_runtime :: string
  le_epoch :: int
  le_subject_authority :: authority_mode
  le_observer_authority :: authority_mode
  le_kind :: effect_kind
  le_state :: effect_state
  le_created :: int
  le_disposed :: "int option"

text \<open>A runtime recovery: whether it reached the phase \<open>stopped\<close> or \<open>complete\<close>, and the observer
  runtime and source that its snapshot of the observer row names.\<close>

record recovery_row =
  rv_agent :: string
  rv_runtime :: string
  rv_settled :: bool
  rv_observer :: "(string \<times> string option) option"

record journal_entry =
  je_sequence :: int
  je_row :: fact_row

record journal =
  jd_generations :: "generation_row list"
  jd_runtimes :: "runtime_row list"
  jd_attempts :: "attempt_row list"
  jd_attempt_generations :: "attempt_generation_row list"
  jd_turns :: "turn_row list"
  jd_facts :: "journal_entry list"
  jd_next_sequence :: int
  jd_observers :: "observer_row list"
  jd_sources :: "(string \<times> string) list"
  jd_effects :: "lifecycle_effect list"
  jd_recoveries :: "recovery_row list"
  jd_ledger :: ledger

datatype journal_error = Rejected protocol_error | ConstraintFailed | LedgerFailed

abbreviation required :: "'a option \<Rightarrow> journal_error + 'a" where
  "required x \<equiv> require x (Rejected IdentityMismatch)"

abbreviation reject_unless :: "bool \<Rightarrow> protocol_error \<Rightarrow> journal_error + unit" where
  "reject_unless b e \<equiv> guard_result b (Rejected e)"

definition is_typed_capture :: "authority_mode \<Rightarrow> bool" where
  "is_typed_capture m \<longleftrightarrow> m = AuthorityTypedShadow \<or> m = AuthorityTyped"

section \<open>Identities\<close>

record runtime_input =
  ni_agent :: string
  ni_generation :: string
  ni_runtime :: string
  ni_provider :: lifecycle_provider
  ni_authority :: authority_mode
  ni_config :: int
  ni_created :: int

record attempt_input =
  mi_agent :: string
  mi_room :: string
  mi_message :: string
  mi_generation :: string
  mi_workspace :: string
  mi_created :: int

record turn_input =
  ti_turn :: native_turn
  ti_attempt :: string
  ti_agent :: string
  ti_room :: string
  ti_generation :: string
  ti_runtime :: string
  ti_created :: int

definition runtime_input_ok :: "runtime_input \<Rightarrow> bool" where
  "runtime_input_ok i \<longleftrightarrow> list_all execution_identity [ni_agent i, ni_generation i, ni_runtime i] \<and>
     safe_integer_from 1 (ni_config i) \<and> safe_integer_from 0 (ni_created i)"

definition attempt_input_ok :: "attempt_input \<Rightarrow> bool" where
  "attempt_input_ok i \<longleftrightarrow>
     list_all execution_identity [mi_agent i, mi_room i, mi_message i, mi_generation i, mi_workspace i] \<and>
     safe_integer_from 0 (mi_created i)"

definition turn_shape_ok :: "turn_input \<Rightarrow> bool" where
  "turn_shape_ok i \<longleftrightarrow> native_turn_ok (ti_turn i) \<and>
     list_all execution_identity [ti_agent i, ti_room i, ti_generation i, ti_runtime i] \<and>
     safe_integer_from 0 (ti_created i)"

definition turn_input_ok :: "turn_input \<Rightarrow> bool" where
  "turn_input_ok i \<longleftrightarrow> turn_shape_ok i \<and> execution_identity (ti_attempt i)"

definition generation_by_id :: "string \<Rightarrow> journal \<Rightarrow> generation_row option" where
  "generation_by_id i db = select_first (\<lambda>r. eg_id r = i) (jd_generations db)"

definition runtime_by_id :: "string \<Rightarrow> journal \<Rightarrow> runtime_row option" where
  "runtime_by_id i db = select_first (\<lambda>r. er_id r = i) (jd_runtimes db)"

definition turn_by_id :: "string \<Rightarrow> journal \<Rightarrow> turn_row option" where
  "turn_by_id i db = select_first (\<lambda>r. et_id r = i) (jd_turns db)"

definition attempt_by_message :: "string \<Rightarrow> string \<Rightarrow> string \<Rightarrow> journal \<Rightarrow> attempt_row option" where
  "attempt_by_message agent room message db =
     select_first (\<lambda>r. ea_agent r = agent \<and> ea_room r = room \<and> ea_message r = message) (jd_attempts db)"

definition attempt_generation :: "string \<Rightarrow> string \<Rightarrow> journal \<Rightarrow> attempt_generation_row option" where
  "attempt_generation attempt generation db =
     select_first (\<lambda>r. ag_attempt r = attempt \<and> ag_generation r = generation) (jd_attempt_generations db)"

definition materialize_runtime :: "runtime_input \<Rightarrow> journal \<Rightarrow> journal_error + authority_mode \<times> journal" where
  "materialize_runtime i db =
     bind_result (case generation_by_id (ni_generation i) db of
         Some g \<Rightarrow> if eg_agent g \<noteq> ni_agent i then Inl (Rejected IdentityMismatch) else Inr db
       | None \<Rightarrow> Inr (db\<lparr>jd_generations := jd_generations db @
           [\<lparr>eg_id = ni_generation i, eg_agent = ni_agent i, eg_created = ni_created i\<rparr>]\<rparr>)) (\<lambda>db1.
     case runtime_by_id (ni_runtime i) db1 of
       Some r \<Rightarrow>
         if er_generation r \<noteq> ni_generation i \<or> er_agent r \<noteq> ni_agent i \<or> er_provider r \<noteq> ni_provider i \<or>
            er_config r \<noteq> ni_config i then Inl (Rejected IdentityMismatch)
         else Inr (er_authority r, db1)
     | None \<Rightarrow> Inr (ni_authority i, db1\<lparr>jd_runtimes := jd_runtimes db1 @
         [\<lparr>er_id = ni_runtime i, er_generation = ni_generation i, er_agent = ni_agent i, er_provider = ni_provider i,
           er_authority = ni_authority i, er_config = ni_config i, er_runtime = RtStarting, er_control = CtConnecting,
           er_continuation = CnAvailable, er_created = ni_created i, er_ended = None\<rparr>]\<rparr>))"

text \<open>The fresh identifier of an attempt comes from \<open>randomUUID\<close>; a clash is a constraint error.\<close>

definition materialize_message :: "string \<Rightarrow> attempt_input \<Rightarrow> journal \<Rightarrow> journal_error + string \<times> journal" where
  "materialize_message fresh i db =
     (let known = attempt_by_message (mi_agent i) (mi_room i) (mi_message i) db;
          attempt = (case known of Some r \<Rightarrow> ea_id r | None \<Rightarrow> fresh)
      in bind_result (case known of
           Some _ \<Rightarrow> Inr db
         | None \<Rightarrow> if fresh \<in> ea_id ` set (jd_attempts db) then Inl ConstraintFailed
             else Inr (db\<lparr>jd_attempts := jd_attempts db @ [\<lparr>ea_id = fresh, ea_agent = mi_agent i, ea_room = mi_room i,
               ea_message = mi_message i, ea_state = AttemptActive, ea_created = mi_created i\<rparr>]\<rparr>)) (\<lambda>db1.
         case attempt_generation attempt (mi_generation i) db1 of
           Some b \<Rightarrow> if ag_workspace b \<noteq> mi_workspace i then Inl (Rejected IdentityMismatch) else Inr (attempt, db1)
         | None \<Rightarrow> Inr (attempt, db1\<lparr>jd_attempt_generations := jd_attempt_generations db1 @
             [\<lparr>ag_attempt = attempt, ag_agent = mi_agent i, ag_room = mi_room i, ag_generation = mi_generation i,
               ag_workspace = mi_workspace i, ag_created = mi_created i\<rparr>]\<rparr>)))"

definition turn_fields_match :: "turn_input \<Rightarrow> turn_row \<Rightarrow> bool" where
  "turn_fields_match i r \<longleftrightarrow> et_attempt r = ti_attempt i \<and> et_agent r = ti_agent i \<and> et_room r = ti_room i \<and>
     et_generation r = ti_generation i \<and> et_runtime r = ti_runtime i \<and>
     et_provider r = Some (nt_continuation (ti_turn i), nt_provider_turn (ti_turn i))"

text \<open>A turn may not take the provider identifiers of another turn of the same runtime.\<close>

definition turn_conflict :: "turn_input \<Rightarrow> turn_row \<Rightarrow> bool" where
  "turn_conflict i r \<longleftrightarrow> et_agent r = ti_agent i \<and> et_generation r = ti_generation i \<and> et_runtime r = ti_runtime i \<and>
     et_provider r = Some (nt_continuation (ti_turn i), nt_provider_turn (ti_turn i))"

definition materialize_turn :: "turn_input \<Rightarrow> journal \<Rightarrow> journal_error + journal" where
  "materialize_turn i db =
     (case turn_by_id (nt_turn (ti_turn i)) db of
        Some r \<Rightarrow> if turn_fields_match i r then Inr db else Inl (Rejected IdentityMismatch)
      | None \<Rightarrow>
          if \<exists>r \<in> set (jd_turns db). turn_conflict i r then Inl ConstraintFailed
          else Inr (db\<lparr>jd_turns := jd_turns db @ [\<lparr>et_id = nt_turn (ti_turn i), et_attempt = ti_attempt i,
            et_agent = ti_agent i, et_room = ti_room i, et_generation = ti_generation i, et_runtime = ti_runtime i,
            et_provider = Some (nt_continuation (ti_turn i), nt_provider_turn (ti_turn i)), et_state = TnNone,
            et_effects = NoEffects, et_created = ti_created i, et_ended = None\<rparr>]\<rparr>))"

definition materialize_execution_identity ::
  "string \<Rightarrow> runtime_input \<Rightarrow> attempt_input \<Rightarrow> turn_input \<Rightarrow> journal \<Rightarrow> journal_error + authority_mode \<times> journal" where
  "materialize_execution_identity fresh r m t db =
     bind_result (reject_unless (runtime_input_ok r \<and> attempt_input_ok m \<and> turn_shape_ok t) InvalidFact) (\<lambda>_.
     bind_result (reject_unless (ni_agent r = mi_agent m \<and> ni_agent r = ti_agent t \<and> ni_generation r = mi_generation m \<and>
       ni_generation r = ti_generation t \<and> ni_runtime r = ti_runtime t \<and> mi_room m = ti_room t) IdentityMismatch) (\<lambda>_.
     bind_result (materialize_runtime r db) (\<lambda>(mode, db1).
     bind_result (materialize_message fresh m db1) (\<lambda>(attempt, db2).
     bind_result (materialize_turn (t\<lparr>ti_attempt := attempt\<rparr>) db2) (\<lambda>db3. Inr (mode, db3))))))"

definition register_runtime :: "runtime_input \<Rightarrow> journal \<Rightarrow> (journal_error + authority_mode) \<times> journal" where
  "register_runtime i = transaction (\<lambda>db.
     bind_result (reject_unless (runtime_input_ok i) InvalidFact) (\<lambda>_. materialize_runtime i db))"

definition track_message :: "string \<Rightarrow> attempt_input \<Rightarrow> journal \<Rightarrow> (journal_error + string) \<times> journal" where
  "track_message fresh i = transaction (\<lambda>db.
     bind_result (reject_unless (attempt_input_ok i) InvalidFact) (\<lambda>_.
     bind_result (required (select_first (\<lambda>g. eg_agent g = mi_agent i \<and> eg_id g = mi_generation i) (jd_generations db))) (\<lambda>_.
     bind_result (case attempt_by_message (mi_agent i) (mi_room i) (mi_message i) db of
         None \<Rightarrow> Inr ()
       | Some a \<Rightarrow> reject_unless (ea_state a = AttemptActive \<or>
           attempt_generation (ea_id a) (mi_generation i) db \<noteq> None) AttemptSettled) (\<lambda>_.
     materialize_message fresh i db))))"

text \<open>A turn of the agent that is not over, unless its runtime was recovered.\<close>

definition runtime_recovered :: "string \<Rightarrow> string \<Rightarrow> journal \<Rightarrow> bool" where
  "runtime_recovered agent runtime db \<longleftrightarrow>
     (\<exists>r \<in> set (jd_recoveries db). rv_agent r = agent \<and> rv_runtime r = runtime \<and> rv_settled r)"

definition open_turn :: "string \<Rightarrow> journal \<Rightarrow> bool" where
  "open_turn agent db \<longleftrightarrow>
     (\<exists>t \<in> set (jd_turns db). et_agent t = agent \<and> et_state t \<in> {TnNone, TnActive, TnLost} \<and>
        \<not> runtime_recovered agent (et_runtime t) db)"

definition track_native_turn :: "turn_input \<Rightarrow> journal \<Rightarrow> (journal_error + unit) \<times> journal" where
  "track_native_turn i = transaction (\<lambda>db.
     bind_result (reject_unless (turn_input_ok i) InvalidFact) (\<lambda>_.
     bind_result (required (select_first (\<lambda>a. ea_id a = ti_attempt i \<and> ea_agent a = ti_agent i \<and> ea_room a = ti_room i)
       (jd_attempts db))) (\<lambda>attempt.
     bind_result (required (attempt_generation (ti_attempt i) (ti_generation i) db)) (\<lambda>_.
     bind_result (required (select_first (\<lambda>r. er_agent r = ti_agent i \<and> er_generation r = ti_generation i \<and>
       er_id r = ti_runtime i) (jd_runtimes db))) (\<lambda>runtime.
     if turn_by_id (nt_turn (ti_turn i)) db \<noteq> None then bind_result (materialize_turn i db) (\<lambda>db'. Inr ((), db'))
     else
       bind_result (reject_unless (ea_state attempt = AttemptActive) AttemptSettled) (\<lambda>_.
       bind_result (reject_unless (er_runtime runtime \<noteq> RtExited \<and> is_typed_capture (er_authority runtime) \<and>
         \<not> open_turn (ti_agent i) db) InvalidTransition) (\<lambda>_.
       bind_result (materialize_turn i db) (\<lambda>db'. Inr ((), db')))))))))"

end
