(* ===== verification/ExecutionIngest.thy ===== *)
theory ExecutionIngest
  imports ExecutionJournal
begin

text \<open>
  Observing and ingesting (\<^verbatim>\<open>apps/desktop/daemon/execution-shadow-store.ts\<close>): the replay of a
  runtime's facts, the admission of an observer, and the acceptance of one fact with every table it
  changes. The state is the database and the observer tokens handed out by this store; a token is
  identified by its value, which contains the epoch that no other token of its agent has.
\<close>

section \<open>Replay\<close>

definition joined_provider :: "journal \<Rightarrow> fact_row \<Rightarrow> (string \<times> string) option" where
  "joined_provider db r =
     (case fr_turn r of None \<Rightarrow> None
      | Some t \<Rightarrow> (case turn_by_id t db of None \<Rightarrow> None | Some x \<Rightarrow> et_provider x))"

definition stored_fact :: "journal \<Rightarrow> fact_row \<Rightarrow> protocol_error + execution_fact" where
  "stored_fact db r = decode_fact r (joined_provider db r)"

record replay_state =
  rp_projection :: execution_projection
  rp_unverified :: int
  rp_last :: int
  rp_budget :: retained_budget
  rp_events :: "event_key \<Rightarrow> (string \<times> string \<times> string \<times> string option \<times> fact_body) option"

definition replay_start :: replay_state where
  "replay_start = \<lparr>rp_projection = empty_execution_projection, rp_unverified = 0, rp_last = 0,
     rp_budget = (0, 0), rp_events = Map.empty\<rparr>"

definition add_budget :: "fact_row \<Rightarrow> retained_budget \<Rightarrow> retained_budget" where
  "add_budget r b = (fst b + 1, snd b + fact_bytes r)"

definition replay_fact :: "execution_fact \<Rightarrow> replay_state \<Rightarrow> protocol_error + replay_state" where
  "replay_fact f st =
     (case native_event_key f of
        None \<Rightarrow> bind_result (reduce_execution_fact (rp_projection st) f) (\<lambda>p. Inr (st\<lparr>rp_projection := p\<rparr>))
      | Some k \<Rightarrow>
         (case rp_events st k of
            Some s \<Rightarrow> if s \<noteq> semantic_fact f then Inl SequenceConflict else Inr st
          | None \<Rightarrow> bind_result (reduce_execution_fact (rp_projection st) f)
              (\<lambda>p. Inr (st\<lparr>rp_projection := p, rp_events := (rp_events st)(k \<mapsto> semantic_fact f)\<rparr>))))"

definition replay_step :: "journal \<Rightarrow> journal_entry \<Rightarrow> replay_state \<Rightarrow> protocol_error + replay_state" where
  "replay_step db e st =
     (let r = je_row e; b = add_budget r (rp_budget st); st1 = st\<lparr>rp_budget := b, rp_last := je_sequence e\<rparr>
      in if exceeded_budget b \<noteq> None then Inl RetentionLimit
         else if unverified_historical_fact r then Inr (st1\<lparr>rp_unverified := rp_unverified st1 + 1\<rparr>)
         else bind_result (stored_fact db r) (\<lambda>f. replay_fact f st1))"

fun replay_rows :: "journal \<Rightarrow> journal_entry list \<Rightarrow> replay_state \<Rightarrow> protocol_error + replay_state" where
  "replay_rows db [] st = Inr st"
| "replay_rows db (e # es) st = bind_result (replay_step db e st) (replay_rows db es)"

definition row_cap :: nat where
  "row_cap = 10001"

definition agent_entries :: "string \<Rightarrow> journal \<Rightarrow> journal_entry list" where
  "agent_entries a db = filter (\<lambda>e. fr_agent (je_row e) = a) (jd_facts db)"

definition runtime_entries :: "string \<Rightarrow> journal \<Rightarrow> journal_entry list" where
  "runtime_entries rt db = filter (\<lambda>e. fr_runtime (je_row e) = rt) (jd_facts db)"

text \<open>The budget of an agent, counted on one row more than the limit.\<close>

definition rows_budget :: "journal_entry list \<Rightarrow> retained_budget" where
  "rows_budget es = (int (length es), sum_list (map (fact_bytes \<circ> je_row) es))"

definition retained_budget :: "string \<Rightarrow> journal \<Rightarrow> retained_budget" where
  "retained_budget a db = rows_budget (take row_cap (agent_entries a db))"

record runtime_projection =
  xp_projection :: execution_projection
  xp_unverified :: int
  xp_last :: int

definition replay_runtime :: "string \<Rightarrow> journal \<Rightarrow> protocol_error + runtime_projection" where
  "replay_runtime rt db =
     (if (case runtime_by_id rt db of None \<Rightarrow> False | Some r \<Rightarrow> exceeded_budget (retained_budget (er_agent r) db) \<noteq> None)
      then Inl RetentionLimit
      else bind_result (replay_rows db (take row_cap (runtime_entries rt db)) replay_start)
        (\<lambda>st. Inr \<lparr>xp_projection = rp_projection st, xp_unverified = rp_unverified st, xp_last = rp_last st\<rparr>))"

section \<open>Observers\<close>

record observer_token =
  tk_agent :: string
  tk_runtime :: string
  tk_generation :: string
  tk_observer_runtime :: string
  tk_observer_generation :: string
  tk_daemon :: string
  tk_epoch :: int
  tk_recovery :: "string option"
  tk_source :: string
  tk_last :: int
  tk_max :: int

record journal_store =
  js_db :: journal
  js_tokens :: "observer_token list"

record observer_input =
  oi_agent :: string
  oi_subject :: string
  oi_observer :: string
  oi_daemon :: string
  oi_source :: string
  oi_expected :: int
  oi_bound_at :: int
  oi_recovery :: "native_turn option"

definition observer_input_ok :: "observer_input \<Rightarrow> bool" where
  "observer_input_ok i \<longleftrightarrow>
     list_all execution_identity [oi_agent i, oi_subject i, oi_observer i, oi_daemon i, oi_source i] \<and>
     safe_integer_from 0 (oi_expected i) \<and> safe_integer_from 0 (oi_bound_at i) \<and>
     (case oi_recovery i of None \<Rightarrow> True | Some t \<Rightarrow> native_turn_ok t)"

definition agent_observer :: "string \<Rightarrow> journal \<Rightarrow> observer_row option" where
  "agent_observer a db = select_first (\<lambda>o'. ob_agent o' = a) (jd_observers db)"

definition update_observer :: "string \<Rightarrow> (observer_row \<Rightarrow> observer_row) \<Rightarrow> journal \<Rightarrow> journal" where
  "update_observer a f db = db\<lparr>jd_observers := update_where (\<lambda>o'. ob_agent o' = a) f (jd_observers db)\<rparr>"

definition source_known :: "string \<Rightarrow> string option \<Rightarrow> journal \<Rightarrow> bool" where
  "source_known a s db \<longleftrightarrow> (case s of None \<Rightarrow> False | Some i \<Rightarrow> (a, i) \<in> set (jd_sources db))"

definition recovery_boundary :: "string \<Rightarrow> string \<Rightarrow> string \<Rightarrow> string option \<Rightarrow> journal \<Rightarrow> bool" where
  "recovery_boundary a old new source db \<longleftrightarrow> old \<noteq> new \<and>
     (\<exists>r \<in> set (jd_recoveries db). rv_agent r = a \<and> rv_runtime r = old \<and> rv_settled r \<and> rv_observer r = Some (old, source))"

text \<open>The history of the agent's observation permits this source: the previous source is verified or
  lies behind a recovery boundary, a source is never resumed after another one, and no position
  that was seen but not admitted is left behind.\<close>

definition admit_source :: "observer_input \<Rightarrow> journal \<Rightarrow> journal_error + unit" where
  "admit_source i db =
     (case agent_observer (oi_agent i) db of
        None \<Rightarrow>
          if (oi_agent i, oi_source i) \<in> set (jd_sources db) then Inl (Rejected StaleObserver)
          else reject_unless (\<not> (\<exists>p \<in> set (jd_sources db). fst p = oi_agent i) \<and> agent_entries (oi_agent i) db = [])
            SourceUnverified
      | Some c \<Rightarrow>
         (let recovered = recovery_boundary (oi_agent i) (ob_observer_runtime c) (oi_observer i) (ob_source c) db;
              same = (ob_source c = Some (oi_source i))
          in bind_result (reject_unless (ob_source c \<noteq> None \<or> recovered) SourceUnverified) (\<lambda>_.
             bind_result (reject_unless (recovered \<or> source_known (oi_agent i) (ob_source c) db) SourceUnverified) (\<lambda>_.
             bind_result (reject_unless (same \<or> (oi_agent i, oi_source i) \<notin> set (jd_sources db)) StaleObserver) (\<lambda>_.
             reject_unless (same \<or> recovered \<or> ob_max c \<le> ob_last c) SourceGap)))))"

definition observer_after :: "observer_input \<Rightarrow> runtime_row \<Rightarrow> runtime_row \<Rightarrow> journal \<Rightarrow> observer_row" where
  "observer_after i subject observer db =
     (let same = (case agent_observer (oi_agent i) db of None \<Rightarrow> None | Some c \<Rightarrow>
            if ob_source c = Some (oi_source i) then Some c else None)
      in \<lparr>ob_agent = oi_agent i, ob_generation = er_generation subject, ob_runtime = er_id subject,
          ob_observer_generation = er_generation observer, ob_observer_runtime = er_id observer,
          ob_daemon = oi_daemon i, ob_epoch = oi_expected i + 1,
          ob_last = (case same of None \<Rightarrow> 0 | Some c \<Rightarrow> ob_last c),
          ob_max = (case same of None \<Rightarrow> 0 | Some c \<Rightarrow> ob_max c),
          ob_recovery = map_option nt_turn (oi_recovery i), ob_bound_at = oi_bound_at i,
          ob_source = Some (oi_source i)\<rparr>)"

definition put_observer :: "observer_row \<Rightarrow> journal \<Rightarrow> journal" where
  "put_observer o' db =
     (if agent_observer (ob_agent o') db = None then db\<lparr>jd_observers := jd_observers db @ [o']\<rparr>
      else update_observer (ob_agent o') (\<lambda>_. o') db)"

definition observer_epoch :: "string \<Rightarrow> journal \<Rightarrow> int" where
  "observer_epoch a db = (case agent_observer a db of None \<Rightarrow> 0 | Some c \<Rightarrow> ob_epoch c)"

definition recovery_turn_known :: "observer_input \<Rightarrow> runtime_row \<Rightarrow> journal \<Rightarrow> bool" where
  "recovery_turn_known i subject db =
     (case oi_recovery i of
        None \<Rightarrow> er_id subject = oi_observer i
      | Some t \<Rightarrow> \<exists>x \<in> set (jd_turns db). et_id x = nt_turn t \<and> et_agent x = oi_agent i \<and>
          et_generation x = er_generation subject \<and> et_runtime x = er_id subject \<and>
          et_provider x = Some (nt_continuation t, nt_provider_turn t))"

definition observer_token_of :: "observer_row \<Rightarrow> string \<Rightarrow> observer_token" where
  "observer_token_of o' source = \<lparr>tk_agent = ob_agent o', tk_runtime = ob_runtime o', tk_generation = ob_generation o',
     tk_observer_runtime = ob_observer_runtime o', tk_observer_generation = ob_observer_generation o',
     tk_daemon = ob_daemon o', tk_epoch = ob_epoch o', tk_recovery = ob_recovery o', tk_source = source,
     tk_last = ob_last o', tk_max = ob_max o'\<rparr>"

definition bind_observer_body :: "observer_input \<Rightarrow> journal \<Rightarrow> journal_error + observer_token \<times> journal" where
  "bind_observer_body i db =
     bind_result (reject_unless (observer_input_ok i) InvalidFact) (\<lambda>_.
     bind_result (required (select_first (\<lambda>r. er_agent r = oi_agent i \<and> er_id r = oi_subject i) (jd_runtimes db))) (\<lambda>subject.
     bind_result (required (select_first (\<lambda>r. er_agent r = oi_agent i \<and> er_id r = oi_observer i) (jd_runtimes db))) (\<lambda>observer.
     bind_result (reject_unless (er_runtime observer \<noteq> RtExited \<and> is_typed_capture (er_authority observer) \<and>
       is_typed_capture (er_authority subject) \<and> er_provider observer = er_provider subject) IdentityMismatch) (\<lambda>_.
     bind_result (reject_unless (recovery_turn_known i subject db) IdentityMismatch) (\<lambda>_.
     bind_result (reject_unless (observer_epoch (oi_agent i) db = oi_expected i \<and> oi_expected i \<noteq> max_safe_integer)
       StaleObserver) (\<lambda>_.
     bind_result (admit_source i db) (\<lambda>_.
       let o' = observer_after i subject observer db;
           db1 = put_observer o' db;
           same = (case agent_observer (oi_agent i) db of None \<Rightarrow> False | Some c \<Rightarrow> ob_source c = Some (oi_source i))
       in Inr (observer_token_of o' (oi_source i),
            (if same then db1 else db1\<lparr>jd_sources := jd_sources db1 @ [(oi_agent i, oi_source i)]\<rparr>)))))))))"

definition bind_observer :: "observer_input \<Rightarrow> journal_store \<Rightarrow> (journal_error + observer_token) \<times> journal_store" where
  "bind_observer i s =
     (case transaction (bind_observer_body i) (js_db s) of
        (Inl e, db) \<Rightarrow> (Inl e, s\<lparr>js_db := db\<rparr>)
      | (Inr t, db) \<Rightarrow> (Inr t, s\<lparr>js_db := db, js_tokens := js_tokens s @ [t]\<rparr>))"

definition current_observer :: "string \<Rightarrow> observer_token \<Rightarrow> observer_token list \<Rightarrow> journal \<Rightarrow> journal_error + observer_row" where
  "current_observer source t tokens db =
     bind_result (reject_unless (t \<in> set tokens) StaleObserver) (\<lambda>_.
     bind_result (reject_unless (execution_identity source) InvalidFact) (\<lambda>_.
     bind_result (reject_unless (source = tk_source t) IdentityMismatch) (\<lambda>_.
     bind_result (required (agent_observer (tk_agent t) db)) (\<lambda>c.
     bind_result (reject_unless (ob_epoch c = tk_epoch t \<and> ob_daemon c = tk_daemon t \<and> ob_source c = Some (tk_source t) \<and>
       ob_observer_runtime c = tk_observer_runtime t) StaleObserver) (\<lambda>_.
     bind_result (reject_unless (source_known (tk_agent t) (Some source) db) SourceUnverified) (\<lambda>_. Inr c))))))"

definition raise_max :: "string \<Rightarrow> int \<Rightarrow> journal \<Rightarrow> journal" where
  "raise_max a n = update_observer a (\<lambda>o'. o'\<lparr>ob_max := max (ob_max o') n\<rparr>)"

definition observe_source_position ::
  "string \<Rightarrow> observer_token \<Rightarrow> int \<Rightarrow> journal_store \<Rightarrow> (journal_error + unit) \<times> journal_store" where
  "observe_source_position source t latest s =
     (case transaction (\<lambda>db.
        bind_result (reject_unless (safe_integer_from 0 latest) InvalidFact) (\<lambda>_.
        bind_result (current_observer source t (js_tokens s) db) (\<lambda>c.
        bind_result (reject_unless (ob_last c \<le> latest) SourceGap) (\<lambda>_.
        Inr ((), if latest \<le> ob_max c then db else raise_max (tk_agent t) latest db))))) (js_db s) of
      (r, db) \<Rightarrow> (r, s\<lparr>js_db := db\<rparr>))"

section \<open>Ingesting a fact\<close>

datatype ingestion =
    Accepted int bool
  | Duplicate int bool
  | Gap int int
  | OverRetention budget_limit int int

text \<open>The identity fence of the observer, and the rows a turn fact refers to.\<close>

definition turn_matches :: "execution_fact \<Rightarrow> native_turn \<Rightarrow> turn_row \<Rightarrow> bool" where
  "turn_matches f t x \<longleftrightarrow> et_id x = nt_turn t \<and> et_agent x = fe_agent (ef_envelope f) \<and>
     et_generation x = fe_execution_generation (ef_envelope f) \<and> et_runtime x = fe_runtime_generation (ef_envelope f) \<and>
     et_provider x = Some (nt_continuation t, nt_provider_turn t)"

definition ingest_identity ::
  "observer_token \<Rightarrow> execution_fact \<Rightarrow> journal \<Rightarrow> journal_error + (turn_row \<times> runtime_row) option" where
  "ingest_identity tk f db =
     (let e = ef_envelope f in
      case fact_turn (ef_body f) of
        Some t \<Rightarrow>
          bind_result (reject_unless (fe_runtime_generation e = tk_runtime tk \<and> fe_execution_generation e = tk_generation tk \<and>
            (tk_recovery tk = None \<or> tk_recovery tk = Some (nt_turn t))) IdentityMismatch) (\<lambda>_.
          bind_result (required (select_first (turn_matches f t) (jd_turns db))) (\<lambda>x.
          bind_result (required (runtime_by_id (fe_runtime_generation e) db)) (\<lambda>r. Inr (Some (x, r)))))
      | None \<Rightarrow>
          bind_result (reject_unless (fe_runtime_generation e = tk_observer_runtime tk \<and>
            fe_execution_generation e = tk_observer_generation tk) IdentityMismatch) (\<lambda>_. Inr None))"

definition same_position :: "execution_fact \<Rightarrow> journal_entry \<Rightarrow> bool" where
  "same_position f x \<longleftrightarrow> fr_fact (je_row x) = fe_fact (ef_envelope f) \<or>
     (fr_agent (je_row x) = fe_agent (ef_envelope f) \<and> fr_epoch (je_row x) = fe_epoch (ef_envelope f) \<and>
      fr_sequence (je_row x) = fe_sequence (ef_envelope f))"

text \<open>The retained witnesses of the same native event.\<close>

definition same_event :: "execution_fact \<Rightarrow> journal_entry \<Rightarrow> bool" where
  "same_event f x \<longleftrightarrow> fr_runtime (je_row x) = fe_runtime_generation (ef_envelope f) \<and>
     fr_native_event (je_row x) = fe_native_event (ef_envelope f) \<and> fr_domain (je_row x) = fact_domain (ef_body f) \<and>
     fr_kind (je_row x) = fact_kind (ef_body f) \<and>
     fr_turn (je_row x) = map_option nt_turn (fact_turn (ef_body f)) \<and> fr_execution (je_row x) = fact_execution (ef_body f)"

definition lift_protocol :: "protocol_error + 'a \<Rightarrow> journal_error + 'a" where
  "lift_protocol m = (case m of Inl e \<Rightarrow> Inl (Rejected e) | Inr a \<Rightarrow> Inr a)"

fun replayed_among :: "journal \<Rightarrow> execution_fact \<Rightarrow> journal_entry list \<Rightarrow> bool \<Rightarrow> journal_error + bool" where
  "replayed_among db f [] seen = Inr seen"
| "replayed_among db f (x # xs) seen =
     (if unverified_historical_fact (je_row x) then replayed_among db f xs seen
      else bind_result (lift_protocol (stored_fact db (je_row x))) (\<lambda>g.
        if semantic_fact g \<noteq> semantic_fact f then Inl (Rejected SequenceConflict) else replayed_among db f xs True))"

definition is_replay :: "journal \<Rightarrow> execution_fact \<Rightarrow> journal_error + bool" where
  "is_replay db f =
     (case fe_native_event (ef_envelope f) of
        None \<Rightarrow> Inr False
      | Some _ \<Rightarrow> replayed_among db f (filter (same_event f) (jd_facts db)) False)"

text \<open>The life-cycle fences of a fact that is not a replay.\<close>

definition lifecycle_fences ::
  "observer_token \<Rightarrow> execution_fact \<Rightarrow> (turn_row \<times> runtime_row) option \<Rightarrow> journal \<Rightarrow> journal_error + unit" where
  "lifecycle_fences tk f retained db =
     (case (ef_body f, retained) of
        (TurnFact t s _, Some (x, _)) \<Rightarrow>
          if et_state x = TnLost \<and> s = TnActive \<and> tk_recovery tk \<noteq> Some (nt_turn t) then Inl (Rejected IdentityMismatch)
          else reject_unless (\<not> (et_state x = TnTerminal \<and> s \<noteq> TnTerminal)) InvalidTransition
      | (OperationFact _ g, Some (x, _)) \<Rightarrow>
          reject_unless (\<not> (et_state x \<in> {TnTerminal, TnLost} \<and>
            (case of_kind g of OpCompleted _ _ _ \<Rightarrow> False | _ \<Rightarrow> True))) InvalidTransition
      | (RuntimeFact s _, _) \<Rightarrow>
          if s = RtExited then Inr ()
          else bind_result (required (runtime_by_id (fe_runtime_generation (ef_envelope f)) db))
            (\<lambda>r. reject_unless (er_runtime r \<noteq> RtExited) InvalidTransition)
      | _ \<Rightarrow> Inr ())"

fun lifecycle_effect_kind :: "fact_body \<Rightarrow> lifecycle_provider \<Rightarrow> effect_kind" where
  "lifecycle_effect_kind (RuntimeFact s _) p =
     (if s = RtReady then ManifestIdle
      else if s = RtExited then (if p = CursorProvider then EffectNone else ManifestFailed) else EffectNone)"
| "lifecycle_effect_kind (TurnFact _ s _) p =
     (if s = TnActive then ManifestWorking else if s = TnTerminal then ManifestIdle
      else if s = TnLost \<and> p = CursorProvider then ManifestFailed else EffectNone)"
| "lifecycle_effect_kind _ p = EffectNone"

definition runtime_of :: "string \<Rightarrow> string \<Rightarrow> string \<Rightarrow> journal \<Rightarrow> runtime_row option" where
  "runtime_of agent generation runtime db =
     select_first (\<lambda>r. er_agent r = agent \<and> er_generation r = generation \<and> er_id r = runtime) (jd_runtimes db)"

text \<open>The rows for the table of life-cycle effects: one for every fact that is not about an operation.\<close>

definition lifecycle_effects ::
  "execution_fact \<Rightarrow> int \<Rightarrow> bool \<Rightarrow> observer_row \<Rightarrow> (turn_row \<times> runtime_row) option \<Rightarrow> journal
   \<Rightarrow> journal_error + lifecycle_effect list" where
  "lifecycle_effects f n replay current retained db =
     (let e = ef_envelope f in
      if fact_domain (ef_body f) = ''execution'' then Inr []
      else
        bind_result (case retained of Some (_, r) \<Rightarrow> Inr r
          | None \<Rightarrow> required (runtime_of (fe_agent e) (fe_execution_generation e) (fe_runtime_generation e) db)) (\<lambda>subject.
        bind_result (required (runtime_of (fe_agent e) (ob_observer_generation current) (ob_observer_runtime current) db))
          (\<lambda>observer.
        let kind = (if replay then EffectNone else lifecycle_effect_kind (ef_body f) (er_provider subject));
            operational = (er_authority subject = AuthorityTyped \<and> er_authority observer = AuthorityTyped \<and> kind \<noteq> EffectNone);
            state = (if operational then EffectPending
              else if er_authority subject = AuthorityTypedShadow \<or> er_authority observer = AuthorityTypedShadow
              then EffectShadowed else EffectApplied)
        in Inr [\<lparr>le_fact = fe_fact e, le_sequence = n, le_agent = fe_agent e,
             le_observer_generation = ob_observer_generation current, le_observer_runtime = ob_observer_runtime current,
             le_epoch = fe_epoch e, le_subject_authority = er_authority subject, le_observer_authority = er_authority observer,
             le_kind = kind, le_state = state, le_created = fe_observed_at e,
             le_disposed = (if operational then None else Some (fe_observed_at e))\<rparr>])))"

definition record_effect ::
  "execution_fact \<Rightarrow> int \<Rightarrow> bool \<Rightarrow> observer_row \<Rightarrow> (turn_row \<times> runtime_row) option \<Rightarrow> journal \<Rightarrow> journal_error + journal" where
  "record_effect f n replay current retained db =
     bind_result (lifecycle_effects f n replay current retained db) (\<lambda>rows. Inr (db\<lparr>jd_effects := jd_effects db @ rows\<rparr>))"

text \<open>The report to the comparison ledger, for the start and the end of a turn.\<close>

definition reported_ledger ::
  "execution_fact \<Rightarrow> int \<Rightarrow> (turn_row \<times> runtime_row) option \<Rightarrow> journal \<Rightarrow> journal_error + ledger" where
  "reported_ledger f now retained db =
     (case (ef_body f, retained, fe_native_event (ef_envelope f)) of
        (TurnFact t s out, Some (x, r), Some event) \<Rightarrow>
          if s \<noteq> TnActive \<and> s \<noteq> TnTerminal then Inr (jd_ledger db)
          else bind_result (required (select_first (\<lambda>g. ag_attempt g = et_attempt x \<and>
              ag_generation g = fe_execution_generation (ef_envelope f) \<and> ag_agent g = fe_agent (ef_envelope f))
              (jd_attempt_generations db))) (\<lambda>g.
            case record_typed \<lparr>lo_agent = fe_agent (ef_envelope f), lo_provider = er_provider r, lo_attempt = ag_workspace g,
              lo_generation = fe_execution_generation (ef_envelope f), lo_event = event,
              lo_phase = (if s = TnActive then TurnActivePhase else TurnTerminalPhase),
              lo_state = (if s = TnActive then LcWorking else LcTerminal)\<rparr> now (jd_ledger db) of
              Inl _ \<Rightarrow> Inl LedgerFailed
            | Inr l \<Rightarrow> Inr l)
      | _ \<Rightarrow> Inr (jd_ledger db))"

definition report_projection ::
  "execution_fact \<Rightarrow> int \<Rightarrow> (turn_row \<times> runtime_row) option \<Rightarrow> journal \<Rightarrow> journal_error + journal" where
  "report_projection f now retained db =
     bind_result (reported_ledger f now retained db) (\<lambda>l. Inr (db\<lparr>jd_ledger := l\<rparr>))"

text \<open>The projected columns of the runtime or the turn.\<close>

definition project_columns ::
  "execution_fact \<Rightarrow> execution_projection \<Rightarrow> (turn_row \<times> runtime_row) option \<Rightarrow> journal \<Rightarrow> journal" where
  "project_columns f p retained db =
     (let rt = fe_runtime_generation (ef_envelope f); at = fe_observed_at (ef_envelope f);
          on_runtime = (\<lambda>g. db\<lparr>jd_runtimes := update_where (\<lambda>r. er_id r = rt) g (jd_runtimes db)\<rparr>);
          on_turn = (\<lambda>t g. db\<lparr>jd_turns := update_where (\<lambda>x. et_id x = nt_turn t) g (jd_turns db)\<rparr>);
          effects = (\<lambda>t. combine_side_effects (case retained of None \<Rightarrow> NoEffects | Some (x, _) \<Rightarrow> et_effects x)
            (case ep_turns p (nt_turn t) of None \<Rightarrow> NoEffects | Some u \<Rightarrow> tp_effects u));
          ended = (\<lambda>closed old created. if closed then Some (case old of None \<Rightarrow> max created at | Some z \<Rightarrow> z) else None)
      in case ef_body f of
           RuntimeFact _ _ \<Rightarrow> on_runtime (\<lambda>r. r\<lparr>er_runtime := ep_runtime p,
             er_ended := ended (ep_runtime p = RtExited) (er_ended r) (er_created r)\<rparr>)
         | ControlFact _ _ \<Rightarrow> on_runtime (\<lambda>r. r\<lparr>er_control := ep_control p\<rparr>)
         | ContinuationFact _ \<Rightarrow> on_runtime (\<lambda>r. r\<lparr>er_continuation := ep_continuation p\<rparr>)
         | OperationFact t _ \<Rightarrow> on_turn t (\<lambda>x. x\<lparr>et_effects := effects t\<rparr>)
         | TurnFact t _ _ \<Rightarrow>
             (let state = (case ep_turns p (nt_turn t) of None \<Rightarrow> TnNone | Some u \<Rightarrow> tp_state u)
              in on_turn t (\<lambda>x. x\<lparr>et_state := state, et_effects := effects t,
                   et_ended := ended (state \<in> {TnTerminal, TnLost}) (et_ended x) (et_created x)\<rparr>)))"

text \<open>The projection after the fact: unchanged for a replayed native event.\<close>

definition advance_projection ::
  "execution_fact \<Rightarrow> bool \<Rightarrow> int \<Rightarrow> runtime_projection \<Rightarrow> journal_error + runtime_projection" where
  "advance_projection f replay n previous =
     bind_result (lift_protocol (if replay then Inr (xp_projection previous)
         else reduce_execution_fact (xp_projection previous) f)) (\<lambda>p.
       Inr (previous\<lparr>xp_projection := p, xp_last := n\<rparr>))"

definition next_projection ::
  "execution_fact \<Rightarrow> bool \<Rightarrow> journal \<Rightarrow> journal_error + runtime_projection" where
  "next_projection f replay db =
     bind_result (lift_protocol (replay_runtime (fe_runtime_generation (ef_envelope f)) db))
       (advance_projection f replay (jd_next_sequence db))"

definition insert_fact :: "execution_fact \<Rightarrow> journal \<Rightarrow> journal" where
  "insert_fact f db = db\<lparr>jd_facts := jd_facts db @ [\<lparr>je_sequence = jd_next_sequence db, je_row = encode_fact f\<rparr>],
     jd_next_sequence := jd_next_sequence db + 1\<rparr>"

text \<open>The writes for a fact at the next position, with its outcome.\<close>

definition ingest_writes ::
  "execution_fact \<Rightarrow> int \<Rightarrow> observer_row \<Rightarrow> (turn_row \<times> runtime_row) option \<Rightarrow> bool \<Rightarrow> runtime_projection \<Rightarrow> journal
   \<Rightarrow> journal_error + ingestion \<times> journal" where
  "ingest_writes f now current retained replay next' db =
     (let n = jd_next_sequence db in
     bind_result (record_effect f n replay current retained (insert_fact f db)) (\<lambda>db1.
     bind_result (report_projection f now retained db1) (\<lambda>db2.
     let db3 = update_observer (fe_agent (ef_envelope f)) (\<lambda>o'. o'\<lparr>ob_last := fe_sequence (ef_envelope f),
                 ob_max := max (ob_max o') (fe_sequence (ef_envelope f))\<rparr>) db2;
         db4 = (if replay then db3 else project_columns f (xp_projection next') retained db3);
         pending = (fe_sequence (ef_envelope f) < ob_max current)
     in Inr (if replay then Duplicate n pending else Accepted n pending, db4))))"

text \<open>A fact at the next position: the fences, the writes, and what is published to the cache.\<close>

definition ingest_next ::
  "observer_token \<Rightarrow> execution_fact \<Rightarrow> int \<Rightarrow> observer_row \<Rightarrow> (turn_row \<times> runtime_row) option \<Rightarrow> journal
   \<Rightarrow> journal_error + (ingestion \<times> runtime_projection option) \<times> journal" where
  "ingest_next tk f now current retained db =
     bind_result (is_replay db f) (\<lambda>replay.
     bind_result (if replay then Inr () else lifecycle_fences tk f retained db) (\<lambda>_.
     bind_result (next_projection f replay db) (\<lambda>next'.
     bind_result (ingest_writes f now current retained replay next' db) (\<lambda>(r, db').
       Inr ((r, Some next'), db')))))"

definition ingest_body ::
  "string \<Rightarrow> observer_token \<Rightarrow> observer_token list \<Rightarrow> execution_fact \<Rightarrow> int \<Rightarrow> journal
   \<Rightarrow> journal_error + (ingestion \<times> runtime_projection option) \<times> journal" where
  "ingest_body source tk tokens f now db =
     (let e = ef_envelope f in
     bind_result (current_observer source tk tokens db) (\<lambda>current.
     bind_result (reject_unless (fe_epoch e = tk_epoch tk) StaleObserver) (\<lambda>_.
     bind_result (reject_unless (fe_agent e = tk_agent tk) IdentityMismatch) (\<lambda>_.
     bind_result (ingest_identity tk f db) (\<lambda>retained.
     case select_first (same_position f) (jd_facts db) of
       Some x \<Rightarrow>
         bind_result (lift_protocol (stored_fact db (je_row x))) (\<lambda>g.
           if g \<noteq> f then Inl (Rejected SequenceConflict)
           else Inr ((Duplicate (je_sequence x) (ob_last current < ob_max current), None), db))
     | None \<Rightarrow>
        (let expected = ob_last current + 1;
             budget = add_budget (encode_fact f) (retained_budget (fe_agent e) db)
         in if fe_sequence e < expected then Inl (Rejected SequenceConflict)
            else case exceeded_budget budget of
              Some l \<Rightarrow> Inr ((OverRetention l expected (fe_sequence e), None), raise_max (fe_agent e) (fe_sequence e) db)
            | None \<Rightarrow>
                if expected < fe_sequence e then
                  Inr ((Gap expected (fe_sequence e), None), raise_max (fe_agent e) (fe_sequence e) db)
                else ingest_next tk f now current retained db))))))"

definition ingest ::
  "string \<Rightarrow> observer_token \<Rightarrow> execution_fact \<Rightarrow> int \<Rightarrow> journal_store
   \<Rightarrow> (journal_error + ingestion \<times> runtime_projection option) \<times> journal_store" where
  "ingest source tk v now s =
     (case transaction (\<lambda>db.
        bind_result (lift_protocol (parse_execution_fact v)) (\<lambda>f. ingest_body source tk (js_tokens s) f now db)) (js_db s) of
      (r, db) \<Rightarrow> (r, s\<lparr>js_db := db\<rparr>))"

end
