(* ===== verification/ExecutionReplay.thy ===== *)
theory ExecutionReplay
  imports ExecutionIngest ExecutionHistory
begin

text \<open>
  The projection that ingestion computes incrementally equals the replay of the journal it has
  written. The invariant of the store: identifiers are unique, every verified row is the encoding of
  a valid fact whose turn and runtime exist, and every observer token names runtimes of its agent.
\<close>

section \<open>The invariant\<close>

definition entry_ok :: "journal \<Rightarrow> journal_entry \<Rightarrow> bool" where
  "entry_ok db e \<longleftrightarrow>
     (\<exists>r. runtime_by_id (fr_runtime (je_row e)) db = Some r \<and> er_agent r = fr_agent (je_row e)) \<and>
     (unverified_historical_fact (je_row e) \<or>
      (\<exists>g. schema_ok g \<and> je_row e = encode_fact g \<and> joined_provider db (je_row e) = fact_joined (ef_body g)))"

definition journal_ok :: "journal \<Rightarrow> bool" where
  "journal_ok db \<longleftrightarrow> distinct (map er_id (jd_runtimes db)) \<and> distinct (map et_id (jd_turns db)) \<and>
     (\<forall>e \<in> set (jd_facts db). entry_ok db e)"

definition token_ok :: "journal \<Rightarrow> observer_token \<Rightarrow> bool" where
  "token_ok db t \<longleftrightarrow>
     (\<exists>r. runtime_by_id (tk_runtime t) db = Some r \<and> er_agent r = tk_agent t) \<and>
     (\<exists>r. runtime_by_id (tk_observer_runtime t) db = Some r \<and> er_agent r = tk_agent t)"

definition store_ok :: "journal_store \<Rightarrow> bool" where
  "store_ok s \<longleftrightarrow> journal_ok (js_db s) \<and> (\<forall>t \<in> set (js_tokens s). token_ok (js_db s) t)"

section \<open>Replay over a growing journal\<close>

lemma replay_rows_append:
  "replay_rows db (es @ [e]) st = bind_result (replay_rows db es st) (replay_step db e)"
proof (induction es arbitrary: st)
  case Nil
  show ?case by (cases "replay_step db e st") simp_all
next
  case (Cons a es)
  then show ?case by (cases "replay_step db a st") simp_all
qed

lemma replay_rows_cong:
  assumes "\<forall>e \<in> set es. joined_provider db (je_row e) = joined_provider db' (je_row e)"
  shows "replay_rows db es st = replay_rows db' es st"
  using assms
proof (induction es arbitrary: st)
  case (Cons e es)
  have "replay_step db e st = replay_step db' e st"
    using Cons.prems by (simp add: replay_step_def stored_fact_def Let_def)
  then show ?case using Cons by (cases "replay_step db' e st") simp_all
qed simp

lemma replay_fact_budget: "replay_fact f st = Inr st' \<Longrightarrow> rp_budget st' = rp_budget st \<and> rp_last st' = rp_last st \<and> rp_unverified st' = rp_unverified st"
  by (auto simp: replay_fact_def bind_result_Inr split: option.splits if_splits)

text \<open>The fact a verified row stands for.\<close>

definition verified_fact :: "journal \<Rightarrow> journal_entry \<Rightarrow> execution_fact \<Rightarrow> bool" where
  "verified_fact db e g \<longleftrightarrow> \<not> unverified_historical_fact (je_row e) \<and> stored_fact db (je_row e) = Inr g"

lemma replay_step_cases:
  assumes "replay_step db e st = Inr st'"
  obtains (unverified) "unverified_historical_fact (je_row e)" "rp_events st' = rp_events st"
      "rp_projection st' = rp_projection st"
    | (verified) g st1 where "verified_fact db e g" "replay_fact g st1 = Inr st'" "rp_events st1 = rp_events st"
      "rp_projection st1 = rp_projection st"
proof (cases "unverified_historical_fact (je_row e)")
  case True
  with assms show thesis by (intro unverified) (auto simp: replay_step_def Let_def split: if_splits)
next
  case False
  with assms obtain g where "stored_fact db (je_row e) = Inr g"
    "replay_fact g (st\<lparr>rp_budget := add_budget (je_row e) (rp_budget st), rp_last := je_sequence e\<rparr>) = Inr st'"
    by (auto simp: replay_step_def Let_def bind_result_Inr split: if_splits)
  with False show thesis
    by (intro verified [of g "st\<lparr>rp_budget := add_budget (je_row e) (rp_budget st), rp_last := je_sequence e\<rparr>"])
      (simp_all add: verified_fact_def)
qed

lemma replay_step_budget:
  "replay_step db e st = Inr st' \<Longrightarrow> rp_budget st' = add_budget (je_row e) (rp_budget st) \<and>
     exceeded_budget (rp_budget st') = None"
  by (auto simp: replay_step_def Let_def bind_result_Inr split: if_splits dest!: replay_fact_budget)

lemma rows_budget_append: "rows_budget (es @ [e]) = add_budget (je_row e) (rows_budget es)"
  by (simp add: rows_budget_def add_budget_def)

lemma replay_rows_budget:
  "replay_rows db es replay_start = Inr st \<Longrightarrow> rp_budget st = rows_budget es"
proof (induction es arbitrary: st rule: rev_induct)
  case (snoc e es)
  then show ?case
    by (auto simp: replay_rows_append bind_result_Inr rows_budget_append dest: replay_step_budget)
qed (simp add: replay_start_def rows_budget_def)

lemma replay_fact_events:
  assumes "replay_fact f st = Inr st'"
  shows "rp_events st' = (case native_event_key f of None \<Rightarrow> rp_events st | Some k \<Rightarrow> (rp_events st)(k \<mapsto> semantic_fact f))"
  using assms by (auto simp: replay_fact_def bind_result_Inr split: option.splits if_splits)

text \<open>The events recorded by a replay are those of the verified rows, with their meaning.\<close>

lemma replay_step_events:
  assumes "replay_step db e st = Inr st'"
  shows "(unverified_historical_fact (je_row e) \<and> rp_events st' = rp_events st) \<or>
    (\<exists>g. verified_fact db e g \<and> rp_events st' =
       (case native_event_key g of None \<Rightarrow> rp_events st | Some k \<Rightarrow> (rp_events st)(k \<mapsto> semantic_fact g)))"
  using assms
proof (cases rule: replay_step_cases)
  case (verified g st1)
  then show ?thesis
    by (intro disjI2 exI [of _ g]) (simp add: replay_fact_events [OF verified(2)] verified(3) cong: option.case_cong)
qed simp

lemma replay_fact_mono:
  assumes "replay_fact f st = Inr st'" "rp_events st k = Some v"
  shows "rp_events st' k = Some v"
proof (cases "native_event_key f")
  case None
  then show ?thesis using assms by (auto simp: replay_fact_def bind_result_Inr)
next
  case (Some j)
  then show ?thesis
    using assms by (cases "rp_events st j") (auto simp: replay_fact_def bind_result_Inr split: if_splits)
qed

lemma replay_fact_meaning:
  assumes "replay_fact f st = Inr st'" "native_event_key f = Some k"
  shows "rp_events st' k = Some (semantic_fact f)"
  using assms by (cases "rp_events st k") (auto simp: replay_fact_def bind_result_Inr split: if_splits)

lemma replay_step_mono:
  assumes "replay_step db e st = Inr st'" "rp_events st k = Some v"
  shows "rp_events st' k = Some v"
  using assms
proof (cases rule: replay_step_cases)
  case (verified g st1)
  then show ?thesis using assms(2) replay_fact_mono [OF verified(2)] by simp
qed simp

lemma replay_rows_events:
  assumes "replay_rows db es replay_start = Inr st"
  shows "rp_events st k \<noteq> None \<longleftrightarrow> (\<exists>e \<in> set es. \<exists>g. verified_fact db e g \<and> native_event_key g = Some k)"
  using assms
proof (induction es arbitrary: st rule: rev_induct)
  case Nil
  then have "st = replay_start" by simp
  then show ?case by (simp add: replay_start_def)
next
  case (snoc e es)
  then obtain st1 where st1: "replay_rows db es replay_start = Inr st1" and step: "replay_step db e st1 = Inr st"
    by (auto simp: replay_rows_append bind_result_Inr)
  note IH = snoc.IH [OF st1]
  from replay_step_events [OF step] show ?case
  proof
    assume "unverified_historical_fact (je_row e) \<and> rp_events st = rp_events st1"
    then show ?thesis using IH by (auto simp: verified_fact_def)
  next
    assume "\<exists>g. verified_fact db e g \<and> rp_events st =
       (case native_event_key g of None \<Rightarrow> rp_events st1 | Some k \<Rightarrow> (rp_events st1)(k \<mapsto> semantic_fact g))"
    then obtain g where g: "verified_fact db e g" and ev: "rp_events st =
       (case native_event_key g of None \<Rightarrow> rp_events st1 | Some k \<Rightarrow> (rp_events st1)(k \<mapsto> semantic_fact g))"
      by blast
    have only: "(\<exists>g'. verified_fact db e g' \<and> native_event_key g' = Some k) \<longleftrightarrow> native_event_key g = Some k"
      using g by (auto simp: verified_fact_def)
    have "rp_events st k \<noteq> None \<longleftrightarrow> rp_events st1 k \<noteq> None \<or> native_event_key g = Some k"
      using ev by (cases "native_event_key g") (simp_all del: not_None_eq)
    then show ?thesis unfolding IH only [symmetric] by auto
  qed
qed

lemma replay_rows_semantic:
  assumes "replay_rows db es replay_start = Inr st" "rp_events st k = Some s" "e \<in> set es"
    "verified_fact db e g" "native_event_key g = Some k"
  shows "s = semantic_fact g"
  using assms
proof (induction es arbitrary: st s rule: rev_induct)
  case (snoc x es)
  then obtain st1 where st1: "replay_rows db es replay_start = Inr st1" and step: "replay_step db x st1 = Inr st"
    by (auto simp: replay_rows_append bind_result_Inr)
  have known: "rp_events st1 k = Some s" if "rp_events st1 k \<noteq> None"
    using replay_step_mono [OF step] that snoc.prems(2) by (cases "rp_events st1 k") auto
  show ?case
  proof (cases "e \<in> set es")
    case True
    then have "rp_events st1 k \<noteq> None"
      unfolding replay_rows_events [OF st1] using snoc.prems(4,5) by blast
    then show ?thesis using snoc.IH [OF st1 known True snoc.prems(4,5)] by blast
  next
    case False
    then have "x = e" using snoc.prems(3) by simp
    then obtain st2 where "replay_fact g st2 = Inr st"
      using step snoc.prems(4) by (cases rule: replay_step_cases [OF step]) (auto simp: verified_fact_def)
    from replay_fact_meaning [OF this snoc.prems(5)] show ?thesis using snoc.prems(2) by simp
  qed
qed simp

section \<open>Recognising a replayed event\<close>

lemma entry_stored:
  assumes "entry_ok db e" "\<not> unverified_historical_fact (je_row e)"
  obtains g where "schema_ok g" "je_row e = encode_fact g" "verified_fact db e g"
    "joined_provider db (je_row e) = fact_joined (ef_body g)"
  using assms decode_encode by (auto simp: entry_ok_def verified_fact_def stored_fact_def)

lemma encode_columns [simp]:
  "fr_runtime (encode_fact g) = fe_runtime_generation (ef_envelope g)"
  "fr_agent (encode_fact g) = fe_agent (ef_envelope g)"
  "fr_native_event (encode_fact g) = fe_native_event (ef_envelope g)"
  "fr_domain (encode_fact g) = fact_domain (ef_body g)"
  "fr_kind (encode_fact g) = fact_kind (ef_body g)"
  "fr_turn (encode_fact g) = map_option nt_turn (fact_turn (ef_body g))"
  "fr_execution (encode_fact g) = fact_execution (ef_body g)"
  by (cases "ef_body g"; simp add: encode_fact_def)+

lemma same_event_key:
  assumes "je_row e = encode_fact g" "fe_agent (ef_envelope g) = fe_agent (ef_envelope f) \<or>
      fe_runtime_generation (ef_envelope g) \<noteq> fe_runtime_generation (ef_envelope f)"
    and "native_event_key f = Some k"
  shows "same_event f e \<longleftrightarrow> native_event_key g = Some k"
  using assms by (cases "fe_native_event (ef_envelope f)")
    (auto simp: same_event_def native_event_key_def Let_def)

lemma replayed_among_Inr:
  assumes "replayed_among db f es seen = Inr b" "\<forall>e \<in> set es. entry_ok db e"
  shows "b \<longleftrightarrow> seen \<or> (\<exists>e \<in> set es. \<exists>g. verified_fact db e g)" (is ?A)
    and "e \<in> set es \<Longrightarrow> verified_fact db e g \<Longrightarrow> semantic_fact g = semantic_fact f"
  using assms
proof (induction es arbitrary: seen)
  case (Cons x es)
  { case 1
    show ?case
    proof (cases "unverified_historical_fact (je_row x)")
      case True
      then have "replayed_among db f es seen = Inr b" using 1 by simp
      from Cons.IH(1) [OF this] 1(2) True show ?thesis by (auto simp: verified_fact_def)
    next
      case False
      obtain g where "verified_fact db x g" using entry_stored [of db x] 1(2) False by auto
      moreover have "replayed_among db f es True = Inr b"
        using 1(1) False by (auto simp: bind_result_Inr split: if_splits)
      ultimately show ?thesis using Cons.IH(1) [of True] 1(2) by auto
    qed
  next
    case 2
    show ?case
    proof (cases "unverified_historical_fact (je_row x)")
      case True
      then show ?thesis using 2 Cons.IH(2) [of seen] by (auto simp: verified_fact_def)
    next
      case False
      then obtain g' where g': "lift_protocol (stored_fact db (je_row x)) = Inr g'" "semantic_fact g' = semantic_fact f"
        and rest: "replayed_among db f es True = Inr b"
        using 2(3) by (auto simp: bind_result_Inr split: if_splits)
      have "stored_fact db (je_row x) = Inr g'" using g'(1) by (auto simp: lift_protocol_def split: sum.splits)
      then show ?thesis using 2 g'(2) Cons.IH(2) [OF _ _ rest] by (auto simp: verified_fact_def)
    qed }
qed simp_all

section \<open>Budgets\<close>

lemma fact_bytes_sum_nonneg: "0 \<le> sum_list (map (fact_bytes \<circ> je_row) es)"
  by (rule sum_list_nonneg) (auto intro: less_imp_le fact_bytes_pos)

lemma rows_budget_filter:
  "fst (rows_budget (filter P es)) \<le> fst (rows_budget es) \<and> snd (rows_budget (filter P es)) \<le> snd (rows_budget es)"
proof -
  have "sum_list (map (fact_bytes \<circ> je_row) (filter P es)) \<le> sum_list (map (fact_bytes \<circ> je_row) es)"
    by (induction es) (auto intro: add_increasing less_imp_le fact_bytes_pos)
  then show ?thesis by (simp add: rows_budget_def)
qed

lemma exceeded_budget_mono:
  "exceeded_budget b = None \<Longrightarrow> fst a \<le> fst b \<Longrightarrow> snd a \<le> snd b \<Longrightarrow> exceeded_budget a = None"
  by (auto simp: exceeded_budget_def split: if_splits)

lemma retained_budget_room:
  assumes "exceeded_budget (add_budget r (retained_budget a db)) = None"
  shows "retained_budget a db = rows_budget (agent_entries a db)" "length (agent_entries a db) < row_cap - 1"
proof -
  have "length (take row_cap (agent_entries a db)) < row_cap - 1"
    using assms
    by (auto simp: exceeded_budget_def add_budget_def retained_budget_def rows_budget_def max_retained_facts_def
        row_cap_def split: if_splits)
  then show "length (agent_entries a db) < row_cap - 1" by (auto simp: row_cap_def)
  then show "retained_budget a db = rows_budget (agent_entries a db)"
    by (simp add: retained_budget_def row_cap_def)
qed

section \<open>What ingestion leaves alone\<close>

definition turn_keys :: "journal \<Rightarrow> (string \<times> (string \<times> string) option) list" where
  "turn_keys db = map (\<lambda>x. (et_id x, et_provider x)) (jd_turns db)"

definition runtime_keys :: "journal \<Rightarrow> (string \<times> string) list" where
  "runtime_keys db = map (\<lambda>r. (er_id r, er_agent r)) (jd_runtimes db)"

lemma select_first_keys:
  assumes "map (\<lambda>x. (key x, val x)) t = map (\<lambda>x. (key x, val x)) t'"
  shows "map_option val (select_first (\<lambda>x. key x = k) t) = map_option val (select_first (\<lambda>x. key x = k) t')"
  using assms unfolding select_first_def
proof (induction t arbitrary: t')
  case (Cons a t)
  then obtain b u where "t' = b # u" by (cases t') auto
  with Cons show ?case by auto
qed simp

lemma joined_provider_keys:
  assumes "turn_keys db' = turn_keys db"
  shows "joined_provider db' r = joined_provider db r"
proof (cases "fr_turn r")
  case (Some t)
  have "map_option et_provider (turn_by_id t db') = map_option et_provider (turn_by_id t db)"
    unfolding turn_by_id_def using assms by (intro select_first_keys) (simp add: turn_keys_def)
  then show ?thesis
    using Some by (auto simp: joined_provider_def split: option.splits)
qed (simp add: joined_provider_def)

lemma runtime_agent_keys:
  assumes "runtime_keys db' = runtime_keys db"
  shows "map_option er_agent (runtime_by_id i db') = map_option er_agent (runtime_by_id i db)"
  unfolding runtime_by_id_def using assms by (intro select_first_keys) (simp add: runtime_keys_def)

lemma update_where_keys: "(\<And>x. key (f x) = key x) \<Longrightarrow> map key (update_where p f t) = map key t"
  by (rule map_key_update_where)

lemma project_columns_keys:
  "turn_keys (project_columns f p retained db) = turn_keys db"
  "runtime_keys (project_columns f p retained db) = runtime_keys db"
  "jd_facts (project_columns f p retained db) = jd_facts db"
  by (cases "ef_body f"; simp add: project_columns_def Let_def turn_keys_def runtime_keys_def map_key_update_where)+

lemma update_observer_fields [simp]:
  "turn_keys (update_observer a g db) = turn_keys db" "runtime_keys (update_observer a g db) = runtime_keys db"
  "jd_facts (update_observer a g db) = jd_facts db"
  by (simp_all add: update_observer_def turn_keys_def runtime_keys_def)

lemma record_effect_keys:
  assumes "record_effect f n b c r db = Inr db'"
  shows "turn_keys db' = turn_keys db \<and> runtime_keys db' = runtime_keys db \<and> jd_facts db' = jd_facts db"
  using assms unfolding record_effect_def bind_result_Inr by (auto simp: turn_keys_def runtime_keys_def)

lemma report_projection_keys:
  assumes "report_projection f now r db = Inr db'"
  shows "turn_keys db' = turn_keys db \<and> runtime_keys db' = runtime_keys db \<and> jd_facts db' = jd_facts db"
  using assms unfolding report_projection_def bind_result_Inr by (auto simp: turn_keys_def runtime_keys_def)

lemma insert_fact_keys:
  "turn_keys (insert_fact f db) = turn_keys db" "runtime_keys (insert_fact f db) = runtime_keys db"
  "jd_facts (insert_fact f db) = jd_facts db @ [\<lparr>je_sequence = jd_next_sequence db, je_row = encode_fact f\<rparr>]"
  by (simp_all add: insert_fact_def turn_keys_def runtime_keys_def)

lemma ingest_next_Inr:
  assumes "ingest_next tk f now c r db = Inr ((res, pub), db')"
  obtains replay nx where "is_replay db f = Inr replay" "next_projection f replay db = Inr nx" "pub = Some nx"
    "res = (if replay then Duplicate else Accepted) (jd_next_sequence db) (fe_sequence (ef_envelope f) < ob_max c)"
    "\<not> replay \<Longrightarrow> lifecycle_fences tk f r db = Inr ()"
    "turn_keys db' = turn_keys db" "runtime_keys db' = runtime_keys db"
    "jd_facts db' = jd_facts db @ [\<lparr>je_sequence = jd_next_sequence db, je_row = encode_fact f\<rparr>]"
proof -
  from assms obtain replay nx db1 db2 where i: "is_replay db f = Inr replay"
    "(if replay then Inr () else lifecycle_fences tk f r db) = Inr ()" "next_projection f replay db = Inr nx"
    "record_effect f (jd_next_sequence db) replay c r (insert_fact f db) = Inr db1"
    "report_projection f now r db1 = Inr db2" "pub = Some nx"
    "res = (if replay then Duplicate (jd_next_sequence db) (fe_sequence (ef_envelope f) < ob_max c)
        else Accepted (jd_next_sequence db) (fe_sequence (ef_envelope f) < ob_max c))"
    and db': "db' = (let db3 = update_observer (fe_agent (ef_envelope f)) (\<lambda>o'. o'\<lparr>ob_last := fe_sequence (ef_envelope f),
          ob_max := max (ob_max o') (fe_sequence (ef_envelope f))\<rparr>) db2
        in if replay then db3 else project_columns f (xp_projection nx) r db3)"
    unfolding ingest_next_def ingest_writes_def bind_result_Inr Let_def by (auto simp: bind_result_Inr)
  show thesis
  proof (rule that [OF i(1,3,6)])
    show "res = (if replay then Duplicate else Accepted) (jd_next_sequence db) (fe_sequence (ef_envelope f) < ob_max c)"
      using i(7) by simp
  qed (use i(2) record_effect_keys [OF i(4)] report_projection_keys [OF i(5)] in
      \<open>simp_all add: db' insert_fact_keys Let_def project_columns_keys\<close>)
qed

section \<open>Incremental projection and replay\<close>

lemma runtime_entries_agent:
  assumes "journal_ok db" "runtime_by_id rt db = Some r"
  shows "runtime_entries rt db = filter (\<lambda>e. fr_runtime (je_row e) = rt) (agent_entries (er_agent r) db)"
proof -
  have "fr_agent (je_row e) = er_agent r" if "e \<in> set (jd_facts db)" "fr_runtime (je_row e) = rt" for e
    using that assms by (auto simp: journal_ok_def entry_ok_def)
  then show ?thesis
    unfolding runtime_entries_def agent_entries_def filter_filter by (intro filter_cong) auto
qed

lemma is_replay_events:
  assumes ok: "journal_ok db" and rt: "runtime_by_id (fe_runtime_generation (ef_envelope f)) db = Some r"
    and agent: "er_agent r = fe_agent (ef_envelope f)" and key: "native_event_key f = Some k"
    and rows: "replay_rows db (runtime_entries (fe_runtime_generation (ef_envelope f)) db) replay_start = Inr st"
    and replay: "is_replay db f = Inr b"
  shows "rp_events st k = (if b then Some (semantic_fact f) else None)"
proof -
  let ?rt = "fe_runtime_generation (ef_envelope f)"
  let ?es = "filter (same_event f) (jd_facts db)"
  have entry: "entry_ok db e" if "e \<in> set (jd_facts db)" for e using ok that by (simp add: journal_ok_def)
  have native: "fe_native_event (ef_envelope f) \<noteq> None"
    using key by (auto simp: native_event_key_def Let_def)
  have among: "replayed_among db f ?es False = Inr b"
    using replay native by (auto simp: is_replay_def split: option.splits)
  note facts = replayed_among_Inr [OF among] 
  have same: "e \<in> set ?es \<longleftrightarrow> native_event_key g = Some k"
    if e: "e \<in> set (jd_facts db)" and v: "verified_fact db e g" for e g
  proof -
    obtain g' where g': "je_row e = encode_fact g'" "verified_fact db e g'"
      using entry_stored [OF entry [OF e]] v by (auto simp: verified_fact_def)
    then have g: "je_row e = encode_fact g" using v by (simp add: verified_fact_def)
    have "fe_agent (ef_envelope g) = fe_agent (ef_envelope f) \<or> fe_runtime_generation (ef_envelope g) \<noteq> ?rt"
      using entry [OF e] rt agent g by (auto simp: entry_ok_def)
    from same_event_key [OF g this key] e show ?thesis by simp
  qed
  have runtime: "e \<in> set (runtime_entries ?rt db)" if "e \<in> set ?es" for e
    using that by (auto simp: runtime_entries_def same_event_def)
  have known: "rp_events st k \<noteq> None \<longleftrightarrow> b"
  proof
    assume "rp_events st k \<noteq> None"
    then obtain e g where "e \<in> set (runtime_entries ?rt db)" "verified_fact db e g" "native_event_key g = Some k"
      unfolding replay_rows_events [OF rows] by blast
    then have "e \<in> set ?es" "verified_fact db e g" using same [of e g] by (auto simp: runtime_entries_def)
    then show b using facts(1) entry by auto
  next
    assume b
    then obtain e g where "e \<in> set ?es" "verified_fact db e g" using facts(1) entry by auto
    moreover from this have "native_event_key g = Some k" using same [of e g] by auto
    ultimately show "rp_events st k \<noteq> None" unfolding replay_rows_events [OF rows] using runtime by blast
  qed
  show ?thesis
  proof (cases b)
    case True
    then obtain s where s: "rp_events st k = Some s" using known by (cases "rp_events st k") auto
    obtain e g where e: "e \<in> set ?es" "verified_fact db e g" using True facts(1) entry by auto
    then have k: "native_event_key g = Some k" using same [of e g] by auto
    have "s = semantic_fact g" using replay_rows_semantic [OF rows s runtime [OF e(1)] e(2) k] .
    also have "semantic_fact g = semantic_fact f" using facts(2) [OF _ e] entry by auto
    finally show ?thesis using True s by simp
  next
    case False
    then show ?thesis using known by (cases "rp_events st k") auto
  qed
qed

lemma replay_step_new:
  assumes "schema_ok f" "joined_provider db (encode_fact f) = fact_joined (ef_body f)"
    and "exceeded_budget (add_budget (encode_fact f) (rp_budget st)) = None"
  shows "replay_step db \<lparr>je_sequence = n, je_row = encode_fact f\<rparr> st =
    replay_fact f (st\<lparr>rp_budget := add_budget (encode_fact f) (rp_budget st), rp_last := n\<rparr>)"
  using assms encoded_is_verified [OF assms(1)] decode_encode [OF assms(1)]
  by (simp add: replay_step_def Let_def stored_fact_def)

definition runtime_view :: "replay_state \<Rightarrow> runtime_projection" where
  "runtime_view st = \<lparr>xp_projection = rp_projection st, xp_unverified = rp_unverified st, xp_last = rp_last st\<rparr>"

text \<open>The one-step form: the published projection is what the replay of the extended journal gives.\<close>

lemma ingest_next_replay:
  assumes ok: "journal_ok db" and f: "schema_ok f"
    and rt: "runtime_by_id (fe_runtime_generation (ef_envelope f)) db = Some r" "er_agent r = fe_agent (ef_envelope f)"
    and joined: "joined_provider db (encode_fact f) = fact_joined (ef_body f)"
    and room: "exceeded_budget (add_budget (encode_fact f) (retained_budget (fe_agent (ef_envelope f)) db)) = None"
    and nx: "ingest_next tk f now c ret db = Inr ((res, Some pub), db')"
  shows "replay_runtime (fe_runtime_generation (ef_envelope f)) db' = Inr pub"
proof -
  let ?rt = "fe_runtime_generation (ef_envelope f)" and ?a = "fe_agent (ef_envelope f)"
  let ?new = "\<lparr>je_sequence = jd_next_sequence db, je_row = encode_fact f\<rparr>"
  from nx obtain replay where i: "is_replay db f = Inr replay" "next_projection f replay db = Inr pub"
    and keys: "turn_keys db' = turn_keys db" "runtime_keys db' = runtime_keys db"
    and facts: "jd_facts db' = jd_facts db @ [?new]"
    by (elim ingest_next_Inr) auto
  have small: "length (agent_entries ?a db) < row_cap - 1"
    and budget: "retained_budget ?a db = rows_budget (agent_entries ?a db)"
    using retained_budget_room [OF room] by auto
  have sub: "runtime_entries ?rt db = filter (\<lambda>e. fr_runtime (je_row e) = ?rt) (agent_entries ?a db)"
    using runtime_entries_agent [OF ok rt(1)] rt(2) by simp
  then have short: "length (runtime_entries ?rt db) < row_cap - 1"
    using small by (metis length_filter_le order_le_less_trans)
  have take: "take row_cap (runtime_entries ?rt db) = runtime_entries ?rt db" using short by simp
  have ents: "runtime_entries ?rt db' = runtime_entries ?rt db @ [?new]" "agent_entries ?a db' = agent_entries ?a db @ [?new]"
    using facts by (simp_all add: runtime_entries_def agent_entries_def)
  have take': "take row_cap (runtime_entries ?rt db') = runtime_entries ?rt db @ [?new]"
    unfolding ents using short by simp
  have budget': "exceeded_budget (retained_budget ?a db') = None"
    using room small by (simp add: retained_budget_def ents budget rows_budget_append row_cap_def)
  from i(2) obtain st where st: "replay_rows db (runtime_entries ?rt db) replay_start = Inr st"
    and p: "lift_protocol (if replay then Inr (rp_projection st) else reduce_execution_fact (rp_projection st) f) =
      Inr (xp_projection pub)"
    and pub: "pub = \<lparr>xp_projection = xp_projection pub, xp_unverified = rp_unverified st, xp_last = jd_next_sequence db\<rparr>"
    unfolding next_projection_def advance_projection_def bind_result_Inr lift_protocol_def replay_runtime_def take
    by (fastforce simp: bind_result_Inr split: sum.splits if_splits)
  let ?st1 = "st\<lparr>rp_budget := add_budget (encode_fact f) (rp_budget st), rp_last := jd_next_sequence db\<rparr>"
  have step: "replay_rows db' (runtime_entries ?rt db @ [?new]) replay_start = replay_fact f ?st1"
  proof -
    have "replay_rows db' (runtime_entries ?rt db @ [?new]) replay_start =
        replay_rows db (runtime_entries ?rt db @ [?new]) replay_start"
      by (intro replay_rows_cong ballI joined_provider_keys keys(1))
    also have "\<dots> = replay_step db ?new st" by (simp add: replay_rows_append st)
    also have "\<dots> = replay_fact f ?st1"
    proof (rule replay_step_new [OF f joined])
      show "exceeded_budget (add_budget (encode_fact f) (rp_budget st)) = None"
        using exceeded_budget_mono [OF room, of "add_budget (encode_fact f) (rp_budget st)"]
          rows_budget_filter [of "\<lambda>e. fr_runtime (je_row e) = ?rt" "agent_entries ?a db"]
        unfolding replay_rows_budget [OF st] sub budget by (simp add: add_budget_def)
    qed
    finally show ?thesis .
  qed
  have "\<exists>st2. replay_fact f ?st1 = Inr st2 \<and> runtime_view st2 = pub"
  proof (cases "native_event_key f")
    case None
    then have "\<not> replay" using i(1) by (auto simp: is_replay_def native_event_key_def Let_def split: option.splits)
    then have "reduce_execution_fact (rp_projection st) f = Inr (xp_projection pub)"
      using p by (simp add: lift_protocol_def split: sum.splits)
    then show ?thesis by (subst pub) (simp add: replay_fact_def None runtime_view_def)
  next
    case (Some k)
    note ev = is_replay_events [OF ok rt Some st i(1)]
    show ?thesis
    proof (cases replay)
      case True
      then show ?thesis
        using p ev by (subst pub) (simp add: replay_fact_def Some runtime_view_def lift_protocol_def)
    next
      case False
      then have "reduce_execution_fact (rp_projection st) f = Inr (xp_projection pub)"
        using p by (simp add: lift_protocol_def split: sum.splits)
      then show ?thesis using ev False by (subst pub) (simp add: replay_fact_def Some runtime_view_def)
    qed
  qed
  moreover obtain r' where "runtime_by_id ?rt db' = Some r'" "er_agent r' = ?a"
    using runtime_agent_keys [OF keys(2), of ?rt] rt by (cases "runtime_by_id ?rt db'") auto
  ultimately show ?thesis
    using budget' by (auto simp: replay_runtime_def take' step runtime_view_def)
qed

end
