(* ===== verification/ExecutionFencing.thy ===== *)
theory ExecutionFencing
  imports ExecutionReplay
begin

text \<open>
  The journal over time: every operation of the store keeps the invariant, an observer that was
  superseded stays fenced out, and positions of a source are admitted one after the other.
\<close>

section \<open>Databases that extend each other\<close>

definition extends :: "journal \<Rightarrow> journal \<Rightarrow> bool" where
  "extends db db' \<longleftrightarrow>
     (\<forall>i r. runtime_by_id i db = Some r \<longrightarrow> (\<exists>r'. runtime_by_id i db' = Some r' \<and> er_agent r' = er_agent r)) \<and>
     (\<forall>i x. turn_by_id i db = Some x \<longrightarrow> (\<exists>x'. turn_by_id i db' = Some x' \<and> et_provider x' = et_provider x))"

lemma extends_refl: "extends db db"
  by (simp add: extends_def)

lemma extends_trans: "extends a b \<Longrightarrow> extends b c \<Longrightarrow> extends a c"
  unfolding extends_def by (metis (no_types, lifting))

lemma map_option_SomeE: "map_option f x = map_option f y \<Longrightarrow> y = Some b \<Longrightarrow> \<exists>a. x = Some a \<and> f a = f b"
  by (cases x) auto

lemma extends_keys:
  assumes "turn_keys db' = turn_keys db" "runtime_keys db' = runtime_keys db"
  shows "extends db db'"
proof -
  have "map_option et_provider (turn_by_id i db') = map_option et_provider (turn_by_id i db)" for i
    unfolding turn_by_id_def using assms(1) by (intro select_first_keys) (simp add: turn_keys_def)
  moreover have "map_option er_agent (runtime_by_id i db') = map_option er_agent (runtime_by_id i db)" for i
    using runtime_agent_keys [OF assms(2)] .
  ultimately show ?thesis
    unfolding extends_def by (intro conjI allI impI) (erule map_option_SomeE [rotated], assumption | rule)+
qed

lemma joined_provider_extends:
  assumes "joined_provider db (encode_fact g) = fact_joined (ef_body g)" "extends db db'"
  shows "joined_provider db' (encode_fact g) = fact_joined (ef_body g)"
proof (cases "fact_turn (ef_body g)")
  case (Some t)
  then obtain x where x: "turn_by_id (nt_turn t) db = Some x" "et_provider x = Some (nt_continuation t, nt_provider_turn t)"
    using assms(1) by (auto simp: joined_provider_def fact_joined_def split: option.splits)
  moreover have "\<exists>x'. turn_by_id (nt_turn t) db' = Some x' \<and> et_provider x' = et_provider x"
    using assms(2) x(1) unfolding extends_def by blast
  then obtain x' where "turn_by_id (nt_turn t) db' = Some x'" "et_provider x' = et_provider x" by blast
  ultimately show ?thesis using Some by (simp add: joined_provider_def fact_joined_def)
qed (simp add: joined_provider_def fact_joined_def)

lemma entry_ok_extends:
  assumes "entry_ok db e" "extends db db'"
  shows "entry_ok db' e"
proof -
  have "\<exists>r. runtime_by_id (fr_runtime (je_row e)) db' = Some r \<and> er_agent r = fr_agent (je_row e)"
    using assms unfolding entry_ok_def extends_def by metis
  moreover have "\<exists>g. schema_ok g \<and> je_row e = encode_fact g \<and> joined_provider db' (je_row e) = fact_joined (ef_body g)"
    if "\<not> unverified_historical_fact (je_row e)"
    using assms(1) that joined_provider_extends [OF _ assms(2)] unfolding entry_ok_def by metis
  ultimately show ?thesis unfolding entry_ok_def by blast
qed

lemma token_ok_extends: "token_ok db t \<Longrightarrow> extends db db' \<Longrightarrow> token_ok db' t"
  unfolding token_ok_def extends_def by metis

text \<open>What an operation on the identities may do.\<close>

definition grows_identities :: "journal \<Rightarrow> journal \<Rightarrow> bool" where
  "grows_identities db db' \<longleftrightarrow> extends db db' \<and> jd_facts db' = jd_facts db \<and>
     jd_observers db' = jd_observers db \<and> jd_sources db' = jd_sources db \<and>
     (distinct (map er_id (jd_runtimes db)) \<longrightarrow> distinct (map er_id (jd_runtimes db'))) \<and>
     (distinct (map et_id (jd_turns db)) \<longrightarrow> distinct (map et_id (jd_turns db')))"

lemma grows_identities_refl: "grows_identities db db"
  by (simp add: grows_identities_def extends_refl)

lemma grows_identities_trans: "grows_identities a b \<Longrightarrow> grows_identities b c \<Longrightarrow> grows_identities a c"
  unfolding grows_identities_def using extends_trans by metis

lemma grows_identities_ok: "grows_identities db db' \<Longrightarrow> journal_ok db \<Longrightarrow> journal_ok db'"
  unfolding grows_identities_def journal_ok_def using entry_ok_extends by metis

lemma select_first_append_Some: "select_first p t = Some x \<Longrightarrow> select_first p (t @ u) = Some x"
  unfolding select_first_def by (induction t) (auto split: if_splits)

lemma select_first_None_key: "select_first (\<lambda>r. key r = k) t = None \<Longrightarrow> k \<notin> key ` set t"
  by (auto simp: select_first_None)

lemma grows_other_tables:
  assumes "jd_runtimes db' = jd_runtimes db" "jd_turns db' = jd_turns db" "jd_facts db' = jd_facts db"
    "jd_observers db' = jd_observers db" "jd_sources db' = jd_sources db"
  shows "grows_identities db db'"
  using assms by (simp add: grows_identities_def extends_def runtime_by_id_def turn_by_id_def)

lemma grows_append_runtime:
  assumes "runtime_by_id (er_id r) db = None"
  shows "grows_identities db (db\<lparr>jd_runtimes := jd_runtimes db @ [r]\<rparr>)"
  using assms select_first_None_key [of er_id "er_id r" "jd_runtimes db"]
  by (auto simp: grows_identities_def extends_def runtime_by_id_def turn_by_id_def dest: select_first_append_Some)

lemma grows_append_turn:
  assumes "turn_by_id (et_id r) db = None"
  shows "grows_identities db (db\<lparr>jd_turns := jd_turns db @ [r]\<rparr>)"
  using assms select_first_None_key [of et_id "et_id r" "jd_turns db"]
  by (auto simp: grows_identities_def extends_def runtime_by_id_def turn_by_id_def dest: select_first_append_Some)

lemma materialize_runtime_grows:
  assumes "materialize_runtime i db = Inr (m, db')"
  shows "grows_identities db db'"
proof -
  let ?first = "case generation_by_id (ni_generation i) db of
         Some g \<Rightarrow> if eg_agent g \<noteq> ni_agent i then Inl (Rejected IdentityMismatch) else Inr db
       | None \<Rightarrow> Inr (db\<lparr>jd_generations := jd_generations db @
           [\<lparr>eg_id = ni_generation i, eg_agent = ni_agent i, eg_created = ni_created i\<rparr>]\<rparr>)"
  obtain db1 where 1: "?first = Inr db1"
    and 2: "(case runtime_by_id (ni_runtime i) db1 of
       Some r \<Rightarrow>
         if er_generation r \<noteq> ni_generation i \<or> er_agent r \<noteq> ni_agent i \<or> er_provider r \<noteq> ni_provider i \<or>
            er_config r \<noteq> ni_config i then Inl (Rejected IdentityMismatch)
         else Inr (er_authority r, db1)
     | None \<Rightarrow> Inr (ni_authority i, db1\<lparr>jd_runtimes := jd_runtimes db1 @
         [\<lparr>er_id = ni_runtime i, er_generation = ni_generation i, er_agent = ni_agent i, er_provider = ni_provider i,
           er_authority = ni_authority i, er_config = ni_config i, er_runtime = RtStarting, er_control = CtConnecting,
           er_continuation = CnAvailable, er_created = ni_created i, er_ended = None\<rparr>]\<rparr>)) = Inr (m, db')"
    using assms unfolding materialize_runtime_def bind_result_Inr by blast
  from 1 have "grows_identities db db1"
    by (intro grows_other_tables) (auto split: option.splits if_splits)
  moreover from 2 have "grows_identities db1 db'"
    by (cases "runtime_by_id (ni_runtime i) db1")
      (auto intro: grows_append_runtime grows_identities_refl split: if_splits)
  ultimately show ?thesis by (rule grows_identities_trans)
qed

lemma materialize_message_grows:
  assumes "materialize_message fresh i db = Inr (a, db')"
  shows "grows_identities db db'"
  using assms unfolding materialize_message_def Let_def bind_result_Inr
  by (intro grows_other_tables) (auto split: option.splits if_splits)

lemma materialize_turn_grows:
  assumes "materialize_turn i db = Inr db'"
  shows "grows_identities db db'"
  using assms
  by (auto simp: materialize_turn_def split: option.splits if_splits
      intro: grows_append_turn grows_identities_refl)

lemma materialize_identity_grows:
  assumes "materialize_execution_identity fresh r m t db = Inr (mode, db')"
  shows "grows_identities db db'"
  using assms unfolding materialize_execution_identity_def bind_result_Inr
  by (auto simp: bind_result_Inr dest!: materialize_runtime_grows materialize_message_grows materialize_turn_grows
      intro: grows_identities_trans)

lemma register_runtime_grows: "register_runtime i db = (r, db') \<Longrightarrow> grows_identities db db'"
  unfolding register_runtime_def
  by (erule transaction_cases) (auto simp: bind_result_Inr grows_identities_refl dest: materialize_runtime_grows)

lemma track_message_grows: "track_message fresh i db = (r, db') \<Longrightarrow> grows_identities db db'"
  unfolding track_message_def
  by (erule transaction_cases) (auto simp: bind_result_Inr grows_identities_refl dest: materialize_message_grows)

lemma track_native_turn_grows: "track_native_turn i db = (r, db') \<Longrightarrow> grows_identities db db'"
  unfolding track_native_turn_def
  by (erule transaction_cases)
    (auto simp: bind_result_Inr grows_identities_refl split: if_splits dest: materialize_turn_grows)

end
