(* ===== verification/ExecutionStore.thy ===== *)
theory ExecutionStore
  imports ExecutionFencing
begin

text \<open>
  The store of the execution journal as a transition system: every method that writes is a step of
  \<open>store_step\<close>, also the changes other modules make to the recoveries, and the restart of the daemon,
  after which no token is known. Ingested facts reach the journal in the order of their source, the
  projection published with a fact is the replay of the journal, and a superseded observer never
  regains the right to write.
\<close>

section \<open>The step relation\<close>

inductive store_step :: "journal_store \<Rightarrow> journal_store \<Rightarrow> bool" where
  registered: "register_runtime i (js_db s) = (r, db') \<Longrightarrow> store_step s (s\<lparr>js_db := db'\<rparr>)"
| tracked: "track_message fresh m (js_db s) = (r', db') \<Longrightarrow> store_step s (s\<lparr>js_db := db'\<rparr>)"
| turned: "track_native_turn t (js_db s) = (r'', db') \<Longrightarrow> store_step s (s\<lparr>js_db := db'\<rparr>)"
| materialized: "materialize_execution_identity fresh i m t (js_db s) = Inr (mode, db') \<Longrightarrow> store_step s (s\<lparr>js_db := db'\<rparr>)"
| bound: "bind_observer b s = (r1, s') \<Longrightarrow> store_step s s'"
| positioned: "observe_source_position source tk latest s = (r2, s') \<Longrightarrow> store_step s s'"
| ingested: "ingest source tk v now s = (r3, s') \<Longrightarrow> store_step s s'"
| recovered: "store_step s (s\<lparr>js_db := js_db s\<lparr>jd_recoveries := rs\<rparr>\<rparr>)"
| restarted: "store_step s (s\<lparr>js_tokens := []\<rparr>)"

definition empty_journal :: journal where
  "empty_journal = \<lparr>jd_generations = [], jd_runtimes = [], jd_attempts = [], jd_attempt_generations = [], jd_turns = [],
     jd_facts = [], jd_next_sequence = 1, jd_observers = [], jd_sources = [], jd_effects = [], jd_recoveries = [],
     jd_ledger = empty_ledger\<rparr>"

definition empty_store :: journal_store where
  "empty_store = \<lparr>js_db = empty_journal, js_tokens = []\<rparr>"

definition reachable_store :: "journal_store \<Rightarrow> bool" where
  "reachable_store s \<longleftrightarrow> store_step\<^sup>*\<^sup>* empty_store s"

section \<open>What the operations do\<close>

lemma lift_protocol_Inr [simp]: "lift_protocol m = Inr a \<longleftrightarrow> m = Inr a"
  by (simp add: lift_protocol_def split: sum.splits)

lemma current_observer_Inr:
  "current_observer source t tokens db = Inr c \<longleftrightarrow>
     t \<in> set tokens \<and> execution_identity source \<and> source = tk_source t \<and> agent_observer (tk_agent t) db = Some c \<and>
     ob_epoch c = tk_epoch t \<and> ob_daemon c = tk_daemon t \<and> ob_source c = Some (tk_source t) \<and>
     ob_observer_runtime c = tk_observer_runtime t \<and> source_known (tk_agent t) (Some source) db"
  by (auto simp: current_observer_def bind_result_Inr guard_result_Inr require_Inr)

lemma ingest_next_rows:
  assumes "ingest_next tk f now c r db = Inr (x, db')"
  shows "jd_sources db' = jd_sources db"
    and "jd_observers db' = update_where (\<lambda>o'. ob_agent o' = fe_agent (ef_envelope f))
      (\<lambda>o'. o'\<lparr>ob_last := fe_sequence (ef_envelope f), ob_max := max (ob_max o') (fe_sequence (ef_envelope f))\<rparr>)
      (jd_observers db)"
  using assms unfolding ingest_next_def ingest_writes_def bind_result_Inr Let_def record_effect_def report_projection_def
  by (auto simp: bind_result_Inr insert_fact_def update_observer_def project_columns_def Let_def split: fact_body.splits)

lemma ingest_body_cases:
  assumes "ingest_body source tk tokens f now db = Inr ((res, pub), db')"
  obtains (duplicate) c x where "current_observer source tk tokens db = Inr c"
      "select_first (same_position f) (jd_facts db) = Some x" "stored_fact db (je_row x) = Inr f"
      "res = Duplicate (je_sequence x) (ob_last c < ob_max c)" "pub = None" "db' = db"
    | (refused) c where "current_observer source tk tokens db = Inr c" "fe_agent (ef_envelope f) = tk_agent tk"
      "select_first (same_position f) (jd_facts db) = None" "ob_last c + 1 \<le> fe_sequence (ef_envelope f)"
      "(\<exists>l. res = OverRetention l (ob_last c + 1) (fe_sequence (ef_envelope f))) \<or>
        res = Gap (ob_last c + 1) (fe_sequence (ef_envelope f)) \<and> ob_last c + 1 < fe_sequence (ef_envelope f)"
      "pub = None" "db' = raise_max (tk_agent tk) (fe_sequence (ef_envelope f)) db"
    | (admitted) c retained where "current_observer source tk tokens db = Inr c"
      "fe_agent (ef_envelope f) = tk_agent tk" "fe_epoch (ef_envelope f) = tk_epoch tk"
      "ingest_identity tk f db = Inr retained" "select_first (same_position f) (jd_facts db) = None"
      "fe_sequence (ef_envelope f) = ob_last c + 1"
      "exceeded_budget (add_budget (encode_fact f) (retained_budget (tk_agent tk) db)) = None"
      "ingest_next tk f now c retained db = Inr ((res, pub), db')"
proof -
  from assms obtain c retained where c: "current_observer source tk tokens db = Inr c"
    "fe_epoch (ef_envelope f) = tk_epoch tk" "fe_agent (ef_envelope f) = tk_agent tk"
    "ingest_identity tk f db = Inr retained"
    and rest: "(case select_first (same_position f) (jd_facts db) of
       Some x \<Rightarrow>
         bind_result (lift_protocol (stored_fact db (je_row x))) (\<lambda>g.
           if g \<noteq> f then Inl (Rejected SequenceConflict)
           else Inr ((Duplicate (je_sequence x) (ob_last c < ob_max c), None), db))
     | None \<Rightarrow>
        (let expected = ob_last c + 1;
             budget = add_budget (encode_fact f) (retained_budget (fe_agent (ef_envelope f)) db)
         in if fe_sequence (ef_envelope f) < expected then Inl (Rejected SequenceConflict)
            else case exceeded_budget budget of
              Some l \<Rightarrow> Inr ((OverRetention l expected (fe_sequence (ef_envelope f)), None),
                raise_max (fe_agent (ef_envelope f)) (fe_sequence (ef_envelope f)) db)
            | None \<Rightarrow>
                if expected < fe_sequence (ef_envelope f) then
                  Inr ((Gap expected (fe_sequence (ef_envelope f)), None),
                    raise_max (fe_agent (ef_envelope f)) (fe_sequence (ef_envelope f)) db)
                else ingest_next tk f now c retained db)) = Inr ((res, pub), db')"
    unfolding ingest_body_def Let_def bind_result_Inr guard_result_Inr by blast
  show thesis
  proof (cases "select_first (same_position f) (jd_facts db)")
    case (Some x)
    with rest c(1) show thesis by (intro duplicate) (auto simp: result_elims split: if_splits)
  next
    case None
    note rest' = rest [unfolded None Let_def, simplified]
    show thesis
    proof (cases "exceeded_budget (add_budget (encode_fact f) (retained_budget (fe_agent (ef_envelope f)) db))")
      case (Some l)
      with rest' c None show thesis by (intro refused [of c]) (auto split: if_splits)
    next
      case no: None
      show thesis
      proof (cases "ob_last c + 1 < fe_sequence (ef_envelope f)")
        case True
        with rest' c None no show thesis by (intro refused [of c]) (auto split: if_splits)
      next
        case False
        with rest' c None no show thesis by (intro admitted [of c retained]) (auto split: if_splits)
      qed
    qed
  qed
qed

lemma ingest_cases:
  assumes "ingest source tk v now s = (r, s')"
  obtains (failed) e where "r = Inl e" "s' = s"
    | (committed) res pub db' where "r = Inr (res, pub)" "schema_ok v"
      "ingest_body source tk (js_tokens s) v now (js_db s) = Inr ((res, pub), db')" "s' = s\<lparr>js_db := db'\<rparr>"
  using assms unfolding ingest_def
  by (cases r) (auto simp: transaction_def bind_result_Inr parse_execution_fact_def bind_result_def lift_protocol_def
      split: prod.splits sum.splits if_splits)

section \<open>The invariant is kept\<close>

lemma journal_ok_cong:
  assumes "jd_runtimes db' = jd_runtimes db" "jd_turns db' = jd_turns db" "jd_facts db' = jd_facts db"
  shows "journal_ok db' = journal_ok db"
  using assms joined_provider_keys [of db' db] by (simp add: journal_ok_def entry_ok_def runtime_by_id_def turn_keys_def)

lemma token_ok_cong: "jd_runtimes db' = jd_runtimes db \<Longrightarrow> token_ok db' t = token_ok db t"
  by (simp add: token_ok_def runtime_by_id_def)

lemma runtime_row_found:
  assumes "journal_ok db" "select_first (\<lambda>r. er_agent r = a \<and> er_id r = i) (jd_runtimes db) = Some r"
  shows "runtime_by_id i db = Some r \<and> er_agent r = a"
proof -
  from select_first_SomeD [OF assms(2)] have r: "r \<in> set (jd_runtimes db)" "er_agent r = a" "er_id r = i" by simp_all
  have "runtime_by_id i db = Some r"
    unfolding runtime_by_id_def using assms(1) r
    by (intro select_first_key [where key = er_id]) (auto simp: journal_ok_def)
  then show ?thesis using r by simp
qed

lemma put_observer_fields [simp]:
  "jd_runtimes (put_observer o' db) = jd_runtimes db" "jd_turns (put_observer o' db) = jd_turns db"
  "jd_facts (put_observer o' db) = jd_facts db" "jd_sources (put_observer o' db) = jd_sources db"
  by (simp_all add: put_observer_def update_observer_def)

lemma raise_max_fields [simp]:
  "jd_runtimes (raise_max a n db) = jd_runtimes db" "jd_turns (raise_max a n db) = jd_turns db"
  "jd_facts (raise_max a n db) = jd_facts db" "jd_sources (raise_max a n db) = jd_sources db"
  by (simp_all add: raise_max_def update_observer_def)

lemma ok_raise_max [simp]:
  "journal_ok (raise_max a n db) = journal_ok db" "token_ok (raise_max a n db) t = token_ok db t"
  by (rule journal_ok_cong token_ok_cong; simp)+

lemma ok_recoveries [simp]:
  "journal_ok (db\<lparr>jd_recoveries := rs\<rparr>) = journal_ok db" "token_ok (db\<lparr>jd_recoveries := rs\<rparr>) t = token_ok db t"
  by (rule journal_ok_cong token_ok_cong; simp)+

text \<open>What a successful binding did.\<close>

lemma bind_observer_bodyE:
  assumes "bind_observer_body i db = Inr (t, db')"
  obtains subject observer where
    "select_first (\<lambda>r. er_agent r = oi_agent i \<and> er_id r = oi_subject i) (jd_runtimes db) = Some subject"
    "select_first (\<lambda>r. er_agent r = oi_agent i \<and> er_id r = oi_observer i) (jd_runtimes db) = Some observer"
    "observer_epoch (oi_agent i) db = oi_expected i" "0 \<le> oi_expected i"
    "t = observer_token_of (observer_after i subject observer db) (oi_source i)"
    "jd_observers db' = jd_observers (put_observer (observer_after i subject observer db) db)"
    "jd_runtimes db' = jd_runtimes db" "jd_turns db' = jd_turns db" "jd_facts db' = jd_facts db"
    "\<And>a. a \<noteq> oi_agent i \<Longrightarrow> (\<lambda>s. (a, s) \<in> set (jd_sources db')) = (\<lambda>s. (a, s) \<in> set (jd_sources db))"
proof -
  from assms obtain subject observer where b:
    "observer_input_ok i" "observer_epoch (oi_agent i) db = oi_expected i"
    "select_first (\<lambda>r. er_agent r = oi_agent i \<and> er_id r = oi_subject i) (jd_runtimes db) = Some subject"
    "select_first (\<lambda>r. er_agent r = oi_agent i \<and> er_id r = oi_observer i) (jd_runtimes db) = Some observer"
    and r: "(let o' = observer_after i subject observer db; db1 = put_observer o' db;
           same = (case agent_observer (oi_agent i) db of None \<Rightarrow> False | Some c \<Rightarrow> ob_source c = Some (oi_source i))
       in Inr (observer_token_of o' (oi_source i),
            (if same then db1 else db1\<lparr>jd_sources := jd_sources db1 @ [(oi_agent i, oi_source i)]\<rparr>))) =
       (Inr (t, db') :: journal_error + observer_token \<times> journal)"
    unfolding bind_observer_body_def bind_result_Inr guard_result_Inr require_Inr by blast
  from b(1) have "0 \<le> oi_expected i" by (simp add: observer_input_ok_def safe_integer_from_def)
  with b r show thesis by (intro that [of subject observer]) (auto simp: Let_def)
qed

lemma bind_observer_cases:
  assumes "bind_observer i s = (r, s')"
  obtains (failed) "s' = s"
    | (bound) t db' where "bind_observer_body i (js_db s) = Inr (t, db')"
      "s' = s\<lparr>js_db := db', js_tokens := js_tokens s @ [t]\<rparr>"
  using assms unfolding bind_observer_def
  by (auto simp: transaction_def split: sum.splits prod.splits)

lemma observe_position_cases:
  assumes "observe_source_position source t latest s = (r, s')"
  obtains "s' = s" | "s' = s\<lparr>js_db := raise_max (tk_agent t) latest (js_db s)\<rparr>"
  using assms unfolding observe_source_position_def
  by (auto simp: transaction_def bind_result_Inr split: sum.splits prod.splits if_splits)

lemma ingest_identity_rows:
  assumes "ingest_identity tk f db = Inr retained" "journal_ok db" "token_ok db tk"
    "fe_agent (ef_envelope f) = tk_agent tk"
  shows "\<exists>r. runtime_by_id (fe_runtime_generation (ef_envelope f)) db = Some r \<and> er_agent r = fe_agent (ef_envelope f)"
    and "joined_provider db (encode_fact f) = fact_joined (ef_body f)"
proof -
  show "\<exists>r. runtime_by_id (fe_runtime_generation (ef_envelope f)) db = Some r \<and> er_agent r = fe_agent (ef_envelope f)"
    using assms by (auto simp: ingest_identity_def Let_def result_elims token_ok_def split: option.splits)
  show "joined_provider db (encode_fact f) = fact_joined (ef_body f)"
  proof (cases "fact_turn (ef_body f)")
    case None
    then show ?thesis by (simp add: joined_provider_def fact_joined_def)
  next
    case (Some t)
    then obtain x where "select_first (turn_matches f t) (jd_turns db) = Some x"
      using assms(1) by (auto simp: ingest_identity_def Let_def result_elims)
    then have x: "x \<in> set (jd_turns db)" "turn_matches f t x" by (auto dest: select_first_SomeD)
    then have "turn_by_id (nt_turn t) db = Some x"
      unfolding turn_by_id_def using assms(2)
      by (intro select_first_key [where key = et_id]) (auto simp: journal_ok_def turn_matches_def)
    then show ?thesis using Some x(2) by (simp add: joined_provider_def fact_joined_def turn_matches_def)
  qed
qed

lemma keys_distinct:
  assumes "turn_keys db' = turn_keys db" "runtime_keys db' = runtime_keys db"
  shows "map et_id (jd_turns db') = map et_id (jd_turns db)" "map er_id (jd_runtimes db') = map er_id (jd_runtimes db)"
proof -
  have "map fst (turn_keys db') = map fst (turn_keys db)" "map fst (runtime_keys db') = map fst (runtime_keys db)"
    using assms by simp_all
  then show "map et_id (jd_turns db') = map et_id (jd_turns db)" "map er_id (jd_runtimes db') = map er_id (jd_runtimes db)"
    by (simp_all add: turn_keys_def runtime_keys_def comp_def)
qed

lemma ingest_body_ok:
  assumes "ingest_body source tk tokens f now db = Inr (x, db')" "schema_ok f" "journal_ok db"
    "\<forall>t \<in> set tokens. token_ok db t"
  shows "journal_ok db' \<and> extends db db'"
proof -
  obtain res pub where x: "x = (res, pub)" by (cases x)
  from assms(1) [unfolded x] show ?thesis
  proof (cases rule: ingest_body_cases)
    case (duplicate c y)
    then show ?thesis using assms(3) extends_refl by simp
  next
    case (refused c)
    then have same: "jd_runtimes db' = jd_runtimes db" "jd_turns db' = jd_turns db" "jd_facts db' = jd_facts db" by simp_all
    then have "extends db db'" by (intro extends_keys) (simp_all add: turn_keys_def runtime_keys_def)
    then show ?thesis using assms(3) journal_ok_cong [OF same] by simp
  next
    case (admitted c retained)
    have tok: "token_ok db tk" using admitted(1) assms(4) by (simp add: current_observer_Inr)
    from admitted(8) have keys: "turn_keys db' = turn_keys db" "runtime_keys db' = runtime_keys db"
      "jd_facts db' = jd_facts db @ [\<lparr>je_sequence = jd_next_sequence db, je_row = encode_fact f\<rparr>]"
      by (elim ingest_next_Inr; simp)+
    have ext: "extends db db'" using keys by (intro extends_keys)
    have "entry_ok db \<lparr>je_sequence = jd_next_sequence db, je_row = encode_fact f\<rparr>"
      using ingest_identity_rows [OF admitted(4) assms(3) tok admitted(2)] assms(2) by (auto simp: entry_ok_def)
    then have "\<forall>e \<in> set (jd_facts db'). entry_ok db' e"
      using assms(3) entry_ok_extends [OF _ ext] by (auto simp: keys(3) journal_ok_def)
    then show ?thesis using ext assms(3) keys_distinct [OF keys(1,2)] by (simp add: journal_ok_def)
  qed
qed

lemma identities_ok:
  assumes "grows_identities (js_db s) db'" "store_ok s"
  shows "store_ok (s\<lparr>js_db := db'\<rparr>)"
  using assms grows_identities_ok [OF assms(1)] token_ok_extends by (auto simp: store_ok_def grows_identities_def)

lemma store_step_ok:
  assumes "store_step s s'" "store_ok s"
  shows "store_ok s'"
  using assms
proof cases
  case (bound b r1)
  from bound show ?thesis
  proof (cases rule: bind_observer_cases)
    case failed
    then show ?thesis using assms(2) by simp
  next
    case (bound t db')
    from bound(1) obtain subject observer where b:
      "select_first (\<lambda>r. er_agent r = oi_agent b \<and> er_id r = oi_subject b) (jd_runtimes (js_db s)) = Some subject"
      "select_first (\<lambda>r. er_agent r = oi_agent b \<and> er_id r = oi_observer b) (jd_runtimes (js_db s)) = Some observer"
      "t = observer_token_of (observer_after b subject observer (js_db s)) (oi_source b)"
      and same: "jd_runtimes db' = jd_runtimes (js_db s)" "jd_turns db' = jd_turns (js_db s)" "jd_facts db' = jd_facts (js_db s)"
      by (elim bind_observer_bodyE) blast
    have ok: "journal_ok (js_db s)" using assms(2) by (simp add: store_ok_def)
    have "token_ok (js_db s) t"
      using runtime_row_found [OF ok b(1)] runtime_row_found [OF ok b(2)] select_first_SomeD [OF b(1)] select_first_SomeD [OF b(2)]
      by (simp add: b(3) token_ok_def observer_token_of_def observer_after_def Let_def)
    then show ?thesis
      using assms(2) bound(2) journal_ok_cong [OF same] token_ok_cong [OF same(1)] by (simp add: store_ok_def)
  qed
next
  case (positioned source tk latest r2)
  from positioned show ?thesis
    using assms(2) by (elim observe_position_cases) (simp_all add: store_ok_def)
next
  case (ingested source tk v now r3)
  from ingested show ?thesis
  proof (cases rule: ingest_cases)
    case (committed res pub db')
    then show ?thesis
      using assms(2) ingest_body_ok [OF committed(3,2)] token_ok_extends by (auto simp: store_ok_def)
  qed (use assms(2) in simp)
next
  case (recovered rs)
  then show ?thesis using assms(2) by (simp add: store_ok_def)
next
  case restarted
  then show ?thesis using assms(2) by (simp add: store_ok_def)
next
  case (registered i r db')
  then show ?thesis using identities_ok [OF register_runtime_grows assms(2)] by blast
next
  case (tracked fresh m r db')
  then show ?thesis using identities_ok [OF track_message_grows assms(2)] by blast
next
  case (turned t r db')
  then show ?thesis using identities_ok [OF track_native_turn_grows assms(2)] by blast
next
  case (materialized fresh i m t mode db')
  then show ?thesis using identities_ok [OF materialize_identity_grows assms(2)] by blast
qed

lemma empty_store_ok: "store_ok empty_store"
  by (simp add: store_ok_def journal_ok_def empty_store_def empty_journal_def)

lemma reachable_ok: "reachable_store s \<Longrightarrow> store_ok s"
  unfolding reachable_store_def by (erule rtranclp_induct) (blast intro: empty_store_ok store_step_ok)+

end
