(* ===== verification/ExecutionProtocol.thy ===== *)
theory ExecutionProtocol
  imports ExecutionStore
begin

text \<open>
  What the steps of the store guarantee to an observer: the fence of its epoch, the unbroken order
  of the admitted positions, and the projection published with every fact.
\<close>

section \<open>The observer of an agent\<close>

definition fence_core :: "string \<Rightarrow> journal \<Rightarrow> (int \<times> string \<times> string option \<times> string) option" where
  "fence_core a db = map_option (\<lambda>c. (ob_epoch c, ob_daemon c, ob_source c, ob_observer_runtime c)) (agent_observer a db)"

definition agent_sources :: "string \<Rightarrow> journal \<Rightarrow> string set" where
  "agent_sources a db = {s. (a, s) \<in> set (jd_sources db)}"

definition observer_kept :: "string \<Rightarrow> journal \<Rightarrow> journal \<Rightarrow> bool" where
  "observer_kept a db db' \<longleftrightarrow> fence_core a db' = fence_core a db \<and> agent_sources a db' = agent_sources a db"

lemma observer_epoch_core: "observer_epoch a db = (case fence_core a db of None \<Rightarrow> 0 | Some (e, _) \<Rightarrow> e)"
  by (simp add: observer_epoch_def fence_core_def split: option.splits)

lemma observer_kept_epoch: "observer_kept a db db' \<Longrightarrow> observer_epoch a db' = observer_epoch a db"
  by (simp add: observer_kept_def observer_epoch_core)

lemma agent_observer_cong: "jd_observers db' = jd_observers db \<Longrightarrow> agent_observer a db' = agent_observer a db"
  by (simp add: agent_observer_def)

lemma observer_kept_same:
  "jd_observers db' = jd_observers db \<Longrightarrow> jd_sources db' = jd_sources db \<Longrightarrow> observer_kept a db db'"
  by (simp add: observer_kept_def fence_core_def agent_sources_def agent_observer_def)

lemma agent_observer_update:
  assumes "\<And>c. ob_agent (f c) = ob_agent c"
    and "jd_observers db' = update_where (\<lambda>c. ob_agent c = b) f (jd_observers db)"
  shows "agent_observer a db' = (if a = b then map_option f (agent_observer a db) else agent_observer a db)"
proof (cases "a = b")
  case True
  then show ?thesis
    using select_first_update_where [of "\<lambda>c. ob_agent c = b" f "jd_observers db"] assms by (simp add: agent_observer_def)
next
  case False
  then show ?thesis
    using select_first_update_other [where p = "\<lambda>c. ob_agent c = b" and q = "\<lambda>c. ob_agent c = a" and f = f and t = "jd_observers db"] assms
    by (simp add: agent_observer_def)
qed

lemma observer_kept_update:
  assumes "\<And>c. ob_agent (f c) = ob_agent c"
    "\<And>c. (ob_epoch (f c), ob_daemon (f c), ob_source (f c), ob_observer_runtime (f c)) =
      (ob_epoch c, ob_daemon c, ob_source c, ob_observer_runtime c)"
    and "jd_observers db' = update_where (\<lambda>c. ob_agent c = b) f (jd_observers db)" "jd_sources db' = jd_sources db"
  shows "observer_kept a db db'"
  using assms(2,4) by (simp add: observer_kept_def fence_core_def agent_sources_def
      agent_observer_update [OF assms(1,3)] option.map_comp comp_def)

lemma select_first_append:
  "select_first p (t @ u) = (case select_first p t of None \<Rightarrow> select_first p u | Some x \<Rightarrow> Some x)"
  unfolding select_first_def by (induction t) auto

lemma select_first_single [simp]: "select_first p [x] = (if p x then Some x else None)"
  by (simp add: select_first_def)

lemma agent_observer_put:
  "agent_observer a (put_observer o' db) = (if a = ob_agent o' then Some o' else agent_observer a db)"
proof (cases "agent_observer (ob_agent o') db")
  case None
  then show ?thesis
    by (auto simp: put_observer_def agent_observer_def select_first_append split: option.splits)
next
  case (Some c)
  then show ?thesis
    using select_first_update_where [of "\<lambda>c. ob_agent c = a" "\<lambda>_. o'" "jd_observers db"]
      select_first_update_other [where p = "\<lambda>c. ob_agent c = ob_agent o'" and q = "\<lambda>c. ob_agent c = a" and
        f = "\<lambda>_. o'" and t = "jd_observers db"]
    by (auto simp: put_observer_def agent_observer_def update_observer_def)
qed

text \<open>A binding replaces the observer of its agent by one of the next epoch, and changes no other.\<close>

lemma bind_observer_moves:
  assumes "bind_observer_body i db = Inr (t, db')"
  obtains c where "agent_observer (oi_agent i) db' = Some c" "t = observer_token_of c (oi_source i)"
    "ob_agent c = oi_agent i" "ob_epoch c = observer_epoch (oi_agent i) db + 1"
    "\<exists>subject observer. c = observer_after i subject observer db" "jd_facts db' = jd_facts db"
    "\<And>a. a \<noteq> oi_agent i \<Longrightarrow> agent_observer a db' = agent_observer a db \<and> observer_kept a db db'"
  using assms
proof (rule bind_observer_bodyE)
  fix subject observer
  let ?c = "observer_after i subject observer db"
  assume b: "observer_epoch (oi_agent i) db = oi_expected i" "0 \<le> oi_expected i"
    "t = observer_token_of ?c (oi_source i)" "jd_observers db' = jd_observers (put_observer ?c db)"
    "jd_facts db' = jd_facts db"
    and src: "\<And>a. a \<noteq> oi_agent i \<Longrightarrow> (\<lambda>s. (a, s) \<in> set (jd_sources db')) = (\<lambda>s. (a, s) \<in> set (jd_sources db))"
  have c: "ob_agent ?c = oi_agent i" "ob_epoch ?c = oi_expected i + 1" by (simp_all add: observer_after_def Let_def)
  have o': "agent_observer a db' = (if a = oi_agent i then Some ?c else agent_observer a db)" for a
    using agent_observer_cong [OF b(4)] agent_observer_put [of a ?c db] c by simp
  show thesis
  proof (rule that [of ?c])
    fix a assume "a \<noteq> oi_agent i"
    with o' src [of a] show "agent_observer a db' = agent_observer a db \<and> observer_kept a db db'"
      by (simp add: observer_kept_def fence_core_def agent_sources_def)
  qed (use o' b c in auto)
qed

lemma bind_observer_kept:
  assumes "bind_observer_body i db = Inr (t, db')"
  shows "observer_kept a db db' \<or> observer_epoch a db < observer_epoch a db'"
    and "observer_epoch (tk_agent t) db < tk_epoch t"
  using assms
  by (elim bind_observer_moves; cases "a = oi_agent i"; simp add: observer_epoch_def observer_token_of_def)+

text \<open>Every other operation keeps the observers, up to their positions.\<close>

lemma raise_max_kept: "observer_kept a db (raise_max b n db)"
  by (rule observer_kept_update) (simp_all add: raise_max_def update_observer_def)

lemma ingest_body_kept:
  assumes "ingest_body source tk tokens f now db = Inr (x, db')"
  shows "observer_kept a db db'"
proof -
  obtain res pub where x: "x = (res, pub)" by (cases x)
  from assms [unfolded x] show ?thesis
  proof (cases rule: ingest_body_cases)
    case (admitted c retained)
    then show ?thesis using ingest_next_rows [OF admitted(8)] by (intro observer_kept_update) simp_all
  qed (simp_all add: raise_max_kept observer_kept_same)
qed

lemma store_step_observer:
  assumes "store_step s s'"
  shows "observer_kept a (js_db s) (js_db s') \<or> observer_epoch a (js_db s) < observer_epoch a (js_db s')"
    and "t \<in> set (js_tokens s') \<Longrightarrow> t \<in> set (js_tokens s) \<or> observer_epoch (tk_agent t) (js_db s) < tk_epoch t"
proof -
  have *: "(observer_kept a (js_db s) (js_db s') \<or> observer_epoch a (js_db s) < observer_epoch a (js_db s')) \<and>
    (t \<in> set (js_tokens s') \<longrightarrow> t \<in> set (js_tokens s) \<or> observer_epoch (tk_agent t) (js_db s) < tk_epoch t)"
    using assms
  proof cases
    case (bound b r1)
    from bound show ?thesis
    proof (cases rule: bind_observer_cases)
      case failed
      then show ?thesis by (simp add: observer_kept_same)
    next
      case (bound t' db')
      then show ?thesis using bind_observer_kept [OF bound(1)] by auto
    qed
  next
    case (positioned source tk latest r2)
    then show ?thesis
      by (elim observe_position_cases) (simp_all add: raise_max_kept observer_kept_same)
  next
    case (ingested source tk v now r3)
    from ingested show ?thesis
    proof (cases rule: ingest_cases)
      case (committed res pub db')
      then show ?thesis using ingest_body_kept [OF committed(3)] by simp
    qed (simp add: observer_kept_same)
  next
    case (registered i r db')
    then show ?thesis
      using register_runtime_grows [of i "js_db s" r db'] by (simp add: grows_identities_def observer_kept_same)
  next
    case (tracked fresh m r db')
    then show ?thesis
      using track_message_grows [of fresh m "js_db s" r db'] by (simp add: grows_identities_def observer_kept_same)
  next
    case (turned i r db')
    then show ?thesis
      using track_native_turn_grows [of i "js_db s" r db'] by (simp add: grows_identities_def observer_kept_same)
  next
    case (materialized fresh i m t mode db')
    then show ?thesis
      using materialize_identity_grows [of fresh i m t "js_db s" mode db']
      by (simp add: grows_identities_def observer_kept_same)
  qed (simp_all add: observer_kept_same)
  show "observer_kept a (js_db s) (js_db s') \<or> observer_epoch a (js_db s) < observer_epoch a (js_db s')"
    using * by blast
  show "t \<in> set (js_tokens s') \<Longrightarrow> t \<in> set (js_tokens s) \<or> observer_epoch (tk_agent t) (js_db s) < tk_epoch t"
    using * by blast
qed

section \<open>The fence of an observer\<close>

definition may_write :: "journal_store \<Rightarrow> observer_token \<Rightarrow> bool" where
  "may_write s t \<longleftrightarrow> \<not> isl (current_observer (tk_source t) t (js_tokens s) (js_db s))"

definition epoch_reached :: "journal_store \<Rightarrow> observer_token \<Rightarrow> bool" where
  "epoch_reached s t \<longleftrightarrow> tk_epoch t \<le> observer_epoch (tk_agent t) (js_db s)"

lemma may_write_core:
  "may_write s t \<longleftrightarrow> t \<in> set (js_tokens s) \<and> execution_identity (tk_source t) \<and> tk_source t \<in> agent_sources (tk_agent t) (js_db s) \<and>
     fence_core (tk_agent t) (js_db s) = Some (tk_epoch t, tk_daemon t, Some (tk_source t), tk_observer_runtime t)"
proof -
  have "may_write s t \<longleftrightarrow> (\<exists>c. current_observer (tk_source t) t (js_tokens s) (js_db s) = Inr c)"
    unfolding may_write_def by (cases "current_observer (tk_source t) t (js_tokens s) (js_db s)") auto
  then show ?thesis
    by (auto simp: current_observer_Inr fence_core_def agent_sources_def source_known_def)
qed

interpretation observer_fence: monotone_fence store_step may_write epoch_reached
proof
  fix s s' t
  assume step: "store_step s s'" and known: "epoch_reached s t"
  note kept = store_step_observer(1) [OF step, of "tk_agent t"]
  from kept known show "epoch_reached s' t"
    using observer_kept_epoch unfolding epoch_reached_def by fastforce
  assume lost: "\<not> may_write s t"
  show "\<not> may_write s' t"
  proof
    assume w: "may_write s' t"
    then have epoch: "observer_epoch (tk_agent t) (js_db s') = tk_epoch t"
      by (simp add: may_write_core observer_epoch_core)
    with kept known have k: "observer_kept (tk_agent t) (js_db s) (js_db s')"
      unfolding epoch_reached_def by auto
    have "t \<in> set (js_tokens s)"
      using store_step_observer(2) [OF step, of t] w known by (auto simp: may_write_core epoch_reached_def)
    with w k have "may_write s t" by (simp add: may_write_core observer_kept_def)
    with lost show False ..
  qed
qed

section \<open>Admitted positions\<close>

definition positions :: "string \<Rightarrow> int \<Rightarrow> journal \<Rightarrow> int list" where
  "positions a e db = map (fr_sequence \<circ> je_row) (filter (\<lambda>x. fr_agent (je_row x) = a \<and> fr_epoch (je_row x) = e) (jd_facts db))"

definition position_of :: "string \<Rightarrow> journal \<Rightarrow> int \<times> int" where
  "position_of a db = (case agent_observer a db of None \<Rightarrow> (0, 0) | Some c \<Rightarrow> (ob_last c, ob_max c))"

text \<open>In every epoch the admitted positions are a gap-free interval; that of the present epoch ends at
  the recorded position, and no fact is of a later epoch.\<close>

definition positions_ok :: "string \<Rightarrow> journal \<Rightarrow> bool" where
  "positions_ok a db \<longleftrightarrow>
     0 \<le> fst (position_of a db) \<and> fst (position_of a db) \<le> snd (position_of a db) \<and>
     (\<exists>n. 0 \<le> n \<and> n \<le> fst (position_of a db) \<and>
       positions a (observer_epoch a db) db = [n + 1..fst (position_of a db)]) \<and>
     (\<forall>e > observer_epoch a db. positions a e db = []) \<and>
     (\<forall>e. \<exists>n m. positions a e db = [n + 1..m])"

lemma positions_same: "jd_facts db' = jd_facts db \<Longrightarrow> positions a e db' = positions a e db"
  by (simp add: positions_def)

lemma positions_ok_cong:
  assumes "jd_facts db' = jd_facts db" "jd_observers db' = jd_observers db"
  shows "positions_ok a db' = positions_ok a db"
  using assms by (simp add: positions_ok_def positions_def position_of_def observer_epoch_def agent_observer_def)

lemma positions_ok_raise_max:
  assumes "positions_ok a db"
  shows "positions_ok a (raise_max b n db)"
proof -
  have "agent_observer a (raise_max b n db) =
      (if a = b then map_option (\<lambda>c. c\<lparr>ob_max := max (ob_max c) n\<rparr>) (agent_observer a db) else agent_observer a db)"
    by (rule agent_observer_update) (simp_all add: raise_max_def update_observer_def)
  then have "fst (position_of a (raise_max b n db)) = fst (position_of a db)"
    "snd (position_of a db) \<le> snd (position_of a (raise_max b n db)) \<or> position_of a db = (0, 0)"
    "fst (position_of a db) \<le> snd (position_of a db) \<Longrightarrow>
       fst (position_of a (raise_max b n db)) \<le> snd (position_of a (raise_max b n db))"
    by (auto simp: position_of_def split: option.splits)
  moreover have "observer_epoch a (raise_max b n db) = observer_epoch a db"
    by (rule observer_kept_epoch [OF raise_max_kept])
  ultimately show ?thesis
    using assms positions_same [of "raise_max b n db" db] by (auto simp: positions_ok_def)
qed

lemma positions_append:
  assumes "jd_facts db' = jd_facts db @ [x]"
  shows "positions a e db' = positions a e db @
    (if fr_agent (je_row x) = a \<and> fr_epoch (je_row x) = e then [fr_sequence (je_row x)] else [])"
  using assms by (simp add: positions_def)

lemma encode_position [simp]:
  "fr_epoch (encode_fact f) = fe_epoch (ef_envelope f)" "fr_sequence (encode_fact f) = fe_sequence (ef_envelope f)"
  by (cases "ef_body f"; simp add: encode_fact_def Let_def)+

lemma ingest_body_positions:
  assumes "ingest_body source tk tokens f now db = Inr (x, db')" "positions_ok a db"
  shows "positions_ok a db'"
proof -
  obtain res pub where x: "x = (res, pub)" by (cases x)
  from assms(1) [unfolded x] show ?thesis
  proof (cases rule: ingest_body_cases)
    case (duplicate c y)
    then show ?thesis using assms(2) by simp
  next
    case (refused c)
    then show ?thesis using assms(2) positions_ok_raise_max by simp
  next
    case (admitted c retained)
    let ?f = "\<lambda>o'. o'\<lparr>ob_last := fe_sequence (ef_envelope f), ob_max := max (ob_max o') (fe_sequence (ef_envelope f))\<rparr>"
    from admitted(8) have facts: "jd_facts db' = jd_facts db @ [\<lparr>je_sequence = jd_next_sequence db, je_row = encode_fact f\<rparr>]"
      by (elim ingest_next_Inr) simp
    have obs: "agent_observer a db' = (if a = tk_agent tk then map_option ?f (agent_observer a db) else agent_observer a db)"
      using ingest_next_rows(2) [OF admitted(8)] admitted(2) by (intro agent_observer_update) simp_all
    have epoch: "observer_epoch a db' = observer_epoch a db"
      by (rule observer_kept_epoch [OF ingest_body_kept [OF assms(1)]])
    note pos = positions_append [OF facts, simplified]
    from admitted(1) have c: "agent_observer (tk_agent tk) db = Some c" "ob_epoch c = tk_epoch tk"
      by (simp_all add: current_observer_Inr)
    show ?thesis
    proof (cases "a = tk_agent tk")
      case False
      then have "positions a e db' = positions a e db" for e using pos admitted(2) by auto
      moreover have "position_of a db' = position_of a db" using obs False by (simp add: position_of_def)
      ultimately show ?thesis using assms(2) epoch by (simp add: positions_ok_def)
    next
      case True
      then have at: "observer_epoch a db = tk_epoch tk" "position_of a db = (ob_last c, ob_max c)"
        "position_of a db' = (ob_last c + 1, max (ob_max c) (ob_last c + 1))"
        using c obs admitted(6) by (simp_all add: observer_epoch_def position_of_def)
      from assms(2) obtain n where n: "0 \<le> n" "n \<le> ob_last c" "positions a (tk_epoch tk) db = [n + 1..ob_last c]"
        by (auto simp: positions_ok_def at)
      have new: "positions a (tk_epoch tk) db' = [n + 1..ob_last c + 1]"
        using n pos True admitted(2,3,6) upto_rec2 [of "n + 1" "ob_last c + 1"] by simp
      have old: "positions a e db' = positions a e db" if "e \<noteq> tk_epoch tk" for e
        using pos that admitted(3) by simp
      have "\<exists>n m. positions a e db' = [n + 1..m]" for e
        using new old [of e] assms(2) by (cases "e = tk_epoch tk") (auto simp: positions_ok_def)
      moreover have "positions a e db' = []" if "tk_epoch tk < e" for e
        using old [of e] that assms(2) by (simp add: positions_ok_def at)
      moreover have "\<exists>n. 0 \<le> n \<and> n \<le> ob_last c + 1 \<and> positions a (tk_epoch tk) db' = [n + 1..ob_last c + 1]"
        using n new by (intro exI [of _ n]) simp
      moreover have "0 \<le> ob_last c" using n by simp
      ultimately show ?thesis unfolding positions_ok_def epoch at by simp
    qed
  qed
qed

lemma bind_observer_positions:
  assumes "bind_observer_body i db = Inr (t, db')" "positions_ok a db"
  shows "positions_ok a db'"
proof (rule bind_observer_moves [OF assms(1)])
  fix c
  assume c: "agent_observer (oi_agent i) db' = Some c" "ob_epoch c = observer_epoch (oi_agent i) db + 1"
    "\<exists>subject observer. c = observer_after i subject observer db" "jd_facts db' = jd_facts db"
    and other: "\<And>a. a \<noteq> oi_agent i \<Longrightarrow> agent_observer a db' = agent_observer a db \<and> observer_kept a db db'"
  note same = positions_same [OF c(4)]
  show ?thesis
  proof (cases "a = oi_agent i")
    case False
    then show ?thesis
      using assms(2) other [OF False] by (simp add: positions_ok_def same position_of_def observer_epoch_def)
  next
    case True
    have "(ob_last c, ob_max c) \<in> {(0, 0), position_of a db}"
      using c(3) True by (auto simp: observer_after_def Let_def position_of_def split: option.splits if_splits)
    moreover have "0 \<le> fst (position_of a db) \<and> fst (position_of a db) \<le> snd (position_of a db)"
      using assms(2) by (simp add: positions_ok_def)
    ultimately have "0 \<le> ob_last c \<and> ob_last c \<le> ob_max c" by (cases "position_of a db") auto
    moreover have "position_of a db' = (ob_last c, ob_max c)" "observer_epoch a db' = observer_epoch a db + 1"
      using c True by (simp_all add: position_of_def observer_epoch_def)
    moreover have "positions a (observer_epoch a db + 1) db = []" using assms(2) by (simp add: positions_ok_def)
    ultimately show ?thesis
      using assms(2) by (auto simp: positions_ok_def same intro: exI [of _ "ob_last c"])
  qed
qed

lemma store_step_positions:
  assumes "store_step s s'" "positions_ok a (js_db s)"
  shows "positions_ok a (js_db s')"
  using assms(1)
proof cases
  case (bound b r1)
  from bound show ?thesis
  proof (cases rule: bind_observer_cases)
    case (bound t' db')
    then show ?thesis using bind_observer_positions [OF bound(1) assms(2)] by simp
  qed (use assms(2) in simp)
next
  case (positioned source tk latest r2)
  then show ?thesis
    using assms(2) by (elim observe_position_cases) (simp_all add: positions_ok_raise_max)
next
  case (ingested source tk v now r3)
  from ingested show ?thesis
  proof (cases rule: ingest_cases)
    case (committed res pub db')
    then show ?thesis using ingest_body_positions [OF committed(3) assms(2)] by simp
  qed (use assms(2) in simp)
next
  case (registered i r db')
  then show ?thesis
    using register_runtime_grows [of i "js_db s" r db'] positions_ok_cong [of db' "js_db s"] assms(2)
    by (simp add: grows_identities_def)
next
  case (tracked fresh m r db')
  then show ?thesis
    using track_message_grows [of fresh m "js_db s" r db'] positions_ok_cong [of db' "js_db s"] assms(2)
    by (simp add: grows_identities_def)
next
  case (turned i r db')
  then show ?thesis
    using track_native_turn_grows [of i "js_db s" r db'] positions_ok_cong [of db' "js_db s"] assms(2)
    by (simp add: grows_identities_def)
next
  case (materialized fresh i m t mode db')
  then show ?thesis
    using materialize_identity_grows [of fresh i m t "js_db s" mode db'] positions_ok_cong [of db' "js_db s"] assms(2)
    by (simp add: grows_identities_def)
next
  case (recovered rs)
  then show ?thesis using positions_ok_cong [of "js_db s'" "js_db s"] assms(2) by simp
qed (use assms(2) in simp)

lemma empty_positions_ok: "positions_ok a empty_journal"
  by (simp add: positions_ok_def positions_def position_of_def observer_epoch_def agent_observer_def
      empty_journal_def select_first_def)
    (rule conjI, rule exI [of _ 0], simp, blast)

section \<open>Tokens\<close>

lemma store_step_tokens:
  assumes "store_step s s'" "\<forall>t \<in> set (js_tokens s). epoch_reached s t"
  shows "\<forall>t \<in> set (js_tokens s'). epoch_reached s' t"
proof
  fix t assume t: "t \<in> set (js_tokens s')"
  show "epoch_reached s' t"
  proof (cases "t \<in> set (js_tokens s)")
    case True
    then show ?thesis using assms observer_fence.known_step by blast
  next
    case False
    with assms(1) t show ?thesis
    proof cases
      case (bound b r1)
      from bound show ?thesis
      proof (cases rule: bind_observer_cases)
        case (bound t' db')
        then have "t = t'" using t False by auto
        with bound show ?thesis
          by (elim bind_observer_moves) (simp add: epoch_reached_def observer_epoch_def observer_token_of_def)
      qed (use t False in simp)
    next
      case (positioned source tk latest r2)
      then show ?thesis using t False by (elim observe_position_cases) simp_all
    next
      case (ingested source tk v now r3)
      then show ?thesis using t False by (elim ingest_cases) simp_all
    qed (use t False in simp_all)
  qed
qed

lemma reachable_tokens: "reachable_store s \<Longrightarrow> \<forall>t \<in> set (js_tokens s). epoch_reached s t"
  unfolding reachable_store_def by (erule rtranclp_induct) (simp add: empty_store_def, rule store_step_tokens)

lemma reachable_positions: "reachable_store s \<Longrightarrow> positions_ok a (js_db s)"
  unfolding reachable_store_def
  by (erule rtranclp_induct) (simp add: empty_store_def empty_positions_ok, rule store_step_positions)

lemma reachable_steps: "reachable_store s \<Longrightarrow> store_step\<^sup>*\<^sup>* s s' \<Longrightarrow> reachable_store s'"
  unfolding reachable_store_def by (rule rtranclp_trans)

text \<open>A second binding takes the right to write from every earlier token of the agent.\<close>

lemma bind_observer_supersedes:
  assumes "reachable_store s" "bind_observer b s = (Inr t', s')" "t \<in> set (js_tokens s)" "tk_agent t = oi_agent b"
  shows "epoch_reached s' t \<and> \<not> may_write s' t"
proof -
  have "epoch_reached s t" using reachable_tokens [OF assms(1)] assms(3) by blast
  moreover from assms(2) obtain db' where b: "bind_observer_body b (js_db s) = Inr (t', db')"
    "s' = s\<lparr>js_db := db', js_tokens := js_tokens s @ [t']\<rparr>"
    by (auto simp: bind_observer_def transaction_Inr split: sum.splits prod.splits)
  from b(1) have "observer_epoch (oi_agent b) db' = observer_epoch (oi_agent b) (js_db s) + 1"
    by (elim bind_observer_moves) (simp add: observer_epoch_def)
  ultimately show ?thesis
    using assms(4) b(2) by (auto simp: epoch_reached_def may_write_core observer_epoch_core)
qed

lemma ingest_rejected:
  assumes "\<not> may_write s t"
  shows "\<exists>e. ingest source t v now s = (Inl e, s)"
proof -
  obtain r s' where i: "ingest source t v now s = (r, s')" by (cases "ingest source t v now s")
  then show ?thesis
  proof (cases rule: ingest_cases)
    case (committed res pub db')
    then obtain c where "current_observer source t (js_tokens s) (js_db s) = Inr c"
      by (auto simp: ingest_body_def Let_def result_elims)
    moreover from this have "source = tk_source t" by (simp add: current_observer_Inr)
    ultimately show ?thesis using assms by (simp add: may_write_def)
  qed (simp add: i)
qed

section \<open>A concrete run\<close>

text \<open>A runtime is registered and observed, and its first fact is ingested.\<close>

definition demo_runtime :: runtime_input where
  "demo_runtime = \<lparr>ni_agent = ''agent'', ni_generation = ''gen'', ni_runtime = ''rt'', ni_provider = CodexProvider,
     ni_authority = AuthorityTyped, ni_config = 1, ni_created = 0\<rparr>"

definition demo_binding :: "int \<Rightarrow> string \<Rightarrow> observer_input" where
  "demo_binding epoch source = \<lparr>oi_agent = ''agent'', oi_subject = ''rt'', oi_observer = ''rt'', oi_daemon = ''daemon'',
     oi_source = source, oi_expected = epoch, oi_bound_at = 0, oi_recovery = None\<rparr>"

definition demo_token :: observer_token where
  "demo_token = \<lparr>tk_agent = ''agent'', tk_runtime = ''rt'', tk_generation = ''gen'', tk_observer_runtime = ''rt'',
     tk_observer_generation = ''gen'', tk_daemon = ''daemon'', tk_epoch = 1, tk_recovery = None, tk_source = ''src'',
     tk_last = 0, tk_max = 0\<rparr>"

definition demo_ready :: "int \<Rightarrow> execution_fact" where
  "demo_ready n = \<lparr>ef_envelope = \<lparr>fe_fact = ''fact'', fe_agent = ''agent'', fe_execution_generation = ''gen'',
     fe_runtime_generation = ''rt'', fe_epoch = 1, fe_sequence = n, fe_native_event = None, fe_observed_at = 5\<rparr>,
     ef_body = RuntimeFact RtReady None\<rparr>"

definition demo_registered :: journal_store where
  "demo_registered = empty_store\<lparr>js_db := snd (register_runtime demo_runtime (js_db empty_store))\<rparr>"

definition demo_store :: journal_store where
  "demo_store = snd (bind_observer (demo_binding 0 ''src'') demo_registered)"

definition demo_after :: "(journal_error + ingestion \<times> runtime_projection option) \<times> journal_store" where
  "demo_after = ingest ''src'' demo_token (demo_ready 1) 5 demo_store"

lemma demo_store_reachable: "reachable_store demo_store"
  unfolding reachable_store_def
proof (rule rtranclp.rtrancl_into_rtrancl [OF r_into_rtranclp])
  show "store_step empty_store demo_registered"
    unfolding demo_registered_def by (rule store_step.registered) (rule prod.collapse [symmetric])
  show "store_step demo_registered demo_store"
    unfolding demo_store_def by (rule store_step.bound) (rule prod.collapse [symmetric])
qed

lemma demo_after_reachable: "reachable_store (snd demo_after)"
  unfolding demo_after_def
  by (rule reachable_steps [OF demo_store_reachable r_into_rtranclp], rule store_step.ingested, rule prod.collapse [symmetric])

lemma demo_store_token: "demo_token \<in> set (js_tokens demo_store)"
  by code_simp

text \<open>What an admitted fact and a refused position leave behind.\<close>

definition next_admitted :: "execution_fact \<Rightarrow> observer_row \<Rightarrow> journal \<Rightarrow> journal \<Rightarrow> bool" where
  "next_admitted f c db db' \<longleftrightarrow> fe_sequence (ef_envelope f) = ob_last c + 1 \<and>
     jd_facts db' = jd_facts db @ [\<lparr>je_sequence = jd_next_sequence db, je_row = encode_fact f\<rparr>] \<and>
     map_option ob_last (agent_observer (fe_agent (ef_envelope f)) db') = Some (ob_last c + 1)"

definition position_noted :: "execution_fact \<Rightarrow> observer_row \<Rightarrow> journal \<Rightarrow> journal \<Rightarrow> bool" where
  "position_noted f c db db' \<longleftrightarrow> jd_facts db' = jd_facts db \<and>
     map_option (\<lambda>o'. (ob_last o', ob_max o')) (agent_observer (fe_agent (ef_envelope f)) db') =
       Some (ob_last c, max (ob_max c) (fe_sequence (ef_envelope f)))"

lemma ingest_publishes_replay:
  assumes "store_ok s" "ingest source tk v now s = (Inr (res, Some pub), s')"
  shows "replay_runtime (fe_runtime_generation (ef_envelope v)) (js_db s') = Inr pub"
  using assms(2)
proof (cases rule: ingest_cases)
  case (committed res' pub' db')
  have ok: "journal_ok (js_db s)" "\<forall>t \<in> set (js_tokens s). token_ok (js_db s) t"
    using assms(1) by (simp_all add: store_ok_def)
  from committed(3) show ?thesis
  proof (cases rule: ingest_body_cases)
    case (admitted c retained)
    then have "token_ok (js_db s) tk" using ok(2) by (simp add: current_observer_Inr)
    note rows = ingest_identity_rows [OF admitted(4) ok(1) this admitted(2)]
    then obtain r where "runtime_by_id (fe_runtime_generation (ef_envelope v)) (js_db s) = Some r"
      "er_agent r = fe_agent (ef_envelope v)" by blast
    from ingest_next_replay [OF ok(1) committed(2) this rows(2)] admitted committed show ?thesis by simp
  qed (use committed in simp_all)
qed simp

section \<open>Properties\<close>

text \<open>C34: A fact row stores a valid fact without loss: decoding the columns written for it, with the provider
  identifiers of its turn, gives the fact back.\<close>

theorem fact_row_roundtrip:
  assumes "schema_ok f"
  shows "decode_fact (encode_fact f) (fact_joined (ef_body f)) = Inr f"
  using assms by (rule decode_encode)

theorem fact_row_roundtrip_witness:
  "decode_fact (encode_fact (demo_ready 1)) None = Inr (demo_ready 1)"
  using fact_row_roundtrip [of "demo_ready 1"] by (simp add: fact_joined_def demo_ready_def schema_ok_def envelope_ok_def
      execution_identity_def is_alnum_def safe_integer_from_def max_safe_integer_def)

text \<open>C20: In every reachable store the projection that ingestion publishes with a fact, computed from the
  previous projection and this fact alone, is the replay of the runtime's whole journal after the write.\<close>

theorem published_projection_is_replay:
  assumes "reachable_store s" "ingest source tk v now s = (Inr (res, Some pub), s')"
  shows "replay_runtime (fe_runtime_generation (ef_envelope v)) (js_db s') = Inr pub"
  using reachable_ok [OF assms(1)] assms(2) by (rule ingest_publishes_replay)

theorem published_projection_is_replay_witness:
  "\<exists>p. replay_runtime ''rt'' (js_db (snd demo_after)) = Inr p \<and> ep_runtime (xp_projection p) = RtReady"
proof -
  have "(case fst demo_after of Inr (r, Some p) \<Rightarrow> ep_runtime (xp_projection p) = RtReady | _ \<Rightarrow> False)"
    by code_simp
  then obtain r p where p: "fst demo_after = Inr (r, Some p)" "ep_runtime (xp_projection p) = RtReady"
    by (auto split: sum.splits prod.splits option.splits)
  have "ingest ''src'' demo_token (demo_ready 1) 5 demo_store = (Inr (r, Some p), snd demo_after)"
    using p(1) by (simp add: demo_after_def prod_eq_iff)
  from published_projection_is_replay [OF demo_store_reachable this] p(2) show ?thesis
    by (simp add: demo_ready_def)
qed

text \<open>C22: Once another observer has been bound for its agent, a token never writes again: whatever steps follow,
  a fact ingested with it is refused and nothing is changed.\<close>

theorem superseded_observer_stays_fenced:
  assumes "reachable_store s" "t \<in> set (js_tokens s)" "bind_observer b s = (Inr t', s1)" "oi_agent b = tk_agent t"
    and "store_step\<^sup>*\<^sup>* s1 s2"
  shows "\<exists>e. ingest source t v now s2 = (Inl e, s2)"
  using observer_fence.lost_forever [OF assms(5)] bind_observer_supersedes [OF assms(1,3,2)] assms(4)
  by (intro ingest_rejected) simp

theorem superseded_observer_stays_fenced_witness:
  "\<exists>e. ingest ''src'' demo_token (demo_ready 1) 5 (snd (bind_observer (demo_binding 1 ''src'') demo_store)) =
     (Inl e, snd (bind_observer (demo_binding 1 ''src'') demo_store))"
proof -
  have "\<not> isl (fst (bind_observer (demo_binding 1 ''src'') demo_store))" by code_simp
  then obtain t where t: "bind_observer (demo_binding 1 ''src'') demo_store =
      (Inr t, snd (bind_observer (demo_binding 1 ''src'') demo_store))"
    by (cases "bind_observer (demo_binding 1 ''src'') demo_store"; cases "fst (bind_observer (demo_binding 1 ''src'') demo_store)")
      auto
  show ?thesis
    by (rule superseded_observer_stays_fenced [OF demo_store_reachable demo_store_token t _ rtranclp.rtrancl_refl])
      (simp add: demo_binding_def demo_token_def)
qed

text \<open>The facts of an agent that were admitted in one epoch of its observer form an interval of positions
  without a gap, in order; the interval of the present epoch ends at the recorded position, which is not
  beyond the highest position seen.\<close>

theorem admitted_positions_contiguous:
  assumes "reachable_store s" "agent_observer a (js_db s) = Some c"
  shows "0 \<le> ob_last c \<and> ob_last c \<le> ob_max c \<and>
    (\<exists>n. 0 \<le> n \<and> n \<le> ob_last c \<and> positions a (ob_epoch c) (js_db s) = [n + 1..ob_last c]) \<and>
    (\<exists>n m. positions a e (js_db s) = [n + 1..m])"
  using reachable_positions [OF assms(1), of a] assms(2)
  by (simp add: positions_ok_def position_of_def observer_epoch_def)

theorem admitted_positions_contiguous_witness:
  "\<exists>n. 0 \<le> n \<and> positions ''agent'' 1 (js_db (snd demo_after)) = [n + 1..1]"
proof -
  have "map_option (\<lambda>c. (ob_epoch c, ob_last c)) (agent_observer ''agent'' (js_db (snd demo_after))) = Some (1, 1)"
    by code_simp
  then obtain c where "agent_observer ''agent'' (js_db (snd demo_after)) = Some c" "ob_epoch c = 1" "ob_last c = 1"
    by auto
  then show ?thesis
    using admitted_positions_contiguous [OF demo_after_reachable, of "''agent''" c] by auto
qed

text \<open>The outcomes of ingestion. A fact is accepted only at the position after the last one of the current
  observer: then one row is appended and the position advances by one. A fact further on is reported as a gap,
  a fact over the retention budget as such; neither changes the journal of facts, both raise the highest position
  seen. A duplicate either repeats a stored fact and changes nothing, or is a native event that was already
  projected, whose fact is recorded at the next position.\<close>

theorem ingest_outcomes:
  assumes "ingest source tk v now s = (Inr (res, pub), s')"
  shows "\<exists>c. agent_observer (tk_agent tk) (js_db s) = Some c \<and> ob_epoch c = tk_epoch tk \<and>
    (case res of
       Accepted n p \<Rightarrow> n = jd_next_sequence (js_db s) \<and> next_admitted v c (js_db s) (js_db s')
     | Duplicate n p \<Rightarrow> if n = jd_next_sequence (js_db s) \<and> pub \<noteq> None then next_admitted v c (js_db s) (js_db s')
         else s' = s \<and> list_ex (same_position v) (jd_facts (js_db s))
     | Gap e n \<Rightarrow> e = ob_last c + 1 \<and> n = fe_sequence (ef_envelope v) \<and> e < n \<and> position_noted v c (js_db s) (js_db s')
     | OverRetention l e n \<Rightarrow> e = ob_last c + 1 \<and> n = fe_sequence (ef_envelope v) \<and>
         position_noted v c (js_db s) (js_db s'))"
  using assms
proof (cases rule: ingest_cases)
  case (committed res' pub' db')
  from committed(3) show ?thesis
  proof (cases rule: ingest_body_cases)
    case (duplicate c x)
    then show ?thesis
      using committed select_first_SomeD [OF duplicate(2)] by (auto simp: current_observer_Inr list_ex_iff)
  next
    case (refused c)
    then have "agent_observer (tk_agent tk) db' =
        map_option (\<lambda>o'. o'\<lparr>ob_max := max (ob_max o') (fe_sequence (ef_envelope v))\<rparr>) (agent_observer (tk_agent tk) (js_db s))"
      using agent_observer_update [of "\<lambda>o'. o'\<lparr>ob_max := max (ob_max o') (fe_sequence (ef_envelope v))\<rparr>" db' "tk_agent tk"
          "js_db s" "tk_agent tk"] by (simp add: raise_max_def update_observer_def)
    then show ?thesis using refused committed by (auto simp: current_observer_Inr position_noted_def)
  next
    case (admitted c retained)
    note rows = ingest_next_rows(2) [OF admitted(8)]
    have "agent_observer (tk_agent tk) db' = map_option (\<lambda>o'. o'\<lparr>ob_last := fe_sequence (ef_envelope v),
        ob_max := max (ob_max o') (fe_sequence (ef_envelope v))\<rparr>) (agent_observer (tk_agent tk) (js_db s))"
      using agent_observer_update [OF _ rows, of "tk_agent tk"] admitted(2) by simp
    with admitted have "next_admitted v c (js_db s) db' \<and> agent_observer (tk_agent tk) (js_db s) = Some c \<and>
        ob_epoch c = tk_epoch tk"
      by (auto simp: current_observer_Inr next_admitted_def elim!: ingest_next_Inr)
    moreover from admitted(8) have "pub' \<noteq> None \<and> (\<exists>p. res' = Accepted (jd_next_sequence (js_db s)) p \<or>
        res' = Duplicate (jd_next_sequence (js_db s)) p)"
      by (elim ingest_next_Inr) (auto split: if_splits)
    ultimately show ?thesis using committed by auto
  qed
qed simp

theorem ingest_outcomes_witness:
  "\<exists>c. agent_observer ''agent'' (js_db demo_store) = Some c \<and>
     position_noted (demo_ready 3) c (js_db demo_store) (js_db (snd (ingest ''src'' demo_token (demo_ready 3) 5 demo_store)))"
proof -
  have "(case fst (ingest ''src'' demo_token (demo_ready 3) 5 demo_store) of Inr (r, None) \<Rightarrow> r = Gap 1 3 | _ \<Rightarrow> False)"
    by code_simp
  then have "fst (ingest ''src'' demo_token (demo_ready 3) 5 demo_store) = Inr (Gap 1 3, None)"
    by (auto split: sum.splits prod.splits option.splits)
  then have "ingest ''src'' demo_token (demo_ready 3) 5 demo_store =
      (Inr (Gap 1 3, None), snd (ingest ''src'' demo_token (demo_ready 3) 5 demo_store))"
    by (simp add: prod_eq_iff)
  from ingest_outcomes [OF this] show ?thesis by (auto simp: demo_token_def)
qed

end
