(* ===== verification/ProjectionCache.thy ===== *)
theory ProjectionCache
  imports ExecutionProtocol
begin

text \<open>
  The cache of projections and budgets in front of the journal
  (\<^verbatim>\<open>apps/desktop/daemon/execution-shadow-store.ts\<close>): bounded maps in the order of their last use, valid for
  one stamp of the database. The stamp is a counter that every write raises; another connection that
  changes the database raises it too, which is what SQLite documents of \<open>total_changes\<close> and
  \<open>data_version\<close>. The store with the cache refines the store without it.
\<close>

section \<open>The cache\<close>

type_synonym cached_entry = "string \<times> runtime_projection \<times> int"

record projection_cache =
  pc_entries :: "cached_entry list"
  pc_budgets :: "(string \<times> retained_budget) list"
  pc_weight :: int
  pc_stamp :: "nat option"

definition max_cached_runtimes :: nat where
  "max_cached_runtimes = 16"

definition max_cached_entries :: int where
  "max_cached_entries = 4096"

definition max_cached_budgets :: nat where
  "max_cached_budgets = 16"

definition cleared :: projection_cache where
  "cleared = \<lparr>pc_entries = [], pc_budgets = [], pc_weight = 0, pc_stamp = None\<rparr>"

definition synchronize :: "nat \<Rightarrow> projection_cache \<Rightarrow> projection_cache" where
  "synchronize stamp c = (if pc_stamp c = Some stamp then c else cleared\<lparr>pc_stamp := Some stamp\<rparr>)"

definition remember_budget :: "string \<Rightarrow> retained_budget \<Rightarrow> projection_cache \<Rightarrow> projection_cache" where
  "remember_budget a b c =
     (let bs = filter (\<lambda>x. fst x \<noteq> a) (pc_budgets c);
          bs' = (if max_cached_budgets \<le> length bs then tl bs else bs)
      in c\<lparr>pc_budgets := bs' @ [(a, b)]\<rparr>)"

definition cached_budget :: "string \<Rightarrow> journal \<Rightarrow> projection_cache \<Rightarrow> retained_budget \<times> projection_cache" where
  "cached_budget a db c =
     (let b = (case map_of (pc_budgets c) a of Some b \<Rightarrow> b | None \<Rightarrow> retained_budget a db)
      in (b, remember_budget a b c))"

text \<open>The weight of a projection counts its turns and operations.\<close>

definition projection_weight :: "runtime_projection \<Rightarrow> int" where
  "projection_weight v =
     (let ts = ep_turns (xp_projection v)
      in 1 + int (card (dom ts)) * 4 + (\<Sum>t \<in> dom ts. int (card (dom (tp_operations (the (ts t)))))))"

text \<open>The loop that makes room: the oldest entry goes until both limits hold. \<open>None\<close> is the exception on the
  missing entry of an empty map.\<close>

fun evict :: "int \<Rightarrow> cached_entry list \<Rightarrow> int \<Rightarrow> (cached_entry list \<times> int) option" where
  "evict w es wt =
     (if max_cached_runtimes \<le> length es \<or> max_cached_entries < wt + w
      then (case es of [] \<Rightarrow> None | (_, _, x) # es' \<Rightarrow> evict w es' (wt - x))
      else Some (es, wt))"

declare evict.simps [simp del]

definition remember_projection :: "string \<Rightarrow> runtime_projection \<Rightarrow> projection_cache \<Rightarrow> projection_cache option" where
  "remember_projection rt v c =
     (let old = map_of (pc_entries c) rt;
          es = filter (\<lambda>x. fst x \<noteq> rt) (pc_entries c);
          wt = pc_weight c - (case old of None \<Rightarrow> 0 | Some (_, w) \<Rightarrow> w);
          w = projection_weight v
      in if max_cached_entries < w then Some (c\<lparr>pc_entries := es, pc_weight := wt\<rparr>)
         else case evict w es wt of
             None \<Rightarrow> None
           | Some (es', wt') \<Rightarrow> Some (c\<lparr>pc_entries := es' @ [(rt, v, w)], pc_weight := wt' + w\<rparr>))"

text \<open>The errors of the cached operations: those of the store, and the exception of the loop.\<close>

datatype cache_error = StoreFailed journal_error | MissingEntry

definition from_store :: "journal_error + 'a \<Rightarrow> cache_error + 'a" where
  "from_store m = (case m of Inl e \<Rightarrow> Inl (StoreFailed e) | Inr a \<Rightarrow> Inr a)"

definition cached_projection ::
  "string \<Rightarrow> journal \<Rightarrow> projection_cache \<Rightarrow> cache_error + runtime_projection \<times> projection_cache" where
  "cached_projection rt db c =
     (let agent = map_option er_agent (runtime_by_id rt db);
          (over, c1) = (case agent of None \<Rightarrow> (False, c)
            | Some a \<Rightarrow> (case cached_budget a db c of (b, c1) \<Rightarrow> (exceeded_budget b \<noteq> None, c1)))
      in if over then Inl (StoreFailed (Rejected RetentionLimit))
         else case map_of (pc_entries c1) rt of
           Some (v, w) \<Rightarrow> Inr (v, c1\<lparr>pc_entries := filter (\<lambda>x. fst x \<noteq> rt) (pc_entries c1) @ [(rt, v, w)]\<rparr>)
         | None \<Rightarrow>
             bind_result (from_store (lift_protocol (replay_runtime rt db))) (\<lambda>v.
             bind_result (require (remember_projection rt v c1) MissingEntry) (\<lambda>c2. Inr (v, c2))))"

section \<open>The store with its cache\<close>

record cached_store =
  cs_store :: journal_store
  cs_stamp :: nat
  cs_cache :: projection_cache

text \<open>A transaction of the store: \<open>n\<close> rows are written. Success adopts the stamp of the own writes, failure
  clears the cache.\<close>

definition with_cache ::
  "nat \<Rightarrow> (journal_store \<Rightarrow> (journal_error + 'a) \<times> journal_store) \<Rightarrow> cached_store \<Rightarrow> (journal_error + 'a) \<times> cached_store" where
  "with_cache n body s =
     (let c = synchronize (cs_stamp s) (cs_cache s)
      in case body (cs_store s) of
           (Inl e, s') \<Rightarrow> (Inl e, \<lparr>cs_store = s', cs_stamp = cs_stamp s + n, cs_cache = cleared\<rparr>)
         | (Inr a, s') \<Rightarrow> (Inr a, \<lparr>cs_store = s', cs_stamp = cs_stamp s + n, cs_cache = c\<lparr>pc_stamp := Some (cs_stamp s + n)\<rparr>\<rparr>))"

text \<open>A position that is already covered is acknowledged without a transaction.\<close>

definition cached_observe_position ::
  "nat \<Rightarrow> string \<Rightarrow> observer_token \<Rightarrow> int \<Rightarrow> cached_store \<Rightarrow> (journal_error + unit) \<times> cached_store" where
  "cached_observe_position n source t latest s =
     (case bind_result (reject_unless (safe_integer_from 0 latest) InvalidFact) (\<lambda>_.
           bind_result (current_observer source t (js_tokens (cs_store s)) (js_db (cs_store s))) (\<lambda>c.
           bind_result (reject_unless (ob_last c \<le> latest) SourceGap) (\<lambda>_. Inr (latest \<le> ob_max c)))) of
        Inl e \<Rightarrow> (Inl e, s)
      | Inr True \<Rightarrow> (Inr (), s)
      | Inr False \<Rightarrow> with_cache n (observe_source_position source t latest) s)"

definition cached_ingest_next ::
  "observer_token \<Rightarrow> execution_fact \<Rightarrow> int \<Rightarrow> observer_row \<Rightarrow> (turn_row \<times> runtime_row) option \<Rightarrow> journal
   \<Rightarrow> projection_cache \<Rightarrow> cache_error + (ingestion \<times> runtime_projection option) \<times> journal \<times> projection_cache" where
  "cached_ingest_next tk f now current retained db c =
     bind_result (from_store (is_replay db f)) (\<lambda>replay.
     bind_result (from_store (if replay then Inr () else lifecycle_fences tk f retained db)) (\<lambda>_.
     bind_result (cached_projection (fe_runtime_generation (ef_envelope f)) db c) (\<lambda>(previous, c1).
     bind_result (from_store (advance_projection f replay (jd_next_sequence db) previous)) (\<lambda>next'.
     bind_result (from_store (ingest_writes f now current retained replay next' db)) (\<lambda>(r, db').
       Inr ((r, Some next'), db', c1))))))"

text \<open>The body of the transaction; the new budget comes with the projection to be published.\<close>

definition cached_ingest_body ::
  "string \<Rightarrow> observer_token \<Rightarrow> observer_token list \<Rightarrow> execution_fact \<Rightarrow> int \<Rightarrow> journal \<Rightarrow> projection_cache
   \<Rightarrow> cache_error + (ingestion \<times> runtime_projection option) \<times> journal \<times> projection_cache \<times> retained_budget" where
  "cached_ingest_body source tk tokens f now db c =
     (let e = ef_envelope f in
     bind_result (from_store (current_observer source tk tokens db)) (\<lambda>current.
     bind_result (from_store (reject_unless (fe_epoch e = tk_epoch tk) StaleObserver)) (\<lambda>_.
     bind_result (from_store (reject_unless (fe_agent e = tk_agent tk) IdentityMismatch)) (\<lambda>_.
     bind_result (from_store (ingest_identity tk f db)) (\<lambda>retained.
     case select_first (same_position f) (jd_facts db) of
       Some x \<Rightarrow>
         bind_result (from_store (lift_protocol (stored_fact db (je_row x)))) (\<lambda>g.
           if g \<noteq> f then Inl (StoreFailed (Rejected SequenceConflict))
           else Inr ((Duplicate (je_sequence x) (ob_last current < ob_max current), None), db, c, (0, 0)))
     | None \<Rightarrow>
        (let expected = ob_last current + 1
         in if fe_sequence e < expected then Inl (StoreFailed (Rejected SequenceConflict))
            else
             (case cached_budget (fe_agent e) db c of (kept, c1) \<Rightarrow>
               let budget = add_budget (encode_fact f) kept
               in case exceeded_budget budget of
                    Some l \<Rightarrow> Inr ((OverRetention l expected (fe_sequence e), None),
                      raise_max (fe_agent e) (fe_sequence e) db, c1, budget)
                  | None \<Rightarrow>
                     if expected < fe_sequence e then
                       Inr ((Gap expected (fe_sequence e), None), raise_max (fe_agent e) (fe_sequence e) db, c1, budget)
                     else bind_result (cached_ingest_next tk f now current retained db c1)
                       (\<lambda>(r, db', c2). Inr (r, db', c2, budget)))))))))"

text \<open>Ingestion publishes the projection and the budget after the commit.\<close>

definition publish ::
  "execution_fact \<Rightarrow> runtime_projection option \<Rightarrow> retained_budget \<Rightarrow> projection_cache \<Rightarrow> cache_error + projection_cache" where
  "publish f p b c =
     (case p of
        None \<Rightarrow> Inr c
      | Some v \<Rightarrow> bind_result (require (remember_projection (fe_runtime_generation (ef_envelope f)) v c) MissingEntry)
          (\<lambda>c'. Inr (remember_budget (fe_agent (ef_envelope f)) b c')))"

definition cached_ingest ::
  "nat \<Rightarrow> string \<Rightarrow> observer_token \<Rightarrow> execution_fact \<Rightarrow> int \<Rightarrow> cached_store
   \<Rightarrow> (cache_error + ingestion \<times> runtime_projection option) \<times> cached_store" where
  "cached_ingest n source tk f now s =
     (if \<not> schema_ok f then (Inl (StoreFailed (Rejected InvalidFact)), s)
      else if tk \<notin> set (js_tokens (cs_store s)) then (Inl (StoreFailed (Rejected StaleObserver)), s)
      else if \<not> execution_identity source then (Inl (StoreFailed (Rejected InvalidFact)), s)
      else if source \<noteq> tk_source tk then (Inl (StoreFailed (Rejected IdentityMismatch)), s)
      else
       (case cached_ingest_body source tk (js_tokens (cs_store s)) f now (js_db (cs_store s))
            (synchronize (cs_stamp s) (cs_cache s)) of
          Inl e \<Rightarrow> (Inl e, s\<lparr>cs_stamp := cs_stamp s + n, cs_cache := cleared\<rparr>)
        | Inr (r, db, c, b) \<Rightarrow>
           (let s' = \<lparr>cs_store = (cs_store s)\<lparr>js_db := db\<rparr>, cs_stamp = cs_stamp s + n,
                  cs_cache = c\<lparr>pc_stamp := Some (cs_stamp s + n)\<rparr>\<rparr>
            in case publish f (snd r) b (cs_cache s') of
                 Inl e \<Rightarrow> (Inl e, s')
               | Inr c' \<Rightarrow> (Inr r, s'\<lparr>cs_cache := c'\<rparr>))))"

text \<open>Reading a projection: inside a transaction of the caller the cache is not used.\<close>

definition project_runtime ::
  "bool \<Rightarrow> string \<Rightarrow> cached_store \<Rightarrow> (cache_error + runtime_projection) \<times> cached_store" where
  "project_runtime caller_transaction rt s =
     (if \<not> execution_identity rt then (Inl (StoreFailed (Rejected InvalidFact)), s)
      else if caller_transaction then
        (from_store (lift_protocol (replay_runtime rt (js_db (cs_store s)))), s\<lparr>cs_cache := cleared\<rparr>)
      else case cached_projection rt (js_db (cs_store s)) (synchronize (cs_stamp s) (cs_cache s)) of
          Inl e \<Rightarrow> (Inl e, s\<lparr>cs_cache := cleared\<rparr>)
        | Inr (v, c) \<Rightarrow> (Inr v, s\<lparr>cs_cache := c\<lparr>pc_stamp := Some (cs_stamp s)\<rparr>\<rparr>))"

end
