(* ===== verification/CacheRefinement.thy ===== *)
theory CacheRefinement
  imports ProjectionCache "HOL-Library.Sublist"
begin

text \<open>
  The cache is bounded, its eviction loop always ends with room for the new entry, and the store with
  the cache gives the answers of the store without it, also when other connections write between two
  operations.
\<close>

section \<open>Sizes\<close>

abbreviation entry_weight :: "cached_entry \<Rightarrow> int" where
  "entry_weight x \<equiv> snd (snd x)"

definition cache_sizes :: "projection_cache \<Rightarrow> bool" where
  "cache_sizes c \<longleftrightarrow>
     pc_weight c = sum_list (map entry_weight (pc_entries c)) \<and> pc_weight c \<le> max_cached_entries \<and>
     list_all (\<lambda>(_, v, w). w = projection_weight v) (pc_entries c) \<and>
     length (pc_entries c) \<le> max_cached_runtimes \<and> distinct (map fst (pc_entries c)) \<and>
     length (pc_budgets c) \<le> max_cached_budgets \<and> distinct (map fst (pc_budgets c))"

lemma projection_weight_pos: "0 < projection_weight v"
  unfolding projection_weight_def Let_def by (intro add_pos_nonneg sum_nonneg) auto

lemma cleared_sizes [simp]: "cache_sizes cleared" "cache_sizes (cleared\<lparr>pc_stamp := x\<rparr>)"
  by (simp_all add: cache_sizes_def cleared_def max_cached_entries_def)

lemma cache_sizes_stamp [simp]: "cache_sizes (c\<lparr>pc_stamp := x\<rparr>) = cache_sizes c"
  by (simp add: cache_sizes_def)

lemma entries_sum:
  assumes "distinct (map fst es)"
  shows "sum_list (map entry_weight es) = sum_list (map entry_weight (filter (\<lambda>x. fst x \<noteq> k) es)) +
    (case map_of es k of None \<Rightarrow> 0 | Some (_, w) \<Rightarrow> w)"
  using assms
proof (induction es)
  case (Cons x es)
  show ?case
  proof (cases "fst x = k")
    case True
    then have "k \<notin> fst ` set es" using Cons.prems by simp
    then have "filter (\<lambda>x. fst x \<noteq> k) es = es" by (auto simp: filter_id_conv image_iff)
    then show ?thesis using True by (cases x) auto
  qed (use Cons in \<open>cases x; auto\<close>)
qed simp

lemma entries_nonneg: "list_all (\<lambda>(_, v, w). w = projection_weight v) es \<Longrightarrow> 0 \<le> sum_list (map entry_weight es)"
  by (rule sum_list_nonneg) (fastforce simp: list_all_iff intro: less_imp_le [OF projection_weight_pos])

lemma evict_Nil [simp]: "evict w [] wt = (if max_cached_entries < wt + w then None else Some ([], wt))"
  by (simp add: evict.simps max_cached_runtimes_def)

lemma evict_Cons [simp]:
  "evict w (x # es) wt =
     (if max_cached_runtimes \<le> length (x # es) \<or> max_cached_entries < wt + w then evict w es (wt - entry_weight x)
      else Some (x # es, wt))"
  by (cases x) (simp add: evict.simps)

lemma evict_length: "evict w es wt = Some (es', wt') \<Longrightarrow> length es' \<le> length es"
  by (induction es arbitrary: wt) (fastforce split: if_splits)+

lemma evict_same: "evict w es wt = Some (es, wt') \<Longrightarrow> wt' = wt"
  by (cases es) (auto split: if_splits dest: evict_length)

text \<open>The loop ends: it drops a prefix, as short as the limits allow.\<close>

lemma evict_result:
  assumes "list_all (\<lambda>(_, v, w). w = projection_weight v) es" "w \<le> max_cached_entries"
  shows "\<exists>es'. evict w es (sum_list (map entry_weight es)) = Some (es', sum_list (map entry_weight es')) \<and>
    suffix es' es \<and> length es' < max_cached_runtimes \<and> sum_list (map entry_weight es') + w \<le> max_cached_entries"
  using assms(1)
proof (induction es)
  case Nil
  then show ?case using assms(2) by (simp add: max_cached_runtimes_def)
next
  case (Cons x es)
  show ?case
  proof (cases "max_cached_runtimes \<le> length (x # es) \<or> max_cached_entries < sum_list (map entry_weight (x # es)) + w")
    case True
    then have "evict w (x # es) (sum_list (map entry_weight (x # es))) = evict w es (sum_list (map entry_weight es))"
      by auto
    then show ?thesis using Cons by (auto simp: suffix_Cons)
  next
    case False
    then show ?thesis by (intro exI [of _ "x # es"]) auto
  qed
qed

text \<open>No entry is dropped in vain: with the last one it dropped, a limit would be exceeded.\<close>

lemma evict_keeps_most:
  assumes "evict w es wt = Some (es', wt')" "es = ds @ es'" "ds \<noteq> []"
  shows "max_cached_runtimes \<le> length (last ds # es') \<or> max_cached_entries < wt' + entry_weight (last ds) + w"
  using assms
proof (induction es arbitrary: wt ds)
  case (Cons x es)
  from Cons.prems have "length es' < length (x # es)" by (cases ds) simp_all
  with Cons.prems(1) have loop: "max_cached_runtimes \<le> length (x # es) \<or> max_cached_entries < wt + w"
    "evict w es (wt - entry_weight x) = Some (es', wt')"
    by (auto split: if_splits)
  show ?case
  proof (cases "tl ds")
    case Nil
    then have ds: "ds = [x]" "es' = es" using Cons.prems by (cases ds; simp)+
    have "wt' = wt - entry_weight x" using loop(2) ds(2) by (simp add: evict_same)
    then show ?thesis using loop(1) ds by simp
  next
    case (Cons d ds')
    then show ?thesis using Cons.IH [OF loop(2), of "tl ds"] Cons.prems by (cases ds) auto
  qed
qed simp

section \<open>Contents\<close>

text \<open>A runtime's projection without the check of its agent's budget.\<close>

definition projection_of :: "string \<Rightarrow> journal \<Rightarrow> protocol_error + runtime_projection" where
  "projection_of rt db = bind_result (replay_rows db (take row_cap (runtime_entries rt db)) replay_start) (\<lambda>st. Inr (runtime_view st))"

definition over_budget :: "string \<Rightarrow> journal \<Rightarrow> bool" where
  "over_budget rt db \<longleftrightarrow>
     (case runtime_by_id rt db of None \<Rightarrow> False | Some r \<Rightarrow> exceeded_budget (retained_budget (er_agent r) db) \<noteq> None)"

lemma replay_runtime_split: "replay_runtime rt db = (if over_budget rt db then Inl RetentionLimit else projection_of rt db)"
  by (simp add: replay_runtime_def over_budget_def projection_of_def runtime_view_def)

text \<open>The cache holds the projections of all runtimes in it but perhaps one, and the budgets of all agents in
  it but perhaps one.\<close>

definition entries_hold :: "(string \<Rightarrow> bool) \<Rightarrow> journal \<Rightarrow> projection_cache \<Rightarrow> bool" where
  "entries_hold p db c \<longleftrightarrow> (\<forall>(k, v, w) \<in> set (pc_entries c). p k \<longrightarrow> projection_of k db = Inr v)"

definition budgets_hold :: "(string \<Rightarrow> bool) \<Rightarrow> journal \<Rightarrow> projection_cache \<Rightarrow> bool" where
  "budgets_hold p db c \<longleftrightarrow> (\<forall>(a, b) \<in> set (pc_budgets c). p a \<longrightarrow> b = retained_budget a db)"

definition cache_holds :: "journal \<Rightarrow> projection_cache \<Rightarrow> bool" where
  "cache_holds db c \<longleftrightarrow> entries_hold (\<lambda>_. True) db c \<and> budgets_hold (\<lambda>_. True) db c"

lemma remember_projection_ok:
  assumes "cache_sizes c"
  shows "\<exists>c'. remember_projection rt v c = Some c' \<and> cache_sizes c' \<and> pc_budgets c' = pc_budgets c \<and> pc_stamp c' = pc_stamp c \<and>
    (entries_hold (\<lambda>k. k \<noteq> rt) db c \<and> projection_of rt db = Inr v \<longrightarrow> entries_hold (\<lambda>_. True) db c')"
proof -
  let ?es = "filter (\<lambda>x. fst x \<noteq> rt) (pc_entries c)" and ?w = "projection_weight v"
  let ?sum = "\<lambda>es. sum_list (map entry_weight es)"
  have wt: "pc_weight c - (case map_of (pc_entries c) rt of None \<Rightarrow> 0 | Some (_, w) \<Rightarrow> w) = ?sum ?es"
    using assms entries_sum [of "pc_entries c" rt] by (simp add: cache_sizes_def)
  have all: "list_all (\<lambda>(_, v, w). w = projection_weight v) ?es"
    using assms by (auto simp: cache_sizes_def list_all_iff)
  have dist: "distinct (map fst ?es)" using assms by (simp add: cache_sizes_def distinct_map_filter)
  have len: "length ?es \<le> max_cached_runtimes"
    using assms length_filter_le [of _ "pc_entries c"] le_trans unfolding cache_sizes_def by blast
  have sub: "?sum ?es \<le> max_cached_entries"
  proof -
    have "0 \<le> (case map_of (pc_entries c) rt of None \<Rightarrow> 0 | Some (_, w) \<Rightarrow> w)"
      using assms projection_weight_pos
      by (fastforce simp: cache_sizes_def list_all_iff split: option.splits dest: map_of_SomeD intro: less_imp_le)
    then show ?thesis using assms wt by (simp add: cache_sizes_def)
  qed
  show ?thesis
  proof (cases "max_cached_entries < ?w")
    case True
    let ?c = "c\<lparr>pc_entries := ?es, pc_weight := ?sum ?es\<rparr>"
    have "remember_projection rt v c = Some ?c" using True wt by (simp add: remember_projection_def Let_def)
    moreover have "cache_sizes ?c" using assms all dist len sub by (simp add: cache_sizes_def)
    ultimately show ?thesis by (auto simp: entries_hold_def)
  next
    case False
    then obtain es' where es': "evict ?w ?es (?sum ?es) = Some (es', ?sum es')" "suffix es' ?es"
      "length es' < max_cached_runtimes" "?sum es' + ?w \<le> max_cached_entries"
      using evict_result [OF all, of ?w] by auto
    let ?c = "c\<lparr>pc_entries := es' @ [(rt, v, ?w)], pc_weight := ?sum es' + ?w\<rparr>"
    have sub': "set es' \<subseteq> set ?es" using es'(2) by (rule set_mono_suffix)
    have "distinct (map fst es')" using dist es'(2) by (auto simp: suffix_def)
    moreover have "rt \<notin> fst ` set es'" using sub' by auto
    moreover have "list_all (\<lambda>(_, v, w). w = projection_weight v) es'"
      using all sub' by (auto simp: list_all_iff)
    ultimately have "cache_sizes ?c" using assms es' by (simp add: cache_sizes_def)
    moreover have "remember_projection rt v c = Some ?c"
      using False wt es'(1) by (simp add: remember_projection_def Let_def)
    moreover have "entries_hold (\<lambda>_. True) db ?c" if "entries_hold (\<lambda>k. k \<noteq> rt) db c" "projection_of rt db = Inr v"
      using that sub' by (fastforce simp: entries_hold_def)
    ultimately show ?thesis by auto
  qed
qed

lemma set_tl_mem: "x \<in> set (tl xs) \<Longrightarrow> x \<in> set xs"
  by (cases xs) auto

lemma remember_budget_fields [simp]:
  "pc_entries (remember_budget a b c) = pc_entries c" "pc_weight (remember_budget a b c) = pc_weight c"
  "pc_stamp (remember_budget a b c) = pc_stamp c"
  by (simp_all add: remember_budget_def Let_def)

lemma remember_budget_sizes:
  assumes "cache_sizes c"
  shows "cache_sizes (remember_budget a b c)"
proof -
  let ?bs = "filter (\<lambda>x. fst x \<noteq> a) (pc_budgets c)"
  let ?bs' = "if max_cached_budgets \<le> length ?bs then tl ?bs else ?bs"
  have "length ?bs \<le> max_cached_budgets"
    using assms length_filter_le [of _ "pc_budgets c"] le_trans unfolding cache_sizes_def by blast
  then have "length ?bs' < max_cached_budgets" by (auto simp: max_cached_budgets_def)
  moreover have "distinct (map fst ?bs')" "a \<notin> fst ` set ?bs'"
    using assms by (auto simp: cache_sizes_def distinct_map_filter map_tl distinct_tl dest: set_tl_mem)
  ultimately show ?thesis using assms by (simp add: cache_sizes_def remember_budget_def Let_def)
qed

lemma remember_budget_holds:
  assumes "budgets_hold (\<lambda>k. k \<noteq> a) db c" "b = retained_budget a db"
  shows "budgets_hold (\<lambda>_. True) db (remember_budget a b c)"
  using assms unfolding budgets_hold_def remember_budget_def Let_def
  by (fastforce dest: set_tl_mem split: if_splits)

lemma entries_hold_fields: "pc_entries c' = pc_entries c \<Longrightarrow> entries_hold p db c' = entries_hold p db c"
  by (simp add: entries_hold_def)

lemma budgets_hold_fields: "pc_budgets c' = pc_budgets c \<Longrightarrow> budgets_hold p db c' = budgets_hold p db c"
  by (simp add: budgets_hold_def)

section \<open>Simulation\<close>

text \<open>A cached computation refines one of the store: it fails with the same error and never otherwise, or
  both succeed with related results.\<close>

definition refines :: "('a \<Rightarrow> 'b \<Rightarrow> bool) \<Rightarrow> cache_error + 'a \<Rightarrow> journal_error + 'b \<Rightarrow> bool" where
  "refines P m n \<longleftrightarrow>
     (case m of Inl e \<Rightarrow> (\<exists>e'. e = StoreFailed e' \<and> n = Inl e') | Inr a \<Rightarrow> (\<exists>b. n = Inr b \<and> P a b))"

lemma refines_bind:
  assumes "refines P m n" "\<And>a b. P a b \<Longrightarrow> refines Q (f a) (g b)"
  shows "refines Q (bind_result m f) (bind_result n g)"
proof (cases m)
  case (Inr a)
  then obtain b where "n = Inr b" "P a b" using assms(1) by (auto simp: refines_def)
  then show ?thesis using Inr assms(2) by simp
qed (use assms(1) in \<open>auto simp: refines_def\<close>)

lemma refines_store_bind:
  assumes "\<And>a. m = Inr a \<Longrightarrow> refines Q (f a) (g a)"
  shows "refines Q (bind_result (from_store m) f) (bind_result m g)"
  using assms by (cases m) (auto simp: refines_def from_store_def)

lemma refines_Inr: "P a b \<Longrightarrow> refines P (Inr a) (Inr b)"
  by (simp add: refines_def)

lemma refines_Inl: "refines P (Inl (StoreFailed e)) (Inl e)"
  by (simp add: refines_def)

definition cache_ok :: "journal \<Rightarrow> projection_cache \<Rightarrow> bool" where
  "cache_ok db c \<longleftrightarrow> cache_sizes c \<and> cache_holds db c"

lemma cached_budget_ok:
  assumes "cache_ok db c" "cached_budget a db c = (b, c1)"
  shows "b = retained_budget a db \<and> cache_ok db c1"
proof -
  have b: "b = retained_budget a db"
    using assms by (fastforce simp: cached_budget_def Let_def cache_ok_def cache_holds_def budgets_hold_def
        split: option.splits dest: map_of_SomeD)
  moreover have "c1 = remember_budget a b c"
    using assms(2) by (auto simp: cached_budget_def Let_def)
  moreover have "budgets_hold (\<lambda>k. k \<noteq> a) db c"
    using assms(1) by (auto simp: cache_ok_def cache_holds_def budgets_hold_def)
  ultimately show ?thesis
    using assms(1) remember_budget_sizes [of c a b] remember_budget_holds [of a db c b]
      entries_hold_fields [of "remember_budget a b c" c]
    by (simp add: cache_ok_def cache_holds_def)
qed

lemma touch_entry_ok:
  assumes "cache_ok db c" "map_of (pc_entries c) rt = Some (v, w)"
  shows "cache_ok db (c\<lparr>pc_entries := filter (\<lambda>x. fst x \<noteq> rt) (pc_entries c) @ [(rt, v, w)]\<rparr>)"
proof -
  have d: "distinct (map fst (pc_entries c))" using assms(1) by (simp add: cache_ok_def cache_sizes_def)
  have mem: "(rt, v, w) \<in> set (pc_entries c)" using assms(2) by (rule map_of_SomeD)
  have "length (filter (\<lambda>x. fst x \<noteq> rt) (pc_entries c)) < length (pc_entries c)"
    using mem by (intro length_filter_less) auto
  moreover have "sum_list (map entry_weight (pc_entries c)) =
      sum_list (map entry_weight (filter (\<lambda>x. fst x \<noteq> rt) (pc_entries c))) + w"
    using entries_sum [OF d, of rt] assms(2) by simp
  ultimately show ?thesis
    using assms(1) d mem
    by (auto simp: cache_ok_def cache_sizes_def cache_holds_def entries_hold_def budgets_hold_def list_all_iff
        distinct_map_filter)
qed

lemma cached_projection_refines:
  assumes "cache_ok db c"
  shows "refines (\<lambda>(v, c') v'. v = v' \<and> cache_ok db c') (cached_projection rt db c) (lift_protocol (replay_runtime rt db))"
proof -
  let ?agent = "map_option er_agent (runtime_by_id rt db)"
  obtain over c1 where over: "(case ?agent of None \<Rightarrow> (False, c)
      | Some a \<Rightarrow> (case cached_budget a db c of (b, c1) \<Rightarrow> (exceeded_budget b \<noteq> None, c1))) = (over, c1)"
    by (rule prod.exhaust)
  have c1: "over = over_budget rt db \<and> cache_ok db c1"
  proof (cases "runtime_by_id rt db")
    case (Some r)
    then show ?thesis
      using over cached_budget_ok [OF assms] by (cases "cached_budget (er_agent r) db c") (auto simp: over_budget_def)
  qed (use over assms in \<open>auto simp: over_budget_def\<close>)
  show ?thesis
  proof (cases over)
    case True
    then show ?thesis
      using c1 over by (simp add: cached_projection_def refines_def replay_runtime_split lift_protocol_def)
  next
    case False
    note unfold = cached_projection_def [of rt db c, unfolded Let_def over prod.case, simplified False if_False]
    show ?thesis
    proof (cases "map_of (pc_entries c1) rt")
      case (Some x)
      obtain v w where x: "x = (v, w)" by (cases x)
      then have "(rt, v, w) \<in> set (pc_entries c1)" using Some by (auto dest: map_of_SomeD)
      then have "replay_runtime rt db = Inr v"
        using c1 False by (auto simp: cache_ok_def cache_holds_def entries_hold_def replay_runtime_split)
      then show ?thesis
        using touch_entry_ok [of db c1 rt v w] Some c1
        by (simp add: unfold x refines_def lift_protocol_def)
    next
      case None
      show ?thesis
      proof (cases "replay_runtime rt db")
        case (Inl e)
        then show ?thesis by (simp add: unfold None refines_def lift_protocol_def from_store_def)
      next
        case (Inr v)
        then have v: "projection_of rt db = Inr v" using c1 False by (simp add: replay_runtime_split)
        have "cache_sizes c1" using c1 by (simp add: cache_ok_def)
        from remember_projection_ok [OF this, of rt v db] obtain c2 where c2: "remember_projection rt v c1 = Some c2"
          "cache_sizes c2" "pc_budgets c2 = pc_budgets c1"
          "entries_hold (\<lambda>k. k \<noteq> rt) db c1 \<and> projection_of rt db = Inr v \<longrightarrow> entries_hold (\<lambda>_. True) db c2"
          by blast
        moreover have "entries_hold (\<lambda>k. k \<noteq> rt) db c1"
          using c1 by (auto simp: cache_ok_def cache_holds_def entries_hold_def)
        ultimately have "cache_ok db c2"
          using v c1 budgets_hold_fields [of c2 c1] by (simp add: cache_ok_def cache_holds_def)
        then show ?thesis
          using Inr c2(1) by (simp add: unfold None refines_def lift_protocol_def from_store_def require_def)
      qed
    qed
  qed
qed

section \<open>The journal under the cache\<close>

lemma replay_rows_verified_cong:
  assumes "\<forall>e \<in> set es. unverified_historical_fact (je_row e) \<or> joined_provider db (je_row e) = joined_provider db' (je_row e)"
  shows "replay_rows db es st = replay_rows db' es st"
  using assms
proof (induction es arbitrary: st)
  case (Cons e es)
  have "replay_step db e st = replay_step db' e st"
    using Cons.prems by (auto simp: replay_step_def stored_fact_def Let_def)
  then show ?case using Cons by (cases "replay_step db' e st") simp_all
qed simp

lemma runtime_entries_mem: "e \<in> set (take n (runtime_entries rt db)) \<Longrightarrow> e \<in> set (jd_facts db)"
  using in_set_takeD by (fastforce simp: runtime_entries_def)

lemma projection_of_extends:
  assumes "journal_ok db" "extends db db'" "jd_facts db' = jd_facts db"
  shows "projection_of rt db' = projection_of rt db"
proof -
  have "unverified_historical_fact (je_row e) \<or> joined_provider db (je_row e) = joined_provider db' (je_row e)"
    if e: "e \<in> set (take row_cap (runtime_entries rt db))" for e
  proof -
    have "entry_ok db e" using runtime_entries_mem [OF e] assms(1) by (simp add: journal_ok_def)
    then show ?thesis
      using joined_provider_extends [OF _ assms(2)] by (fastforce simp: entry_ok_def)
  qed
  then have "replay_rows db (take row_cap (runtime_entries rt db)) st = replay_rows db' (take row_cap (runtime_entries rt db)) st" for st
    by (intro replay_rows_verified_cong) blast
  moreover have "runtime_entries rt db' = runtime_entries rt db" using assms(3) by (simp add: runtime_entries_def)
  ultimately show ?thesis by (simp add: projection_of_def)
qed

lemma retained_budget_facts: "jd_facts db' = jd_facts db \<Longrightarrow> retained_budget a db' = retained_budget a db"
  by (simp add: retained_budget_def agent_entries_def)

lemma cache_ok_extends:
  assumes "journal_ok db" "extends db db'" "jd_facts db' = jd_facts db" "cache_ok db c"
  shows "cache_ok db' c"
  using assms(4) projection_of_extends [OF assms(1,2,3)] retained_budget_facts [OF assms(3)]
  by (simp add: cache_ok_def cache_holds_def entries_hold_def budgets_hold_def)

text \<open>After a fact was written the cache is right but for the fact's runtime and agent.\<close>

lemma cache_after_fact:
  assumes "turn_keys db' = turn_keys db" "jd_facts db' = jd_facts db @ [x]" "cache_ok db c"
  shows "entries_hold (\<lambda>k. k \<noteq> fr_runtime (je_row x)) db' c \<and> budgets_hold (\<lambda>a. a \<noteq> fr_agent (je_row x)) db' c"
proof -
  have "projection_of rt db' = projection_of rt db" if "rt \<noteq> fr_runtime (je_row x)" for rt
  proof -
    have "runtime_entries rt db' = runtime_entries rt db" using that assms(2) by (auto simp: runtime_entries_def)
    then show ?thesis
      unfolding projection_of_def
      by (simp add: replay_rows_cong [of _ db' db] joined_provider_keys [OF assms(1)])
  qed
  moreover have "retained_budget a db' = retained_budget a db" if "a \<noteq> fr_agent (je_row x)" for a
    using that assms(2) by (auto simp: retained_budget_def agent_entries_def)
  ultimately show ?thesis
    using assms(3) by (fastforce simp: cache_ok_def cache_holds_def entries_hold_def budgets_hold_def)
qed

lemma retained_budget_after:
  assumes "jd_facts db' = jd_facts db @ [x]" "fr_agent (je_row x) = a"
    "exceeded_budget (add_budget (je_row x) (retained_budget a db)) = None"
  shows "retained_budget a db' = add_budget (je_row x) (retained_budget a db)"
proof -
  note room = retained_budget_room [OF assms(3)]
  have ents: "agent_entries a db' = agent_entries a db @ [x]" using assms(1,2) by (simp add: agent_entries_def)
  then have "take row_cap (agent_entries a db') = agent_entries a db @ [x]" using room(2) by simp
  then show ?thesis using room(1) by (simp add: retained_budget_def rows_budget_append)
qed

section \<open>Ingestion with the cache\<close>

lemma cached_ingest_next_refines:
  assumes "cache_ok db c"
  shows "refines (\<lambda>(x, db', c') y. y = (x, db') \<and> cache_ok db c')
    (cached_ingest_next tk f now current retained db c) (ingest_next tk f now current retained db)"
proof -
  have next_eq: "next_projection f replay db = bind_result (lift_protocol (replay_runtime (fe_runtime_generation (ef_envelope f)) db))
      (advance_projection f replay (jd_next_sequence db))" for replay
    by (simp add: next_projection_def)
  have assoc: "bind_result (bind_result m g) h = bind_result m (\<lambda>a. bind_result (g a) h)"
    for m :: "journal_error + runtime_projection" and g :: "runtime_projection \<Rightarrow> journal_error + runtime_projection"
      and h :: "runtime_projection \<Rightarrow> journal_error + (ingestion \<times> runtime_projection option) \<times> journal"
    by (cases m) simp_all
  show ?thesis
    unfolding cached_ingest_next_def ingest_next_def next_eq assoc
    by (intro refines_store_bind refines_bind [OF cached_projection_refines [OF assms]])
      (auto intro!: refines_store_bind refines_Inr)
qed

lemma cached_ingest_body_refines:
  assumes "cache_ok db c"
  shows "refines (\<lambda>(x, db', c', b) y. y = (x, db') \<and> cache_ok db c' \<and>
      (snd x \<noteq> None \<longrightarrow> b = add_budget (encode_fact f) (retained_budget (fe_agent (ef_envelope f)) db) \<and> exceeded_budget b = None))
    (cached_ingest_body source tk tokens f now db c) (ingest_body source tk tokens f now db)"
  unfolding cached_ingest_body_def ingest_body_def Let_def
proof (intro refines_store_bind, goal_cases)
  case (1 current _ _ retained)
  show ?case
  proof (cases "select_first (same_position f) (jd_facts db)")
    case (Some x)
    then show ?thesis
      using assms by (simp only: option.case, intro refines_store_bind) (auto intro: refines_Inr refines_Inl)
  next
    case None
    obtain kept c1 where k: "cached_budget (fe_agent (ef_envelope f)) db c = (kept, c1)" by (rule prod.exhaust)
    note kept = cached_budget_ok [OF assms k]
    let ?b = "add_budget (encode_fact f) (retained_budget (fe_agent (ef_envelope f)) db)"
    show ?thesis
    proof (cases "exceeded_budget ?b")
      case (Some l)
      then show ?thesis using None k kept by (auto intro: refines_Inr refines_Inl)
    next
      case no: None
      have "refines (\<lambda>(x, db', c', b) y. y = (x, db') \<and> cache_ok db c' \<and>
          (snd x \<noteq> None \<longrightarrow> b = ?b \<and> exceeded_budget b = None))
        (bind_result (cached_ingest_next tk f now current retained db c1) (\<lambda>(r, db', c2). Inr (r, db', c2, ?b)))
        (bind_result (ingest_next tk f now current retained db) Inr)"
        using kept no by (intro refines_bind [OF cached_ingest_next_refines]) (auto intro: refines_Inr)
      moreover have "bind_result (ingest_next tk f now current retained db) Inr = ingest_next tk f now current retained db"
        by (cases "ingest_next tk f now current retained db") simp_all
      ultimately show ?thesis using None no k kept by (auto intro: refines_Inr refines_Inl)
    qed
  qed
qed

end
