(* ===== verification/CachedStore.thy ===== *)
theory CachedStore
  imports CacheRefinement
begin

text \<open>
  The store with its cache as a transition system, with writers of other connections, and its
  refinement of the store without a cache.
\<close>

section \<open>Coherence\<close>

definition coherent :: "cached_store \<Rightarrow> bool" where
  "coherent s \<longleftrightarrow> store_ok (cs_store s) \<and> cache_sizes (cs_cache s) \<and>
     (\<forall>x. pc_stamp (cs_cache s) = Some x \<longrightarrow>
        x \<le> cs_stamp s \<and> (x = cs_stamp s \<longrightarrow> cache_holds (js_db (cs_store s)) (cs_cache s)))"

lemma cleared_holds [simp]: "cache_holds db cleared" "cache_holds db (cleared\<lparr>pc_stamp := x\<rparr>)"
  by (simp_all add: cache_holds_def entries_hold_def budgets_hold_def cleared_def)

lemma cleared_stamp [simp]: "pc_stamp cleared = None"
  by (simp add: cleared_def)

lemma cache_holds_stamp [simp]: "cache_holds db (c\<lparr>pc_stamp := x\<rparr>) = cache_holds db c"
  by (simp add: cache_holds_def entries_hold_def budgets_hold_def)

lemma cache_ok_stamp [simp]: "cache_ok db (c\<lparr>pc_stamp := x\<rparr>) = cache_ok db c"
  by (simp add: cache_ok_def)

lemma synchronize_ok: "coherent s \<Longrightarrow> cache_ok (js_db (cs_store s)) (synchronize (cs_stamp s) (cs_cache s))"
  by (auto simp: coherent_def synchronize_def cache_ok_def)

lemma coherent_cleared: "store_ok s' \<Longrightarrow> coherent \<lparr>cs_store = s', cs_stamp = n, cs_cache = cleared\<rparr>"
  by (simp add: coherent_def)

lemma coherent_adopt:
  "store_ok s' \<Longrightarrow> cache_ok (js_db s') c \<Longrightarrow> coherent \<lparr>cs_store = s', cs_stamp = n, cs_cache = c\<lparr>pc_stamp := Some n\<rparr>\<rparr>"
  by (simp add: coherent_def cache_ok_def)

section \<open>The steps\<close>

definition on_database :: "(journal \<Rightarrow> (journal_error + 'a) \<times> journal) \<Rightarrow> journal_store \<Rightarrow> (journal_error + 'a) \<times> journal_store" where
  "on_database f s = (case f (js_db s) of (r, db) \<Rightarrow> (r, s\<lparr>js_db := db\<rparr>))"

text \<open>A foreign step is any change by other code on the same connection or by another connection: it
  raises the stamp and leaves a well-formed journal.\<close>

inductive cached_step :: "cached_store \<Rightarrow> cached_store \<Rightarrow> bool" where
  registered: "cached_step s (snd (with_cache n (on_database (register_runtime i)) s))"
| tracked: "cached_step s (snd (with_cache n (on_database (track_message fresh m)) s))"
| turned: "cached_step s (snd (with_cache n (on_database (track_native_turn t)) s))"
| bound: "cached_step s (snd (with_cache n (bind_observer b) s))"
| positioned: "cached_step s (snd (cached_observe_position n source tk latest s))"
| ingested: "cached_step s (snd (cached_ingest n source tk v now s))"
| projected: "cached_step s (snd (project_runtime in_transaction rt s))"
| foreign: "store_ok s' \<Longrightarrow> n < m \<Longrightarrow> cached_step \<lparr>cs_store = s, cs_stamp = n, cs_cache = c\<rparr> \<lparr>cs_store = s', cs_stamp = m, cs_cache = c\<rparr>"

definition empty_cached_store :: cached_store where
  "empty_cached_store = \<lparr>cs_store = empty_store, cs_stamp = 0, cs_cache = cleared\<rparr>"

definition reachable_cached :: "cached_store \<Rightarrow> bool" where
  "reachable_cached s \<longleftrightarrow> cached_step\<^sup>*\<^sup>* empty_cached_store s"

text \<open>The operations on identities and observers leave the facts and what they refer to.\<close>

definition keeps_facts :: "(journal_store \<Rightarrow> 'r \<times> journal_store) \<Rightarrow> bool" where
  "keeps_facts f \<longleftrightarrow> (\<forall>s. store_ok s \<longrightarrow> store_ok (snd (f s)) \<and>
     extends (js_db s) (js_db (snd (f s))) \<and> jd_facts (js_db (snd (f s))) = jd_facts (js_db s))"

lemma with_cache_coherent:
  assumes "keeps_facts f" "coherent s"
  shows "coherent (snd (with_cache n f s))" "cs_store (snd (with_cache n f s)) = snd (f (cs_store s))"
    "fst (with_cache n f s) = fst (f (cs_store s))"
proof -
  obtain r s' where f: "f (cs_store s) = (r, s')" by (rule prod.exhaust)
  have ok: "store_ok (cs_store s)" using assms(2) by (simp add: coherent_def)
  with assms(1) have s': "store_ok s'" "extends (js_db (cs_store s)) (js_db s')"
    "jd_facts (js_db s') = jd_facts (js_db (cs_store s))"
    unfolding keeps_facts_def by (metis f snd_conv)+
  have "cache_ok (js_db s') (synchronize (cs_stamp s) (cs_cache s))"
    using ok cache_ok_extends [OF _ s'(2,3) synchronize_ok [OF assms(2)]] by (simp add: store_ok_def)
  then show "coherent (snd (with_cache n f s))"
    using s'(1) by (cases r) (simp_all add: with_cache_def f coherent_cleared coherent_adopt)
  show "cs_store (snd (with_cache n f s)) = snd (f (cs_store s))" "fst (with_cache n f s) = fst (f (cs_store s))"
    by (cases r; simp add: with_cache_def f)+
qed

lemma keeps_facts_identities:
  assumes "\<And>db r db'. f db = (r, db') \<Longrightarrow> grows_identities db db'"
  shows "keeps_facts (on_database f)"
  unfolding keeps_facts_def
proof (intro allI impI)
  fix s :: journal_store
  assume ok: "store_ok s"
  obtain r db' where f: "f (js_db s) = (r, db')" by (rule prod.exhaust)
  from assms [OF f] show "store_ok (snd (on_database f s)) \<and> extends (js_db s) (js_db (snd (on_database f s))) \<and>
      jd_facts (js_db (snd (on_database f s))) = jd_facts (js_db s)"
    using identities_ok [OF assms [OF f] ok] by (simp add: on_database_def f grows_identities_def)
qed

lemma same_rows_extends:
  "jd_runtimes db' = jd_runtimes db \<Longrightarrow> jd_turns db' = jd_turns db \<Longrightarrow> extends db db'"
  by (intro extends_keys) (simp_all add: turn_keys_def runtime_keys_def)

lemma keeps_facts_bind: "keeps_facts (bind_observer b)"
  unfolding keeps_facts_def
proof (intro allI impI)
  fix s
  assume ok: "store_ok s"
  obtain r s' where f: "bind_observer b s = (r, s')" by (rule prod.exhaust)
  have "store_ok s'" using store_step_ok [OF store_step.bound [OF f] ok] .
  moreover from f have "extends (js_db s) (js_db s') \<and> jd_facts (js_db s') = jd_facts (js_db s)"
    by (elim bind_observer_cases) (auto simp: extends_refl elim: bind_observer_bodyE intro!: same_rows_extends)
  ultimately show "store_ok (snd (bind_observer b s)) \<and> extends (js_db s) (js_db (snd (bind_observer b s))) \<and>
      jd_facts (js_db (snd (bind_observer b s))) = jd_facts (js_db s)"
    by (simp add: f)
qed

lemma keeps_facts_position: "keeps_facts (observe_source_position source t latest)"
  unfolding keeps_facts_def
proof (intro allI impI)
  fix s
  assume ok: "store_ok s"
  obtain r s' where f: "observe_source_position source t latest s = (r, s')" by (rule prod.exhaust)
  have "store_ok s'" using store_step_ok [OF store_step.positioned [OF f] ok] .
  moreover from f have "extends (js_db s) (js_db s') \<and> jd_facts (js_db s') = jd_facts (js_db s)"
    by (elim observe_position_cases) (auto simp: extends_refl intro!: same_rows_extends)
  ultimately show "store_ok (snd (observe_source_position source t latest s)) \<and>
      extends (js_db s) (js_db (snd (observe_source_position source t latest s))) \<and>
      jd_facts (js_db (snd (observe_source_position source t latest s))) = jd_facts (js_db s)"
    by (simp add: f)
qed

lemma observe_position_coherent:
  assumes "coherent s"
  shows "coherent (snd (cached_observe_position n source t latest s))"
  using assms with_cache_coherent(1) [OF keeps_facts_position assms]
  by (simp add: cached_observe_position_def split: sum.splits bool.splits)

text \<open>Reading.\<close>

lemma project_runtime_coherent:
  assumes "coherent s"
  shows "coherent (snd (project_runtime b rt s)) \<and> cs_store (snd (project_runtime b rt s)) = cs_store s \<and>
    (execution_identity rt \<longrightarrow>
      fst (project_runtime b rt s) = from_store (lift_protocol (replay_runtime rt (js_db (cs_store s)))))"
proof -
  have ok: "store_ok (cs_store s)" using assms by (simp add: coherent_def)
  note r = cached_projection_refines [OF synchronize_ok [OF assms], of rt]
  show ?thesis
  proof (cases "cached_projection rt (js_db (cs_store s)) (synchronize (cs_stamp s) (cs_cache s))")
    case (Inl e)
    then show ?thesis
      using r assms by (auto simp: project_runtime_def refines_def from_store_def coherent_def)
  next
    case (Inr x)
    obtain v c where x: "x = (v, c)" by (rule prod.exhaust)
    then have "lift_protocol (replay_runtime rt (js_db (cs_store s))) = Inr v" "cache_ok (js_db (cs_store s)) c"
      using r Inr by (auto simp: refines_def)
    then show ?thesis
      using Inr x ok assms
      by (auto simp: project_runtime_def from_store_def coherent_def cache_ok_def lift_protocol_def)
  qed
qed

section \<open>Ingestion\<close>

lemma publish_ok:
  assumes "cache_sizes c" "entries_hold (\<lambda>k. k \<noteq> rt) db c" "budgets_hold (\<lambda>k. k \<noteq> a) db c"
    "projection_of rt db = Inr v" "b = retained_budget a db"
    "rt = fe_runtime_generation (ef_envelope f)" "a = fe_agent (ef_envelope f)"
  shows "\<exists>c'. publish f (Some v) b c = Inr c' \<and> cache_ok db c' \<and> pc_stamp c' = pc_stamp c"
proof -
  from remember_projection_ok [OF assms(1), of rt v db] assms(2,4) obtain c1 where c1:
    "remember_projection rt v c = Some c1" "cache_sizes c1" "pc_budgets c1 = pc_budgets c" "pc_stamp c1 = pc_stamp c"
    "entries_hold (\<lambda>_. True) db c1" by blast
  have "cache_ok db (remember_budget a b c1)"
    using c1 assms(3,5) remember_budget_sizes [OF c1(2)] remember_budget_holds [of a db c1 b]
      entries_hold_fields [of "remember_budget a b c1" c1] budgets_hold_fields [of c1 c]
    by (simp add: cache_ok_def cache_holds_def)
  then show ?thesis using c1 assms(6,7) by (simp add: publish_def)
qed

lemma ingest_early:
  assumes "\<not> (schema_ok v \<and> tk \<in> set (js_tokens s) \<and> execution_identity source \<and> source = tk_source tk)"
  shows "ingest source tk v now s =
    (if \<not> schema_ok v then Inl (Rejected InvalidFact)
     else if tk \<notin> set (js_tokens s) then Inl (Rejected StaleObserver)
     else if \<not> execution_identity source then Inl (Rejected InvalidFact)
     else Inl (Rejected IdentityMismatch), s)"
  using assms
  by (auto simp: ingest_def parse_execution_fact_def lift_protocol_def transaction_def ingest_body_def
      current_observer_def Let_def)

lemma cached_ingest_coherent:
  assumes "coherent s"
  shows "coherent (snd (cached_ingest n source tk v now s)) \<and>
    cs_store (snd (cached_ingest n source tk v now s)) = snd (ingest source tk v now (cs_store s)) \<and>
    fst (cached_ingest n source tk v now s) = from_store (fst (ingest source tk v now (cs_store s)))"
proof (cases "schema_ok v \<and> tk \<in> set (js_tokens (cs_store s)) \<and> execution_identity source \<and> source = tk_source tk")
  case False
  then show ?thesis
    using assms ingest_early [OF False] by (auto simp: cached_ingest_def from_store_def)
next
  case True
  then have t: "schema_ok v" "tk \<in> set (js_tokens (cs_store s))" "execution_identity (tk_source tk)" "source = tk_source tk"
    by auto
  let ?db = "js_db (cs_store s)" and ?c = "synchronize (cs_stamp s) (cs_cache s)"
  let ?body = "cached_ingest_body source tk (js_tokens (cs_store s)) v now ?db ?c"
  have ok: "store_ok (cs_store s)" using assms by (simp add: coherent_def)
  have run: "cached_ingest n source tk v now s =
      (case ?body of
          Inl e \<Rightarrow> (Inl e, s\<lparr>cs_stamp := cs_stamp s + n, cs_cache := cleared\<rparr>)
        | Inr (r, db, c, b) \<Rightarrow>
           (let s' = \<lparr>cs_store = (cs_store s)\<lparr>js_db := db\<rparr>, cs_stamp = cs_stamp s + n,
                  cs_cache = c\<lparr>pc_stamp := Some (cs_stamp s + n)\<rparr>\<rparr>
            in case publish v (snd r) b (cs_cache s') of
                 Inl e \<Rightarrow> (Inl e, s')
               | Inr c' \<Rightarrow> (Inr r, s'\<lparr>cs_cache := c'\<rparr>)))"
    using t by (simp add: cached_ingest_def)
  have plain: "ingest source tk v now (cs_store s) =
      (case ingest_body source tk (js_tokens (cs_store s)) v now ?db of
         Inl e \<Rightarrow> (Inl e, cs_store s) | Inr (r, db) \<Rightarrow> (Inr r, (cs_store s)\<lparr>js_db := db\<rparr>))"
    using t by (auto simp: ingest_def parse_execution_fact_def lift_protocol_def transaction_def split: sum.splits)
  note refine = cached_ingest_body_refines [OF synchronize_ok [OF assms], where f = v and source = source and tk = tk
      and tokens = "js_tokens (cs_store s)" and now = now]
  show ?thesis
  proof (cases ?body)
    case (Inl e)
    then show ?thesis
      using refine ok by (auto simp: run plain refines_def from_store_def coherent_def)
  next
    case (Inr x)
    obtain res pub db' c b where x: "x = ((res, pub), db', c, b)" by (cases x) auto
    from refine Inr x have body: "ingest_body source tk (js_tokens (cs_store s)) v now ?db = Inr ((res, pub), db')"
      and c: "cache_ok ?db c"
      and b: "pub \<noteq> None \<Longrightarrow> b = add_budget (encode_fact v) (retained_budget (fe_agent (ef_envelope v)) ?db) \<and> exceeded_budget b = None"
      by (auto simp: refines_def)
    let ?s' = "(cs_store s)\<lparr>js_db := db'\<rparr>"
    have ing: "ingest source tk v now (cs_store s) = (Inr (res, pub), ?s')" by (simp add: plain body)
    have ok': "store_ok ?s'" using store_step_ok [OF store_step.ingested [OF ing] ok] .
    let ?c = "c\<lparr>pc_stamp := Some (cs_stamp s + n)\<rparr>"
    have "\<exists>c'. publish v pub b ?c = Inr c' \<and> cache_ok db' c' \<and> pc_stamp c' = Some (cs_stamp s + n)"
      using body
    proof (cases rule: ingest_body_cases)
      case (duplicate o' y)
      then show ?thesis using c by (simp add: publish_def)
    next
      case (refused o')
      have "cache_ok db' c"
        using ok c cache_ok_extends [of ?db db' c] refused(7) by (simp add: store_ok_def same_rows_extends)
      then show ?thesis using refused by (simp add: publish_def)
    next
      case (admitted o' retained)
      let ?x = "\<lparr>je_sequence = jd_next_sequence ?db, je_row = encode_fact v\<rparr>"
      from admitted(8) have keys: "turn_keys db' = turn_keys ?db" "jd_facts db' = jd_facts ?db @ [?x]"
        by (elim ingest_next_Inr; simp)+
      from admitted(8) obtain p where p: "pub = Some p" by (elim ingest_next_Inr) simp
      have replay: "replay_runtime (fe_runtime_generation (ef_envelope v)) db' = Inr p"
        using ingest_publishes_replay [OF ok ing [unfolded p]] by simp
      then have "projection_of (fe_runtime_generation (ef_envelope v)) db' = Inr p"
        by (simp add: replay_runtime_split split: if_splits)
      moreover have "b = retained_budget (fe_agent (ef_envelope v)) db'"
        using b p retained_budget_after [OF keys(2), of "fe_agent (ef_envelope v)"] admitted(2,7) by simp
      moreover have "cache_sizes ?c" using c by (simp add: cache_ok_def)
      moreover have "entries_hold (\<lambda>k. k \<noteq> fe_runtime_generation (ef_envelope v)) db' ?c"
        "budgets_hold (\<lambda>a. a \<noteq> fe_agent (ef_envelope v)) db' ?c"
        using cache_after_fact [OF keys, of ?c] c by simp_all
      ultimately show ?thesis
        using publish_ok [of ?c "fe_runtime_generation (ef_envelope v)" db' "fe_agent (ef_envelope v)" p b v] p by simp
    qed
    then obtain c' where c': "publish v pub b ?c = Inr c'" "cache_ok db' c'" "pc_stamp c' = Some (cs_stamp s + n)" by blast
    then have "coherent \<lparr>cs_store = ?s', cs_stamp = cs_stamp s + n, cs_cache = c'\<rparr>"
      using ok' by (simp add: coherent_def cache_ok_def)
    then show ?thesis using Inr x c' by (simp add: run plain body from_store_def Let_def)
  qed
qed

lemma cached_step_coherent: "cached_step s s' \<Longrightarrow> coherent s \<Longrightarrow> coherent s'"
proof (induction rule: cached_step.induct)
  case (registered s n i)
  then show ?case by (intro with_cache_coherent keeps_facts_identities register_runtime_grows)
next
  case (tracked s n fresh m)
  then show ?case by (intro with_cache_coherent keeps_facts_identities track_message_grows)
next
  case (turned s n t)
  then show ?case by (intro with_cache_coherent keeps_facts_identities track_native_turn_grows)
next
  case (bound s n b)
  then show ?case by (intro with_cache_coherent keeps_facts_bind)
next
  case (positioned s n source tk latest)
  then show ?case by (rule observe_position_coherent)
next
  case (ingested s n source tk v now)
  then show ?case using cached_ingest_coherent by blast
next
  case (projected s in_transaction rt)
  then show ?case using project_runtime_coherent by blast
next
  case (foreign s' n m s c)
  then show ?case by (auto simp: coherent_def)
qed

lemma reachable_coherent: "reachable_cached s \<Longrightarrow> coherent s"
  unfolding reachable_cached_def
  by (erule rtranclp_induct) (simp add: empty_cached_store_def empty_store_ok coherent_cleared, rule cached_step_coherent)

section \<open>A concrete run\<close>

definition demo_cached_registered :: cached_store where
  "demo_cached_registered = snd (with_cache 2 (on_database (register_runtime demo_runtime)) empty_cached_store)"

definition demo_cached :: cached_store where
  "demo_cached = snd (with_cache 2 (bind_observer (demo_binding 0 ''src'')) demo_cached_registered)"

definition demo_cached_after :: cached_store where
  "demo_cached_after = snd (cached_ingest 4 ''src'' demo_token (demo_ready 1) 5 demo_cached)"

lemma reachable_cached_step: "reachable_cached s \<Longrightarrow> cached_step s s' \<Longrightarrow> reachable_cached s'"
  unfolding reachable_cached_def by (rule rtranclp.rtrancl_into_rtrancl)

lemma demo_cached_registered_reachable: "reachable_cached demo_cached_registered"
  unfolding demo_cached_registered_def
  by (rule reachable_cached_step [OF _ cached_step.registered]) (simp add: reachable_cached_def)

lemma demo_cached_reachable: "reachable_cached demo_cached"
  unfolding demo_cached_def by (rule reachable_cached_step [OF demo_cached_registered_reachable cached_step.bound])

lemma demo_cached_after_reachable: "reachable_cached demo_cached_after"
  unfolding demo_cached_after_def by (rule reachable_cached_step [OF demo_cached_reachable cached_step.ingested])

lemma demo_cached_store: "cs_store demo_cached = demo_store"
proof -
  have "keeps_facts (on_database (register_runtime demo_runtime))"
    by (intro keeps_facts_identities register_runtime_grows)
  moreover have "coherent empty_cached_store"
    by (simp add: empty_cached_store_def empty_store_ok coherent_cleared)
  ultimately have "cs_store demo_cached_registered = demo_registered"
    by (simp add: demo_cached_registered_def with_cache_coherent(2) on_database_def demo_registered_def
        empty_cached_store_def split: prod.splits)
  moreover have "coherent demo_cached_registered" by (rule reachable_coherent [OF demo_cached_registered_reachable])
  ultimately show ?thesis
    by (simp add: demo_cached_def with_cache_coherent(2) [OF keeps_facts_bind] demo_store_def)
qed

lemma demo_after_ready:
  "\<exists>p. fst demo_after = Inr (Accepted 1 False, Some p) \<and> ep_runtime (xp_projection p) = RtReady"
proof -
  have "(case fst demo_after of Inr (r, Some p) \<Rightarrow> r = Accepted 1 False \<and> ep_runtime (xp_projection p) = RtReady | _ \<Rightarrow> False)"
    by code_simp
  then show ?thesis by (auto split: sum.splits prod.splits option.splits)
qed

section \<open>Properties\<close>

text \<open>C23: The eviction loop always ends with room: run on the entries of a cache with weights that add up, it
  returns the longest rest of the map, dropping from its oldest end, that leaves a free place and room for the
  new weight.\<close>

theorem eviction_makes_room:
  assumes "cache_sizes c" "w \<le> max_cached_entries"
  shows "\<exists>ds es. evict w (pc_entries c) (pc_weight c) = Some (es, sum_list (map entry_weight es)) \<and> pc_entries c = ds @ es \<and>
    length es < max_cached_runtimes \<and> sum_list (map entry_weight es) + w \<le> max_cached_entries \<and>
    (ds = [] \<or> max_cached_runtimes \<le> length (last ds # es) \<or>
      max_cached_entries < sum_list (map entry_weight es) + entry_weight (last ds) + w)"
proof -
  have "list_all (\<lambda>(_, v, w). w = projection_weight v) (pc_entries c)" "pc_weight c = sum_list (map entry_weight (pc_entries c))"
    using assms(1) by (simp_all add: cache_sizes_def)
  with evict_result [OF this(1) assms(2)] obtain es where es:
    "evict w (pc_entries c) (pc_weight c) = Some (es, sum_list (map entry_weight es))" "suffix es (pc_entries c)"
    "length es < max_cached_runtimes" "sum_list (map entry_weight es) + w \<le> max_cached_entries" by auto
  then obtain ds where "pc_entries c = ds @ es" by (auto simp: suffix_def)
  with es evict_keeps_most [OF es(1) this] show ?thesis by blast
qed

theorem eviction_makes_room_witness:
  "\<exists>es. evict 5 [] 0 = Some (es, 0) \<and> es = []"
  using eviction_makes_room [of cleared 5] by (simp add: cleared_def max_cached_entries_def cache_sizes_def
      max_cached_runtimes_def max_cached_budgets_def)

text \<open>C21: Ingestion with the cache refines ingestion without it: in every reachable state, whatever the cache
  holds and whoever wrote to the database before, the outcome, the published projection and the new journal are
  those of the plain store.\<close>

theorem cached_ingest_refines_ingest:
  assumes "reachable_cached s"
  shows "fst (cached_ingest n source tk v now s) = from_store (fst (ingest source tk v now (cs_store s))) \<and>
    cs_store (snd (cached_ingest n source tk v now s)) = snd (ingest source tk v now (cs_store s))"
  using cached_ingest_coherent [OF reachable_coherent [OF assms]] by simp

theorem cached_ingest_refines_ingest_witness:
  "\<exists>p. fst (cached_ingest 4 ''src'' demo_token (demo_ready 1) 5 demo_cached) = Inr (Accepted 1 False, Some p)"
proof -
  obtain p where "fst (ingest ''src'' demo_token (demo_ready 1) 5 demo_store) = Inr (Accepted 1 False, Some p)"
    using demo_after_ready unfolding demo_after_def by blast
  then show ?thesis
    using cached_ingest_refines_ingest [OF demo_cached_reachable, of 4 "''src''" demo_token "demo_ready 1" 5]
    by (simp add: demo_cached_store from_store_def)
qed

text \<open>Reading a projection through the cache gives the replay of the runtime's journal in the present
  database, and changes nothing but the cache.\<close>

theorem project_runtime_is_replay:
  assumes "reachable_cached s" "execution_identity rt"
  shows "fst (project_runtime in_transaction rt s) = from_store (lift_protocol (replay_runtime rt (js_db (cs_store s)))) \<and>
    cs_store (snd (project_runtime in_transaction rt s)) = cs_store s"
  using project_runtime_coherent [OF reachable_coherent [OF assms(1)]] assms(2) by simp

theorem project_runtime_is_replay_witness:
  "\<exists>p. fst (project_runtime False ''rt'' demo_cached) = Inr p \<and> ep_runtime (xp_projection p) = RtStarting"
proof -
  have "execution_identity ''rt'' \<and>
      (case replay_runtime ''rt'' (js_db demo_store) of Inr p \<Rightarrow> ep_runtime (xp_projection p) = RtStarting | Inl _ \<Rightarrow> False)"
    by code_simp
  then show ?thesis
    using project_runtime_is_replay [OF demo_cached_reachable, of "''rt''" False]
    by (auto simp: demo_cached_store from_store_def lift_protocol_def split: sum.splits)
qed

text \<open>The cache never holds more than sixteen projections, nor more than 4096 entries in total, nor more
  than sixteen budgets, and its weight is the sum of the weights of what it holds.\<close>

theorem projection_cache_bounded:
  assumes "reachable_cached s"
  shows "length (pc_entries (cs_cache s)) \<le> 16 \<and> pc_weight (cs_cache s) \<le> 4096 \<and> length (pc_budgets (cs_cache s)) \<le> 16 \<and>
    pc_weight (cs_cache s) = (\<Sum>(_, v, _) \<leftarrow> pc_entries (cs_cache s). projection_weight v)"
proof -
  have c: "cache_sizes (cs_cache s)" using reachable_coherent [OF assms] by (simp add: coherent_def)
  then have "map entry_weight (pc_entries (cs_cache s)) = map (\<lambda>(_, v, _). projection_weight v) (pc_entries (cs_cache s))"
    by (auto simp: cache_sizes_def list_all_iff)
  then have "sum_list (map entry_weight (pc_entries (cs_cache s))) = (\<Sum>(_, v, _) \<leftarrow> pc_entries (cs_cache s). projection_weight v)"
    by (rule arg_cong)
  with c show ?thesis
    by (simp add: cache_sizes_def max_cached_runtimes_def max_cached_entries_def max_cached_budgets_def)
qed

theorem projection_cache_bounded_witness:
  "length (pc_entries (cs_cache demo_cached_after)) \<le> 16 \<and> pc_weight (cs_cache demo_cached_after) \<le> 4096"
  using projection_cache_bounded [OF demo_cached_after_reachable] by simp

end
