(* ===== verification/LedgerEvidence.thy ===== *)
theory LedgerEvidence
  imports LifecycleLedger
begin

text \<open>
  The comparison ledger keeps its constraints and never loses evidence: a report that was recorded
  stays as it is, a classification is only refined, a conflict is final, and the totals only grow.
\<close>

section \<open>Constraints and growth\<close>

definition pair_id :: "ledger_pair \<Rightarrow> lane_key \<times> string" where
  "pair_id p = (lp_lane p, lp_event p)"

definition pair_ok :: "ledger_pair \<Rightarrow> bool" where
  "pair_ok p \<longleftrightarrow> (lp_conflict p \<longleftrightarrow> lp_class p = Conflict) \<and>
     (if lp_accounted p then lp_class p \<noteq> Incomplete else lp_class p \<in> {Incomplete, Conflict}) \<and>
     (lp_typed p \<noteq> None \<or> lp_legacy p \<noteq> None)"

definition lane_provider :: "lane_key \<Rightarrow> lifecycle_provider" where
  "lane_provider k = fst (snd k)"

definition conflicts_of :: "lifecycle_provider \<Rightarrow> ledger_pair list \<Rightarrow> int" where
  "conflicts_of q ps = int (length (filter (\<lambda>x. lp_conflict x \<and> lane_provider (lp_lane x) = q) ps))"

definition ledger_ok :: "ledger \<Rightarrow> bool" where
  "ledger_ok g \<longleftrightarrow> distinct (map ln_key (lg_lanes g)) \<and> length (lg_lanes g) \<le> max_lanes \<and>
     distinct (map pair_id (lg_pairs g)) \<and> (\<forall>p \<in> set (lg_pairs g). pair_ok p) \<and>
     (\<forall>q. tot_conflicts (lg_totals g q) = conflicts_of q (lg_pairs g))"

definition report_kept :: "side_report option \<Rightarrow> side_report option \<Rightarrow> bool" where
  "report_kept r r' \<longleftrightarrow> r = None \<or> r' = r"

text \<open>An incomplete row may be classified; any row may become a conflict.\<close>

definition class_refined :: "classification \<Rightarrow> classification \<Rightarrow> bool" where
  "class_refined c c' \<longleftrightarrow> c' = c \<or> c = Incomplete \<or> c' = Conflict"

definition pair_grows :: "ledger_pair \<Rightarrow> ledger_pair \<Rightarrow> bool" where
  "pair_grows p p' \<longleftrightarrow> pair_id p' = pair_id p \<and> lp_recorded p' = lp_recorded p \<and>
     report_kept (lp_typed p) (lp_typed p') \<and> report_kept (lp_legacy p) (lp_legacy p') \<and>
     (lp_accounted p \<longrightarrow> lp_accounted p') \<and> class_refined (lp_class p) (lp_class p')"

definition lane_grows :: "ledger_lane \<Rightarrow> ledger_lane \<Rightarrow> bool" where
  "lane_grows l l' \<longleftrightarrow> ln_key l' = ln_key l \<and> ln_typed l \<le> ln_typed l' \<and> ln_legacy l \<le> ln_legacy l' \<and>
     ln_compared_typed l \<le> ln_compared_typed l' \<and> ln_compared_legacy l \<le> ln_compared_legacy l' \<and>
     ln_count l \<le> ln_count l' \<and> (ln_limited l \<longrightarrow> ln_limited l') \<and> (ln_unavailable l \<longrightarrow> ln_unavailable l') \<and>
     ln_created l' = ln_created l \<and> ln_updated l \<le> ln_updated l'"

definition totals_grow :: "ledger_totals \<Rightarrow> ledger_totals \<Rightarrow> bool" where
  "totals_grow t t' \<longleftrightarrow> tot_compared t \<le> tot_compared t' \<and> tot_matched t \<le> tot_matched t' \<and>
     tot_missing_typed t \<le> tot_missing_typed t' \<and> tot_missing_legacy t \<le> tot_missing_legacy t' \<and>
     tot_different t \<le> tot_different t' \<and> tot_conflicts t \<le> tot_conflicts t' \<and> tot_unavailable t \<le> tot_unavailable t' \<and>
     (tot_first t = None \<or> tot_first t' = tot_first t)"

definition rows_grow :: "('r \<Rightarrow> 'r \<Rightarrow> bool) \<Rightarrow> 'r list \<Rightarrow> 'r list \<Rightarrow> bool" where
  "rows_grow R t t' \<longleftrightarrow> (\<forall>r \<in> set t. \<exists>r' \<in> set t'. R r r')"

definition ledger_grows :: "ledger \<Rightarrow> ledger \<Rightarrow> bool" where
  "ledger_grows g g' \<longleftrightarrow> rows_grow lane_grows (lg_lanes g) (lg_lanes g') \<and> rows_grow pair_grows (lg_pairs g) (lg_pairs g') \<and>
     (\<forall>q. totals_grow (lg_totals g q) (lg_totals g' q))"

lemma pair_grows_refl [simp]: "pair_grows p p"
  by (simp add: pair_grows_def report_kept_def class_refined_def)

lemma lane_grows_refl [simp]: "lane_grows l l"
  by (simp add: lane_grows_def)

lemma totals_grow_refl [simp]: "totals_grow t t"
  by (simp add: totals_grow_def)

lemma report_kept_trans: "report_kept a b \<Longrightarrow> report_kept b c \<Longrightarrow> report_kept a c"
  by (auto simp: report_kept_def)

lemma class_refined_trans: "class_refined a b \<Longrightarrow> class_refined b c \<Longrightarrow> class_refined a c"
  by (auto simp: class_refined_def)

lemma pair_grows_trans: "pair_grows a b \<Longrightarrow> pair_grows b c \<Longrightarrow> pair_grows a c"
  unfolding pair_grows_def using report_kept_trans class_refined_trans by (metis (no_types))

lemma lane_grows_trans: "lane_grows a b \<Longrightarrow> lane_grows b c \<Longrightarrow> lane_grows a c"
  unfolding lane_grows_def by (elim conjE, intro conjI) (simp | metis order_trans)+

lemma totals_grow_trans: "totals_grow a b \<Longrightarrow> totals_grow b c \<Longrightarrow> totals_grow a c"
  unfolding totals_grow_def by (elim conjE, intro conjI) (metis order_trans)+

lemma rows_grow_refl: "(\<And>r. R r r) \<Longrightarrow> rows_grow R t t"
  by (auto simp: rows_grow_def)

lemma lane_rows_trans: "rows_grow lane_grows t u \<Longrightarrow> rows_grow lane_grows u v \<Longrightarrow> rows_grow lane_grows t v"
  unfolding rows_grow_def using lane_grows_trans by meson

lemma pair_rows_trans: "rows_grow pair_grows t u \<Longrightarrow> rows_grow pair_grows u v \<Longrightarrow> rows_grow pair_grows t v"
  unfolding rows_grow_def using pair_grows_trans by meson

lemma rows_grow_append: "(\<And>r. R r r) \<Longrightarrow> rows_grow R t (t @ u)"
  by (auto simp: rows_grow_def)

lemma rows_grow_update:
  assumes "\<And>r. R r r" "\<And>r. r \<in> set t \<Longrightarrow> p r \<Longrightarrow> R r (f r)"
  shows "rows_grow R t (update_where p f t)"
  using assms update_where_mem [of _ t p f] unfolding rows_grow_def by (metis (full_types))

lemma ledger_grows_refl: "ledger_grows g g"
  by (simp add: ledger_grows_def rows_grow_refl)

lemma ledger_grows_trans: "ledger_grows a b \<Longrightarrow> ledger_grows b c \<Longrightarrow> ledger_grows a c"
  unfolding ledger_grows_def using lane_rows_trans pair_rows_trans totals_grow_trans by blast

text \<open>What every operation does.\<close>

definition ledger_evolves :: "ledger \<Rightarrow> ledger \<Rightarrow> bool" where
  "ledger_evolves g g' \<longleftrightarrow> ledger_ok g' \<and> ledger_grows g g'"

lemma ledger_evolves_refl: "ledger_ok g \<Longrightarrow> ledger_evolves g g"
  by (simp add: ledger_evolves_def ledger_grows_refl)

lemma ledger_evolves_trans: "ledger_evolves a b \<Longrightarrow> ledger_evolves b c \<Longrightarrow> ledger_evolves a c"
  unfolding ledger_evolves_def using ledger_grows_trans by blast

section \<open>The elementary writes\<close>

lemma update_totals_evolves:
  assumes "ledger_ok g" "\<And>t. totals_grow t (f t)" "\<And>t. tot_conflicts (f t) = tot_conflicts t"
  shows "ledger_evolves g (update_totals p f g)"
  using assms by (simp add: ledger_evolves_def ledger_ok_def ledger_grows_def update_totals_def rows_grow_refl)

lemma unavailable_evolves: "ledger_ok g \<Longrightarrow> 0 \<le> n \<Longrightarrow> ledger_evolves g (unavailable p n g)"
  unfolding unavailable_def by (rule update_totals_evolves) (simp_all add: totals_grow_def)

lemma touch_totals_evolves: "ledger_ok g \<Longrightarrow> ledger_evolves g (touch_totals p now g)"
  unfolding touch_totals_def by (rule update_totals_evolves) (auto simp: totals_grow_def split: option.splits)

lemma update_lane_evolves:
  assumes "ledger_ok g" "\<And>l. l \<in> set (lg_lanes g) \<Longrightarrow> ln_key l = k \<Longrightarrow> lane_grows l (f l)" "\<And>l. ln_key (f l) = ln_key l"
  shows "ledger_evolves g (update_lane k f g)"
proof -
  have "rows_grow lane_grows (lg_lanes g) (lg_lanes (update_lane k f g))"
    unfolding update_lane_def by (simp, intro rows_grow_update) (simp_all add: assms(2))
  then show ?thesis
    using assms(1) map_key_update_where [of ln_key f "\<lambda>l. ln_key l = k" "lg_lanes g"] assms(3)
    by (simp add: ledger_evolves_def ledger_ok_def ledger_grows_def update_lane_def rows_grow_refl length_update_where)
qed

lemma conflicts_of_simps [simp]:
  "conflicts_of q [] = 0"
  "conflicts_of q (x # t) = (if lp_conflict x \<and> lane_provider (lp_lane x) = q then 1 else 0) + conflicts_of q t"
  by (simp_all add: conflicts_of_def)

lemma conflicts_update:
  assumes "\<And>x. lp_conflict (f x) = lp_conflict x" "\<And>x. lp_lane (f x) = lp_lane x"
  shows "conflicts_of q (update_where p f ps) = conflicts_of q ps"
proof -
  show ?thesis unfolding update_where_def by (induction ps) (simp_all add: assms)
qed

lemma update_pair_evolves:
  assumes "ledger_ok g" "\<And>x. x \<in> set (lg_pairs g) \<Longrightarrow> pair_key k e x \<Longrightarrow> pair_grows x (f x) \<and> pair_ok (f x)"
    "\<And>x. pair_id (f x) = pair_id x" "\<And>x. lp_conflict (f x) = lp_conflict x"
  shows "ledger_evolves g (update_pair k e f g)"
proof -
  have lane: "lp_lane (f x) = lp_lane x" for x using assms(3) [of x] by (simp add: pair_id_def)
  have "rows_grow pair_grows (lg_pairs g) (lg_pairs (update_pair k e f g))"
    unfolding update_pair_def by (simp, intro rows_grow_update) (simp_all add: assms(2))
  moreover have "\<forall>x \<in> set (lg_pairs (update_pair k e f g)). pair_ok x"
    using assms(1,2) by (simp add: update_pair_def ball_update_where ledger_ok_def)
  ultimately show ?thesis
    using assms(1) map_key_update_where [of pair_id f "pair_key k e" "lg_pairs g"] assms(3)
      conflicts_update [of f, OF assms(4) lane]
    by (simp add: ledger_evolves_def ledger_ok_def ledger_grows_def update_pair_def rows_grow_refl)
qed

lemma mark_other:
  "k \<notin> pair_id ` set t \<Longrightarrow> update_where (\<lambda>x. pair_key (fst k) (snd k) x \<and> \<not> lp_conflict x) f t = t"
  by (rule update_where_none) (auto simp: pair_key_def pair_id_def image_iff)

lemma conflicts_mark:
  assumes "distinct (map pair_id t)"
  shows "conflicts_of q (update_where (\<lambda>x. pair_key k e x \<and> \<not> lp_conflict x) (\<lambda>x. x\<lparr>lp_conflict := True, lp_class := Conflict\<rparr>) t) =
    conflicts_of q t + (if (\<exists>x \<in> set t. pair_key k e x \<and> \<not> lp_conflict x) \<and> lane_provider k = q then 1 else 0)"
  using assms
proof (induction t)
  case (Cons x t)
  let ?f = "\<lambda>x. x\<lparr>lp_conflict := True, lp_class := Conflict\<rparr>"
  have step: "update_where P ?f (x # t) = (if P x then ?f x else x) # update_where P ?f t" for P
    by (simp add: update_where_def)
  show ?case
  proof (cases "pair_key k e x")
    case True
    then have "pair_id x = (k, e)" by (simp add: pair_key_def pair_id_def)
    then have none: "(k, e) \<notin> pair_id ` set t" using Cons.prems by simp
    then have rest: "update_where (\<lambda>x. pair_key k e x \<and> \<not> lp_conflict x) ?f t = t" using mark_other [of "(k, e)" t] by simp
    have "\<not> (\<exists>y \<in> set t. pair_key k e y)" using none by (auto simp: pair_key_def pair_id_def image_iff)
    moreover have "lp_lane x = k" using True by (simp add: pair_key_def)
    ultimately show ?thesis using True by (simp add: step rest)
  next
    case False
    then show ?thesis using Cons by (simp add: step)
  qed
qed (simp add: update_where_def)

lemma mark_conflict_evolves:
  assumes "ledger_ok g" "lane_provider k = p"
  shows "ledger_evolves g (mark_conflict k p e g)"
proof (cases "\<exists>x \<in> set (lg_pairs g). pair_key k e x \<and> \<not> lp_conflict x")
  case False
  then show ?thesis using ledger_evolves_refl [OF assms(1)] by (simp only: mark_conflict_def if_False)
next
  case True
  let ?f = "\<lambda>x. x\<lparr>lp_conflict := True, lp_class := Conflict\<rparr>"
  let ?ps = "update_where (\<lambda>x. pair_key k e x \<and> \<not> lp_conflict x) ?f (lg_pairs g)"
  have m: "mark_conflict k p e g = update_totals p (\<lambda>t. t\<lparr>tot_conflicts := tot_conflicts t + 1\<rparr>) (g\<lparr>lg_pairs := ?ps\<rparr>)"
    using True by (simp only: mark_conflict_def if_True)
  have "distinct (map pair_id (lg_pairs g))" using assms(1) by (simp add: ledger_ok_def)
  note count = conflicts_mark [OF this, of _ k e]
  have "conflicts_of q ?ps = conflicts_of q (lg_pairs g) + (if q = p then 1 else 0)" for q
    using True assms(2) count [of q] by simp
  moreover have "rows_grow pair_grows (lg_pairs g) ?ps"
    by (rule rows_grow_update) (simp_all add: pair_grows_def report_kept_def pair_id_def class_refined_def)
  moreover have "map pair_id ?ps = map pair_id (lg_pairs g)" by (rule map_key_update_where) (simp add: pair_id_def)
  moreover have "\<forall>x \<in> set ?ps. pair_ok x"
    using assms(1) by (auto simp: ball_update_where ledger_ok_def pair_ok_def)
  ultimately show ?thesis
    using assms(1) by (simp add: m ledger_evolves_def ledger_ok_def ledger_grows_def update_totals_def rows_grow_refl totals_grow_def)
qed

lemma conflicts_of_append: "conflicts_of q (t @ u) = conflicts_of q t + conflicts_of q u"
  by (induction t) simp_all

lemma append_pair_evolves:
  assumes "ledger_ok g" "pair_id x \<notin> pair_id ` set (lg_pairs g)" "pair_ok x" "\<not> lp_conflict x"
  shows "ledger_evolves g (g\<lparr>lg_pairs := lg_pairs g @ [x]\<rparr>)"
  using assms by (simp add: ledger_evolves_def ledger_ok_def ledger_grows_def rows_grow_refl rows_grow_append
      conflicts_of_append)

lemma append_lane_evolves:
  assumes "ledger_ok g" "ln_key l \<notin> ln_key ` set (lg_lanes g)" "length (lg_lanes g) < max_lanes"
  shows "ledger_evolves g (g\<lparr>lg_lanes := lg_lanes g @ [l]\<rparr>)"
  using assms by (simp add: ledger_evolves_def ledger_ok_def ledger_grows_def rows_grow_refl rows_grow_append)

lemma same_pair:
  assumes "ledger_ok g" "x \<in> set (lg_pairs g)" "y \<in> set (lg_pairs g)" "pair_id x = pair_id y"
  shows "x = y"
  using assms by (simp add: ledger_ok_def distinct_map inj_on_def)

lemma same_lane:
  assumes "ledger_ok g" "x \<in> set (lg_lanes g)" "y \<in> set (lg_lanes g)" "ln_key x = ln_key y"
  shows "x = y"
  using assms by (simp add: ledger_ok_def distinct_map inj_on_def)

section \<open>Comparing a turn\<close>

lemma classify_props: "classify x \<noteq> Incomplete" "classify x = Conflict \<longleftrightarrow> lp_conflict x"
  by (auto simp: classify_def split: option.splits)

lemma account_grows: "totals_grow t (account c t)" "tot_conflicts (account c t) = tot_conflicts t"
  by (cases c; simp add: account_def totals_grow_def)+

lemma mark_conflict_fields [simp]: "lg_lanes (mark_conflict k p e g) = lg_lanes g"
  by (simp add: mark_conflict_def update_totals_def)

lemma compare_row_evolves:
  assumes "ledger_ok g" "row \<in> set (lg_pairs g)" "lp_lane row = k" "\<not> lp_accounted row" "lane_provider k = p"
  shows "ledger_evolves g (compare_row k p te le row g)"
proof -
  let ?f = "\<lambda>x. x\<lparr>lp_class := classify row, lp_accounted := True\<rparr>"
  have ok: "pair_ok row" using assms(1,2) by (simp add: ledger_ok_def)
  have "ledger_evolves g (update_pair k (lp_event row) ?f g)"
  proof (rule update_pair_evolves [OF assms(1)])
    fix x assume x: "x \<in> set (lg_pairs g)" "pair_key k (lp_event row) x"
    then have "x = row" using same_pair [OF assms(1) x(1) assms(2)] assms(3) by (simp add: pair_id_def pair_key_def)
    then show "pair_grows x (?f x) \<and> pair_ok (?f x)"
      using ok assms(4) classify_props [of row]
      by (auto simp: pair_ok_def pair_grows_def pair_id_def report_kept_def class_refined_def)
  qed (simp_all add: pair_id_def)
  moreover from this have "ledger_evolves (update_pair k (lp_event row) ?f g)
      (update_totals p (account (classify row)) (update_pair k (lp_event row) ?f g))"
    by (intro update_totals_evolves account_grows) (simp add: ledger_evolves_def)
  ultimately have "ledger_evolves g (update_totals p (account (classify row)) (update_pair k (lp_event row) ?f g))"
    by (rule ledger_evolves_trans)
  then show ?thesis using mark_conflict_evolves [OF assms(1,5)] by (simp add: compare_row_def)
qed

lemma compare_row_fields:
  "lg_lanes (compare_row k p te le row g) = lg_lanes g"
  by (simp add: compare_row_def update_totals_def update_pair_def)

lemma update_where_keeps: "r \<in> set t \<Longrightarrow> \<not> p r \<Longrightarrow> r \<in> set (update_where p f t)"
  using update_where_mem [of r t p f] by simp

lemma compare_row_other:
  assumes "r \<in> set (lg_pairs g)" "pair_id r \<noteq> (k, lp_event row)"
  shows "r \<in> set (lg_pairs (compare_row k p te le row g))"
proof -
  have "\<not> pair_key k (lp_event row) r" using assms(2) by (auto simp: pair_key_def pair_id_def)
  then show ?thesis
    using assms(1)
    by (auto simp: compare_row_def mark_conflict_def update_totals_def update_pair_def intro!: update_where_keeps)
qed

lemma compare_rows_evolve:
  assumes "ledger_ok g" "distinct (map pair_id rows)" "lane_provider k = p"
    "\<forall>r \<in> set rows. r \<in> set (lg_pairs g) \<and> lp_lane r = k \<and> \<not> lp_accounted r"
  shows "ledger_evolves g (fold (compare_row k p te le) rows g) \<and> lg_lanes (fold (compare_row k p te le) rows g) = lg_lanes g"
  using assms(1,2,4)
proof (induction rows arbitrary: g)
  case (Cons r rows)
  let ?g = "compare_row k p te le r g"
  have step: "ledger_evolves g ?g" using Cons.prems assms(3) by (intro compare_row_evolves) simp_all
  have "\<forall>x \<in> set rows. x \<in> set (lg_pairs ?g) \<and> lp_lane x = k \<and> \<not> lp_accounted x"
  proof
    fix x assume x: "x \<in> set rows"
    with Cons.prems(2) have "pair_id x \<noteq> pair_id r" by (metis distinct.simps(2) imageI list.simps(9) set_map)
    then have "pair_id x \<noteq> (k, lp_event r)" using Cons.prems(3) by (simp add: pair_id_def)
    then show "x \<in> set (lg_pairs ?g) \<and> lp_lane x = k \<and> \<not> lp_accounted x"
      using compare_row_other x Cons.prems(3) by simp
  qed
  with Cons.IH [of ?g] Cons.prems(2) step show ?case
    using ledger_evolves_trans [OF step] by (simp add: compare_row_fields ledger_evolves_def)
qed (simp add: ledger_evolves_refl)

lemma window_rows_props:
  assumes "ledger_ok g"
  shows "distinct (map pair_id (window_rows k a b c d g))"
    "\<forall>r \<in> set (window_rows k a b c d g). r \<in> set (lg_pairs g) \<and> lp_lane r = k \<and> \<not> lp_accounted r"
  using assms by (auto simp: window_rows_def ledger_ok_def distinct_map_filter)

lemma ledger_evolves_ok: "ledger_evolves g g' \<Longrightarrow> ledger_ok g'"
  by (simp add: ledger_evolves_def)

lemma terminal_reports:
  assumes "P z" "\<And>te le. P (f te le)"
  shows "P (case (r, r') of (Some (te, TurnTerminalPhase, _), Some (le, TurnTerminalPhase, _)) \<Rightarrow> f te le | _ \<Rightarrow> z)"
  using assms by (simp split: option.split prod.split lifecycle_phase.split)

lemma reconcile_terminal_evolves:
  assumes "ledger_ok g" "lane_provider k = p"
  shows "ledger_evolves g (reconcile_terminal k p e phase now g)"
proof -
  have mixed: "ledger_evolves g (unavailable p 1 (update_lane k (\<lambda>l. l\<lparr>ln_unavailable := True, ln_updated := max (ln_updated l) now\<rparr>) g))"
    (is "ledger_evolves g (unavailable p 1 ?g)")
  proof -
    have "ledger_evolves g ?g" using assms(1) by (intro update_lane_evolves) (simp_all add: lane_grows_def)
    then show ?thesis
      by (rule ledger_evolves_trans) (rule unavailable_evolves [OF ledger_evolves_ok], fact, simp)
  qed
  have done_: "ledger_evolves g (let rows = window_rows k (ln_compared_typed lane) te (ln_compared_legacy lane) le g;
        g1 = fold (compare_row k p te le) rows g;
        g2 = update_totals p (\<lambda>t. t\<lparr>tot_compared := tot_compared t + 1\<rparr>) g1
      in update_lane k (\<lambda>l. l\<lparr>ln_compared_typed := te, ln_compared_legacy := le, ln_updated := max (ln_updated l) now\<rparr>) g2)"
    if lane: "lane_row k g = Some lane" "ln_compared_typed lane < te" "ln_compared_legacy lane < le" for lane te le
  proof -
    let ?rows = "window_rows k (ln_compared_typed lane) te (ln_compared_legacy lane) le g"
    let ?g1 = "fold (compare_row k p te le) ?rows g"
    let ?g2 = "update_totals p (\<lambda>t. t\<lparr>tot_compared := tot_compared t + 1\<rparr>) ?g1"
    note g1 = compare_rows_evolve [OF assms(1) window_rows_props(1) [OF assms(1)] assms(2) window_rows_props(2) [OF assms(1)]]
    have g2: "ledger_evolves ?g1 ?g2"
      using g1 by (intro update_totals_evolves) (auto simp: totals_grow_def ledger_evolves_def)
    have lanes: "lg_lanes ?g2 = lg_lanes g" using g1 by (simp add: update_totals_def)
    have mem: "lane \<in> set (lg_lanes g)" "ln_key lane = k"
      using lane(1) unfolding lane_row_def by (auto dest: select_first_SomeD)
    have "ledger_evolves ?g2 (update_lane k (\<lambda>l. l\<lparr>ln_compared_typed := te, ln_compared_legacy := le,
        ln_updated := max (ln_updated l) now\<rparr>) ?g2)"
    proof (rule update_lane_evolves)
      fix l assume "l \<in> set (lg_lanes ?g2)" "ln_key l = k"
      then have "l = lane" using same_lane [OF assms(1) _ mem(1)] mem(2) lanes by simp
      then show "lane_grows l (l\<lparr>ln_compared_typed := te, ln_compared_legacy := le, ln_updated := max (ln_updated l) now\<rparr>)"
        using lane(2,3) by (simp add: lane_grows_def)
    qed (use g2 in \<open>simp_all add: ledger_evolves_def\<close>)
    then show ?thesis using g1 g2 ledger_evolves_trans unfolding Let_def by blast
  qed
  let ?closed = "\<lambda>lane te le.
       if phase \<noteq> TurnTerminalPhase then g
       else if te \<le> ln_compared_typed lane \<and> le \<le> ln_compared_legacy lane then g
       else if te \<le> ln_compared_typed lane \<or> le \<le> ln_compared_legacy lane then
         unavailable p 1 (update_lane k (\<lambda>l. l\<lparr>ln_unavailable := True, ln_updated := max (ln_updated l) now\<rparr>) g)
       else
        (let rows = window_rows k (ln_compared_typed lane) te (ln_compared_legacy lane) le g;
             g1 = fold (compare_row k p te le) rows g;
             g2 = update_totals p (\<lambda>t. t\<lparr>tot_compared := tot_compared t + 1\<rparr>) g1
         in update_lane k (\<lambda>l. l\<lparr>ln_compared_typed := te, ln_compared_legacy := le,
              ln_updated := max (ln_updated l) now\<rparr>) g2)"
  show ?thesis
  proof (cases "pair_row k e g")
    case x: (Some x)
    show ?thesis
    proof (cases "lane_row k g")
      case lane: (Some lane)
      have "reconcile_terminal k p e phase now g =
          (case (lp_typed x, lp_legacy x) of
             (Some (te, TurnTerminalPhase, _), Some (le, TurnTerminalPhase, _)) \<Rightarrow> ?closed lane te le | _ \<Rightarrow> g)"
        by (simp only: reconcile_terminal_def x lane prod.case option.case)
      moreover have "ledger_evolves g (?closed lane te le)" for te le
        using mixed done_ [OF lane, of te le] ledger_evolves_refl [OF assms(1)] by (simp add: not_le)
      ultimately show ?thesis
        by (simp only:) (rule terminal_reports [of "ledger_evolves g", OF ledger_evolves_refl [OF assms(1)]])
    qed (simp add: reconcile_terminal_def x ledger_evolves_refl [OF assms(1)])
  qed (simp add: reconcile_terminal_def ledger_evolves_refl [OF assms(1)])
qed

section \<open>Recording a report\<close>

lemma lane_provider_id [simp]: "lane_provider (lane_id v) = lo_provider v"
  by (simp add: lane_provider_def lane_id_def)

lemma pair_row_mem: "pair_row k e g = Some x \<Longrightarrow> x \<in> set (lg_pairs g) \<and> pair_id x = (k, e)"
  unfolding pair_row_def by (auto simp: pair_key_def pair_id_def dest: select_first_SomeD)

lemma pair_row_none: "pair_row k e g = None \<Longrightarrow> (k, e) \<notin> pair_id ` set (lg_pairs g)"
  unfolding pair_row_def by (auto simp: select_first_None pair_key_def pair_id_def)

lemma pair_row_fields [simp]: "pair_row k e (update_lane k' f g) = pair_row k e g"
  by (simp add: pair_row_def update_lane_def)

lemma new_pair_props:
  "pair_id (new_pair k e side r now) = (k, e)" "pair_ok (new_pair k e side r now)" "\<not> lp_conflict (new_pair k e side r now)"
  by (cases side; simp add: new_pair_def pair_id_def pair_ok_def)+

lemma set_side_props:
  "pair_id (set_side side r x) = pair_id x" "lp_conflict (set_side side r x) = lp_conflict x"
  "pair_ok x \<Longrightarrow> pair_ok (set_side side r x)" "side_of side x = None \<Longrightarrow> pair_grows x (set_side side r x)"
  by (cases side; auto simp: pair_id_def pair_ok_def pair_grows_def report_kept_def class_refined_def)+

lemma set_lane_sequence_grows:
  "lane_sequence side l < n \<Longrightarrow> lane_grows l ((set_lane_sequence side n l)\<lparr>ln_updated := max (ln_updated l) now\<rparr>)"
  "ln_key (set_lane_sequence side n l) = ln_key l"
  by (cases side; simp add: lane_grows_def)+

lemma record_new_evolves:
  assumes "ledger_ok g" "lane \<in> set (lg_lanes g)" "ln_key lane = lane_id v" "existing = pair_row (lane_id v) (lo_event v) g"
    "\<And>x. existing = Some x \<Longrightarrow> side_of side x = None"
  shows "ledger_evolves g (record_new side v now lane existing g)"
proof -
  let ?k = "lane_id v" and ?e = "lo_event v" and ?p = "lo_provider v" and ?n = "lane_sequence side lane + 1"
  let ?r = "(?n, lo_phase v, lo_state v)"
  let ?g1 = "update_lane ?k (\<lambda>l. (set_lane_sequence side ?n l)\<lparr>ln_updated := max (ln_updated l) now\<rparr>) g"
  have g1: "ledger_evolves g ?g1"
  proof (rule update_lane_evolves [OF assms(1)])
    fix l assume "l \<in> set (lg_lanes g)" "ln_key l = ?k"
    then have "l = lane" using same_lane [OF assms(1) _ assms(2)] assms(3) by simp
    then show "lane_grows l ((set_lane_sequence side ?n l)\<lparr>ln_updated := max (ln_updated l) now\<rparr>)"
      by (intro set_lane_sequence_grows) simp
  qed (simp add: set_lane_sequence_grows)
  note ok1 = ledger_evolves_ok [OF g1]
  define g2 where "g2 = (case existing of
       None \<Rightarrow> update_lane ?k (\<lambda>l. l\<lparr>ln_count := ln_count l + 1\<rparr>)
                 (?g1\<lparr>lg_pairs := lg_pairs ?g1 @ [new_pair ?k ?e side ?r now]\<rparr>)
     | Some x \<Rightarrow>
        (let g' = update_pair ?k ?e (set_side side ?r) ?g1
         in if (case side_of (opposite side) x of None \<Rightarrow> True | Some (_, f, _) \<Rightarrow> f \<noteq> lo_phase v)
            then mark_conflict ?k ?p ?e g' else g'))"
  have g2: "ledger_evolves ?g1 g2"
  proof (cases existing)
    case None
    then have "(?k, ?e) \<notin> pair_id ` set (lg_pairs ?g1)" using assms(4) pair_row_none [of ?k ?e ?g1] by simp
    then have new: "ledger_evolves ?g1 (?g1\<lparr>lg_pairs := lg_pairs ?g1 @ [new_pair ?k ?e side ?r now]\<rparr>)"
      by (intro append_pair_evolves ok1) (simp_all add: new_pair_props)
    then have "ledger_evolves (?g1\<lparr>lg_pairs := lg_pairs ?g1 @ [new_pair ?k ?e side ?r now]\<rparr>) g2"
      unfolding g2_def None option.case by (intro update_lane_evolves ledger_evolves_ok [OF new]) (simp_all add: lane_grows_def)
    with new show ?thesis by (rule ledger_evolves_trans)
  next
    case (Some x)
    have x: "x \<in> set (lg_pairs ?g1)" "pair_id x = (?k, ?e)" "side_of side x = None"
      using Some assms(4,5) pair_row_mem [of ?k ?e ?g1 x] by simp_all
    have upd: "ledger_evolves ?g1 (update_pair ?k ?e (set_side side ?r) ?g1)"
    proof (rule update_pair_evolves [OF ok1])
      fix y assume y: "y \<in> set (lg_pairs ?g1)" "pair_key ?k ?e y"
      then have "y = x" using same_pair [OF ok1 y(1) x(1)] x(2) by (simp add: pair_id_def pair_key_def)
      then show "pair_grows y (set_side side ?r y) \<and> pair_ok (set_side side ?r y)"
        using x(1,3) ok1 by (simp add: set_side_props ledger_ok_def)
    qed (simp_all add: set_side_props)
    have "ledger_evolves (update_pair ?k ?e (set_side side ?r) ?g1) (mark_conflict ?k ?p ?e (update_pair ?k ?e (set_side side ?r) ?g1))"
      by (intro mark_conflict_evolves ledger_evolves_ok [OF upd]) simp
    from ledger_evolves_trans [OF upd this] upd show ?thesis by (simp add: g2_def Some Let_def)
  qed
  have "ledger_evolves g2 (reconcile_terminal ?k ?p ?e (lo_phase v) now g2)"
    by (intro reconcile_terminal_evolves ledger_evolves_ok [OF g2]) simp
  then have rec_: "ledger_evolves g (reconcile_terminal ?k ?p ?e (lo_phase v) now g2)"
    using g1 g2 ledger_evolves_trans by blast
  have "record_new side v now lane existing g =
      (if max_safe_integer < ?n then unavailable ?p 1 g else reconcile_terminal ?k ?p ?e (lo_phase v) now g2)"
    unfolding record_new_def g2_def Let_def by (rule refl)
  then show ?thesis using rec_ unavailable_evolves [OF assms(1), of 1 ?p] by simp
qed

lemma record_in_lane_evolves:
  assumes "ledger_ok g" "lane \<in> set (lg_lanes g)" "ln_key lane = lane_id v"
  shows "ledger_evolves g (record_in_lane side v now lane g)"
proof -
  let ?k = "lane_id v" and ?e = "lo_event v" and ?p = "lo_provider v"
  have mark: "ledger_evolves g (mark_conflict ?k ?p ?e g)" by (intro mark_conflict_evolves assms(1)) simp
  have rec_: "ledger_evolves g' (reconcile_terminal ?k ?p ?e (lo_phase v) now g')" if "ledger_ok g'" for g'
    using that by (intro reconcile_terminal_evolves) simp_all
  have repeated: "ledger_evolves g (reconcile_terminal ?k ?p ?e (lo_phase v) now (if b then mark_conflict ?k ?p ?e g else g))" for b
    using rec_ [OF assms(1)] ledger_evolves_trans [OF mark rec_ [OF ledger_evolves_ok [OF mark]]] by simp
  have full: "ledger_evolves g (unavailable ?p 1 (update_lane ?k (\<lambda>l. l\<lparr>ln_limited := True, ln_unavailable := True,
      ln_updated := max (ln_updated l) now\<rparr>) g))" (is "ledger_evolves g (unavailable ?p 1 ?g)")
  proof -
    have "ledger_evolves g ?g" using assms(1) by (intro update_lane_evolves) (simp_all add: lane_grows_def)
    then show ?thesis
      by (rule ledger_evolves_trans) (rule unavailable_evolves [OF ledger_evolves_ok], fact, simp)
  qed
  show ?thesis
  proof (cases "pair_row ?k ?e g")
    case None
    then show ?thesis
      using full ledger_evolves_refl [OF assms(1)] record_new_evolves [OF assms refl, of side now]
      by (simp add: record_in_lane_def Let_def)
  next
    case (Some x)
    then show ?thesis
      using repeated mark record_new_evolves [OF assms refl, of side now]
      by (cases "side_of side x") (auto simp: record_in_lane_def Let_def)
  qed
qed

lemma record_report_evolves:
  assumes "ledger_ok g" "record_report side v now g = Inr g'"
  shows "ledger_evolves g g'"
proof -
  let ?k = "lane_id v" and ?p = "lo_provider v"
  let ?g0 = "touch_totals ?p now g"
  have g0: "ledger_evolves g ?g0" by (rule touch_totals_evolves [OF assms(1)])
  note ok0 = ledger_evolves_ok [OF g0]
  have "ledger_evolves ?g0 g'"
  proof (cases "lane_row ?k ?g0")
    case (Some lane)
    then have "lane \<in> set (lg_lanes ?g0)" "ln_key lane = ?k" unfolding lane_row_def by (auto dest: select_first_SomeD)
    then show ?thesis
      using record_in_lane_evolves [OF ok0, of lane v side now] assms(2) Some
      by (auto simp: record_report_def Let_def split: if_splits)
  next
    case None
    let ?g1 = "?g0\<lparr>lg_lanes := lg_lanes ?g0 @ [new_lane ?k now]\<rparr>"
    have un: "ledger_evolves ?g0 (unavailable ?p 1 ?g0)" by (rule unavailable_evolves [OF ok0]) simp
    show ?thesis
    proof (cases "max_observations \<le> agent_observations (lo_agent v) ?g0 \<or> max_lanes \<le> length (lg_lanes ?g0)")
      case True
      then show ?thesis using un assms(2) None by (auto simp: record_report_def Let_def split: if_splits)
    next
      case False
      have "?k \<notin> ln_key ` set (lg_lanes ?g0)" using None by (auto simp: lane_row_def select_first_None)
      then have g1: "ledger_evolves ?g0 ?g1"
        using False by (intro append_lane_evolves ok0) (simp_all add: new_lane_def)
      have "ledger_evolves ?g1 (record_in_lane side v now (new_lane ?k now) ?g1)"
        by (intro record_in_lane_evolves ledger_evolves_ok [OF g1]) (simp_all add: new_lane_def)
      from ledger_evolves_trans [OF g1 this] show ?thesis
        using False assms(2) None by (auto simp: record_report_def Let_def split: if_splits)
    qed
  qed
  with g0 show ?thesis by (rule ledger_evolves_trans)
qed

section \<open>Runs of the ledger\<close>

inductive ledger_step :: "ledger \<Rightarrow> ledger \<Rightarrow> bool" where
  typed: "record_typed v now g = Inr g' \<Longrightarrow> ledger_step g g'"
| legacy: "record_legacy v now g = (r, g') \<Longrightarrow> ledger_step g g'"
| lost: "record_unavailable p n now g = (r, g') \<Longrightarrow> ledger_step g g'"

lemma ledger_step_evolves: "ledger_step g g' \<Longrightarrow> ledger_ok g \<Longrightarrow> ledger_evolves g g'"
proof (induction rule: ledger_step.induct)
  case (typed v now g g')
  then show ?case by (auto simp: record_typed_def bind_result_Inr intro: record_report_evolves)
next
  case (legacy v now g r g')
  from legacy(1) [unfolded record_legacy_def] legacy(2) show ?case
    by (elim transaction_cases)
      (auto simp: bind_result_Inr ledger_evolves_refl dest: record_report_evolves [OF legacy(2)])
next
  case (lost p n now g r g')
  have t: "ledger_evolves g (touch_totals p now g)" by (rule touch_totals_evolves [OF lost(2)])
  have "ledger_evolves g (unavailable p n (touch_totals p now g))" if "0 \<le> n"
    by (rule ledger_evolves_trans [OF t unavailable_evolves [OF ledger_evolves_ok [OF t] that]])
  then show ?case using lost by (auto simp: record_unavailable_def ledger_evolves_refl split: if_splits)
qed

lemma ledger_run_evolves: "ledger_step\<^sup>*\<^sup>* g g' \<Longrightarrow> ledger_ok g \<Longrightarrow> ledger_evolves g g'"
  by (induction rule: rtranclp_induct)
    (auto intro: ledger_evolves_refl ledger_evolves_trans ledger_step_evolves dest: ledger_evolves_ok)

lemma empty_ledger_ok: "ledger_ok empty_ledger"
  by (simp add: ledger_ok_def empty_ledger_def empty_totals_def max_lanes_def)

section \<open>A concrete run\<close>

definition demo_report :: "lifecycle_phase \<Rightarrow> lifecycle_state \<Rightarrow> lifecycle_observation" where
  "demo_report f st = \<lparr>lo_agent = ''agent'', lo_provider = CodexProvider, lo_attempt = ''work'', lo_generation = ''gen'',
     lo_event = ''ev'', lo_phase = f, lo_state = st\<rparr>"

definition demo_ledger :: ledger where
  "demo_ledger = snd (record_legacy (demo_report TurnTerminalPhase LcTerminal) 7 empty_ledger)"

lemma demo_ledger_run: "ledger_step\<^sup>*\<^sup>* empty_ledger demo_ledger"
  unfolding demo_ledger_def by (rule r_into_rtranclp, rule ledger_step.legacy, rule prod.collapse [symmetric])

section \<open>Properties\<close>

text \<open>In every reachable ledger the rows satisfy the constraints of the tables: lanes and pairs are unique, a
  row is a conflict exactly if it is classified as one, an accounted row is classified, an open one is incomplete
  or a conflict, every row has a report, and the conflicts counted for a provider are its conflict rows.\<close>

theorem ledger_constraints_hold:
  assumes "ledger_step\<^sup>*\<^sup>* empty_ledger g"
  shows "distinct (map ln_key (lg_lanes g)) \<and> length (lg_lanes g) \<le> 1024 \<and> distinct (map pair_id (lg_pairs g)) \<and>
    list_all pair_ok (lg_pairs g) \<and>
    tot_conflicts (lg_totals g q) = int (length (filter (\<lambda>x. lp_conflict x \<and> lane_provider (lp_lane x) = q) (lg_pairs g)))"
  using ledger_run_evolves [OF assms empty_ledger_ok]
  by (simp add: ledger_evolves_def ledger_ok_def max_lanes_def list_all_iff conflicts_of_def)

theorem ledger_constraints_hold_witness:
  "list_all pair_ok (lg_pairs demo_ledger) \<and> length (lg_pairs demo_ledger) = 1"
proof -
  have "length (lg_pairs demo_ledger) = 1" by code_simp
  then show ?thesis using ledger_constraints_hold [OF demo_ledger_run] by simp
qed

text \<open>C24: Evidence is never lost or rewritten: however a run of the ledger goes on, every pair is still there with
  the reports it had, a pair that was accounted stays accounted, its classification changes only from incomplete or
  to conflict, and no total decreases.\<close>

theorem ledger_evidence_is_kept:
  assumes "ledger_step\<^sup>*\<^sup>* empty_ledger g" "ledger_step\<^sup>*\<^sup>* g g'" "x \<in> set (lg_pairs g)"
  shows "(\<exists>x' \<in> set (lg_pairs g'). pair_id x' = pair_id x \<and> report_kept (lp_typed x) (lp_typed x') \<and>
      report_kept (lp_legacy x) (lp_legacy x') \<and> lp_accounted x \<le> lp_accounted x' \<and>
      class_refined (lp_class x) (lp_class x')) \<and>
    totals_grow (lg_totals g q) (lg_totals g' q)"
proof -
  have "ledger_ok g" using ledger_run_evolves [OF assms(1) empty_ledger_ok] by (simp add: ledger_evolves_def)
  from ledger_run_evolves [OF assms(2) this] have grows: "ledger_grows g g'" by (simp add: ledger_evolves_def)
  then obtain x' where "x' \<in> set (lg_pairs g')" "pair_grows x x'"
    using assms(3) unfolding ledger_grows_def rows_grow_def by blast
  then show ?thesis
    using grows by (intro conjI bexI [of _ x']) (simp_all add: pair_grows_def ledger_grows_def)
qed

theorem ledger_evidence_is_kept_witness:
  "totals_grow (lg_totals demo_ledger CodexProvider)
     (lg_totals (snd (record_legacy (demo_report TurnActivePhase LcWorking) 9 demo_ledger)) CodexProvider)"
proof -
  let ?g = "snd (record_legacy (demo_report TurnActivePhase LcWorking) 9 demo_ledger)"
  have "ledger_step\<^sup>*\<^sup>* demo_ledger ?g"
    by (rule r_into_rtranclp, rule ledger_step.legacy, rule prod.collapse [symmetric])
  moreover have "lg_pairs demo_ledger \<noteq> []" by code_simp
  then have "hd (lg_pairs demo_ledger) \<in> set (lg_pairs demo_ledger)" by simp
  ultimately show ?thesis using ledger_evidence_is_kept [OF demo_ledger_run] by blast
qed

end
