(* ===== verification/QuotaLease.thy ===== *)
theory QuotaLease
  imports Lrt
begin

text \<open>
  The lease of a quota lane, \<^verbatim>\<open>src/api/rental/quota-lease.ts\<close>: which lanes contend for the same
  quota, how many leases a lane admits, when a lease may be created, and what counts as a material
  change between two leases.
\<close>

section \<open>Lanes and leases\<close>

text \<open>
  \<open>ln_account\<close> is \<open>providerAccountId\<close>, absent in leases that were persisted before the field existed.
  The amounts of a snapshot are finite numbers.
\<close>

record quota_lane =
  ln_provider :: string
  ln_model :: "string option"
  ln_lane_id :: "string option"
  ln_account :: "string option"

record quota_snapshot =
  qs_unit :: "string option"
  qs_remaining :: "rat option"
  qs_reset_at :: "string option"
  qs_confidence :: quota_confidence
  qs_observed_at :: string

record quota_lease =
  ql_session :: string
  ql_lane :: quota_lane
  ql_locked_at :: int
  ql_refreshed_at :: int
  ql_released_at :: "int option"
  ql_release_reason :: "string option"
  ql_snapshot :: quota_snapshot

definition lane_key :: "string \<Rightarrow> string option \<Rightarrow> string" where
  "lane_key provider model = provider @ ''::'' @ (case model of None \<Rightarrow> '''' | Some m \<Rightarrow> m)"

definition lane_key_of :: "quota_lane \<Rightarrow> string" where
  "lane_key_of lane = lane_key (ln_provider lane) (ln_model lane)"

definition normalized_account_id :: "quota_lane \<Rightarrow> string option" where
  "normalized_account_id lane =
     (case ln_account lane of None \<Rightarrow> None | Some a \<Rightarrow> if js_trim a \<noteq> [] then Some a else None)"

definition lanes_conflict :: "quota_lane \<Rightarrow> quota_lane \<Rightarrow> bool" where
  "lanes_conflict a b =
     (if lane_key_of a \<noteq> lane_key_of b then False
      else case (normalized_account_id a, normalized_account_id b) of
        (Some x, Some y) \<Rightarrow> x = y | _ \<Rightarrow> True)"

definition create_lease :: "string \<Rightarrow> quota_lane \<Rightarrow> quota_snapshot \<Rightarrow> int \<Rightarrow> quota_lease" where
  "create_lease sid lane snapshot now =
     \<lparr>ql_session = sid, ql_lane = lane, ql_locked_at = now, ql_refreshed_at = now, ql_released_at = None,
      ql_release_reason = None, ql_snapshot = snapshot\<rparr>"

section \<open>Decisions\<close>

datatype lease_reason = Available | LaneLocked | InvalidLane | AlreadyReleased | SameSession

record lease_decision =
  ld_allowed :: bool
  ld_reason :: lease_reason
  ld_held_by :: "string option"
  ld_active_count :: nat
  ld_capacity :: int

definition MAX_LANE_CAPACITY :: int where
  "MAX_LANE_CAPACITY = 16"

text \<open>The integers from 1 on: \<open>Number.isInteger(n) && n >= 1\<close>.\<close>

definition integer_at_least_1 :: "js_num \<Rightarrow> int option" where
  "integer_at_least_1 n = (case n of Fin q \<Rightarrow> if js_integer n \<and> 1 \<le> q then Some \<lfloor>q\<rfloor> else None | _ \<Rightarrow> None)"

definition lane_capacity :: "js_num option \<Rightarrow> quota_confidence list \<Rightarrow> int" where
  "lane_capacity max_sessions confidences =
     (let requested = (case Option.bind max_sessions integer_at_least_1 of
        Some n \<Rightarrow> min n MAX_LANE_CAPACITY | None \<Rightarrow> 1)
      in if requested = 1 then 1
         else if confidences = [] then 1
         else if list_all is_exact_confidence confidences then requested else 1)"

text \<open>The loop over the active leases; \<open>holders\<close> are the sessions that hold the lane so far.\<close>

fun scan_leases :: "quota_lane \<Rightarrow> string \<Rightarrow> int \<Rightarrow> string list \<Rightarrow> quota_lease list \<Rightarrow> lease_decision" where
  "scan_leases lane sid capacity holders [] =
     (if capacity \<le> int (length holders)
      then \<lparr>ld_allowed = False, ld_reason = LaneLocked,
        ld_held_by = (case holders of [] \<Rightarrow> None | h # _ \<Rightarrow> Some h),
        ld_active_count = length holders, ld_capacity = capacity\<rparr>
      else \<lparr>ld_allowed = True, ld_reason = Available, ld_held_by = None,
        ld_active_count = length holders, ld_capacity = capacity\<rparr>)"
| "scan_leases lane sid capacity holders (lease # rest) =
     (if ql_released_at lease \<noteq> None then scan_leases lane sid capacity holders rest
      else if \<not> lanes_conflict (ql_lane lease) lane then scan_leases lane sid capacity holders rest
      else if ql_session lease = sid
      then \<lparr>ld_allowed = True, ld_reason = SameSession, ld_held_by = Some sid,
        ld_active_count = length holders, ld_capacity = capacity\<rparr>
      else scan_leases lane sid capacity (holders @ [ql_session lease]) rest)"

definition can_create_lease ::
  "quota_lease list \<Rightarrow> quota_lane \<Rightarrow> string \<Rightarrow> js_num \<Rightarrow> lease_decision" where
  "can_create_lease active lane sid capacity =
     (let effective = (case integer_at_least_1 capacity of Some n \<Rightarrow> n | None \<Rightarrow> 1)
      in if js_trim (ln_provider lane) = []
         then \<lparr>ld_allowed = False, ld_reason = InvalidLane, ld_held_by = None, ld_active_count = 0,
           ld_capacity = effective\<rparr>
         else scan_leases lane sid effective [] active)"

section \<open>Refreshing and releasing\<close>

definition refresh_lease :: "quota_lease \<Rightarrow> quota_snapshot \<Rightarrow> int \<Rightarrow> quota_lease" where
  "refresh_lease lease snapshot now = lease\<lparr>ql_refreshed_at := now, ql_snapshot := snapshot\<rparr>"

definition release_lease :: "quota_lease \<Rightarrow> string \<Rightarrow> int \<Rightarrow> quota_lease \<times> bool" where
  "release_lease lease reason now =
     (if ql_released_at lease \<noteq> None then (lease, False)
      else (lease\<lparr>ql_released_at := Some now, ql_release_reason := Some reason\<rparr>, True))"

section \<open>Material changes\<close>

definition MATERIAL_DROP_FRACTION :: rat where
  "MATERIAL_DROP_FRACTION = 1 / 2"

definition CONFIDENCE_LADDER :: "quota_confidence list" where
  "CONFIDENCE_LADDER = [UnknownConfidence, WeakEstimate, Estimated, Calibrated, Derived, LocalExact, OfficialExact]"

definition confidence_index :: "quota_confidence \<Rightarrow> int" where
  "confidence_index c = (let idx = index_from 0 CONFIDENCE_LADDER c in if idx = -1 then 0 else idx)"

text \<open>The remaining quota fell by the fraction of what there was, both readings in the same unit.\<close>

definition remaining_dropped :: "quota_snapshot \<Rightarrow> quota_snapshot \<Rightarrow> bool" where
  "remaining_dropped prev new =
     (truthy (qs_unit prev) \<and> truthy (qs_unit new) \<and> qs_unit prev = qs_unit new \<and>
      (case (qs_remaining prev, qs_remaining new) of
         (Some p, Some n) \<Rightarrow> 0 < p \<and> MATERIAL_DROP_FRACTION \<le> (p - n) / p
       | _ \<Rightarrow> False))"

definition materially_changed :: "quota_lease \<Rightarrow> quota_lease \<Rightarrow> bool \<times> string list" where
  "materially_changed prev new =
     (let p = ql_snapshot prev; n = ql_snapshot new;
          reasons =
            (if ln_provider (ql_lane prev) \<noteq> ln_provider (ql_lane new) then [''provider_changed''] else []) @
            (if ln_model (ql_lane prev) \<noteq> ln_model (ql_lane new) then [''model_changed''] else []) @
            (if ln_lane_id (ql_lane prev) \<noteq> ln_lane_id (ql_lane new) then [''quota_lane_id_changed''] else []) @
            (if 2 \<le> confidence_index (qs_confidence p) - confidence_index (qs_confidence n)
             then [''confidence_downgraded''] else []) @
            (if remaining_dropped p n then [''native_remaining_dropped''] else []) @
            (if qs_reset_at p \<noteq> qs_reset_at n \<and> (truthy (qs_reset_at p) \<or> truthy (qs_reset_at n))
             then [''native_reset_at_changed''] else [])
      in (reasons \<noteq> [], reasons))"

end
