(* ===== verification/HostGrants.thy ===== *)
theory HostGrants
  imports LeaseRebind
begin

text \<open>
  The grants of supervisor hosts, \<^verbatim>\<open>src/api/db/auth/supervisor-grants.ts\<close>: issuing with recovery of a
  lost response, rotation of the token, takeover by a newer generation, and revocation. The hash of a
  token and the random token are arguments. Each function is one transaction under an advisory lock.
\<close>

section \<open>Rows\<close>

text \<open>The columns of a grant that only this file and the rentals use, beside those of \<open>host_grant\<close>.\<close>

record supervisor_grant = host_grant +
  sg_host :: string
  sg_installation :: string
  sg_scope :: string
  sg_rental :: "string option"
  sg_token_hash :: string

record grant_input =
  gi_owner :: string
  gi_host :: string
  gi_installation :: string
  gi_rooms :: "string list"
  gi_agent_keys :: "string list"
  gi_expires_at :: int
  gi_scope :: "string option"
  gi_rental :: "string option"

datatype grant_failure = ProvisionConflict

type_synonym grant_table = "supervisor_grant list"

definition exact_set :: "string list \<Rightarrow> string list \<Rightarrow> bool" where
  "exact_set left right \<longleftrightarrow> length left = length right \<and> list_all (\<lambda>v. v \<in> set right) left"

definition scope_of :: "grant_input \<Rightarrow> string" where
  "scope_of inp = (case gi_scope inp of None \<Rightarrow> ''owner'' | Some s \<Rightarrow> s)"

definition active_grant :: "grant_input \<Rightarrow> supervisor_grant \<Rightarrow> bool" where
  "active_grant inp g \<longleftrightarrow>
     hg_owner g = gi_owner inp \<and> sg_host g = gi_host inp \<and> sg_installation g = gi_installation inp \<and>
     sg_scope g = scope_of inp \<and> hg_revoked_at g = None"

definition new_grant :: "string \<Rightarrow> string \<Rightarrow> grant_input \<Rightarrow> supervisor_grant" where
  "new_grant new_id token_hash inp =
     \<lparr>hg_id = new_id, hg_owner = gi_owner inp, hg_rooms = gi_rooms inp, hg_agent_keys = gi_agent_keys inp,
      hg_generation = 1, hg_token_version = 1, hg_expires_at = gi_expires_at inp, hg_revoked_at = None,
      sg_host = gi_host inp, sg_installation = gi_installation inp, sg_scope = scope_of inp,
      sg_rental = gi_rental inp, sg_token_hash = token_hash\<rparr>"

definition rotated :: "string \<Rightarrow> int \<Rightarrow> int \<Rightarrow> supervisor_grant \<Rightarrow> supervisor_grant" where
  "rotated token_hash version expires g =
     g\<lparr>sg_token_hash := token_hash, hg_token_version := version, hg_expires_at := expires\<rparr>"

text \<open>\<open>createSupervisorHostGrant\<close>: the grant and the new table.\<close>

definition create_supervisor_host_grant ::
  "(string \<Rightarrow> string) \<Rightarrow> string \<Rightarrow> string \<Rightarrow> grant_input \<Rightarrow> grant_table \<Rightarrow>
   grant_failure + (supervisor_grant \<times> grant_table)" where
  "create_supervisor_host_grant hash token new_id inp gs =
     (case filter (active_grant inp) gs of
        [] \<Rightarrow> (let g = new_grant new_id (hash token) inp in Inr (g, gs @ [g]))
      | [active] \<Rightarrow>
          if \<not> exact_set (hg_rooms active) (gi_rooms inp) \<or> \<not> exact_set (hg_agent_keys active) (gi_agent_keys inp)
          then Inl ProvisionConflict
          else let row = (\<lambda>g. hg_id g = hg_id active \<and> hg_token_version g = hg_token_version active \<and>
                        hg_revoked_at g = None);
                   change = rotated (hash token) (hg_token_version active + 1) (gi_expires_at inp)
               in (case returning_first row change gs of
                     None \<Rightarrow> Inl ProvisionConflict
                   | Some recovered \<Rightarrow> Inr (recovered, update_where row change gs))
      | _ \<Rightarrow> Inl ProvisionConflict)"

definition get_supervisor_host_grant_by_token ::
  "(string \<Rightarrow> string) \<Rightarrow> string \<Rightarrow> int \<Rightarrow> grant_table \<Rightarrow> supervisor_grant option" where
  "get_supervisor_host_grant_by_token hash token now gs =
     select_first (\<lambda>g. sg_token_hash g = hash token \<and> hg_revoked_at g = None \<and> now < hg_expires_at g) gs"

definition get_supervisor_host_grant_by_id :: "string \<Rightarrow> grant_table \<Rightarrow> supervisor_grant option" where
  "get_supervisor_host_grant_by_id gid gs = select_first (\<lambda>g. hg_id g = gid) gs"

text \<open>The row that a fence names, live at the given time.\<close>

definition fenced_grant :: "grant_fence \<Rightarrow> int \<Rightarrow> supervisor_grant \<Rightarrow> bool" where
  "fenced_grant f now g \<longleftrightarrow>
     hg_id g = gf_grant f \<and> hg_generation g = gf_generation f \<and> hg_token_version g = gf_token_version f \<and>
     hg_revoked_at g = None \<and> now < hg_expires_at g"

definition rotate_supervisor_host_grant ::
  "(string \<Rightarrow> string) \<Rightarrow> string \<Rightarrow> grant_fence \<Rightarrow> int \<Rightarrow> int \<Rightarrow> grant_table \<Rightarrow>
   supervisor_grant option \<times> grant_table" where
  "rotate_supervisor_host_grant hash token f expires now gs =
     (case select_first (fenced_grant f now) gs of
        None \<Rightarrow> (None, gs)
      | Some _ \<Rightarrow>
          let row = (\<lambda>g. hg_id g = gf_grant f); change = rotated (hash token) (gf_token_version f + 1) expires
          in (returning_first row change gs, update_where row change gs))"

definition advance_supervisor_host_grant_generation ::
  "(string \<Rightarrow> string) \<Rightarrow> string \<Rightarrow> grant_fence \<Rightarrow> int \<Rightarrow> grant_table \<Rightarrow> supervisor_grant option \<times> grant_table" where
  "advance_supervisor_host_grant_generation hash token f now gs =
     (let change = (\<lambda>g. g\<lparr>hg_generation := gf_generation f + 1, sg_token_hash := hash token,
            hg_token_version := gf_token_version f + 1\<rparr>)
      in (returning_first (fenced_grant f now) change gs, update_where (fenced_grant f now) change gs))"

definition revoke_supervisor_host_grant ::
  "string \<Rightarrow> string \<Rightarrow> int \<Rightarrow> grant_table \<Rightarrow> supervisor_grant option \<times> grant_table" where
  "revoke_supervisor_host_grant gid owner now gs =
     (let row = (\<lambda>g. hg_id g = gid \<and> hg_owner g = owner \<and> hg_revoked_at g = None);
          change = (\<lambda>g. g\<lparr>hg_revoked_at := Some now\<rparr>)
      in (returning_first row change gs, update_where row change gs))"

text \<open>\<open>assertSupervisorGrantFenceTx\<close> on the rows of this file.\<close>

definition grant_fence_current :: "grant_fence \<Rightarrow> int \<Rightarrow> grant_table \<Rightarrow> bool" where
  "grant_fence_current f now gs = (select_first (fenced_grant f now) gs \<noteq> None)"

section \<open>The table over time\<close>

text \<open>
  Identifiers are unique, and at most one grant of a host installation and scope is live: the rows
  were written under the unique indexes of the table.
\<close>

definition grants_wf :: "grant_table \<Rightarrow> bool" where
  "grants_wf gs \<longleftrightarrow> distinct (map hg_id gs) \<and>
     distinct (map (\<lambda>g. (hg_owner g, sg_host g, sg_installation g, sg_scope g))
       (filter (\<lambda>g. hg_revoked_at g = None) gs))"

inductive grant_step :: "(string \<Rightarrow> string) \<Rightarrow> int \<times> grant_table \<Rightarrow> int \<times> grant_table \<Rightarrow> bool"
  for hash :: "string \<Rightarrow> string" where
  issue: "create_supervisor_host_grant hash token new_id inp gs = Inr (g, gs') \<Longrightarrow>
    new_id \<notin> hg_id ` set gs \<Longrightarrow> now \<le> now' \<Longrightarrow> grant_step hash (now, gs) (now', gs')"
| rotate: "rotate_supervisor_host_grant hash token f expires now' gs = (r, gs') \<Longrightarrow> now \<le> now' \<Longrightarrow>
    grant_step hash (now, gs) (now', gs')"
| takeover: "advance_supervisor_host_grant_generation hash token f now' gs = (r, gs') \<Longrightarrow> now \<le> now' \<Longrightarrow>
    grant_step hash (now, gs) (now', gs')"
| revoke: "revoke_supervisor_host_grant gid owner now' gs = (r, gs') \<Longrightarrow> now \<le> now' \<Longrightarrow>
    grant_step hash (now, gs) (now', gs')"
| wait: "now \<le> now' \<Longrightarrow> grant_step hash (now, gs) (now', gs)"

inductive_cases grant_stepE: "grant_step hash s t"

text \<open>How one row may change: the token version rises with every change except revocation.\<close>

definition grant_evolves :: "supervisor_grant \<Rightarrow> supervisor_grant \<Rightarrow> bool" where
  "grant_evolves g g' \<longleftrightarrow>
     hg_id g' = hg_id g \<and> hg_owner g' = hg_owner g \<and> sg_host g' = sg_host g \<and>
     sg_installation g' = sg_installation g \<and> sg_scope g' = sg_scope g \<and>
     (hg_revoked_at g \<noteq> None \<longrightarrow> hg_revoked_at g' \<noteq> None) \<and> hg_generation g \<le> hg_generation g' \<and>
     (hg_token_version g < hg_token_version g' \<or>
      hg_token_version g = hg_token_version g' \<and> hg_generation g = hg_generation g' \<and>
      hg_expires_at g = hg_expires_at g' \<and> sg_token_hash g = sg_token_hash g')"

lemma grant_evolves_refl [simp]: "grant_evolves g g"
  by (simp add: grant_evolves_def)

definition scope_key :: "supervisor_grant \<Rightarrow> string \<times> string \<times> string \<times> string" where
  "scope_key g = (hg_owner g, sg_host g, sg_installation g, sg_scope g)"

lemma grants_wf_scope: "grants_wf gs \<longleftrightarrow> distinct (map hg_id gs) \<and>
    distinct (map scope_key (filter (\<lambda>g. hg_revoked_at g = None) gs))"
  unfolding grants_wf_def scope_key_def ..

lemma distinct_map_filter_mono:
  "distinct (map k (filter p xs)) \<Longrightarrow> (\<And>x. k (f x) = k x) \<Longrightarrow> (\<And>x. q (f x) \<Longrightarrow> p x) \<Longrightarrow>
     distinct (map k (filter q (map f xs)))"
proof (induction xs)
  case (Cons x xs)
  have "k ` set (filter q (map f xs)) \<subseteq> k ` set (filter p xs)" using Cons.prems(2,3) by force
  with Cons show ?case by (auto simp: image_iff split: if_splits) (metis Cons.prems(2,3))+
qed simp

text \<open>A change of rows that only lets each row evolve keeps the table well-formed.\<close>

lemma grants_wf_map:
  assumes "grants_wf gs" "\<And>g. hg_id (f g) = hg_id g" "\<And>g. scope_key (f g) = scope_key g"
    "\<And>g. hg_revoked_at (f g) = None \<Longrightarrow> hg_revoked_at g = None"
  shows "grants_wf (map f gs)"
proof -
  have "map hg_id (map f gs) = map hg_id gs" using assms(2) by simp
  moreover have "distinct (map scope_key (filter (\<lambda>g. hg_revoked_at g = None) (map f gs)))"
    using assms(1,3,4) unfolding grants_wf_scope
    by (intro distinct_map_filter_mono [where p = "\<lambda>g. hg_revoked_at g = None"]) auto
  ultimately show ?thesis using assms(1) unfolding grants_wf_scope by (simp del: map_map)
qed

lemma grants_wf_update:
  assumes "grants_wf gs" "\<And>g. hg_id (f g) = hg_id g" "\<And>g. scope_key (f g) = scope_key g"
    "\<And>g. p g \<Longrightarrow> hg_revoked_at (f g) = None \<Longrightarrow> hg_revoked_at g = None"
  shows "grants_wf (update_where p f gs)"
  unfolding update_where_def using assms by (intro grants_wf_map) (auto split: if_splits)

lemma rotated_simps [simp]:
  "hg_id (rotated t v e g) = hg_id g" "scope_key (rotated t v e g) = scope_key g"
  "hg_revoked_at (rotated t v e g) = hg_revoked_at g" "hg_token_version (rotated t v e g) = v"
  "hg_generation (rotated t v e g) = hg_generation g" "sg_token_hash (rotated t v e g) = t"
  "hg_expires_at (rotated t v e g) = e" "hg_owner (rotated t v e g) = hg_owner g"
  by (simp_all add: rotated_def scope_key_def)

text \<open>The two outcomes of issuing.\<close>

lemma create_grant_cases:
  assumes "create_supervisor_host_grant hash token new_id inp gs = Inr (g, gs')"
  obtains (fresh) "\<forall>x \<in> set gs. \<not> active_grant inp x" "g = new_grant new_id (hash token) inp" "gs' = gs @ [g]"
  | (recovered) a where "a \<in> set gs" "active_grant inp a" "exact_set (hg_rooms a) (gi_rooms inp)"
      "exact_set (hg_agent_keys a) (gi_agent_keys inp)" "filter (active_grant inp) gs = [a]"
      "gs' = update_where (\<lambda>x. hg_id x = hg_id a \<and> hg_token_version x = hg_token_version a \<and> hg_revoked_at x = None)
        (rotated (hash token) (hg_token_version a + 1) (gi_expires_at inp)) gs"
      "returning_first (\<lambda>x. hg_id x = hg_id a \<and> hg_token_version x = hg_token_version a \<and> hg_revoked_at x = None)
        (rotated (hash token) (hg_token_version a + 1) (gi_expires_at inp)) gs = Some g"
proof (cases "filter (active_grant inp) gs")
  case Nil
  then have "\<forall>x \<in> set gs. \<not> active_grant inp x" by (simp add: filter_empty_conv)
  with Nil assms show thesis by (intro fresh) (auto simp: create_supervisor_host_grant_def Let_def)
next
  case (Cons a as)
  with assms have as: "as = []" by (cases as) (auto simp: create_supervisor_host_grant_def)
  have a: "a \<in> set gs" "active_grant inp a" using Cons by (auto simp: filter_eq_Cons_iff)
  show thesis
    using assms Cons as
    by (intro recovered [OF a]) (auto simp: create_supervisor_host_grant_def Let_def split: if_splits option.splits)
qed

text \<open>Every row evolves, and the new rows of a step are well-formed.\<close>

definition grants_evolve :: "grant_table \<Rightarrow> grant_table \<Rightarrow> bool" where
  "grants_evolve gs gs' \<longleftrightarrow> (\<forall>g \<in> set gs. \<exists>g' \<in> set gs'. grant_evolves g g')"

lemma grants_evolve_update:
  "(\<And>g. g \<in> set gs \<Longrightarrow> p g \<Longrightarrow> grant_evolves g (f g)) \<Longrightarrow> grants_evolve gs (update_where p f gs)"
  unfolding grants_evolve_def using update_where_mem [of _ gs p f] by (metis grant_evolves_refl)

lemma fenced_unique:
  "grants_wf gs \<Longrightarrow> g \<in> set gs \<Longrightarrow> h \<in> set gs \<Longrightarrow> hg_id g = hg_id h \<Longrightarrow> g = h"
  unfolding grants_wf_def by (blast dest: distinct_key_inj)

lemma grants_wf_append:
  assumes "grants_wf gs" "hg_id g \<notin> hg_id ` set gs" "\<forall>x \<in> set gs. hg_revoked_at x = None \<longrightarrow> scope_key x \<noteq> scope_key g"
  shows "grants_wf (gs @ [g])"
  using assms by (auto simp: grants_wf_scope)

lemma create_grant_wf:
  assumes "create_supervisor_host_grant hash token new_id inp gs = Inr (g, gs')" "grants_wf gs"
    "new_id \<notin> hg_id ` set gs"
  shows "grants_wf gs' \<and> grants_evolve gs gs'"
  using assms(1)
proof (cases rule: create_grant_cases)
  case fresh
  then have "grants_wf gs'"
    using assms by (auto intro!: grants_wf_append simp: new_grant_def active_grant_def scope_key_def)
  with fresh show ?thesis by (auto simp: grants_evolve_def intro: grant_evolves_refl)
next
  case (recovered a)
  have "grants_evolve gs gs'"
    unfolding recovered by (rule grants_evolve_update) (auto simp: grant_evolves_def rotated_def)
  moreover have "grants_wf gs'" unfolding recovered using assms(2) by (intro grants_wf_update) auto
  ultimately show ?thesis by simp
qed

lemma rotate_grant_wf:
  assumes "rotate_supervisor_host_grant hash token f expires now gs = (r, gs')" "grants_wf gs"
  shows "grants_wf gs' \<and> grants_evolve gs gs'"
proof (cases "select_first (fenced_grant f now) gs")
  case None
  with assms show ?thesis by (auto simp: rotate_supervisor_host_grant_def grants_evolve_def intro: grant_evolves_refl)
next
  case (Some h)
  then have h: "h \<in> set gs" "fenced_grant f now h" by (auto dest: select_first_SomeD)
  have gs': "gs' = update_where (\<lambda>g. hg_id g = gf_grant f) (rotated (hash token) (gf_token_version f + 1) expires) gs"
    using Some assms(1) by (simp add: rotate_supervisor_host_grant_def Let_def)
  have "g = h" if "g \<in> set gs" "hg_id g = gf_grant f" for g
    using that h by (intro fenced_unique [OF assms(2)]) (auto simp: fenced_grant_def)
  then have "grants_evolve gs gs'"
    using h unfolding gs' by (intro grants_evolve_update) (auto simp: grant_evolves_def rotated_def fenced_grant_def)
  moreover have "grants_wf gs'" unfolding gs' using assms(2) by (intro grants_wf_update) auto
  ultimately show ?thesis by simp
qed

lemma advance_grant_wf:
  assumes "advance_supervisor_host_grant_generation hash token f now gs = (r, gs')" "grants_wf gs"
  shows "grants_wf gs' \<and> grants_evolve gs gs'"
proof -
  let ?c = "\<lambda>g. g\<lparr>hg_generation := gf_generation f + 1, sg_token_hash := hash token,
    hg_token_version := gf_token_version f + 1\<rparr>"
  have gs': "gs' = update_where (fenced_grant f now) ?c gs"
    using assms(1) by (simp add: advance_supervisor_host_grant_generation_def Let_def)
  have "grants_evolve gs gs'"
    unfolding gs' by (rule grants_evolve_update) (auto simp: grant_evolves_def fenced_grant_def)
  moreover have "grants_wf gs'"
    unfolding gs' using assms(2) by (intro grants_wf_update) (auto simp: scope_key_def)
  ultimately show ?thesis by simp
qed

lemma revoke_grant_wf:
  assumes "revoke_supervisor_host_grant gid owner now gs = (r, gs')" "grants_wf gs"
  shows "grants_wf gs' \<and> grants_evolve gs gs'"
proof -
  have gs': "gs' = update_where (\<lambda>g. hg_id g = gid \<and> hg_owner g = owner \<and> hg_revoked_at g = None)
      (\<lambda>g. g\<lparr>hg_revoked_at := Some now\<rparr>) gs"
    using assms(1) by (simp add: revoke_supervisor_host_grant_def Let_def)
  have "grants_evolve gs gs'"
    unfolding gs' by (rule grants_evolve_update) (auto simp: grant_evolves_def)
  moreover have "grants_wf gs'"
    unfolding gs' using assms(2) by (intro grants_wf_update) (auto simp: scope_key_def)
  ultimately show ?thesis by simp
qed

lemma grant_step_wf: "grant_step hash (now, gs) (now', gs') \<Longrightarrow> grants_wf gs \<Longrightarrow>
    grants_wf gs' \<and> grants_evolve gs gs' \<and> now \<le> now'"
  by (erule grant_stepE)
    (auto dest: create_grant_wf rotate_grant_wf advance_grant_wf revoke_grant_wf
      simp: grants_evolve_def intro: grant_evolves_refl)

section \<open>The fence of a grant\<close>

definition fence_current :: "int \<times> grant_table \<Rightarrow> grant_fence \<Rightarrow> bool" where
  "fence_current s f \<longleftrightarrow> grant_fence_current f (fst s) (snd s)"

definition fence_reached :: "int \<times> grant_table \<Rightarrow> grant_fence \<Rightarrow> bool" where
  "fence_reached s f \<longleftrightarrow> grants_wf (snd s) \<and>
     (\<exists>g \<in> set (snd s). hg_id g = gf_grant f \<and> gf_generation f \<le> hg_generation g \<and>
        gf_token_version f \<le> hg_token_version g)"

lemma grant_fence_current_iff: "grant_fence_current f now gs \<longleftrightarrow> (\<exists>g \<in> set gs. fenced_grant f now g)"
  unfolding grant_fence_current_def using select_first_None [of "fenced_grant f now" gs] by auto

text \<open>A row that a fence accepts was accepted by it before, unless it is ahead of the fence.\<close>

lemma fenced_grant_back:
  assumes "grant_evolves g g'" "fenced_grant f now' g'" "now \<le> now'" "gf_token_version f \<le> hg_token_version g"
    shows "fenced_grant f now g"
  using assms by (auto simp: fenced_grant_def grant_evolves_def)

interpretation host_fence: monotone_fence "grant_step hash" fence_current fence_reached
proof
  fix s t :: "int \<times> grant_table" and f
  assume step: "grant_step hash s t" and reached: "fence_reached s f"
  obtain now gs now' gs' where st: "s = (now, gs)" "t = (now', gs')" by (cases s, cases t) blast
  from reached obtain g where wf: "grants_wf gs" and g: "g \<in> set gs" "hg_id g = gf_grant f"
      "gf_generation f \<le> hg_generation g" "gf_token_version f \<le> hg_token_version g"
    by (auto simp: st fence_reached_def)
  have n: "grants_wf gs'" "grants_evolve gs gs'" "now \<le> now'" using grant_step_wf step wf unfolding st by blast+
  then obtain g' where g': "g' \<in> set gs'" "grant_evolves g g'" using g(1) unfolding grants_evolve_def by blast
  show "fence_reached t f"
    using n(1) g g' by (auto simp: st fence_reached_def grant_evolves_def intro!: bexI [of _ g'])
  assume lost: "\<not> fence_current s f"
  show "\<not> fence_current t f"
  proof
    assume "fence_current t f"
    then obtain h where h: "h \<in> set gs'" "fenced_grant f now' h"
      by (auto simp: st fence_current_def grant_fence_current_iff)
    then have "h = g'"
      using g g' by (intro fenced_unique [OF n(1)]) (auto simp: fenced_grant_def grant_evolves_def)
    with h g' n(3) g(4) have "fenced_grant f now g" by (auto intro: fenced_grant_back)
    with g(1) lost show False by (auto simp: st fence_current_def grant_fence_current_iff)
  qed
qed

section \<open>Takeover and recovery\<close>

lemma one_live_grant:
  assumes "grants_wf gs" "g \<in> set gs" "h \<in> set gs" "hg_revoked_at g = None" "hg_revoked_at h = None"
    "scope_key g = scope_key h"
  shows "g = h"
proof -
  have "inj_on scope_key (set (filter (\<lambda>g. hg_revoked_at g = None) gs))"
    using assms(1) unfolding grants_wf_scope distinct_map by blast
  then show ?thesis using assms(2-) by (auto dest: inj_onD)
qed

lemma fenced_update_where:
  assumes "grants_wf gs" "g \<in> set gs" "p g" "f g = g'" "hg_id g' = hg_id g" "\<And>x. hg_id (f x) = hg_id x"
  shows "fenced_grant e now x \<Longrightarrow> x \<in> set (update_where p f gs) \<Longrightarrow> gf_grant e = hg_id g \<Longrightarrow> x = g'"
  using assms by (auto simp: set_update_where fenced_grant_def dest: fenced_unique [OF assms(1)])

lemma grant_steps_wf:
  "(grant_step hash)\<^sup>*\<^sup>* s t \<Longrightarrow> grants_wf (snd s) \<Longrightarrow> grants_wf (snd t)"
  by (induction rule: rtranclp_induct) (auto dest!: grant_step_wf)

text \<open>C32: A takeover is final: once a supervisor has advanced the generation of a grant with the fence it
  held, the fence of its predecessor is accepted never again, whatever is issued, rotated, taken over or
  revoked afterwards, and the new fence is accepted at the takeover.\<close>

theorem taken_over_grant_stays_fenced:
  assumes "grants_wf gs" "advance_supervisor_host_grant_generation hash token f now gs = (Some g, gs1)"
    and "(grant_step hash)\<^sup>*\<^sup>* (now, gs1) (now2, gs2)"
  shows "\<not> grant_fence_current f now2 gs2 \<and>
    grant_fence_current \<lparr>gf_grant = gf_grant f, gf_generation = gf_generation f + 1,
      gf_token_version = gf_token_version f + 1\<rparr> now gs1"
proof -
  let ?c = "\<lambda>g. g\<lparr>hg_generation := gf_generation f + 1, sg_token_hash := hash token,
    hg_token_version := gf_token_version f + 1\<rparr>"
  have gs1: "gs1 = update_where (fenced_grant f now) ?c gs"
    and r: "returning_first (fenced_grant f now) ?c gs = Some g"
    using assms(2) by (simp_all add: advance_supervisor_host_grant_generation_def Let_def)
  from r obtain h where h: "h \<in> set gs" "fenced_grant f now h" "g = ?c h"
    by (auto simp: returning_first_def dest: find_SomeD)
  have g: "g \<in> set gs1" using update_where_mem [OF h(1), of "fenced_grant f now" ?c] h by (simp add: gs1)
  have wf: "grants_wf gs1" using advance_grant_wf [OF assms(2,1)] by simp
  have version: "hg_token_version g = gf_token_version f + 1" "hg_id g = gf_grant f"
    using h by (auto simp: fenced_grant_def)
  have "\<not> fenced_grant f now x" if "x \<in> set gs1" for x
    using fenced_unique [OF wf that g] version by (auto simp: fenced_grant_def)
  then have "\<not> fence_current (now, gs1) f"
    by (auto simp: fence_current_def grant_fence_current_iff)
  moreover have "fence_reached (now, gs1) f"
    using wf g h by (auto simp: fence_reached_def fenced_grant_def intro!: bexI [of _ g])
  ultimately have "\<not> grant_fence_current f now2 gs2"
    using host_fence.lost_forever [OF assms(3)] by (simp add: fence_current_def)
  then show ?thesis using g h by (auto simp: grant_fence_current_iff fenced_grant_def intro!: bexI [of _ g])
qed

text \<open>A grant in its second generation, and the fence of its supervisor.\<close>

definition demo_supervisor_grant :: supervisor_grant where
  "demo_supervisor_grant = \<lparr>hg_id = ''grant_1'', hg_owner = ''owner'', hg_rooms = [''room''],
     hg_agent_keys = [''key''], hg_generation = 2, hg_token_version = 3, hg_expires_at = 1000,
     hg_revoked_at = None, sg_host = ''host'', sg_installation = ''inst'', sg_scope = ''owner'',
     sg_rental = None, sg_token_hash = ''#old''\<rparr>"

definition demo_grant_fence :: grant_fence where
  "demo_grant_fence = \<lparr>gf_grant = ''grant_1'', gf_generation = 2, gf_token_version = 3\<rparr>"

definition demo_grant_input :: grant_input where
  "demo_grant_input = \<lparr>gi_owner = ''owner'', gi_host = ''host'', gi_installation = ''inst'', gi_rooms = [''room''],
     gi_agent_keys = [''key''], gi_expires_at = 2000, gi_scope = None, gi_rental = None\<rparr>"

lemma demo_grants_wf: "grants_wf [demo_supervisor_grant]"
  by (simp add: grants_wf_def demo_supervisor_grant_def)

lemma taken_over_grant_stays_fenced_witness:
  "\<exists>gs. \<not> grant_fence_current demo_grant_fence 50 gs \<and> length gs = 1"
proof -
  let ?r = "advance_supervisor_host_grant_generation (Cons (CHR ''#'')) ''new'' demo_grant_fence 10
    [demo_supervisor_grant]"
  obtain g gs where r: "?r = (Some g, gs)" and n: "length gs = 1"
    by (simp add: advance_supervisor_host_grant_generation_def returning_first_def update_where_def
      fenced_grant_def demo_supervisor_grant_def demo_grant_fence_def)
  have "(grant_step (Cons (CHR ''#'')))\<^sup>*\<^sup>* (10, gs) (50, gs)"
    by (rule r_into_rtranclp, rule grant_step.wait) simp
  with taken_over_grant_stays_fenced [OF demo_grants_wf r] n show ?thesis by blast
qed

text \<open>Issuing a grant for a host that holds a live one recovers that grant under a new token version:
  it keeps its identifier, its generation and its scope, the fence of the lost response is rejected for ever,
  and no other live grant of the host, installation and scope exists.\<close>

theorem reissued_grant_is_recovered:
  assumes "grants_wf gs" "a \<in> set gs" "active_grant inp a"
    and "create_supervisor_host_grant hash token new_id inp gs = Inr (g, gs1)"
    and "(grant_step hash)\<^sup>*\<^sup>* (now, gs1) (now2, gs2)"
  shows "g = rotated (hash token) (hg_token_version a + 1) (gi_expires_at inp) a \<and>
    {x \<in> set gs1. hg_revoked_at x = None \<and> scope_key x = scope_key a} = {g} \<and>
    \<not> grant_fence_current \<lparr>gf_grant = hg_id a, gf_generation = hg_generation a,
      gf_token_version = hg_token_version a\<rparr> now2 gs2"
  using assms(4)
proof (cases rule: create_grant_cases)
  case fresh
  with assms(2,3) show ?thesis by blast
next
  case (recovered b)
  have "b = a" 
  proof -
    have "a \<in> set (filter (active_grant inp) gs)" using assms(2,3) by simp
    then show ?thesis using recovered(5) by simp
  qed
  let ?row = "\<lambda>x. hg_id x = hg_id a \<and> hg_token_version x = hg_token_version a \<and> hg_revoked_at x = None"
  let ?rot = "rotated (hash token) (hg_token_version a + 1) (gi_expires_at inp)"
  let ?f = "\<lparr>gf_grant = hg_id a, gf_generation = hg_generation a, gf_token_version = hg_token_version a\<rparr>"
  have live: "hg_revoked_at a = None" using assms(3) by (simp add: active_grant_def)
  from recovered(7) obtain h where "h \<in> set gs" "?row h" "g = ?rot h"
    unfolding \<open>b = a\<close> by (auto simp: returning_first_def dest: find_SomeD)
  then have g: "g = ?rot a" using fenced_unique [OF assms(1) _ assms(2)] by blast
  have mem: "g \<in> set gs1"
    using update_where_mem [OF assms(2), of ?row ?rot] live by (simp add: recovered(6) \<open>b = a\<close> g)
  have wf: "grants_wf gs1"
    unfolding recovered(6) \<open>b = a\<close> using assms(1) by (intro grants_wf_update) auto
  have live_g: "hg_revoked_at g = None" "scope_key g = scope_key a" using live by (simp_all add: g)
  have one: "{x \<in> set gs1. hg_revoked_at x = None \<and> scope_key x = scope_key a} = {g}"
  proof (rule set_eqI)
    fix x
    show "x \<in> {x \<in> set gs1. hg_revoked_at x = None \<and> scope_key x = scope_key a} \<longleftrightarrow> x \<in> {g}"
      unfolding mem_Collect_eq singleton_iff
    proof
      assume x: "x \<in> set gs1 \<and> hg_revoked_at x = None \<and> scope_key x = scope_key a"
      then show "x = g" using one_live_grant [OF wf _ mem _ live_g(1)] live_g(2) by simp
    next
      assume "x = g"
      with mem live_g show "x \<in> set gs1 \<and> hg_revoked_at x = None \<and> scope_key x = scope_key a" by simp
    qed
  qed
  have version: "hg_token_version g = hg_token_version a + 1" "hg_id g = hg_id a" by (simp_all add: g)
  have "\<not> fenced_grant ?f now x" if "x \<in> set gs1" for x
    using fenced_unique [OF wf that mem] version by (auto simp: fenced_grant_def)
  then have "\<not> fence_current (now, gs1) ?f"
    by (auto simp: fence_current_def grant_fence_current_iff)
  moreover have "fence_reached (now, gs1) ?f"
    using wf mem by (auto simp: fence_reached_def g intro!: bexI [of _ g])
  ultimately have "\<not> grant_fence_current ?f now2 gs2"
    using host_fence.lost_forever [OF assms(5)] by (simp add: fence_current_def)
  with g one show ?thesis by blast
qed

lemma reissued_grant_is_recovered_witness:
  "\<exists>g gs. create_supervisor_host_grant (Cons (CHR ''#'')) ''new'' ''grant_2'' demo_grant_input
     [demo_supervisor_grant] = Inr (g, gs) \<and> hg_id g = ''grant_1'' \<and> hg_token_version g = 4"
proof -
  obtain g gs where r: "create_supervisor_host_grant (Cons (CHR ''#'')) ''new'' ''grant_2'' demo_grant_input
      [demo_supervisor_grant] = Inr (g, gs)"
    by (simp add: create_supervisor_host_grant_def returning_first_def update_where_def active_grant_def
      scope_of_def exact_set_def demo_supervisor_grant_def demo_grant_input_def Let_def)
  have "g = rotated ''#new'' 4 2000 demo_supervisor_grant"
    using reissued_grant_is_recovered [OF demo_grants_wf _ _ r rtranclp.rtrancl_refl, of demo_supervisor_grant 0]
    by (simp add: active_grant_def scope_of_def demo_supervisor_grant_def demo_grant_input_def)
  then have "hg_id g = ''grant_1'' \<and> hg_token_version g = 4" by (simp add: demo_supervisor_grant_def)
  with r show ?thesis by blast
qed

end
