(* ===== verification/RentalRows.thy ===== *)
theory RentalRows
  imports QuotaLease HostGrants
begin

text \<open>
  Rental sessions: the state machine of \<^verbatim>\<open>src/api/rental/session-state-machine.ts\<close> and the rows of
  \<^verbatim>\<open>src/api/db/schema/rentals/sessions.ts\<close>, \<^verbatim>\<open>listings.ts\<close> and \<^verbatim>\<open>provider-hosts.ts\<close>, with the
  statements that several operations issue on them. Columns that none of the modelled statements
  reads or writes are left out.
\<close>

section \<open>The state machine\<close>

datatype session_status =
    StRequested | StAccepted | StProvisioning | StActive | StBlocked | StPatchReview | StPrOpened
  | StBudgetExhausted | StStale | StCompleted | StCancelled | StExpired | StFailed

fun VALID_TRANSITIONS :: "session_status \<Rightarrow> session_status list option" where
  "VALID_TRANSITIONS StRequested = Some [StAccepted, StCancelled]"
| "VALID_TRANSITIONS StAccepted = Some [StProvisioning, StCancelled]"
| "VALID_TRANSITIONS StProvisioning = Some [StActive, StFailed, StCancelled]"
| "VALID_TRANSITIONS StActive =
     Some [StBlocked, StPatchReview, StBudgetExhausted, StCancelled, StCompleted, StExpired, StStale]"
| "VALID_TRANSITIONS StBlocked = Some [StActive]"
| "VALID_TRANSITIONS StPatchReview = Some [StActive, StPrOpened]"
| "VALID_TRANSITIONS StPrOpened = Some [StCompleted]"
| "VALID_TRANSITIONS StBudgetExhausted = Some [StActive, StCompleted, StCancelled]"
| "VALID_TRANSITIONS StStale = Some [StActive, StExpired]"
| "VALID_TRANSITIONS _ = None"

definition is_valid_transition :: "session_status \<Rightarrow> session_status \<Rightarrow> bool" where
  "is_valid_transition p q =
     (case VALID_TRANSITIONS p of None \<Rightarrow> False | Some allowed \<Rightarrow> q \<in> set allowed)"

definition CAPACITY_CONSUMING_STATUSES :: "session_status list" where
  "CAPACITY_CONSUMING_STATUSES =
     [StAccepted, StProvisioning, StActive, StBlocked, StPatchReview, StPrOpened, StBudgetExhausted, StStale]"

definition consumes_capacity :: "session_status \<Rightarrow> bool" where
  "consumes_capacity s \<longleftrightarrow> s \<in> set CAPACITY_CONSUMING_STATUSES"

section \<open>Rows\<close>

datatype room_placement = DirectMember | LegacyChild

datatype launch_state = LaunchPending | LaunchProvisioning | LaunchActive | LaunchFailed

record runtime_selection =
  sel_kind :: string
  sel_model :: "string option"
  sel_profile :: "string option"

record rental_session =
  rs_id :: string
  rs_listing :: string
  rs_renter :: string
  rs_provider :: string
  rs_room :: "string option"
  rs_placement :: room_placement
  rs_status :: session_status
  rs_host :: "string option"
  rs_runtime :: "runtime_selection option"
  rs_attempt :: int
  rs_launch :: "launch_state option"
  rs_daemon_entry :: "string option"
  rs_worker :: "string option"
  rs_error_code :: "string option"
  rs_error_message :: "string option"
  rs_initial_message :: "string option"
  rs_request_expires :: "int option"
  rs_lease :: "quota_lease option"
  rs_unit :: "string option"
  rs_start_snapshot :: "quota_snapshot option"
  rs_latest_snapshot :: "quota_snapshot option"
  rs_confidence :: "quota_confidence option"
  rs_task_prompt :: string
  rs_heartbeats :: int
  rs_last_heartbeat :: "int option"
  rs_started :: "int option"
  rs_ended :: "int option"
  rs_updated :: int

text \<open>
  \<open>last_native_quota_snapshot\<close> is a JSON column that the desktop reports: its members may be absent,
  and its confidence and unit are strings that may name no level.
\<close>

record reported_snapshot =
  rp_unit :: "string option"
  rp_remaining :: "js_num option"
  rp_reset_at :: "string option"
  rp_confidence :: "string option"
  rp_observed_at :: "string option"

record rental_listing =
  rl_id :: string
  rl_provider :: string
  rl_host :: "string option"
  rl_ide_kind :: string
  rl_model :: "string option"
  rl_lane_id :: "string option"
  rl_confidence :: string
  rl_unit :: string
  rl_snapshot :: "reported_snapshot option"
  rl_last_reset :: "int option"
  rl_max_sessions :: int

record host_runtime =
  hr_kind :: string
  hr_authenticated :: bool
  hr_profiles :: "string list option"

record rental_host =
  rh_id :: string
  rh_provider :: string
  rh_host :: string
  rh_installation :: string
  rh_enabled :: bool
  rh_max_sessions :: int
  rh_runtimes :: "host_runtime list"
  rh_last_heartbeat :: int

datatype activity_kind = LeaseCreated | TeardownCompleted | SessionAccepted | SessionCancelled
  | SessionCompleted | SessionStarted | AgentHeartbeat

datatype provider_event = AcceptedEvent int | RequestCancelled | LaunchUpdated launch_state int

text \<open>
  The activity log, the provider events and the initial task messages are logs: the model appends to
  them, and a failure to append is not modelled.
\<close>

record start_message =
  sm_id :: string
  sm_room :: string
  sm_text :: string
  sm_client_id :: string

record rental_db =
  rd_sessions :: "rental_session list"
  rd_listings :: "rental_listing list"
  rd_hosts :: "rental_host list"
  rd_grants :: grant_table
  rd_workers :: "agent_session list"
  rd_activity :: "(string \<times> string \<times> activity_kind) list"
  rd_events :: "(string \<times> string \<times> provider_event) list"
  rd_messages :: "start_message list"

section \<open>Statements on the sessions\<close>

definition find_session :: "string \<Rightarrow> rental_db \<Rightarrow> rental_session option" where
  "find_session sid db = select_first (\<lambda>s. rs_id s = sid) (rd_sessions db)"

definition update_sessions ::
  "(rental_session \<Rightarrow> bool) \<Rightarrow> (rental_session \<Rightarrow> rental_session) \<Rightarrow> rental_db \<Rightarrow> rental_db" where
  "update_sessions p f db = db\<lparr>rd_sessions := update_where p f (rd_sessions db)\<rparr>"

definition log_activity :: "string \<Rightarrow> string option \<Rightarrow> activity_kind \<Rightarrow> rental_db \<Rightarrow> rental_db" where
  "log_activity sid room kind db =
     (case room of Some r \<Rightarrow> if r \<noteq> [] then db\<lparr>rd_activity := rd_activity db @ [(sid, r, kind)]\<rparr> else db
      | None \<Rightarrow> db)"

definition provider_log :: "string \<Rightarrow> string \<Rightarrow> provider_event \<Rightarrow> rental_db \<Rightarrow> rental_db" where
  "provider_log provider sid e db = db\<lparr>rd_events := rd_events db @ [(provider, sid, e)]\<rparr>"

section \<open>Host and runtime admission\<close>

definition RENTAL_HOST_FRESHNESS_MS :: int where
  "RENTAL_HOST_FRESHNESS_MS = 90000"

definition is_rental_host_fresh :: "int \<Rightarrow> int \<Rightarrow> bool" where
  "is_rental_host_fresh last_heartbeat now \<longleftrightarrow> now - last_heartbeat \<le> RENTAL_HOST_FRESHNESS_MS"

definition RENTAL_SAFE_RUNTIME_KIND :: string where
  "RENTAL_SAFE_RUNTIME_KIND = ''cursor''"

definition RENTAL_SAFE_PERMISSION_PROFILE_ID :: string where
  "RENTAL_SAFE_PERMISSION_PROFILE_ID = ''sandboxed_write''"

definition is_rental_runtime_selection_safe :: "runtime_selection \<Rightarrow> bool" where
  "is_rental_runtime_selection_safe r \<longleftrightarrow>
     js_lower (js_trim (sel_kind r)) = RENTAL_SAFE_RUNTIME_KIND \<and>
     map_option js_trim (sel_profile r) = Some RENTAL_SAFE_PERMISSION_PROFILE_ID"

definition assert_rental_runtime_selection_safe :: "'e \<Rightarrow> runtime_selection \<Rightarrow> 'e + runtime_selection" where
  "assert_rental_runtime_selection_safe e r =
     (if is_rental_runtime_selection_safe r
      then Inr (r\<lparr>sel_kind := RENTAL_SAFE_RUNTIME_KIND, sel_profile := Some RENTAL_SAFE_PERMISSION_PROFILE_ID\<rparr>)
      else Inl e)"

end
