(* ===== verification/LaneLeases.thy ===== *)
theory LaneLeases
  imports RentalRows
begin

text \<open>
  Quota leases on the session rows: acquiring and releasing
  (\<^verbatim>\<open>src/api/rental/quota-lease-orchestrator.ts\<close>) and the lease that a session needs for a listing
  (\<^verbatim>\<open>src/api/rental/sessions/quota.ts\<close>). Acquiring runs under the advisory lock of the lane and is
  one step. A query without an order gives the rows in the order of the table.
\<close>

section \<open>Acquiring and releasing\<close>

record acquire_input =
  aq_session :: string
  aq_room :: "string option"
  aq_lane :: quota_lane
  aq_snapshot :: quota_snapshot
  aq_capacity :: "js_num option"

definition on_lane :: "quota_lane \<Rightarrow> quota_lease \<Rightarrow> bool" where
  "on_lane lane l \<longleftrightarrow>
     ql_released_at l = None \<and> ln_provider (ql_lane l) = ln_provider lane \<and>
     (case ln_model (ql_lane l) of None \<Rightarrow> '''' | Some m \<Rightarrow> m) = (case ln_model lane of None \<Rightarrow> '''' | Some m \<Rightarrow> m)"

definition session_leases :: "rental_db \<Rightarrow> quota_lease list" where
  "session_leases db = List.map_filter rs_lease (rd_sessions db)"

definition load_active_leases_for_lane :: "quota_lane \<Rightarrow> rental_db \<Rightarrow> quota_lease list" where
  "load_active_leases_for_lane lane db = filter (on_lane lane) (session_leases db)"

definition load_session_lease :: "string \<Rightarrow> rental_db \<Rightarrow> quota_lease option" where
  "load_session_lease sid db = Option.bind (find_session sid db) rs_lease"

definition with_lease :: "quota_lease \<Rightarrow> int \<Rightarrow> rental_session \<Rightarrow> rental_session" where
  "with_lease lease now s =
     s\<lparr>rs_lease := Some lease, rs_latest_snapshot := Some (ql_snapshot lease),
       rs_confidence := Some (qs_confidence (ql_snapshot lease)), rs_updated := now\<rparr>"

definition persist_session_lease :: "string \<Rightarrow> quota_lease \<Rightarrow> int \<Rightarrow> rental_db \<Rightarrow> rental_db" where
  "persist_session_lease sid lease now db = update_sessions (\<lambda>s. rs_id s = sid) (with_lease lease now) db"

text \<open>\<open>acquireLease\<close>: a refusal carries the reason and a session that holds the lane.\<close>

definition acquire_lease ::
  "acquire_input \<Rightarrow> int \<Rightarrow> rental_db \<Rightarrow> (lease_reason \<times> string option + lease_reason \<times> quota_lease) \<times> rental_db" where
  "acquire_lease inp now db =
     (let decision = can_create_lease (load_active_leases_for_lane (aq_lane inp) db) (aq_lane inp)
            (aq_session inp) (case aq_capacity inp of None \<Rightarrow> Fin 1 | Some c \<Rightarrow> c)
      in if \<not> ld_allowed decision then (Inl (ld_reason decision, ld_held_by decision), db)
         else let lease = create_lease (aq_session inp) (aq_lane inp) (aq_snapshot inp) now;
                  db1 = persist_session_lease (aq_session inp) lease now db;
                  db2 = (if ld_reason decision = Available
                    then log_activity (aq_session inp) (aq_room inp) LeaseCreated db1 else db1)
              in (Inr (if ld_reason decision = SameSession then SameSession else Available, lease), db2))"

text \<open>\<open>releaseSessionLease\<close>: whether the lease was released now, and the lease.\<close>

definition release_session_lease ::
  "string \<Rightarrow> string option \<Rightarrow> string \<Rightarrow> int \<Rightarrow> rental_db \<Rightarrow> (bool \<times> quota_lease option) \<times> rental_db" where
  "release_session_lease sid room reason now db =
     (case load_session_lease sid db of
        None \<Rightarrow> ((False, None), db)
      | Some current \<Rightarrow>
          let (lease, changed) = release_lease current reason now
          in if \<not> changed then ((False, Some current), db)
             else ((True, Some lease),
               log_activity sid room TeardownCompleted (persist_session_lease sid lease now db)))"

section \<open>The lease a session needs\<close>

text \<open>\<open>Date.prototype.toISOString\<close>: the proleptic Gregorian date of a time in milliseconds.\<close>

definition pad_number :: "nat \<Rightarrow> int \<Rightarrow> string" where
  "pad_number w n = (let s = show_nat (nat n) in replicate (w - length s) (CHR ''0'') @ s)"

definition civil_from_days :: "int \<Rightarrow> int \<times> int \<times> int" where
  "civil_from_days days =
     (let z = days + 719468; era = z div 146097; doe = z mod 146097;
          yoe = (doe - doe div 1460 + doe div 36524 - doe div 146096) div 365;
          doy = doe - (365 * yoe + yoe div 4 - yoe div 100);
          mp = (5 * doy + 2) div 153;
          d = doy - (153 * mp + 2) div 5 + 1;
          m = (if mp < 10 then mp + 3 else mp - 9);
          y = yoe + era * 400 + (if m \<le> 2 then 1 else 0)
      in (y, m, d))"

definition to_iso_string :: "int \<Rightarrow> string" where
  "to_iso_string ms =
     (let (y, m, d) = civil_from_days (ms div 86400000); t = ms mod 86400000;
          year = (if 0 \<le> y \<and> y \<le> 9999 then pad_number 4 y
            else (if y < 0 then ''-'' else ''+'') @ pad_number 6 \<bar>y\<bar>)
      in year @ ''-'' @ pad_number 2 m @ ''-'' @ pad_number 2 d @ ''T'' @ pad_number 2 (t div 3600000) @ '':'' @
         pad_number 2 (t div 60000 mod 60) @ '':'' @ pad_number 2 (t div 1000 mod 60) @ ''.'' @
         pad_number 3 (t mod 1000) @ ''Z'')"

definition string_or_null :: "string option \<Rightarrow> string option" where
  "string_or_null v = (case v of None \<Rightarrow> None | Some s \<Rightarrow> if js_trim s \<noteq> [] then Some s else None)"

definition finite_number_or_null :: "js_num option \<Rightarrow> rat option" where
  "finite_number_or_null v = (case v of Some (Fin q) \<Rightarrow> Some q | _ \<Rightarrow> None)"

definition QUOTA_CONFIDENCE_VALUES :: "(string \<times> quota_confidence) list" where
  "QUOTA_CONFIDENCE_VALUES =
     [(''official_exact'', OfficialExact), (''local_exact'', LocalExact), (''derived'', Derived),
      (''calibrated'', Calibrated), (''estimated'', Estimated), (''weak_estimate'', WeakEstimate),
      (''unknown'', UnknownConfidence)]"

definition QUOTA_UNIT_VALUES :: "string list" where
  "QUOTA_UNIT_VALUES =
     [''tokens'', ''credits'', ''usd'', ''requests'', ''percent_window'', ''time'', ''unknown'']"

definition confidence_or_unknown :: "string \<Rightarrow> quota_confidence" where
  "confidence_or_unknown v =
     (case map_of QUOTA_CONFIDENCE_VALUES v of None \<Rightarrow> UnknownConfidence | Some c \<Rightarrow> c)"

definition unit_or_unknown :: "string \<Rightarrow> string" where
  "unit_or_unknown v = (if v \<in> set QUOTA_UNIT_VALUES then v else ''unknown'')"

text \<open>The nullish alternative \<open>a ?? b\<close>, and a member of a snapshot that may be absent.\<close>

definition or_else :: "'a option \<Rightarrow> 'a \<Rightarrow> 'a" where
  "or_else x d = (case x of None \<Rightarrow> d | Some v \<Rightarrow> v)"

definition build_quota_lease_input :: "rental_session \<Rightarrow> rental_listing \<Rightarrow> int \<Rightarrow> acquire_input" where
  "build_quota_lease_input s listing now =
     (let raw = rl_snapshot listing;
          reset = (case string_or_null (Option.bind raw rp_reset_at) of
            Some r \<Rightarrow> Some r | None \<Rightarrow> map_option to_iso_string (rl_last_reset listing));
          confidence = confidence_or_unknown (or_else (Option.bind raw rp_confidence) (rl_confidence listing))
      in \<lparr>aq_session = rs_id s, aq_room = rs_room s,
          aq_lane = \<lparr>ln_provider = rl_ide_kind listing, ln_model = rl_model listing,
            ln_lane_id = rl_lane_id listing, ln_account = Some (rl_provider listing)\<rparr>,
          aq_snapshot = \<lparr>qs_unit = Some (unit_or_unknown (or_else (Option.bind raw rp_unit) (rl_unit listing))),
            qs_remaining = finite_number_or_null (Option.bind raw rp_remaining),
            qs_reset_at = reset, qs_confidence = confidence,
            qs_observed_at = or_else (string_or_null (Option.bind raw rp_observed_at)) (to_iso_string now)\<rparr>,
          aq_capacity = Some (Fin (of_int (lane_capacity (Some (Fin (of_int (rl_max_sessions listing))))
            [confidence_or_unknown (rl_confidence listing), confidence])))\<rparr>)"

definition acquire_quota_lease_for_session ::
  "rental_session \<Rightarrow> rental_listing \<Rightarrow> int \<Rightarrow> rental_db \<Rightarrow> (lease_reason \<times> string option + quota_lease) \<times> rental_db" where
  "acquire_quota_lease_for_session s listing now db =
     (case acquire_lease (build_quota_lease_input s listing now) now db of
        (Inl e, db') \<Rightarrow> (Inl e, db')
      | (Inr (_, lease), db') \<Rightarrow> (Inr lease, db'))"

definition release_quota_lease_for_session :: "rental_session \<Rightarrow> string \<Rightarrow> int \<Rightarrow> rental_db \<Rightarrow> rental_db" where
  "release_quota_lease_for_session s reason now db =
     snd (release_session_lease (rs_id s) (rs_room s) reason now db)"

end
