(* ===== verification/RentalAuthority.thy ===== *)
theory RentalAuthority
  imports LaneLeases
begin

text \<open>
  The credentials of a rental launch: withdrawing them
  (\<open>revokeRentalLaunchAuthority\<close> of \<^verbatim>\<open>src/api/rental/session-launch.ts\<close>, with the part of
  \<open>endRoomAgentSession\<close> in \<^verbatim>\<open>src/api/db/auth/room-agent-sessions.ts\<close> that decides whether the worker
  ends), issuing them, and the check that a launched worker holds them.
\<close>

section \<open>Errors\<close>

datatype rental_error =
    LaunchSelectionRequired | UnsafeRuntimeProfile | AcceptSelectionMismatch
  | InvalidTransition session_status session_status | RequestExpired | ListingNotFound
  | LaunchSelectionUnsupported | QuotaLeaseError lease_reason "string option" | ListingAtCapacity
  | ProviderHostUnavailable | ListingHostMismatch | RuntimeUnavailable | PermissionProfileUnavailable
  | ProviderHostAtCapacity | AcceptFenceLost | TransitionFenceLost | SupervisorGrantFenceStale
  | RentalSessionNotFound | RentalInvalidStatus session_status | DirectRoomRequired | LaunchNotAuthorized
  | LaunchNotPending | AgentIdentityNotOwned | GrantProvisionConflict | LaunchAttemptStale
  | LaunchAlreadyActive | LaunchStateTransitionInvalid | DaemonEntryFenceLost
  | ActiveLaunchIdentityRequired | RentalWorkerNotReady | RentalWorkerGrantMismatch

section \<open>Withdrawing the credentials of a launch\<close>

text \<open>
  \<open>endRoomAgentSession\<close> as it is called here, with an owner and a grant fence: the first conjuncts of
  the statement are the checks it makes before, so a row that passed them is updated.
\<close>

definition end_room_agent_session ::
  "string \<Rightarrow> string \<Rightarrow> grant_fence \<Rightarrow> int \<Rightarrow> rental_db \<Rightarrow> rental_error + unit \<times> rental_db" where
  "end_room_agent_session wid owner f now db =
     (let mine = (\<lambda>w. as_id w = wid \<and> as_owner w = owner \<and> as_grant w = Some (gf_grant f) \<and> as_worker w)
      in bind_result (guard_result (grant_fence_current f now (rd_grants db)) SupervisorGrantFenceStale) (\<lambda>_.
         bind_result (require (select_first mine (rd_workers db)) SupervisorGrantFenceStale) (\<lambda>w.
         bind_result (guard_result (truthy (as_instance w)) SupervisorGrantFenceStale) (\<lambda>_.
         if as_ended_at w \<noteq> None then Inr ((), db)
         else Inr ((), db\<lparr>rd_workers := update_where (\<lambda>w. mine w \<and> as_ended_at w = None)
           (\<lambda>w. w\<lparr>as_ended_at := Some now\<rparr>) (rd_workers db)\<rparr>)))))"

text \<open>The loop over the live grants of the session that was read first; it ends at the first error.\<close>

fun revoke_grants :: "string \<Rightarrow> int \<Rightarrow> supervisor_grant list \<Rightarrow> rental_db \<Rightarrow> (rental_error + unit) \<times> rental_db" where
  "revoke_grants owner now [] db = (Inr (), db)"
| "revoke_grants owner now (g # gs) db =
     (let f = \<lparr>gf_grant = hg_id g, gf_generation = hg_generation g, gf_token_version = hg_token_version g\<rparr>;
          (r, db1) = (case select_first (\<lambda>w. as_grant w = Some (hg_id g) \<and> as_ended_at w = None) (rd_workers db) of
              None \<Rightarrow> (Inr (), db)
            | Some w \<Rightarrow> transaction (end_room_agent_session (as_id w) owner f now) db)
      in case r of
           Inl e \<Rightarrow> (Inl e, db1)
         | Inr _ \<Rightarrow> revoke_grants owner now gs
             (db1\<lparr>rd_grants := snd (revoke_supervisor_host_grant (hg_id g) owner now (rd_grants db1))\<rparr>))"

definition launch_grants :: "string \<Rightarrow> string \<Rightarrow> rental_db \<Rightarrow> supervisor_grant list" where
  "launch_grants sid provider db =
     filter (\<lambda>g. sg_rental g = Some sid \<and> hg_owner g = provider \<and> hg_revoked_at g = None) (rd_grants db)"

definition revoke_rental_launch_authority ::
  "string \<Rightarrow> string \<Rightarrow> int \<Rightarrow> rental_db \<Rightarrow> (rental_error + unit) \<times> rental_db" where
  "revoke_rental_launch_authority sid provider now db =
     revoke_grants provider now (launch_grants sid provider db) db"

text \<open>
  \<open>Promise.allSettled\<close> of releasing the lane and withdrawing the credentials, which write different
  tables: both are done, and then an error of the second is thrown.
\<close>

definition settle_terminal_controls ::
  "rental_session \<Rightarrow> string \<Rightarrow> string \<Rightarrow> int \<Rightarrow> rental_db \<Rightarrow> (rental_error + unit) \<times> rental_db" where
  "settle_terminal_controls s provider reason now db =
     revoke_rental_launch_authority (rs_id s) provider now (release_quota_lease_for_session s reason now db)"

section \<open>Issuing the credentials of a launch\<close>

definition MAX_RENTAL_GRANT_TTL_MS :: int where
  "MAX_RENTAL_GRANT_TTL_MS = 24 * 60 * 60 * 1000"

definition grant_expiry :: "int option \<Rightarrow> int \<Rightarrow> int" where
  "grant_expiry time_limit_minutes now =
     (let requested = (case time_limit_minutes of None \<Rightarrow> 30 | Some m \<Rightarrow> m) * 60000
      in now + min MAX_RENTAL_GRANT_TTL_MS (requested + 10 * 60000))"

text \<open>
  \<open>createRentalLaunchAuthority\<close>. The time limit of the session, which only this function reads, the
  owner of the agent identity (None when it is unknown), the random token and the new identifier are
  arguments; the identity's canonical key is the given key.
\<close>

definition create_rental_launch_authority ::
  "(string \<Rightarrow> string) \<Rightarrow> string \<Rightarrow> string \<Rightarrow> string \<Rightarrow> string \<Rightarrow> string \<Rightarrow> string option \<Rightarrow> int option \<Rightarrow> int \<Rightarrow>
   rental_db \<Rightarrow> rental_error + (rental_session \<times> supervisor_grant) option \<times> rental_db" where
  "create_rental_launch_authority hash token new_id sid provider agent_key agent_owner time_limit now db =
     (case select_first (\<lambda>s. rs_id s = sid \<and> rs_provider s = provider) (rd_sessions db) of
        None \<Rightarrow> Inr (None, db)
      | Some s \<Rightarrow>
          bind_result (guard_result (truthy (rs_room s) \<and> rs_placement s = DirectMember) DirectRoomRequired) (\<lambda>_.
          bind_result (guard_result (rs_status s = StAccepted \<or> rs_status s = StProvisioning) LaunchNotAuthorized) (\<lambda>_.
          bind_result (guard_result (truthy (rs_host s) \<and> rs_runtime s \<noteq> None \<and> 1 \<le> rs_attempt s)
            LaunchSelectionRequired) (\<lambda>_.
          bind_result (assert_rental_runtime_selection_safe UnsafeRuntimeProfile (the (rs_runtime s))) (\<lambda>_.
          bind_result (guard_result (rs_launch s = Some LaunchPending \<or> rs_launch s = Some LaunchProvisioning)
            LaunchNotPending) (\<lambda>_.
          bind_result (require (select_first (\<lambda>h. Some (rh_id h) = rs_host s \<and> rh_provider h = provider)
            (rd_hosts db)) ProviderHostUnavailable) (\<lambda>host.
          bind_result (guard_result (rh_enabled host \<and> is_rental_host_fresh (rh_last_heartbeat host) now)
            ProviderHostUnavailable) (\<lambda>_.
          bind_result (guard_result (agent_owner = Some provider) AgentIdentityNotOwned) (\<lambda>_.
          bind_result (case create_supervisor_host_grant hash token new_id
            \<lparr>gi_owner = provider, gi_host = rh_host host, gi_installation = rh_installation host,
             gi_rooms = [the (rs_room s)], gi_agent_keys = [agent_key], gi_expires_at = grant_expiry time_limit now,
             gi_scope = Some (''rental:'' @ rs_id s), gi_rental = Some (rs_id s)\<rparr> (rd_grants db) of
              Inl _ \<Rightarrow> Inl GrantProvisionConflict | Inr created \<Rightarrow> Inr created) (\<lambda>(g, gs).
          Inr (Some (s, g), db\<lparr>rd_grants := gs\<rparr>)))))))))))"

section \<open>The launched worker\<close>

definition validate_active_worker ::
  "rental_session \<Rightarrow> string \<Rightarrow> string \<Rightarrow> rental_db \<Rightarrow> rental_error + agent_session" where
  "validate_active_worker s wid daemon_entry db =
     bind_result (require (select_first (\<lambda>w. as_id w = wid \<and> Some (as_room w) = rs_room s \<and>
         as_owner w = rs_provider s \<and> as_instance w = Some daemon_entry \<and> as_worker w \<and> as_ended_at w = None)
       (rd_workers db)) RentalWorkerNotReady) (\<lambda>w.
     bind_result (require (select_first (\<lambda>g. hg_id g = (case as_grant w of None \<Rightarrow> '''' | Some g \<Rightarrow> g) \<and>
         sg_rental g = Some (rs_id s) \<and> hg_revoked_at g = None) (rd_grants db)) RentalWorkerGrantMismatch) (\<lambda>g.
     bind_result (guard_result (as_agent_key w \<in> set (hg_agent_keys g)) RentalWorkerGrantMismatch) (\<lambda>_.
     Inr w)))"

end
