(* ===== verification/RentalSessions.thy ===== *)
theory RentalSessions
  imports RentalAuthority
begin

text \<open>
  Accepting, declining, cancelling and completing a rental session
  (\<^verbatim>\<open>src/api/rental/sessions/transitions.ts\<close>, \<^verbatim>\<open>sessions/queries.ts\<close>,
  \<^verbatim>\<open>src/api/rental/room-projection.ts\<close>, \<^verbatim>\<open>src/api/routes/rental/internal/\<close>). Each handler reads the session
  first and writes it later under a fence on the status it read; the part that writes takes the row
  that was read as its argument \<open>seen\<close>, so that other writes may come between the two.
\<close>

section \<open>Accepting\<close>

record launch_selection =
  la_host :: string
  la_installation :: string
  la_runtime :: runtime_selection

definition is_rental_launch_retry :: "session_status \<Rightarrow> launch_state option \<Rightarrow> bool" where
  "is_rental_launch_retry status launch \<longleftrightarrow> status = StAccepted \<and> launch = Some LaunchFailed"

definition rental_launch_identity_reset :: "rental_session \<Rightarrow> rental_session" where
  "rental_launch_identity_reset s = s\<lparr>rs_daemon_entry := None, rs_worker := None\<rparr>"

definition own_host :: "string \<Rightarrow> launch_selection \<Rightarrow> rental_host \<Rightarrow> bool" where
  "own_host provider la h \<longleftrightarrow>
     rh_provider h = provider \<and> rh_host h = la_host la \<and> rh_installation h = la_installation la"

text \<open>
  What the reading part decides: no such session, the pending session of an exact retry, or to go on
  with the row, its listing, the checked launch selection and whether a failed launch is retried.
\<close>

datatype accept_plan =
    NoSession
  | PendingRetry rental_session
  | Proceed rental_session rental_listing "launch_selection option" bool

definition safe_launch :: "launch_selection option \<Rightarrow> rental_error + launch_selection option" where
  "safe_launch launch =
     (case launch of None \<Rightarrow> Inr None
      | Some la \<Rightarrow> bind_result (assert_rental_runtime_selection_safe UnsafeRuntimeProfile (la_runtime la))
          (\<lambda>r. Inr (Some (la\<lparr>la_runtime := r\<rparr>))))"

definition same_selection :: "rental_session \<Rightarrow> rental_host option \<Rightarrow> runtime_selection \<Rightarrow> bool" where
  "same_selection s host r \<longleftrightarrow>
     (case host of None \<Rightarrow> False | Some h \<Rightarrow> Some (rh_id h) = rs_host s) \<and>
     (case rs_runtime s of None \<Rightarrow> False
      | Some sel \<Rightarrow> sel_kind sel = sel_kind r \<and> sel_profile sel = sel_profile r \<and> sel_model sel = sel_model r)"

definition request_expired :: "rental_session \<Rightarrow> int \<Rightarrow> bool" where
  "request_expired s now \<longleftrightarrow> (case rs_request_expires s of None \<Rightarrow> False | Some e \<Rightarrow> e \<le> now)"

definition expire_row :: "int \<Rightarrow> rental_session \<Rightarrow> rental_session" where
  "expire_row now s = s\<lparr>rs_status := StExpired, rs_ended := Some now, rs_updated := now\<rparr>"

definition accept_checks ::
  "rental_session \<Rightarrow> string \<Rightarrow> launch_selection option \<Rightarrow> int \<Rightarrow> rental_db \<Rightarrow> (rental_error + accept_plan) \<times> rental_db" where
  "accept_checks s provider launch now db =
     (if rs_placement s = DirectMember \<and> launch = None then (Inl LaunchSelectionRequired, db)
      else case safe_launch launch of Inl e \<Rightarrow> (Inl e, db) | Inr safe \<Rightarrow>
      if rs_status s = StAccepted \<and> rs_launch s = Some LaunchPending \<and> safe \<noteq> None
      then (if same_selection s (select_first (own_host provider (the safe)) (rd_hosts db)) (la_runtime (the safe))
            then (Inr (PendingRetry s), db) else (Inl AcceptSelectionMismatch, db))
      else let retrying = is_rental_launch_retry (rs_status s) (rs_launch s)
      in if \<not> retrying \<and> \<not> is_valid_transition (rs_status s) StAccepted
         then (Inl (InvalidTransition (rs_status s) StAccepted), db)
         else if retrying \<and> launch = None then (Inl LaunchSelectionRequired, db)
         else if \<not> retrying \<and> request_expired s now
         then (Inl RequestExpired,
           update_sessions (\<lambda>r. rs_id r = rs_id s \<and> rs_status r = StRequested) (expire_row now) db)
         else case select_first (\<lambda>l. rl_id l = rs_listing s) (rd_listings db) of
                None \<Rightarrow> (Inl ListingNotFound, db)
              | Some listing \<Rightarrow>
                  if truthy (rl_host listing) \<and> safe = None then (Inl LaunchSelectionRequired, db)
                  else if safe \<noteq> None \<and> rs_placement s \<noteq> DirectMember then (Inl LaunchSelectionUnsupported, db)
                  else (Inr (Proceed s listing safe retrying), db))"

definition accept_begin ::
  "string \<Rightarrow> string \<Rightarrow> launch_selection option \<Rightarrow> int \<Rightarrow> rental_db \<Rightarrow> (rental_error + accept_plan) \<times> rental_db" where
  "accept_begin sid provider launch now db =
     (case select_first (\<lambda>s. rs_id s = sid \<and> rs_provider s = provider) (rd_sessions db) of
        None \<Rightarrow> (Inr NoSession, db)
      | Some s \<Rightarrow> accept_checks s provider launch now db)"

definition count_sessions :: "(rental_session \<Rightarrow> bool) \<Rightarrow> rental_db \<Rightarrow> int" where
  "count_sessions p db = int (length (filter p (rd_sessions db)))"

text \<open>The sessions that count against a limit; a retried launch does not count itself.\<close>

definition consuming :: "string option \<Rightarrow> (rental_session \<Rightarrow> bool) \<Rightarrow> rental_session \<Rightarrow> bool" where
  "consuming except p s \<longleftrightarrow> p s \<and> consumes_capacity (rs_status s) \<and> Some (rs_id s) \<noteq> except"

definition count_capacity_consuming_sessions :: "string \<Rightarrow> rental_db \<Rightarrow> int" where
  "count_capacity_consuming_sessions listing db =
     count_sessions (consuming None (\<lambda>s. rs_listing s = listing)) db"

text \<open>The host and the runtime for a launch, checked inside the transaction.\<close>

definition admit_host ::
  "rental_listing \<Rightarrow> launch_selection \<Rightarrow> string \<Rightarrow> string option \<Rightarrow> int \<Rightarrow> rental_db \<Rightarrow> rental_error + rental_host" where
  "admit_host listing la provider except now db =
     bind_result (require (select_first (own_host provider la) (rd_hosts db)) ProviderHostUnavailable) (\<lambda>host.
     bind_result (guard_result (rh_enabled host \<and> is_rental_host_fresh (rh_last_heartbeat host) now)
       ProviderHostUnavailable) (\<lambda>_.
     bind_result (guard_result (\<not> truthy (rl_host listing) \<or> rl_host listing = Some (rh_id host))
       ListingHostMismatch) (\<lambda>_.
     bind_result (require (List.find (\<lambda>r. hr_kind r = sel_kind (la_runtime la) \<and> hr_authenticated r)
       (rh_runtimes host)) RuntimeUnavailable) (\<lambda>runtime.
     bind_result (guard_result (case (hr_profiles runtime, sel_profile (la_runtime la)) of
         (Some ps, Some p) \<Rightarrow> p \<in> set ps | _ \<Rightarrow> False) PermissionProfileUnavailable) (\<lambda>_.
     bind_result (guard_result
       (count_sessions (consuming except (\<lambda>s. rs_host s = Some (rh_id host))) db < rh_max_sessions host)
       ProviderHostAtCapacity) (\<lambda>_.
     Inr host))))))"

definition stored_runtime :: "runtime_selection \<Rightarrow> runtime_selection" where
  "stored_runtime r = r\<lparr>sel_model := (if truthy (sel_model r) then sel_model r else None)\<rparr>"

definition accepted_row ::
  "rental_session \<Rightarrow> quota_lease \<Rightarrow> string option \<Rightarrow> runtime_selection option \<Rightarrow> int \<Rightarrow> rental_session \<Rightarrow> rental_session" where
  "accepted_row seen lease host runtime now s =
     rental_launch_identity_reset (s\<lparr>rs_status := StAccepted, rs_lease := Some lease,
       rs_unit := qs_unit (ql_snapshot lease), rs_start_snapshot := Some (ql_snapshot lease),
       rs_latest_snapshot := Some (ql_snapshot lease), rs_confidence := Some (qs_confidence (ql_snapshot lease)),
       rs_host := host, rs_runtime := runtime,
       rs_attempt := (if runtime \<noteq> None then rs_attempt seen + 1 else 0),
       rs_launch := (if runtime \<noteq> None then Some LaunchPending else None),
       rs_error_code := None, rs_error_message := None, rs_updated := now\<rparr>)"

definition accept_fence :: "rental_session \<Rightarrow> bool \<Rightarrow> rental_session \<Rightarrow> bool" where
  "accept_fence seen retrying s \<longleftrightarrow> rs_id s = rs_id seen \<and>
     rs_status s = (if retrying then StAccepted else StRequested) \<and> (retrying \<longrightarrow> rs_launch s = Some LaunchFailed)"

text \<open>The transaction under the capacity locks.\<close>

definition accept_commit ::
  "rental_session \<Rightarrow> rental_listing \<Rightarrow> launch_selection option \<Rightarrow> bool \<Rightarrow> quota_lease \<Rightarrow> string \<Rightarrow> int \<Rightarrow> rental_db \<Rightarrow>
   rental_error + rental_session \<times> rental_db" where
  "accept_commit seen listing safe retrying lease provider now db =
     (let except = (if retrying then Some (rs_id seen) else None)
      in bind_result (guard_result
           (count_sessions (consuming except (\<lambda>s. rs_listing s = rl_id listing)) db < rl_max_sessions listing)
           ListingAtCapacity) (\<lambda>_.
         bind_result (case safe of None \<Rightarrow> Inr None
             | Some la \<Rightarrow> bind_result (admit_host listing la provider except now db) (\<lambda>h. Inr (Some h))) (\<lambda>host.
         let change = accepted_row seen lease (map_option rh_id host)
               (map_option (\<lambda>la. stored_runtime (la_runtime la)) safe) now
         in bind_result (require (returning_first (accept_fence seen retrying) change (rd_sessions db))
              AcceptFenceLost) (\<lambda>accepted.
            Inr (accepted, update_sessions (accept_fence seen retrying) change db)))))"

text \<open>After a failed commit the lane is given back if the session is still only requested.\<close>

definition accept_cleanup :: "rental_session \<Rightarrow> bool \<Rightarrow> int \<Rightarrow> rental_db \<Rightarrow> rental_db" where
  "accept_cleanup seen retrying now db =
     (if \<not> retrying \<and> map_option rs_status (find_session (rs_id seen) db) = Some StRequested
      then release_quota_lease_for_session seen ''accept_failed'' now db else db)"

definition accept_finish ::
  "rental_session \<Rightarrow> rental_listing \<Rightarrow> launch_selection option \<Rightarrow> bool \<Rightarrow> quota_lease \<Rightarrow> string \<Rightarrow> int \<Rightarrow> rental_db \<Rightarrow>
   (rental_error + rental_session) \<times> rental_db" where
  "accept_finish seen listing safe retrying lease provider now db =
     (case transaction (accept_commit seen listing safe retrying lease provider now) db of
        (Inl e, db1) \<Rightarrow> (Inl e, accept_cleanup seen retrying now db1)
      | (Inr updated, db1) \<Rightarrow> (Inr updated,
          provider_log provider (rs_id seen) (AcceptedEvent (rs_attempt updated))
            (if retrying then db1 else log_activity (rs_id seen) (rs_room seen) SessionAccepted db1)))"

text \<open>\<open>acceptSession\<close> with nothing in between.\<close>

definition accept_session ::
  "string \<Rightarrow> string \<Rightarrow> launch_selection option \<Rightarrow> int \<Rightarrow> rental_db \<Rightarrow> (rental_error + rental_session option) \<times> rental_db" where
  "accept_session sid provider launch now db =
     (case accept_begin sid provider launch now db of
        (Inl e, db1) \<Rightarrow> (Inl e, db1)
      | (Inr NoSession, db1) \<Rightarrow> (Inr None, db1)
      | (Inr (PendingRetry s), db1) \<Rightarrow> (Inr (Some s), db1)
      | (Inr (Proceed s listing safe retrying), db1) \<Rightarrow>
          (case acquire_quota_lease_for_session s listing now db1 of
             (Inl (reason, held), db2) \<Rightarrow> (Inl (QuotaLeaseError reason held), db2)
           | (Inr lease, db2) \<Rightarrow>
               (case accept_finish s listing safe retrying lease provider now db2 of
                  (Inl e, db3) \<Rightarrow> (Inl e, db3) | (Inr u, db3) \<Rightarrow> (Inr (Some u), db3))))"

section \<open>Ending\<close>

definition status_fence :: "rental_session \<Rightarrow> rental_session \<Rightarrow> bool" where
  "status_fence seen s \<longleftrightarrow> rs_id s = rs_id seen \<and> rs_status s = rs_status seen"

definition ended_row :: "session_status \<Rightarrow> int \<Rightarrow> rental_session \<Rightarrow> rental_session" where
  "ended_row status now s = s\<lparr>rs_status := status, rs_ended := Some now, rs_updated := now\<rparr>"

text \<open>The fenced update to a terminal status, and then the controls of the session are settled.\<close>

definition end_session ::
  "session_status \<Rightarrow> string \<Rightarrow> rental_session \<Rightarrow> int \<Rightarrow> rental_db \<Rightarrow> (rental_error + rental_session) \<times> rental_db" where
  "end_session status reason seen now db =
     (if \<not> is_valid_transition (rs_status seen) status then (Inl (InvalidTransition (rs_status seen) status), db)
      else case returning_first (status_fence seen) (ended_row status now) (rd_sessions db) of
        None \<Rightarrow> (Inl TransitionFenceLost, db)
      | Some updated \<Rightarrow>
          (case settle_terminal_controls updated (rs_provider seen) reason now
               (update_sessions (status_fence seen) (ended_row status now) db) of
             (Inl e, db1) \<Rightarrow> (Inl e, db1)
           | (Inr _, db1) \<Rightarrow> (Inr updated, db1)))"

text \<open>Only after that is the end published.\<close>

definition publish_end ::
  "('e + rental_session) \<times> rental_db \<Rightarrow> (rental_session \<Rightarrow> rental_db \<Rightarrow> rental_db) \<Rightarrow>
   ('e + rental_session) option \<times> rental_db" where
  "publish_end result publish =
     (case result of (Inl e, db) \<Rightarrow> (Some (Inl e), db) | (Inr updated, db) \<Rightarrow> (Some (Inr updated), publish updated db))"

definition decline_session ::
  "string \<Rightarrow> string \<Rightarrow> int \<Rightarrow> rental_db \<Rightarrow> (rental_error + rental_session) option \<times> rental_db" where
  "decline_session sid provider now db =
     (case select_first (\<lambda>s. rs_id s = sid \<and> rs_provider s = provider) (rd_sessions db) of
        None \<Rightarrow> (None, db)
      | Some s \<Rightarrow> publish_end (end_session StCancelled ''declined'' s now db)
          (\<lambda>_. log_activity sid (rs_room s) SessionCancelled))"

datatype participant = RenterSide | ProviderSide

definition participates :: "participant \<Rightarrow> string \<Rightarrow> rental_session \<Rightarrow> bool" where
  "participates role account s = (case role of RenterSide \<Rightarrow> rs_renter s = account | ProviderSide \<Rightarrow> rs_provider s = account)"

definition cancel_session ::
  "string \<Rightarrow> string \<Rightarrow> participant \<Rightarrow> int \<Rightarrow> rental_db \<Rightarrow> (rental_error + rental_session) option \<times> rental_db" where
  "cancel_session sid account role now db =
     (case select_first (\<lambda>s. rs_id s = sid \<and> participates role account s) (rd_sessions db) of
        None \<Rightarrow> (None, db)
      | Some s \<Rightarrow> publish_end (end_session StCancelled ''cancelled'' s now db)
          (\<lambda>_ db. provider_log (rs_provider s) sid RequestCancelled (log_activity sid (rs_room s) SessionCancelled db)))"

text \<open>The routes \<open>/complete\<close> and \<open>/cancel\<close>, open to both sides.\<close>

definition resolve_session_access :: "string \<Rightarrow> string \<Rightarrow> rental_db \<Rightarrow> participant option" where
  "resolve_session_access sid account db =
     (case find_session sid db of None \<Rightarrow> None
      | Some s \<Rightarrow> if rs_renter s = account then Some RenterSide
          else if rs_provider s = account then Some ProviderSide else None)"

definition finish_route ::
  "session_status \<Rightarrow> string \<Rightarrow> activity_kind \<Rightarrow> string \<Rightarrow> string \<Rightarrow> int \<Rightarrow> rental_db \<Rightarrow>
   (rental_error + rental_session) option \<times> rental_db" where
  "finish_route status reason activity sid account now db =
     (case resolve_session_access sid account db of
        None \<Rightarrow> (None, db)
      | Some _ \<Rightarrow> (case find_session sid db of None \<Rightarrow> (None, db)
          | Some s \<Rightarrow> publish_end (end_session status reason s now db)
              (\<lambda>updated. log_activity sid (rs_room updated) activity)))"

definition complete_route ::
  "string \<Rightarrow> string \<Rightarrow> int \<Rightarrow> rental_db \<Rightarrow> (rental_error + rental_session) option \<times> rental_db" where
  "complete_route sid account now db =
     finish_route StCompleted ''completed'' SessionCompleted sid account now db"

definition cancel_route ::
  "string \<Rightarrow> string \<Rightarrow> int \<Rightarrow> rental_db \<Rightarrow> (rental_error + rental_session) option \<times> rental_db" where
  "cancel_route sid account now db =
     finish_route StCancelled ''cancelled'' SessionCancelled sid account now db"

section \<open>Expiry of requests and the rental room\<close>

text \<open>\<open>getSessionById\<close>: a request past its time is expired by the read.\<close>

definition get_session_by_id ::
  "string \<Rightarrow> string \<Rightarrow> int \<Rightarrow> rental_db \<Rightarrow> rental_session option \<times> rental_db" where
  "get_session_by_id sid account now db =
     (case find_session sid db of
        None \<Rightarrow> (None, db)
      | Some s \<Rightarrow>
          if rs_renter s \<noteq> account \<and> rs_provider s \<noteq> account then (None, db)
          else if rs_status s = StRequested \<and> request_expired s now
          then let row = (\<lambda>r. rs_id r = rs_id s \<and> rs_status r = StRequested)
               in (Some (case returning_first row (expire_row now) (rd_sessions db) of None \<Rightarrow> s | Some e \<Rightarrow> e),
                   update_sessions row (expire_row now) db)
          else (Some s, db))"

text \<open>The write of \<open>listProviderRequests\<close>, and the requests it then reads.\<close>

definition list_provider_requests :: "string \<Rightarrow> int \<Rightarrow> rental_db \<Rightarrow> rental_session list \<times> rental_db" where
  "list_provider_requests provider now db =
     (let db1 = update_sessions (\<lambda>r. rs_provider r = provider \<and> rs_status r = StRequested \<and> request_expired r now)
            (expire_row now) db
      in (filter (\<lambda>s. rs_provider s = provider \<and> rs_status s = StRequested) (rd_sessions db1), db1))"

definition is_rental_participant_provisionable_status :: "session_status \<Rightarrow> bool" where
  "is_rental_participant_provisionable_status s \<longleftrightarrow> s = StAccepted \<or> s = StProvisioning \<or> s = StActive"

text \<open>
  \<open>provisionRentalRoom\<close> on the session row, which is locked; the room that the transaction finds or
  creates for the session is an argument, the participants of a room are not modelled.
\<close>

definition provision_rental_room ::
  "string \<Rightarrow> string \<Rightarrow> int \<Rightarrow> rental_db \<Rightarrow> rental_error + rental_session \<times> rental_db" where
  "provision_rental_room sid room now db =
     bind_result (require (find_session sid db) RentalSessionNotFound) (\<lambda>s.
     bind_result (guard_result (is_rental_participant_provisionable_status (rs_status s))
       (RentalInvalidStatus (rs_status s))) (\<lambda>_.
     if truthy (rs_room s) then Inr (s, db)
     else let change = (\<lambda>r. r\<lparr>rs_room := Some room, rs_status := StProvisioning, rs_updated := now\<rparr>)
          in bind_result (require (returning_first (\<lambda>r. rs_id r = sid) change (rd_sessions db)) RentalSessionNotFound)
               (\<lambda>updated. Inr (updated, update_sessions (\<lambda>r. rs_id r = sid) change db))))"

end
