(* ===== verification/RentalLaunch.thy ===== *)
theory RentalLaunch
  imports RentalSessions
begin

text \<open>
  A rental session that runs: the acknowledgements of its launch
  (\<^verbatim>\<open>src/api/rental/session-launch.ts\<close>) and the heartbeats of its agent
  (\<^verbatim>\<open>src/api/rental/heartbeat.ts\<close>).
\<close>

section \<open>Acknowledging a launch\<close>

text \<open>The state an acknowledgement reports is one of provisioning, active and failed.\<close>

datatype ack_state = AckProvisioning | AckActive | AckFailed

fun launch_of :: "ack_state \<Rightarrow> launch_state" where
  "launch_of AckProvisioning = LaunchProvisioning"
| "launch_of AckActive = LaunchActive"
| "launch_of AckFailed = LaunchFailed"

record launch_ack =
  ak_attempt :: int
  ak_state :: ack_state
  ak_daemon_entry :: "string option"
  ak_worker :: "string option"
  ak_error_code :: "string option"
  ak_error_message :: "string option"

fun rental_launch_acknowledgement_prior_states :: "ack_state \<Rightarrow> launch_state list" where
  "rental_launch_acknowledgement_prior_states AckActive = [LaunchProvisioning]"
| "rental_launch_acknowledgement_prior_states AckProvisioning = [LaunchPending, LaunchProvisioning]"
| "rental_launch_acknowledgement_prior_states AckFailed = [LaunchPending, LaunchProvisioning, LaunchFailed]"

fun rental_launch_acknowledgement_prior_statuses :: "ack_state \<Rightarrow> session_status list" where
  "rental_launch_acknowledgement_prior_statuses AckActive = [StProvisioning]"
| "rental_launch_acknowledgement_prior_statuses _ = [StAccepted, StProvisioning]"

definition assert_rental_launch_acknowledgement_monotonic ::
  "launch_state option \<Rightarrow> ack_state \<Rightarrow> rental_error + unit" where
  "assert_rental_launch_acknowledgement_monotonic current requested =
     (if current = Some LaunchActive \<and> requested \<noteq> AckActive then Inl LaunchAlreadyActive
      else let allowed = (if requested = AckActive then [LaunchProvisioning, LaunchActive]
             else rental_launch_acknowledgement_prior_states requested)
           in case current of None \<Rightarrow> Inl LaunchStateTransitionInvalid
              | Some c \<Rightarrow> guard_result (c \<in> set allowed) LaunchStateTransitionInvalid)"

text \<open>
  \<open>publishInitialRentalTask\<close>: the message is posted once, under a client identifier of the session and
  the attempt; a room keeps one message per client identifier. The identifier of a new message is an
  argument, the name of the renter is not modelled.
\<close>

definition post_message :: "start_message \<Rightarrow> rental_db \<Rightarrow> string \<times> rental_db" where
  "post_message m db =
     (case select_first (\<lambda>x. sm_room x = sm_room m \<and> sm_client_id x = sm_client_id m) (rd_messages db) of
        Some x \<Rightarrow> (sm_id x, db)
      | None \<Rightarrow> (sm_id m, db\<lparr>rd_messages := rd_messages db @ [m]\<rparr>))"

definition show_int :: "int \<Rightarrow> string" where
  "show_int i = (if i < 0 then ''-'' @ show_nat (nat (- i)) else show_nat (nat i))"

definition publish_initial_rental_task ::
  "string \<Rightarrow> rental_session \<Rightarrow> agent_session \<Rightarrow> rental_db \<Rightarrow> string \<times> rental_db" where
  "publish_initial_rental_task new_id s worker db =
     (if truthy (rs_initial_message s) then (the (rs_initial_message s), db)
      else let (mid, db1) = post_message \<lparr>sm_id = new_id, sm_room = or_else (rs_room s) '''',
                 sm_text = ''@'' @ as_agent_key worker @ '' '' @ rs_task_prompt s,
                 sm_client_id = ''rental:'' @ rs_id s @ '':launch:'' @ show_int (rs_attempt s) @ '':start''\<rparr> db
           in (mid, update_sessions (\<lambda>r. rs_id r = rs_id s \<and> rs_initial_message r = None)
                 (\<lambda>r. r\<lparr>rs_initial_message := Some mid\<rparr>) db1))"

fun acknowledged_status :: "ack_state \<Rightarrow> session_status" where
  "acknowledged_status AckProvisioning = StProvisioning"
| "acknowledged_status AckActive = StActive"
| "acknowledged_status AckFailed = StAccepted"

definition acknowledged_row :: "rental_session \<Rightarrow> launch_ack \<Rightarrow> int \<Rightarrow> rental_session \<Rightarrow> rental_session" where
  "acknowledged_row seen ack now s =
     s\<lparr>rs_status := acknowledged_status (ak_state ack), rs_launch := Some (launch_of (ak_state ack)),
       rs_daemon_entry := (case ak_daemon_entry ack of None \<Rightarrow> rs_daemon_entry seen | Some d \<Rightarrow> Some d),
       rs_worker := (case ak_worker ack of None \<Rightarrow> rs_worker seen | Some w \<Rightarrow> Some w),
       rs_error_code := (if ak_state ack = AckFailed
         then Some (case ak_error_code ack of None \<Rightarrow> ''launch_failed'' | Some c \<Rightarrow> take 120 c) else None),
       rs_error_message := (if ak_state ack = AckFailed then map_option (take 1000) (ak_error_message ack) else None),
       rs_started := (if ak_state ack = AckActive then Some (or_else (rs_started seen) now) else rs_started seen),
       rs_updated := now\<rparr>"

definition ack_fence :: "rental_session \<Rightarrow> launch_ack \<Rightarrow> rental_session \<Rightarrow> bool" where
  "ack_fence seen ack s \<longleftrightarrow> rs_id s = rs_id seen \<and> rs_attempt s = ak_attempt ack \<and>
     rs_status s \<in> set (rental_launch_acknowledgement_prior_statuses (ak_state ack)) \<and>
     rs_launch s \<in> Some ` set (rental_launch_acknowledgement_prior_states (ak_state ack))"

text \<open>The checks on the row that was read, with the worker of an active launch.\<close>

definition ack_checks :: "rental_session \<Rightarrow> launch_ack \<Rightarrow> rental_db \<Rightarrow> rental_error + agent_session option" where
  "ack_checks seen ack db =
     bind_result (if rs_placement seen = DirectMember
       then bind_result (require (rs_runtime seen) LaunchSelectionRequired)
         (\<lambda>r. bind_result (assert_rental_runtime_selection_safe UnsafeRuntimeProfile r) (\<lambda>_. Inr ()))
       else Inr ()) (\<lambda>_.
     bind_result (guard_result (ak_attempt ack = rs_attempt seen) LaunchAttemptStale) (\<lambda>_.
     bind_result (guard_result (rs_status seen \<in> {StAccepted, StProvisioning, StActive}) LaunchNotAuthorized) (\<lambda>_.
     bind_result (assert_rental_launch_acknowledgement_monotonic (rs_launch seen) (ak_state ack)) (\<lambda>_.
     bind_result (guard_result (\<not> (truthy (rs_daemon_entry seen) \<and> truthy (ak_daemon_entry ack) \<and>
       rs_daemon_entry seen \<noteq> ak_daemon_entry ack)) DaemonEntryFenceLost) (\<lambda>_.
     if ak_state ack \<noteq> AckActive then Inr None
     else bind_result (guard_result (truthy (ak_daemon_entry ack) \<and> truthy (ak_worker ack))
            ActiveLaunchIdentityRequired) (\<lambda>_.
          bind_result (validate_active_worker seen (the (ak_worker ack)) (the (ak_daemon_entry ack)) db)
            (\<lambda>w. Inr (Some w))))))))"

text \<open>The error when no row passed the fence.\<close>

definition ack_refusal :: "rental_session \<Rightarrow> launch_ack \<Rightarrow> rental_db \<Rightarrow> rental_error" where
  "ack_refusal seen ack db =
     (let current = select_first (\<lambda>s. rs_id s = rs_id seen \<and> rs_attempt s = ak_attempt ack) (rd_sessions db)
      in if (case current of None \<Rightarrow> False
             | Some c \<Rightarrow> rs_status c \<notin> set (rental_launch_acknowledgement_prior_statuses (ak_state ack)) \<and>
                 rs_status c \<noteq> StActive)
         then LaunchNotAuthorized
         else case assert_rental_launch_acknowledgement_monotonic (Option.bind current rs_launch) (ak_state ack) of
                Inl e \<Rightarrow> e | Inr _ \<Rightarrow> LaunchAttemptStale)"

text \<open>What follows a row that was updated.\<close>

definition ack_effects ::
  "string \<Rightarrow> rental_session \<Rightarrow> launch_ack \<Rightarrow> agent_session option \<Rightarrow> rental_session \<Rightarrow> int \<Rightarrow> rental_db \<Rightarrow>
   (rental_error + rental_session) \<times> rental_db" where
  "ack_effects new_id seen ack worker updated now db =
     (let (updated1, db1) = (case worker of
              Some w \<Rightarrow> (let (mid, d) = publish_initial_rental_task new_id updated w db
                 in (updated\<lparr>rs_initial_message := Some mid\<rparr>,
                     if rs_launch seen \<noteq> Some LaunchActive
                     then log_activity (rs_id updated) (rs_room updated) SessionStarted d else d))
            | None \<Rightarrow> (updated, db));
          (r, db2) = (if ak_state ack = AckFailed
            then revoke_rental_launch_authority (rs_id seen) (rs_provider seen) now db1 else (Inr (), db1))
      in case r of Inl e \<Rightarrow> (Inl e, db2)
         | Inr _ \<Rightarrow> (Inr updated1,
             provider_log (rs_provider seen) (rs_id seen)
               (LaunchUpdated (launch_of (ak_state ack)) (ak_attempt ack)) db2))"

definition acknowledge_write ::
  "string \<Rightarrow> rental_session \<Rightarrow> launch_ack \<Rightarrow> int \<Rightarrow> rental_db \<Rightarrow> (rental_error + rental_session) \<times> rental_db" where
  "acknowledge_write new_id seen ack now db =
     (case ack_checks seen ack db of
        Inl e \<Rightarrow> (Inl e, db)
      | Inr worker \<Rightarrow>
          (case returning_first (ack_fence seen ack) (acknowledged_row seen ack now) (rd_sessions db) of
             Some updated \<Rightarrow> ack_effects new_id seen ack worker updated now
               (update_sessions (ack_fence seen ack) (acknowledged_row seen ack now) db)
           | None \<Rightarrow>
               (case (if ak_state ack = AckActive
                      then select_first (\<lambda>s. rs_id s = rs_id seen \<and> rs_attempt s = ak_attempt ack \<and>
                        rs_launch s = Some LaunchActive \<and> rs_daemon_entry s = ak_daemon_entry ack \<and>
                        rs_worker s = ak_worker ack) (rd_sessions db)
                      else None, worker) of
                  (Some active, Some w) \<Rightarrow>
                    (let (mid, db1) = publish_initial_rental_task new_id active w db
                     in (Inr (active\<lparr>rs_initial_message := Some mid\<rparr>), db1))
                | _ \<Rightarrow> (Inl (ack_refusal seen ack db), db))))"

definition acknowledge_rental_launch ::
  "string \<Rightarrow> string \<Rightarrow> string \<Rightarrow> launch_ack \<Rightarrow> int \<Rightarrow> rental_db \<Rightarrow> (rental_error + rental_session) option \<times> rental_db" where
  "acknowledge_rental_launch new_id sid provider ack now db =
     (case select_first (\<lambda>s. rs_id s = sid \<and> rs_provider s = provider) (rd_sessions db) of
        None \<Rightarrow> (None, db)
      | Some s \<Rightarrow> (case acknowledge_write new_id s ack now db of (r, db1) \<Rightarrow> (Some r, db1)))"

definition is_rental_supervisor_grant_active :: "string \<Rightarrow> string \<Rightarrow> string \<Rightarrow> rental_db \<Rightarrow> bool" where
  "is_rental_supervisor_grant_active sid provider host db =
     list_ex (\<lambda>s. rs_id s = sid \<and> rs_provider s = provider \<and>
       list_ex (\<lambda>h. Some (rh_id h) = rs_host s \<and> rh_host h = host) (rd_hosts db) \<and>
       rs_status s \<in> {StAccepted, StProvisioning, StActive, StBlocked, StPatchReview} \<and>
       rs_launch s \<in> {Some LaunchPending, Some LaunchProvisioning, Some LaunchActive}) (rd_sessions db)"

section \<open>Heartbeats\<close>

definition stale_after :: int where "stale_after = 120"
definition disconnected_after :: int where "disconnected_after = 300"
definition expire_after :: int where "expire_after = 900"

datatype heartbeat_error = HbSessionNotFound | HbNotProvider | HbInvalidStatus session_status | HbUpdateFailed

record heartbeat_result =
  hb_status :: "session_status option"
  hb_count :: int
  hb_transitioned :: bool
  hb_error :: "heartbeat_error option"

text \<open>The status after a heartbeat and whether it is a transition; None when the heartbeat is refused.\<close>

definition heartbeat_target :: "session_status \<Rightarrow> (session_status \<times> bool) option" where
  "heartbeat_target s =
     (if s = StProvisioning \<or> s = StStale
      then Some (if is_valid_transition s StActive then (StActive, True) else (s, False))
      else if s = StActive \<or> s = StBlocked then Some (s, False) else None)"

definition heartbeat_row :: "rental_session \<Rightarrow> session_status \<times> bool \<Rightarrow> int \<Rightarrow> rental_session \<Rightarrow> rental_session" where
  "heartbeat_row seen target now s =
     (let s1 = s\<lparr>rs_heartbeats := rs_heartbeats seen + 1, rs_last_heartbeat := Some now, rs_updated := now\<rparr>
      in if snd target
         then s1\<lparr>rs_status := fst target,
           rs_started := (if fst target = StActive \<and> rs_started seen = None then Some now else rs_started s)\<rparr>
         else s1)"

text \<open>
  \<open>recordHeartbeat\<close> after the row \<open>seen\<close> was read: the update names the session only, not the status
  that was read.
\<close>

definition heartbeat_write :: "rental_session \<Rightarrow> string \<Rightarrow> int \<Rightarrow> rental_db \<Rightarrow> heartbeat_result \<times> rental_db" where
  "heartbeat_write seen account now db =
     (if rs_provider seen \<noteq> account
      then (\<lparr>hb_status = Some (rs_status seen), hb_count = rs_heartbeats seen, hb_transitioned = False,
             hb_error = Some HbNotProvider\<rparr>, db)
      else case heartbeat_target (rs_status seen) of
        None \<Rightarrow> (\<lparr>hb_status = Some (rs_status seen), hb_count = rs_heartbeats seen, hb_transitioned = False,
             hb_error = Some (HbInvalidStatus (rs_status seen))\<rparr>, db)
      | Some target \<Rightarrow>
          if find_session (rs_id seen) db = None
          then (\<lparr>hb_status = Some (rs_status seen), hb_count = rs_heartbeats seen, hb_transitioned = False,
                 hb_error = Some HbUpdateFailed\<rparr>, db)
          else (\<lparr>hb_status = Some (fst target), hb_count = rs_heartbeats seen + 1, hb_transitioned = snd target,
                 hb_error = None\<rparr>,
                update_sessions (\<lambda>s. rs_id s = rs_id seen) (heartbeat_row seen target now) db))"

definition record_heartbeat :: "string \<Rightarrow> string \<Rightarrow> int \<Rightarrow> rental_db \<Rightarrow> heartbeat_result \<times> rental_db" where
  "record_heartbeat sid account now db =
     (case find_session sid db of
        None \<Rightarrow> (\<lparr>hb_status = None, hb_count = 0, hb_transitioned = False, hb_error = Some HbSessionNotFound\<rparr>, db)
      | Some s \<Rightarrow> heartbeat_write s account now db)"

datatype liveness_status = Healthy | StaleLiveness | Disconnected | ExpiredLiveness | UnknownLiveness

text \<open>\<open>getLivenessStatus\<close>: the status and the seconds since the last heartbeat.\<close>

definition get_liveness_status :: "rental_session \<Rightarrow> int \<Rightarrow> liveness_status \<times> int option" where
  "get_liveness_status s now =
     (case rs_last_heartbeat s of
        None \<Rightarrow> (UnknownLiveness, None)
      | Some beat \<Rightarrow>
          if rs_heartbeats s = 0 then (UnknownLiveness, None)
          else let seconds = (now - beat) div 1000
               in (if seconds \<le> stale_after then Healthy else if seconds \<le> disconnected_after then StaleLiveness
                   else if seconds \<le> expire_after then Disconnected else ExpiredLiveness, Some seconds))"

text \<open>\<open>checkStaleSessions\<close>: the sessions past a threshold with the status they should move to.\<close>

definition find_stale_sessions :: "int \<Rightarrow> rental_db \<Rightarrow> rental_session list" where
  "find_stale_sessions threshold db =
     filter (\<lambda>s. (rs_status s = StActive \<or> rs_status s = StStale) \<and>
       (case rs_last_heartbeat s of None \<Rightarrow> False | Some b \<Rightarrow> b < threshold)) (rd_sessions db)"

definition stale_target :: "int \<Rightarrow> rental_session \<Rightarrow> session_status option" where
  "stale_target now s =
     (case rs_last_heartbeat s of
        None \<Rightarrow> None
      | Some beat \<Rightarrow>
          if beat < now - expire_after * 1000 then Some StExpired
          else if rs_status s = StActive \<and> beat < now - stale_after * 1000 then Some StStale else None)"

definition check_stale_sessions :: "int \<Rightarrow> rental_db \<Rightarrow> (string \<times> session_status) list" where
  "check_stale_sessions now db =
     List.map_filter (\<lambda>s. map_option (Pair (rs_id s)) (stale_target now s))
       (find_stale_sessions (now - stale_after * 1000) db)"

text \<open>\<open>expireSession\<close> and \<open>markSessionStale\<close> after the row \<open>seen\<close> was read.\<close>

datatype sweep_result = SweepOk | SweepNotFound | SweepRefused session_status | SweepUpdateFailed

definition sweep_write ::
  "session_status \<Rightarrow> (rental_session \<Rightarrow> rental_session) \<Rightarrow> rental_session \<Rightarrow> rental_db \<Rightarrow> sweep_result \<times> rental_db" where
  "sweep_write target change seen db =
     (if \<not> is_valid_transition (rs_status seen) target then (SweepRefused (rs_status seen), db)
      else if find_session (rs_id seen) db = None then (SweepUpdateFailed, db)
      else (SweepOk, update_sessions (\<lambda>s. rs_id s = rs_id seen) change db))"

definition expire_write :: "int \<Rightarrow> rental_session \<Rightarrow> rental_db \<Rightarrow> sweep_result \<times> rental_db" where
  "expire_write now seen db = sweep_write StExpired (ended_row StExpired now) seen db"

definition mark_stale_write :: "int \<Rightarrow> rental_session \<Rightarrow> rental_db \<Rightarrow> sweep_result \<times> rental_db" where
  "mark_stale_write now seen db =
     sweep_write StStale (\<lambda>s. s\<lparr>rs_status := StStale, rs_updated := now\<rparr>) seen db"

definition expire_session :: "string \<Rightarrow> int \<Rightarrow> rental_db \<Rightarrow> sweep_result \<times> rental_db" where
  "expire_session sid now db =
     (case find_session sid db of None \<Rightarrow> (SweepNotFound, db) | Some s \<Rightarrow> expire_write now s db)"

definition mark_session_stale :: "string \<Rightarrow> int \<Rightarrow> rental_db \<Rightarrow> sweep_result \<times> rental_db" where
  "mark_session_stale sid now db =
     (case find_session sid db of None \<Rightarrow> (SweepNotFound, db) | Some s \<Rightarrow> mark_stale_write now s db)"

end
