(* ===== verification/RentalLifecycle.thy ===== *)
theory RentalLifecycle
  imports RentalLaunch
begin

text \<open>
  Rental sessions over time. Every statement that changes a session row is a step; a handler that reads
  before it writes contributes its writing part with an arbitrary row that was read before, so the steps
  interleave the handlers in every order. The writes that are not fenced by a status, the heartbeats and
  the sweep, are steps with the row as it is.
\<close>

section \<open>What the steps do to the sessions\<close>

text \<open>
  The status of a session moves along \<open>VALID_TRANSITIONS\<close>, or by one of three moves that the table does
  not list: a request expires, a failed launch goes back to accepted, and a room is provisioned late.
\<close>

definition lifecycle_move :: "session_status \<Rightarrow> session_status \<Rightarrow> bool" where
  "lifecycle_move p q \<longleftrightarrow> p = q \<or> is_valid_transition p q \<or> (p = StRequested \<and> q = StExpired) \<or>
     (p = StProvisioning \<and> q = StAccepted) \<or> (p = StActive \<and> q = StProvisioning)"

definition terminal_status :: "session_status \<Rightarrow> bool" where
  "terminal_status s \<longleftrightarrow> s \<in> {StCompleted, StCancelled, StExpired, StFailed}"

lemma lifecycle_move_refl [simp]: "lifecycle_move p p"
  by (simp add: lifecycle_move_def)

lemma terminal_status_stays: "terminal_status p \<Longrightarrow> lifecycle_move p q \<Longrightarrow> q = p"
  by (cases p) (auto simp: terminal_status_def lifecycle_move_def is_valid_transition_def)

text \<open>The columns of a session that identify it, with its status; most operations leave them alone.\<close>

type_synonym row_view = "(string \<times> string \<times> string \<times> string) \<times> session_status"

definition row_view :: "rental_session \<Rightarrow> row_view" where
  "row_view s = ((rs_id s, rs_listing s, rs_provider s, rs_renter s), rs_status s)"

definition status_view :: "rental_db \<Rightarrow> row_view list" where
  "status_view db = map row_view (rd_sessions db)"

definition view_move :: "row_view \<Rightarrow> row_view \<Rightarrow> bool" where
  "view_move a b \<longleftrightarrow> fst b = fst a \<and> lifecycle_move (snd a) (snd b)"

definition rows_move :: "rental_db \<Rightarrow> rental_db \<Rightarrow> bool" where
  "rows_move db db' \<longleftrightarrow> list_all2 view_move (status_view db) (status_view db')"

named_theorems view_simps \<open>operations that leave the statuses alone\<close>

lemma rows_move_same: "status_view db' = status_view db \<Longrightarrow> rows_move db db'"
  by (simp add: rows_move_def view_move_def list.rel_refl)

lemma status_view_update:
  "(\<And>s. row_view (f s) = row_view s) \<Longrightarrow> status_view (update_sessions p f db) = status_view db"
  by (simp add: status_view_def update_sessions_def update_where_def)

lemma rows_move_update:
  assumes "\<And>s. fst (row_view (f s)) = fst (row_view s)"
    and "\<And>s. s \<in> set (rd_sessions db) \<Longrightarrow> p s \<Longrightarrow> lifecycle_move (rs_status s) (rs_status (f s))"
  shows "rows_move db (update_sessions p f db)"
  using assms
  by (auto simp: rows_move_def status_view_def update_sessions_def update_where_def view_move_def row_view_def
    list.rel_map intro!: list.rel_refl_strong)

lemma rows_move_view: "rows_move a b \<Longrightarrow> status_view c = status_view b \<Longrightarrow> rows_move a c"
  by (simp add: rows_move_def)

section \<open>The operations that leave the statuses alone\<close>

lemma log_activity_sessions [simp]: "rd_sessions (log_activity sid room k db) = rd_sessions db"
  by (auto simp: log_activity_def split: option.split)

lemma provider_log_sessions [simp]: "rd_sessions (provider_log p sid e db) = rd_sessions db"
  by (simp add: provider_log_def)

lemma log_view [view_simps]:
  "status_view (log_activity sid room k db) = status_view db" "status_view (provider_log p sid e db) = status_view db"
  by (simp_all add: status_view_def)

lemma with_lease_simps [simp]:
  "rs_id (with_lease l now s) = rs_id s" "rs_status (with_lease l now s) = rs_status s"
  "rs_lease (with_lease l now s) = Some l" "rs_listing (with_lease l now s) = rs_listing s"
  "rs_provider (with_lease l now s) = rs_provider s" "row_view (with_lease l now s) = row_view s"
  by (simp_all add: with_lease_def row_view_def)

lemma persist_view [view_simps]: "status_view (persist_session_lease sid l now db) = status_view db"
  unfolding persist_session_lease_def by (rule status_view_update) simp

lemma acquire_view [view_simps]: "status_view (snd (acquire_lease inp now db)) = status_view db"
  by (simp add: acquire_lease_def Let_def view_simps)

lemma acquire_for_session_view [view_simps]:
  "status_view (snd (acquire_quota_lease_for_session s l now db)) = status_view db"
  using acquire_view [of "build_quota_lease_input s l now" now db]
  by (auto simp: acquire_quota_lease_for_session_def split: prod.splits sum.splits)

lemma release_view [view_simps]: "status_view (snd (release_session_lease sid room reason now db)) = status_view db"
  by (auto simp: release_session_lease_def Let_def view_simps split: option.split prod.split)

lemma release_for_session_view [view_simps]: "status_view (release_quota_lease_for_session s reason now db) = status_view db"
  unfolding release_quota_lease_for_session_def by (rule release_view)

lemma end_room_sessions: "end_room_agent_session wid owner f now db = Inr (u, db') \<Longrightarrow> rd_sessions db' = rd_sessions db"
  by (auto simp: end_room_agent_session_def Let_def result_elims split: if_splits)

lemma end_room_transaction_sessions:
  "transaction (end_room_agent_session wid owner f now) db = (r, db') \<Longrightarrow> rd_sessions db' = rd_sessions db"
  by (erule transaction_cases) (auto dest: end_room_sessions)

lemma revoke_grants_sessions: "rd_sessions (snd (revoke_grants owner now gs db)) = rd_sessions db"
proof (induction gs arbitrary: db)
  case (Cons g gs)
  then show ?case
    by (auto simp: Let_def split: option.split sum.split prod.split dest: end_room_transaction_sessions)
qed simp

lemma revoke_authority_sessions [simp]:
  "rd_sessions (snd (revoke_rental_launch_authority sid provider now db)) = rd_sessions db"
  unfolding revoke_rental_launch_authority_def by (rule revoke_grants_sessions)

lemma settle_view [view_simps]: "status_view (snd (settle_terminal_controls s provider reason now db)) = status_view db"
proof -
  have "status_view (snd (settle_terminal_controls s provider reason now db)) =
      status_view (release_quota_lease_for_session s reason now db)"
    by (simp add: status_view_def settle_terminal_controls_def)
  then show ?thesis by (simp add: view_simps)
qed

lemma post_message_view [view_simps]: "status_view (snd (post_message m db)) = status_view db"
  by (simp add: post_message_def status_view_def split: option.split)

lemma publish_task_view [view_simps]: "status_view (snd (publish_initial_rental_task new_id s w db)) = status_view db"
proof -
  have "status_view (update_sessions p (\<lambda>r. r\<lparr>rs_initial_message := x\<rparr>) d) = status_view d" for p x d
    by (rule status_view_update) (simp add: row_view_def)
  then show ?thesis by (simp add: publish_initial_rental_task_def Let_def case_prod_beta view_simps)
qed

lemma ack_effects_view [view_simps]:
  "status_view (snd (ack_effects new_id seen ack worker updated now db)) = status_view db"
proof -
  have r: "status_view (snd (revoke_rental_launch_authority sid provider now d)) = status_view d" for sid provider d
    by (simp add: status_view_def)
  show ?thesis
    by (cases worker) (auto simp: ack_effects_def Let_def case_prod_beta view_simps r split: sum.split)
qed

section \<open>The steps\<close>

definition sessions_wf :: "rental_db \<Rightarrow> bool" where
  "sessions_wf db \<longleftrightarrow> distinct (map rs_id (rd_sessions db))"

text \<open>
  The statements outside of accepting. \<open>elsewhere\<close> stands for the budget and the patch review, which
  move a running session along the table; \<open>request\<close> for a new session; \<open>others\<close> for every change of the
  other tables.
\<close>

inductive session_step :: "rental_db \<Rightarrow> rental_db \<Rightarrow> bool" where
  accept_read: "accept_begin sid provider launch now db = (r, db') \<Longrightarrow> session_step db db'"
| end_write: "end_session status reason seen now db = (r2, db') \<Longrightarrow> status \<in> {StCompleted, StCancelled} \<Longrightarrow>
    session_step db db'"
| read: "get_session_by_id sid account now db = (r3, db') \<Longrightarrow> session_step db db'"
| requests: "list_provider_requests provider now db = (r4, db') \<Longrightarrow> session_step db db'"
| room: "provision_rental_room sid room_id now db = Inr (r5, db') \<Longrightarrow> session_step db db'"
| launch: "create_rental_launch_authority hash token new_id sid provider key owner minutes now db = Inr (r6, db') \<Longrightarrow>
    session_step db db'"
| acknowledge: "acknowledge_write new_id seen ack now db = (r2, db') \<Longrightarrow> session_step db db'"
| heartbeat: "record_heartbeat sid account now db = (r7, db') \<Longrightarrow> session_step db db'"
| expire: "expire_session sid now db = (r8, db') \<Longrightarrow> session_step db db'"
| mark_stale: "mark_session_stale sid now db = (r8, db') \<Longrightarrow> session_step db db'"
| elsewhere: "is_valid_transition p q \<Longrightarrow> consumes_capacity p \<Longrightarrow>
    session_step db (update_sessions (\<lambda>s. rs_id s = sid \<and> rs_status s = p) (\<lambda>s. s\<lparr>rs_status := q\<rparr>) db)"
| request: "rs_status s = StRequested \<Longrightarrow> rs_lease s = None \<Longrightarrow> rs_id s \<notin> rs_id ` set (rd_sessions db) \<Longrightarrow>
    rs_launch s = None \<Longrightarrow> rs_attempt s = 0 \<Longrightarrow> session_step db (db\<lparr>rd_sessions := rd_sessions db @ [s]\<rparr>)"
| others: "rd_sessions db' = rd_sessions db \<Longrightarrow> session_step db db'"

text \<open>
  With the two writes of accepting. \<open>limit\<close> bounds the number of sessions that a listing admits; the
  listing is that of the session.
\<close>

inductive rental_step :: "(string \<Rightarrow> int) \<Rightarrow> rental_db \<Rightarrow> rental_db \<Rightarrow> bool" for limit :: "string \<Rightarrow> int" where
  outside: "session_step db db' \<Longrightarrow> rental_step limit db db'"
| take_lane: "acquire_quota_lease_for_session seen listing now db = (r1, db') \<Longrightarrow> rental_step limit db db'"
| accept_write: "accept_finish seen listing safe retrying lease provider now db = (r2, db') \<Longrightarrow>
    rl_max_sessions listing \<le> limit (rl_id listing) \<Longrightarrow>
    (\<And>s. s \<in> set (rd_sessions db) \<Longrightarrow> rs_id s = rs_id seen \<Longrightarrow> rs_listing s = rl_id listing) \<Longrightarrow>
    rental_step limit db db'"

inductive_cases rental_stepE: "rental_step limit db db'"

text \<open>A move that does not start to use capacity.\<close>

definition gentle_move :: "session_status \<Rightarrow> session_status \<Rightarrow> bool" where
  "gentle_move p q \<longleftrightarrow> lifecycle_move p q \<and> (consumes_capacity q \<longrightarrow> consumes_capacity p)"

definition gentle :: "rental_db \<Rightarrow> rental_db \<Rightarrow> bool" where
  "gentle db db' \<longleftrightarrow>
     list_all2 (\<lambda>a b. fst b = fst a \<and> gentle_move (snd a) (snd b)) (status_view db) (status_view db')"

lemma gentle_move_refl [simp]: "gentle_move p p"
  by (simp add: gentle_move_def)

lemma gentle_same: "status_view db' = status_view db \<Longrightarrow> gentle db db'"
  by (simp add: gentle_def list.rel_refl)

lemma gentle_update:
  assumes "\<And>s. fst (row_view (f s)) = fst (row_view s)"
    and "\<And>s. s \<in> set (rd_sessions db) \<Longrightarrow> p s \<Longrightarrow> gentle_move (rs_status s) (rs_status (f s))"
  shows "gentle db (update_sessions p f db)"
  using assms
  by (auto simp: gentle_def status_view_def update_sessions_def update_where_def row_view_def
    list.rel_map intro!: list.rel_refl_strong)

lemma gentle_view: "gentle a b \<Longrightarrow> status_view c = status_view b \<Longrightarrow> gentle a c"
  by (simp add: gentle_def)

lemma gentle_rows_move: "gentle a b \<Longrightarrow> rows_move a b"
  unfolding gentle_def rows_move_def by (erule list.rel_mono_strong) (simp add: view_move_def gentle_move_def)

lemma valid_gentle: "is_valid_transition p q \<Longrightarrow> p \<noteq> StRequested \<or> q \<noteq> StAccepted \<Longrightarrow> gentle_move p q"
  by (cases p; cases q) (auto simp: gentle_move_def lifecycle_move_def is_valid_transition_def consumes_capacity_def
      CAPACITY_CONSUMING_STATUSES_def)

lemma expire_gentle: "gentle_move StRequested StExpired"
  by (simp add: gentle_move_def lifecycle_move_def consumes_capacity_def CAPACITY_CONSUMING_STATUSES_def)

lemma view_rows [simp]:
  "fst (row_view (expire_row now s)) = fst (row_view s)" "fst (row_view (ended_row q now s)) = fst (row_view s)"
  "fst (row_view (acknowledged_row seen ack now s)) = fst (row_view s)"
  "fst (row_view (heartbeat_row seen t now s)) = fst (row_view s)"
  "fst (row_view (accepted_row seen lease h r now s)) = fst (row_view s)"
  by (simp_all add: row_view_def expire_row_def ended_row_def acknowledged_row_def heartbeat_row_def Let_def
    accepted_row_def rental_launch_identity_reset_def)

lemma status_rows [simp]:
  "rs_status (expire_row now s) = StExpired" "rs_status (ended_row q now s) = q"
  "rs_status (acknowledged_row seen ack now s) = acknowledged_status (ak_state ack)"
  "rs_status (heartbeat_row seen t now s) = (if snd t then fst t else rs_status s)"
  "rs_status (accepted_row seen lease h r now s) = StAccepted"
  by (simp_all add: expire_row_def ended_row_def acknowledged_row_def heartbeat_row_def Let_def
    accepted_row_def rental_launch_identity_reset_def)

lemma find_session_SomeD: "find_session sid db = Some s \<Longrightarrow> s \<in> set (rd_sessions db) \<and> rs_id s = sid"
  unfolding find_session_def by (auto dest: select_first_SomeD)

lemma find_session_unique:
  "sessions_wf db \<Longrightarrow> find_session sid db = Some s \<Longrightarrow> t \<in> set (rd_sessions db) \<Longrightarrow> rs_id t = sid \<Longrightarrow> t = s"
  unfolding sessions_wf_def by (auto dest!: find_session_SomeD dest: distinct_key_inj)

section \<open>Each operation moves the sessions gently, except accepting\<close>

lemma gentle_refl [simp]: "gentle db db"
  by (rule gentle_same) simp

lemma expire_update_gentle:
  "(\<And>s. p s \<Longrightarrow> rs_status s = StRequested) \<Longrightarrow> gentle db (update_sessions p (expire_row now) db)"
  by (rule gentle_update) (simp_all add: expire_gentle)

text \<open>An update by identifier changes the row that was read.\<close>

lemma gentle_update_session:
  assumes "sessions_wf db" "find_session sid db = Some s"
    and "\<And>s. fst (row_view (f s)) = fst (row_view s)" "gentle_move (rs_status s) (rs_status (f s))"
  shows "gentle db (update_sessions (\<lambda>t. rs_id t = rs_id s) f db)"
proof (rule gentle_update [OF assms(3)])
  fix t
  assume "t \<in> set (rd_sessions db)" "rs_id t = rs_id s"
  then have "t = s" using find_session_unique [OF assms(1,2)] find_session_SomeD [OF assms(2)] by simp
  with assms(4) show "gentle_move (rs_status t) (rs_status (f t))" by simp
qed

lemma accept_begin_gentle: "accept_begin sid provider launch now db = (r, db') \<Longrightarrow> gentle db db'"
  by (auto simp: accept_begin_def accept_checks_def Let_def
    intro!: expire_update_gentle split: option.splits sum.splits if_splits)

lemma end_session_gentle:
  assumes "end_session status reason seen now db = (r, db')" "status \<in> {StCompleted, StCancelled}"
  shows "gentle db db'"
proof (cases "is_valid_transition (rs_status seen) status \<and>
    returning_first (status_fence seen) (ended_row status now) (rd_sessions db) \<noteq> None")
  case True
  then obtain updated where u: "returning_first (status_fence seen) (ended_row status now) (rd_sessions db) = Some updated"
    and v: "is_valid_transition (rs_status seen) status" by auto
  have "gentle db (update_sessions (status_fence seen) (ended_row status now) db)"
    using v assms(2) by (intro gentle_update) (auto simp: status_fence_def intro!: valid_gentle)
  moreover have "status_view db' = status_view (update_sessions (status_fence seen) (ended_row status now) db)"
    using assms(1) u v settle_view [of updated "rs_provider seen" reason now]
    by (simp add: end_session_def split: prod.splits sum.splits) (metis snd_conv)+
  ultimately show ?thesis by (rule gentle_view)
next
  case False
  with assms(1) show ?thesis by (auto simp: end_session_def intro!: gentle_same split: if_splits)
qed

lemma get_session_gentle: "get_session_by_id sid account now db = (r, db') \<Longrightarrow> gentle db db'"
  by (auto simp: get_session_by_id_def Let_def
    intro!: expire_update_gentle split: option.splits if_splits)

lemma list_requests_gentle: "list_provider_requests provider now db = (r, db') \<Longrightarrow> gentle db db'"
  by (auto simp: list_provider_requests_def Let_def intro!: expire_update_gentle)

lemma provision_gentle:
  assumes "provision_rental_room sid room_id now db = Inr (r, db')" "sessions_wf db"
  shows "gentle db db'"
proof -
  from assms(1) obtain s where s: "find_session sid db = Some s"
      "is_rental_participant_provisionable_status (rs_status s)"
    by (auto simp: provision_rental_room_def result_elims)
  let ?f = "\<lambda>r. r\<lparr>rs_room := Some room_id, rs_status := StProvisioning, rs_updated := now\<rparr>"
  have "db' = db \<or> db' = update_sessions (\<lambda>r. rs_id r = sid) ?f db"
    using assms(1) s by (auto simp: provision_rental_room_def result_elims Let_def split: if_splits)
  moreover have "gentle db (update_sessions (\<lambda>r. rs_id r = sid) ?f db)"
    using s(2) find_session_unique [OF assms(2) s(1)]
    by (intro gentle_update) (auto simp: row_view_def is_rental_participant_provisionable_status_def gentle_move_def
      lifecycle_move_def is_valid_transition_def consumes_capacity_def CAPACITY_CONSUMING_STATUSES_def)
  ultimately show ?thesis by (auto intro: gentle_same)
qed

lemma authority_gentle:
  "create_rental_launch_authority hash token new_id sid provider key owner minutes now db = Inr (r, db') \<Longrightarrow>
     gentle db db'"
  by (rule gentle_same)
    (auto simp: create_rental_launch_authority_def result_elims status_view_def split: option.splits)

lemma ack_update_gentle: "gentle db (update_sessions (ack_fence seen ack) (acknowledged_row seen ack now) db)"
  by (cases "ak_state ack"; intro gentle_update)
    (auto simp: ack_fence_def gentle_move_def lifecycle_move_def is_valid_transition_def consumes_capacity_def
      CAPACITY_CONSUMING_STATUSES_def)

lemma acknowledge_gentle:
  assumes "acknowledge_write new_id seen ack now db = (r, db')"
  shows "gentle db db'"
proof -
  have p: "status_view d = status_view db" if "publish_initial_rental_task new_id a w db = (mid, d)" for a w mid d
    using publish_task_view [of new_id a w db] that by simp
  have e: "gentle db d" if "ack_effects new_id seen ack worker u now
      (update_sessions (ack_fence seen ack) (acknowledged_row seen ack now) db) = (x, d)" for worker u x d
    using that ack_effects_view [of new_id seen ack worker u now "update_sessions (ack_fence seen ack) (acknowledged_row seen ack now) db"]
    by (auto intro: gentle_view [OF ack_update_gentle])
  show ?thesis
  proof (cases "ack_checks seen ack db")
    case (Inl err)
    with assms show ?thesis by (simp add: acknowledge_write_def)
  next
    case (Inr worker)
    show ?thesis
    proof (cases "returning_first (ack_fence seen ack) (acknowledged_row seen ack now) (rd_sessions db)")
      case (Some u)
      with assms Inr show ?thesis by (auto simp: acknowledge_write_def intro: e)
    next
      case None
      with assms Inr show ?thesis
        by (auto simp: acknowledge_write_def intro!: gentle_same split: option.splits prod.splits dest: p)
    qed
  qed
qed

lemma heartbeat_gentle:
  assumes "record_heartbeat sid account now db = (r, db')" "sessions_wf db"
  shows "gentle db db'"
proof (cases "find_session sid db")
  case (Some s)
  have "gentle db (update_sessions (\<lambda>t. rs_id t = rs_id s) (heartbeat_row s target now) db)"
    if "heartbeat_target (rs_status s) = Some target" for target
    using that by (intro gentle_update_session [OF assms(2) Some])
      (auto simp: heartbeat_target_def intro!: valid_gentle split: if_splits)
  with assms(1) Some show ?thesis
    by (auto simp: record_heartbeat_def heartbeat_write_def split: if_splits option.splits)
qed (use assms in \<open>auto simp: record_heartbeat_def\<close>)

lemma sweep_gentle:
  assumes "sweep_write target change s db = (r, db')" "sessions_wf db" "find_session sid db = Some s"
    "target \<in> {StExpired, StStale}" "\<And>s. row_view (change s) = (fst (row_view s), target)"
  shows "gentle db db'"
proof -
  have c: "rs_status (change s) = target" "fst (row_view (change s)) = fst (row_view s)" for s
    using assms(5) [of s] by (simp_all add: row_view_def)
  have "gentle db (update_sessions (\<lambda>t. rs_id t = rs_id s) change db)" if "is_valid_transition (rs_status s) target"
    using that assms(4) by (intro gentle_update_session [OF assms(2,3)]) (auto simp: c intro!: valid_gentle)
  with assms(1) show ?thesis by (auto simp: sweep_write_def split: if_splits)
qed

lemma expire_session_gentle: "expire_session sid now db = (r, db') \<Longrightarrow> sessions_wf db \<Longrightarrow> gentle db db'"
  by (auto simp: expire_session_def expire_write_def row_view_def ended_row_def
    split: option.splits elim!: sweep_gentle)

lemma mark_stale_gentle: "mark_session_stale sid now db = (r, db') \<Longrightarrow> sessions_wf db \<Longrightarrow> gentle db db'"
  by (auto simp: mark_session_stale_def mark_stale_write_def row_view_def
    split: option.splits elim!: sweep_gentle)

section \<open>Accepting\<close>

lemma accept_commit_Inr:
  assumes "accept_commit seen listing safe retrying lease provider now db = Inr (u, db')"
  obtains host where
    "count_sessions (consuming (if retrying then Some (rs_id seen) else None) (\<lambda>s. rs_listing s = rl_id listing)) db
       < rl_max_sessions listing"
    "case safe of None \<Rightarrow> host = None
     | Some la \<Rightarrow> \<exists>h. host = Some h \<and>
         admit_host listing la provider (if retrying then Some (rs_id seen) else None) now db = Inr h"
    "returning_first (accept_fence seen retrying) (accepted_row seen lease (map_option rh_id host)
       (map_option (\<lambda>la. stored_runtime (la_runtime la)) safe) now) (rd_sessions db) = Some u"
    "db' = update_sessions (accept_fence seen retrying) (accepted_row seen lease (map_option rh_id host)
       (map_option (\<lambda>la. stored_runtime (la_runtime la)) safe) now) db"
proof (cases safe)
  case None
  with assms show thesis
    by (intro that [of None]) (auto simp: accept_commit_def result_elims Let_def)
next
  case (Some la)
  with assms obtain h where "admit_host listing la provider (if retrying then Some (rs_id seen) else None) now db = Inr h"
    by (auto simp: accept_commit_def result_elims Let_def)
  with assms Some show thesis
    by (intro that [of "Some h"]) (auto simp: accept_commit_def result_elims Let_def)
qed

text \<open>The two outcomes of the writing part, as far as the sessions go.\<close>

lemma accept_finish_cases:
  assumes "accept_finish seen listing safe retrying lease provider now db = (r, db')"
  obtains (failed) e where "r = Inl e" "status_view db' = status_view db"
  | (accepted) u db1 where "r = Inr u" "rd_sessions db' = rd_sessions db1"
      "accept_commit seen listing safe retrying lease provider now db = Inr (u, db1)"
proof (cases "transaction (accept_commit seen listing safe retrying lease provider now) db")
  case (Pair x db1)
  then show thesis
  proof (cases rule: transaction_cases)
    case (rolled_back e)
    with assms Pair show thesis
      by (intro failed [of e]) (auto simp: accept_finish_def accept_cleanup_def view_simps)
  next
    case (committed u)
    with assms Pair show thesis by (intro accepted [of u db1]) (auto simp: accept_finish_def)
  qed
qed

lemma accept_finish_moves:
  assumes "accept_finish seen listing safe retrying lease provider now db = (r, db')"
  shows "rows_move db db'"
  using assms
proof (cases rule: accept_finish_cases)
  case (failed e)
  then show ?thesis by (intro rows_move_same) simp
next
  case (accepted u db1)
  from accepted(3) have "rows_move db db1"
  proof (rule accept_commit_Inr)
    fix host
    assume db1: "db1 = update_sessions (accept_fence seen retrying) (accepted_row seen lease (map_option rh_id host)
       (map_option (\<lambda>la. stored_runtime (la_runtime la)) safe) now) db"
    show "rows_move db db1"
      unfolding db1 by (rule rows_move_update)
        (auto simp: accept_fence_def lifecycle_move_def is_valid_transition_def split: if_splits)
  qed
  then show ?thesis using accepted(2) by (auto simp: status_view_def intro: rows_move_view)
qed

lemma length_filter_key:
  assumes "distinct (map key xs)"
  shows "length (filter p xs) \<le> length (filter (\<lambda>x. p x \<and> key x \<noteq> k) xs) + 1"
proof -
  have "length (filter p xs) = length (filter (\<lambda>x. p x \<and> key x \<noteq> k) xs) + length (filter (\<lambda>x. p x \<and> key x = k) xs)"
    by (induction xs) auto
  moreover have "length (filter (\<lambda>x. p x \<and> key x = k) xs) \<le> 1"
    using assms by (induction xs) (auto simp: filter_empty_conv image_iff)
  ultimately show ?thesis by simp
qed

text \<open>Accepting a session of a listing leaves the listing within its limit, and the other listings alone.\<close>

definition listing_count :: "string \<Rightarrow> rental_db \<Rightarrow> int" where
  "listing_count listing db = count_capacity_consuming_sessions listing db"

lemma listing_count_view:
  "listing_count listing db =
     int (length (filter (\<lambda>v. fst (snd (fst v)) = listing \<and> consumes_capacity (snd v)) (status_view db)))"
  by (simp add: listing_count_def count_capacity_consuming_sessions_def count_sessions_def consuming_def [abs_def]
    status_view_def row_view_def filter_map comp_def)

lemma gentle_count: "gentle db db' \<Longrightarrow> listing_count listing db' \<le> listing_count listing db"
  unfolding gentle_def listing_count_view
proof (induction rule: list_all2_induct)
  case (Cons a as b bs)
  then show ?case by (auto simp: gentle_move_def)
qed simp

lemma accept_update_count:
  assumes "sessions_wf db" "\<And>s. s \<in> set (rd_sessions db) \<Longrightarrow> rs_id s = rs_id seen \<Longrightarrow> rs_listing s = listing"
    and db': "db' = update_sessions (accept_fence seen retrying) (accepted_row seen lease h rt now) db"
  shows "listing_count listing db' \<le>
      count_sessions (consuming (if retrying then Some (rs_id seen) else None) (\<lambda>s. rs_listing s = listing)) db + 1"
    and "other \<noteq> listing \<Longrightarrow> listing_count other db' = listing_count other db"
proof -
  let ?f = "accepted_row seen lease h rt now"
  have ids: "rs_id (?f s) = rs_id s" "rs_listing (?f s) = rs_listing s" for s
    using view_rows(5) [of seen lease h rt now s] by (simp_all add: row_view_def)
  have wf': "distinct (map rs_id (rd_sessions db'))"
    using assms(1) by (simp add: db' update_sessions_def map_key_update_where ids sessions_wf_def)
  let ?p = "\<lambda>s. consuming None (\<lambda>s. rs_listing s = listing) s"
  let ?q = "\<lambda>s. ?p s \<and> rs_id s \<noteq> rs_id seen"
  have same: "filter ?q (update_where (accept_fence seen retrying) ?f xs) = filter ?q xs" for xs
    unfolding update_where_def by (induction xs) (auto simp: accept_fence_def ids)
  have "length (filter ?p (rd_sessions db')) \<le> length (filter ?q (rd_sessions db')) + 1"
    by (rule length_filter_key [OF wf'])
  moreover have "length (filter ?q xs) \<le>
      length (filter (consuming (if retrying then Some (rs_id seen) else None) (\<lambda>s. rs_listing s = listing)) xs)" for xs
    by (induction xs) (auto simp: consuming_def)
  moreover have "filter ?q (rd_sessions db') = filter ?q (rd_sessions db)"
    by (simp add: db' update_sessions_def same)
  ultimately show "listing_count listing db' \<le>
      count_sessions (consuming (if retrying then Some (rs_id seen) else None) (\<lambda>s. rs_listing s = listing)) db + 1"
    unfolding listing_count_def count_capacity_consuming_sessions_def count_sessions_def
    by (metis (no_types, lifting) le_trans add_le_mono1 of_nat_1 of_nat_add of_nat_le_iff)
  have "filter (consuming None (\<lambda>s. rs_listing s = other)) (update_where (accept_fence seen retrying) ?f xs) =
      filter (consuming None (\<lambda>s. rs_listing s = other)) xs" if "other \<noteq> listing" "set xs \<subseteq> set (rd_sessions db)" for xs
    using that(2) unfolding update_where_def
  proof (induction xs)
    case (Cons s xs)
    then have "accept_fence seen retrying s \<Longrightarrow> rs_listing s = listing"
      using assms(2) [of s] by (auto simp: accept_fence_def)
    with Cons that(1) show ?case by (auto simp: consuming_def ids)
  qed simp
  then show "other \<noteq> listing \<Longrightarrow> listing_count other db' = listing_count other db"
    by (simp add: listing_count_def count_capacity_consuming_sessions_def count_sessions_def db' update_sessions_def)
qed

lemma accept_finish_count:
  assumes "accept_finish seen listing safe retrying lease provider now db = (r, db')" "sessions_wf db"
    and "\<And>s. s \<in> set (rd_sessions db) \<Longrightarrow> rs_id s = rs_id seen \<Longrightarrow> rs_listing s = rl_id listing"
    and "rl_max_sessions listing \<le> limit (rl_id listing)" "listing_count other db \<le> limit other"
  shows "listing_count other db' \<le> limit other"
  using assms(1)
proof (cases rule: accept_finish_cases)
  case (failed e)
  with assms(5) show ?thesis by (simp add: listing_count_view)
next
  case (accepted u db1)
  have "listing_count other db1 \<le> limit other"
    using accepted(3)
  proof (rule accept_commit_Inr)
    fix host
    assume c: "count_sessions (consuming (if retrying then Some (rs_id seen) else None) (\<lambda>s. rs_listing s = rl_id listing)) db
       < rl_max_sessions listing"
      and db1: "db1 = update_sessions (accept_fence seen retrying) (accepted_row seen lease (map_option rh_id host)
       (map_option (\<lambda>la. stored_runtime (la_runtime la)) safe) now) db"
    show "listing_count other db1 \<le> limit other"
      using accept_update_count [OF assms(2,3) db1] c assms(4,5) by (cases "other = rl_id listing") auto
  qed
  then show ?thesis using accepted(2) by (simp add: listing_count_view status_view_def)
qed

section \<open>Every step\<close>

text \<open>A step either moves the rows gently, or accepts a session, or adds a requested one.\<close>

lemma session_step_cases:
  assumes "session_step db db'" "sessions_wf db"
  obtains (gentle) "gentle db db'"
  | (requested) s where "rs_status s = StRequested" "rs_lease s = None" "rs_id s \<notin> rs_id ` set (rd_sessions db)"
      "db' = db\<lparr>rd_sessions := rd_sessions db @ [s]\<rparr>"
  using assms(1)
proof (cases rule: session_step.cases)
  case (accept_read sid provider launch now r)
  then show thesis by (intro gentle accept_begin_gentle)
next
  case (end_write status reason seen now r)
  then show thesis by (intro gentle end_session_gentle)
next
  case (read sid account now r)
  then show thesis by (intro gentle get_session_gentle)
next
  case (requests provider now r)
  then show thesis by (intro gentle list_requests_gentle)
next
  case (room sid room_id now r)
  then show thesis using assms(2) by (intro gentle provision_gentle)
next
  case (launch hash token new_id sid provider key owner minutes now r)
  then show thesis by (intro gentle authority_gentle)
next
  case (acknowledge new_id seen ack now r)
  then show thesis by (intro gentle acknowledge_gentle)
next
  case (heartbeat sid account now r)
  then show thesis using assms(2) by (intro gentle heartbeat_gentle)
next
  case (expire sid now r)
  then show thesis using assms(2) by (intro gentle expire_session_gentle)
next
  case (mark_stale sid now r)
  then show thesis using assms(2) by (intro gentle mark_stale_gentle)
next
  case (elsewhere p q sid)
  have "gentle db (update_sessions (\<lambda>s. rs_id s = sid \<and> rs_status s = p) (\<lambda>s. s\<lparr>rs_status := q\<rparr>) db)"
    using elsewhere by (intro gentle_update)
      (auto simp: row_view_def consumes_capacity_def CAPACITY_CONSUMING_STATUSES_def intro!: valid_gentle)
  then show thesis using elsewhere by (intro gentle) simp
next
  case (request s)
  then show thesis by (intro requested)
next
  case others
  then have "status_view db' = status_view db" by (simp add: status_view_def)
  then show thesis by (intro gentle gentle_same)
qed

lemma rental_step_cases:
  assumes "rental_step limit db db'" "sessions_wf db"
  obtains (gentle) "gentle db db'"
  | (accepted) seen listing safe retrying lease provider now r where
      "accept_finish seen listing safe retrying lease provider now db = (r, db')"
      "rl_max_sessions listing \<le> limit (rl_id listing)"
      "\<And>s. s \<in> set (rd_sessions db) \<Longrightarrow> rs_id s = rs_id seen \<Longrightarrow> rs_listing s = rl_id listing"
  | (requested) s where "rs_status s = StRequested" "rs_lease s = None" "rs_id s \<notin> rs_id ` set (rd_sessions db)"
      "db' = db\<lparr>rd_sessions := rd_sessions db @ [s]\<rparr>"
  using assms(1)
proof (cases rule: rental_step.cases)
  case outside
  then show thesis using assms(2) by (rule session_step_cases) (auto intro: gentle requested)
next
  case (take_lane seen listing now r)
  then have "status_view db' = status_view db" using acquire_for_session_view [of seen listing now db] by simp
  then show thesis by (intro gentle gentle_same)
next
  case (accept_write seen listing safe retrying lease provider now r)
  then show thesis by (intro accepted)
qed

definition sessions_evolve :: "rental_db \<Rightarrow> rental_db \<Rightarrow> bool" where
  "sessions_evolve db db' \<longleftrightarrow> (\<forall>v \<in> set (status_view db). \<exists>v' \<in> set (status_view db'). view_move v v')"

lemma rows_move_evolve: "rows_move db db' \<Longrightarrow> sessions_evolve db db'"
  unfolding rows_move_def sessions_evolve_def by (metis in_set_conv_nth list_all2_conv_all_nth)

lemma rows_move_wf: "rows_move db db' \<Longrightarrow> sessions_wf db \<Longrightarrow> sessions_wf db'"
proof -
  assume m: "rows_move db db'" and wf: "sessions_wf db"
  have "map fst (status_view db') = map fst (status_view db)"
    using m unfolding rows_move_def by (induction rule: list_all2_induct) (auto simp: view_move_def)
  then have "map (fst \<circ> fst) (status_view db') = map (fst \<circ> fst) (status_view db)"
    unfolding list.map_comp [symmetric] by simp
  then have "map rs_id (rd_sessions db') = map rs_id (rd_sessions db)"
    by (simp add: status_view_def row_view_def comp_def)
  with wf show ?thesis by (simp add: sessions_wf_def)
qed

lemma rental_step_evolve:
  assumes "rental_step limit db db'" "sessions_wf db"
  shows "sessions_wf db' \<and> sessions_evolve db db'"
  using assms
proof (cases rule: rental_step_cases)
  case gentle
  then show ?thesis using assms(2) by (auto dest: gentle_rows_move rows_move_evolve rows_move_wf)
next
  case (accepted seen listing safe retrying lease provider now r)
  from accept_finish_moves [OF accepted(1)] show ?thesis
    using assms(2) by (auto dest: rows_move_evolve rows_move_wf)
next
  case (requested s)
  then show ?thesis
    using assms(2) by (auto simp: sessions_wf_def sessions_evolve_def status_view_def view_move_def)
qed

lemma rental_step_count:
  assumes "rental_step limit db db'" "sessions_wf db" "listing_count listing db \<le> limit listing"
  shows "listing_count listing db' \<le> limit listing"
  using assms(1,2)
proof (cases rule: rental_step_cases)
  case gentle
  then show ?thesis using gentle_count [of db db' listing] assms(3) by simp
next
  case (accepted seen l safe retrying lease provider now r)
  then show ?thesis using assms(2,3) by (intro accept_finish_count [OF accepted(1)])
next
  case (requested s)
  then show ?thesis
    using assms(3) by (simp add: listing_count_view status_view_def row_view_def consumes_capacity_def
      CAPACITY_CONSUMING_STATUSES_def)
qed

end
