(* ===== verification/LaneExclusion.thy ===== *)
theory LaneExclusion
  imports RentalLifecycle
begin

text \<open>
  One rental per quota lane: what acquiring and releasing guarantee for the leases of all sessions, and
  that a session accepted in one go keeps the guarantee.
\<close>

section \<open>Conflicts and decisions\<close>

lemma lanes_conflict_sym: "lanes_conflict a b \<longleftrightarrow> lanes_conflict b a"
  by (auto simp: lanes_conflict_def split: option.splits)

lemma lanes_conflict_same_account:
  "lane_key_of a = lane_key_of b \<Longrightarrow> normalized_account_id a = normalized_account_id b \<Longrightarrow>
     lanes_conflict a c \<longleftrightarrow> lanes_conflict b c"
  by (simp add: lanes_conflict_def)

text \<open>The leases that count against a new one of the session.\<close>

definition rivals :: "quota_lane \<Rightarrow> string \<Rightarrow> quota_lease list \<Rightarrow> quota_lease list" where
  "rivals lane sid ls =
     filter (\<lambda>l. ql_released_at l = None \<and> lanes_conflict (ql_lane l) lane \<and> ql_session l \<noteq> sid) ls"

definition own_lease :: "quota_lane \<Rightarrow> string \<Rightarrow> quota_lease \<Rightarrow> bool" where
  "own_lease lane sid l \<longleftrightarrow> ql_released_at l = None \<and> lanes_conflict (ql_lane l) lane \<and> ql_session l = sid"

lemma scan_leases_own:
  "\<exists>l \<in> set ls. own_lease lane sid l \<Longrightarrow>
     ld_allowed (scan_leases lane sid c hs ls) \<and> ld_reason (scan_leases lane sid c hs ls) = SameSession"
  by (induction ls arbitrary: hs) (auto simp: own_lease_def)

lemma scan_leases_none:
  "\<forall>l \<in> set ls. \<not> own_lease lane sid l \<Longrightarrow>
     scan_leases lane sid c hs ls = scan_leases lane sid c (hs @ map ql_session (rivals lane sid ls)) []"
  by (induction ls arbitrary: hs) (auto simp: own_lease_def rivals_def)

text \<open>\<open>canCreateLease\<close> in closed form.\<close>

definition capacity_of :: "js_num \<Rightarrow> int" where
  "capacity_of c = (case integer_at_least_1 c of Some n \<Rightarrow> n | None \<Rightarrow> 1)"

lemma can_create_lease_own:
  assumes "js_trim (ln_provider lane) \<noteq> []" "\<exists>l \<in> set active. own_lease lane sid l"
  shows "ld_allowed (can_create_lease active lane sid c)" "ld_reason (can_create_lease active lane sid c) = SameSession"
  using assms(1) scan_leases_own [OF assms(2)] by (simp_all add: can_create_lease_def)

lemma can_create_lease_other:
  assumes "js_trim (ln_provider lane) \<noteq> []" "\<forall>l \<in> set active. \<not> own_lease lane sid l"
  shows "can_create_lease active lane sid c =
      scan_leases lane sid (capacity_of c) (map ql_session (rivals lane sid active)) []"
  using assms(1) scan_leases_none [OF assms(2), of "capacity_of c" "[]"]
  by (simp add: can_create_lease_def capacity_of_def Let_def del: scan_leases.simps)

lemma can_create_lease_allowed:
  assumes "js_trim (ln_provider lane) \<noteq> []"
  shows "ld_allowed (can_create_lease active lane sid c) \<longleftrightarrow>
      (\<exists>l \<in> set active. own_lease lane sid l) \<or> int (length (rivals lane sid active)) < capacity_of c"
proof (cases "\<exists>l \<in> set active. own_lease lane sid l")
  case True
  with can_create_lease_own(1) [OF assms] show ?thesis by blast
next
  case False
  then have eq: "can_create_lease active lane sid c =
      scan_leases lane sid (capacity_of c) (map ql_session (rivals lane sid active)) []"
    using can_create_lease_other [OF assms] by blast
  show ?thesis unfolding eq using False by simp
qed

lemma can_create_lease_refused:
  assumes "js_trim (ln_provider lane) \<noteq> []" "\<not> ld_allowed (can_create_lease active lane sid c)"
  shows "ld_reason (can_create_lease active lane sid c) = LaneLocked \<and>
      ld_held_by (can_create_lease active lane sid c) =
        (case rivals lane sid active of [] \<Rightarrow> None | l # _ \<Rightarrow> Some (ql_session l))"
proof -
  have "\<forall>l \<in> set active. \<not> own_lease lane sid l" using assms can_create_lease_own(1) by blast
  then have eq: "can_create_lease active lane sid c =
      scan_leases lane sid (capacity_of c) (map ql_session (rivals lane sid active)) []"
    by (rule can_create_lease_other [OF assms(1)])
  show ?thesis using assms(2) unfolding eq by (auto split: list.split if_splits)
qed

section \<open>The table of leases\<close>

text \<open>A lease is stored with the session it belongs to.\<close>

definition leases_owned :: "rental_db \<Rightarrow> bool" where
  "leases_owned db \<longleftrightarrow> (\<forall>s \<in> set (rd_sessions db). \<forall>l. rs_lease s = Some l \<longrightarrow> ql_session l = rs_id s)"

definition active_leases :: "rental_db \<Rightarrow> quota_lease set" where
  "active_leases db = {l. \<exists>s \<in> set (rd_sessions db). rs_lease s = Some l \<and> ql_released_at l = None}"

text \<open>
  Two lanes draw on the same quota: the same provider and model, and the same account where both name
  one. No two sessions may hold such lanes.
\<close>

definition same_quota :: "quota_lane \<Rightarrow> quota_lane \<Rightarrow> bool" where
  "same_quota a b \<longleftrightarrow> ln_provider a = ln_provider b \<and>
     (case ln_model a of None \<Rightarrow> '''' | Some m \<Rightarrow> m) = (case ln_model b of None \<Rightarrow> '''' | Some m \<Rightarrow> m) \<and>
     lanes_conflict a b"

definition lanes_exclusive :: "rental_db \<Rightarrow> bool" where
  "lanes_exclusive db \<longleftrightarrow> (\<forall>l \<in> active_leases db. \<forall>m \<in> active_leases db.
     ql_session l \<noteq> ql_session m \<longrightarrow> \<not> same_quota (ql_lane l) (ql_lane m))"

lemma map_filter_iff: "y \<in> set (List.map_filter f xs) \<longleftrightarrow> (\<exists>x \<in> set xs. f x = Some y)"
  by (induction xs) (auto split: option.splits)

lemma session_leases_iff: "l \<in> set (session_leases db) \<longleftrightarrow> (\<exists>s \<in> set (rd_sessions db). rs_lease s = Some l)"
  by (simp add: session_leases_def map_filter_iff)

lemma active_leases_iff: "l \<in> active_leases db \<longleftrightarrow> l \<in> set (session_leases db) \<and> ql_released_at l = None"
  by (auto simp: active_leases_def session_leases_iff)

lemma same_quota_sym: "same_quota a b \<longleftrightarrow> same_quota b a"
  by (auto simp: same_quota_def lanes_conflict_sym)

lemma same_quota_loaded:
  "l \<in> active_leases db \<Longrightarrow> same_quota (ql_lane l) lane \<Longrightarrow> l \<in> set (load_active_leases_for_lane lane db)"
  by (auto simp: load_active_leases_for_lane_def active_leases_iff on_lane_def same_quota_def)

lemma loaded_active: "l \<in> set (load_active_leases_for_lane lane db) \<Longrightarrow> l \<in> active_leases db"
  by (auto simp: load_active_leases_for_lane_def active_leases_iff on_lane_def)

text \<open>A lane of the same provider, model and account draws on the same quota as every other.\<close>

lemma same_quota_replace:
  "l \<in> set (load_active_leases_for_lane lane db) \<Longrightarrow> normalized_account_id (ql_lane l) = normalized_account_id lane \<Longrightarrow>
     same_quota lane m \<longleftrightarrow> same_quota (ql_lane l) m"
  by (auto simp: load_active_leases_for_lane_def on_lane_def same_quota_def lane_key_of_def lane_key_def
    lanes_conflict_def)

section \<open>Steps of the lanes\<close>

text \<open>The lease columns; most operations leave them alone.\<close>

definition lease_view :: "rental_db \<Rightarrow> (string \<times> quota_lease option) list" where
  "lease_view db = map (\<lambda>s. (rs_id s, rs_lease s)) (rd_sessions db)"

definition effective_capacity :: "acquire_input \<Rightarrow> int" where
  "effective_capacity inp = capacity_of (case aq_capacity inp of None \<Rightarrow> Fin 1 | Some c \<Rightarrow> c)"

text \<open>
  \<open>acct\<close> gives the account of each session, which does not change. A lane that admits one lease is
  acquired, a lease is released, a session without a lease is added, or no lease changes.
\<close>

inductive lane_step :: "(string \<Rightarrow> string option) \<Rightarrow> rental_db \<Rightarrow> rental_db \<Rightarrow> bool"
  for acct :: "string \<Rightarrow> string option" where
  acquire: "acquire_lease inp now db = (r, db') \<Longrightarrow> effective_capacity inp = 1 \<Longrightarrow>
    normalized_account_id (aq_lane inp) = acct (aq_session inp) \<Longrightarrow> lane_step acct db db'"
| release: "release_session_lease sid room reason now db = (r1, db') \<Longrightarrow> lane_step acct db db'"
| request: "rs_lease s = None \<Longrightarrow> rs_id s \<notin> rs_id ` set (rd_sessions db) \<Longrightarrow>
    lane_step acct db (db\<lparr>rd_sessions := rd_sessions db @ [s]\<rparr>)"
| keep: "lease_view db' = lease_view db \<Longrightarrow> lane_step acct db db'"

definition lanes_ok :: "(string \<Rightarrow> string option) \<Rightarrow> rental_db \<Rightarrow> bool" where
  "lanes_ok acct db \<longleftrightarrow> sessions_wf db \<and> leases_owned db \<and> lanes_exclusive db \<and>
     (\<forall>l \<in> active_leases db. normalized_account_id (ql_lane l) = acct (ql_session l))"

lemma lease_view_iff: "(i, x) \<in> set (lease_view db) \<longleftrightarrow> (\<exists>s \<in> set (rd_sessions db). rs_id s = i \<and> rs_lease s = x)"
  by (auto simp: lease_view_def)

lemma lanes_ok_view_def:
  "sessions_wf db \<longleftrightarrow> distinct (map fst (lease_view db))"
  "leases_owned db \<longleftrightarrow> (\<forall>(i, x) \<in> set (lease_view db). \<forall>l. x = Some l \<longrightarrow> ql_session l = i)"
  "active_leases db = {l. \<exists>i. (i, Some l) \<in> set (lease_view db) \<and> ql_released_at l = None}"
  by (auto simp: sessions_wf_def leases_owned_def active_leases_def lease_view_def comp_def) force

lemma lanes_ok_keep: "lease_view db' = lease_view db \<Longrightarrow> lanes_ok acct db \<Longrightarrow> lanes_ok acct db'"
  by (simp add: lanes_ok_def lanes_exclusive_def lanes_ok_view_def)

text \<open>Storing a lease of the session replaces the one it had.\<close>

lemma persist_view_update:
  "lease_view (persist_session_lease sid l now db) =
     map (\<lambda>(i, x). (i, if i = sid then Some l else x)) (lease_view db)"
  by (auto simp: lease_view_def persist_session_lease_def update_sessions_def update_where_def)

lemma persist_active:
  "m \<in> active_leases (persist_session_lease sid l now db) \<Longrightarrow> leases_owned db \<Longrightarrow> ql_session l = sid \<Longrightarrow>
     (m = l \<and> ql_released_at l = None) \<or> (m \<in> active_leases db \<and> ql_session m \<noteq> sid)"
  by (auto simp: lanes_ok_view_def persist_view_update split: if_splits)

lemma persist_ok:
  assumes "lanes_ok acct db" "ql_session l = sid"
    and "ql_released_at l = None \<Longrightarrow> normalized_account_id (ql_lane l) = acct sid"
    and "\<And>m. ql_released_at l = None \<Longrightarrow> m \<in> active_leases db \<Longrightarrow> ql_session m \<noteq> sid \<Longrightarrow>
      \<not> same_quota (ql_lane l) (ql_lane m)"
  shows "lanes_ok acct (persist_session_lease sid l now db)"
proof -
  have owned: "leases_owned db" using assms(1) by (simp add: lanes_ok_def)
  note a = persist_active [OF _ owned assms(2)]
  have "sessions_wf (persist_session_lease sid l now db)" "leases_owned (persist_session_lease sid l now db)"
    using assms(1,2)
    by (auto simp: lanes_ok_def lanes_ok_view_def persist_view_update comp_def case_prod_beta split: if_splits)
  moreover have "lanes_exclusive (persist_session_lease sid l now db)"
    unfolding lanes_exclusive_def
  proof (intro ballI impI)
    fix m n
    assume m: "m \<in> active_leases (persist_session_lease sid l now db)"
      and n: "n \<in> active_leases (persist_session_lease sid l now db)" and ne: "ql_session m \<noteq> ql_session n"
    from a [OF m] a [OF n] show "\<not> same_quota (ql_lane m) (ql_lane n)"
      using assms(1,2,4) ne same_quota_sym by (auto simp: lanes_ok_def lanes_exclusive_def)
  qed
  moreover have "\<forall>m \<in> active_leases (persist_session_lease sid l now db).
      normalized_account_id (ql_lane m) = acct (ql_session m)"
  proof
    fix m
    assume "m \<in> active_leases (persist_session_lease sid l now db)"
    from a [OF this] show "normalized_account_id (ql_lane m) = acct (ql_session m)"
      using assms(1-3) by (auto simp: lanes_ok_def)
  qed
  ultimately show ?thesis by (simp add: lanes_ok_def)
qed

lemma log_lease_view [simp]: "lease_view (log_activity sid room k db) = lease_view db"
  by (simp add: lease_view_def)

text \<open>What an acquisition that succeeds has checked.\<close>

lemma acquire_lease_Inr:
  assumes "acquire_lease inp now db = (Inr (reason, lease), db')"
  shows "lease = create_lease (aq_session inp) (aq_lane inp) (aq_snapshot inp) now"
    "lease_view db' = lease_view (persist_session_lease (aq_session inp) lease now db)"
    "(\<exists>l \<in> set (load_active_leases_for_lane (aq_lane inp) db). own_lease (aq_lane inp) (aq_session inp) l) \<or>
     int (length (rivals (aq_lane inp) (aq_session inp) (load_active_leases_for_lane (aq_lane inp) db))) <
       effective_capacity inp"
proof -
  let ?cap = "case aq_capacity inp of None \<Rightarrow> Fin 1 | Some c \<Rightarrow> c"
  let ?d = "can_create_lease (load_active_leases_for_lane (aq_lane inp) db) (aq_lane inp) (aq_session inp) ?cap"
  have allowed: "ld_allowed ?d"
    using assms by (cases "ld_allowed ?d") (simp_all add: acquire_lease_def Let_def)
  then have trim: "js_trim (ln_provider (aq_lane inp)) \<noteq> []"
    by (auto simp: can_create_lease_def Let_def split: if_splits)
  show "lease = create_lease (aq_session inp) (aq_lane inp) (aq_snapshot inp) now"
    "lease_view db' = lease_view (persist_session_lease (aq_session inp) lease now db)"
    using assms allowed by (auto simp: acquire_lease_def Let_def split: if_splits)
  show "(\<exists>l \<in> set (load_active_leases_for_lane (aq_lane inp) db). own_lease (aq_lane inp) (aq_session inp) l) \<or>
     int (length (rivals (aq_lane inp) (aq_session inp) (load_active_leases_for_lane (aq_lane inp) db))) <
       effective_capacity inp"
    using allowed can_create_lease_allowed [OF trim, of "load_active_leases_for_lane (aq_lane inp) db"
      "aq_session inp" ?cap] unfolding effective_capacity_def by blast
qed

lemma acquire_lease_Inl: "acquire_lease inp now db = (Inl e, db') \<Longrightarrow> db' = db"
  by (auto simp: acquire_lease_def Let_def split: if_splits)

lemma acquire_ok:
  assumes "acquire_lease inp now db = (r, db')" "lanes_ok acct db" "effective_capacity inp = 1"
    "normalized_account_id (aq_lane inp) = acct (aq_session inp)"
  shows "lanes_ok acct db'"
proof (cases r)
  case (Inl e)
  with assms(1,2) show ?thesis by (auto dest: acquire_lease_Inl)
next
  case (Inr p)
  then obtain reason lease where r: "r = Inr (reason, lease)" by (cases p) simp
  note a = acquire_lease_Inr [OF assms(1) [unfolded r]]
  have lease: "ql_session lease = aq_session inp" "ql_lane lease = aq_lane inp"
    by (simp_all add: a(1) create_lease_def)
  have "\<not> same_quota (aq_lane inp) (ql_lane m)"
    if m: "m \<in> active_leases db" "ql_session m \<noteq> aq_session inp" for m
  proof
    assume sq: "same_quota (aq_lane inp) (ql_lane m)"
    then have loaded: "m \<in> set (load_active_leases_for_lane (aq_lane inp) db)"
      using m(1) same_quota_sym same_quota_loaded by blast
    have "m \<in> set (rivals (aq_lane inp) (aq_session inp) (load_active_leases_for_lane (aq_lane inp) db))"
      using loaded m sq by (auto simp: rivals_def active_leases_iff same_quota_def lanes_conflict_sym)
    then have "rivals (aq_lane inp) (aq_session inp) (load_active_leases_for_lane (aq_lane inp) db) \<noteq> []" by auto
    with a(3) assms(3) obtain own where own: "own \<in> set (load_active_leases_for_lane (aq_lane inp) db)"
        "own_lease (aq_lane inp) (aq_session inp) own" by auto
    have acc: "normalized_account_id (ql_lane own) = normalized_account_id (aq_lane inp)"
      using own assms(2,4) loaded_active by (auto simp: lanes_ok_def own_lease_def)
    have "same_quota (ql_lane own) (ql_lane m)" using same_quota_replace [OF own(1) acc] sq by simp
    then show False
      using assms(2) own m loaded_active by (auto simp: lanes_ok_def lanes_exclusive_def own_lease_def)
  qed
  then have "lanes_ok acct (persist_session_lease (aq_session inp) lease now db)"
    using assms(2,4) lease by (intro persist_ok) auto
  then show ?thesis using lanes_ok_keep a(2) by blast
qed

lemma load_session_lease_SomeD:
  "load_session_lease sid db = Some l \<Longrightarrow> \<exists>s \<in> set (rd_sessions db). rs_id s = sid \<and> rs_lease s = Some l"
  by (auto simp: load_session_lease_def dest: find_session_SomeD split: bind_splits)

lemma release_ok:
  assumes "release_session_lease sid room reason now db = (r, db')" "lanes_ok acct db"
  shows "lanes_ok acct db'"
proof (cases "load_session_lease sid db")
  case None
  with assms show ?thesis by (simp add: release_session_lease_def)
next
  case (Some l)
  then have own: "ql_session l = sid"
    using assms(2) load_session_lease_SomeD by (fastforce simp: lanes_ok_def leases_owned_def)
  show ?thesis
  proof (cases "ql_released_at l")
    case None
    have "lanes_ok acct (persist_session_lease sid (fst (release_lease l reason now)) now db)"
      using assms(2) own None by (intro persist_ok) (auto simp: release_lease_def)
    moreover have "lease_view db' = lease_view (persist_session_lease sid (fst (release_lease l reason now)) now db)"
      using assms(1) Some None by (auto simp: release_session_lease_def release_lease_def)
    ultimately show ?thesis using lanes_ok_keep by blast
  next
    case (Some t)
    with assms \<open>load_session_lease sid db = Some l\<close> show ?thesis
      by (simp add: release_session_lease_def release_lease_def)
  qed
qed

lemma lane_step_ok: "lane_step acct db db' \<Longrightarrow> lanes_ok acct db \<Longrightarrow> lanes_ok acct db'"
proof (induction rule: lane_step.induct)
  case (acquire inp now db r db')
  show ?case by (rule acquire_ok [OF acquire.hyps(1) acquire.prems acquire.hyps(2,3)])
next
  case (release sid room reason now db r1 db')
  show ?case by (rule release_ok [OF release.hyps release.prems])
next
  case (request s db)
  then have "active_leases (db\<lparr>rd_sessions := rd_sessions db @ [s]\<rparr>) = active_leases db"
    by (auto simp: active_leases_def)
  with request show ?case
    by (auto simp: lanes_ok_def sessions_wf_def leases_owned_def lanes_exclusive_def)
next
  case (keep db' db)
  show ?case by (rule lanes_ok_keep [OF keep.hyps keep.prems])
qed

lemma lane_steps_ok: "(lane_step acct)\<^sup>*\<^sup>* db db' \<Longrightarrow> lanes_ok acct db \<Longrightarrow> lanes_ok acct db'"
  by (induction rule: rtranclp_induct) (auto intro: lane_step_ok)

section \<open>The handlers as steps of the lanes\<close>

lemma lane_keep: "lease_view db' = lease_view db \<Longrightarrow> (lane_step acct)\<^sup>*\<^sup>* db db'"
  by (rule r_into_rtranclp, rule lane_step.keep)

lemma lease_view_update:
  "(\<And>s. s \<in> set (rd_sessions db) \<Longrightarrow> p s \<Longrightarrow> rs_id (f s) = rs_id s \<and> rs_lease (f s) = rs_lease s) \<Longrightarrow>
     lease_view (update_sessions p f db) = lease_view db"
  by (simp add: lease_view_def update_sessions_def update_where_def)

lemma lease_view_sessions: "rd_sessions db' = rd_sessions db \<Longrightarrow> lease_view db' = lease_view db"
  by (simp add: lease_view_def)

lemma lease_rows [simp]:
  "rs_lease (expire_row now s) = rs_lease s" "rs_lease (ended_row q now s) = rs_lease s"
  "rs_lease (acknowledged_row seen ack now s) = rs_lease s" "rs_lease (heartbeat_row seen t now s) = rs_lease s"
  "rs_lease (accepted_row seen lease h r now s) = Some lease"
  "rs_id (expire_row now s) = rs_id s" "rs_id (ended_row q now s) = rs_id s"
  "rs_id (acknowledged_row seen ack now s) = rs_id s" "rs_id (heartbeat_row seen t now s) = rs_id s"
  "rs_id (accepted_row seen lease h r now s) = rs_id s"
  by (simp_all add: expire_row_def ended_row_def acknowledged_row_def heartbeat_row_def Let_def accepted_row_def
    rental_launch_identity_reset_def)

lemma release_lane_steps: "(lane_step acct)\<^sup>*\<^sup>* db (release_quota_lease_for_session s reason now db)"
  unfolding release_quota_lease_for_session_def
  by (rule r_into_rtranclp, rule lane_step.release, rule prod.collapse [symmetric])

lemma settle_lane_steps: "(lane_step acct)\<^sup>*\<^sup>* db (snd (settle_terminal_controls s provider reason now db))"
proof -
  let ?r = "release_quota_lease_for_session s reason now db"
  have "(lane_step acct)\<^sup>*\<^sup>* ?r (snd (settle_terminal_controls s provider reason now db))"
    by (rule lane_keep, rule lease_view_sessions) (simp add: settle_terminal_controls_def)
  with release_lane_steps show ?thesis by (rule rtranclp_trans)
qed

lemma end_session_lane_steps:
  assumes "end_session status reason seen now db = (r, db')"
  shows "(lane_step acct)\<^sup>*\<^sup>* db db'"
proof (cases "is_valid_transition (rs_status seen) status \<and>
    returning_first (status_fence seen) (ended_row status now) (rd_sessions db) \<noteq> None")
  case True
  then obtain updated where u: "returning_first (status_fence seen) (ended_row status now) (rd_sessions db) = Some updated"
    by auto
  let ?db1 = "update_sessions (status_fence seen) (ended_row status now) db"
  have "db' = snd (settle_terminal_controls updated (rs_provider seen) reason now ?db1)"
    using assms True u by (auto simp: end_session_def split: prod.splits sum.splits)
  moreover have "(lane_step acct)\<^sup>*\<^sup>* db ?db1" by (rule lane_keep, rule lease_view_update) simp
  ultimately show ?thesis using settle_lane_steps by (metis rtranclp_trans)
next
  case False
  with assms show ?thesis by (auto simp: end_session_def split: if_splits)
qed

lemma publish_task_leases: "lease_view (snd (publish_initial_rental_task new_id s w db)) = lease_view db"
proof -
  have "lease_view (snd (post_message m db)) = lease_view db" for m
    by (simp add: post_message_def lease_view_def split: option.split)
  then show ?thesis
    by (simp add: publish_initial_rental_task_def Let_def case_prod_beta lease_view_update)
qed

lemma ack_effects_leases: "lease_view (snd (ack_effects new_id seen ack worker u now db)) = lease_view db"
proof -
  have p: "lease_view (provider_log p sid e d) = lease_view d" for p sid e d by (simp add: lease_view_def)
  have r: "lease_view (snd (revoke_rental_launch_authority sid provider now d)) = lease_view d" for sid provider d
    by (simp add: lease_view_def)
  show ?thesis
    by (cases worker) (auto simp: ack_effects_def Let_def case_prod_beta publish_task_leases p r split: sum.split)
qed

lemma acknowledge_leases:
  assumes "acknowledge_write new_id seen ack now db = (r, db')"
  shows "lease_view db' = lease_view db"
proof (cases "ack_checks seen ack db")
  case (Inl err)
  with assms show ?thesis by (simp add: acknowledge_write_def)
next
  case (Inr worker)
  have p: "lease_view d = lease_view db" if "publish_initial_rental_task new_id a w db = (mid, d)" for a w mid d
    using publish_task_leases [of new_id a w db] that by simp
  show ?thesis
  proof (cases "returning_first (ack_fence seen ack) (acknowledged_row seen ack now) (rd_sessions db)")
    case (Some u)
    then have "db' = snd (ack_effects new_id seen ack worker u now
        (update_sessions (ack_fence seen ack) (acknowledged_row seen ack now) db))"
      using assms Inr by (simp add: acknowledge_write_def)
    then show ?thesis by (simp add: ack_effects_leases lease_view_update)
  next
    case None
    with assms Inr show ?thesis
      by (auto simp: acknowledge_write_def split: option.splits prod.splits dest: p)
  qed
qed

lemma accept_begin_leases: "accept_begin sid provider launch now db = (r, db') \<Longrightarrow> lease_view db' = lease_view db"
  by (auto simp: accept_begin_def accept_checks_def Let_def lease_view_update
    split: option.splits sum.splits if_splits)

lemma session_step_lanes:
  assumes "session_step db db'"
  shows "(lane_step acct)\<^sup>*\<^sup>* db db'"
  using assms
proof (cases rule: session_step.cases)
  case (accept_read sid provider launch now r)
  then show ?thesis by (intro lane_keep accept_begin_leases)
next
  case (end_write status reason seen now r)
  then show ?thesis by (intro end_session_lane_steps)
next
  case (read sid account now r)
  then show ?thesis
    by (intro lane_keep) (auto simp: get_session_by_id_def Let_def lease_view_update split: option.splits if_splits)
next
  case (requests provider now r)
  then show ?thesis by (intro lane_keep) (auto simp: list_provider_requests_def Let_def lease_view_update)
next
  case (room sid room_id now r)
  then show ?thesis
    by (intro lane_keep) (auto simp: provision_rental_room_def result_elims Let_def lease_view_update split: if_splits)
next
  case (launch hash token new_id sid provider key owner minutes now r)
  then show ?thesis
    by (intro lane_keep lease_view_sessions)
      (auto simp: create_rental_launch_authority_def result_elims split: option.splits)
next
  case (acknowledge new_id seen ack now r)
  then show ?thesis by (intro lane_keep acknowledge_leases)
next
  case (heartbeat sid account now r)
  then show ?thesis
    by (intro lane_keep) (auto simp: record_heartbeat_def heartbeat_write_def lease_view_update
      split: option.splits if_splits)
next
  case (expire sid now r)
  then show ?thesis
    by (intro lane_keep) (auto simp: expire_session_def expire_write_def sweep_write_def lease_view_update
      split: option.splits if_splits)
next
  case (mark_stale sid now r)
  then show ?thesis
    by (intro lane_keep) (auto simp: mark_session_stale_def mark_stale_write_def sweep_write_def lease_view_update
      split: option.splits if_splits)
next
  case (elsewhere p q sid)
  then show ?thesis by (intro lane_keep) (simp add: lease_view_update)
next
  case (request s)
  then show ?thesis by (auto intro: lane_step.request)
next
  case others
  then show ?thesis by (intro lane_keep lease_view_sessions)
qed

section \<open>Accepting in one go\<close>

text \<open>A listing whose lane admits one lease.\<close>

definition single_lane :: "rental_listing \<Rightarrow> bool" where
  "single_lane l \<longleftrightarrow> rl_max_sessions l \<le> 1 \<or> \<not> is_exact_confidence (confidence_or_unknown (rl_confidence l))"

lemma single_lane_capacity: "single_lane l \<Longrightarrow> effective_capacity (build_quota_lease_input s l now) = 1"
  by (auto simp: single_lane_def effective_capacity_def capacity_of_def build_quota_lease_input_def Let_def
    lane_capacity_def integer_at_least_1_def MAX_LANE_CAPACITY_def split: option.split)

text \<open>The whole handler, run without another write to the lanes in between, and every other step.\<close>

definition accepts_single :: "(string \<Rightarrow> string option) \<Rightarrow> string \<Rightarrow> rental_db \<Rightarrow> bool" where
  "accepts_single acct sid db \<longleftrightarrow> (\<forall>s \<in> set (rd_sessions db). \<forall>l \<in> set (rd_listings db).
     rs_id s = sid \<and> rl_id l = rs_listing s \<longrightarrow>
     single_lane l \<and> (if js_trim (rl_provider l) \<noteq> [] then Some (rl_provider l) else None) = acct sid)"

inductive handler_step :: "(string \<Rightarrow> string option) \<Rightarrow> rental_db \<Rightarrow> rental_db \<Rightarrow> bool"
  for acct :: "string \<Rightarrow> string option" where
  accept: "accept_session sid provider launch now db = (r, db') \<Longrightarrow> accepts_single acct sid db \<Longrightarrow>
    handler_step acct db db'"
| other: "session_step db db' \<Longrightarrow> handler_step acct db db'"

lemma accept_begin_Proceed:
  assumes "accept_begin sid provider launch now db = (Inr (Proceed s listing safe retrying), db')"
  shows "db' = db" "s \<in> set (rd_sessions db)" "rs_id s = sid" "rs_provider s = provider"
    "listing \<in> set (rd_listings db)" "rl_id listing = rs_listing s"
  using assms
  by (auto simp: accept_begin_def accept_checks_def Let_def split: option.splits sum.splits if_splits
    dest!: select_first_SomeD)

text \<open>The commit stores the lease that the session already holds.\<close>

lemma accept_finish_lanes:
  assumes "accept_finish seen listing safe retrying lease provider now db = (r, db')"
    and "\<And>s. s \<in> set (rd_sessions db) \<Longrightarrow> rs_id s = rs_id seen \<Longrightarrow> rs_lease s = Some lease"
  shows "(lane_step acct)\<^sup>*\<^sup>* db db'"
proof (cases "transaction (accept_commit seen listing safe retrying lease provider now) db")
  case (Pair x db1)
  then show ?thesis
  proof (cases rule: transaction_cases)
    case (rolled_back e)
    with assms(1) Pair have "db' = accept_cleanup seen retrying now db" by (simp add: accept_finish_def)
    then show ?thesis using release_lane_steps by (simp add: accept_cleanup_def)
  next
    case (committed u)
    then have "lease_view db1 = lease_view db"
      by (elim accept_commit_Inr) (auto simp: accept_fence_def assms(2) intro!: lease_view_update)
    moreover have "lease_view db' = lease_view db1"
      using assms(1) Pair committed by (auto simp: accept_finish_def provider_log_def lease_view_def)
    ultimately show ?thesis by (intro lane_keep) simp
  qed
qed

lemma acquire_for_session_lanes:
  assumes "acquire_quota_lease_for_session s listing now db = (r, db')" "single_lane listing"
    and "(if js_trim (rl_provider listing) \<noteq> [] then Some (rl_provider listing) else None) = acct (rs_id s)"
  shows "lane_step acct db db'"
    and "r = Inr lease \<Longrightarrow> t \<in> set (rd_sessions db') \<Longrightarrow> rs_id t = rs_id s \<Longrightarrow> rs_lease t = Some lease"
proof -
  let ?inp = "build_quota_lease_input s listing now"
  have inp: "aq_session ?inp = rs_id s" "normalized_account_id (aq_lane ?inp) = acct (rs_id s)"
    using assms(3) by (simp_all add: build_quota_lease_input_def Let_def normalized_account_id_def)
  obtain x where x: "acquire_lease ?inp now db = (x, db')"
    using assms(1) by (auto simp: acquire_quota_lease_for_session_def split: prod.splits sum.splits)
  show "lane_step acct db db'"
    using x single_lane_capacity [OF assms(2)] inp by (intro lane_step.acquire [OF x]) auto
  assume "r = Inr lease" "t \<in> set (rd_sessions db')" "rs_id t = rs_id s"
  moreover from \<open>r = Inr lease\<close> obtain reason where "x = Inr (reason, lease)"
    using assms(1) x by (auto simp: acquire_quota_lease_for_session_def split: sum.splits)
  then have "lease_view db' = map (\<lambda>(i, y). (i, if i = rs_id s then Some lease else y)) (lease_view db)"
    using acquire_lease_Inr(2) [of ?inp now db reason lease db'] x by (simp add: inp persist_view_update)
  moreover have "(rs_id t, rs_lease t) \<in> set (lease_view db')"
    using \<open>t \<in> set (rd_sessions db')\<close> by (auto simp: lease_view_def)
  ultimately show "rs_lease t = Some lease" by auto
qed

lemma accept_session_lanes:
  assumes "accept_session sid provider launch now db = (r, db')" "accepts_single acct sid db"
  shows "(lane_step acct)\<^sup>*\<^sup>* db db'"
proof (cases "accept_begin sid provider launch now db")
  case (Pair p db1)
  show ?thesis
  proof (cases "\<exists>s listing safe retrying. p = Inr (Proceed s listing safe retrying)")
    case True
    then obtain s listing safe retrying where p: "p = Inr (Proceed s listing safe retrying)" by blast
    note b = accept_begin_Proceed [OF Pair [unfolded p]]
    have single: "single_lane listing"
      "(if js_trim (rl_provider listing) \<noteq> [] then Some (rl_provider listing) else None) = acct (rs_id s)"
      using assms(2) b(2-6) unfolding accepts_single_def by blast+
    obtain x db2 where x: "acquire_quota_lease_for_session s listing now db = (x, db2)" by force
    note a = acquire_for_session_lanes [where acct = acct, OF x single]
    show ?thesis
    proof (cases x)
      case (Inl e)
      with assms(1) Pair p b(1) x have "db' = db2" by (auto simp: accept_session_def split: prod.splits)
      with a(1) show ?thesis by auto
    next
      case (Inr lease)
      obtain y db3 where y: "accept_finish s listing safe retrying lease provider now db2 = (y, db3)" by force
      have "db' = db3"
        using assms(1) Pair p b(1) x Inr y by (auto simp: accept_session_def split: sum.splits)
      moreover have "(lane_step acct)\<^sup>*\<^sup>* db2 db3"
        by (rule accept_finish_lanes [OF y]) (rule a(2) [OF Inr])
      ultimately show ?thesis using a(1) by (metis converse_rtranclp_into_rtranclp)
    qed
  next
    case False
    then have "db' = db1"
      using assms(1) Pair by (auto simp: accept_session_def split: sum.splits accept_plan.splits prod.splits)
    with accept_begin_leases [OF Pair] show ?thesis by (intro lane_keep) simp
  qed
qed

lemma handler_step_lanes: "handler_step acct db db' \<Longrightarrow> (lane_step acct)\<^sup>*\<^sup>* db db'"
  by (induction rule: handler_step.induct) (auto intro: accept_session_lanes session_step_lanes)

lemma handler_steps_ok: "(handler_step acct)\<^sup>*\<^sup>* db db' \<Longrightarrow> lanes_ok acct db \<Longrightarrow> lanes_ok acct db'"
  by (induction rule: rtranclp_induct) (auto dest: handler_step_lanes intro: lane_steps_ok)

end
