(* ===== verification/RentalGuarantees.thy ===== *)
theory RentalGuarantees
  imports LaneExclusion
begin

text \<open>
  What the rental handlers guarantee, alone and interleaved, and where an interleaving escapes the fences.
\<close>

section \<open>A concrete rental\<close>

definition demo_lane :: quota_lane where
  "demo_lane = \<lparr>ln_provider = ''cursor'', ln_model = None, ln_lane_id = None, ln_account = Some ''prov''\<rparr>"

definition demo_rental_session :: rental_session where
  "demo_rental_session = \<lparr>rs_id = ''s1'', rs_listing = ''l1'', rs_renter = ''rent'', rs_provider = ''prov'',
     rs_room = Some ''room'', rs_placement = DirectMember, rs_status = StRequested, rs_host = None,
     rs_runtime = None, rs_attempt = 0, rs_launch = None, rs_daemon_entry = None, rs_worker = None,
     rs_error_code = None, rs_error_message = None, rs_initial_message = None, rs_request_expires = Some 900,
     rs_lease = None, rs_unit = None, rs_start_snapshot = None, rs_latest_snapshot = None, rs_confidence = None,
     rs_task_prompt = ''do'', rs_heartbeats = 0, rs_last_heartbeat = None, rs_started = None, rs_ended = None,
     rs_updated = 0\<rparr>"

definition demo_listing :: rental_listing where
  "demo_listing = \<lparr>rl_id = ''l1'', rl_provider = ''prov'', rl_host = None, rl_ide_kind = ''cursor'', rl_model = None,
     rl_lane_id = None, rl_confidence = ''unknown'', rl_unit = ''tokens'', rl_snapshot = None, rl_last_reset = None,
     rl_max_sessions = 1\<rparr>"

definition demo_host :: rental_host where
  "demo_host = \<lparr>rh_id = ''h1'', rh_provider = ''prov'', rh_host = ''host'', rh_installation = ''inst'', rh_enabled = True,
     rh_max_sessions = 1, rh_runtimes = [\<lparr>hr_kind = ''cursor'', hr_authenticated = True,
       hr_profiles = Some [''sandboxed_write'']\<rparr>], rh_last_heartbeat = 10\<rparr>"

definition demo_selection :: launch_selection where
  "demo_selection = \<lparr>la_host = ''host'', la_installation = ''inst'', la_runtime = \<lparr>sel_kind = ''cursor'', sel_model = None,
     sel_profile = Some ''sandboxed_write''\<rparr>\<rparr>"

definition demo_rental_db :: rental_db where
  "demo_rental_db = \<lparr>rd_sessions = [demo_rental_session, demo_rental_session\<lparr>rs_id := ''s2''\<rparr>],
     rd_listings = [demo_listing], rd_hosts = [demo_host], rd_grants = [], rd_workers = [], rd_activity = [],
     rd_events = [], rd_messages = []\<rparr>"

lemmas demo_rental_defs = demo_rental_session_def demo_listing_def demo_host_def demo_selection_def demo_rental_db_def

definition demo_accepted :: rental_db where
  "demo_accepted = snd (accept_session ''s1'' ''prov'' (Some demo_selection) 20 demo_rental_db)"

section \<open>The life of a session\<close>

lemma rental_steps_evolve:
  "(rental_step limit)\<^sup>*\<^sup>* db db' \<Longrightarrow> sessions_wf db \<Longrightarrow>
     sessions_wf db' \<and> (\<forall>v \<in> set (status_view db). \<exists>v' \<in> set (status_view db').
       fst v' = fst v \<and> lifecycle_move\<^sup>*\<^sup>* (snd v) (snd v'))"
proof (induction rule: rtranclp_induct)
  case (step b c)
  then have b: "sessions_wf b" "\<forall>v \<in> set (status_view db). \<exists>v' \<in> set (status_view b).
      fst v' = fst v \<and> lifecycle_move\<^sup>*\<^sup>* (snd v) (snd v')" by blast+
  from rental_step_evolve [OF step.hyps(2) b(1)] have c: "sessions_wf c" "sessions_evolve b c" by simp_all
  have "\<exists>v' \<in> set (status_view c). fst v' = fst v \<and> lifecycle_move\<^sup>*\<^sup>* (snd v) (snd v')"
    if "v \<in> set (status_view db)" for v
  proof -
    from b(2) that obtain w where w: "w \<in> set (status_view b)" "fst w = fst v" "lifecycle_move\<^sup>*\<^sup>* (snd v) (snd w)"
      by blast
    with c(2) obtain x where "x \<in> set (status_view c)" "view_move w x" unfolding sessions_evolve_def by blast
    with w show ?thesis
      unfolding view_move_def by (metis rtranclp.rtrancl_into_rtrancl)
  qed
  with c(1) show ?case by blast
qed auto

lemma terminal_for_ever: "lifecycle_move\<^sup>*\<^sup>* p q \<Longrightarrow> terminal_status p \<Longrightarrow> q = p"
  by (induction rule: rtranclp_induct) (auto dest: terminal_status_stays)


lemma demo_rental_wf: "sessions_wf demo_rental_db"
  by (simp add: sessions_wf_def demo_rental_db_def demo_rental_session_def)

lemma demo_rental_fields [simp]:
  "rs_id demo_rental_session = ''s1''" "rs_status demo_rental_session = StRequested"
  "rs_provider demo_rental_session = ''prov''" "rs_listing demo_rental_session = ''l1''"
  by (simp_all add: demo_rental_session_def)

lemma demo_requested: "demo_rental_session \<in> set (rd_sessions demo_rental_db)"
  by (simp add: demo_rental_db_def)


section \<open>Capacity\<close>

lemma accept_session_steps:
  assumes "accept_session sid provider launch now db = (r, db')" "sessions_wf db"
    and "\<And>l. l \<in> set (rd_listings db) \<Longrightarrow> rl_max_sessions l \<le> limit (rl_id l)"
  shows "(rental_step limit)\<^sup>*\<^sup>* db db'"
proof (cases "accept_begin sid provider launch now db")
  case (Pair p db1)
  have b: "rental_step limit db db1" by (rule rental_step.outside, rule session_step.accept_read [OF Pair])
  show ?thesis
  proof (cases "\<exists>s listing safe retrying. p = Inr (Proceed s listing safe retrying)")
    case True
    then obtain s listing safe retrying where p: "p = Inr (Proceed s listing safe retrying)" by blast
    note s = accept_begin_Proceed [OF Pair [unfolded p]]
    obtain x db2 where x: "acquire_quota_lease_for_session s listing now db = (x, db2)" by force
    have a: "rental_step limit db db2" by (rule rental_step.take_lane [OF x])
    show ?thesis
    proof (cases x)
      case (Inl e)
      with assms(1) Pair p s(1) x have "db' = db2" by (auto simp: accept_session_def split: prod.splits)
      with a show ?thesis by auto
    next
      case (Inr lease)
      obtain y db3 where y: "accept_finish s listing safe retrying lease provider now db2 = (y, db3)" by force
      have db3: "db' = db3"
        using assms(1) Pair p s(1) x Inr y by (auto simp: accept_session_def split: sum.splits)
      have "status_view db2 = status_view db" using acquire_for_session_view [of s listing now db] x by simp
      then have view: "row_view ` set (rd_sessions db2) = row_view ` set (rd_sessions db)"
        by (simp add: status_view_def flip: set_map)
      have "rs_listing t = rl_id listing" if t: "t \<in> set (rd_sessions db2)" "rs_id t = rs_id s" for t
      proof -
        from view t(1) obtain u where u: "u \<in> set (rd_sessions db)" "row_view t = row_view u" by (metis imageE image_eqI)
        then have "u = s"
          using assms(2) s(2) t(2) unfolding sessions_wf_def by (auto simp: row_view_def dest: distinct_key_inj)
        with u(2) s(6) show ?thesis by (simp add: row_view_def)
      qed
      with assms(3) s(5) have "rental_step limit db2 db3" by (intro rental_step.accept_write [OF y]) auto
      with a db3 show ?thesis by (metis converse_rtranclp_into_rtranclp r_into_rtranclp)
    qed
  next
    case False
    then have "db' = db1"
      using assms(1) Pair by (auto simp: accept_session_def split: sum.splits accept_plan.splits prod.splits)
    with b show ?thesis by auto
  qed
qed

lemma rental_steps_count:
  "(rental_step limit)\<^sup>*\<^sup>* db db' \<Longrightarrow> sessions_wf db \<Longrightarrow> listing_count listing db \<le> limit listing \<Longrightarrow>
     sessions_wf db' \<and> listing_count listing db' \<le> limit listing"
  by (induction rule: rtranclp_induct) (auto dest: rental_step_evolve rental_step_count)



section \<open>One rental per lane\<close>


text \<open>A second session, of another provider, that holds its lane.\<close>

definition demo_other_lease :: quota_lease where
  "demo_other_lease = create_lease ''s2'' (demo_lane\<lparr>ln_account := Some ''other''\<rparr>)
     \<lparr>qs_unit = None, qs_remaining = None, qs_reset_at = None, qs_confidence = UnknownConfidence,
      qs_observed_at = ''t''\<rparr> 5"

definition demo_two_providers :: rental_db where
  "demo_two_providers = demo_rental_db\<lparr>rd_sessions := [demo_rental_session,
     demo_rental_session\<lparr>rs_id := ''s2'', rs_provider := ''other'', rs_listing := ''l2'', rs_status := StActive,
       rs_lease := Some demo_other_lease\<rparr>]\<rparr>"

definition demo_two_accepted :: rental_db where
  "demo_two_accepted = snd (accept_session ''s1'' ''prov'' (Some demo_selection) 20 demo_two_providers)"

definition demo_account :: "string \<Rightarrow> string option" where
  "demo_account sid = (if sid = ''s1'' then Some ''prov'' else Some ''other'')"

lemma demo_two_active: "active_leases demo_two_providers = {demo_other_lease}"
proof -
  have "ql_released_at demo_other_lease = None" by (simp add: demo_other_lease_def create_lease_def)
  moreover have "rs_lease demo_rental_session = None" by (simp add: demo_rental_session_def)
  ultimately show ?thesis by (auto simp: active_leases_def demo_two_providers_def)
qed

lemma demo_two_ok: "lanes_ok demo_account demo_two_providers"
proof -
  have "ql_session demo_other_lease = ''s2''" "normalized_account_id (ql_lane demo_other_lease) = Some ''other''"
    by (simp_all add: demo_other_lease_def create_lease_def demo_lane_def normalized_account_id_def js_trim_def
      js_space_def)
  moreover have "sessions_wf demo_two_providers" "leases_owned demo_two_providers"
    using calculation(1)
    by (simp_all add: sessions_wf_def leases_owned_def demo_two_providers_def) (simp add: demo_rental_session_def)
  ultimately show ?thesis
    by (auto simp: lanes_ok_def lanes_exclusive_def demo_two_active demo_account_def)
qed

lemma demo_two_step: "handler_step demo_account demo_two_providers demo_two_accepted"
  unfolding demo_two_accepted_def
  by (rule handler_step.accept [OF prod.collapse [symmetric]])
    (simp add: accepts_single_def demo_two_providers_def demo_rental_db_def demo_listing_def single_lane_def
      demo_account_def js_trim_def js_space_def)

lemma demo_two_rows:
  "map (\<lambda>s. (rs_id s, map_option ql_session (rs_lease s), map_option ql_released_at (rs_lease s)))
     (rd_sessions demo_two_accepted) =
   [(''s1'', Some ''s1'', Some None), (''s2'', Some ''s2'', Some None)]"
  by code_simp


section \<open>What an ended session still holds\<close>

lemma end_room_grants:
  "transaction (end_room_agent_session wid owner f now) db = (r, db') \<Longrightarrow> rd_grants db' = rd_grants db"
  by (erule transaction_cases) (auto simp: end_room_agent_session_def Let_def result_elims split: if_splits)

text \<open>A loop that reaches its end has revoked every grant of its list.\<close>

lemma revoke_grants_Inr:
  assumes "revoke_grants owner now gs db = (Inr (), db')" "g \<in> set (rd_grants db')" "hg_revoked_at g = None" "hg_owner g = owner"
  shows "g \<in> set (rd_grants db) \<and> hg_id g \<notin> hg_id ` set gs"
  using assms(1,2)
proof (induction gs arbitrary: db)
  case (Cons h gs)
  let ?f = "\<lparr>gf_grant = hg_id h, gf_generation = hg_generation h, gf_token_version = hg_token_version h\<rparr>"
  obtain r1 db1 where d: "(case select_first (\<lambda>w. as_grant w = Some (hg_id h) \<and> as_ended_at w = None) (rd_workers db) of
      None \<Rightarrow> (Inr (), db) | Some w \<Rightarrow> transaction (end_room_agent_session (as_id w) owner ?f now) db) = (r1, db1)"
    by force
  let ?db2 = "db1\<lparr>rd_grants := snd (revoke_supervisor_host_grant (hg_id h) owner now (rd_grants db1))\<rparr>"
  have loop: "revoke_grants owner now gs ?db2 = (Inr (), db')"
    using Cons.prems(1) by (simp add: d Let_def split: sum.splits)
  have "rd_grants db1 = rd_grants db"
  proof (cases "select_first (\<lambda>w. as_grant w = Some (hg_id h) \<and> as_ended_at w = None) (rd_workers db)")
    case None
    with d show ?thesis by simp
  next
    case (Some w)
    with d have "transaction (end_room_agent_session (as_id w) owner ?f now) db = (r1, db1)" by simp
    then show ?thesis by (rule end_room_grants)
  qed
  with Cons.IH [OF loop Cons.prems(2)] obtain x where x: "x \<in> set (rd_grants db)" "hg_id g \<notin> hg_id ` set gs"
      "g = (if hg_id x = hg_id h \<and> hg_owner x = owner \<and> hg_revoked_at x = None
        then x\<lparr>hg_revoked_at := Some now\<rparr> else x)"
    by (auto simp: revoke_supervisor_host_grant_def Let_def update_where_def)
  show ?case
  proof (cases "hg_id x = hg_id h \<and> hg_owner x = owner \<and> hg_revoked_at x = None")
    case True
    with x(3) have "hg_revoked_at g = Some now" by simp
    with assms(3) show ?thesis by simp
  next
    case False
    with x(3) have "g = x" by simp
    with False x(1,2) assms(3,4) show ?thesis by simp
  qed
qed simp

lemma revoke_authority_Inr:
  "revoke_rental_launch_authority sid provider now db = (Inr (), db') \<Longrightarrow> launch_grants sid provider db' = []"
  unfolding revoke_rental_launch_authority_def launch_grants_def filter_empty_conv
  by (auto dest!: revoke_grants_Inr)

lemma release_for_session_released:
  assumes "sessions_wf db" "t \<in> set (rd_sessions (release_quota_lease_for_session s reason now db))" "rs_id t = rs_id s"
    and "rs_lease t = Some l"
  shows "ql_released_at l \<noteq> None"
proof (cases "load_session_lease (rs_id s) db")
  case None
  then have "t \<in> set (rd_sessions db)"
    using assms(2) by (simp add: release_quota_lease_for_session_def release_session_lease_def)
  moreover from this obtain u where "find_session (rs_id s) db = Some u"
    using assms(3) select_first_Some_ex [of t "rd_sessions db" "\<lambda>r. rs_id r = rs_id s"] by (auto simp: find_session_def)
  ultimately show ?thesis
    using None assms(1,3,4) find_session_unique [of db "rs_id s" u t] by (simp add: load_session_lease_def)
next
  case (Some c)
  show ?thesis
  proof (cases "ql_released_at c")
    case None
    have "t \<in> set (rd_sessions (persist_session_lease (rs_id s) (fst (release_lease c reason now)) now db))"
      using assms(2) Some None
      by (simp add: release_quota_lease_for_session_def release_session_lease_def release_lease_def)
    then have "rs_lease t = Some (fst (release_lease c reason now))"
      using assms(3) by (auto simp: persist_session_lease_def update_sessions_def set_update_where)
    with assms(4) None show ?thesis by (auto simp: release_lease_def)
  next
    case released: (Some x)
    then have t: "t \<in> set (rd_sessions db)"
      using assms(2) Some by (simp add: release_quota_lease_for_session_def release_session_lease_def release_lease_def)
    moreover from Some obtain u where "find_session (rs_id s) db = Some u" "rs_lease u = Some c"
      by (auto simp: load_session_lease_def split: bind_splits)
    ultimately show ?thesis
      using released assms(1,3,4) find_session_unique [of db "rs_id s" u t] by simp
  qed
qed

text \<open>The fenced update went through: the outcome is neither of the two refusals.\<close>

definition end_committed :: "rental_error + rental_session \<Rightarrow> bool" where
  "end_committed r \<longleftrightarrow> (case r of Inl (InvalidTransition _ _) \<Rightarrow> False | Inl TransitionFenceLost \<Rightarrow> False | _ \<Rightarrow> True)"

lemma end_session_committed:
  assumes "end_session status reason seen now db = (r, db')" "end_committed r"
  obtains updated where
    "is_valid_transition (rs_status seen) status"
    "returning_first (status_fence seen) (ended_row status now) (rd_sessions db) = Some updated"
    "settle_terminal_controls updated (rs_provider seen) reason now
       (update_sessions (status_fence seen) (ended_row status now) db) = (map_sum id (\<lambda>_. ()) r, db')"
    "\<And>u. r = Inr u \<Longrightarrow> u = updated"
  using assms
  by (auto simp: end_session_def end_committed_def split: if_splits option.splits prod.splits sum.splits)

lemma update_sessions_wf: "(\<And>s. rs_id (f s) = rs_id s) \<Longrightarrow> sessions_wf db \<Longrightarrow> sessions_wf (update_sessions p f db)"
  by (simp add: sessions_wf_def update_sessions_def map_key_update_where)


lemma row_with_id: "i \<in> set (map rs_id xs) \<Longrightarrow> \<exists>t. t \<in> set xs \<and> rs_id t = i"
  by auto


end
