(* ===== verification/RentalInterleavings.thy ===== *)
theory RentalInterleavings
  imports RentalGuarantees
begin

text \<open>
  The launch of a rental, and the interleavings that escape the fences: an expired grant, a lane taken
  for a session that was cancelled meanwhile, and heartbeats between a read and a write.
\<close>

section \<open>A launched rental\<close>

definition demo_launching_session :: rental_session where
  "demo_launching_session = demo_rental_session\<lparr>rs_status := StProvisioning, rs_launch := Some LaunchProvisioning,
     rs_attempt := 1, rs_runtime := Some (la_runtime demo_selection)\<rparr>"

definition demo_worker :: agent_session where
  "demo_worker = \<lparr>as_id = ''w1'', as_room = ''room'', as_agent_key = ''key'', as_instance = Some ''entry'',
     as_label = ''agent'', as_worker = True, as_owner = ''prov'', as_grant = Some ''g1'', as_token_hash = ''hash'', as_created_at = 5,
     as_ended_at = None\<rparr>"

definition demo_launch_grant :: supervisor_grant where
  "demo_launch_grant = \<lparr>hg_id = ''g1'', hg_owner = ''prov'', hg_rooms = [''room''], hg_agent_keys = [''key''],
     hg_generation = 1, hg_token_version = 1, hg_expires_at = 100, hg_revoked_at = None, sg_host = ''host'',
     sg_installation = ''inst'', sg_scope = ''rental:s1'', sg_rental = Some ''s1'', sg_token_hash = ''#''\<rparr>"

definition demo_launching :: rental_db where
  "demo_launching = demo_rental_db\<lparr>rd_sessions := [demo_launching_session], rd_grants := [demo_launch_grant],
     rd_workers := [demo_worker]\<rparr>"

definition demo_ack :: launch_ack where
  "demo_ack = \<lparr>ak_attempt = 1, ak_state = AckActive, ak_daemon_entry = Some ''entry'', ak_worker = Some ''w1'',
     ak_error_code = None, ak_error_message = None\<rparr>"

text \<open>The session was cancelled.\<close>

definition demo_cancelled :: rental_db where
  "demo_cancelled = demo_rental_db\<lparr>rd_sessions := [demo_rental_session\<lparr>rs_status := StCancelled\<rparr>]\<rparr>"

section \<open>Launching\<close>

lemma ack_checks_active:
  assumes "ack_checks seen ack db = Inr worker" "ak_state ack = AckActive"
  obtains w g where "worker = Some w" "w \<in> set (rd_workers db)" "g \<in> set (rd_grants db)"
    "Some (as_id w) = ak_worker ack" "as_instance w = ak_daemon_entry ack" "Some (as_room w) = rs_room seen"
    "as_owner w = rs_provider seen" "as_worker w" "as_ended_at w = None" "as_grant w = Some (hg_id g) \<or> hg_id g = []"
    "sg_rental g = Some (rs_id seen)" "hg_revoked_at g = None" "as_agent_key w \<in> set (hg_agent_keys g)"
    "ak_attempt ack = rs_attempt seen"
proof -
  from assms obtain w where w: "worker = Some w" "ak_attempt ack = rs_attempt seen"
      "truthy (ak_daemon_entry ack)" "truthy (ak_worker ack)"
      "validate_active_worker seen (the (ak_worker ack)) (the (ak_daemon_entry ack)) db = Inr w"
    by (auto simp: ack_checks_def result_elims)
  from w(5) obtain g where g: "select_first (\<lambda>w. as_id w = the (ak_worker ack) \<and> Some (as_room w) = rs_room seen \<and>
         as_owner w = rs_provider seen \<and> as_instance w = Some (the (ak_daemon_entry ack)) \<and> as_worker w \<and>
         as_ended_at w = None) (rd_workers db) = Some w"
      "select_first (\<lambda>g. hg_id g = (case as_grant w of None \<Rightarrow> '''' | Some g \<Rightarrow> g) \<and>
         sg_rental g = Some (rs_id seen) \<and> hg_revoked_at g = None) (rd_grants db) = Some g"
      "as_agent_key w \<in> set (hg_agent_keys g)"
    by (auto simp: validate_active_worker_def result_elims)
  show thesis
    using w(1-4) g(3) select_first_SomeD [OF g(1)] select_first_SomeD [OF g(2)]
    by (intro that [of w g]) (auto simp: truthy_iff split: option.splits)
qed

lemma acknowledge_active_result:
  assumes "acknowledge_write new_id seen ack now db = (Inr u, db')" "ak_state ack = AckActive"
  obtains w where "ack_checks seen ack db = Inr (Some w)" "rs_launch u = Some LaunchActive"
proof -
  from assms obtain worker where c: "ack_checks seen ack db = Inr worker"
    by (auto simp: acknowledge_write_def split: sum.splits)
  then obtain w where w: "worker = Some w" using assms(2) by (elim ack_checks_active)
  show thesis
  proof (cases "returning_first (ack_fence seen ack) (acknowledged_row seen ack now) (rd_sessions db)")
    case (Some v)
    then have "rs_launch v = Some LaunchActive"
      using assms(2) by (auto simp: returning_first_def acknowledged_row_def)
    moreover have "fst (ack_effects new_id seen ack worker v now
        (update_sessions (ack_fence seen ack) (acknowledged_row seen ack now) db)) = Inr u"
      using assms(1) c Some by (simp add: acknowledge_write_def)
    then have "rs_launch u = rs_launch v"
      using w assms(2) by (auto simp: ack_effects_def Let_def case_prod_beta)
    ultimately show thesis using c w by (intro that) simp_all
  next
    case None
    with assms c w show thesis
      by (intro that [of w]) (auto simp: acknowledge_write_def dest!: select_first_SomeD split: option.splits prod.splits)
  qed
qed



section \<open>An expired grant\<close>

lemma release_tables [simp]:
  "rd_grants (release_quota_lease_for_session s reason now db) = rd_grants db"
  "rd_workers (release_quota_lease_for_session s reason now db) = rd_workers db"
  by (auto simp: release_quota_lease_for_session_def release_session_lease_def persist_session_lease_def
    update_sessions_def log_activity_def split: option.split prod.split)

lemma update_sessions_tables [simp]:
  "rd_grants (update_sessions p f db) = rd_grants db" "rd_workers (update_sessions p f db) = rd_workers db"
  by (simp_all add: update_sessions_def)

lemma expired_grant_not_current:
  assumes "grants_wf gs" "g \<in> set gs" "hg_expires_at g \<le> now" "gf_grant f = hg_id g"
  shows "\<not> grant_fence_current f now gs"
  unfolding grant_fence_current_iff
proof
  assume "\<exists>h \<in> set gs. fenced_grant f now h"
  then obtain h where h: "h \<in> set gs" "fenced_grant f now h" by blast
  then have "h = g" using fenced_unique [OF assms(1)] assms(2,4) by (auto simp: fenced_grant_def)
  with h assms(3) show False by (simp add: fenced_grant_def)
qed

lemma expired_end_room:
  assumes "grants_wf (rd_grants db)" "g \<in> set (rd_grants db)" "hg_expires_at g \<le> now" "gf_grant f = hg_id g"
  shows "transaction (end_room_agent_session wid owner f now) db = (Inl SupervisorGrantFenceStale, db)"
  using expired_grant_not_current [OF assms]
  by (simp add: transaction_def end_room_agent_session_def Let_def)

text \<open>Ending a session after its first launch grant has expired, with a worker still live under it, fails
  after the session was ended: the worker is not ended, no grant is revoked, and the end is not published.\<close>

theorem expired_grant_strands_worker:
  assumes "end_session status reason seen now db = (r, db')" "end_committed r" "grants_wf (rd_grants db)"
    and "launch_grants (rs_id seen) (rs_provider seen) db = g # gs" "hg_expires_at g \<le> now"
    and "w \<in> set (rd_workers db)" "as_grant w = Some (hg_id g)" "as_ended_at w = None"
  shows "r = Inl SupervisorGrantFenceStale \<and> rd_workers db' = rd_workers db \<and> rd_grants db' = rd_grants db"
  using assms(1,2)
proof (rule end_session_committed)
  fix updated
  let ?db2 = "release_quota_lease_for_session updated reason now
    (update_sessions (status_fence seen) (ended_row status now) db)"
  let ?live = "\<lambda>w. as_grant w = Some (hg_id g) \<and> as_ended_at w = None"
  assume u: "returning_first (status_fence seen) (ended_row status now) (rd_sessions db) = Some updated"
    and settle: "settle_terminal_controls updated (rs_provider seen) reason now
      (update_sessions (status_fence seen) (ended_row status now) db) = (map_sum id (\<lambda>_. ()) r, db')"
  have id: "rs_id updated = rs_id seen"
    using u by (auto simp: returning_first_def status_fence_def dest: find_SomeD)
  have g: "g \<in> set (rd_grants ?db2)"
    using assms(4) unfolding launch_grants_def by (auto simp: filter_eq_Cons_iff)
  obtain v where v: "select_first ?live (rd_workers ?db2) = Some v"
    using select_first_Some_ex [of w "rd_workers ?db2" ?live] assms(6-8) by auto
  have loop: "launch_grants (rs_id updated) (rs_provider seen) ?db2 = g # gs"
    using assms(4) id by (simp add: launch_grants_def)
  have wf: "grants_wf (rd_grants ?db2)" using assms(3) by simp
  have "revoke_rental_launch_authority (rs_id updated) (rs_provider seen) now ?db2 = (Inl SupervisorGrantFenceStale, ?db2)"
    unfolding revoke_rental_launch_authority_def loop
    using v expired_end_room [OF wf g assms(5)] by (simp add: Let_def)
  with settle have "map_sum id (\<lambda>_. ()) r = Inl SupervisorGrantFenceStale" "db' = ?db2"
    by (simp_all add: settle_terminal_controls_def)
  then show ?thesis by (cases r) simp_all
qed

lemma expired_grant_strands_worker_witness:
  "fst (end_session StCancelled ''cancelled'' demo_launching_session 200 demo_launching) = Inl SupervisorGrantFenceStale"
proof -
  let ?e = "end_session StCancelled ''cancelled'' demo_launching_session 200 demo_launching"
  have c: "end_committed (fst ?e)" by code_simp
  have wf: "grants_wf (rd_grants demo_launching)" by (simp add: grants_wf_def demo_launching_def)
  have l: "launch_grants (rs_id demo_launching_session) (rs_provider demo_launching_session) demo_launching =
      demo_launch_grant # []"
    by (simp add: launch_grants_def demo_launching_def demo_launching_session_def demo_launch_grant_def)
  show ?thesis
    using expired_grant_strands_worker [where w = demo_worker, OF prod.collapse [symmetric] c wf l]
    by (simp add: demo_launch_grant_def demo_worker_def demo_launching_def)
qed

section \<open>Heartbeats between a read and a write\<close>

text \<open>The first heartbeat of a session whose launch is still being provisioned makes it active, and from then
  on no acknowledgement of the launch is accepted, whatever it reports: the initial task is never posted.\<close>

theorem heartbeat_preempts_launch:
  assumes "record_heartbeat sid account now db = (hb, db1)" "sessions_wf db" "find_session sid db = Some s"
    and "rs_provider s = account" "rs_status s = StProvisioning" "rs_launch s \<noteq> Some LaunchActive" "rs_id seen = sid"
  shows "hb_error hb = None \<and> (\<exists>e. acknowledge_write new_id seen ack now' db1 = (Inl e, db1))"
proof -
  have id: "rs_id s = sid" using find_session_SomeD [OF assms(3)] by simp
  let ?f = "heartbeat_row s (StActive, True) now"
  have f: "rs_status (?f x) = StActive" "rs_launch (?f x) = rs_launch x" for x
    by (simp_all add: heartbeat_row_def Let_def)
  have t: "heartbeat_target StProvisioning = Some (StActive, True)"
    by (simp add: heartbeat_target_def is_valid_transition_def)
  have db1: "db1 = update_sessions (\<lambda>x. rs_id x = sid) ?f db" and hb: "hb_error hb = None"
    using assms(1,3-5) id t by (auto simp: record_heartbeat_def heartbeat_write_def)
  have row: "rs_status x = StActive \<and> rs_launch x \<noteq> Some LaunchActive"
    if x: "x \<in> set (rd_sessions db1)" "rs_id x = sid" for x
  proof -
    from x obtain y where "y \<in> set (rd_sessions db)" "x = ?f y" "rs_id y = sid"
      by (auto simp: db1 update_sessions_def set_update_where)
    then show ?thesis using find_session_unique [OF assms(2,3)] assms(6) f by auto
  qed
  have "returning_first (ack_fence seen ack) c (rd_sessions db1) = None" for c
  proof -
    have "\<not> ack_fence seen ack x" if "x \<in> set (rd_sessions db1)" for x
      using row [OF that] assms(7) by (cases "ak_state ack") (auto simp: ack_fence_def)
    then show ?thesis by (simp add: returning_first_def find_None_iff)
  qed
  moreover have "select_first (\<lambda>s. rs_id s = rs_id seen \<and> rs_attempt s = ak_attempt ack \<and>
      rs_launch s = Some LaunchActive \<and> rs_daemon_entry s = ak_daemon_entry ack \<and> rs_worker s = ak_worker ack)
      (rd_sessions db1) = None"
    using row assms(7) by (auto simp: select_first_None)
  ultimately have "\<exists>e. acknowledge_write new_id seen ack now' db1 = (Inl e, db1)"
    by (cases "ack_checks seen ack db1") (auto simp: acknowledge_write_def)
  with hb show ?thesis by blast
qed

lemma heartbeat_preempts_launch_witness:
  "\<exists>e db. acknowledge_write ''m1'' demo_launching_session demo_ack 30
     (snd (record_heartbeat ''s1'' ''prov'' 20 demo_launching)) = (Inl e, db)"
proof -
  have f: "find_session ''s1'' demo_launching = Some demo_launching_session"
    by (simp add: find_session_def select_first_def demo_launching_def demo_launching_session_def)
  have wf: "sessions_wf demo_launching" by (simp add: sessions_wf_def demo_launching_def)
  show ?thesis
    using heartbeat_preempts_launch [where account = "''prov''" and now = 20 and seen = demo_launching_session
      and new_id = "''m1''" and ack = demo_ack and now' = 30, OF prod.collapse [symmetric] wf f]
    by (simp add: demo_launching_session_def) blast
qed



section \<open>A lane taken for a session that was ended\<close>

text \<open>When a session is cancelled between the read of its acceptance and the acquisition of its lane, the
  acceptance fails but the ended session keeps the lane, and no handler that ends sessions will release it.\<close>

theorem lost_accept_keeps_lane:
  assumes "acquire_quota_lease_for_session seen listing now db = (Inr lease, db1)"
    and "accept_finish seen listing safe False lease provider now' db1 = (r, db2)"
    and "sessions_wf db" "s \<in> set (rd_sessions db)" "rs_id s = rs_id seen" "terminal_status (rs_status s)"
  shows "\<exists>e. r = Inl e \<and> (\<exists>t \<in> set (rd_sessions db2). rs_id t = rs_id s \<and> rs_status t = rs_status s \<and>
    rs_lease t = Some lease \<and> ql_released_at lease = None \<and>
    (\<forall>status reason later. end_session status reason t later db2 = (Inl (InvalidTransition (rs_status t) status), db2)))"
proof -
  let ?inp = "build_quota_lease_input seen listing now"
  obtain reason where x: "acquire_lease ?inp now db = (Inr (reason, lease), db1)"
    using assms(1) by (auto simp: acquire_quota_lease_for_session_def split: prod.splits sum.splits)
  have inp: "aq_session ?inp = rs_id seen" by (simp add: build_quota_lease_input_def Let_def)
  have live: "ql_released_at lease = None" using acquire_lease_Inr(1) [OF x] by (simp add: create_lease_def)
  have sessions: "rd_sessions db1 = rd_sessions (persist_session_lease (rs_id seen) lease now db)"
    using x inp by (auto simp: acquire_lease_def Let_def split: if_splits)
  let ?t = "with_lease lease now s"
  have t: "?t \<in> set (rd_sessions db1)"
    using update_where_mem [OF assms(4), of "\<lambda>r. rs_id r = rs_id seen" "with_lease lease now"] assms(5)
    by (simp add: sessions persist_session_lease_def update_sessions_def)
  have wf1: "sessions_wf db1"
    using assms(3) sessions by (simp add: sessions_wf_def persist_session_lease_def update_sessions_def map_key_update_where)
  have only: "x = ?t" if "x \<in> set (rd_sessions db1)" "rs_id x = rs_id seen" for x
  proof -
    have "rs_id x = rs_id ?t" using that(2) assms(5) by simp
    then show ?thesis using wf1 that(1) t unfolding sessions_wf_def by (blast intro: distinct_key_inj)
  qed
  have notreq: "rs_status ?t \<noteq> StRequested" using assms(6) by (auto simp: terminal_status_def)
  have "\<not> accept_fence seen False y" if "y \<in> set (rd_sessions db1)" for y
    using only [OF that] notreq by (auto simp: accept_fence_def)
  then have none: "returning_first (accept_fence seen False) c (rd_sessions db1) = None" for c
    by (simp add: returning_first_def find_None_iff)
  obtain e where e: "transaction (accept_commit seen listing safe False lease provider now') db1 = (Inl e, db1)"
  proof (cases "accept_commit seen listing safe False lease provider now' db1")
    case (Inl e)
    then show thesis by (intro that) (simp add: transaction_def)
  next
    case (Inr p)
    then show thesis using none by (cases p) (auto elim: accept_commit_Inr)
  qed
  obtain y where y: "find_session (rs_id seen) db1 = Some y"
    using select_first_Some_ex [OF t, of "\<lambda>r. rs_id r = rs_id seen"] assms(5) by (auto simp: find_session_def)
  then have "y = ?t" using only [of y] find_session_SomeD [OF y] by simp
  with y notreq have "accept_cleanup seen False now' db1 = db1" by (simp add: accept_cleanup_def)
  then have r: "r = Inl e" "db2 = db1" using assms(2) e by (simp_all add: accept_finish_def)
  have "end_session status reason ?t later db2 = (Inl (InvalidTransition (rs_status ?t) status), db2)" for status reason later
    using assms(6) by (auto simp: end_session_def terminal_status_def is_valid_transition_def)
  then show ?thesis using r t live assms(5) by (intro exI [of _ e] conjI bexI [of _ ?t]) auto
qed

lemma lost_accept_keeps_lane_witness:
  "\<exists>lease. \<exists>t \<in> set (rd_sessions (snd (accept_finish demo_rental_session demo_listing (Some demo_selection) False
       lease ''prov'' 30 (snd (acquire_quota_lease_for_session demo_rental_session demo_listing 20 demo_cancelled))))).
     rs_status t = StCancelled \<and> rs_lease t = Some lease \<and> ql_released_at lease = None"
proof -
  let ?a = "acquire_quota_lease_for_session demo_rental_session demo_listing 20 demo_cancelled"
  have "case fst ?a of Inl _ \<Rightarrow> False | Inr _ \<Rightarrow> True" by code_simp
  then obtain lease where "fst ?a = Inr lease" by (auto split: sum.splits)
  then have a: "?a = (Inr lease, snd ?a)" by (metis prod.collapse)
  have wf: "sessions_wf demo_cancelled" by (simp add: sessions_wf_def demo_cancelled_def)
  have s: "demo_rental_session\<lparr>rs_status := StCancelled\<rparr> \<in> set (rd_sessions demo_cancelled)"
    by (simp add: demo_cancelled_def)
  from lost_accept_keeps_lane [where safe = "Some demo_selection" and provider = "''prov''" and now' = 30,
    OF a prod.collapse [symmetric] wf s]
  obtain t where "t \<in> set (rd_sessions (snd (accept_finish demo_rental_session demo_listing (Some demo_selection) False
      lease ''prov'' 30 (snd ?a))))" "rs_status t = StCancelled" "rs_lease t = Some lease" "ql_released_at lease = None"
    by (auto simp: terminal_status_def)
  then show ?thesis by (intro exI [of _ lease] bexI [of _ t] conjI)
qed

end
