(* ===== verification/RentalAcceptance.thy ===== *)
theory RentalAcceptance
  imports RentalInterleavings
begin

text \<open>
  What an accepted session is: the effect of accepting, and the runtime that every launched session stores.
\<close>

section \<open>The effect of accepting\<close>

lemma assert_safe_Inr:
  "assert_rental_runtime_selection_safe e r = Inr r' \<Longrightarrow>
     sel_kind r' = RENTAL_SAFE_RUNTIME_KIND \<and> sel_profile r' = Some RENTAL_SAFE_PERMISSION_PROFILE_ID"
  by (auto simp: assert_rental_runtime_selection_safe_def split: if_splits)

text \<open>The one contained runtime.\<close>

definition contained :: "runtime_selection \<Rightarrow> bool" where
  "contained r \<longleftrightarrow> sel_kind r = RENTAL_SAFE_RUNTIME_KIND \<and> sel_profile r = Some RENTAL_SAFE_PERMISSION_PROFILE_ID"

lemma contained_stored [simp]: "contained (stored_runtime r) = contained r"
  by (simp add: contained_def stored_runtime_def)

lemma safe_launch_contained: "safe_launch launch = Inr safe \<Longrightarrow>
    (launch = None \<longleftrightarrow> safe = None) \<and> (\<forall>la. safe = Some la \<longrightarrow> contained (la_runtime la))"
  by (auto simp: safe_launch_def result_elims contained_def dest!: assert_safe_Inr split: option.splits)

lemma accept_checks_plan:
  assumes "accept_checks s0 provider launch now db = (Inr (Proceed s listing safe retrying), db')"
  shows "safe_launch launch = Inr safe \<and> s = s0 \<and> retrying = is_rental_launch_retry (rs_status s) (rs_launch s) \<and>
    (\<not> retrying \<longrightarrow> is_valid_transition (rs_status s) StAccepted \<and> \<not> request_expired s now) \<and>
    (retrying \<longrightarrow> launch \<noteq> None)"
  using assms unfolding accept_checks_def Let_def
  by (simp split: option.split_asm sum.split_asm if_split_asm) auto

lemma valid_accept: "is_valid_transition p StAccepted \<Longrightarrow> p = StRequested"
  by (cases p) (simp_all add: is_valid_transition_def)

lemma accept_begin_plan:
  assumes "accept_begin sid provider launch now db = (Inr (Proceed s listing safe retrying), db')"
  shows "safe_launch launch = Inr safe" "retrying \<longleftrightarrow> rs_status s = StAccepted \<and> rs_launch s = Some LaunchFailed"
    "\<not> retrying \<Longrightarrow> rs_status s = StRequested \<and> \<not> request_expired s now"
proof -
  obtain s0 where "accept_checks s0 provider launch now db = (Inr (Proceed s listing safe retrying), db')"
    using assms by (auto simp: accept_begin_def split: option.splits)
  note plan = accept_checks_plan [OF this]
  then show "safe_launch launch = Inr safe" by blast
  show "retrying \<longleftrightarrow> rs_status s = StAccepted \<and> rs_launch s = Some LaunchFailed"
    using plan by (simp add: is_rental_launch_retry_def)
  show "\<not> retrying \<Longrightarrow> rs_status s = StRequested \<and> \<not> request_expired s now"
    using plan valid_accept by blast
qed

text \<open>A successful acceptance is an exact retry of a pending one, or it went through all its parts.\<close>

lemma accept_session_cases:
  assumes "accept_session sid provider launch now db = (Inr (Some u), db')"
  obtains (pending) "db' = db" "u \<in> set (rd_sessions db)" "rs_id u = sid" "rs_provider u = provider"
      "rs_status u = StAccepted" "rs_launch u = Some LaunchPending"
  | (accepted) s listing safe retrying lease db1 where
      "accept_begin sid provider launch now db = (Inr (Proceed s listing safe retrying), db)"
      "acquire_quota_lease_for_session s listing now db = (Inr lease, db1)"
      "accept_finish s listing safe retrying lease provider now db1 = (Inr u, db')"
proof (cases "accept_begin sid provider launch now db")
  case (Pair p db1)
  show thesis
  proof (cases "\<exists>s listing safe retrying. p = Inr (Proceed s listing safe retrying)")
    case True
    then obtain s listing safe retrying where p: "p = Inr (Proceed s listing safe retrying)" by blast
    have "db1 = db" using accept_begin_Proceed(1) Pair p by blast
    with assms Pair p obtain lease db2 where "acquire_quota_lease_for_session s listing now db = (Inr lease, db2)"
        "accept_finish s listing safe retrying lease provider now db2 = (Inr u, db')"
      by (auto simp: accept_session_def split: prod.splits sum.splits)
    with Pair p \<open>db1 = db\<close> show thesis by (intro accepted) simp_all
  next
    case False
    with assms Pair have "p = Inr (PendingRetry u)" "db' = db1"
      by (auto simp: accept_session_def split: sum.splits accept_plan.splits prod.splits)
    with Pair show thesis
      by (intro pending) (auto simp: accept_begin_def accept_checks_def Let_def
        split: option.splits sum.splits if_splits dest!: select_first_SomeD)
  qed
qed

text \<open>C29: A session that is accepted anew was requested and not expired, or its launch had failed; it now holds
  the lease it acquired on the lane of its listing, its listing is within capacity, and if it is launched then
  in the contained runtime, in a new attempt without the identities of the last one, on an enabled host of the
  provider that was heard of within the last ninety seconds.\<close>

theorem accepted_session_effect:
  assumes "accept_session sid provider launch now db = (Inr (Some u), db')" "sessions_wf db" "db' \<noteq> db"
  shows "\<exists>s \<in> set (rd_sessions db). \<exists>l \<in> set (rd_listings db). \<exists>lease.
    rs_id s = sid \<and> rs_provider s = provider \<and> rl_id l = rs_listing s \<and>
    (rs_status s = StRequested \<and> \<not> request_expired s now \<or> rs_status s = StAccepted \<and> rs_launch s = Some LaunchFailed) \<and>
    u \<in> set (rd_sessions db') \<and> rs_id u = sid \<and> rs_status u = StAccepted \<and>
    rs_lease u = Some lease \<and> ql_released_at lease = None \<and> ql_lane lease = aq_lane (build_quota_lease_input s l now) \<and>
    count_capacity_consuming_sessions (rs_listing s) db' \<le> rl_max_sessions l \<and>
    (launch \<noteq> None \<longrightarrow> (\<exists>r. rs_runtime u = Some r \<and> contained r) \<and> rs_launch u = Some LaunchPending \<and>
       rs_attempt u = rs_attempt s + 1 \<and> rs_daemon_entry u = None \<and> rs_worker u = None \<and>
       (\<exists>h \<in> set (rd_hosts db). rs_host u = Some (rh_id h) \<and> rh_provider h = provider \<and> rh_enabled h \<and>
          now - rh_last_heartbeat h \<le> 90000))"
  using assms(1)
proof (cases rule: accept_session_cases)
  case pending
  with assms(3) show ?thesis by blast
next
  case (accepted s listing safe retrying lease db1)
  note b = accept_begin_Proceed [OF accepted(1)] and plan = accept_begin_plan [OF accepted(1)]
  let ?inp = "build_quota_lease_input s listing now"
  obtain reason where x: "acquire_lease ?inp now db = (Inr (reason, lease), db1)"
    using accepted(2) by (auto simp: acquire_quota_lease_for_session_def split: prod.splits sum.splits)
  note lease = acquire_lease_Inr(1) [OF x]
  have tables: "rd_hosts db1 = rd_hosts db"
    using x by (auto simp: acquire_lease_def Let_def log_activity_def persist_session_lease_def update_sessions_def
      split: if_splits option.splits)
  have view: "status_view db1 = status_view db" using acquire_view [of ?inp now db] x by simp
  have wf1: "sessions_wf db1" using rows_move_wf [OF rows_move_same [OF view]] assms(2) .
  have listed: "rs_listing t = rl_id listing" if t: "t \<in> set (rd_sessions db1)" "rs_id t = rs_id s" for t
  proof -
    have "row_view t \<in> set (status_view db1)" using t(1) by (simp add: status_view_def)
    then have "row_view t \<in> set (status_view db)" unfolding view .
    then obtain v where "v \<in> set (rd_sessions db)" "row_view t = row_view v" by (auto simp: status_view_def)
    moreover from this have "v = s"
      using assms(2) b(2) t(2) unfolding sessions_wf_def by (auto simp: row_view_def dest: distinct_key_inj)
    ultimately show ?thesis using b(6) by (simp add: row_view_def)
  qed
  from accepted(3) obtain db2 where c: "accept_commit s listing safe retrying lease provider now db1 = Inr (u, db2)"
      and db': "rd_sessions db' = rd_sessions db2"
    by (cases rule: accept_finish_cases) auto
  from c show ?thesis
  proof (rule accept_commit_Inr)
    fix host :: "rental_host option"
    let ?except = "if retrying then Some (rs_id s) else None"
    let ?row = "accepted_row s lease (map_option rh_id host) (map_option (\<lambda>la. stored_runtime (la_runtime la)) safe) now"
    assume count: "count_sessions (consuming ?except (\<lambda>t. rs_listing t = rl_id listing)) db1 < rl_max_sessions listing"
      and host: "case safe of None \<Rightarrow> host = None
        | Some la \<Rightarrow> \<exists>h :: rental_host. host = Some h \<and> admit_host listing la provider ?except now db1 = Inr h"
      and u: "returning_first (accept_fence s retrying) ?row (rd_sessions db1) = Some u"
      and db2: "db2 = update_sessions (accept_fence s retrying) ?row db1"
    from u obtain t where t: "t \<in> set (rd_sessions db1)" "accept_fence s retrying t" "u = ?row t"
      by (auto simp: returning_first_def dest: find_SomeD)
    have mem: "u \<in> set (rd_sessions db')"
      using update_where_mem [OF t(1), of "accept_fence s retrying" ?row] t by (simp add: db' db2 update_sessions_def)
    have id: "rs_id u = sid" "rs_status u = StAccepted" "rs_lease u = Some lease"
      using t b(3) by (simp_all add: accept_fence_def)
    have cap: "count_capacity_consuming_sessions (rs_listing s) db' \<le> rl_max_sessions listing"
      using accept_update_count(1) [OF wf1 listed db2] count b(6)
      by (simp add: listing_count_def count_capacity_consuming_sessions_def count_sessions_def db')
    have start: "rs_status s = StRequested \<and> \<not> request_expired s now \<or> rs_status s = StAccepted \<and> rs_launch s = Some LaunchFailed"
      using plan(2,3) by (cases retrying) auto
    have launched: "(\<exists>r. rs_runtime u = Some r \<and> contained r) \<and> rs_launch u = Some LaunchPending \<and>
       rs_attempt u = rs_attempt s + 1 \<and> rs_daemon_entry u = None \<and> rs_worker u = None \<and>
       (\<exists>h \<in> set (rd_hosts db). rs_host u = Some (rh_id h) \<and> rh_provider h = provider \<and> rh_enabled h \<and>
          now - rh_last_heartbeat h \<le> 90000)" if "launch \<noteq> None"
    proof -
      from that safe_launch_contained [OF plan(1)] obtain la where la: "safe = Some la" "contained (la_runtime la)" by auto
      with host obtain h :: rental_host where h: "host = Some h" "admit_host listing la provider ?except now db1 = Inr h" by auto
      from h(2) have "h \<in> set (rd_hosts db)" "rh_provider h = provider" "rh_enabled h" "now - rh_last_heartbeat h \<le> 90000"
        by (auto simp: admit_host_def result_elims tables own_host_def is_rental_host_fresh_def
          RENTAL_HOST_FRESHNESS_MS_def dest!: select_first_SomeD)
      then show ?thesis
        using la h(1) t(3) by (auto simp: accepted_row_def rental_launch_identity_reset_def)
    qed
    show ?thesis
      using b lease start mem id cap launched
      by (intro bexI [of _ s] bexI [of _ listing] exI [of _ lease]) (auto simp: create_lease_def)
  qed
qed

lemma accepted_session_effect_witness:
  "\<exists>u \<in> set (rd_sessions demo_accepted). rs_id u = ''s1'' \<and> rs_launch u = Some LaunchPending \<and> rs_attempt u = 1 \<and>
     (\<exists>r. rs_runtime u = Some r \<and> contained r)"
proof -
  let ?a = "accept_session ''s1'' ''prov'' (Some demo_selection) 20 demo_rental_db"
  have "(case fst ?a of Inl _ \<Rightarrow> None | Inr x \<Rightarrow> map_option rs_attempt x) = Some 1" by code_simp
  then obtain u where "fst ?a = Inr (Some u)" by (auto split: sum.splits option.splits)
  then have a: "?a = (Inr (Some u), demo_accepted)" by (metis demo_accepted_def prod.collapse)
  have "map rs_status (rd_sessions demo_accepted) = [StAccepted, StRequested]" by code_simp
  moreover have "map rs_status (rd_sessions demo_rental_db) = [StRequested, StRequested]"
    by (simp add: demo_rental_db_def)
  ultimately have ne: "demo_accepted \<noteq> demo_rental_db" by auto
  obtain s where s: "s \<in> set (rd_sessions demo_rental_db)" and u: "u \<in> set (rd_sessions demo_accepted)" "rs_id u = ''s1''"
      "\<exists>r. rs_runtime u = Some r \<and> contained r" "rs_launch u = Some LaunchPending" "rs_attempt u = rs_attempt s + 1"
    using accepted_session_effect [OF a demo_rental_wf ne] by blast
  have "rs_attempt s = 0" using s by (auto simp: demo_rental_db_def demo_rental_session_def)
  with u show ?thesis by auto
qed

section \<open>The type of a session row\<close>

text \<open>A launched session stores the contained runtime and the number of its attempt.\<close>

definition row_typed :: "rental_session \<Rightarrow> bool" where
  "row_typed s \<longleftrightarrow> 0 \<le> rs_attempt s \<and>
     (rs_launch s \<noteq> None \<longrightarrow> 1 \<le> rs_attempt s \<and> (case rs_runtime s of None \<Rightarrow> False | Some r \<Rightarrow> contained r))"

definition rows_typed :: "rental_db \<Rightarrow> bool" where
  "rows_typed db \<longleftrightarrow> (\<forall>s \<in> set (rd_sessions db). row_typed s)"

lemma rows_typed_update:
  "rows_typed db \<Longrightarrow> (\<And>s. p s \<Longrightarrow> row_typed s \<Longrightarrow> row_typed (f s)) \<Longrightarrow> rows_typed (update_sessions p f db)"
  by (auto simp: rows_typed_def update_sessions_def set_update_where)

lemma rows_typed_sessions: "rd_sessions db' = rd_sessions db \<Longrightarrow> rows_typed db' = rows_typed db"
  by (simp add: rows_typed_def)

lemma row_typed_simps [simp]:
  "row_typed (expire_row now s) = row_typed s" "row_typed (ended_row q now s) = row_typed s"
  "row_typed (heartbeat_row seen t now s) = row_typed s" "row_typed (with_lease l now s) = row_typed s"
  "row_typed (s\<lparr>rs_initial_message := m\<rparr>) = row_typed s"
  "row_typed (s\<lparr>rs_status := q\<rparr>) = row_typed s" "row_typed (s\<lparr>rs_status := q, rs_updated := now\<rparr>) = row_typed s"
  "row_typed (s\<lparr>rs_room := room\<rparr>) = row_typed s"
  by (simp_all add: row_typed_def expire_row_def ended_row_def heartbeat_row_def with_lease_def Let_def)

lemma log_typed [simp]:
  "rows_typed (log_activity sid room k db) = rows_typed db" "rows_typed (provider_log p sid e db) = rows_typed db"
  by (simp_all add: rows_typed_def)

lemma persist_typed: "rows_typed db \<Longrightarrow> rows_typed (persist_session_lease sid lease now db)"
  unfolding persist_session_lease_def by (rule rows_typed_update) simp_all

lemma acquire_lease_typed: "rows_typed db \<Longrightarrow> rows_typed (snd (acquire_lease inp now db))"
  by (simp add: acquire_lease_def Let_def persist_typed)

lemma acquire_typed:
  "acquire_quota_lease_for_session s listing now db = (r, db') \<Longrightarrow> rows_typed db \<Longrightarrow> rows_typed db'"
  using acquire_lease_typed [of db "build_quota_lease_input s listing now" now]
  by (auto simp: acquire_quota_lease_for_session_def split: prod.splits sum.splits)

lemma release_typed: "rows_typed db \<Longrightarrow> rows_typed (release_quota_lease_for_session s reason now db)"
  by (simp add: release_quota_lease_for_session_def release_session_lease_def Let_def persist_typed
    split: prod.split option.split)

lemma settle_typed: "rows_typed db \<Longrightarrow> rows_typed (snd (settle_terminal_controls s provider reason now db))"
  using release_typed [of db s reason now] by (simp add: settle_terminal_controls_def rows_typed_def)

lemma end_session_typed:
  assumes "end_session status reason seen now db = (r, db')" "rows_typed db"
  shows "rows_typed db'"
proof -
  have u: "rows_typed (update_sessions (status_fence seen) (ended_row status now) db)"
    using assms(2) by (rule rows_typed_update) simp
  have "rows_typed (snd (settle_terminal_controls v (rs_provider seen) reason now
      (update_sessions (status_fence seen) (ended_row status now) db)))" for v
    by (rule settle_typed [OF u])
  with assms show ?thesis
    by (auto simp: end_session_def split: if_splits option.splits prod.splits sum.splits) (metis snd_conv)+
qed

lemma publish_task_typed: "rows_typed db \<Longrightarrow> rows_typed (snd (publish_initial_rental_task new_id s w db))"
proof -
  assume t: "rows_typed db"
  have m: "rows_typed (snd (post_message m db))" for m
    using t by (simp add: post_message_def rows_typed_def split: option.split)
  have "rows_typed (update_sessions p (\<lambda>r. r\<lparr>rs_initial_message := x\<rparr>) (snd (post_message m db)))" for p x m
    using m by (rule rows_typed_update) simp
  with t show ?thesis by (simp add: publish_initial_rental_task_def Let_def case_prod_beta)
qed

text \<open>An acknowledgement updates rows whose launch is on the way.\<close>

lemma acknowledged_typed: "ack_fence seen ack s \<Longrightarrow> row_typed s \<Longrightarrow> row_typed (acknowledged_row seen ack now s)"
  by (auto simp: ack_fence_def row_typed_def acknowledged_row_def)

lemma revoke_typed [simp]: "rows_typed (snd (revoke_rental_launch_authority sid provider now db)) = rows_typed db"
  by (simp add: rows_typed_def)

lemma ack_effects_typed: "rows_typed db \<Longrightarrow> rows_typed (snd (ack_effects new_id seen ack worker u now db))"
  by (cases worker)
    (simp_all add: ack_effects_def Let_def case_prod_beta publish_task_typed split: sum.split)

lemma acknowledge_typed:
  assumes "acknowledge_write new_id seen ack now db = (r, db')" "rows_typed db"
  shows "rows_typed db'"
proof (cases "ack_checks seen ack db")
  case (Inr worker)
  have u: "rows_typed (update_sessions (ack_fence seen ack) (acknowledged_row seen ack now) db)"
    using assms(2) by (rule rows_typed_update) (rule acknowledged_typed)
  have p: "rows_typed d" if "publish_initial_rental_task new_id a w db = (mid, d)" for a w mid d
    using publish_task_typed [OF assms(2), of new_id a w] that by simp
  show ?thesis
  proof (cases "returning_first (ack_fence seen ack) (acknowledged_row seen ack now) (rd_sessions db)")
    case (Some a)
    then have "db' = snd (ack_effects new_id seen ack worker a now
        (update_sessions (ack_fence seen ack) (acknowledged_row seen ack now) db))"
      using assms(1) Inr by (simp add: acknowledge_write_def)
    then show ?thesis using ack_effects_typed [OF u] by simp
  next
    case None
    with assms Inr show ?thesis
      by (auto simp: acknowledge_write_def split: option.splits prod.splits dest: p)
  qed
qed (use assms in \<open>simp add: acknowledge_write_def\<close>)

lemma accept_begin_typed: "accept_begin sid provider launch now db = (r, db') \<Longrightarrow> rows_typed db \<Longrightarrow> rows_typed db'"
  by (auto simp: accept_begin_def accept_checks_def Let_def split: option.splits sum.splits if_splits
    intro!: rows_typed_update)

lemma accept_finish_typed:
  assumes "accept_finish s listing safe retrying lease provider now db = (r, db')" "rows_typed db" "0 \<le> rs_attempt s"
    and "\<And>la. safe = Some la \<Longrightarrow> contained (la_runtime la)"
  shows "rows_typed db'"
proof (cases "transaction (accept_commit s listing safe retrying lease provider now) db")
  case (Pair x db1)
  then show ?thesis
  proof (cases rule: transaction_cases)
    case (rolled_back e)
    with assms(1) Pair have "db' = accept_cleanup s retrying now db" by (simp add: accept_finish_def)
    then show ?thesis using assms(2) release_typed by (simp add: accept_cleanup_def)
  next
    case (committed u)
    from committed(2) have "rows_typed db1"
    proof (rule accept_commit_Inr)
      fix host :: "rental_host option"
      let ?rt = "map_option (\<lambda>la. stored_runtime (la_runtime la)) safe"
      assume "db1 = update_sessions (accept_fence s retrying) (accepted_row s lease (map_option rh_id host) ?rt now) db"
      moreover have "row_typed (accepted_row s lease (map_option rh_id host) ?rt now t)" for t
        using assms(3,4) by (cases safe) (auto simp: row_typed_def accepted_row_def rental_launch_identity_reset_def)
      ultimately show ?thesis using assms(2) by (auto intro: rows_typed_update)
    qed
    then show ?thesis using assms(1) Pair committed by (auto simp: accept_finish_def)
  qed
qed

lemma accept_session_typed:
  assumes "accept_session sid provider launch now db = (r, db')" "rows_typed db"
  shows "rows_typed db'"
proof (cases "accept_begin sid provider launch now db")
  case (Pair p db1)
  note t1 = accept_begin_typed [OF Pair assms(2)]
  show ?thesis
  proof (cases "\<exists>s listing safe retrying. p = Inr (Proceed s listing safe retrying)")
    case True
    then obtain s listing safe retrying where p: "p = Inr (Proceed s listing safe retrying)" by blast
    have s: "0 \<le> rs_attempt s"
      using accept_begin_Proceed(2) [OF Pair [unfolded p]] assms(2) by (auto simp: rows_typed_def row_typed_def)
    have safe: "contained (la_runtime la)" if "safe = Some la" for la
      using safe_launch_contained [OF accept_begin_plan(1) [OF Pair [unfolded p]]] that by blast
    obtain x db2 where x: "acquire_quota_lease_for_session s listing now db1 = (x, db2)" by force
    note t2 = acquire_typed [OF x t1]
    from assms(1) Pair p x t2 show ?thesis
      by (auto simp: accept_session_def split: sum.splits prod.splits elim: accept_finish_typed [OF _ t2 s safe])
  next
    case False
    with assms(1) Pair have "db' = db1"
      by (auto simp: accept_session_def split: sum.splits accept_plan.splits prod.splits)
    with t1 show ?thesis by simp
  qed
qed

lemma session_step_typed:
  assumes "session_step db db'" "rows_typed db"
  shows "rows_typed db'"
  using assms(1)
proof (cases rule: session_step.cases)
  case (accept_read sid provider launch now r)
  then show ?thesis using assms(2) by (rule accept_begin_typed)
next
  case (end_write status reason seen now r)
  from end_session_typed [OF end_write(1) assms(2)] show ?thesis .
next
  case (read sid account now r)
  then show ?thesis using assms(2)
    by (auto simp: get_session_by_id_def Let_def split: option.splits if_splits intro!: rows_typed_update)
next
  case (requests provider now r)
  then show ?thesis using assms(2) by (auto simp: list_provider_requests_def Let_def intro!: rows_typed_update)
next
  case (room sid room_id now r)
  then show ?thesis using assms(2)
    by (auto simp: provision_rental_room_def result_elims Let_def split: if_splits intro!: rows_typed_update)
next
  case (launch hash token new_id sid provider key owner minutes now r)
  then have "rd_sessions db' = rd_sessions db"
    by (auto simp: create_rental_launch_authority_def result_elims split: option.splits)
  then show ?thesis using assms(2) rows_typed_sessions by blast
next
  case (acknowledge new_id seen ack now r)
  from acknowledge_typed [OF acknowledge assms(2)] show ?thesis .
next
  case (heartbeat sid account now r)
  then show ?thesis using assms(2)
    by (auto simp: record_heartbeat_def heartbeat_write_def split: option.splits if_splits intro!: rows_typed_update)
next
  case (expire sid now r)
  then show ?thesis using assms(2)
    by (auto simp: expire_session_def expire_write_def sweep_write_def split: option.splits if_splits
      intro!: rows_typed_update)
next
  case (mark_stale sid now r)
  then show ?thesis using assms(2)
    by (auto simp: mark_session_stale_def mark_stale_write_def sweep_write_def split: option.splits if_splits
      intro!: rows_typed_update)
next
  case (elsewhere p q sid)
  then show ?thesis using assms(2) by (auto intro!: rows_typed_update)
next
  case (request s)
  then show ?thesis using assms(2) by (auto simp: rows_typed_def row_typed_def)
next
  case others
  then show ?thesis using assms(2) rows_typed_sessions by blast
qed

text \<open>C30: Along every run of the handlers a session row stays well typed: its attempt number is not negative, and
  whenever it has a launch state it stores the one contained runtime and an attempt number from one on.\<close>

theorem session_rows_typed:
  assumes "(handler_step acct)\<^sup>*\<^sup>* db db'" "rows_typed db"
  shows "rows_typed db'"
  using assms
proof (induction rule: rtranclp_induct)
  case (step b c)
  from step.hyps(2) show ?case
    using step.IH [OF step.prems]
    by (cases rule: handler_step.cases) (auto intro: accept_session_typed session_step_typed)
qed

lemma session_rows_typed_witness: "rows_typed demo_two_accepted"
proof -
  have t: "rows_typed demo_two_providers" by code_simp
  show ?thesis
    by (rule session_rows_typed [OF r_into_rtranclp t]) (rule demo_two_step)
qed

end
