(* ===== verification/UsageIngest.thy ===== *)
theory UsageIngest
  imports BudgetLedger
begin

text \<open>
  Usage reports of a rental session, \<^verbatim>\<open>src/api/rental/usage-ingest.ts\<close>, and the table
  \<^verbatim>\<open>rental_usage_meters\<close> (\<^verbatim>\<open>src/api/db/schema/rentals/usage-meters.ts\<close>). A report is booked under the
  advisory lock of its session; the row is stamped with the start of the transaction, which came before
  the lock was taken. The opaque adapter payload, which is stored and never read, is left out.
\<close>

section \<open>Reports\<close>

datatype meter_source = AdapterSource | ToolSource | SelfReported | SystemSource

definition INGEST_CONFIDENCE_VALUES :: "(string \<times> quota_confidence) list" where
  "INGEST_CONFIDENCE_VALUES =
     [(''official_exact'', OfficialExact), (''local_exact'', LocalExact), (''derived'', Derived),
      (''calibrated'', Calibrated), (''estimated'', Estimated), (''weak_estimate'', WeakEstimate),
      (''unknown'', UnknownConfidence)]"

record native_report =
  nr_provider :: string
  nr_model :: "string option"
  nr_unit :: "string option"
  nr_used :: "js_num option"
  nr_remaining :: "js_num option"
  nr_reset_at :: "int option"

record usage_increment =
  in_input :: "js_num option"
  in_output :: "js_num option"
  in_cache_creation :: "js_num option"
  in_cache_read :: "js_num option"
  in_reasoning :: "js_num option"
  in_requests :: "js_num option"
  in_credits :: "js_num option"
  in_usd :: "js_num option"
  in_tools :: "js_num option"
  in_commands :: "js_num option"
  in_files :: "js_num option"
  in_heartbeats :: "js_num option"

record usage_report =
  ur_source :: meter_source
  ur_snapshot :: native_report
  ur_delta :: usage_increment
  ur_lrt :: js_num
  ur_confidence :: string
  ur_key :: string
  ur_heartbeat :: "int option"

datatype insert_failure = UniqueViolation | IntegerOutOfRange

datatype ingest_error = ReportInvalid | ReportSessionNotFound | ProviderModelMismatch | InsertFailed insert_failure

record lane_session =
  ls_id :: string
  ls_provider :: "string option"
  ls_model :: "string option"

section \<open>Rows\<close>

record meter_row = usage_meter +
  mr_id :: string
  mr_source :: meter_source
  mr_unit :: "string option"
  mr_used :: "rat option"
  mr_remaining :: "rat option"
  mr_reset_at :: "int option"
  mr_input :: int
  mr_output :: int
  mr_cache_creation :: int
  mr_cache_read :: int
  mr_reasoning :: int
  mr_requests :: int
  mr_credits :: "rat option"
  mr_usd :: "rat option"
  mr_lrt_delta :: int
  mr_lrt_total :: int
  mr_tools :: int
  mr_commands :: int
  mr_files :: int
  mr_heartbeats :: int
  mr_last_heartbeat :: "int option"
  mr_key :: string

type_synonym meter_table = "meter_row list"

definition session_meters :: "string \<Rightarrow> meter_table \<Rightarrow> meter_table" where
  "session_meters sid tbl = filter (\<lambda>m. um_session m = sid) tbl"

definition load_by_idempotency :: "string \<Rightarrow> string \<Rightarrow> meter_table \<Rightarrow> meter_row option" where
  "load_by_idempotency sid key tbl = select_first (\<lambda>m. um_session m = sid \<and> mr_key m = key) tbl"

text \<open>\<open>Math.round\<close>, and the guards around the reported numbers.\<close>

definition math_round :: "rat \<Rightarrow> int" where
  "math_round q = \<lfloor>q + 1 / 2\<rfloor>"

definition number_or :: "js_num option \<Rightarrow> rat \<Rightarrow> rat" where
  "number_or v fallback = (case v of Some (Fin q) \<Rightarrow> if 0 \<le> q then q else fallback | _ \<Rightarrow> fallback)"

definition numeric_string :: "js_num option \<Rightarrow> rat option" where
  "numeric_string v = (case v of Some (Fin q) \<Rightarrow> Some q | _ \<Rightarrow> None)"

definition reported_count :: "js_num option \<Rightarrow> int" where
  "reported_count v = math_round (number_or v 0)"

text \<open>A counter that is carried over from the previous row.\<close>

definition carried :: "meter_row option \<Rightarrow> (meter_row \<Rightarrow> int) \<Rightarrow> int" where
  "carried previous column = (case previous of None \<Rightarrow> 0 | Some m \<Rightarrow> column m)"

definition lrt_delta_of :: "usage_report \<Rightarrow> int" where
  "lrt_delta_of r = max 0 (reported_count (Some (ur_lrt r)))"

definition insert_row ::
  "string \<Rightarrow> string \<Rightarrow> usage_report \<Rightarrow> quota_confidence \<Rightarrow> meter_row option \<Rightarrow> int \<Rightarrow> meter_row" where
  "insert_row new_id sid r confidence previous start =
     \<lparr>um_session = sid, um_created_at = start, um_confidence = confidence, mr_id = new_id,
      mr_source = ur_source r, mr_unit = nr_unit (ur_snapshot r), mr_used = numeric_string (nr_used (ur_snapshot r)),
      mr_remaining = numeric_string (nr_remaining (ur_snapshot r)), mr_reset_at = nr_reset_at (ur_snapshot r),
      mr_input = reported_count (in_input (ur_delta r)), mr_output = reported_count (in_output (ur_delta r)),
      mr_cache_creation = reported_count (in_cache_creation (ur_delta r)),
      mr_cache_read = reported_count (in_cache_read (ur_delta r)),
      mr_reasoning = reported_count (in_reasoning (ur_delta r)),
      mr_requests = reported_count (in_requests (ur_delta r)),
      mr_credits = numeric_string (in_credits (ur_delta r)), mr_usd = numeric_string (in_usd (ur_delta r)),
      mr_lrt_delta = lrt_delta_of r, mr_lrt_total = carried previous mr_lrt_total + lrt_delta_of r,
      mr_tools = carried previous mr_tools + reported_count (in_tools (ur_delta r)),
      mr_commands = carried previous mr_commands + reported_count (in_commands (ur_delta r)),
      mr_files = carried previous mr_files + reported_count (in_files (ur_delta r)),
      mr_heartbeats = carried previous mr_heartbeats + reported_count (in_heartbeats (ur_delta r)),
      mr_last_heartbeat = ur_heartbeat r, mr_key = ur_key r\<rparr>"

section \<open>Inserting\<close>

text \<open>The integer columns of the table hold 32 bits; a value outside them is an error of the database.\<close>

definition fits_integer :: "int \<Rightarrow> bool" where
  "fits_integer n \<longleftrightarrow> - 2147483648 \<le> n \<and> n \<le> 2147483647"

definition integer_columns :: "meter_row \<Rightarrow> int list" where
  "integer_columns m =
     [mr_input m, mr_output m, mr_cache_creation m, mr_cache_read m, mr_reasoning m, mr_requests m,
      mr_lrt_delta m, mr_lrt_total m, mr_tools m, mr_commands m, mr_files m, mr_heartbeats m]"

definition insert_meter :: "meter_row \<Rightarrow> meter_table \<Rightarrow> insert_failure + meter_table" where
  "insert_meter m tbl =
     (if \<not> list_all fits_integer (integer_columns m) then Inl IntegerOutOfRange
      else if load_by_idempotency (um_session m) (mr_key m) tbl \<noteq> None then Inl UniqueViolation
      else Inr (tbl @ [m]))"

definition perform_insert ::
  "string \<Rightarrow> string \<Rightarrow> usage_report \<Rightarrow> quota_confidence \<Rightarrow> meter_row option \<Rightarrow> int \<Rightarrow> meter_table \<Rightarrow>
   ingest_error + meter_row \<times> meter_table" where
  "perform_insert new_id sid r confidence previous start tbl =
     (let m = insert_row new_id sid r confidence previous start
      in case insert_meter m tbl of
           Inr tbl' \<Rightarrow> Inr (m, tbl')
         | Inl UniqueViolation \<Rightarrow>
             (case load_by_idempotency sid (ur_key r) tbl of
                Some winner \<Rightarrow> Inr (winner, tbl) | None \<Rightarrow> Inl (InsertFailed UniqueViolation))
         | Inl e \<Rightarrow> Inl (InsertFailed e))"

section \<open>Booking a report\<close>

text \<open>The validation, and the checks before the lock: an early row, or the confidence to go on with.\<close>

definition report_confidence :: "usage_report \<Rightarrow> ingest_error + quota_confidence" where
  "report_confidence r =
     bind_result (guard_result (js_trim (ur_key r) \<noteq> []) ReportInvalid) (\<lambda>_.
     bind_result (guard_result (js_finite (ur_lrt r)) ReportInvalid) (\<lambda>_.
     require (map_of INGEST_CONFIDENCE_VALUES (ur_confidence r)) ReportInvalid))"

definition lane_matches :: "lane_session \<Rightarrow> native_report \<Rightarrow> bool" where
  "lane_matches s n \<longleftrightarrow>
     \<not> (truthy (ls_provider s) \<and> ls_provider s \<noteq> Some (nr_provider n)) \<and>
     \<not> (truthy (ls_model s) \<and> truthy (nr_model n) \<and> ls_model s \<noteq> nr_model n)"

definition ingest_checks ::
  "lane_session list \<Rightarrow> string \<Rightarrow> usage_report \<Rightarrow> meter_table \<Rightarrow> ingest_error + (meter_row + quota_confidence)" where
  "ingest_checks sessions sid r tbl =
     bind_result (report_confidence r) (\<lambda>c.
     case load_by_idempotency sid (ur_key r) tbl of
       Some early \<Rightarrow> Inr (Inl early)
     | None \<Rightarrow>
         bind_result (require (select_first (\<lambda>s. ls_id s = sid) sessions) ReportSessionNotFound) (\<lambda>s.
         bind_result (guard_result (lane_matches s (ur_snapshot r)) ProviderModelMismatch) (\<lambda>_.
         Inr (Inr c))))"

text \<open>The transaction under the lock; \<open>start\<close> is the time at which it began.\<close>

definition ingest_locked ::
  "string \<Rightarrow> string \<Rightarrow> usage_report \<Rightarrow> quota_confidence \<Rightarrow> int \<Rightarrow> meter_table \<Rightarrow> (ingest_error + meter_row) \<times> meter_table" where
  "ingest_locked new_id sid r confidence start tbl =
     transaction (\<lambda>tbl. case load_by_idempotency sid (ur_key r) tbl of
         Some existing \<Rightarrow> Inr (existing, tbl)
       | None \<Rightarrow> perform_insert new_id sid r confidence (latest_meter (session_meters sid tbl)) start tbl) tbl"

text \<open>\<open>ingestUsage\<close> with nothing in between.\<close>

definition ingest_usage ::
  "lane_session list \<Rightarrow> string \<Rightarrow> string \<Rightarrow> usage_report \<Rightarrow> int \<Rightarrow> meter_table \<Rightarrow>
   (ingest_error + meter_row) \<times> meter_table" where
  "ingest_usage sessions new_id sid r start tbl =
     (case ingest_checks sessions sid r tbl of
        Inl e \<Rightarrow> (Inl e, tbl)
      | Inr (Inl early) \<Rightarrow> (Inr early, tbl)
      | Inr (Inr c) \<Rightarrow> ingest_locked new_id sid r c start tbl)"

section \<open>The table over time\<close>

text \<open>The locked transactions in the order in which they get the lock; each may have begun at any time.\<close>

inductive usage_step :: "meter_table \<Rightarrow> meter_table \<Rightarrow> bool" where
  book: "ingest_locked new_id sid r confidence start tbl = (res, tbl') \<Longrightarrow> usage_step tbl tbl'"

text \<open>The same, when the transactions of a session get its lock in the order in which they began.\<close>

inductive ordered_usage_step :: "meter_table \<Rightarrow> meter_table \<Rightarrow> bool" where
  book: "ingest_locked new_id sid r confidence start tbl = (res, tbl') \<Longrightarrow>
    (\<And>m. m \<in> set (session_meters sid tbl) \<Longrightarrow> um_created_at m < start) \<Longrightarrow> ordered_usage_step tbl tbl'"

definition meter_keys_ok :: "meter_table \<Rightarrow> bool" where
  "meter_keys_ok tbl \<longleftrightarrow> distinct (map (\<lambda>m. (um_session m, mr_key m)) tbl)"

text \<open>Every row carries the sum of the deltas up to it, and the rows of a session are in the order of their stamps.\<close>

fun running_totals :: "int \<Rightarrow> meter_table \<Rightarrow> bool" where
  "running_totals n [] = True"
| "running_totals n (m # ms) = (mr_lrt_total m = n + mr_lrt_delta m \<and> running_totals (mr_lrt_total m) ms)"

definition totals_ok :: "meter_table \<Rightarrow> bool" where
  "totals_ok tbl \<longleftrightarrow> (\<forall>sid. running_totals 0 (session_meters sid tbl) \<and>
     sorted_wrt (\<lambda>a b. um_created_at a < um_created_at b) (session_meters sid tbl))"

lemma load_by_idempotency_None:
  "load_by_idempotency sid key tbl = None \<longleftrightarrow> (sid, key) \<notin> (\<lambda>m. (um_session m, mr_key m)) ` set tbl"
  by (auto simp: load_by_idempotency_def select_first_None)

lemma session_meters_append [simp]: "session_meters sid (xs @ ys) = session_meters sid xs @ session_meters sid ys"
  by (simp add: session_meters_def)

lemma insert_row_simps [simp]:
  "um_session (insert_row new_id sid r c p start) = sid" "um_created_at (insert_row new_id sid r c p start) = start"
  "mr_key (insert_row new_id sid r c p start) = ur_key r" "mr_lrt_delta (insert_row new_id sid r c p start) = lrt_delta_of r"
  "mr_lrt_total (insert_row new_id sid r c p start) = carried p mr_lrt_total + lrt_delta_of r"
  "um_confidence (insert_row new_id sid r c p start) = c"
  by (simp_all add: insert_row_def)

text \<open>What a locked transaction does: the recorded row, a new row, or nothing when a column overflows.\<close>

lemma ingest_locked_cases:
  assumes "ingest_locked new_id sid r c start tbl = (res, tbl')"
  obtains (known) m where "load_by_idempotency sid (ur_key r) tbl = Some m" "res = Inr m" "tbl' = tbl"
  | (fresh) m where "load_by_idempotency sid (ur_key r) tbl = None" "res = Inr m" "tbl' = tbl @ [m]"
      "m = insert_row new_id sid r c (latest_meter (session_meters sid tbl)) start"
      "list_all fits_integer (integer_columns m)"
  | (overflow) "res = Inl (InsertFailed IntegerOutOfRange)" "tbl' = tbl" "load_by_idempotency sid (ur_key r) tbl = None"
      "\<not> list_all fits_integer (integer_columns
        (insert_row new_id sid r c (latest_meter (session_meters sid tbl)) start))"
proof (cases "load_by_idempotency sid (ur_key r) tbl")
  case (Some m)
  with assms show thesis by (intro known [of m]) (simp_all add: ingest_locked_def transaction_def)
next
  case None
  let ?m = "insert_row new_id sid r c (latest_meter (session_meters sid tbl)) start"
  show thesis
  proof (cases "list_all fits_integer (integer_columns ?m)")
    case True
    with assms None show thesis
      by (intro fresh [of ?m]) (simp_all add: ingest_locked_def transaction_def perform_insert_def insert_meter_def Let_def)
  next
    case False
    with assms None show thesis
      by (intro overflow) (simp_all add: ingest_locked_def transaction_def perform_insert_def insert_meter_def Let_def)
  qed
qed

lemma ingest_locked_keys:
  assumes "ingest_locked new_id sid r c start tbl = (res, tbl')" "meter_keys_ok tbl"
  shows "meter_keys_ok tbl'"
  using assms(1)
proof (cases rule: ingest_locked_cases)
  case (fresh m)
  then show ?thesis using assms(2) unfolding load_by_idempotency_None by (simp add: meter_keys_ok_def)
qed (use assms(2) in auto)

text \<open>The latest row of a list in the order of the stamps is its last row.\<close>

lemma latest_meter_mem: "latest_meter ms = Some m \<Longrightarrow> m \<in> set ms"
  by (induction ms arbitrary: m) (auto split: option.splits if_splits)

lemma latest_meter_last:
  "sorted_wrt (\<lambda>a b. um_created_at a < um_created_at b) ms \<Longrightarrow> ms \<noteq> [] \<Longrightarrow> latest_meter ms = Some (last ms)"
proof (induction ms)
  case (Cons m ms)
  show ?case
  proof (cases "ms = []")
    case False
    with Cons have l: "latest_meter ms = Some (last ms)" by simp
    have "um_created_at m < um_created_at (last ms)" using Cons.prems(1) False by simp
    with l False show ?thesis by simp
  qed simp
qed simp

lemma running_totals_append:
  "running_totals n (ms @ [m]) \<longleftrightarrow> running_totals n ms \<and>
     mr_lrt_total m = (if ms = [] then n else mr_lrt_total (last ms)) + mr_lrt_delta m"
  by (induction ms arbitrary: n) auto

lemma running_totals_last:
  "running_totals n ms \<Longrightarrow> ms \<noteq> [] \<Longrightarrow> mr_lrt_total (last ms) = n + sum_list (map mr_lrt_delta ms)"
  by (induction ms arbitrary: n) (auto split: if_splits)

lemma ordered_step_ok:
  assumes "ordered_usage_step tbl tbl'" "totals_ok tbl"
  shows "totals_ok tbl'"
  using assms(1)
proof cases
  case (book new_id sid r c start res)
  from book(1) show ?thesis
  proof (cases rule: ingest_locked_cases)
    case (fresh m)
    let ?ms = "session_meters sid tbl"
    have ms: "running_totals 0 ?ms" "sorted_wrt (\<lambda>a b. um_created_at a < um_created_at b) ?ms"
      using assms(2) by (auto simp: totals_ok_def)
    have "carried (latest_meter ?ms) mr_lrt_total = (if ?ms = [] then 0 else mr_lrt_total (last ?ms))"
      using latest_meter_last [OF ms(2)] by (auto simp: carried_def)
    then have "running_totals 0 (?ms @ [m])" using ms(1) fresh by (simp add: running_totals_append)
    moreover have "sorted_wrt (\<lambda>a b. um_created_at a < um_created_at b) (?ms @ [m])"
      using ms(2) book(2) fresh by (auto simp: sorted_wrt_append)
    moreover have "session_meters sid' tbl' = (if sid' = sid then ?ms @ [m] else session_meters sid' tbl)" for sid'
      using fresh by (simp add: session_meters_def)
    ultimately show ?thesis using assms(2) by (simp add: totals_ok_def)
  qed (use assms(2) in auto)
qed

text \<open>C38: While the transactions of every session get its lock in the order in which they began, the latest row of
  a session carries the sum of all usage that was ever reported for it, whatever failed or was repeated.\<close>

theorem latest_total_is_sum:
  assumes "ordered_usage_step\<^sup>*\<^sup>* tbl tbl'" "totals_ok tbl" "latest_meter (session_meters sid tbl') = Some m"
  shows "mr_lrt_total m = sum_list (map mr_lrt_delta (session_meters sid tbl'))"
proof -
  have "totals_ok tbl'"
    using assms(1,2) by (induction rule: rtranclp_induct) (auto intro: ordered_step_ok)
  then have ms: "running_totals 0 (session_meters sid tbl')"
      "sorted_wrt (\<lambda>a b. um_created_at a < um_created_at b) (session_meters sid tbl')"
    by (auto simp: totals_ok_def)
  have ne: "session_meters sid tbl' \<noteq> []" using assms(3) by auto
  show ?thesis
    using running_totals_last [OF ms(1) ne] latest_meter_last [OF ms(2) ne] assms(3) by simp
qed

definition demo_report :: "string \<Rightarrow> rat \<Rightarrow> usage_report" where
  "demo_report key lrt = \<lparr>ur_source = AdapterSource, ur_snapshot = \<lparr>nr_provider = ''cursor'', nr_model = None,
     nr_unit = None, nr_used = None, nr_remaining = None, nr_reset_at = None\<rparr>,
     ur_delta = \<lparr>in_input = None, in_output = None, in_cache_creation = None, in_cache_read = None,
       in_reasoning = None, in_requests = None, in_credits = None, in_usd = None, in_tools = Some (Fin 2),
       in_commands = None, in_files = None, in_heartbeats = None\<rparr>,
     ur_lrt = Fin lrt, ur_confidence = ''local_exact'', ur_key = key, ur_heartbeat = None\<rparr>"

definition demo_meters1 :: meter_table where
  "demo_meters1 = snd (ingest_locked ''m1'' ''s1'' (demo_report ''k1'' 7) LocalExact 20 [])"

definition demo_meters2 :: meter_table where
  "demo_meters2 = snd (ingest_locked ''m2'' ''s1'' (demo_report ''k2'' (5 / 2)) LocalExact 30 demo_meters1)"

lemma demo_meters_stamps: "map um_created_at (session_meters ''s1'' demo_meters1) = [20]"
  by code_simp

lemma latest_total_is_sum_witness:
  "\<exists>m. latest_meter (session_meters ''s1'' demo_meters2) = Some m \<and> mr_lrt_total m = 10"
proof -
  have one: "ordered_usage_step [] demo_meters1"
    unfolding demo_meters1_def by (rule ordered_usage_step.book [OF prod.collapse [symmetric]])
      (simp add: session_meters_def)
  have "um_created_at m < 30" if "m \<in> set (session_meters ''s1'' demo_meters1)" for m
  proof -
    have "um_created_at m \<in> set (map um_created_at (session_meters ''s1'' demo_meters1))" using that by simp
    then show ?thesis unfolding demo_meters_stamps by simp
  qed
  then have two: "ordered_usage_step demo_meters1 demo_meters2"
    unfolding demo_meters2_def by (intro ordered_usage_step.book [OF prod.collapse [symmetric]])
  have run: "ordered_usage_step\<^sup>*\<^sup>* [] demo_meters2" using one two by simp
  have "map mr_lrt_delta (session_meters ''s1'' demo_meters2) = [7, 3]" by code_simp
  moreover have "map_option um_created_at (latest_meter (session_meters ''s1'' demo_meters2)) = Some 30" by code_simp
  moreover have "totals_ok []" by (simp add: totals_ok_def session_meters_def)
  ultimately show ?thesis using latest_total_is_sum [OF run, of "''s1''"] by auto
qed

section \<open>A report that waited for the lock\<close>

text \<open>A new row that is older than the latest row does not become the latest row.\<close>

lemma latest_meter_append:
  "latest_meter (ms @ [m]) =
     (case latest_meter ms of None \<Rightarrow> Some m | Some l \<Rightarrow> if um_created_at m \<le> um_created_at l then Some l else Some m)"
  by (induction ms) (auto split: option.split)


definition demo_meters3 :: meter_table where
  "demo_meters3 = snd (ingest_locked ''m2'' ''s1'' (demo_report ''k2'' 5) LocalExact 10 demo_meters1)"


section \<open>Repeated reports\<close>

lemma usage_steps_append: "usage_step\<^sup>*\<^sup>* tbl tbl' \<Longrightarrow> \<exists>new. tbl' = tbl @ new"
proof (induction rule: rtranclp_induct)
  case (step b c)
  have "\<exists>new. c = b @ new"
    using step.hyps(2) by (cases rule: usage_step.cases) (auto elim: ingest_locked_cases)
  with step.IH show ?case by auto
qed simp

lemma load_by_idempotency_append:
  "load_by_idempotency sid key tbl = Some m \<Longrightarrow> load_by_idempotency sid key (tbl @ new) = Some m"
  unfolding load_by_idempotency_def select_first_def by (induction tbl) (auto split: if_splits)

text \<open>A report is booked at most once: whenever a valid report comes again under a key that was booked for the
  session, whatever it says now and whatever was booked in between, the recorded row is the answer and nothing
  is written.\<close>

theorem report_booked_once:
  assumes "ingest_locked new_id sid r c start tbl = (Inr m, tbl1)" "usage_step\<^sup>*\<^sup>* tbl1 tbl2"
    and "report_confidence r' = Inr c'" "ur_key r' = ur_key r"
  shows "ingest_usage sessions new_id' sid r' start' tbl2 = (Inr m, tbl2)"
proof -
  have "load_by_idempotency sid (ur_key r) tbl1 = Some m"
    using assms(1)
  proof (cases rule: ingest_locked_cases)
    case (fresh n)
    then show ?thesis
      by (simp add: load_by_idempotency_def select_first_def find_append_None)
  qed auto
  then have "load_by_idempotency sid (ur_key r') tbl2 = Some m"
    using usage_steps_append [OF assms(2)] assms(4) by (auto intro: load_by_idempotency_append)
  then show ?thesis using assms(3) by (simp add: ingest_usage_def ingest_checks_def)
qed

lemma report_booked_once_witness:
  "\<exists>m. ingest_usage [] ''m9'' ''s1'' (demo_report ''k1'' 100) 90 demo_meters2 = (Inr m, demo_meters2)"
proof -
  let ?a = "ingest_locked ''m1'' ''s1'' (demo_report ''k1'' 7) LocalExact 20 []"
  have "(case fst ?a of Inl _ \<Rightarrow> None | Inr m \<Rightarrow> Some (mr_lrt_total m)) = Some 7" by code_simp
  then obtain m where "fst ?a = Inr m" by (auto split: sum.splits)
  then have a: "?a = (Inr m, demo_meters1)" by (metis demo_meters1_def prod.collapse)
  have run: "usage_step\<^sup>*\<^sup>* demo_meters1 demo_meters2"
    unfolding demo_meters2_def by (intro r_into_rtranclp usage_step.book [OF prod.collapse [symmetric]])
  have "report_confidence (demo_report ''k1'' 100) = Inr LocalExact" by code_simp
  from report_booked_once [OF a run this] show ?thesis by (auto simp: demo_report_def)
qed

section \<open>The meter that the budget reads\<close>

text \<open>A fresh report is what the budget sentinel sees next: its confidence and its stamp.\<close>

lemma latest_meter_truncate:
  "latest_meter (map usage_meter.truncate ms) = map_option usage_meter.truncate (latest_meter ms)"
  by (induction ms) (auto simp: usage_meter.truncate_def split: option.split)

lemma ingested_report_reaches_sentinel:
  assumes "ingest_locked new_id sid r c start tbl = (Inr m, tbl')" "load_by_idempotency sid (ur_key r) tbl = None"
    and "\<And>m. m \<in> set (session_meters sid tbl) \<Longrightarrow> um_created_at m < start"
    and "bd_meters db = map usage_meter.truncate tbl'" "ss = to_sentinel_state s (load_latest_meter sid db)"
  shows "ss_confidence ss = Some c \<and> ss_last_meter ss = Some start"
proof -
  have m: "tbl' = tbl @ [m]" "um_session m = sid" "um_created_at m = start" "um_confidence m = c"
    using assms(1) by (cases rule: ingest_locked_cases; use assms(2) in simp)+
  have "um_created_at l < start" if "latest_meter (session_meters sid tbl) = Some l" for l
    using assms(3) latest_meter_mem [OF that] by blast
  then have "latest_meter (session_meters sid tbl') = Some m"
    using m by (auto simp: session_meters_def latest_meter_append not_le split: option.split)
  moreover have "filter (\<lambda>m. um_session m = sid) (bd_meters db) = map usage_meter.truncate (session_meters sid tbl')"
    by (simp add: assms(4) session_meters_def filter_map comp_def usage_meter.truncate_def)
  ultimately have "load_latest_meter sid db = Some (usage_meter.truncate m)"
    by (simp add: load_latest_meter_def latest_meter_truncate)
  then show ?thesis using m(3,4) by (simp add: assms(5) to_sentinel_state_def usage_meter.truncate_def)
qed

end
