(* ===== verification/BoardIntents.thy ===== *)
theory BoardIntents
  imports LeaseStore Json
begin

text \<open>
  Requests for a change of the board that a Board Manager decides:
  \<^verbatim>\<open>src/api/db/coordination/board-intent-lifecycle.ts\<close>, \<^verbatim>\<open>board-intent-approval.ts\<close>, the payloads of
  \<^verbatim>\<open>src/api/board-intent-payloads.ts\<close> and the table \<open>board_intents\<close> of \<^verbatim>\<open>src/api/db/schema/board.ts\<close>. An
  approval is a token of which the row keeps the hash, or it is bound to the session that proposed it;
  consuming it is one conditional update.
\<close>

section \<open>Rows\<close>

datatype intent_action = ActCreate | ActClaim | ActClose | ActOverride | ActUpdate
datatype intent_status = BiPending | BiApproved | BiDenied | BiExpired | BiUsed
datatype worker_auth = BearerAuth | SessionTokenAuth

record board_intent =
  bi_id :: string
  bi_room :: string
  bi_task :: "string option"
  bi_action :: intent_action
  bi_payload :: json
  bi_hash :: string
  bi_status :: intent_status
  bi_label :: "string option"
  bi_key :: "string option"
  bi_instance :: "string option"
  bi_session :: "string option"
  bi_auth :: "worker_auth option"
  bi_decision_by :: "string option"
  bi_reason :: "string option"
  bi_token_hash :: "string option"
  bi_decided_at :: "int option"
  bi_expires_at :: "int option"
  bi_escalated_at :: "int option"
  bi_check_at :: "int option"
  bi_auto :: bool
  bi_created_at :: int
  bi_updated_at :: int

fun status_text :: "intent_status \<Rightarrow> string" where
  "status_text BiPending = ''pending''"
| "status_text BiApproved = ''approved''"
| "status_text BiDenied = ''denied''"
| "status_text BiExpired = ''expired''"
| "status_text BiUsed = ''used''"

text \<open>
  The platform: SHA-256 in hexadecimal, the text \<open>JSON.stringify\<close> gives for a scalar, and the order of
  \<open>localeCompare\<close>.
\<close>

record platform =
  pf_sha256 :: "string \<Rightarrow> string"
  pf_scalar :: "json \<Rightarrow> string"
  pf_le :: "string \<Rightarrow> string \<Rightarrow> bool"

definition hash_token :: "platform \<Rightarrow> string \<Rightarrow> string" where
  "hash_token pf token = pf_sha256 pf token"

section \<open>The hash of a payload\<close>

fun join_with :: "string \<Rightarrow> string list \<Rightarrow> string" where
  "join_with sep [] = []"
| "join_with sep [x] = x"
| "join_with sep (x # y # zs) = x @ sep @ join_with sep (y # zs)"

text \<open>\<open>Array.prototype.sort\<close> is stable, so it is an insertion sort.\<close>

fun insert_entry :: "(string \<Rightarrow> string \<Rightarrow> bool) \<Rightarrow> string \<times> 'a \<Rightarrow> (string \<times> 'a) list \<Rightarrow> (string \<times> 'a) list" where
  "insert_entry le e [] = [e]"
| "insert_entry le e (x # xs) = (if le (fst e) (fst x) then e # x # xs else x # insert_entry le e xs)"

definition sort_entries :: "(string \<Rightarrow> string \<Rightarrow> bool) \<Rightarrow> (string \<times> 'a) list \<Rightarrow> (string \<times> 'a) list" where
  "sort_entries le xs = foldr (insert_entry le) xs []"

fun stable_json :: "platform \<Rightarrow> json \<Rightarrow> string" where
  "stable_json pf (JArr xs) = ''['' @ join_with '','' (map (stable_json pf) xs) @ '']''"
| "stable_json pf (JObj kvs) =
     ''{'' @ join_with '','' (map (\<lambda>(k, text). pf_scalar pf (JStr k) @ '':'' @ text)
       (sort_entries (pf_le pf) (map (\<lambda>(k, v). (k, stable_json pf v)) kvs))) @ ''}''"
| "stable_json pf v = pf_scalar pf v"

definition hash_board_intent_payload :: "platform \<Rightarrow> json \<Rightarrow> string" where
  "hash_board_intent_payload pf payload = pf_sha256 pf (stable_json pf payload)"

text \<open>A nullable string as a document, and \<open>x?.trim() || null\<close>.\<close>

definition jnullable :: "string option \<Rightarrow> json" where
  "jnullable x = (case x of None \<Rightarrow> JNull | Some s \<Rightarrow> JStr s)"

definition trimmed_or_null :: "string option \<Rightarrow> string option" where
  "trimmed_or_null x = (case x of None \<Rightarrow> None | Some s \<Rightarrow> if js_trim s = [] then None else Some (js_trim s))"

definition payload_for_task_create :: "string \<Rightarrow> string option \<Rightarrow> string option \<Rightarrow> json" where
  "payload_for_task_create title description source =
     JObj [(''title'', JStr (js_trim title)), (''description'', jnullable (trimmed_or_null description)),
       (''source_message_id'', jnullable (trimmed_or_null source))]"

definition payload_for_task_mutation ::
  "string \<Rightarrow> string option \<Rightarrow> string option \<Rightarrow> string option \<Rightarrow> string option \<Rightarrow> json" where
  "payload_for_task_mutation task status assignee assignee_key pr_url =
     JObj [(''task_id'', JStr task), (''status'', jnullable status), (''assignee'', jnullable assignee),
       (''assignee_agent_key'', jnullable assignee_key), (''pr_url'', jnullable pr_url)]"

definition payload_for_lease_action ::
  "string \<Rightarrow> string \<Rightarrow> string option \<Rightarrow> string option \<Rightarrow> string option \<Rightarrow> json" where
  "payload_for_lease_action task action lease target_key target_session =
     JObj [(''task_id'', JStr task), (''action'', JStr action), (''lease_id'', jnullable lease),
       (''target_actor_key'', jnullable target_key), (''target_agent_session_id'', jnullable target_session)]"

section \<open>Creating and reading\<close>

definition board_intent_pending_ttl :: int where
  "board_intent_pending_ttl = 24 * 60 * 60 * 1000"

definition board_intent_approval_ttl :: int where
  "board_intent_approval_ttl = 30 * 60 * 1000"

definition not_expired :: "int \<Rightarrow> board_intent \<Rightarrow> bool" where
  "not_expired now r \<longleftrightarrow> (case bi_expires_at r of None \<Rightarrow> True | Some e \<Rightarrow> now < e)"

definition expiry_due :: "string option \<Rightarrow> int \<Rightarrow> board_intent \<Rightarrow> bool" where
  "expiry_due room now r \<longleftrightarrow>
     bi_status r \<in> {BiPending, BiApproved} \<and> \<not> not_expired now r \<and> (truthy room \<longrightarrow> Some (bi_room r) = room)"

definition expired_row :: "int \<Rightarrow> board_intent \<Rightarrow> board_intent" where
  "expired_row now r = r\<lparr>bi_status := BiExpired, bi_updated_at := now\<rparr>"

definition expire_board_intents ::
  "string option \<Rightarrow> int \<Rightarrow> board_intent list \<Rightarrow> nat \<times> board_intent list" where
  "expire_board_intents room now t =
     (length (filter (expiry_due room now) t), update_where (expiry_due room now) (expired_row now) t)"

record intent_input =
  ni_room :: string
  ni_action :: intent_action
  ni_payload :: json
  ni_task :: "string option"
  ni_label :: "string option"
  ni_key :: "string option"
  ni_instance :: "string option"
  ni_session :: "string option"
  ni_auth :: "worker_auth option"
  ni_expires_at :: "int option"

definition intent_row :: "platform \<Rightarrow> string \<Rightarrow> intent_input \<Rightarrow> int \<Rightarrow> board_intent" where
  "intent_row pf new_id inp now =
     \<lparr>bi_id = new_id, bi_room = ni_room inp, bi_task = ni_task inp, bi_action = ni_action inp,
      bi_payload = ni_payload inp, bi_hash = hash_board_intent_payload pf (ni_payload inp),
      bi_status = BiPending, bi_label = ni_label inp, bi_key = ni_key inp, bi_instance = ni_instance inp,
      bi_session = ni_session inp, bi_auth = ni_auth inp, bi_decision_by = None, bi_reason = None,
      bi_token_hash = None, bi_decided_at = None,
      bi_expires_at = Some (case ni_expires_at inp of None \<Rightarrow> now + board_intent_pending_ttl | Some e \<Rightarrow> e),
      bi_escalated_at = None, bi_check_at = Some (now + 10 * 60000), bi_auto = False,
      bi_created_at = now, bi_updated_at = now\<rparr>"

text \<open>The primary key, and one pending intent per room, action and payload.\<close>

definition intent_conflict :: "board_intent \<Rightarrow> board_intent \<Rightarrow> bool" where
  "intent_conflict a b \<longleftrightarrow>
     bi_id a = bi_id b \<or>
     (bi_status a = BiPending \<and> bi_status b = BiPending \<and> bi_room a = bi_room b \<and>
      bi_action a = bi_action b \<and> bi_hash a = bi_hash b)"

definition insert_intent :: "board_intent \<Rightarrow> board_intent list \<Rightarrow> board_intent list option" where
  "insert_intent r t = (if \<exists>x \<in> set t. intent_conflict r x then None else Some (t @ [r]))"

text \<open>
  \<open>createBoardIntent\<close>: the sweep, the insert that does nothing on a conflict, and after a conflict
  the read of the pending twin. \<open>None\<close> is the thrown error.
\<close>

definition create_board_intent ::
  "platform \<Rightarrow> string \<Rightarrow> intent_input \<Rightarrow> int \<Rightarrow> board_intent list \<Rightarrow> board_intent option \<times> board_intent list" where
  "create_board_intent pf new_id inp now t =
     (let swept = snd (expire_board_intents (Some (ni_room inp)) now t);
          row = intent_row pf new_id inp now
      in case insert_intent row swept of
           Some t' \<Rightarrow> (Some row, t')
         | None \<Rightarrow>
             (select_first (\<lambda>r. bi_room r = ni_room inp \<and> bi_action r = ni_action inp \<and>
                bi_hash r = bi_hash row \<and> bi_status r = BiPending) swept, swept))"

definition in_listing :: "string \<Rightarrow> string option \<Rightarrow> board_intent \<Rightarrow> bool" where
  "in_listing room status r \<longleftrightarrow>
     bi_room r = room \<and> (truthy status \<longrightarrow> Some (status_text (bi_status r)) = status)"

definition list_board_intents ::
  "string \<Rightarrow> string option \<Rightarrow> int option \<Rightarrow> int \<Rightarrow> board_intent list \<Rightarrow> board_intent list \<times> board_intent list" where
  "list_board_intents room status limit now t =
     (let swept = snd (expire_board_intents (Some room) now t);
          bound = min (max (case limit of None \<Rightarrow> 100 | Some n \<Rightarrow> n) 1) 500
      in (take (nat bound) (sort_key bi_created_at (filter (in_listing room status) swept)), swept))"

definition the_intent :: "string \<Rightarrow> string \<Rightarrow> board_intent \<Rightarrow> bool" where
  "the_intent room intent r \<longleftrightarrow> bi_room r = room \<and> bi_id r = intent"

definition get_board_intent :: "string \<Rightarrow> string \<Rightarrow> board_intent list \<Rightarrow> board_intent option" where
  "get_board_intent room intent t = select_first (the_intent room intent) t"

definition count_board_intents ::
  "string \<Rightarrow> string option \<Rightarrow> int \<Rightarrow> board_intent list \<Rightarrow> nat \<times> board_intent list" where
  "count_board_intents room status now t =
     (let swept = snd (expire_board_intents (Some room) now t)
      in (length (filter (in_listing room status) swept), swept))"

section \<open>Deciding\<close>

definition decidable :: "string \<Rightarrow> string \<Rightarrow> int \<Rightarrow> board_intent \<Rightarrow> bool" where
  "decidable room intent now r \<longleftrightarrow> the_intent room intent r \<and> bi_status r = BiPending \<and> not_expired now r"

definition approved_row ::
  "platform \<Rightarrow> string \<Rightarrow> string \<Rightarrow> string option \<Rightarrow> int \<Rightarrow> board_intent \<Rightarrow> board_intent" where
  "approved_row pf token decision_by reason now r =
     r\<lparr>bi_status := BiApproved, bi_decision_by := Some decision_by, bi_reason := reason,
       bi_token_hash := Some (hash_token pf token), bi_decided_at := Some now,
       bi_expires_at := Some (now + board_intent_approval_ttl), bi_updated_at := now\<rparr>"

text \<open>The random approval token is an argument.\<close>

definition approve_board_intent ::
  "platform \<Rightarrow> string \<Rightarrow> string \<Rightarrow> string \<Rightarrow> string \<Rightarrow> string option \<Rightarrow> int \<Rightarrow> board_intent list
   \<Rightarrow> (board_intent \<times> string) option \<times> board_intent list" where
  "approve_board_intent pf token room intent decision_by reason now t =
     (let swept = snd (expire_board_intents (Some room) now t);
          p = decidable room intent now;
          f = approved_row pf token decision_by reason now
      in (map_option (\<lambda>r. (r, token)) (returning_first p f swept), update_where p f swept))"

definition mark_board_intent_task_result ::
  "string \<Rightarrow> string \<Rightarrow> string \<Rightarrow> int \<Rightarrow> board_intent list \<Rightarrow> board_intent option \<times> board_intent list" where
  "mark_board_intent_task_result room intent task now t =
     (let p = the_intent room intent; f = (\<lambda>r. r\<lparr>bi_task := Some task, bi_updated_at := now\<rparr>)
      in (returning_first p f t, update_where p f t))"

definition denied_row :: "string \<Rightarrow> string option \<Rightarrow> int \<Rightarrow> board_intent \<Rightarrow> board_intent" where
  "denied_row decision_by reason now r =
     r\<lparr>bi_status := BiDenied, bi_decision_by := Some decision_by, bi_reason := reason,
       bi_decided_at := Some now, bi_updated_at := now\<rparr>"

definition deny_board_intent ::
  "string \<Rightarrow> string \<Rightarrow> string \<Rightarrow> string option \<Rightarrow> int \<Rightarrow> board_intent list
   \<Rightarrow> board_intent option \<times> board_intent list" where
  "deny_board_intent room intent decision_by reason now t =
     (let swept = snd (expire_board_intents (Some room) now t);
          p = decidable room intent now;
          f = denied_row decision_by reason now
      in (returning_first p f swept, update_where p f swept))"

section \<open>Verifying and consuming an approval\<close>

datatype intent_denial =
    IntentRequired | IntentNotFound | IntentExpired | IntentNotApproved | IntentActionMismatch
  | IntentPayloadMismatch | IntentTokenInvalid | IntentWorkerMismatch

record consumption =
  cn_room :: string
  cn_action :: intent_action
  cn_payload :: json
  cn_intent :: "string option"
  cn_token :: "string option"
  cn_worker :: "(string \<times> string) option"

text \<open>The trimmed identifier and token, where one is given, and whether a worker stands in for the token.\<close>

definition cn_intent_id :: "consumption \<Rightarrow> string option" where
  "cn_intent_id c = trimmed_or_null (cn_intent c)"

definition cn_token_text :: "consumption \<Rightarrow> string option" where
  "cn_token_text c = trimmed_or_null (cn_token c)"

definition worker_bound :: "consumption \<Rightarrow> bool" where
  "worker_bound c \<longleftrightarrow> (case cn_worker c of None \<Rightarrow> False | Some (s, k) \<Rightarrow> js_trim s \<noteq> [] \<and> js_trim k \<noteq> [])"

definition names_approval :: "consumption \<Rightarrow> string option" where
  "names_approval c = (if cn_token_text c = None \<and> \<not> worker_bound c then None else cn_intent_id c)"

definition proof_accepted :: "platform \<Rightarrow> consumption \<Rightarrow> board_intent \<Rightarrow> bool" where
  "proof_accepted pf c r \<longleftrightarrow>
     (case cn_token_text c of
        Some token \<Rightarrow> truthy (bi_token_hash r) \<and> bi_token_hash r = Some (hash_token pf token)
      | None \<Rightarrow> bi_session r = map_option fst (cn_worker c) \<and> bi_key r = map_option snd (cn_worker c))"

definition verify_board_intent_approval ::
  "platform \<Rightarrow> consumption \<Rightarrow> int \<Rightarrow> board_intent list \<Rightarrow> intent_denial + board_intent" where
  "verify_board_intent_approval pf c now t =
     bind_result (require (names_approval c) IntentRequired) (\<lambda>intent.
     bind_result (require (get_board_intent (cn_room c) intent t) IntentNotFound) (\<lambda>r.
     bind_result (guard_result (bi_status r \<noteq> BiExpired) IntentExpired) (\<lambda>_.
     bind_result (guard_result (bi_status r = BiApproved) IntentNotApproved) (\<lambda>_.
     bind_result (guard_result (bi_action r = cn_action c) IntentActionMismatch) (\<lambda>_.
     bind_result (guard_result (bi_hash r = hash_board_intent_payload pf (cn_payload c)) IntentPayloadMismatch) (\<lambda>_.
     bind_result (guard_result (not_expired now r) IntentExpired) (\<lambda>_.
     bind_result (guard_result (proof_accepted pf c r)
       (if cn_token_text c = None then IntentWorkerMismatch else IntentTokenInvalid)) (\<lambda>_.
     Inr r))))))))"

definition consumable :: "platform \<Rightarrow> consumption \<Rightarrow> string \<Rightarrow> int \<Rightarrow> board_intent \<Rightarrow> bool" where
  "consumable pf c intent now r \<longleftrightarrow>
     the_intent (cn_room c) intent r \<and> bi_status r = BiApproved \<and> bi_action r = cn_action c \<and>
     bi_hash r = hash_board_intent_payload pf (cn_payload c) \<and>
     (case cn_token_text c of
        Some token \<Rightarrow> bi_token_hash r = Some (hash_token pf token)
      | None \<Rightarrow> bi_session r = map_option fst (cn_worker c) \<and> bi_key r = map_option snd (cn_worker c)) \<and>
     not_expired now r"

definition used_row :: "int \<Rightarrow> board_intent \<Rightarrow> board_intent" where
  "used_row now r = r\<lparr>bi_status := BiUsed, bi_updated_at := now\<rparr>"

text \<open>
  \<open>consumeBoardIntentApproval\<close>: an update that finds the approval as it must be, or the reason why it
  did not, read with the later clock of \<open>verifyBoardIntentApproval\<close>.
\<close>

definition consume_board_intent_approval ::
  "platform \<Rightarrow> consumption \<Rightarrow> int \<Rightarrow> int \<Rightarrow> board_intent list
   \<Rightarrow> (intent_denial + board_intent) \<times> board_intent list" where
  "consume_board_intent_approval pf c now later t =
     (case names_approval c of
        None \<Rightarrow> (Inl IntentRequired, t)
      | Some intent \<Rightarrow>
          (case returning_first (consumable pf c intent now) (used_row now) t of
             Some r \<Rightarrow> (Inr r, update_where (consumable pf c intent now) (used_row now) t)
           | None \<Rightarrow> (verify_board_intent_approval pf c later t, t)))"

text \<open>\<open>assertConsumeBoardIntentApproval\<close>: the denial is thrown.\<close>

definition assert_consume_board_intent_approval ::
  "platform \<Rightarrow> consumption \<Rightarrow> int \<Rightarrow> int \<Rightarrow> board_intent list
   \<Rightarrow> intent_denial + board_intent \<times> board_intent list" where
  "assert_consume_board_intent_approval pf c now later t =
     (case consume_board_intent_approval pf c now later t of
        (Inl e, t') \<Rightarrow> Inl e
      | (Inr r, t') \<Rightarrow> Inr (r, t'))"

end
