(* ===== verification/BoardManagers.thy ===== *)
theory BoardManagers
  imports BoardIntents "HOL-Library.List_Lexorder" "HOL-Library.Char_ord"
begin

text \<open>
  Who decides board intents: the settings of a room and the assignment of its Board Manager
  (\<^verbatim>\<open>src/api/db/coordination/board-intent-manager.ts\<close>), the automatic failover of a manager that went
  offline (\<^verbatim>\<open>board-manager-failover.ts\<close>), and the escalation of intents that nobody decides
  (\<^verbatim>\<open>board-intent-escalation.ts\<close>). Sessions and host grants are the rows of \<open>LeaseStore\<close>; the columns of a
  session that only this part reads are given by a function of the session.
\<close>

section \<open>Rows\<close>

datatype manager_mode = ModeOff | ManagerOptional | IntentsRequired
datatype failover_mode = FailoverOff | FailoverAnnounce | FailoverAuto
datatype runtime_source = DesktopManaged | OpenModel | External | UnknownSource
datatype assignment_status = ActiveManager | ReleasedManager

record board_settings =
  st_room :: string
  st_mode :: manager_mode
  st_failover :: failover_mode
  st_nudged_at :: "int option"
  st_open_tasks :: int
  st_last_closed_at :: "int option"
  st_check_at :: "int option"
  st_updated_by :: "string option"
  st_created_at :: int
  st_updated_at :: int

record manager_assignment =
  ma_id :: string
  ma_room :: string
  ma_session :: string
  ma_agent_key :: string
  ma_label :: string
  ma_source :: runtime_source
  ma_assigned_by :: string
  ma_status :: assignment_status
  ma_heartbeat_at :: "int option"
  ma_check_at :: "int option"
  ma_released_by :: "string option"
  ma_reason :: "string option"
  ma_released_at :: "int option"
  ma_created_at :: int
  ma_updated_at :: int

record delivery_session =
  ds_room :: string
  ds_key :: string
  ds_session :: "string option"
  ds_worker :: bool
  ds_connections :: int
  ds_updated_at :: int
  ds_grace :: "int option"
  ds_disconnected_at :: "int option"

record session_signals =
  sg_runtime :: string
  sg_ide :: "string option"
  sg_liveness :: "string option"
  sg_bridge :: "string option"
  sg_last_seen :: int

section \<open>Modes\<close>

fun manager_mode_text :: "manager_mode \<Rightarrow> string" where
  "manager_mode_text ModeOff = ''off''"
| "manager_mode_text ManagerOptional = ''manager_optional''"
| "manager_mode_text IntentsRequired = ''intent_required''"

definition default_board_manager_mode :: manager_mode where
  "default_board_manager_mode = ManagerOptional"

definition normalize_board_manager_mode :: "string option \<Rightarrow> manager_mode" where
  "normalize_board_manager_mode value =
     (case map_option js_trim value of
        None \<Rightarrow> default_board_manager_mode
      | Some s \<Rightarrow>
          (case List.find (\<lambda>m. manager_mode_text m = s) [ModeOff, ManagerOptional, IntentsRequired] of
             None \<Rightarrow> default_board_manager_mode | Some m \<Rightarrow> m))"

fun runtime_source_text :: "runtime_source \<Rightarrow> string" where
  "runtime_source_text DesktopManaged = ''desktop_managed''"
| "runtime_source_text OpenModel = ''open_model''"
| "runtime_source_text External = ''external''"
| "runtime_source_text UnknownSource = ''unknown''"

definition normalize_board_manager_runtime_source :: "string option \<Rightarrow> runtime_source" where
  "normalize_board_manager_runtime_source value =
     (case map_option js_trim value of
        None \<Rightarrow> UnknownSource
      | Some s \<Rightarrow>
          (case List.find (\<lambda>m. runtime_source_text m = s) [DesktopManaged, OpenModel, External] of
             None \<Rightarrow> UnknownSource | Some m \<Rightarrow> m))"

fun failover_mode_text :: "failover_mode \<Rightarrow> string" where
  "failover_mode_text FailoverOff = ''off''"
| "failover_mode_text FailoverAnnounce = ''announce''"
| "failover_mode_text FailoverAuto = ''auto''"

definition normalize_board_manager_failover_mode :: "string option \<Rightarrow> failover_mode" where
  "normalize_board_manager_failover_mode value =
     (case map_option (js_lower \<circ> js_trim) value of
        None \<Rightarrow> FailoverAuto
      | Some s \<Rightarrow>
          (case List.find (\<lambda>m. failover_mode_text m = s) [FailoverOff, FailoverAnnounce, FailoverAuto] of
             None \<Rightarrow> FailoverAuto | Some m \<Rightarrow> m))"

section \<open>Settings\<close>

definition default_settings :: "string \<Rightarrow> int \<Rightarrow> board_settings" where
  "default_settings room now =
     \<lparr>st_room = room, st_mode = default_board_manager_mode, st_failover = FailoverAuto, st_nudged_at = None,
      st_open_tasks = 0, st_last_closed_at = None, st_check_at = None, st_updated_by = None,
      st_created_at = now, st_updated_at = now\<rparr>"

definition get_room_board_settings :: "string \<Rightarrow> int \<Rightarrow> board_settings list \<Rightarrow> board_settings" where
  "get_room_board_settings room now t =
     (case select_first (\<lambda>s. st_room s = room) t of None \<Rightarrow> default_settings room now | Some s \<Rightarrow> s)"

definition set_room_board_manager_mode ::
  "string \<Rightarrow> manager_mode \<Rightarrow> failover_mode option \<Rightarrow> string \<Rightarrow> int \<Rightarrow> board_settings list
   \<Rightarrow> board_settings option \<times> board_settings list" where
  "set_room_board_manager_mode room mode failover by now t =
     (let p = (\<lambda>s. st_room s = room);
          f = (\<lambda>s. s\<lparr>st_mode := mode, st_failover := (case failover of None \<Rightarrow> st_failover s | Some m \<Rightarrow> m),
                 st_updated_by := Some by, st_updated_at := now\<rparr>);
          row = (default_settings room now)\<lparr>st_mode := mode,
                 st_failover := (case failover of None \<Rightarrow> FailoverAuto | Some m \<Rightarrow> m), st_updated_by := Some by\<rparr>
      in if \<exists>s \<in> set t. p s then (returning_first p f t, update_where p f t) else (Some row, t @ [row]))"

section \<open>The Board Manager\<close>

definition live_worker :: "string \<Rightarrow> string \<Rightarrow> agent_session \<Rightarrow> bool" where
  "live_worker room session x \<longleftrightarrow>
     as_room x = room \<and> as_id x = session \<and> as_worker x \<and> as_ended_at x = None"

definition active_assignment :: "string \<Rightarrow> manager_assignment \<Rightarrow> bool" where
  "active_assignment room m \<longleftrightarrow> ma_room m = room \<and> ma_status m = ActiveManager"

text \<open>The active assignment whose session is a worker that has not ended.\<close>

definition managing :: "agent_session list \<Rightarrow> string \<Rightarrow> manager_assignment \<Rightarrow> bool" where
  "managing ss room m \<longleftrightarrow> active_assignment room m \<and> (\<exists>x \<in> set ss. live_worker room (ma_session m) x)"

definition get_active_board_manager ::
  "string \<Rightarrow> agent_session list \<Rightarrow> manager_assignment list \<Rightarrow> manager_assignment option" where
  "get_active_board_manager room ss t =
     (case sort_key ma_created_at (filter (managing ss room) t) of [] \<Rightarrow> None | m # _ \<Rightarrow> Some m)"

definition should_require_board_intent ::
  "string \<Rightarrow> int \<Rightarrow> board_settings list \<Rightarrow> agent_session list \<Rightarrow> manager_assignment list \<Rightarrow> bool" where
  "should_require_board_intent room now st ss t =
     (case st_mode (get_room_board_settings room now st) of
        ModeOff \<Rightarrow> False
      | IntentsRequired \<Rightarrow> True
      | ManagerOptional \<Rightarrow> get_active_board_manager room ss t \<noteq> None)"

definition infer_board_manager_runtime_source :: "session_signals \<Rightarrow> runtime_source" where
  "infer_board_manager_runtime_source g =
     (let present = filter (\<lambda>x. truthy x) [Some (sg_runtime g), sg_ide g, sg_liveness g, sg_bridge g];
          signal = js_lower (join_with '' '' (map the present))
      in if sublist ''open-model'' signal \<or> sublist ''open_model'' signal \<or> sublist ''open model'' signal \<or>
            sublist ''letagents_open_model'' signal
         then OpenModel else DesktopManaged)"

definition assignment_conflict :: "manager_assignment \<Rightarrow> manager_assignment \<Rightarrow> bool" where
  "assignment_conflict a b \<longleftrightarrow>
     ma_id a = ma_id b \<or>
     (ma_room a = ma_room b \<and> ma_status a = ActiveManager \<and> ma_status b = ActiveManager \<and>
      ma_released_at a = None \<and> ma_released_at b = None)"

definition insert_assignment ::
  "manager_assignment \<Rightarrow> manager_assignment list \<Rightarrow> manager_assignment list option" where
  "insert_assignment m t = (if \<exists>x \<in> set t. assignment_conflict m x then None else Some (t @ [m]))"

definition released_assignment ::
  "string \<Rightarrow> string \<Rightarrow> int \<Rightarrow> manager_assignment \<Rightarrow> manager_assignment" where
  "released_assignment by reason now m =
     m\<lparr>ma_status := ReleasedManager, ma_released_by := Some by, ma_reason := Some reason,
       ma_released_at := Some now, ma_updated_at := now\<rparr>"

definition assignment_row ::
  "string \<Rightarrow> string \<Rightarrow> agent_session \<Rightarrow> session_signals \<Rightarrow> runtime_source \<Rightarrow> string \<Rightarrow> int \<Rightarrow> manager_assignment" where
  "assignment_row new_id room x g source by now =
     \<lparr>ma_id = new_id, ma_room = room, ma_session = as_id x, ma_agent_key = as_agent_key x,
      ma_label = as_label x, ma_source = source, ma_assigned_by = by, ma_status = ActiveManager,
      ma_heartbeat_at = Some (sg_last_seen g), ma_check_at = None, ma_released_by = None, ma_reason = None,
      ma_released_at = None, ma_created_at = now, ma_updated_at = now\<rparr>"

text \<open>
  \<open>assignBoardManager\<close>: three statements outside a transaction. \<open>Inl\<close> is a violated unique index, after
  which the release stays; \<open>Inr None\<close> means that the session is not a live worker of the room.
\<close>

definition release_active :: "string \<Rightarrow> string \<Rightarrow> string \<Rightarrow> int \<Rightarrow> manager_assignment list \<Rightarrow> manager_assignment list" where
  "release_active room by reason now t =
     update_where (active_assignment room) (released_assignment by reason now) t"

definition assign_board_manager ::
  "string \<Rightarrow> string \<Rightarrow> string \<Rightarrow> string \<Rightarrow> runtime_source option \<Rightarrow> int \<Rightarrow> (agent_session \<Rightarrow> session_signals)
   \<Rightarrow> agent_session list \<Rightarrow> manager_assignment list
   \<Rightarrow> (unit + manager_assignment option) \<times> manager_assignment list" where
  "assign_board_manager new_id room session by source now signals ss t =
     (case select_first (live_worker room session) ss of
        None \<Rightarrow> (Inr None, t)
      | Some x \<Rightarrow>
          (let t1 = release_active room by ''Replaced by a new Board Manager assignment.'' now t;
               row = assignment_row new_id room x (signals x)
                 (case source of None \<Rightarrow> infer_board_manager_runtime_source (signals x) | Some s \<Rightarrow> s) by now
           in case insert_assignment row t1 of
                None \<Rightarrow> (Inl (), t1) | Some t2 \<Rightarrow> (Inr (Some row), t2)))"

definition release_board_manager ::
  "string \<Rightarrow> string \<Rightarrow> string option \<Rightarrow> int \<Rightarrow> manager_assignment list
   \<Rightarrow> manager_assignment option \<times> manager_assignment list" where
  "release_board_manager room by reason now t =
     (let f = released_assignment by (case reason of None \<Rightarrow> ''Board Manager released.'' | Some r \<Rightarrow> r) now
      in (returning_first (active_assignment room) f t, update_where (active_assignment room) f t))"

section \<open>Reachability\<close>

definition active_agent_delivery_window :: int where
  "active_agent_delivery_window = 90000"

definition is_delivery_reachable :: "delivery_session \<Rightarrow> int \<Rightarrow> bool" where
  "is_delivery_reachable d now \<longleftrightarrow>
     (0 < ds_connections d \<and> now - ds_updated_at d \<le> active_agent_delivery_window) \<or>
     (case ds_grace d of None \<Rightarrow> False | Some e \<Rightarrow> now \<le> e)"

definition agent_delivery_key :: "string \<Rightarrow> string" where
  "agent_delivery_key session = ''agent_session:'' @ session"

definition manager_reachable ::
  "string \<Rightarrow> manager_assignment \<Rightarrow> int \<Rightarrow> delivery_session list \<Rightarrow> bool" where
  "manager_reachable room m now ds =
     (case select_first (\<lambda>d. ds_room d = room \<and> ds_key d = agent_delivery_key (ma_session m)) ds of
        None \<Rightarrow> False | Some d \<Rightarrow> is_delivery_reachable d now)"

text \<open>\<open>getReachableWorkerDeliverySessionForAgentSession\<close>: the row of the worker that was updated last.\<close>

definition reachable_worker_delivery ::
  "string \<Rightarrow> string \<Rightarrow> int \<Rightarrow> delivery_session list \<Rightarrow> delivery_session option" where
  "reachable_worker_delivery room session now ds =
     (case sort_key (\<lambda>d. - ds_updated_at d)
             (filter (\<lambda>d. ds_room d = room \<and> ds_session d = Some session \<and> ds_worker d) ds) of
        [] \<Rightarrow> None
      | d # _ \<Rightarrow> if is_delivery_reachable d now then Some d else None)"

section \<open>Failover\<close>

definition supervised :: "host_grant list \<Rightarrow> agent_session \<Rightarrow> int \<Rightarrow> bool" where
  "supervised gs x now \<longleftrightarrow>
     (\<exists>g \<in> set gs. Some (hg_id g) = as_grant x \<and> hg_revoked_at g = None \<and> now < hg_expires_at g)"

text \<open>The condition on the dead manager in the release: its session ended, or an unsupervised session has a
  delivery row that is not reachable.\<close>

definition manager_unreachable ::
  "manager_assignment \<Rightarrow> int \<Rightarrow> host_grant list \<Rightarrow> agent_session list \<Rightarrow> delivery_session list \<Rightarrow> bool" where
  "manager_unreachable m now gs ss ds \<longleftrightarrow>
     (\<exists>x \<in> set ss. as_room x = ma_room m \<and> as_id x = ma_session m \<and> as_ended_at x \<noteq> None) \<or>
     (\<exists>d \<in> set ds. ds_room d = ma_room m \<and> ds_session d = Some (ma_session m) \<and> ds_worker d \<and>
        (\<exists>x \<in> set ss. Some (as_id x) = ds_session d \<and> \<not> supervised gs x now) \<and> \<not> is_delivery_reachable d now)"

definition release_board_manager_assignment ::
  "string \<Rightarrow> string \<Rightarrow> string \<Rightarrow> int option \<Rightarrow> bool \<Rightarrow> int \<Rightarrow> host_grant list \<Rightarrow> agent_session list
   \<Rightarrow> delivery_session list \<Rightarrow> manager_assignment list
   \<Rightarrow> manager_assignment option \<times> manager_assignment list" where
  "release_board_manager_assignment assignment by reason claimed strict now gs ss ds t =
     (let p = (\<lambda>m. ma_id m = assignment \<and> ma_status m = ActiveManager \<and>
                 (claimed \<noteq> None \<longrightarrow> ma_check_at m = claimed) \<and>
                 (strict \<longrightarrow> manager_unreachable m now gs ss ds));
          f = released_assignment by reason now
      in if strict \<and> claimed = None then (None, t) else (returning_first p f t, update_where p f t))"

text \<open>\<open>promoteBoardManagerTx\<close>; \<open>start\<close> is the start of the transaction, the database's \<open>now()\<close>.\<close>

definition promote_board_manager ::
  "string \<Rightarrow> string \<Rightarrow> string \<Rightarrow> string \<Rightarrow> bool \<Rightarrow> int \<Rightarrow> int \<Rightarrow> (agent_session \<Rightarrow> session_signals)
   \<Rightarrow> agent_session list \<Rightarrow> delivery_session list \<Rightarrow> manager_assignment list
   \<Rightarrow> unit + manager_assignment option \<times> manager_assignment list" where
  "promote_board_manager new_id room session by strict start now signals ss ds t =
     (case select_first (live_worker room session) ss of
        None \<Rightarrow> Inr (None, t)
      | Some x \<Rightarrow>
          if strict \<and> \<not> (\<exists>d \<in> set ds. ds_room d = room \<and> ds_session d = Some session \<and> ds_worker d \<and>
                          is_delivery_reachable d start)
          then Inr (None, t)
          else (let row = assignment_row new_id room x (signals x)
                       (infer_board_manager_runtime_source (signals x)) by now
                in case insert_assignment row t of None \<Rightarrow> Inl () | Some t' \<Rightarrow> Inr (Some row, t')))"

end
