(* ===== verification/SharedArtifacts.thy ===== *)
theory SharedArtifacts
  imports LeaseRebind Artifacts "HOL-Library.List_Lexorder" "HOL-Library.Char_ord"
begin

text \<open>
  The artifacts a room shares and their links to tasks: \<^verbatim>\<open>src/api/db/room-shared-artifacts.ts\<close> on the two
  tables of \<^verbatim>\<open>src/api/db/schema/artifacts.ts\<close>. A worker publishes under the fence of its work lease; a
  change of a task synchronises the links that carry the source of the synchronisation.
\<close>

section \<open>Rows\<close>

datatype artifact_source = TaskArtifact | GithubEvent | ManualSource

record shared_artifact =
  sa_room :: string
  sa_key :: string
  sa_provider :: provider
  sa_kind :: artifact_kind
  sa_artifact_id :: "string option"
  sa_number :: "int option"
  sa_title :: "string option"
  sa_url :: "string option"
  sa_ref :: "string option"
  sa_state :: "string option"
  sa_detail :: "change_summary option"
  sa_source :: artifact_source
  sa_first_seen :: int
  sa_updated_at :: int

record artifact_link =
  al_room :: string
  al_key :: string
  al_task :: string
  al_source :: artifact_source
  al_linked_at :: int
  al_updated_at :: int

record artifact_tables =
  at_artifacts :: "shared_artifact list"
  at_links :: "artifact_link list"

section \<open>Identity and merging\<close>

definition build_room_shared_artifact_identity_key :: "artifact \<Rightarrow> string" where
  "build_room_shared_artifact_identity_key a =
     (let lead = provider_name (ar_provider a) @ '':'' @ kind_name (ar_kind a)
      in if truthy (ar_url a) then lead @ '':url:'' @ the (ar_url a)
         else if truthy (ar_id a) then lead @ '':id:'' @ the (ar_id a)
         else case ar_number a of
             Some n \<Rightarrow> lead @ '':number:'' @ show_int n
           | None \<Rightarrow>
               if truthy (ar_ref a) then lead @ '':ref:'' @ the (ar_ref a)
               else if truthy (ar_title a) then lead @ '':title:'' @ the (ar_title a)
               else lead @ '':generic'')"

text \<open>\<open>first ?? second\<close>.\<close>

definition coalesce :: "'a option \<Rightarrow> 'a option \<Rightarrow> 'a option" where
  "coalesce x y = (case x of None \<Rightarrow> y | Some v \<Rightarrow> Some v)"

lemma coalesce_simps [simp]: "coalesce None y = y" "coalesce (Some v) y = Some v"
  by (simp_all add: coalesce_def)

definition preserve_manual ::
  "artifact \<Rightarrow> artifact_source \<Rightarrow> shared_artifact option \<Rightarrow> artifact \<times> artifact_source" where
  "preserve_manual a source existing =
     (case existing of
        None \<Rightarrow> (a, source)
      | Some e \<Rightarrow>
          (let preserve = sa_source e = ManualSource \<and> source \<noteq> ManualSource;
               next_text = (\<lambda>incoming current. if preserve then coalesce current incoming else coalesce incoming current)
           in (\<lparr>ar_provider = ar_provider a, ar_kind = ar_kind a,
                ar_id = next_text (ar_id a) (sa_artifact_id e),
                ar_number = (if preserve then coalesce (sa_number e) (ar_number a)
                             else coalesce (ar_number a) (sa_number e)),
                ar_title = next_text (ar_title a) (sa_title e), ar_url = next_text (ar_url a) (sa_url e),
                ar_ref = next_text (ar_ref a) (sa_ref e), ar_state = next_text (ar_state a) (sa_state e),
                ar_detail = None\<rparr>,
               if source = ManualSource \<or> sa_source e = ManualSource then sa_source e else source)))"

section \<open>Statements\<close>

definition the_artifact :: "string \<Rightarrow> string \<Rightarrow> shared_artifact \<Rightarrow> bool" where
  "the_artifact room key r \<longleftrightarrow> sa_room r = room \<and> sa_key r = key"

text \<open>The stored detail: cleared by the state clean or an explicit null, replaced by a given one, kept
  otherwise. \<open>null_detail\<close> says that the detail is an explicit null.\<close>

definition new_detail :: "artifact \<Rightarrow> bool \<Rightarrow> change_summary option \<Rightarrow> change_summary option" where
  "new_detail a null_detail stored =
     (if ar_state a = Some ''clean'' \<or> null_detail then None
      else case ar_detail a of Some d \<Rightarrow> Some d | None \<Rightarrow> stored)"

definition upsert_room_shared_artifact ::
  "string \<Rightarrow> artifact \<Rightarrow> bool \<Rightarrow> artifact_source \<Rightarrow> int \<Rightarrow> shared_artifact list
   \<Rightarrow> shared_artifact \<times> shared_artifact list" where
  "upsert_room_shared_artifact room a null_detail requested now t =
     (let key = build_room_shared_artifact_identity_key a;
          p = the_artifact room key;
          existing = select_first p t;
          (m, source) = preserve_manual a requested existing;
          write = (\<lambda>r. r\<lparr>sa_provider := ar_provider m, sa_kind := ar_kind m, sa_artifact_id := ar_id m,
                     sa_number := ar_number m, sa_title := ar_title m, sa_url := ar_url m, sa_ref := ar_ref m,
                     sa_state := ar_state m, sa_source := source, sa_updated_at := now,
                     sa_detail := new_detail a null_detail (sa_detail r)\<rparr>)
      in case existing of
           Some r \<Rightarrow> (write r, update_where p write t)
         | None \<Rightarrow>
             (let row = \<lparr>sa_room = room, sa_key = key, sa_provider = ar_provider m, sa_kind = ar_kind m,
                    sa_artifact_id = ar_id m, sa_number = ar_number m, sa_title = ar_title m, sa_url = ar_url m,
                    sa_ref = ar_ref m, sa_state = ar_state m, sa_detail = new_detail a null_detail None,
                    sa_source = source, sa_first_seen = now, sa_updated_at = now\<rparr>
              in (row, t @ [row])))"

definition the_link :: "string \<Rightarrow> string \<Rightarrow> string \<Rightarrow> artifact_link \<Rightarrow> bool" where
  "the_link room key task l \<longleftrightarrow> al_room l = room \<and> al_key l = key \<and> al_task l = task"

definition link_room_shared_artifact_to_task ::
  "string \<Rightarrow> string \<Rightarrow> string \<Rightarrow> artifact_source \<Rightarrow> int \<Rightarrow> artifact_link list \<Rightarrow> artifact_link list" where
  "link_room_shared_artifact_to_task room key task source now t =
     (let p = the_link room key task
      in if \<exists>l \<in> set t. p l then update_where p (\<lambda>l. l\<lparr>al_source := source, al_updated_at := now\<rparr>) t
         else t @ [\<lparr>al_room = room, al_key = key, al_task = task, al_source = source, al_linked_at = now,
                    al_updated_at = now\<rparr>])"

text \<open>Upsert and link, the two statements of a publication.\<close>

definition publish_and_link ::
  "string \<Rightarrow> string \<Rightarrow> artifact_source \<Rightarrow> int \<Rightarrow> bool \<Rightarrow> artifact \<Rightarrow> artifact_tables \<Rightarrow> shared_artifact \<times> artifact_tables" where
  "publish_and_link room task source now null_detail a t =
     (let (row, as) = upsert_room_shared_artifact room a null_detail source now (at_artifacts t)
      in (row, t\<lparr>at_artifacts := as,
                 at_links := link_room_shared_artifact_to_task room (sa_key row) task source now (at_links t)\<rparr>))"

text \<open>\<open>publishWorkerArtifactFenced\<close>: \<open>None\<close> is \<open>LeaseFenceStaleError\<close>.\<close>

definition publish_worker_artifact_fenced ::
  "lease_fence \<Rightarrow> string \<Rightarrow> artifact \<Rightarrow> bool \<Rightarrow> string \<Rightarrow> artifact_source \<Rightarrow> int \<Rightarrow> coord_db \<Rightarrow> artifact_tables
   \<Rightarrow> shared_artifact option \<times> artifact_tables" where
  "publish_worker_artifact_fenced f room a null_detail task source now db t =
     (if acquire_lease_fence f db = None then (None, t)
      else (let (row, t') = publish_and_link room task source now null_detail a t in (Some row, t')))"

fun sync_artifacts ::
  "string \<Rightarrow> string \<Rightarrow> artifact_source \<Rightarrow> int \<Rightarrow> artifact list \<Rightarrow> artifact_tables
   \<Rightarrow> shared_artifact list \<times> artifact_tables" where
  "sync_artifacts room task source now [] t = ([], t)"
| "sync_artifacts room task source now (a # as) t =
     (let (row, t1) = publish_and_link room task source now False a t;
          (rows, t2) = sync_artifacts room task source now as t1
      in (row # rows, t2))"

definition sync_room_shared_artifacts_for_task ::
  "string \<Rightarrow> string \<Rightarrow> artifact list \<Rightarrow> artifact_source \<Rightarrow> int \<Rightarrow> artifact_tables
   \<Rightarrow> shared_artifact list \<times> artifact_tables" where
  "sync_room_shared_artifacts_for_task room task as source now t =
     (let (rows, t1) = sync_artifacts room task source now as t;
          keys = map sa_key rows
      in (rows, t1\<lparr>at_links := filter (\<lambda>l. \<not> (al_room l = room \<and> al_task l = task \<and> al_source l = source \<and>
                         al_key l \<notin> set keys)) (at_links t1)\<rparr>))"

section \<open>Reading\<close>

definition linked_tasks :: "string \<Rightarrow> string \<Rightarrow> artifact_link list \<Rightarrow> string list" where
  "linked_tasks room key ls = sort (map al_task (filter (\<lambda>l. al_room l = room \<and> al_key l = key) ls))"

definition get_room_shared_artifact_by_identity_key ::
  "string \<Rightarrow> string \<Rightarrow> artifact_tables \<Rightarrow> (shared_artifact \<times> string list) option" where
  "get_room_shared_artifact_by_identity_key room key t =
     map_option (\<lambda>r. (r, linked_tasks room key (at_links t))) (select_first (the_artifact room key) (at_artifacts t))"

definition get_room_shared_artifacts ::
  "string \<Rightarrow> string option \<Rightarrow> int option \<Rightarrow> artifact_tables \<Rightarrow> (shared_artifact \<times> string list) list" where
  "get_room_shared_artifacts room task limit t =
     (let bound = max 1 (min (case limit of None \<Rightarrow> 100 | Some n \<Rightarrow> n) 250);
          hit = (\<lambda>r. sa_room r = room \<and>
                  (truthy task \<longrightarrow> (\<exists>l \<in> set (at_links t). the_link room (sa_key r) (the task) l)));
          rows = take (nat bound) (sort_key (\<lambda>r. kind_name (sa_kind r)) (sort_key sa_key (filter hit (at_artifacts t))))
      in map (\<lambda>r. (r, linked_tasks room (sa_key r) (at_links t)))
           (filter (\<lambda>r. truthy task \<longrightarrow> linked_tasks room (sa_key r) (at_links t) \<noteq> []) rows))"

end
