(* ===== verification/TaskRecords.thy ===== *)
theory TaskRecords
  imports BoardManagers SharedArtifacts
begin

text \<open>
  The tasks of a room: \<^verbatim>\<open>src/api/db/tasks.ts\<close>, \<^verbatim>\<open>task-assignment.ts\<close> and the scoped identifiers of
  \<^verbatim>\<open>src/api/db/utils.ts\<close>, on the rows of \<^verbatim>\<open>src/api/db/schema/tasks.ts\<close>. \<open>updateTask\<close> reads the task before
  it writes: the reading part and the writing part are two functions here, and the second one takes the row
  that the first one has seen.
\<close>

section \<open>Rows\<close>

datatype task_status =
    Proposed | Accepted | Assigned | InProgress | Blocked | InReview | Merged | TaskDone | Cancelled

record task_row =
  tr_room :: string
  tr_number :: int
  tr_title :: string
  tr_description :: "string option"
  tr_status :: task_status
  tr_assignee :: "string option"
  tr_assignee_key :: "string option"
  tr_created_by :: string
  tr_source_message :: "string option"
  tr_client_id :: "string option"
  tr_pr_url :: "string option"
  tr_artifacts :: "artifact list"
  tr_created_at :: int
  tr_updated_at :: int

text \<open>The tables a task transaction reads and writes.\<close>

record task_db =
  td_coord :: coord_db
  td_intents :: "board_intent list"
  td_tasks :: "task_row list"
  td_sequences :: "(string \<times> int) list"
  td_artifacts :: artifact_tables

fun task_status_text :: "task_status \<Rightarrow> string" where
  "task_status_text Proposed = ''proposed''"
| "task_status_text Accepted = ''accepted''"
| "task_status_text Assigned = ''assigned''"
| "task_status_text InProgress = ''in_progress''"
| "task_status_text Blocked = ''blocked''"
| "task_status_text InReview = ''in_review''"
| "task_status_text Merged = ''merged''"
| "task_status_text TaskDone = ''done''"
| "task_status_text Cancelled = ''cancelled''"

fun valid_transitions :: "task_status \<Rightarrow> task_status list" where
  "valid_transitions Proposed = [Accepted, Cancelled]"
| "valid_transitions Accepted = [Assigned, Cancelled]"
| "valid_transitions Assigned = [InProgress, InReview, Cancelled]"
| "valid_transitions InProgress = [Blocked, InReview, TaskDone, Cancelled]"
| "valid_transitions Blocked = [InProgress, InReview, Cancelled]"
| "valid_transitions InReview = [Merged, InProgress, Blocked, TaskDone, Cancelled]"
| "valid_transitions Merged = [TaskDone, Accepted]"
| "valid_transitions TaskDone = [Accepted]"
| "valid_transitions Cancelled = [Accepted]"

definition is_valid_task_transition :: "task_status \<Rightarrow> task_status \<Rightarrow> bool" where
  "is_valid_task_transition a b \<longleftrightarrow> b \<in> set (valid_transitions a)"

section \<open>Identifiers\<close>

definition format_task_id :: "int \<Rightarrow> string" where
  "format_task_id n = ''task_'' @ show_int n"

definition postgres_integer_max :: int where
  "postgres_integer_max = 2147483647"

definition parse_scoped_id :: "string \<Rightarrow> string \<Rightarrow> int option" where
  "parse_scoped_id value lead =
     (let marker = lead @ ''_''; decimal = drop (length marker) value
      in if take (length marker) value \<noteq> marker then None
         else case decimal of
             [] \<Rightarrow> None
           | c # _ \<Rightarrow>
               if c = CHR ''0'' \<or> \<not> list_all is_digit decimal then None
               else if int (read_nat decimal) \<le> postgres_integer_max then Some (int (read_nat decimal)) else None)"

definition parse_task_id :: "string \<Rightarrow> int option" where
  "parse_task_id task = parse_scoped_id task ''task''"

definition clamp_limit :: "int option \<Rightarrow> nat" where
  "clamp_limit requested =
     (case requested of None \<Rightarrow> 200 | Some n \<Rightarrow> if n \<le> 0 then 200 else nat (min n 500))"

text \<open>\<open>nextRoomScopedNumber\<close>: insert 1 or add 1, returning the new value.\<close>

definition next_room_scoped_number ::
  "string \<Rightarrow> string \<Rightarrow> (string \<times> int) list \<Rightarrow> int \<times> (string \<times> int) list" where
  "next_room_scoped_number sequence room t =
     (let key = sequence @ '':'' @ room
      in case map_of t key of
           None \<Rightarrow> (1, t @ [(key, 1)])
         | Some v \<Rightarrow> (v + 1, update_where (\<lambda>e. fst e = key) (\<lambda>e. (key, snd e + 1)) t))"

section \<open>Assignment\<close>

text \<open>Own properties of the patch: an absent field is \<open>None\<close>, a present one carries a nullable value.\<close>

record task_patch =
  tp_status :: "task_status option"
  tp_assignee :: "string option option"
  tp_assignee_key :: "string option option"

definition resolve_task_assignment_state ::
  "task_row \<Rightarrow> task_patch \<Rightarrow> task_status \<times> string option \<times> string option" where
  "resolve_task_assignment_state r p =
     (case tp_status p of None \<Rightarrow> tr_status r | Some s \<Rightarrow> s,
      case tp_assignee p of None \<Rightarrow> tr_assignee r | Some a \<Rightarrow> a,
      case tp_assignee p of
        Some _ \<Rightarrow> (case tp_assignee_key p of None \<Rightarrow> None | Some k \<Rightarrow> k)
      | None \<Rightarrow> (case tp_assignee_key p of None \<Rightarrow> tr_assignee_key r | Some k \<Rightarrow> k))"

section \<open>Creating a task\<close>

datatype task_error =
    LeaseFenceStale | InvalidTransition | TaskContentConflict | ApprovalDenied intent_denial
  | UniqueIndex | InvalidIntentPayload

definition task_conflict :: "task_row \<Rightarrow> task_row \<Rightarrow> bool" where
  "task_conflict a b \<longleftrightarrow>
     tr_room a = tr_room b \<and>
     (tr_number a = tr_number b \<or>
      (tr_source_message a \<noteq> None \<and> tr_source_message a = tr_source_message b \<and>
       tr_client_id a = None \<and> tr_client_id b = None) \<or>
      (tr_client_id a \<noteq> None \<and> tr_client_id a = tr_client_id b))"

definition insert_task :: "task_row \<Rightarrow> task_row list \<Rightarrow> task_row list option" where
  "insert_task r t = (if \<exists>x \<in> set t. task_conflict r x then None else Some (t @ [r]))"

record task_input =
  ti_title :: string
  ti_created_by :: string
  ti_description :: "string option"
  ti_source_message :: "string option"
  ti_approval :: "consumption option"
  ti_client_id :: "string option"

definition task_client_id :: "task_input \<Rightarrow> string option" where
  "task_client_id inp =
     (case ti_client_id inp of
        Some c \<Rightarrow> Some c
      | None \<Rightarrow> (case ti_approval inp of
          None \<Rightarrow> None
        | Some c \<Rightarrow> if truthy (cn_intent c) then Some (''board-intent:'' @ the (cn_intent c)) else None))"

definition new_task_row :: "string \<Rightarrow> task_input \<Rightarrow> int \<Rightarrow> int \<Rightarrow> task_row" where
  "new_task_row room inp number now =
     \<lparr>tr_room = room, tr_number = number, tr_title = ti_title inp, tr_description = ti_description inp,
      tr_status = Proposed, tr_assignee = None, tr_assignee_key = None, tr_created_by = ti_created_by inp,
      tr_source_message = ti_source_message inp, tr_client_id = task_client_id inp, tr_pr_url = None,
      tr_artifacts = [], tr_created_at = now, tr_updated_at = now\<rparr>"

text \<open>Consuming an approval, if one is given, inside a task transaction.\<close>

definition consume_in :: "platform \<Rightarrow> consumption option \<Rightarrow> int \<Rightarrow> int \<Rightarrow> task_db \<Rightarrow> task_error + task_db" where
  "consume_in pf approval now later db =
     (case approval of
        None \<Rightarrow> Inr db
      | Some c \<Rightarrow>
          (case assert_consume_board_intent_approval pf c now later (td_intents db) of
             Inl e \<Rightarrow> Inl (ApprovalDenied e)
           | Inr (r, t) \<Rightarrow> Inr (db\<lparr>td_intents := t\<rparr>)))"

text \<open>
  The statements of \<open>insertTaskRow\<close>. The consumption and the number are written before the insert may fail;
  the error carries the database with what was written, which \<open>createTask\<close> keeps outside a transaction.
\<close>

definition insert_task_row ::
  "platform \<Rightarrow> string \<Rightarrow> task_input \<Rightarrow> int \<Rightarrow> int \<Rightarrow> task_db \<Rightarrow> (task_error \<times> task_db) + (task_row \<times> task_db)" where
  "insert_task_row pf room inp now later db =
     (case consume_in pf (ti_approval inp) now later db of
        Inl e \<Rightarrow> Inl (e, db)
      | Inr db1 \<Rightarrow>
          (let (number, seqs) = next_room_scoped_number ''tasks'' room (td_sequences db1);
               db2 = db1\<lparr>td_sequences := seqs\<rparr>;
               row = new_task_row room inp number now
           in case insert_task row (td_tasks db2) of
                None \<Rightarrow> Inl (UniqueIndex, db2)
              | Some ts \<Rightarrow>
                  (let db3 = db2\<lparr>td_tasks := ts\<rparr>
                   in Inr (row,
                        case ti_approval inp of
                          None \<Rightarrow> db3
                        | Some c \<Rightarrow>
                            if cn_action c = ActCreate \<and> truthy (cn_intent c)
                            then db3\<lparr>td_intents := snd (mark_board_intent_task_result room (the (cn_intent c))
                                      (format_task_id number) later (td_intents db3))\<rparr>
                            else db3))))"

definition create_task ::
  "platform \<Rightarrow> string \<Rightarrow> task_input \<Rightarrow> int \<Rightarrow> int \<Rightarrow> task_db \<Rightarrow> (task_error + task_row) \<times> task_db" where
  "create_task pf room inp now later db =
     (case insert_task_row pf room inp now later db of
        Inr (row, db') \<Rightarrow> (Inr row, db')
      | Inl (e, db') \<Rightarrow> (Inl e, if ti_approval inp = None then db' else db))"

section \<open>Reading\<close>

definition the_task :: "string \<Rightarrow> int \<Rightarrow> task_row \<Rightarrow> bool" where
  "the_task room number r \<longleftrightarrow> tr_room r = room \<and> tr_number r = number"

definition get_task_row_by_id :: "string \<Rightarrow> string \<Rightarrow> task_row list \<Rightarrow> task_row option" where
  "get_task_row_by_id room task t =
     (case parse_task_id task of None \<Rightarrow> None | Some n \<Rightarrow> select_first (the_task room n) t)"

definition get_task_ownership_state ::
  "string \<Rightarrow> string \<Rightarrow> task_row list \<Rightarrow> (task_status \<times> string option \<times> string option) option" where
  "get_task_ownership_state room task t =
     map_option (\<lambda>r. (tr_status r, tr_assignee r, tr_assignee_key r)) (get_task_row_by_id room task t)"

definition get_tasks_for_rooms :: "string list \<Rightarrow> task_row list \<Rightarrow> task_row list" where
  "get_tasks_for_rooms rooms t =
     sort_key (\<lambda>r. - tr_updated_at r) (sort_key tr_number (filter (\<lambda>r. tr_room r \<in> set rooms) t))"

definition after_number :: "string option \<Rightarrow> task_row \<Rightarrow> bool" where
  "after_number after r \<longleftrightarrow>
     (case (if truthy after then parse_task_id (the after) else None) of None \<Rightarrow> True | Some n \<Rightarrow> n < tr_number r)"

text \<open>A page and whether there is more, from a query that asks for one row more than the limit.\<close>

definition page :: "nat \<Rightarrow> task_row list \<Rightarrow> task_row list \<times> bool" where
  "page limit rows = (take limit (take (limit + 1) rows), limit < length (take (limit + 1) rows))"

definition get_tasks ::
  "string \<Rightarrow> string option \<Rightarrow> int option \<Rightarrow> string option \<Rightarrow> bool \<Rightarrow> task_row list \<Rightarrow> task_row list \<times> bool" where
  "get_tasks room status limit after recent t =
     (let hit = (\<lambda>r. tr_room r = room \<and> (truthy status \<longrightarrow> Some (task_status_text (tr_status r)) = status) \<and>
                     after_number after r);
          rows = filter hit t
      in page (clamp_limit limit)
           (if recent then sort_key (\<lambda>r. - tr_updated_at r) (sort_key (\<lambda>r. - tr_number r) rows)
            else sort_key tr_number rows))"

definition get_open_tasks ::
  "string \<Rightarrow> int option \<Rightarrow> string option \<Rightarrow> task_row list \<Rightarrow> task_row list \<times> bool" where
  "get_open_tasks room limit after t =
     page (clamp_limit limit)
       (sort_key tr_number (filter (\<lambda>r. tr_room r = room \<and> tr_status r \<notin> {TaskDone, Cancelled} \<and>
          after_number after r) t))"

definition first_by_number :: "(task_row \<Rightarrow> bool) \<Rightarrow> task_row list \<Rightarrow> task_row option" where
  "first_by_number p t = (case sort_key tr_number (filter p t) of [] \<Rightarrow> None | r # _ \<Rightarrow> Some r)"

definition find_task_by_pr_url :: "string \<Rightarrow> string \<Rightarrow> task_row list \<Rightarrow> task_row option" where
  "find_task_by_pr_url room url t = first_by_number (\<lambda>r. tr_room r = room \<and> tr_pr_url r = Some url) t"

definition find_task_by_client_id :: "string \<Rightarrow> string \<Rightarrow> task_row list \<Rightarrow> task_row option" where
  "find_task_by_client_id room client t = select_first (\<lambda>r. tr_room r = room \<and> tr_client_id r = Some client) t"

definition find_task_by_source_message_id ::
  "string \<Rightarrow> string \<Rightarrow> bool \<Rightarrow> task_row list \<Rightarrow> task_row option" where
  "find_task_by_source_message_id room source legacy t =
     (if js_trim source = [] then None
      else first_by_number (\<lambda>r. tr_room r = room \<and> tr_source_message r = Some (js_trim source) \<and>
        (legacy \<longrightarrow> tr_client_id r = None)) t)"

definition has_match_identifier :: "artifact_match \<Rightarrow> bool" where
  "has_match_identifier m \<longleftrightarrow>
     truthy (am_url m) \<or> truthy (am_id m) \<or> truthy (am_ref m) \<or> truthy (am_title m) \<or> am_number m \<noteq> None"

text \<open>The containment \<open>@>\<close> of the document that \<open>toTaskWorkflowArtifactMatchJson\<close> builds.\<close>

definition artifact_contained :: "artifact_match \<Rightarrow> artifact \<Rightarrow> bool" where
  "artifact_contained m a \<longleftrightarrow>
     ar_provider a = am_provider m \<and> ar_kind a = am_kind m \<and>
     (truthy (am_id m) \<longrightarrow> ar_id a = am_id m) \<and> (am_number m \<noteq> None \<longrightarrow> ar_number a = am_number m) \<and>
     (truthy (am_title m) \<longrightarrow> ar_title a = am_title m) \<and> (truthy (am_url m) \<longrightarrow> ar_url a = am_url m) \<and>
     (truthy (am_ref m) \<longrightarrow> ar_ref a = am_ref m)"

fun find_task_by_workflow_artifact_matches ::
  "string \<Rightarrow> artifact_match list \<Rightarrow> task_row list \<Rightarrow> task_row option" where
  "find_task_by_workflow_artifact_matches room [] t = None"
| "find_task_by_workflow_artifact_matches room (m # ms) t =
     (case (if has_match_identifier m
            then first_by_number (\<lambda>r. tr_room r = room \<and> (\<exists>a \<in> set (tr_artifacts r). artifact_contained m a)) t
            else None) of
        Some r \<Rightarrow> Some r
      | None \<Rightarrow> find_task_by_workflow_artifact_matches room ms t)"

section \<open>Identifiers are canonical\<close>

lemma show_nat_digits: "list_all is_digit (show_nat n) \<and> show_nat n \<noteq> []"
proof (induction n rule: show_nat.induct)
  case (1 n)
  then show ?case by (subst (1 2) show_nat.simps) (simp add: is_digit_digit_char)
qed

lemma digit_char_0: "digit_char 0 = CHR ''0''"
  by code_simp

lemma show_nat_hd: "0 < n \<Longrightarrow> hd (show_nat n) \<noteq> CHR ''0''"
proof (induction n rule: show_nat.induct)
  case (1 n)
  show ?case
  proof (cases "n < 10")
    case True
    then have "of_char (digit_char n) \<noteq> (of_char CHR ''0'' :: nat)" using 1(2) of_digit_char [OF True] by simp
    then have "digit_char n \<noteq> CHR ''0''" by metis
    with True show ?thesis by (subst show_nat.simps) simp
  next
    case False
    then have "hd (show_nat (n div 10)) \<noteq> CHR ''0''" using 1(1) by simp
    with False show ?thesis using show_nat_digits [of "n div 10"] by (subst show_nat.simps) simp
  qed
qed

lemma digit_char_of: "is_digit c \<Longrightarrow> digit_char (of_char c - 48) = c"
  by (auto simp: is_digit_def digit_char_def Let_def)

lemma read_nat_snoc: "read_nat (s @ [c]) = 10 * read_nat s + (of_char c - 48)"
  by (simp add: read_nat_def)

lemma show_read_nat:
  "list_all is_digit s \<Longrightarrow> s \<noteq> [] \<Longrightarrow> hd s \<noteq> CHR ''0'' \<Longrightarrow> show_nat (read_nat s) = s \<and> 0 < read_nat s"
proof (induction s rule: rev_induct)
  case (snoc c s)
  then have c: "is_digit c" by simp
  then have d: "of_char c - 48 < (10::nat)" by (auto simp: is_digit_def Let_def)
  show ?case
  proof (cases "s = []")
    case True
    with snoc.prems have "c \<noteq> CHR ''0''" by simp
    moreover have "c = CHR ''0''" if "of_char c = (48::nat)"
    proof -
      from digit_char_of [OF c] that digit_char_0 show ?thesis by simp
    qed
    ultimately have "of_char c \<noteq> (48 :: nat)" by blast
    then have "0 < (of_char c - 48 :: nat)" using c by (auto simp: is_digit_def Let_def)
    with True c d show ?thesis by (subst show_nat.simps) (simp add: read_nat_def digit_char_of)
  next
    case False
    with snoc have "show_nat (read_nat s) = s" "0 < read_nat s" by auto
    with c d show ?thesis
      by (subst show_nat.simps) (simp add: read_nat_snoc digit_char_of)
  qed
qed simp

lemma parse_format_task_id:
  "parse_task_id (format_task_id n) = (if 0 < n \<and> n \<le> postgres_integer_max then Some n else None)"
proof (cases "0 < n")
  case True
  then have s: "show_int n = show_nat (nat n)" by (simp add: show_int_def)
  have d: "list_all is_digit (show_nat (nat n))" "show_nat (nat n) \<noteq> []" "hd (show_nat (nat n)) \<noteq> CHR ''0''"
    using show_nat_digits show_nat_hd [of "nat n"] True by auto
  then obtain c cs where "show_nat (nat n) = c # cs" "c \<noteq> CHR ''0''" by (cases "show_nat (nat n)") auto
  moreover have "read_nat (c # cs) = nat n" using calculation(1) read_show_nat [of "nat n"] by simp
  ultimately show ?thesis
    using True d(1) by (simp add: parse_task_id_def parse_scoped_id_def format_task_id_def s Let_def)
next
  case False
  then have "n = 0 \<or> n < 0" by auto
  then show ?thesis
  proof
    assume "n = 0"
    then have "show_int n = [CHR ''0'']" by (simp add: show_int_def show_nat.simps digit_char_0)
    with False show ?thesis by (simp add: parse_task_id_def parse_scoped_id_def format_task_id_def Let_def)
  next
    assume "n < 0"
    then have "show_int n = CHR ''-'' # show_nat (nat (- n))" by (simp add: show_int_def)
    moreover have "\<not> is_digit CHR ''-''" by (simp add: is_digit_def)
    ultimately show ?thesis using False by (simp add: parse_task_id_def parse_scoped_id_def format_task_id_def Let_def)
  qed
qed

lemma parse_task_id_Some:
  assumes "parse_task_id s = Some n"
  shows "s = format_task_id n" "0 < n" "n \<le> postgres_integer_max"
proof -
  let ?d = "drop 5 s"
  from assms have t: "take 5 s = ''task_''" "?d \<noteq> []" "hd ?d \<noteq> CHR ''0''" "list_all is_digit ?d"
    "n = int (read_nat ?d)" "n \<le> postgres_integer_max"
    by (auto simp: parse_task_id_def parse_scoped_id_def Let_def eval_nat_numeral split: if_splits list.splits)
  from show_read_nat [OF t(4,2,3)] have r: "show_nat (read_nat ?d) = ?d" "0 < read_nat ?d" by auto
  then show "0 < n" "n \<le> postgres_integer_max" using t by auto
  have "s = take 5 s @ ?d" by simp
  also have "\<dots> = format_task_id n" using t(1,5) r by (simp add: format_task_id_def show_int_def)
  finally show "s = format_task_id n" .
qed

end
