(* ===== verification/TaskUpdates.thy ===== *)
theory TaskUpdates
  imports TaskRecords
begin

text \<open>
  Changes of a task: accepting and approving it, \<open>updateTask\<close> with the lease fence, the approval and the
  claim it may carry (\<^verbatim>\<open>src/api/db/tasks.ts\<close>), and releasing or handing over its work lease
  (\<^verbatim>\<open>src/api/db/coordination/work-lease-actions.ts\<close>). Returned rows are the stored ones; the views that
  \<open>toTask\<close> derives from them are those of \<open>Artifacts\<close>.
\<close>

section \<open>Approving a proposed task\<close>

definition accept_proposed_task ::
  "string \<Rightarrow> string \<Rightarrow> int \<Rightarrow> task_row list \<Rightarrow> bool \<times> task_row list" where
  "accept_proposed_task room task now t =
     (case parse_task_id task of
        None \<Rightarrow> (False, t)
      | Some n \<Rightarrow>
          (let p = (\<lambda>r. the_task room n r \<and> tr_status r = Proposed)
           in (\<exists>r \<in> set t. p r, update_where p (\<lambda>r. r\<lparr>tr_status := Accepted, tr_updated_at := now\<rparr>) t)))"

fun optional_payload_string :: "json \<Rightarrow> string \<Rightarrow> string option" where
  "optional_payload_string (JObj kvs) key =
     (case jget key kvs of Some (JStr s) \<Rightarrow> trimmed_or_null (Some s) | _ \<Rightarrow> None)"
| "optional_payload_string _ key = None"

definition normalize_task_create_board_intent_payload ::
  "json \<Rightarrow> (string \<times> string option \<times> string option) option" where
  "normalize_task_create_board_intent_payload payload =
     map_option (\<lambda>title. (title, optional_payload_string payload ''description'',
       optional_payload_string payload ''source_message_id'')) (optional_payload_string payload ''title'')"

text \<open>\<open>approveTaskCreateBoardIntent\<close>, one transaction: \<open>Inr None\<close> is the null result.\<close>

definition approve_task_create_board_intent ::
  "platform \<Rightarrow> string \<Rightarrow> string \<Rightarrow> string \<Rightarrow> string \<Rightarrow> string option \<Rightarrow> int \<Rightarrow> task_db
   \<Rightarrow> task_error + (board_intent \<times> string \<times> task_row) option \<times> task_db" where
  "approve_task_create_board_intent pf token room intent decision_by reason now db =
     (case get_board_intent room intent (td_intents db) of
        None \<Rightarrow> Inr (None, db)
      | Some existing \<Rightarrow>
          if bi_action existing \<noteq> ActCreate then Inr (None, db)
          else (case approve_board_intent pf token room intent decision_by reason now (td_intents db) of
              (None, t) \<Rightarrow> Inr (None, db\<lparr>td_intents := t\<rparr>)
            | (Some (approved, tok), t) \<Rightarrow>
                bind_result (require (normalize_task_create_board_intent_payload (bi_payload approved))
                  InvalidIntentPayload) (\<lambda>(title, description, source).
                case insert_task_row pf room
                       \<lparr>ti_title = title,
                        ti_created_by = (case bi_label approved of None \<Rightarrow> decision_by | Some l \<Rightarrow> l),
                        ti_description = description, ti_source_message = source,
                        ti_approval = Some \<lparr>cn_room = room, cn_action = ActCreate, cn_payload = bi_payload approved,
                          cn_intent = Some (bi_id approved), cn_token = Some tok, cn_worker = None\<rparr>,
                        ti_client_id = None\<rparr> now now (db\<lparr>td_intents := t\<rparr>) of
                  Inl (e, _) \<Rightarrow> Inl e
                | Inr (row, db') \<Rightarrow>
                    Inr (Some (case get_board_intent room (bi_id approved) (td_intents db') of
                           Some i \<Rightarrow> i
                         | None \<Rightarrow> approved\<lparr>bi_status := BiUsed, bi_task := Some (format_task_id (tr_number row))\<rparr>,
                         tok, row), db'))))"

section \<open>Updating a task\<close>

record task_update =
  up_title :: "string option"
  up_description :: "string option"
  up_expected :: "(string option \<times> string option) option"
  up_status :: "task_status option"
  up_assignee :: "string option option"
  up_assignee_key :: "string option option"
  up_pr_url :: "string option"
  up_artifacts :: "artifact list option"

record update_options =
  uo_approval :: "consumption option"
  uo_lease :: "lease_input option"
  uo_fence :: "lease_fence option"

definition update_patch :: "task_update \<Rightarrow> task_patch" where
  "update_patch u = \<lparr>tp_status = up_status u, tp_assignee = up_assignee u, tp_assignee_key = up_assignee_key u\<rparr>"

definition field_kept :: "'a option \<Rightarrow> 'a \<Rightarrow> bool" where
  "field_kept new current \<longleftrightarrow> (case new of None \<Rightarrow> True | Some v \<Rightarrow> v = current)"

definition progress_retry_eligible :: "string \<Rightarrow> string \<Rightarrow> update_options \<Rightarrow> bool" where
  "progress_retry_eligible room task uo \<longleftrightarrow>
     (case uo_fence uo of
        None \<Rightarrow> False
      | Some f \<Rightarrow> lf_kind f = Work \<and> lf_room f = room \<and> lf_task f = task) \<and>
     uo_approval uo = None \<and> uo_lease uo = None"

type_synonym url_parser = "string \<Rightarrow> (string \<times> string) option"

definition is_exact_progress_retry ::
  "url_parser \<Rightarrow> string \<Rightarrow> string \<Rightarrow> task_update \<Rightarrow> update_options \<Rightarrow> task_row \<Rightarrow> bool" where
  "is_exact_progress_retry url_parse room task u uo current \<longleftrightarrow>
     progress_retry_eligible room task uo \<and>
     up_status u = Some (tr_status current) \<and> tr_status current \<in> {InProgress, InReview} \<and>
     field_kept (up_title u) (tr_title current) \<and>
     field_kept (map_option Some (up_description u)) (tr_description current) \<and>
     field_kept (up_assignee u) (tr_assignee current) \<and>
     field_kept (up_assignee_key u) (tr_assignee_key current) \<and>
     field_kept (map_option Some (up_pr_url u)) (tr_pr_url current) \<and>
     (case up_artifacts u of
        None \<Rightarrow> True
      | Some as \<Rightarrow> normalize_artifacts url_parse as (coalesce (up_pr_url u) (tr_pr_url current)) = tr_artifacts current)"

definition retrying_own_claim :: "task_update \<Rightarrow> update_options \<Rightarrow> task_row \<Rightarrow> bool" where
  "retrying_own_claim u uo r \<longleftrightarrow>
     tr_status r = Assigned \<and> up_status u = Some Assigned \<and>
     field_kept (up_title u) (tr_title r) \<and> field_kept (map_option Some (up_description u)) (tr_description r) \<and>
     truthy (tr_assignee_key r) \<and> up_assignee_key u = Some (tr_assignee_key r) \<and>
     up_assignee u = Some (tr_assignee r) \<and>
     ((case uo_fence uo of None \<Rightarrow> False | Some f \<Rightarrow> lf_session f \<noteq> []) \<or>
      (case uo_lease uo of
         None \<Rightarrow> False
       | Some l \<Rightarrow> truthy (li_session l) \<and> Some (li_agent_key l) = tr_assignee_key r))"

text \<open>The checks on the row that was read, before the transaction.\<close>

definition update_checks ::
  "url_parser \<Rightarrow> string \<Rightarrow> string \<Rightarrow> task_update \<Rightarrow> update_options \<Rightarrow> task_row \<Rightarrow> task_error + unit" where
  "update_checks url_parse room task u uo seen =
     bind_result (guard_result (\<not> (uo_lease uo \<noteq> None \<and> up_status u = Some Assigned \<and>
         tr_status seen \<noteq> Accepted \<and> \<not> retrying_own_claim u uo seen)) LeaseFenceStale) (\<lambda>_.
     guard_result (case up_status u of
         None \<Rightarrow> True
       | Some s \<Rightarrow> is_valid_task_transition (tr_status seen) s \<or> retrying_own_claim u uo seen \<or>
                   is_exact_progress_retry url_parse room task u uo seen) InvalidTransition)"

definition new_workflow_artifacts :: "url_parser \<Rightarrow> task_update \<Rightarrow> task_row \<Rightarrow> artifact list" where
  "new_workflow_artifacts url_parse u seen =
     (let new_url = coalesce (up_pr_url u) (tr_pr_url seen)
      in case up_artifacts u of
           Some as \<Rightarrow> normalize_artifacts url_parse as new_url
         | None \<Rightarrow> synchronize_artifacts url_parse (tr_artifacts seen) (tr_pr_url seen) new_url)"

definition writes_workflow :: "task_update \<Rightarrow> bool" where
  "writes_workflow u \<longleftrightarrow> up_pr_url u \<noteq> None \<or> up_artifacts u \<noteq> None"

definition keep_or :: "'a \<Rightarrow> 'a option \<Rightarrow> 'a" where
  "keep_or current new = (case new of None \<Rightarrow> current | Some v \<Rightarrow> v)"

lemma keep_or_simps [simp]: "keep_or c None = c" "keep_or c (Some v) = v"
  by (simp_all add: keep_or_def)

text \<open>The \<open>SET\<close> clause: an omitted field stays as it is in the row.\<close>

definition updated_task :: "url_parser \<Rightarrow> task_update \<Rightarrow> task_row \<Rightarrow> int \<Rightarrow> task_row \<Rightarrow> task_row" where
  "updated_task url_parse u seen now r =
     (let (status, assignee, assignee_key) = resolve_task_assignment_state seen (update_patch u)
      in r\<lparr>tr_title := keep_or (tr_title r) (up_title u),
           tr_description := keep_or (tr_description r) (map_option Some (up_description u)),
           tr_status := keep_or (tr_status r) (up_status u),
           tr_assignee := (if up_assignee u = None then tr_assignee r else assignee),
           tr_assignee_key := (if up_assignee u = None then keep_or (tr_assignee_key r) (up_assignee_key u)
                               else assignee_key),
           tr_pr_url := keep_or (tr_pr_url r) (map_option Some (up_pr_url u)),
           tr_artifacts := (if writes_workflow u then new_workflow_artifacts url_parse u seen else tr_artifacts r),
           tr_updated_at := now\<rparr>)"

definition expected_content :: "task_update \<Rightarrow> task_row \<Rightarrow> bool" where
  "expected_content u r \<longleftrightarrow>
     (case up_expected u of
        None \<Rightarrow> True
      | Some (title, description) \<Rightarrow>
          (title \<noteq> None \<longrightarrow> title = Some (tr_title r)) \<and>
          (description \<noteq> None \<longrightarrow> description = Some (keep_or [] (tr_description r))))"

text \<open>The update statement; \<open>Inr None\<close> when the row is gone.\<close>

definition write_task_update ::
  "url_parser \<Rightarrow> string \<Rightarrow> int \<Rightarrow> task_update \<Rightarrow> task_row \<Rightarrow> int \<Rightarrow> task_db \<Rightarrow> task_error + task_row option \<times> task_db" where
  "write_task_update url_parse room number u seen now db =
     (let p = (\<lambda>r. the_task room number r \<and> expected_content u r);
          f = updated_task url_parse u seen now
      in case returning_first p f (td_tasks db) of
           None \<Rightarrow> if up_expected u = None then Inr (None, db) else Inl TaskContentConflict
         | Some r \<Rightarrow> Inr (Some r, db\<lparr>td_tasks := update_where p f (td_tasks db)\<rparr>))"

definition write_work_lease ::
  "string \<Rightarrow> string \<Rightarrow> string \<Rightarrow> lease_input option \<Rightarrow> int \<Rightarrow> task_db \<Rightarrow> task_error + task_db" where
  "write_work_lease new_id room task lease now db =
     (case lease of
        None \<Rightarrow> Inr db
      | Some l \<Rightarrow>
          (case insert_lease (create_task_lease_row new_id (l\<lparr>li_room := room, li_task := task, li_kind := Work\<rparr>) now)
                  (leases (td_coord db)) of
             None \<Rightarrow> Inl UniqueIndex
           | Some ls \<Rightarrow> Inr (db\<lparr>td_coord := (td_coord db)\<lparr>leases := ls\<rparr>\<rparr>)))"

definition write_artifact_side_effects ::
  "url_parser \<Rightarrow> string \<Rightarrow> string \<Rightarrow> task_update \<Rightarrow> update_options \<Rightarrow> task_row \<Rightarrow> int \<Rightarrow> task_db \<Rightarrow> task_db" where
  "write_artifact_side_effects url_parse room task u uo seen now db =
     (if \<not> writes_workflow u then db
      else (let coord = (case uo_fence uo of
                  None \<Rightarrow> td_coord db
                | Some f \<Rightarrow>
                    if up_pr_url u = None then td_coord db
                    else snd (update_task_lease_workflow_refs room (lf_lease f) None (Some (up_pr_url u)) now (td_coord db)))
            in db\<lparr>td_coord := coord,
                  td_artifacts := snd (sync_room_shared_artifacts_for_task room task
                    (new_workflow_artifacts url_parse u seen) TaskArtifact now (td_artifacts db))\<rparr>))"

text \<open>The columns in which a row must not have changed since it was read.\<close>

definition same_snapshot :: "task_row \<Rightarrow> task_row \<Rightarrow> bool" where
  "same_snapshot current seen \<longleftrightarrow>
     tr_status current = tr_status seen \<and> tr_updated_at current = tr_updated_at seen \<and>
     tr_assignee current = tr_assignee seen \<and> tr_assignee_key current = tr_assignee_key seen \<and>
     tr_pr_url current = tr_pr_url seen \<and> tr_artifacts current = tr_artifacts seen"

text \<open>
  The part of the transaction before the first write: \<open>Inr (Some row)\<close> is the repeated progress report that
  returns the committed row, \<open>Inr None\<close> goes on to write.
\<close>

definition fence_phase ::
  "url_parser \<Rightarrow> string \<Rightarrow> string \<Rightarrow> int \<Rightarrow> task_update \<Rightarrow> update_options \<Rightarrow> task_row \<Rightarrow> int \<Rightarrow> task_db
   \<Rightarrow> task_error + task_row option" where
  "fence_phase url_parse room task number u uo seen now db =
     (case uo_fence uo of
        None \<Rightarrow> Inr None
      | Some f \<Rightarrow>
          bind_result (require (acquire_lease_fence f (td_coord db)) LeaseFenceStale) (\<lambda>held.
          if progress_retry_eligible room task uo \<and> up_status u \<in> {Some InProgress, Some InReview}
          then bind_result (require (select_first (the_task room number) (td_tasks db)) LeaseFenceStale) (\<lambda>current.
            if is_exact_progress_retry url_parse room task u uo current
            then bind_result (guard_result (expected_content u current) TaskContentConflict) (\<lambda>_.
              bind_result (guard_result
                (Some (tl_agent_key held) = tr_assignee_key current \<and>
                 (case tl_expires_at held of None \<Rightarrow> True | Some e \<Rightarrow> now < e) \<and>
                 (case select_first (\<lambda>x. as_id x = lf_session f) (sessions (td_coord db)) of
                    None \<Rightarrow> False
                  | Some x \<Rightarrow> as_ended_at x = None \<and> as_room x = room \<and> as_agent_key x = tl_agent_key held))
                LeaseFenceStale) (\<lambda>_. Inr (Some current)))
            else bind_result (guard_result (\<not> is_exact_progress_retry url_parse room task u uo seen \<and>
                same_snapshot current seen) LeaseFenceStale) (\<lambda>_. Inr None))
          else Inr None))"

definition claim_phase ::
  "string \<Rightarrow> string \<Rightarrow> int \<Rightarrow> task_update \<Rightarrow> update_options \<Rightarrow> task_row \<Rightarrow> task_db \<Rightarrow> task_error + unit" where
  "claim_phase room task number u uo seen db =
     (if uo_lease uo \<noteq> None \<or> retrying_own_claim u uo seen
      then guard_result
        ((case select_first (the_task room number) (td_tasks db) of
            None \<Rightarrow> False | Some current \<Rightarrow> same_snapshot current seen) \<and>
         (uo_lease uo \<noteq> None \<longrightarrow>
            \<not> (\<exists>l \<in> set (leases (td_coord db)). tl_room l = room \<and> tl_task l = task \<and> tl_kind l = Work \<and>
                 tl_status l = Active))) LeaseFenceStale
      else Inr ())"

definition update_in_transaction ::
  "url_parser \<Rightarrow> platform \<Rightarrow> string \<Rightarrow> string \<Rightarrow> string \<Rightarrow> int \<Rightarrow> task_update \<Rightarrow> update_options \<Rightarrow> task_row \<Rightarrow> int
   \<Rightarrow> task_db \<Rightarrow> task_error + task_row option \<times> task_db" where
  "update_in_transaction url_parse pf new_id room task number u uo seen now db =
     bind_result (fence_phase url_parse room task number u uo seen now db) (\<lambda>retry.
     case retry of
       Some row \<Rightarrow> Inr (Some row, db)
     | None \<Rightarrow>
         bind_result (claim_phase room task number u uo seen db) (\<lambda>_.
         bind_result (consume_in pf (uo_approval uo) now now db) (\<lambda>db1.
         bind_result (write_task_update url_parse room number u seen now db1) (\<lambda>(written, db2).
         bind_result (write_work_lease new_id room task (uo_lease uo) now db2) (\<lambda>db3.
         Inr (written, if uo_fence uo = None then db3
                       else write_artifact_side_effects url_parse room task u uo seen now db3))))))"

text \<open>
  The writing part of \<open>updateTask\<close>. An update with a fence, a claim or an approval is one transaction;
  without a fence the artifacts follow after it.
\<close>

definition update_task_write ::
  "url_parser \<Rightarrow> platform \<Rightarrow> string \<Rightarrow> string \<Rightarrow> string \<Rightarrow> task_update \<Rightarrow> update_options \<Rightarrow> task_row \<Rightarrow> int
   \<Rightarrow> task_db \<Rightarrow> (task_error + task_row option) \<times> task_db" where
  "update_task_write url_parse pf new_id room task u uo seen now db =
     (case (update_checks url_parse room task u uo seen, parse_task_id task) of
        (Inl e, _) \<Rightarrow> (Inl e, db)
      | (Inr _, None) \<Rightarrow> (Inr None, db)
      | (Inr _, Some number) \<Rightarrow>
          (if uo_approval uo \<noteq> None \<or> uo_lease uo \<noteq> None \<or> uo_fence uo \<noteq> None
           then (case transaction (update_in_transaction url_parse pf new_id room task number u uo seen now) db of
               (Inl e, db') \<Rightarrow> (Inl e, db')
             | (Inr r, db') \<Rightarrow>
                 (Inr r, if uo_fence uo = None
                         then write_artifact_side_effects url_parse room task u uo seen now db' else db'))
           else (case write_task_update url_parse room number u seen now db of
               Inl e \<Rightarrow> (Inl e, db)
             | Inr (r, db') \<Rightarrow> (Inr r, write_artifact_side_effects url_parse room task u uo seen now db'))))"

text \<open>\<open>updateTask\<close> when nothing comes between its read and its write.\<close>

definition update_task ::
  "url_parser \<Rightarrow> platform \<Rightarrow> string \<Rightarrow> string \<Rightarrow> string \<Rightarrow> task_update \<Rightarrow> update_options \<Rightarrow> int
   \<Rightarrow> task_db \<Rightarrow> (task_error + task_row option) \<times> task_db" where
  "update_task url_parse pf new_id room task u uo now db =
     (case get_task_row_by_id room task (td_tasks db) of
        None \<Rightarrow> (Inr None, db)
      | Some seen \<Rightarrow> update_task_write url_parse pf new_id room task u uo seen now db)"

section \<open>Actions on the work lease\<close>

definition assigned_task :: "task_row \<Rightarrow> task_patch \<Rightarrow> int \<Rightarrow> task_row \<Rightarrow> task_row" where
  "assigned_task seen p now r =
     (let (status, assignee, assignee_key) = resolve_task_assignment_state seen p
      in r\<lparr>tr_status := status, tr_assignee := assignee, tr_assignee_key := assignee_key, tr_updated_at := now\<rparr>)"

text \<open>\<open>setTaskAssignmentStateForLeaseAction\<close>, its writing part with the row that was read.\<close>

definition set_task_assignment_state_for_lease_action ::
  "string \<Rightarrow> string \<Rightarrow> task_patch \<Rightarrow> task_row \<Rightarrow> int \<Rightarrow> task_row list \<Rightarrow> task_row option \<times> task_row list" where
  "set_task_assignment_state_for_lease_action room task p seen now t =
     (case parse_task_id task of
        None \<Rightarrow> (None, t)
      | Some n \<Rightarrow> (Some (assigned_task seen p now seen), update_where (the_task room n) (assigned_task seen p now) t))"

datatype lease_action_conflict = TaskNotFound | TargetUnreachable | LeaseNotActive

record lease_action =
  la_room :: string
  la_task :: string
  la_lease :: string
  la_epoch :: "int option"
  la_revoke :: bool
  la_reason :: "string option"
  la_patch :: task_patch
  la_approval :: "consumption option"
  la_new :: "lease_input option"

definition target_reachable :: "string \<Rightarrow> string \<Rightarrow> int \<Rightarrow> delivery_session list \<Rightarrow> bool" where
  "target_reachable room session now ds \<longleftrightarrow>
     (\<exists>d \<in> set ds. ds_room d = room \<and> ds_session d = Some session \<and> ds_worker d \<and> is_delivery_reachable d now)"

definition disposed_lease :: "lease_action \<Rightarrow> int \<Rightarrow> task_lease \<Rightarrow> bool" where
  "disposed_lease a now r \<longleftrightarrow>
     tl_room r = la_room a \<and> tl_task r = la_task a \<and> tl_id r = la_lease a \<and> tl_kind r = Work \<and>
     tl_status r = Active \<and> (case la_epoch a of None \<Rightarrow> True | Some e \<Rightarrow> tl_epoch r = e) \<and>
     (case tl_expires_at r of None \<Rightarrow> True | Some e \<Rightarrow> now < e)"

definition disposed_row :: "lease_action \<Rightarrow> int \<Rightarrow> task_lease \<Rightarrow> task_lease" where
  "disposed_row a now r =
     r\<lparr>tl_status := (if la_revoke a then Revoked else Released),
       tl_revoked_reason := (if la_revoke a then la_reason a else None), tl_updated_at := now\<rparr>"

record lease_action_result =
  lr_task :: task_row
  lr_released :: task_lease
  lr_new :: "task_lease option"

text \<open>
  \<open>applyTaskWorkLeaseAction\<close>, one transaction: a conflict is a value, so what was written before it is
  committed; an exception rolls back.
\<close>

definition lease_action_body ::
  "platform \<Rightarrow> string \<Rightarrow> lease_action \<Rightarrow> int \<Rightarrow> delivery_session list \<Rightarrow> task_db
   \<Rightarrow> task_error + (lease_action_conflict + lease_action_result) \<times> task_db" where
  "lease_action_body pf new_id a now ds db =
     (case get_task_row_by_id (la_room a) (la_task a) (td_tasks db) of
        None \<Rightarrow> Inr (Inl TaskNotFound, db)
      | Some seen \<Rightarrow>
          if (case la_new a of
                None \<Rightarrow> False
              | Some l \<Rightarrow> truthy (li_session l) \<and> \<not> target_reachable (la_room a) (the (li_session l)) now ds)
          then Inr (Inl TargetUnreachable, db)
          else
            (let swept = expire_stale_task_leases (la_room a) now (leases (td_coord db));
                 db1 = db\<lparr>td_coord := (td_coord db)\<lparr>leases := swept\<rparr>\<rparr>
             in case returning_first (disposed_lease a now) (disposed_row a now) swept of
                  None \<Rightarrow> Inr (Inl LeaseNotActive, db1)
                | Some released \<Rightarrow>
                    (let db2 = db1\<lparr>td_coord := (td_coord db1)\<lparr>leases :=
                                update_where (disposed_lease a now) (disposed_row a now) swept\<rparr>,
                              td_tasks := update_where (the_task (la_room a) (tr_number seen))
                                (assigned_task seen (la_patch a) now) (td_tasks db1)\<rparr>
                     in bind_result (consume_in pf (la_approval a) now now db2) (\<lambda>db3.
                        bind_result (write_work_lease new_id (la_room a) (la_task a) (la_new a) now db3) (\<lambda>db4.
                        Inr (Inr \<lparr>lr_task = assigned_task seen (la_patch a) now seen, lr_released = released,
                               lr_new = map_option (\<lambda>l. create_task_lease_row new_id
                                 (l\<lparr>li_room := la_room a, li_task := la_task a, li_kind := Work\<rparr>) now) (la_new a)\<rparr>,
                             db4))))))"

definition apply_task_work_lease_action ::
  "platform \<Rightarrow> string \<Rightarrow> lease_action \<Rightarrow> int \<Rightarrow> delivery_session list \<Rightarrow> task_db
   \<Rightarrow> (task_error + lease_action_conflict + lease_action_result) \<times> task_db" where
  "apply_task_work_lease_action pf new_id a now ds db =
     transaction (lease_action_body pf new_id a now ds) db"

end
