(* ===== verification/IntentEscalation.thy ===== *)
theory IntentEscalation
  imports TaskUpdates
begin

text \<open>
  Escalation of board intents that no manager decides: the statements of
  \<^verbatim>\<open>src/api/db/coordination/board-intent-escalation.ts\<close>, the sweep of
  \<^verbatim>\<open>src/api/rooms/board-intent-escalation-sweep.ts\<close>, and the two transactions that
  \<^verbatim>\<open>src/api/server/liveness.ts\<close> passes to it, with the failover of an offline manager. Each of these
  transactions also posts a message whose client identifier is unique in its room; of the messages only
  these identifiers are kept.
\<close>

section \<open>State\<close>

record board_db =
  bd_tasks :: task_db
  bd_settings :: "board_settings list"
  bd_managers :: "manager_assignment list"
  bd_deliveries :: "delivery_session list"
  bd_messages :: "(string \<times> string) list"

abbreviation bd_intents :: "board_db \<Rightarrow> board_intent list" where
  "bd_intents db \<equiv> td_intents (bd_tasks db)"

definition with_intents :: "(board_intent list \<Rightarrow> board_intent list) \<Rightarrow> board_db \<Rightarrow> board_db" where
  "with_intents f db = db\<lparr>bd_tasks := (bd_tasks db)\<lparr>td_intents := f (bd_intents db)\<rparr>\<rparr>"

section \<open>Selecting candidates\<close>

text \<open>
  \<open>LIMIT\<close> on the rows in the order of a deadline and the identifier, without those other transactions hold
  locked (\<open>FOR UPDATE SKIP LOCKED\<close>).
\<close>

definition due_rows ::
  "(board_intent \<Rightarrow> bool) \<Rightarrow> (board_intent \<Rightarrow> int option) \<Rightarrow> string set \<Rightarrow> nat \<Rightarrow> board_intent list \<Rightarrow> board_intent list" where
  "due_rows p deadline locked limit t =
     take limit (sort_key (\<lambda>r. the (deadline r)) (sort_key bi_id (filter (\<lambda>r. p r \<and> bi_id r \<notin> locked) t)))"

definition escalation_due :: "int \<Rightarrow> board_intent \<Rightarrow> bool" where
  "escalation_due now r \<longleftrightarrow>
     bi_status r = BiPending \<and> bi_escalated_at r = None \<and> not_expired now r \<and>
     (case bi_check_at r of None \<Rightarrow> False | Some c \<Rightarrow> c \<le> now)"

record escalation_candidate =
  ec_intent :: board_intent
  ec_mode :: manager_mode
  ec_claimed_check :: "int option"

definition list_escalation_candidates ::
  "int \<Rightarrow> int option \<Rightarrow> string set \<Rightarrow> board_settings list \<Rightarrow> board_intent list
   \<Rightarrow> escalation_candidate list \<times> board_intent list" where
  "list_escalation_candidates now limit locked st t =
     (let bound = nat (min (max (case limit of None \<Rightarrow> 100 | Some n \<Rightarrow> n) 1) 500);
          expired = map bi_id (due_rows (expiry_due None now) bi_expires_at locked bound t);
          t1 = update_where (\<lambda>r. bi_id r \<in> set expired) (expired_row now) t;
          claimed = map bi_id (due_rows (escalation_due now) bi_check_at locked bound t1);
          retry = now + 60000;
          t2 = update_where (\<lambda>r. bi_id r \<in> set claimed) (\<lambda>r. r\<lparr>bi_check_at := Some retry\<rparr>) t1
      in (map (\<lambda>r. \<lparr>ec_intent = r,
                    ec_mode = normalize_board_manager_mode (map_option (manager_mode_text \<circ> st_mode)
                      (select_first (\<lambda>s. st_room s = bi_room r) st)),
                    ec_claimed_check = Some retry\<rparr>)
            (sort_key bi_created_at (filter (\<lambda>r. bi_status r = BiPending \<and> bi_id r \<in> set claimed) t2)), t2))"

definition reschedule_escalation_candidate ::
  "string \<Rightarrow> int \<Rightarrow> int option \<Rightarrow> board_intent list \<Rightarrow> board_intent list" where
  "reschedule_escalation_candidate intent claimed next_check t =
     update_where (\<lambda>r. bi_id r = intent \<and> bi_status r = BiPending \<and> bi_check_at r = Some claimed)
       (\<lambda>r. r\<lparr>bi_check_at := next_check\<rparr>) t"

section \<open>The statements of an escalation\<close>

definition claim_board_intent_escalation ::
  "string \<Rightarrow> string \<Rightarrow> int \<Rightarrow> board_intent list \<Rightarrow> bool \<times> board_intent list" where
  "claim_board_intent_escalation room intent now t =
     (let p = (\<lambda>r. the_intent room intent r \<and> bi_status r = BiPending \<and> bi_escalated_at r = None)
      in (\<exists>r \<in> set t. p r, update_where p (\<lambda>r. r\<lparr>bi_escalated_at := Some now, bi_updated_at := now\<rparr>) t))"

text \<open>\<open>start\<close> is the start of the transaction, the database's \<open>now()\<close>.\<close>

definition mark_board_intent_auto_approved ::
  "string \<Rightarrow> string \<Rightarrow> int \<Rightarrow> board_intent list \<Rightarrow> board_intent list" where
  "mark_board_intent_auto_approved room intent start t =
     update_where (the_intent room intent)
       (\<lambda>r. r\<lparr>bi_auto := True, bi_decided_at := coalesce (bi_decided_at r) (Some start)\<rparr>) t"

definition auto_approved_since :: "string \<Rightarrow> string \<Rightarrow> int \<Rightarrow> board_intent \<Rightarrow> bool" where
  "auto_approved_since room key since r \<longleftrightarrow>
     bi_room r = room \<and> bi_key r = Some key \<and> bi_auto r \<and>
     (case bi_decided_at r of None \<Rightarrow> False | Some d \<Rightarrow> since < d)"

definition count_recent_auto_approved :: "string \<Rightarrow> string \<Rightarrow> int \<Rightarrow> int \<Rightarrow> board_intent list \<Rightarrow> nat" where
  "count_recent_auto_approved room key window now t =
     length (filter (auto_approved_since room key (now - window)) t)"

datatype ineligible_reason = ManagerReachable | ModeChanged | RateCapped

definition assert_auto_approval_eligibility ::
  "string \<Rightarrow> string \<Rightarrow> int \<Rightarrow> nat \<Rightarrow> int \<Rightarrow> board_db \<Rightarrow> ineligible_reason + unit" where
  "assert_auto_approval_eligibility room key window cap now db =
     bind_result (guard_result (normalize_board_manager_mode (map_option (manager_mode_text \<circ> st_mode)
         (select_first (\<lambda>s. st_room s = room) (bd_settings db))) = ManagerOptional) ModeChanged) (\<lambda>_.
     bind_result (guard_result
         (case select_first (managing (sessions (td_coord (bd_tasks db))) room) (bd_managers db) of
            None \<Rightarrow> True
          | Some m \<Rightarrow> \<not> manager_reachable room m now (bd_deliveries db)) ManagerReachable) (\<lambda>_.
     guard_result (count_recent_auto_approved room key window now (bd_intents db) < cap) RateCapped))"

section \<open>Announcing in one transaction\<close>

text \<open>
  \<open>emitProjectMessage\<close> with a hook: a message whose client identifier exists is a replay and skips the hook;
  an error of the hook takes the message back. The result says whether the hook ran.
\<close>

definition emit_project_message ::
  "string \<Rightarrow> string \<Rightarrow> (board_db \<Rightarrow> 'e + 'a \<times> board_db) \<Rightarrow> board_db \<Rightarrow> ('e + 'a option) \<times> board_db" where
  "emit_project_message room client hook =
     transaction (\<lambda>db.
       if (room, client) \<in> set (bd_messages db) then Inr (None, db)
       else bind_result (hook (db\<lparr>bd_messages := bd_messages db @ [(room, client)]\<rparr>))
              (\<lambda>(a, db'). Inr (Some a, db')))"

datatype escalation_error =
    EscalationLostRace | AutoApprovalIneligible ineligible_reason | ApprovalFailed task_error | NotAccepted

definition escalation_client_id :: "string \<Rightarrow> string" where
  "escalation_client_id intent = ''board_intent_escalation:'' @ intent"

definition intent_auto_approve_window :: int where
  "intent_auto_approve_window = 60 * 60 * 1000"

definition intent_auto_approve_max :: nat where
  "intent_auto_approve_max = 5"

definition intent_escalation_after :: int where
  "intent_escalation_after = 10 * 60 * 1000"

definition escalation_actor :: string where
  "escalation_actor = ''letagents:intent_escalation''"

text \<open>The claim and the conditions read one clock, the approval a later one.\<close>

definition auto_approve_hook ::
  "platform \<Rightarrow> string \<Rightarrow> string \<Rightarrow> string \<Rightarrow> string \<Rightarrow> int \<Rightarrow> int \<Rightarrow> board_db
   \<Rightarrow> escalation_error + task_row \<times> board_db" where
  "auto_approve_hook pf token room intent key check now db =
     (let (claimed, t) = claim_board_intent_escalation room intent check (bd_intents db);
          db1 = with_intents (\<lambda>_. t) db
      in bind_result (guard_result claimed EscalationLostRace) (\<lambda>_.
         bind_result (case assert_auto_approval_eligibility room key intent_auto_approve_window
               intent_auto_approve_max check db1 of
             Inl e \<Rightarrow> Inl (AutoApprovalIneligible e) | Inr _ \<Rightarrow> Inr ()) (\<lambda>_.
         bind_result (case approve_task_create_board_intent pf token room intent escalation_actor
               (Some ''Auto-approved: no Board Manager responded within the escalation window.'') now (bd_tasks db1) of
             Inl e \<Rightarrow> Inl (ApprovalFailed e) | Inr r \<Rightarrow> Inr r) (\<lambda>(approved, tdb).
         bind_result (require approved EscalationLostRace) (\<lambda>(i, tok, row).
         let (accepted, ts) = accept_proposed_task room (format_task_id (tr_number row)) now (td_tasks tdb);
             db2 = db1\<lparr>bd_tasks := tdb\<lparr>td_tasks := ts\<rparr>\<rparr>
         in bind_result (guard_result accepted NotAccepted) (\<lambda>_.
            Inr (row\<lparr>tr_status := Accepted\<rparr>,
                 with_intents (mark_board_intent_auto_approved room intent now) db2)))))))"

text \<open>\<open>autoApproveIntent\<close>: a lost race, a missed condition and a replay give \<open>None\<close>, other errors are thrown.\<close>

definition quiet_errors :: "(escalation_error + 'a option) \<times> board_db \<Rightarrow> (escalation_error + 'a option) \<times> board_db" where
  "quiet_errors r =
     (case r of
        (Inl EscalationLostRace, db) \<Rightarrow> (Inr None, db)
      | (Inl (AutoApprovalIneligible e), db) \<Rightarrow> (Inr None, db)
      | r' \<Rightarrow> r')"

definition auto_approve_intent ::
  "platform \<Rightarrow> string \<Rightarrow> string \<Rightarrow> string \<Rightarrow> string \<Rightarrow> int \<Rightarrow> int \<Rightarrow> board_db
   \<Rightarrow> (escalation_error + task_row option) \<times> board_db" where
  "auto_approve_intent pf token room intent key check now db =
     quiet_errors (emit_project_message room (escalation_client_id intent)
       (auto_approve_hook pf token room intent key check now) db)"

definition notify_hook :: "string \<Rightarrow> string \<Rightarrow> int \<Rightarrow> board_db \<Rightarrow> escalation_error + unit \<times> board_db" where
  "notify_hook room intent now db =
     (let (claimed, t) = claim_board_intent_escalation room intent now (bd_intents db)
      in bind_result (guard_result claimed EscalationLostRace) (\<lambda>_. Inr ((), with_intents (\<lambda>_. t) db)))"

definition notify_humans ::
  "string \<Rightarrow> string \<Rightarrow> int \<Rightarrow> board_db \<Rightarrow> (escalation_error + unit option) \<times> board_db" where
  "notify_humans room intent now db =
     quiet_errors (emit_project_message room (escalation_client_id intent) (notify_hook room intent now) db)"

section \<open>The sweep\<close>

datatype escalation_action = AutoApprove | NotifyHumans

definition select_intent_escalation_action ::
  "intent_action \<Rightarrow> manager_mode \<Rightarrow> nat \<Rightarrow> escalation_action" where
  "select_intent_escalation_action action mode approvals =
     (if mode \<noteq> ManagerOptional then NotifyHumans
      else if action \<noteq> ActCreate then NotifyHumans
      else if intent_auto_approve_max \<le> approvals then NotifyHumans
      else AutoApprove)"

record sweep_summary =
  sw_auto_approved :: nat
  sw_notified :: nat

definition sweep_intent ::
  "platform \<Rightarrow> (string \<Rightarrow> string) \<Rightarrow> (string \<Rightarrow> int \<times> int) \<Rightarrow> string set \<Rightarrow> int \<Rightarrow> escalation_candidate
   \<Rightarrow> sweep_summary \<Rightarrow> board_db \<Rightarrow> (escalation_error + sweep_summary) \<times> board_db" where
  "sweep_intent pf tokens clock reachable now entry summary db =
     (let i = ec_intent entry; room = bi_room i; (check, later) = clock (bi_id i)
      in if room \<in> reachable
         then (Inr summary,
           case ec_claimed_check entry of
             None \<Rightarrow> db
           | Some c \<Rightarrow> with_intents (reschedule_escalation_candidate (bi_id i) c (Some (now + intent_escalation_after))) db)
         else
           (let approvals = (if truthy (bi_key i)
                 then count_recent_auto_approved room (the (bi_key i)) intent_auto_approve_window check (bd_intents db)
                 else intent_auto_approve_max)
            in case select_intent_escalation_action (bi_action i) (ec_mode entry) approvals of
                 AutoApprove \<Rightarrow>
                   (case auto_approve_intent pf (tokens (bi_id i)) room (bi_id i) (keep_or [] (bi_key i)) check later db of
                      (Inl e, db') \<Rightarrow> (Inl e, db')
                    | (Inr task, db') \<Rightarrow>
                        (Inr (if task = None then summary
                              else summary\<lparr>sw_auto_approved := sw_auto_approved summary + 1\<rparr>), db'))
               | NotifyHumans \<Rightarrow>
                   (case notify_humans room (bi_id i) check db of
                      (Inl e, db') \<Rightarrow> (Inl e, db')
                    | (Inr told, db') \<Rightarrow>
                        (Inr (if told = None then summary
                              else summary\<lparr>sw_notified := sw_notified summary + 1\<rparr>), db'))))"

fun sweep_intents ::
  "platform \<Rightarrow> (string \<Rightarrow> string) \<Rightarrow> (string \<Rightarrow> int \<times> int) \<Rightarrow> string set \<Rightarrow> int \<Rightarrow> escalation_candidate list
   \<Rightarrow> sweep_summary \<Rightarrow> string list \<Rightarrow> board_db \<Rightarrow> (sweep_summary \<times> string list) \<times> board_db" where
  "sweep_intents pf tokens clock reachable now [] summary failed db = ((summary, failed), db)"
| "sweep_intents pf tokens clock reachable now (e # es) summary failed db =
     (case sweep_intent pf tokens clock reachable now e summary db of
        (Inl _, db') \<Rightarrow>
          sweep_intents pf tokens clock reachable now es summary (List.insert (bi_room (ec_intent e)) failed) db'
      | (Inr summary', db') \<Rightarrow> sweep_intents pf tokens clock reachable now es summary' failed db')"

text \<open>The rooms of \<open>getDueRoomOperationalContext\<close> that have a reachable manager.\<close>

definition room_has_reachable_manager :: "string \<Rightarrow> int \<Rightarrow> board_db \<Rightarrow> bool" where
  "room_has_reachable_manager room now db \<longleftrightarrow>
     (\<exists>d \<in> set (bd_deliveries db). ds_room d = room \<and> ds_worker d \<and> is_delivery_reachable d now \<and>
        \<not> (\<exists>x \<in> set (sessions (td_coord (bd_tasks db))). as_room x = room \<and> Some (as_id x) = ds_session d \<and>
             as_ended_at x \<noteq> None) \<and>
        (\<exists>m \<in> set (bd_managers db). active_assignment room m \<and> Some (ma_session m) = ds_session d))"

definition sweep_once ::
  "platform \<Rightarrow> (string \<Rightarrow> string) \<Rightarrow> (string \<Rightarrow> int \<times> int) \<Rightarrow> string set \<Rightarrow> int \<Rightarrow> board_db
   \<Rightarrow> (sweep_summary \<times> nat) \<times> board_db" where
  "sweep_once pf tokens clock locked now db =
     (let (candidates, t) = list_escalation_candidates now (Some 100) locked (bd_settings db) (bd_intents db);
          db1 = with_intents (\<lambda>_. t) db;
          rooms = remdups (map (bi_room \<circ> ec_intent) candidates);
          reachable = set (filter (\<lambda>room. room_has_reachable_manager room now db1) rooms);
          ((summary, failed), db2) =
            sweep_intents pf tokens clock reachable now candidates \<lparr>sw_auto_approved = 0, sw_notified = 0\<rparr> [] db1
      in ((summary, length failed), db2))"

section \<open>Failover of the Board Manager\<close>

definition failover_actor :: string where
  "failover_actor = ''letagents:manager_failover''"

datatype failover_error = FailoverLostRace | FailoverConflict

definition failover_hook ::
  "string \<Rightarrow> string \<Rightarrow> string \<Rightarrow> int \<Rightarrow> string \<Rightarrow> int \<Rightarrow> (agent_session \<Rightarrow> session_signals) \<Rightarrow> board_db
   \<Rightarrow> failover_error + (manager_assignment \<times> manager_assignment) \<times> board_db" where
  "failover_hook new_id room dead claimed successor now signals db =
     (let coord = td_coord (bd_tasks db);
          (released, t) = release_board_manager_assignment dead failover_actor
            ''Board Manager went offline; automatic failover.'' (Some claimed) True now (grants coord)
            (sessions coord) (bd_deliveries db) (bd_managers db)
      in bind_result (require released FailoverLostRace) (\<lambda>r.
         case promote_board_manager new_id room successor failover_actor True now now signals (sessions coord)
                (bd_deliveries db) t of
           Inl _ \<Rightarrow> Inl FailoverConflict
         | Inr (promoted, t') \<Rightarrow>
             bind_result (require promoted FailoverLostRace) (\<lambda>p. Inr ((r, p), db\<lparr>bd_managers := t'\<rparr>))))"

definition announce_failover ::
  "string \<Rightarrow> string \<Rightarrow> string \<Rightarrow> int option \<Rightarrow> string \<Rightarrow> int \<Rightarrow> (agent_session \<Rightarrow> session_signals) \<Rightarrow> board_db
   \<Rightarrow> (failover_error + (manager_assignment \<times> manager_assignment) option) \<times> board_db" where
  "announce_failover new_id room dead claimed successor now signals db =
     (case claimed of
        None \<Rightarrow> (Inr None, db)
      | Some c \<Rightarrow>
          (case emit_project_message room (''board_manager_failover:'' @ dead)
                  (failover_hook new_id room dead c successor now signals) db of
             (Inl FailoverLostRace, db') \<Rightarrow> (Inr None, db')
           | r \<Rightarrow> r))"

end
