(* ===== verification/IntentSafety.thy ===== *)
theory IntentSafety
  imports IntentEscalation
begin

text \<open>
  Board intents over time: the life cycle that every statement on the table keeps, the single use of an
  approval, and the exact effect of consuming one.
\<close>

section \<open>How a row may change\<close>

definition intent_moves :: "intent_status \<Rightarrow> intent_status \<Rightarrow> bool" where
  "intent_moves a b \<longleftrightarrow> a = b \<or> a = BiPending \<or> (a = BiApproved \<and> b \<in> {BiUsed, BiExpired})"

definition intent_evolves :: "board_intent \<Rightarrow> board_intent \<Rightarrow> bool" where
  "intent_evolves a b \<longleftrightarrow>
     bi_id b = bi_id a \<and> bi_room b = bi_room a \<and> bi_action b = bi_action a \<and> bi_payload b = bi_payload a \<and>
     bi_hash b = bi_hash a \<and> bi_key b = bi_key a \<and> bi_label b = bi_label a \<and> bi_created_at b = bi_created_at a \<and>
     intent_moves (bi_status a) (bi_status b) \<and>
     (bi_escalated_at a \<noteq> None \<longrightarrow> bi_escalated_at b = bi_escalated_at a)"

text \<open>Every statement but the one that marks an automatic approval also keeps the mark and the time of a
  decision.\<close>

definition intent_keeps :: "board_intent \<Rightarrow> board_intent \<Rightarrow> bool" where
  "intent_keeps a b \<longleftrightarrow>
     intent_evolves a b \<and> bi_auto b = bi_auto a \<and>
     (bi_status a \<noteq> BiPending \<longrightarrow> bi_decided_at b = bi_decided_at a)"

text \<open>A table whose rows change by \<open>R\<close> and that grows by rows that satisfy \<open>N\<close>.\<close>

definition rows_change :: "('r \<Rightarrow> 'r \<Rightarrow> bool) \<Rightarrow> ('r \<Rightarrow> bool) \<Rightarrow> 'r list \<Rightarrow> 'r list \<Rightarrow> bool" where
  "rows_change R N t t' \<longleftrightarrow> (\<exists>old new. t' = old @ new \<and> list_all2 R t old \<and> list_all N new)"

definition intents_wf :: "board_intent list \<Rightarrow> bool" where
  "intents_wf t \<longleftrightarrow> sorted_wrt (\<lambda>a b. \<not> intent_conflict a b) t"

lemma rows_change_refl: "(\<And>r. R r r) \<Longrightarrow> rows_change R N t t"
  unfolding rows_change_def by (rule exI [of _ t], rule exI [of _ "[]"]) (simp add: list_all2_refl)

lemma rows_change_trans:
  assumes tr: "\<And>a b c. R a b \<Longrightarrow> R b c \<Longrightarrow> R a c" and n: "\<And>a b. N a \<Longrightarrow> R a b \<Longrightarrow> N b"
    and "rows_change R N t u" "rows_change R N u v"
  shows "rows_change R N t v"
proof -
  obtain o1 n1 where 1: "u = o1 @ n1" "list_all2 R t o1" "list_all N n1"
    using assms(3) by (auto simp: rows_change_def)
  obtain o2 n2 where 2: "v = o2 @ n2" "list_all2 R (o1 @ n1) o2" "list_all N n2"
    using assms(4) 1 by (auto simp: rows_change_def)
  then obtain o3 n3 where 3: "o2 = o3 @ n3" "list_all2 R o1 o3" "list_all2 R n1 n3"
    by (auto simp: list_all2_append1)
  have "list_all2 R t o3" using list_all2_trans [of R R R t o1 o3] tr 1 3 by blast
  moreover have "list_all N n3"
    using 3(3) 1(3) n by (induction rule: list_all2_induct) auto
  ultimately have "v = o3 @ (n3 @ n2) \<and> list_all2 R t o3 \<and> list_all N (n3 @ n2)" using 2 3 by simp
  then show ?thesis unfolding rows_change_def by blast
qed

lemma rows_change_update:
  assumes "\<And>r. R r r" "\<And>r. r \<in> set t \<Longrightarrow> p r \<Longrightarrow> R r (f r)"
  shows "rows_change R N t (update_where p f t)"
proof -
  have "list_all2 R t (update_where p f t)"
    using assms by (induction t) (auto simp: update_where_def)
  then show ?thesis unfolding rows_change_def by (intro exI [of _ "update_where p f t"] exI [of _ "[]"]) simp
qed

lemma rows_change_append: "(\<And>r. R r r) \<Longrightarrow> list_all N new \<Longrightarrow> rows_change R N t (t @ new)"
  unfolding rows_change_def by (rule exI [of _ t]) (auto simp: list_all2_refl)

lemma rows_change_mono:
  assumes "rows_change R N t t'" "\<And>a b. R a b \<Longrightarrow> R' a b"
  shows "rows_change R' (\<lambda>_. True) t t'"
proof -
  obtain old new where "t' = old @ new" "list_all2 R t old" using assms(1) by (auto simp: rows_change_def)
  then have "t' = old @ new \<and> list_all2 R' t old \<and> list_all (\<lambda>_. True) new"
    using list_all2_mono [of R t old R'] assms(2) by (simp add: list_all_iff)
  then show ?thesis unfolding rows_change_def by blast
qed

lemma rows_change_mem:
  assumes "rows_change R N t t'" "r \<in> set t"
  obtains r' where "r' \<in> set t'" "R r r'"
proof -
  obtain old new where o: "t' = old @ new" "list_all2 R t old"
    using assms(1) by (auto simp: rows_change_def)
  then obtain i where "i < length t" "r = t ! i" using assms(2) by (auto simp: in_set_conv_nth)
  with o have "old ! i \<in> set t'" "R r (old ! i)"
    by (auto dest: list_all2_nthD list_all2_lengthD)
  then show ?thesis by (rule that)
qed

lemma intent_moves_trans: "intent_moves a b \<Longrightarrow> intent_moves b c \<Longrightarrow> intent_moves a c"
  by (auto simp: intent_moves_def)

lemma intent_evolves_refl [simp]: "intent_evolves r r"
  by (simp add: intent_evolves_def intent_moves_def)

lemma intent_evolves_trans: "intent_evolves a b \<Longrightarrow> intent_evolves b c \<Longrightarrow> intent_evolves a c"
  unfolding intent_evolves_def using intent_moves_trans by auto

lemma intent_keeps_refl [simp]: "intent_keeps r r"
  by (simp add: intent_keeps_def)

lemma intent_keeps_trans: "intent_keeps a b \<Longrightarrow> intent_keeps b c \<Longrightarrow> intent_keeps a c"
  unfolding intent_keeps_def using intent_evolves_trans by (auto simp: intent_evolves_def intent_moves_def)

definition intents_evolve :: "board_intent list \<Rightarrow> board_intent list \<Rightarrow> bool" where
  "intents_evolve = rows_change intent_evolves (\<lambda>_. True)"

definition intents_keep :: "board_intent list \<Rightarrow> board_intent list \<Rightarrow> bool" where
  "intents_keep = rows_change intent_keeps (\<lambda>r. \<not> bi_auto r)"

lemma intents_evolve_trans: "intents_evolve t u \<Longrightarrow> intents_evolve u v \<Longrightarrow> intents_evolve t v"
  unfolding intents_evolve_def using rows_change_trans [of intent_evolves "\<lambda>_. True"] intent_evolves_trans by blast

lemma intents_keep_trans: "intents_keep t u \<Longrightarrow> intents_keep u v \<Longrightarrow> intents_keep t v"
  unfolding intents_keep_def
  by (rule rows_change_trans [of intent_keeps "\<lambda>r. \<not> bi_auto r" t u v])
    (erule intent_keeps_trans, assumption, simp_all add: intent_keeps_def)

lemma intents_keep_evolve: "intents_keep t t' \<Longrightarrow> intents_evolve t t'"
  unfolding intents_keep_def intents_evolve_def
  by (erule rows_change_mono) (simp add: intent_keeps_def)

text \<open>A change along the life cycle keeps the unique indexes, and so does an insert that meets no conflict.\<close>

lemma conflict_sym: "intent_conflict a b = intent_conflict b a"
  by (auto simp: intent_conflict_def)

lemma conflict_back:
  "intent_evolves a a' \<Longrightarrow> intent_evolves b b' \<Longrightarrow> intent_conflict a' b' \<Longrightarrow> intent_conflict a b"
  by (auto simp: intent_evolves_def intent_conflict_def intent_moves_def)

lemma sorted_wrt_list_all2:
  assumes "list_all2 R xs ys" "sorted_wrt P xs" "\<And>a b a' b'. R a a' \<Longrightarrow> R b b' \<Longrightarrow> P a b \<Longrightarrow> P a' b'"
  shows "sorted_wrt P ys"
  using assms(1,2)
proof (induction rule: list_all2_induct)
  case (Cons x xs y ys)
  have "P y y'" if y': "y' \<in> set ys" for y'
  proof -
    from y' obtain i where "i < length ys" "y' = ys ! i" by (auto simp: in_set_conv_nth)
    with Cons.hyps(2) have "xs ! i \<in> set xs" "R (xs ! i) y'" by (auto dest: list_all2_nthD2 list_all2_lengthD)
    with Cons.prems Cons.hyps(1) assms(3) [of x y "xs ! i" y'] show ?thesis by auto
  qed
  with Cons show ?case by auto
qed simp

lemma intents_wf_update:
  assumes "intents_wf t" "\<And>r. r \<in> set t \<Longrightarrow> p r \<Longrightarrow> intent_evolves r (f r)"
  shows "intents_wf (update_where p f t)"
proof -
  have "list_all2 intent_evolves t (update_where p f t)"
    using assms(2) by (induction t) (auto simp: update_where_def)
  then show ?thesis
    using sorted_wrt_list_all2 [of intent_evolves] assms(1) conflict_back unfolding intents_wf_def by blast
qed

lemma insert_intent_wf: "intents_wf t \<Longrightarrow> insert_intent r t = Some t' \<Longrightarrow> intents_wf t'"
  using conflict_sym by (auto simp: intents_wf_def insert_intent_def sorted_wrt_append split: if_splits)

lemma intents_wf_distinct: "intents_wf t \<Longrightarrow> distinct (map bi_id t)"
  by (induction t) (auto simp: intents_wf_def intent_conflict_def)

section \<open>The statements\<close>

text \<open>A change of the table: rows evolve, new rows are appended, the unique indexes are kept.\<close>

definition intent_progress :: "board_intent list \<Rightarrow> board_intent list \<Rightarrow> bool" where
  "intent_progress t t' \<longleftrightarrow> (intents_wf t \<longrightarrow> intents_evolve t t' \<and> intents_wf t')"

definition intent_change :: "board_intent list \<Rightarrow> board_intent list \<Rightarrow> bool" where
  "intent_change t t' \<longleftrightarrow> (intents_wf t \<longrightarrow> intents_keep t t' \<and> intents_wf t')"

named_theorems intent_changes \<open>statements on the table of board intents\<close>

lemma intent_change_progress: "intent_change t t' \<Longrightarrow> intent_progress t t'"
  by (auto simp: intent_change_def intent_progress_def intents_keep_evolve)

lemma intent_progress_trans: "intent_progress t u \<Longrightarrow> intent_progress u v \<Longrightarrow> intent_progress t v"
  unfolding intent_progress_def using intents_evolve_trans by blast

lemma intent_change_refl [simp, intent_changes]: "intent_change t t"
  by (simp add: intent_change_def intents_keep_def rows_change_refl)

lemma intent_change_trans: "intent_change t u \<Longrightarrow> intent_change u v \<Longrightarrow> intent_change t v"
  unfolding intent_change_def using intents_keep_trans by blast

lemma intent_change_update:
  "(\<And>r. intents_wf t \<Longrightarrow> r \<in> set t \<Longrightarrow> p r \<Longrightarrow> intent_keeps r (f r)) \<Longrightarrow> intent_change t (update_where p f t)"
  unfolding intent_change_def intents_keep_def
  using rows_change_update [of intent_keeps t p f] intents_wf_update [of t p f] intent_keeps_refl
  by (auto simp: intent_keeps_def)

lemma intent_progress_update:
  "(\<And>r. intents_wf t \<Longrightarrow> r \<in> set t \<Longrightarrow> p r \<Longrightarrow> intent_evolves r (f r)) \<Longrightarrow> intent_progress t (update_where p f t)"
  unfolding intent_progress_def intents_evolve_def
  using rows_change_update [of intent_evolves t p f] intents_wf_update [of t p f] by simp

lemma intent_change_insert: "insert_intent r t = Some t' \<Longrightarrow> \<not> bi_auto r \<Longrightarrow> intent_change t t'"
  unfolding intent_change_def intents_keep_def
  using insert_intent_wf rows_change_append [of intent_keeps "\<lambda>r. \<not> bi_auto r" "[r]" t]
  by (auto simp: insert_intent_def split: if_splits)

lemmas keeps_defs = intent_keeps_def intent_evolves_def intent_moves_def

lemma expire_change [intent_changes]: "intent_change t (snd (expire_board_intents room now t))"
  unfolding expire_board_intents_def snd_conv
  by (rule intent_change_update) (auto simp: expiry_due_def expired_row_def keeps_defs)

lemma create_change [intent_changes]:
  "intent_change t (snd (create_board_intent pf new_id inp now t))"
  unfolding create_board_intent_def Let_def
  using expire_change intent_change_trans [OF expire_change intent_change_insert]
  by (auto simp: intent_row_def split: option.splits)

lemma decide_change:
  assumes "\<And>r. bi_status r = BiPending \<Longrightarrow> intent_keeps r (f r)"
  shows "intent_change t (update_where (decidable room intent now) f (snd (expire_board_intents (Some room) now t)))"
  using expire_change by (rule intent_change_trans) (rule intent_change_update, simp add: decidable_def assms)

lemma approve_change [intent_changes]:
  "intent_change t (snd (approve_board_intent pf token room intent decision_by reason now t))"
  unfolding approve_board_intent_def Let_def snd_conv
  by (rule decide_change) (simp add: approved_row_def keeps_defs)

lemma deny_change [intent_changes]:
  "intent_change t (snd (deny_board_intent room intent decision_by reason now t))"
  unfolding deny_board_intent_def Let_def snd_conv
  by (rule decide_change) (simp add: denied_row_def keeps_defs)

lemma mark_change [intent_changes]:
  "intent_change t (snd (mark_board_intent_task_result room intent task now t))"
  unfolding mark_board_intent_task_result_def Let_def snd_conv
  by (rule intent_change_update) (simp add: keeps_defs)

lemma consume_change [intent_changes]:
  "intent_change t (snd (consume_board_intent_approval pf c now later t))"
proof -
  have "intent_change t (update_where (consumable pf c intent now) (used_row now) t)" for intent
    by (rule intent_change_update) (auto simp: consumable_def used_row_def keeps_defs)
  then show ?thesis by (simp add: consume_board_intent_approval_def split: option.split)
qed

lemma assert_consume_change:
  "assert_consume_board_intent_approval pf c now later t = Inr (r, t') \<Longrightarrow> intent_change t t'"
  using consume_change [of t pf c now later]
  by (auto simp: assert_consume_board_intent_approval_def split: prod.splits sum.splits)

text \<open>The statements of the sweep name the rows they have selected by their identifiers.\<close>

lemma due_change:
  assumes "\<And>r. q r \<Longrightarrow> intent_keeps r (f r)"
  shows "intent_change t (update_where (\<lambda>r. bi_id r \<in> set (map bi_id (due_rows q deadline locked k t))) f t)"
proof (rule intent_change_update)
  fix r assume wf: "intents_wf t" and r: "r \<in> set t" "bi_id r \<in> set (map bi_id (due_rows q deadline locked k t))"
  then obtain d where d: "d \<in> set (due_rows q deadline locked k t)" "bi_id d = bi_id r" by auto
  then have "d \<in> set t" "q d" by (auto simp: due_rows_def dest: in_set_takeD)
  then show "intent_keeps r (f r)"
    using assms distinct_key_inj [OF intents_wf_distinct [OF wf]] r(1) d(2) by blast
qed

lemma candidates_change [intent_changes]:
  "intent_change t (snd (list_escalation_candidates now limit locked st t))"
  unfolding list_escalation_candidates_def Let_def snd_conv
proof (rule intent_change_trans)
  show "intent_change t (update_where (\<lambda>r. bi_id r \<in> set (map bi_id (due_rows (expiry_due None now) bi_expires_at
      locked (nat (min (max (case limit of None \<Rightarrow> 100 | Some n \<Rightarrow> n) 1) 500)) t))) (expired_row now) t)"
    by (rule due_change) (auto simp: expiry_due_def expired_row_def keeps_defs)
qed (rule due_change, simp add: keeps_defs)

lemma reschedule_change [intent_changes]:
  "intent_change t (reschedule_escalation_candidate intent claimed next_check t)"
  unfolding reschedule_escalation_candidate_def
  by (rule intent_change_update) (simp add: keeps_defs)

lemma claim_change [intent_changes]:
  "intent_change t (snd (claim_board_intent_escalation room intent now t))"
  unfolding claim_board_intent_escalation_def Let_def snd_conv
  by (rule intent_change_update) (simp add: keeps_defs)

text \<open>The mark of an automatic approval is the one statement that does not keep it.\<close>

lemma auto_progress:
  "intent_progress t (mark_board_intent_auto_approved room intent start t)"
  unfolding mark_board_intent_auto_approved_def
  by (rule intent_progress_update) (simp add: keeps_defs)

text \<open>Ending a session clears the reference of its intents.\<close>

lemma session_gone_change [intent_changes]:
  "intent_change t (update_where (\<lambda>r. bi_session r = Some sid) (\<lambda>r. r\<lparr>bi_session := None\<rparr>) t)"
  by (rule intent_change_update) (simp add: keeps_defs)

end
