(* ===== verification/ClaimApproval.thy ===== *)
theory ClaimApproval
  imports IntentEscalation CoordinationPolicy
begin

text \<open>
  Approving the claim of a task, \<^verbatim>\<open>src/api/db/coordination/board-intent-claim.ts\<close>: one transaction checks the
  proposing and the approving worker, the lease, the locks and the policy, approves the intent, and lets
  \<open>updateTask\<close> consume it and assign the task. The intent and the sessions that the transaction reads before it
  holds its locks are arguments; what it reads under them is read in the step.
\<close>

section \<open>Workers and failures\<close>

record worker_ref =
  wk_session :: string
  wk_key :: string
  wk_instance :: "string option"

datatype credential_fence = TokenFence string | BearerFence string int

record claim_manager =
  cm_worker :: worker_ref
  cm_credential :: credential_fence

datatype claim_conflict =
    NotExactProposer | HostAuthorityStale | HostAuthorityScope | WorkerGone | ProposerChanged | NoClaimAuthority
  | ManagerCredentialChanged | ManagerCredentialStale | NotTheManager | TaskNotClaimable | PolicyDenied string
  | LeaseNotReplaceable | AuthorityExpired | IntentNotPending | ClaimTaskGone

datatype claim_error = ClaimConflict claim_conflict | ClaimFenceStale | ClaimTask task_error

section \<open>The branch of a lease\<close>

definition slug_char :: "char \<Rightarrow> bool" where
  "slug_char c \<longleftrightarrow> (CHR ''a'' \<le> c \<and> c \<le> CHR ''z'') \<or> (CHR ''0'' \<le> c \<and> c \<le> CHR ''9'') \<or> c \<in> set ''._-''"

text \<open>Every run of other characters becomes one dash; the flag says that such a run has begun.\<close>

fun slug_runs :: "bool \<Rightarrow> string \<Rightarrow> string" where
  "slug_runs run [] = []"
| "slug_runs run (c # cs) =
     (if slug_char c then c # slug_runs False cs
      else if run then slug_runs True cs else CHR ''-'' # slug_runs True cs)"

definition slugify_branch_segment :: "string \<Rightarrow> string" where
  "slugify_branch_segment value =
     (let dash = (\<lambda>c. c = CHR ''-'');
          s = slug_runs False (js_lower (js_trim value));
          slug = take 64 (rev (dropWhile dash (rev (dropWhile dash s))))
      in if slug = [] then ''agent'' else slug)"

definition build_leased_branch_ref :: "string \<Rightarrow> string \<Rightarrow> string" where
  "build_leased_branch_ref task key = ''letagents/'' @ task @ ''/'' @ slugify_branch_segment key"

section \<open>The workers\<close>

text \<open>The earliest expiry of an authority; \<open>None\<close> is infinity.\<close>

definition earlier :: "int option \<Rightarrow> int \<Rightarrow> int option" where
  "earlier e x = Some (case e of None \<Rightarrow> x | Some y \<Rightarrow> min y x)"

fun lock_grants ::
  "string \<Rightarrow> agent_session list \<Rightarrow> int \<Rightarrow> coord_db \<Rightarrow> string list \<Rightarrow> int option \<Rightarrow> claim_error + int option" where
  "lock_grants room observed now db [] e = Inr e"
| "lock_grants room observed now db (i # is) e =
     bind_result (require (select_first (\<lambda>g. hg_id g = i) (grants db)) (ClaimConflict HostAuthorityStale)) (\<lambda>g.
     bind_result (guard_result (assert_supervisor_grant_fence
         \<lparr>gf_grant = i, gf_generation = hg_generation g, gf_token_version = hg_token_version g\<rparr> now db)
       (ClaimConflict HostAuthorityStale)) (\<lambda>_.
     bind_result (guard_result (\<forall>x \<in> set observed. as_grant x = Some i \<longrightarrow>
         hg_owner g = as_owner x \<and> room \<in> set (hg_rooms g) \<and> as_agent_key x \<in> set (hg_agent_keys g))
       (ClaimConflict HostAuthorityScope)) (\<lambda>_.
     lock_grants room observed now db is (earlier e (hg_expires_at g)))))"

definition worker_current :: "string \<Rightarrow> agent_session list \<Rightarrow> agent_session list \<Rightarrow> worker_ref \<Rightarrow> bool" where
  "worker_current room observed ss w \<longleftrightarrow>
     (case (select_first (\<lambda>x. as_id x = wk_session w) ss, select_first (\<lambda>x. as_id x = wk_session w) observed) of
        (Some x, Some before) \<Rightarrow>
          as_ended_at x = None \<and> as_worker x \<and> as_room x = room \<and> as_agent_key x = wk_key w \<and>
          as_instance x = wk_instance w \<and> as_grant x = as_grant before
      | _ \<Rightarrow> False)"

text \<open>\<open>lockWorkers\<close>; \<open>seen\<close> is the session table at the first read.\<close>

definition lock_workers ::
  "string \<Rightarrow> worker_ref list \<Rightarrow> agent_session list \<Rightarrow> int \<Rightarrow> coord_db
   \<Rightarrow> claim_error + agent_session list \<times> int option" where
  "lock_workers room workers seen now db =
     (let ids = map wk_session workers;
          observed = filter (\<lambda>x. as_id x \<in> set ids) seen;
          grant_ids = sort (remdups (List.map_filter as_grant observed))
      in bind_result (lock_grants room observed now db (filter (\<lambda>i. i \<noteq> []) grant_ids) None) (\<lambda>e.
         let ss = filter (\<lambda>x. as_id x \<in> set ids) (sessions db)
         in bind_result (guard_result (\<forall>w \<in> set workers. worker_current room observed ss w)
              (ClaimConflict WorkerGone)) (\<lambda>_. Inr (ss, e))))"

definition self_write :: string where
  "self_write = ''coordination.self_write''"

text \<open>The newest bearer of the proposing session that is not revoked.\<close>

definition newest_bearer :: "string \<Rightarrow> string \<Rightarrow> session_bearer list \<Rightarrow> session_bearer option" where
  "newest_bearer room session t =
     (case sort_key (\<lambda>b. - sb_generation b)
             (filter (\<lambda>b. sb_session b = session \<and> sb_room b = room \<and> sb_revoked_at b = None) t) of
        [] \<Rightarrow> None | b # _ \<Rightarrow> Some b)"

definition check_proposer ::
  "string \<Rightarrow> board_intent \<Rightarrow> worker_ref \<Rightarrow> agent_session list \<Rightarrow> int option \<Rightarrow> int \<Rightarrow> coord_db
   \<Rightarrow> claim_error + int option" where
  "check_proposer room initial w ss e now db =
     bind_result (require (select_first (\<lambda>x. as_id x = wk_session w) ss) (ClaimConflict ProposerChanged)) (\<lambda>x.
     bind_result (guard_result (Some (as_label x) = bi_label initial) (ClaimConflict ProposerChanged)) (\<lambda>_.
     if bi_auth initial \<noteq> Some BearerAuth then Inr e
     else bind_result (require (newest_bearer room (wk_session w) (bearers db)) (ClaimConflict NoClaimAuthority)) (\<lambda>b.
          bind_result (guard_result (now < sb_expires_at b \<and> sb_grant b = as_grant x \<and> self_write \<in> set (sb_capabilities b))
            (ClaimConflict NoClaimAuthority)) (\<lambda>_.
          Inr (earlier e (sb_expires_at b))))))"

definition manages :: "string \<Rightarrow> agent_session \<Rightarrow> manager_assignment \<Rightarrow> bool" where
  "manages room x m \<longleftrightarrow>
     ma_room m = room \<and> ma_session m = as_id x \<and> ma_agent_key m = as_agent_key x \<and>
     ma_status m = ActiveManager \<and> ma_released_at m = None"

definition check_manager ::
  "string \<Rightarrow> claim_manager \<Rightarrow> agent_session list \<Rightarrow> int option \<Rightarrow> int \<Rightarrow> coord_db \<Rightarrow> manager_assignment list
   \<Rightarrow> claim_error + int option" where
  "check_manager room cm ss e now db ms =
     bind_result (require (select_first (\<lambda>x. as_id x = wk_session (cm_worker cm)) ss) (ClaimConflict WorkerGone)) (\<lambda>x.
     bind_result (case cm_credential cm of
         TokenFence hash \<Rightarrow>
           bind_result (guard_result (as_token_hash x = hash) (ClaimConflict ManagerCredentialChanged)) (\<lambda>_. Inr e)
       | BearerFence i generation \<Rightarrow>
           bind_result (require (select_first (\<lambda>b. sb_session b = as_id x \<and> sb_id b = i \<and> sb_generation b = generation \<and>
               sb_revoked_at b = None) (bearers db)) (ClaimConflict ManagerCredentialStale)) (\<lambda>b.
           bind_result (guard_result (now < sb_expires_at b \<and> sb_room b = room \<and> sb_grant b = as_grant x \<and>
               self_write \<in> set (sb_capabilities b)) (ClaimConflict ManagerCredentialStale)) (\<lambda>_.
           Inr (earlier e (sb_expires_at b))))) (\<lambda>e'.
     bind_result (guard_result (\<exists>m \<in> set ms. manages room x m) (ClaimConflict NotTheManager)) (\<lambda>_. Inr e')))"

section \<open>The claim\<close>

definition claim_task_id :: "board_intent \<Rightarrow> string option" where
  "claim_task_id i =
     (case bi_task i of
        Some t \<Rightarrow> Some t
      | None \<Rightarrow> (case bi_payload i of JObj kvs \<Rightarrow> (case jget ''task_id'' kvs of Some (JStr t) \<Rightarrow> Some t | _ \<Rightarrow> None)
                 | _ \<Rightarrow> None))"

definition exact_claim :: "platform \<Rightarrow> string \<Rightarrow> board_intent \<Rightarrow> bool" where
  "exact_claim pf task i \<longleftrightarrow>
     truthy (bi_session i) \<and> truthy (bi_key i) \<and> truthy (bi_label i) \<and>
     bi_hash i = hash_board_intent_payload pf
       (payload_for_task_mutation task (Some ''assigned'') (bi_label i) (bi_key i) None)"

definition claim_update_of :: "board_intent \<Rightarrow> task_update" where
  "claim_update_of i = \<lparr>up_title = None, up_description = None, up_expected = None, up_status = Some Assigned,
     up_assignee = Some (bi_label i), up_assignee_key = Some (bi_key i), up_pr_url = None, up_artifacts = None\<rparr>"

definition claim_lease_of :: "board_intent \<Rightarrow> worker_ref \<Rightarrow> string \<Rightarrow> task_row \<Rightarrow> lease_input" where
  "claim_lease_of i w task t = \<lparr>li_room = bi_room i, li_task = task, li_kind = Work, li_agent_key = wk_key w,
     li_label = keep_or [] (bi_label i), li_created_by = keep_or [] (bi_label i), li_instance = wk_instance w,
     li_session = Some (wk_session w), li_branch = Some (build_leased_branch_ref task (wk_key w)), li_pr_url = None,
     li_output = Some (tr_title t), li_expires_at = None\<rparr>"

definition claim_approval_of :: "board_intent \<Rightarrow> worker_ref \<Rightarrow> string \<Rightarrow> consumption" where
  "claim_approval_of i w room = \<lparr>cn_room = room, cn_action = ActClaim, cn_payload = bi_payload i, cn_intent = Some (bi_id i),
     cn_token = None, cn_worker = Some (wk_session w, wk_key w)\<rparr>"

definition own_work_fence :: "string \<Rightarrow> string \<Rightarrow> worker_ref \<Rightarrow> task_lease option \<Rightarrow> lease_fence option" where
  "own_work_fence room task w existing =
     (case existing of
        None \<Rightarrow> None
      | Some l \<Rightarrow>
          if tl_session l = Some (wk_session w)
          then Some \<lparr>lf_lease = tl_id l, lf_room = room, lf_task = task, lf_kind = Work, lf_epoch = tl_epoch l,
                     lf_session = wk_session w\<rparr>
          else None)"

definition claimable :: "board_intent \<Rightarrow> task_row \<Rightarrow> bool" where
  "claimable i t \<longleftrightarrow>
     tr_status t = Accepted \<or>
     (tr_status t = Assigned \<and> tr_assignee_key t = bi_key i \<and> tr_assignee t = bi_label i)"

definition claim_actor :: "board_intent \<Rightarrow> worker_ref \<Rightarrow> actor" where
  "claim_actor i w = \<lparr>ca_label = bi_label i, ca_agent_key = Some (wk_key w), ca_instance = wk_instance w,
     ca_session = Some (wk_session w)\<rparr>"

definition room_locks :: "string \<Rightarrow> coord_lock list \<Rightarrow> coord_lock list" where
  "room_locks room ks = filter (\<lambda>k. lk_room k = room \<and> lk_cleared_at k = None) ks"

text \<open>The policy's decision: it may lack a lease, but nothing else.\<close>

definition check_policy ::
  "board_intent \<Rightarrow> worker_ref \<Rightarrow> string \<Rightarrow> task_lease list \<Rightarrow> coord_lock list \<Rightarrow> task_lease option \<Rightarrow> lease_fence option
   \<Rightarrow> int \<Rightarrow> claim_error + unit" where
  "check_policy i w task ls ks existing fence now =
     (case evaluate_mutation TaskClaim task Work (claim_actor i w) ls ks now of
        Deny code reason _ _ \<Rightarrow>
          bind_result (guard_result (code = MissingLease) (ClaimConflict (PolicyDenied reason))) (\<lambda>_.
          guard_result (existing = None) (ClaimConflict LeaseNotReplaceable))
      | Allow _ \<Rightarrow> guard_result (existing = None \<or> fence \<noteq> None) (ClaimConflict LeaseNotReplaceable))"

text \<open>An approval that was recorded earlier stands; otherwise the pending intent is approved.\<close>

definition claim_consent ::
  "platform \<Rightarrow> string \<Rightarrow> string \<Rightarrow> string \<Rightarrow> string option \<Rightarrow> string \<Rightarrow> int \<Rightarrow> task_db \<Rightarrow> claim_error + task_db" where
  "claim_consent pf token room decision_by reason intent now d =
     (case get_board_intent room intent (td_intents d) of
        None \<Rightarrow> Inl (ClaimConflict IntentNotPending)
      | Some r \<Rightarrow>
          if bi_status r = BiApproved then Inr d
          else (case approve_board_intent pf token room intent decision_by reason now (td_intents d) of
              (None, _) \<Rightarrow> Inl (ClaimConflict IntentNotPending)
            | (Some _, t) \<Rightarrow> Inr (d\<lparr>td_intents := t\<rparr>)))"

definition claim_update_options :: "board_intent \<Rightarrow> worker_ref \<Rightarrow> string \<Rightarrow> string \<Rightarrow> lease_fence option \<Rightarrow> task_row \<Rightarrow> update_options" where
  "claim_update_options i w room task fence t =
     \<lparr>uo_approval = Some (claim_approval_of i w room),
      uo_lease = (if fence = None then Some (claim_lease_of i w task t) else None), uo_fence = fence\<rparr>"

definition claim_marked :: "board_intent \<Rightarrow> string \<Rightarrow> string \<Rightarrow> int \<Rightarrow> task_db \<Rightarrow> task_db" where
  "claim_marked i room task now d =
     (if truthy (bi_task i) then d
      else d\<lparr>td_intents := snd (mark_board_intent_task_result room (bi_id i) task now (td_intents d))\<rparr>)"

text \<open>The approval, the update of the task and the result, after all checks.\<close>

definition claim_writes ::
  "url_parser \<Rightarrow> platform \<Rightarrow> string \<Rightarrow> string \<Rightarrow> string \<Rightarrow> string \<Rightarrow> string option \<Rightarrow> board_intent \<Rightarrow> worker_ref \<Rightarrow> string
   \<Rightarrow> lease_fence option \<Rightarrow> task_row \<Rightarrow> int \<Rightarrow> task_db
   \<Rightarrow> claim_error + (board_intent option \<times> task_row option) \<times> task_db" where
  "claim_writes up pf new_id token room decision_by reason initial w task fence t now d =
     bind_result (claim_consent pf token room decision_by reason (bi_id initial) now d) (\<lambda>d1.
     case update_task up pf new_id room task (claim_update_of initial)
            (claim_update_options initial w room task fence t) now d1 of
       (Inl e, _) \<Rightarrow> Inl (ClaimTask e)
     | (Inr None, _) \<Rightarrow> Inl (ClaimConflict ClaimTaskGone)
     | (Inr (Some row), d2) \<Rightarrow>
         (let d3 = claim_marked initial room task now d2
          in Inr ((get_board_intent room (bi_id initial) (td_intents d3), Some row), d3)))"

definition claim_worker :: "board_intent \<Rightarrow> worker_ref" where
  "claim_worker i = \<lparr>wk_session = the (bi_session i), wk_key = the (bi_key i), wk_instance = bi_instance i\<rparr>"

definition claim_authority ::
  "string \<Rightarrow> board_intent \<Rightarrow> claim_manager option \<Rightarrow> agent_session list \<Rightarrow> manager_assignment list \<Rightarrow> int \<Rightarrow> coord_db
   \<Rightarrow> claim_error + int option" where
  "claim_authority room initial manager seen ms now c =
     (let w = claim_worker initial
      in bind_result (lock_workers room (case manager of None \<Rightarrow> [w] | Some cm \<Rightarrow> [w, cm_worker cm]) seen now c) (\<lambda>(ss, e).
         bind_result (check_proposer room initial w ss e now c) (\<lambda>e1.
         case manager of None \<Rightarrow> Inr e1 | Some cm \<Rightarrow> check_manager room cm ss e1 now c ms)))"

definition swept_coord :: "string \<Rightarrow> int \<Rightarrow> coord_db \<Rightarrow> coord_db" where
  "swept_coord room now c = c\<lparr>leases := expire_stale_task_leases room now (leases c)\<rparr>"

text \<open>The transaction from the sweep of the leases on.\<close>

definition claim_under_locks ::
  "url_parser \<Rightarrow> platform \<Rightarrow> string \<Rightarrow> string \<Rightarrow> string \<Rightarrow> string \<Rightarrow> string option \<Rightarrow> claim_manager option
   \<Rightarrow> board_intent \<Rightarrow> agent_session list \<Rightarrow> coord_lock list \<Rightarrow> manager_assignment list \<Rightarrow> string \<Rightarrow> int \<Rightarrow> int \<Rightarrow> task_db
   \<Rightarrow> claim_error + (board_intent option \<times> task_row option) \<times> task_db" where
  "claim_under_locks up pf new_id token room decision_by reason manager initial seen locks ms task number now d =
     (let w = claim_worker initial;
          d1 = d\<lparr>td_coord := swept_coord room now (td_coord d)\<rparr>;
          active = filter (\<lambda>l. tl_room l = room \<and> tl_task l = task \<and> tl_status l = Active) (leases (td_coord d1));
          existing = select_first (\<lambda>l. tl_kind l = Work) active;
          fence = own_work_fence room task w existing;
          current = get_board_intent room (bi_id initial) (td_intents d1)
      in
      bind_result (guard_result (case fence of None \<Rightarrow> True | Some f \<Rightarrow> acquire_lease_fence f (td_coord d1) \<noteq> None)
        ClaimFenceStale) (\<lambda>_.
      bind_result (claim_authority room initial manager seen ms now (td_coord d1)) (\<lambda>expires.
      if (case current of None \<Rightarrow> False | Some r \<Rightarrow> bi_status r = BiUsed)
      then Inr ((current, select_first (the_task room number) (td_tasks d1)), d1)
      else
      bind_result (require (select_first (the_task room number) (td_tasks d1)) (ClaimConflict TaskNotClaimable)) (\<lambda>t.
      bind_result (guard_result (claimable initial t) (ClaimConflict TaskNotClaimable)) (\<lambda>_.
      bind_result (check_policy initial w task active (room_locks room locks) existing fence now) (\<lambda>_.
      bind_result (guard_result (case expires of None \<Rightarrow> True | Some x \<Rightarrow> now < x) (ClaimConflict AuthorityExpired)) (\<lambda>_.
      claim_writes up pf new_id token room decision_by reason initial w task fence t now d1)))))))"

text \<open>The null result is \<open>None\<close>; a used intent is a receipt.\<close>

definition approve_claim_body ::
  "url_parser \<Rightarrow> platform \<Rightarrow> string \<Rightarrow> string \<Rightarrow> string \<Rightarrow> string \<Rightarrow> string option \<Rightarrow> claim_manager option
   \<Rightarrow> board_intent option \<Rightarrow> agent_session list \<Rightarrow> coord_lock list \<Rightarrow> manager_assignment list \<Rightarrow> int \<Rightarrow> task_db
   \<Rightarrow> claim_error + (board_intent option \<times> task_row option) option \<times> task_db" where
  "approve_claim_body up pf new_id token room decision_by reason manager read seen locks ms now d =
     (case read of
        None \<Rightarrow> Inr (None, d)
      | Some initial \<Rightarrow>
        if bi_action initial \<noteq> ActClaim \<or> bi_auth initial = None then Inr (None, d)
        else
        bind_result (require (claim_task_id initial) (ClaimConflict NotExactProposer)) (\<lambda>task.
        bind_result (require (parse_task_id task) (ClaimConflict NotExactProposer)) (\<lambda>number.
        bind_result (guard_result (exact_claim pf task initial) (ClaimConflict NotExactProposer)) (\<lambda>_.
        if bi_status initial = BiUsed
        then Inr (Some (get_board_intent room (bi_id initial) (td_intents d),
                        get_task_row_by_id room task (td_tasks d)), d)
        else
        bind_result (claim_under_locks up pf new_id token room decision_by reason manager initial seen locks ms task number now d)
          (\<lambda>(r, d'). Inr (Some r, d'))))))"

definition approve_task_claim_board_intent ::
  "url_parser \<Rightarrow> platform \<Rightarrow> string \<Rightarrow> string \<Rightarrow> string \<Rightarrow> string \<Rightarrow> string option \<Rightarrow> claim_manager option
   \<Rightarrow> board_intent option \<Rightarrow> agent_session list \<Rightarrow> coord_lock list \<Rightarrow> manager_assignment list \<Rightarrow> int \<Rightarrow> task_db
   \<Rightarrow> (claim_error + (board_intent option \<times> task_row option) option) \<times> task_db" where
  "approve_task_claim_board_intent up pf new_id token room decision_by reason manager read seen locks ms now d =
     transaction (approve_claim_body up pf new_id token room decision_by reason manager read seen locks ms now) d"

end
