(* ===== verification/BoardRuns.thy ===== *)
theory BoardRuns
  imports IntentSafety ClaimApproval LeaseSafety
begin

text \<open>
  The board over time: one step relation for everything that writes board intents, tasks and work leases,
  with the handlers of \<open>TaskUpdates\<close> and \<open>IntentEscalation\<close> as they are. An update that reads a task before
  it writes is a step with an arbitrary row that was read. The lease fence of \<open>LeaseSafety\<close> is interpreted
  on these steps.
\<close>

section \<open>Changes of the tables\<close>

definition coord_change :: "coord_db \<Rightarrow> coord_db \<Rightarrow> bool" where
  "coord_change c c' \<longleftrightarrow>
     leases_evolve (leases c) (leases c') \<and> (leases_wf (leases c) \<longrightarrow> leases_wf (leases c'))"

definition task_change :: "task_db \<Rightarrow> task_db \<Rightarrow> bool" where
  "task_change d d' \<longleftrightarrow> intent_change (td_intents d) (td_intents d') \<and> coord_change (td_coord d) (td_coord d')"

lemma leases_evolve_trans:
  assumes "leases_evolve t u" "leases_evolve u v"
  shows "leases_evolve t v"
proof -
  have "lease_evolves a c" if "lease_evolves a b" "lease_evolves b c" for a b c
    using that by (auto simp: lease_evolves_def)
  with assms show ?thesis unfolding leases_evolve_def by metis
qed

lemma coord_change_refl [simp]: "coord_change c c"
  by (simp add: coord_change_def)

lemma coord_change_trans: "coord_change c d \<Longrightarrow> coord_change d e \<Longrightarrow> coord_change c e"
  unfolding coord_change_def using leases_evolve_trans by blast

lemma coord_step_change: "coord_step c c' \<Longrightarrow> coord_change c c'"
  unfolding coord_change_def using coord_step_evolve coord_step_wf by blast

lemma task_change_refl [simp]: "task_change d d"
  by (simp add: task_change_def)

lemma task_change_trans: "task_change c d \<Longrightarrow> task_change d e \<Longrightarrow> task_change c e"
  unfolding task_change_def using intent_change_trans coord_change_trans by blast

text \<open>The same, but for the mark of an automatic approval.\<close>

definition task_progress :: "task_db \<Rightarrow> task_db \<Rightarrow> bool" where
  "task_progress d d' \<longleftrightarrow> intent_progress (td_intents d) (td_intents d') \<and> coord_change (td_coord d) (td_coord d')"

lemma task_change_progress: "task_change d d' \<Longrightarrow> task_progress d d'"
  by (simp add: task_change_def task_progress_def intent_change_progress)

lemma task_progress_trans: "task_progress c d \<Longrightarrow> task_progress d e \<Longrightarrow> task_progress c e"
  unfolding task_progress_def using intent_progress_trans coord_change_trans by blast

text \<open>Changes of the other tables of a task database are no change for the intents and the leases.\<close>

lemma task_change_other:
  "td_intents d' = td_intents d \<Longrightarrow> td_coord d' = td_coord d \<Longrightarrow> task_change d d'"
  by (simp add: task_change_def)

lemma insert_lease_change:
  "insert_lease r (leases c) = Some ls \<Longrightarrow> coord_change c (c\<lparr>leases := ls\<rparr>)"
  unfolding coord_change_def
  by (auto simp: insert_lease_wf leases_evolve_append insert_lease_def split: if_splits)

section \<open>The operations on tasks\<close>

lemma consume_in_change:
  assumes "consume_in pf approval now later d = Inr d'"
  shows "task_change d d'" "td_tasks d' = td_tasks d" "td_coord d' = td_coord d" "td_sequences d' = td_sequences d"
    "td_artifacts d' = td_artifacts d"
  using assms assert_consume_change
  by (auto simp: consume_in_def task_change_def split: option.splits sum.splits)

lemma insert_task_row_change:
  assumes "insert_task_row pf room inp now later d = r"
  shows "case r of Inl (e, d') \<Rightarrow> task_change d d' | Inr (row, d') \<Rightarrow> task_change d d'"
proof (cases "consume_in pf (ti_approval inp) now later d")
  case (Inl e)
  with assms show ?thesis by (auto simp: insert_task_row_def)
next
  case (Inr d1)
  note c = consume_in_change(1) [OF Inr]
  obtain number seqs where n: "next_room_scoped_number ''tasks'' room (td_sequences d1) = (number, seqs)"
    by (cases "next_room_scoped_number ''tasks'' room (td_sequences d1)") auto
  have mark: "task_change d (d1\<lparr>td_sequences := seqs, td_tasks := ts,
      td_intents := snd (mark_board_intent_task_result room i tid later (td_intents d1))\<rparr>)" for ts i tid
    using c mark_change intent_change_trans by (fastforce simp: task_change_def)
  have plain: "task_change d (d1\<lparr>td_sequences := seqs, td_tasks := ts\<rparr>)" "task_change d (d1\<lparr>td_sequences := seqs\<rparr>)" for ts
    using c by (simp_all add: task_change_def)
  from Inr n assms mark plain show ?thesis
    by (auto simp: insert_task_row_def Let_def split: option.splits)
qed

lemma create_task_change:
  "create_task pf room inp now later d = (r, d') \<Longrightarrow> task_change d d'"
  using insert_task_row_change [of pf room inp now later d, OF refl]
  by (auto simp: create_task_def split: sum.splits prod.splits if_splits)

text \<open>What a successful approval of a new task did.\<close>

lemma approve_task_create_cases:
  assumes "approve_task_create_board_intent pf token room intent by reason now d = Inr (r, d')"
  obtains (unchanged) "r = None" "d' = d"
  | (undecided) t where "approve_board_intent pf token room intent by reason now (td_intents d) = (None, t)"
      "r = None" "d' = d\<lparr>td_intents := t\<rparr>"
  | (approved) existing i t title description source row where
      "get_board_intent room intent (td_intents d) = Some existing" "bi_action existing = ActCreate"
      "approve_board_intent pf token room intent by reason now (td_intents d) = (Some (i, token), t)"
      "normalize_task_create_board_intent_payload (bi_payload i) = Some (title, description, source)"
      "insert_task_row pf room
         \<lparr>ti_title = title, ti_created_by = (case bi_label i of None \<Rightarrow> by | Some l \<Rightarrow> l),
          ti_description = description, ti_source_message = source,
          ti_approval = Some \<lparr>cn_room = room, cn_action = ActCreate, cn_payload = bi_payload i,
            cn_intent = Some (bi_id i), cn_token = Some token, cn_worker = None\<rparr>,
          ti_client_id = None\<rparr> now now (d\<lparr>td_intents := t\<rparr>) = Inr (row, d')"
      "r = Some (case get_board_intent room (bi_id i) (td_intents d') of
                   Some j \<Rightarrow> j
                 | None \<Rightarrow> i\<lparr>bi_status := BiUsed, bi_task := Some (format_task_id (tr_number row))\<rparr>, token, row)"
proof (cases "get_board_intent room intent (td_intents d)")
  case None
  with assms show ?thesis by (intro unchanged) (simp_all add: approve_task_create_board_intent_def)
next
  case e: (Some existing)
  show ?thesis
  proof (cases "bi_action existing = ActCreate")
    case False
    with assms e show ?thesis by (intro unchanged) (simp_all add: approve_task_create_board_intent_def)
  next
    case True
    obtain a t where a: "approve_board_intent pf token room intent by reason now (td_intents d) = (a, t)"
      by (cases "approve_board_intent pf token room intent by reason now (td_intents d)")
    show ?thesis
    proof (cases a)
      case None
      with assms e True a show ?thesis by (intro undecided [of t]) (auto simp: approve_task_create_board_intent_def)
    next
      case (Some it)
      then obtain i where i: "a = Some (i, token)"
        using a by (auto simp: approve_board_intent_def Let_def)
      with assms e True a obtain title description source where
        n: "normalize_task_create_board_intent_payload (bi_payload i) = Some (title, description, source)"
        by (auto simp: approve_task_create_board_intent_def bind_result_Inr require_Inr)
      let ?ins = "insert_task_row pf room
         \<lparr>ti_title = title, ti_created_by = (case bi_label i of None \<Rightarrow> by | Some l \<Rightarrow> l),
          ti_description = description, ti_source_message = source,
          ti_approval = Some \<lparr>cn_room = room, cn_action = ActCreate, cn_payload = bi_payload i,
            cn_intent = Some (bi_id i), cn_token = Some token, cn_worker = None\<rparr>,
          ti_client_id = None\<rparr> now now (d\<lparr>td_intents := t\<rparr>)"
      obtain row d2 where ins: "?ins = Inr (row, d2)"
        using assms e True a i n
        by (cases ?ins) (auto simp: approve_task_create_board_intent_def)
      with assms e True a i n show ?thesis
        by (intro approved [of existing i t title description source row])
          (auto simp: approve_task_create_board_intent_def)
    qed
  qed
qed

lemma approve_task_create_change:
  assumes "approve_task_create_board_intent pf token room intent by reason now d = Inr (r, d')"
  shows "task_change d d'"
proof -
  have a: "task_change d (d\<lparr>td_intents := t\<rparr>)"
    if "approve_board_intent pf token room intent by reason now (td_intents d) = (x, t)" for x t
    using approve_change [of "td_intents d" pf token room intent "by" reason now] that by (simp add: task_change_def)
  show ?thesis
    using assms
  proof (cases rule: approve_task_create_cases)
    case (approved existing i t title description source row)
    then show ?thesis using a [OF approved(3)] insert_task_row_change [OF approved(5)] task_change_trans by auto
  qed (use a in auto)
qed

lemma write_task_update_change:
  "write_task_update url_parse room n u seen now d = Inr (r, d') \<Longrightarrow> task_change d d'"
  by (auto simp: write_task_update_def Let_def task_change_def split: option.splits if_splits)

lemma write_work_lease_change:
  "write_work_lease i room task lease now d = Inr d' \<Longrightarrow> task_change d d'"
  using insert_lease_change by (auto simp: write_work_lease_def task_change_def split: option.splits)

lemma refs_change: "coord_change c (snd (update_task_lease_workflow_refs room l b u now c))"
  by (rule coord_step_change, rule coord_step.refs, rule prod.collapse [symmetric])

lemma side_effects_change: "task_change d (write_artifact_side_effects url_parse room task u uo seen now d)"
  using refs_change by (auto simp: write_artifact_side_effects_def Let_def task_change_def split: option.splits)

lemma update_in_transaction_change:
  assumes "update_in_transaction url_parse pf i room task n u uo seen now d = Inr (r, d')"
  shows "task_change d d'"
proof -
  from assms obtain retry where retry: "fence_phase url_parse room task n u uo seen now d = Inr retry"
    by (auto simp: update_in_transaction_def bind_result_Inr)
  show ?thesis
  proof (cases retry)
    case (Some row)
    with assms retry show ?thesis by (simp add: update_in_transaction_def)
  next
    case None
    with assms retry obtain d1 w d2 d3 where
        s: "consume_in pf (uo_approval uo) now now d = Inr d1"
          "write_task_update url_parse room n u seen now d1 = Inr (w, d2)"
          "write_work_lease i room task (uo_lease uo) now d2 = Inr d3"
      and d': "d' = (if uo_fence uo = None then d3 else write_artifact_side_effects url_parse room task u uo seen now d3)"
      by (auto simp: update_in_transaction_def bind_result_Inr)
    have "task_change d d3"
      using consume_in_change(1) [OF s(1)] write_task_update_change [OF s(2)] write_work_lease_change [OF s(3)]
        task_change_trans by blast
    then show ?thesis using d' side_effects_change task_change_trans by auto
  qed
qed

lemma update_task_write_change:
  assumes "update_task_write url_parse pf i room task u uo seen now d = (r, d')"
  shows "task_change d d'"
proof (cases "update_checks url_parse room task u uo seen")
  case (Inl e)
  with assms show ?thesis by (simp add: update_task_write_def)
next
  case ok: (Inr v)
  show ?thesis
  proof (cases "parse_task_id task")
    case None
    with assms ok show ?thesis by (simp add: update_task_write_def)
  next
    case (Some n)
    have tx: "task_change d d2"
      if "transaction (update_in_transaction url_parse pf i room task n u uo seen now) d = (x, d2)" for x d2
      using that by (cases rule: transaction_cases) (auto dest: update_in_transaction_change)
    have plain: "task_change d d2" if "write_task_update url_parse room n u seen now d = Inr (x, d2)" for x d2
      using write_task_update_change [OF that] .
    show ?thesis
      using assms ok Some tx plain task_change_trans [OF _ side_effects_change]
      by (fastforce simp: update_task_write_def split: if_splits prod.splits sum.splits)
  qed
qed

lemma dispose_change:
  "coord_change (c\<lparr>leases := ls\<rparr>) (c\<lparr>leases := update_where (disposed_lease a now) (disposed_row a now) ls\<rparr>)"
proof -
  have "narrows (disposed_row a now)" by (simp add: narrows_def disposed_row_def)
  then show ?thesis
    unfolding coord_change_def
    by (auto intro!: leases_evolve_update update_where_wf simp: disposed_row_def lease_evolves_def)
qed

lemma expire_coord_change: "coord_change c (c\<lparr>leases := expire_stale_task_leases room now (leases c)\<rparr>)"
  by (simp add: coord_change_def expire_evolve expire_wf)

lemma lease_action_change:
  assumes "apply_task_work_lease_action pf i a now ds d = (r, d')"
  shows "task_change d d'"
proof -
  let ?c1 = "(td_coord d)\<lparr>leases := expire_stale_task_leases (la_room a) now (leases (td_coord d))\<rparr>"
  let ?c2 = "?c1\<lparr>leases := update_where (disposed_lease a now) (disposed_row a now)
      (expire_stale_task_leases (la_room a) now (leases (td_coord d)))\<rparr>"
  have c: "coord_change (td_coord d) ?c1" "coord_change (td_coord d) ?c2"
    using expire_coord_change coord_change_trans dispose_change by (blast, fastforce)
  have swept: "task_change d (d\<lparr>td_coord := ?c1\<rparr>)" "task_change d (d\<lparr>td_coord := ?c2, td_tasks := ts\<rparr>)" for ts
    using c by (simp_all add: task_change_def)
  have rest: "task_change d d4"
    if "consume_in pf (la_approval a) now now (d\<lparr>td_coord := ?c2, td_tasks := ts\<rparr>) = Inr d3"
      "write_work_lease i (la_room a) (la_task a) (la_new a) now d3 = Inr d4" for ts d3 d4
    using swept(2) consume_in_change(1) [OF that(1)] write_work_lease_change [OF that(2)] task_change_trans by blast
  show ?thesis
    using assms unfolding apply_task_work_lease_action_def
  proof (cases rule: transaction_cases)
    case (committed x)
    then show ?thesis
      using swept rest
      by (auto simp: lease_action_body_def Let_def bind_result_Inr split: option.splits if_splits)
  qed simp
qed

text \<open>Approving a claim.\<close>

lemma update_task_change: "update_task up pf i room task u uo now d = (r, d') \<Longrightarrow> task_change d d'"
  by (auto simp: update_task_def split: option.splits dest: update_task_write_change)

lemma swept_change: "task_change d (d\<lparr>td_coord := swept_coord room now (td_coord d)\<rparr>)"
  using expire_coord_change by (simp add: task_change_def swept_coord_def)

lemma claim_consent_change:
  assumes "claim_consent pf token room decider reason intent now d = Inr d'"
  shows "task_change d d'"
proof -
  obtain x ts where a: "approve_board_intent pf token room intent decider reason now (td_intents d) = (x, ts)" by fastforce
  with assms have "d' = d \<or> d' = d\<lparr>td_intents := ts\<rparr>"
    by (auto simp: claim_consent_def split: option.splits if_splits)
  then show ?thesis
    using a approve_change [of "td_intents d" pf token room intent decider reason now] by (auto simp: task_change_def)
qed

lemma claim_marked_change: "task_change d (claim_marked i room task now d)"
  using mark_change by (simp add: task_change_def claim_marked_def)

lemma claim_writes_Inr:
  assumes "claim_writes up pf i token room decider reason initial w task fence t now d = Inr (r, d')"
  obtains d1 d2 row where "claim_consent pf token room decider reason (bi_id initial) now d = Inr d1"
    "update_task up pf i room task (claim_update_of initial) (claim_update_options initial w room task fence t) now d1 = (Inr (Some row), d2)"
    "d' = claim_marked initial room task now d2" "r = (get_board_intent room (bi_id initial) (td_intents d'), Some row)"
proof -
  from assms obtain d1 where d1: "claim_consent pf token room decider reason (bi_id initial) now d = Inr d1"
    by (auto simp: claim_writes_def bind_result_Inr)
  obtain x d2 where x: "update_task up pf i room task (claim_update_of initial)
      (claim_update_options initial w room task fence t) now d1 = (x, d2)" by fastforce
  with assms d1 obtain row where "x = Inr (Some row)"
    by (auto simp: claim_writes_def Let_def split: sum.splits option.splits)
  with assms d1 x show ?thesis by (intro that [OF d1, of row d2]) (auto simp: claim_writes_def Let_def)
qed

lemma claim_writes_change:
  assumes "claim_writes up pf i token room decider reason initial w task fence t now d = Inr (r, d')"
  shows "task_change d d'"
  using assms
proof (rule claim_writes_Inr)
  fix d1 d2 row
  assume a: "claim_consent pf token room decider reason (bi_id initial) now d = Inr d1"
    "update_task up pf i room task (claim_update_of initial) (claim_update_options initial w room task fence t) now d1 = (Inr (Some row), d2)"
    "d' = claim_marked initial room task now d2"
  from claim_consent_change [OF a(1)] update_task_change [OF a(2)] show ?thesis
    unfolding a(3) using claim_marked_change task_change_trans by blast
qed

text \<open>What a claim that was approved has passed.\<close>

lemma claim_under_locks_cases:
  assumes "claim_under_locks up pf i token room decider reason manager initial seen locks ms task n now d = Inr (r, d')"
  obtains (receipt) x where "get_board_intent room (bi_id initial) (td_intents d) = Some x" "bi_status x = BiUsed"
      "d' = d\<lparr>td_coord := swept_coord room now (td_coord d)\<rparr>" "fst r = Some x"
  | (claimed) expires t existing fence where
      "existing = select_first (\<lambda>l. tl_kind l = Work) (filter (\<lambda>l. tl_room l = room \<and> tl_task l = task \<and> tl_status l = Active)
         (leases (swept_coord room now (td_coord d))))"
      "fence = own_work_fence room task (claim_worker initial) existing"
      "claim_authority room initial manager seen ms now (swept_coord room now (td_coord d)) = Inr expires"
      "select_first (the_task room n) (td_tasks d) = Some t" "claimable initial t"
      "check_policy initial (claim_worker initial) task (filter (\<lambda>l. tl_room l = room \<and> tl_task l = task \<and> tl_status l = Active)
         (leases (swept_coord room now (td_coord d)))) (room_locks room locks) existing fence now = Inr ()"
      "case expires of None \<Rightarrow> True | Some x \<Rightarrow> now < x"
      "claim_writes up pf i token room decider reason initial (claim_worker initial) task fence t now
         (d\<lparr>td_coord := swept_coord room now (td_coord d)\<rparr>) = Inr (r, d')"
proof -
  let ?d1 = "d\<lparr>td_coord := swept_coord room now (td_coord d)\<rparr>"
  let ?active = "filter (\<lambda>l. tl_room l = room \<and> tl_task l = task \<and> tl_status l = Active) (leases (swept_coord room now (td_coord d)))"
  let ?existing = "select_first (\<lambda>l. tl_kind l = Work) ?active"
  let ?current = "get_board_intent room (bi_id initial) (td_intents d)"
  note u = assms [unfolded claim_under_locks_def Let_def bind_result_Inr require_Inr guard_result_Inr, simplified]
  from u obtain expires where e: "claim_authority room initial manager seen ms now (swept_coord room now (td_coord d)) = Inr expires"
    by blast
  show ?thesis
  proof (cases "case ?current of None \<Rightarrow> False | Some r \<Rightarrow> bi_status r = BiUsed")
    case True
    then obtain x where x: "?current = Some x" "bi_status x = BiUsed" by (auto split: option.splits)
    with u show ?thesis by (intro receipt [of x]) auto
  next
    case False
    with u e obtain t where "select_first (the_task room n) (td_tasks d) = Some t" "claimable initial t"
      "check_policy initial (claim_worker initial) task ?active (room_locks room locks) ?existing
         (own_work_fence room task (claim_worker initial) ?existing) now = Inr ()"
      "case expires of None \<Rightarrow> True | Some x \<Rightarrow> now < x"
      "claim_writes up pf i token room decider reason initial (claim_worker initial) task
         (own_work_fence room task (claim_worker initial) ?existing) t now ?d1 = Inr (r, d')"
      by (auto simp: bind_result_Inr require_Inr guard_result_Inr)
    with e show ?thesis by (intro claimed [OF refl refl e])
  qed
qed

lemma approve_claim_cases:
  assumes "approve_task_claim_board_intent up pf i token room decider reason manager read seen locks ms now d = (r, d')"
  obtains (kept) "d' = d" "\<And>x. r = Inr (Some x) \<Longrightarrow> \<exists>initial. read = Some initial \<and> bi_status initial = BiUsed"
  | (locked) initial task n x where "read = Some initial" "bi_action initial = ActClaim" "bi_status initial \<noteq> BiUsed"
      "claim_task_id initial = Some task" "parse_task_id task = Some n" "exact_claim pf task initial" "r = Inr (Some x)"
      "claim_under_locks up pf i token room decider reason manager initial seen locks ms task n now d = Inr (x, d')"
  using assms unfolding approve_task_claim_board_intent_def
proof (cases rule: transaction_cases)
  case (committed x)
  show ?thesis
  proof (cases read)
    case None
    with committed show ?thesis by (intro kept) (simp_all add: approve_claim_body_def)
  next
    case (Some initial)
    show ?thesis
    proof (cases "bi_action initial \<noteq> ActClaim \<or> bi_auth initial = None")
      case True
      with committed Some show ?thesis by (intro kept) (simp_all add: approve_claim_body_def)
    next
      case False
      then obtain auth where auth: "bi_auth initial = Some auth" "bi_action initial = ActClaim" by auto
      with committed(2) Some obtain task n where t: "claim_task_id initial = Some task" "parse_task_id task = Some n"
        "exact_claim pf task initial"
        by (auto simp: approve_claim_body_def bind_result_Inr require_Inr guard_result_Inr)
      show ?thesis
      proof (cases "bi_status initial = BiUsed")
        case True
        with committed Some auth t show ?thesis by (intro kept) (simp_all add: approve_claim_body_def)
      next
        case unused: False
        with committed(2) Some auth t have "bind_result (claim_under_locks up pf i token room decider reason manager initial seen
            locks ms task n now d) (\<lambda>(r, d'). Inr (Some r, d')) = Inr (x, d')"
          by (simp add: approve_claim_body_def)
        then obtain y where "claim_under_locks up pf i token room decider reason manager initial seen locks ms task n now d = Inr (y, d')"
          "x = Some y"
          by (auto simp: bind_result_Inr)
        with Some False t unused committed(1) show ?thesis by (intro locked) auto
      qed
    qed
  qed
qed (auto intro: kept)

lemma claim_approval_change:
  assumes "approve_task_claim_board_intent up pf i token room decider reason manager read seen locks ms now d = (r, d')"
  shows "task_change d d'"
  using assms
proof (cases rule: approve_claim_cases)
  case (locked initial task n x)
  from locked(8) show ?thesis
  proof (cases rule: claim_under_locks_cases)
    case (receipt y)
    then show ?thesis using swept_change by simp
  next
    case (claimed expires t existing fence)
    show ?thesis using claim_writes_change [OF claimed(8)] swept_change task_change_trans by blast
  qed
qed simp

section \<open>The escalation transactions\<close>

lemma bd_intents_with [simp]: "bd_intents (with_intents f db) = f (bd_intents db)"
  by (simp add: with_intents_def)

lemma td_with_intents [simp]:
  "td_coord (bd_tasks (with_intents f db)) = td_coord (bd_tasks db)"
  "td_tasks (bd_tasks (with_intents f db)) = td_tasks (bd_tasks db)"
  "bd_messages (with_intents f db) = bd_messages db" "bd_managers (with_intents f db) = bd_managers db"
  "bd_settings (with_intents f db) = bd_settings db" "bd_deliveries (with_intents f db) = bd_deliveries db"
  by (simp_all add: with_intents_def)

lemma with_intents_change: "intent_change (bd_intents db) (f (bd_intents db)) \<Longrightarrow>
    task_change (bd_tasks db) (bd_tasks (with_intents f db))"
  by (simp add: task_change_def)

text \<open>The result of a message with a hook.\<close>

lemma emit_cases:
  assumes "emit_project_message room client hook db = (r, db')"
  obtains (failed) e where "r = Inl e" "db' = db" "(room, client) \<notin> set (bd_messages db)"
      "hook (db\<lparr>bd_messages := bd_messages db @ [(room, client)]\<rparr>) = Inl e"
  | (replayed) "r = Inr None" "db' = db" "(room, client) \<in> set (bd_messages db)"
  | (posted) a where "r = Inr (Some a)" "(room, client) \<notin> set (bd_messages db)"
      "hook (db\<lparr>bd_messages := bd_messages db @ [(room, client)]\<rparr>) = Inr (a, db')"
  using assms unfolding emit_project_message_def
proof (cases rule: transaction_cases)
  case (rolled_back e)
  then show ?thesis by (intro failed) (auto simp: bind_result_def split: if_splits sum.splits prod.splits)
next
  case (committed x)
  then show ?thesis
    by (cases "(room, client) \<in> set (bd_messages db)")
      (auto intro: replayed posted simp: bind_result_Inr split: prod.splits)
qed

lemma quiet_cases:
  assumes "quiet_errors (x, db1) = (r, db')"
  obtains "db' = db1" "r = x" | e where "db' = db1" "x = Inl e" "r = Inr None"
  using assms by (auto simp: quiet_errors_def split: sum.splits escalation_error.splits)

lemma auto_approve_hook_Inr:
  assumes "auto_approve_hook pf token room intent key check now db = Inr (row, db')"
  obtains t i tok row0 tdb ts where
    "claim_board_intent_escalation room intent check (bd_intents db) = (True, t)"
    "assert_auto_approval_eligibility room key intent_auto_approve_window intent_auto_approve_max check
       (with_intents (\<lambda>_. t) db) = Inr ()"
    "approve_task_create_board_intent pf token room intent escalation_actor
       (Some ''Auto-approved: no Board Manager responded within the escalation window.'') now
       ((bd_tasks db)\<lparr>td_intents := t\<rparr>) = Inr (Some (i, tok, row0), tdb)"
    "accept_proposed_task room (format_task_id (tr_number row0)) now (td_tasks tdb) = (True, ts)"
    "row = row0\<lparr>tr_status := Accepted\<rparr>"
    "db' = with_intents (mark_board_intent_auto_approved room intent now)
       (db\<lparr>bd_tasks := tdb\<lparr>td_tasks := ts\<rparr>\<rparr>)"
proof -
  obtain claimed t where c: "claim_board_intent_escalation room intent check (bd_intents db) = (claimed, t)"
    by (cases "claim_board_intent_escalation room intent check (bd_intents db)")
  have w: "with_intents (\<lambda>_. t) db = db\<lparr>bd_tasks := (bd_tasks db)\<lparr>td_intents := t\<rparr>\<rparr>"
    by (simp add: with_intents_def)
  from assms c obtain i tok row0 tdb where
    a: "claimed" "assert_auto_approval_eligibility room key intent_auto_approve_window intent_auto_approve_max check
       (with_intents (\<lambda>_. t) db) = Inr ()"
      "approve_task_create_board_intent pf token room intent escalation_actor
       (Some ''Auto-approved: no Board Manager responded within the escalation window.'') now
       ((bd_tasks db)\<lparr>td_intents := t\<rparr>) = Inr (Some (i, tok, row0), tdb)"
    by (auto simp: auto_approve_hook_def Let_def w bind_result_Inr guard_result_Inr require_Inr
        split: sum.splits)
  obtain ok ts where k: "accept_proposed_task room (format_task_id (tr_number row0)) now (td_tasks tdb) = (ok, ts)"
    by (cases "accept_proposed_task room (format_task_id (tr_number row0)) now (td_tasks tdb)")
  from assms c a k show ?thesis
    by (intro that [of t i tok row0 tdb ts])
      (auto simp: auto_approve_hook_def Let_def w bind_result_Inr guard_result_Inr)
qed

lemma accept_other [simp]:
  "td_intents (d\<lparr>td_tasks := ts\<rparr>) = td_intents d" "td_coord (d\<lparr>td_tasks := ts\<rparr>) = td_coord d"
  by simp_all

text \<open>Before the mark, an automatic approval is a change like any other.\<close>

lemma auto_approve_hook_change:
  assumes "auto_approve_hook pf token room intent key check now db = Inr (row, db')"
  obtains d where "task_change (bd_tasks db) d"
    "bd_tasks db' = d\<lparr>td_intents := mark_board_intent_auto_approved room intent now (td_intents d)\<rparr>"
  using assms
proof (cases rule: auto_approve_hook_Inr)
  case (1 t i tok row0 tdb ts)
  have "intent_change (bd_intents db) t"
    using claim_change [of "bd_intents db" room intent check] 1(1) by simp
  then have "task_change (bd_tasks db) ((bd_tasks db)\<lparr>td_intents := t\<rparr>)" by (simp add: task_change_def)
  moreover note approve_task_create_change [OF 1(3)]
  moreover have "task_change tdb (tdb\<lparr>td_tasks := ts\<rparr>)" by (simp add: task_change_def)
  ultimately have "task_change (bd_tasks db) (tdb\<lparr>td_tasks := ts\<rparr>)" using task_change_trans by blast
  then show ?thesis by (rule that) (simp add: 1(6) with_intents_def)
qed

lemma auto_approve_cases:
  assumes "auto_approve_intent pf token room intent key check now db = (r, db')"
  obtains (kept) "db' = db" "\<And>row. r \<noteq> Inr (Some row)"
  | (approved) row where "r = Inr (Some row)" "(room, escalation_client_id intent) \<notin> set (bd_messages db)"
      "auto_approve_hook pf token room intent key check now
         (db\<lparr>bd_messages := bd_messages db @ [(room, escalation_client_id intent)]\<rparr>) = Inr (row, db')"
proof -
  obtain x db1 where e: "emit_project_message room (escalation_client_id intent)
      (auto_approve_hook pf token room intent key check now) db = (x, db1)" by fastforce
  with assms have "quiet_errors (x, db1) = (r, db')" by (simp add: auto_approve_intent_def)
  then show ?thesis
  proof (cases rule: quiet_cases)
    case 1
    from e show ?thesis by (cases rule: emit_cases) (use 1 kept approved in auto)
  next
    case (2 err)
    from e show ?thesis by (cases rule: emit_cases) (use 2 kept in auto)
  qed
qed

lemma mark_auto_progress:
  "task_progress d (d\<lparr>td_intents := mark_board_intent_auto_approved room intent now (td_intents d)\<rparr>)"
  by (simp add: task_progress_def auto_progress)

lemma auto_approve_progress:
  assumes "auto_approve_intent pf token room intent key check now db = (r, db')"
  shows "task_progress (bd_tasks db) (bd_tasks db')"
  using assms
proof (cases rule: auto_approve_cases)
  case kept
  then show ?thesis using task_change_progress by simp
next
  case (approved row)
  then obtain d where "task_change (bd_tasks db) d"
    "bd_tasks db' = d\<lparr>td_intents := mark_board_intent_auto_approved room intent now (td_intents d)\<rparr>"
    by (elim auto_approve_hook_change) simp
  then show ?thesis using task_change_progress mark_auto_progress task_progress_trans by metis
qed

lemma notify_change:
  assumes "notify_humans room intent now db = (r, db')"
  shows "task_change (bd_tasks db) (bd_tasks db')"
proof -
  obtain x db1 where e: "emit_project_message room (escalation_client_id intent) (notify_hook room intent now) db = (x, db1)"
    by fastforce
  with assms have "db' = db1" by (auto simp: notify_humans_def elim: quiet_cases)
  with e show ?thesis
    using claim_change
    by (cases rule: emit_cases) (auto simp: notify_hook_def bind_result_Inr task_change_def split: prod.splits
        dest!: arg_cong [of _ _ snd])
qed

lemma failover_hook_Inr:
  assumes "failover_hook i room dead c successor now signals db = Inr (rp, db')"
  obtains r p t t' where "rp = (r, p)"
    "release_board_manager_assignment dead failover_actor ''Board Manager went offline; automatic failover.'' (Some c)
       True now (grants (td_coord (bd_tasks db))) (sessions (td_coord (bd_tasks db))) (bd_deliveries db)
       (bd_managers db) = (Some r, t)"
    "promote_board_manager i room successor failover_actor True now now signals (sessions (td_coord (bd_tasks db)))
       (bd_deliveries db) t = Inr (Some p, t')"
    "db' = db\<lparr>bd_managers := t'\<rparr>"
proof -
  let ?rel = "release_board_manager_assignment dead failover_actor ''Board Manager went offline; automatic failover.''
    (Some c) True now (grants (td_coord (bd_tasks db))) (sessions (td_coord (bd_tasks db))) (bd_deliveries db)
    (bd_managers db)"
  obtain x t where x: "?rel = (x, t)" by (cases ?rel)
  let ?pro = "promote_board_manager i room successor failover_actor True now now signals
    (sessions (td_coord (bd_tasks db))) (bd_deliveries db) t"
  from assms x obtain r where r: "x = Some r" by (auto simp: failover_hook_def bind_result_Inr require_Inr)
  with assms x obtain y t' where y: "?pro = Inr (y, t')"
    by (cases ?pro) (auto simp: failover_hook_def)
  with assms x r obtain p where "y = Some p" by (auto simp: failover_hook_def bind_result_Inr require_Inr)
  with assms x r y show ?thesis by (intro that [of r p t t']) (auto simp: failover_hook_def)
qed

lemma failover_cases:
  assumes "announce_failover i room dead claimed successor now signals db = (res, db')"
  obtains (kept) "db' = db" "\<And>rp. res \<noteq> Inr (Some rp)"
  | (replaced) c rp where "claimed = Some c" "res = Inr (Some rp)"
      "failover_hook i room dead c successor now signals
        (db\<lparr>bd_messages := bd_messages db @ [(room, ''board_manager_failover:'' @ dead)]\<rparr>) = Inr (rp, db')"
proof (cases claimed)
  case None
  with assms show ?thesis by (intro kept) (auto simp: announce_failover_def)
next
  case (Some c)
  obtain x db1 where e: "emit_project_message room (''board_manager_failover:'' @ dead)
      (failover_hook i room dead c successor now signals) db = (x, db1)" by fastforce
  then show ?thesis
  proof (cases rule: emit_cases)
    case (posted a)
    with assms Some e show ?thesis by (intro replaced [of c a]) (auto simp: announce_failover_def)
  next
    case (failed err)
    with assms Some e show ?thesis
      by (intro kept) (auto simp: announce_failover_def split: failover_error.splits)
  next
    case replayed
    with assms Some e show ?thesis by (intro kept) (auto simp: announce_failover_def)
  qed
qed

lemma failover_tasks:
  assumes "announce_failover i room dead claimed successor now signals db = (r, db')"
  shows "bd_tasks db' = bd_tasks db"
  using assms by (cases rule: failover_cases) (auto elim: failover_hook_Inr)

section \<open>The step relation\<close>

text \<open>
  The parameters are the platform and the URL parser. The proposer's key of an automatic approval is the one of
  the row that the sweep has read; no statement changes it.
\<close>

inductive board_step :: "platform \<Rightarrow> url_parser \<Rightarrow> board_db \<Rightarrow> board_db \<Rightarrow> bool" for pf up where
  created: "create_board_intent pf i inp now (bd_intents db) = (r, t) \<Longrightarrow> board_step pf up db (with_intents (\<lambda>_. t) db)"
| swept: "expire_board_intents room now (bd_intents db) = (n, t) \<Longrightarrow> board_step pf up db (with_intents (\<lambda>_. t) db)"
| approved: "approve_board_intent pf token room intent decision_by reason now (bd_intents db) = (r, t)
    \<Longrightarrow> board_step pf up db (with_intents (\<lambda>_. t) db)"
| denied: "deny_board_intent room intent decision_by reason now (bd_intents db) = (r, t)
    \<Longrightarrow> board_step pf up db (with_intents (\<lambda>_. t) db)"
| selected: "list_escalation_candidates now limit locked (bd_settings db) (bd_intents db) = (cs, t)
    \<Longrightarrow> board_step pf up db (with_intents (\<lambda>_. t) db)"
| rescheduled: "board_step pf up db (with_intents (reschedule_escalation_candidate intent claimed next_check) db)"
| auto_approved: "auto_approve_intent pf token room intent key check now db = (ar, db') \<Longrightarrow> check \<le> now \<Longrightarrow>
    \<exists>i \<in> set (bd_intents db). the_intent room intent i \<and> bi_key i = Some key \<Longrightarrow> board_step pf up db db'"
| notified: "notify_humans room intent now db = (nr, db') \<Longrightarrow> board_step pf up db db'"
| task_created: "create_task pf room tinp now later (bd_tasks db) = (tr, d) \<Longrightarrow> board_step pf up db (db\<lparr>bd_tasks := d\<rparr>)"
| task_approved: "approve_task_create_board_intent pf token room intent decision_by reason now (bd_tasks db) = Inr (a, d)
    \<Longrightarrow> board_step pf up db (db\<lparr>bd_tasks := d\<rparr>)"
| claim_approved: "approve_task_claim_board_intent up pf i token room decision_by reason manager read seen locks (bd_managers db)
      now (bd_tasks db) = (cr, d) \<Longrightarrow> board_step pf up db (db\<lparr>bd_tasks := d\<rparr>)"
| task_updated: "update_task_write up pf i room task u uo seen now (bd_tasks db) = (ur, d)
    \<Longrightarrow> board_step pf up db (db\<lparr>bd_tasks := d\<rparr>)"
| task_assigned: "set_task_assignment_state_for_lease_action room task p seen now (td_tasks (bd_tasks db)) = (sr, ts)
    \<Longrightarrow> board_step pf up db (db\<lparr>bd_tasks := (bd_tasks db)\<lparr>td_tasks := ts\<rparr>\<rparr>)"
| lease_acted: "apply_task_work_lease_action pf i a now (bd_deliveries db) (bd_tasks db) = (lr, d)
    \<Longrightarrow> board_step pf up db (db\<lparr>bd_tasks := d\<rparr>)"
| coordinated: "coord_step (td_coord (bd_tasks db)) c
    \<Longrightarrow> board_step pf up db (db\<lparr>bd_tasks := (bd_tasks db)\<lparr>td_coord := c\<rparr>\<rparr>)"
| session_gone: "board_step pf up db
    (with_intents (update_where (\<lambda>r. bi_session r = Some sid) (\<lambda>r. r\<lparr>bi_session := None\<rparr>)) db)"
| artifacts: "board_step pf up db (db\<lparr>bd_tasks := (bd_tasks db)\<lparr>td_artifacts := as\<rparr>\<rparr>)"
| failover: "announce_failover i room dead claimed successor now signals db = (fr, db') \<Longrightarrow> board_step pf up db db'"
| environment: "board_step pf up db (db\<lparr>bd_settings := st, bd_managers := ms, bd_deliveries := ds,
    bd_messages := bd_messages db @ posted\<rparr>)"

text \<open>A step is a change of the tables, or it is an automatic approval.\<close>

lemma board_step_cases:
  assumes "board_step pf up db db'"
  obtains (change) "task_change (bd_tasks db) (bd_tasks db')"
  | (automatic) token room intent key check now r where
      "auto_approve_intent pf token room intent key check now db = (r, db')" "check \<le> now"
      "\<exists>i \<in> set (bd_intents db). the_intent room intent i \<and> bi_key i = Some key"
  using assms
proof (cases rule: board_step.cases)
  case (created i inp now r t)
  then show ?thesis
    using create_change [of "bd_intents db" pf i inp now] with_intents_change [of db "\<lambda>_. t"] by (intro change) simp
next
  case (swept room now n t)
  then show ?thesis
    using expire_change [of "bd_intents db" room now] with_intents_change [of db "\<lambda>_. t"] by (intro change) simp
next
  case (approved token room intent b reason now r t)
  then show ?thesis
    using approve_change [of "bd_intents db" pf token room intent b reason now] with_intents_change [of db "\<lambda>_. t"]
    by (intro change) simp
next
  case (denied room intent b reason now r t)
  then show ?thesis
    using deny_change [of "bd_intents db" room intent b reason now] with_intents_change [of db "\<lambda>_. t"]
    by (intro change) simp
next
  case (selected now limit locked cs t)
  then show ?thesis
    using candidates_change [of "bd_intents db" now limit locked "bd_settings db"] with_intents_change [of db "\<lambda>_. t"]
    by (intro change) simp
next
  case (rescheduled intent claimed next_check)
  then show ?thesis using reschedule_change with_intents_change by (intro change) auto
next
  case (session_gone sid)
  then show ?thesis using session_gone_change with_intents_change by (intro change) auto
next
  case (coordinated c)
  then show ?thesis by (intro change) (simp add: task_change_def coord_step_change)
next
  case (failover i room dead claimed successor now signals fr)
  then show ?thesis by (intro change) (simp add: failover_tasks)
next
  case (auto_approved token room intent key check now ar)
  then show ?thesis by (rule automatic)
next
  case (environment st ms ds posted)
  then show ?thesis by (intro change) simp
next
  case (artifacts as)
  then show ?thesis by (intro change) (simp add: task_change_other)
next
  case (task_assigned room task p seen now sr ts)
  then show ?thesis by (intro change) (simp add: task_change_other)
next
  case (notified room intent now nr)
  then show ?thesis by (intro change) (rule notify_change)
next
  case (task_created room tinp now later tr d)
  then show ?thesis by (intro change) (simp add: create_task_change)
next
  case (task_approved token room intent b reason now a d)
  then show ?thesis by (intro change) (simp add: approve_task_create_change)
next
  case (claim_approved i token room b reason manager read seen locks now cr d)
  then show ?thesis by (intro change) (simp add: claim_approval_change)
next
  case (task_updated i room task u uo seen now ur d)
  then show ?thesis by (intro change) (simp add: update_task_write_change)
next
  case (lease_acted i a now lr d)
  then show ?thesis by (intro change) (simp add: lease_action_change)
qed

lemma board_step_progress: "board_step pf up db db' \<Longrightarrow> task_progress (bd_tasks db) (bd_tasks db')"
  by (erule board_step_cases) (auto intro: task_change_progress auto_approve_progress)

lemma board_run_progress: "(board_step pf up)\<^sup>*\<^sup>* db db' \<Longrightarrow> task_progress (bd_tasks db) (bd_tasks db')"
  by (induction rule: rtranclp_induct)
    (auto intro: task_progress_trans board_step_progress task_change_progress)

text \<open>The fence of a work lease, on the steps of the board.\<close>

definition board_fence_holds :: "board_db \<Rightarrow> lease_fence \<Rightarrow> bool" where
  "board_fence_holds db f \<longleftrightarrow> fence_holds (td_coord (bd_tasks db)) f"

definition board_fence_known :: "board_db \<Rightarrow> lease_fence \<Rightarrow> bool" where
  "board_fence_known db f \<longleftrightarrow> fence_known (td_coord (bd_tasks db)) f"

lemma board_fence_known_step: "board_step pf up s t \<Longrightarrow> board_fence_known s f \<Longrightarrow> board_fence_known t f"
  using board_step_progress fence_known_change unfolding board_fence_known_def task_progress_def coord_change_def fence_known_def
  by meson

lemma board_fence_lost_step:
  "board_step pf up s t \<Longrightarrow> board_fence_known s f \<Longrightarrow> \<not> board_fence_holds s f \<Longrightarrow> \<not> board_fence_holds t f"
  using board_step_progress fence_lost_change
  unfolding board_fence_known_def board_fence_holds_def task_progress_def coord_change_def
  by (meson fence_known_def)

interpretation board_fence: monotone_fence "board_step pf up" board_fence_holds board_fence_known for pf up
  by unfold_locales (rule board_fence_known_step, assumption+, rule board_fence_lost_step, assumption+)

end
