(* ===== verification/BoardGuarantees.thy ===== *)
theory BoardGuarantees
  imports BoardRuns
begin

text \<open>
  What holds of board intents in every run: the life cycle, the single use of an approval, the limit of
  automatic approvals, and that an intent is escalated once.
\<close>

section \<open>Consuming an approval\<close>

lemma intents_wf_key: "intents_wf t \<Longrightarrow> a \<in> set t \<Longrightarrow> b \<in> set t \<Longrightarrow> bi_id a = bi_id b \<Longrightarrow> a = b"
  using distinct_key_inj [OF intents_wf_distinct] by blast

lemma verify_Inr:
  assumes "verify_board_intent_approval pf c now t = Inr r"
  obtains intent where "names_approval c = Some intent" "r \<in> set t" "consumable pf c intent now r"
proof -
  from assms obtain intent where i: "names_approval c = Some intent" "get_board_intent (cn_room c) intent t = Some r"
    and r: "bi_status r = BiApproved" "bi_action r = cn_action c" "bi_hash r = hash_board_intent_payload pf (cn_payload c)"
      "not_expired now r" "proof_accepted pf c r"
    unfolding verify_board_intent_approval_def bind_result_Inr require_Inr guard_result_Inr by auto
  from i(2) have "r \<in> set t" "the_intent (cn_room c) intent r"
    unfolding get_board_intent_def by (auto dest: select_first_SomeD)
  with i(1) r show ?thesis
    by (intro that [of intent]) (auto simp: consumable_def proof_accepted_def split: option.splits)
qed

text \<open>A later clock makes nothing consumable.\<close>

lemma consumable_earlier: "consumable pf c intent later r \<Longrightarrow> now \<le> later \<Longrightarrow> consumable pf c intent now r"
  by (auto simp: consumable_def not_expired_def split: option.splits)

lemma consume_Inr:
  assumes "consume_board_intent_approval pf c now later t = (Inr r, t')" "now \<le> later"
  obtains intent row where "names_approval c = Some intent" "row \<in> set t" "consumable pf c intent now row"
    "r = used_row now row" "t' = update_where (consumable pf c intent now) (used_row now) t"
proof (cases "names_approval c")
  case None
  with assms show ?thesis by (simp add: consume_board_intent_approval_def)
next
  case (Some intent)
  show ?thesis
  proof (cases "returning_first (consumable pf c intent now) (used_row now) t")
    case None
    then have none: "\<not> consumable pf c intent now x" if "x \<in> set t" for x
      using that by (auto simp: returning_first_def find_None_iff)
    from assms Some None have "verify_board_intent_approval pf c later t = Inr r"
      by (auto simp: consume_board_intent_approval_def)
    then obtain i2 where "names_approval c = Some i2" "r \<in> set t" "consumable pf c i2 later r" by (rule verify_Inr)
    with Some none consumable_earlier assms(2) show ?thesis by fastforce
  next
    case u: (Some u)
    then obtain row where "row \<in> set t" "consumable pf c intent now row" "u = used_row now row"
      by (auto simp: returning_first_def dest: find_SomeD)
    with assms Some u show ?thesis by (intro that) (auto simp: consume_board_intent_approval_def)
  qed
qed

text \<open>C11: Consuming an approval succeeds exactly when an approved, unexpired intent of the room has the identifier,
  the action and the payload, and its token or its proposing worker; then the intent is used up and no other
  row changes. Any denial leaves the table as it is.\<close>

theorem consume_effect:
  assumes "consume_board_intent_approval pf c now later t = (res, t')" "now \<le> later" "intents_wf t"
  shows "case res of
      Inr r \<Rightarrow> (\<exists>intent row. names_approval c = Some intent \<and> row \<in> set t \<and> consumable pf c intent now row \<and>
        r = used_row now row \<and> t' = update_where (\<lambda>x. x = row) (used_row now) t)
    | Inl e \<Rightarrow> t' = t \<and> (\<forall>intent row. names_approval c = Some intent \<and> row \<in> set t \<longrightarrow> \<not> consumable pf c intent now row)"
proof (cases res)
  case (Inr r)
  with assms obtain intent row where r: "names_approval c = Some intent" "row \<in> set t" "consumable pf c intent now row"
    "r = used_row now row" "t' = update_where (consumable pf c intent now) (used_row now) t"
    by (auto elim: consume_Inr)
  have "consumable pf c intent now x \<longleftrightarrow> x = row" if "x \<in> set t" for x
    using r that intents_wf_key [OF assms(3) that r(2)] by (auto simp: consumable_def the_intent_def)
  then have "t' = update_where (\<lambda>x. x = row) (used_row now) t"
    unfolding r(5) update_where_def by (intro map_cong) auto
  with Inr r show ?thesis by auto
next
  case (Inl e)
  with assms(1) have none: "\<not> consumable pf c intent now row" if "names_approval c = Some intent" "row \<in> set t" for intent row
    using that by (auto simp: consume_board_intent_approval_def returning_first_def find_None_iff split: option.splits)
  from Inl assms(1) have "t' = t"
    by (auto simp: consume_board_intent_approval_def split: option.splits)
  with Inl none show ?thesis by simp
qed

section \<open>A small board\<close>

definition demo_platform :: platform where
  "demo_platform = \<lparr>pf_sha256 = (\<lambda>s. ''sha:'' @ s), pf_scalar = (\<lambda>j. case j of JStr s \<Rightarrow> s | _ \<Rightarrow> ''null''),
     pf_le = (\<lambda>a b. True)\<rparr>"

definition demo_payload :: json where
  "demo_payload = payload_for_task_create ''Fix it'' None None"

definition demo_intent_input :: intent_input where
  "demo_intent_input = \<lparr>ni_room = ''room'', ni_action = ActCreate, ni_payload = demo_payload, ni_task = None,
     ni_label = Some ''agent'', ni_key = Some ''key'', ni_instance = None, ni_session = Some ''new'', ni_auth = None,
     ni_expires_at = None\<rparr>"

definition demo_pending :: "board_intent list" where
  "demo_pending = snd (create_board_intent demo_platform ''bi_1'' demo_intent_input 0 [])"

definition demo_approved_intents :: "board_intent list" where
  "demo_approved_intents = snd (approve_board_intent demo_platform ''secret'' ''room'' ''bi_1'' ''admin'' None 10 demo_pending)"

definition demo_consumption :: consumption where
  "demo_consumption = \<lparr>cn_room = ''room'', cn_action = ActCreate, cn_payload = demo_payload, cn_intent = Some '' bi_1 '',
     cn_token = Some ''secret'', cn_worker = None\<rparr>"

lemma demo_approved_wf: "intents_wf demo_approved_intents"
  by code_simp

lemma consume_effect_witness:
  "\<exists>r t'. consume_board_intent_approval demo_platform demo_consumption 20 21 demo_approved_intents = (Inr r, t') \<and>
     (\<exists>intent row. names_approval demo_consumption = Some intent \<and> row \<in> set demo_approved_intents \<and>
        consumable demo_platform demo_consumption intent 20 row \<and> r = used_row 20 row \<and>
        t' = update_where (\<lambda>x. x = row) (used_row 20) demo_approved_intents)"
proof -
  let ?a = "consume_board_intent_approval demo_platform demo_consumption 20 21 demo_approved_intents"
  have "(case fst ?a of Inl _ \<Rightarrow> False | Inr _ \<Rightarrow> True) = True" by code_simp
  then obtain r t' where a: "?a = (Inr r, t')" by (cases ?a) (auto split: sum.splits)
  show ?thesis using consume_effect [OF a _ demo_approved_wf] a by auto
qed

section \<open>The life cycle\<close>

text \<open>C14: In every run an intent keeps its identity, its action, its payload and its proposer, moves only from
  pending to a decision and from an approval to its use or expiry, and no two pending intents of a room ask for
  the same thing.\<close>

theorem board_intent_life_cycle:
  assumes "(board_step pf up)\<^sup>*\<^sup>* db db'" "intents_wf (bd_intents db)"
  shows "intents_wf (bd_intents db') \<and> (\<forall>r \<in> set (bd_intents db). \<exists>r' \<in> set (bd_intents db'). intent_evolves r r')"
proof -
  have "intents_wf (bd_intents db')" "intents_evolve (bd_intents db) (bd_intents db')"
    using board_run_progress [OF assms(1)] assms(2) by (auto simp: task_progress_def intent_progress_def)
  then show ?thesis unfolding intents_evolve_def by (auto elim: rows_change_mem)
qed

definition demo_coord :: coord_db where
  "demo_coord = \<lparr>leases = [], sessions = [demo_session ''new'' 20 None], grants = [demo_grant], bearers = [],
     attestations = []\<rparr>"

definition demo_board :: board_db where
  "demo_board = \<lparr>bd_tasks = \<lparr>td_coord = demo_coord, td_intents = demo_pending, td_tasks = [], td_sequences = [],
       td_artifacts = \<lparr>at_artifacts = [], at_links = []\<rparr>\<rparr>,
     bd_settings = [], bd_managers = [], bd_deliveries = [], bd_messages = []\<rparr>"

definition no_urls :: url_parser where
  "no_urls s = None"

lemma demo_pending_wf: "intents_wf demo_pending"
  by code_simp

lemma demo_approval_step:
  "board_step demo_platform no_urls demo_board (with_intents (\<lambda>_. demo_approved_intents) demo_board)"
proof -
  have "approve_board_intent demo_platform ''secret'' ''room'' ''bi_1'' ''admin'' None 10 (bd_intents demo_board) =
    (fst (approve_board_intent demo_platform ''secret'' ''room'' ''bi_1'' ''admin'' None 10 demo_pending), demo_approved_intents)"
    by (simp add: demo_approved_intents_def demo_board_def)
  then show ?thesis by (rule board_step.approved)
qed

lemma board_intent_life_cycle_witness:
  "\<exists>r' \<in> set demo_approved_intents. intent_evolves (hd demo_pending) r'"
proof -
  have "hd demo_pending \<in> set (bd_intents demo_board)" by code_simp
  moreover have "intents_wf (bd_intents demo_board)" using demo_pending_wf by (simp add: demo_board_def)
  moreover have "(board_step demo_platform no_urls)\<^sup>*\<^sup>* demo_board (with_intents (\<lambda>_. demo_approved_intents) demo_board)"
    using demo_approval_step by blast
  ultimately show ?thesis using board_intent_life_cycle by fastforce
qed

section \<open>An approval is used once\<close>

lemma used_stays:
  assumes "(board_step pf up)\<^sup>*\<^sup>* db db'" "intents_wf (bd_intents db)" "r \<in> set (bd_intents db)" "bi_status r = BiUsed"
  obtains r' where "r' \<in> set (bd_intents db')" "bi_id r' = bi_id r" "bi_status r' = BiUsed" "intents_wf (bd_intents db')"
proof -
  have "intents_wf (bd_intents db')" "intents_evolve (bd_intents db) (bd_intents db')"
    using board_run_progress [OF assms(1)] assms(2) by (auto simp: task_progress_def intent_progress_def)
  then show ?thesis
    using assms(3,4) unfolding intents_evolve_def
    by (elim rows_change_mem) (auto simp: intent_evolves_def intent_moves_def intro: that)
qed

text \<open>C10: Once an approval has been consumed, no later attempt to consume it succeeds, whatever token, worker,
  action or payload it presents and whatever happens in between.\<close>

theorem approval_used_once:
  assumes "consume_board_intent_approval pf c now later (bd_intents db) = (Inr r, t)" "now \<le> later"
    "intents_wf (bd_intents db)" "(board_step pf up)\<^sup>*\<^sup>* (with_intents (\<lambda>_. t) db) db'"
    "names_approval c2 = Some (bi_id r)"
  shows "\<exists>e. consume_board_intent_approval pf c2 now2 later2 (bd_intents db') = (Inl e, bd_intents db')"
proof -
  from assms(1,2) obtain intent row where r: "row \<in> set (bd_intents db)" "consumable pf c intent now row"
    "r = used_row now row" "t = update_where (consumable pf c intent now) (used_row now) (bd_intents db)"
    by (auto elim: consume_Inr)
  then have "r \<in> set t" "bi_status r = BiUsed"
    using update_where_mem [OF r(1), of "consumable pf c intent now" "used_row now"] by (auto simp: used_row_def)
  moreover have "intents_wf t"
    using consume_change [of "bd_intents db" pf c now later] assms(1,3) by (simp add: intent_change_def)
  ultimately obtain r' where r': "r' \<in> set (bd_intents db')" "bi_id r' = bi_id r" "bi_status r' = BiUsed"
    and wf: "intents_wf (bd_intents db')"
    using used_stays [OF assms(4), of r] by auto
  have only: "x = r'" if "x \<in> set (bd_intents db')" "bi_id x = bi_id r" for x
    using intents_wf_key [OF wf that(1) r'(1)] that(2) r'(2) by simp
  have none: "\<not> consumable pf c2 (bi_id r) n x" if "x \<in> set (bd_intents db')" for x n
    using only [OF that] r' by (auto simp: consumable_def the_intent_def)
  have "returning_first (consumable pf c2 (bi_id r) now2) (used_row now2) (bd_intents db') = None"
    using none by (auto simp: returning_first_def find_None_iff)
  moreover have "verify_board_intent_approval pf c2 later2 (bd_intents db') \<noteq> Inr y" for y
    using none assms(5) by (auto elim: verify_Inr)
  ultimately show ?thesis
    using assms(5)
    by (cases "verify_board_intent_approval pf c2 later2 (bd_intents db')")
      (auto simp: consume_board_intent_approval_def)
qed

lemma approval_used_once_witness:
  "\<exists>r t e. consume_board_intent_approval demo_platform demo_consumption 20 21 demo_approved_intents = (Inr r, t) \<and>
     consume_board_intent_approval demo_platform demo_consumption 30 31 t = (Inl e, t)"
proof -
  let ?a = "consume_board_intent_approval demo_platform demo_consumption 20 21 demo_approved_intents"
  let ?db = "with_intents (\<lambda>_. demo_approved_intents) demo_board"
  have "(case fst ?a of Inl _ \<Rightarrow> None | Inr r \<Rightarrow> Some (bi_id r)) = Some ''bi_1''" by code_simp
  then obtain r t where a: "?a = (Inr r, t)" and id: "bi_id r = ''bi_1''" by (cases ?a) (auto split: sum.splits)
  have n: "names_approval demo_consumption = Some (bi_id r)" unfolding id by code_simp
  have "\<exists>e. consume_board_intent_approval demo_platform demo_consumption 30 31 (bd_intents (with_intents (\<lambda>_. t) ?db)) =
      (Inl e, bd_intents (with_intents (\<lambda>_. t) ?db))"
    by (rule approval_used_once [of demo_platform demo_consumption 20 21 ?db, OF _ _ _ rtranclp.rtrancl_refl n]) (simp_all add: a demo_approved_wf)
  with a show ?thesis by auto
qed

end
