(* ===== verification/AutoApproval.thy ===== *)
theory AutoApproval
  imports BoardGuarantees
begin

text \<open>
  Automatic approvals: what one approval of a new task does to the board, the limit of approvals per
  proposer and window, and that an intent is escalated once.
\<close>

section \<open>Counting under changes\<close>

lemma keep_count:
  assumes "intents_keep t t'" "\<forall>r \<in> set t. bi_auto r \<longrightarrow> bi_status r \<noteq> BiPending"
    and P: "\<And>r. P r \<Longrightarrow> bi_auto r"
      "\<And>a b. intent_keeps a b \<Longrightarrow> (bi_auto a \<Longrightarrow> bi_status a \<noteq> BiPending) \<Longrightarrow> P b = P a"
  shows "length (filter P t') = length (filter P t)"
proof -
  obtain old new where o: "t' = old @ new" "list_all2 intent_keeps t old" "list_all (\<lambda>r. \<not> bi_auto r) new"
    using assms(1) by (auto simp: intents_keep_def rows_change_def)
  have "length (filter P old) = length (filter P t)"
    using o(2) assms(2)
  proof (induction rule: list_all2_induct)
    case (Cons a as b bs)
    then have "P b = P a" using P(2) by auto
    with Cons show ?case by simp
  qed simp
  moreover have "filter P new = []" using o(3) P(1) by (auto simp: filter_empty_conv list_all_iff)
  ultimately show ?thesis using o(1) by simp
qed

lemma count_update_one:
  assumes "distinct (map k t)"
  shows "length (filter P (update_where (\<lambda>r. r = x) f t)) \<le> length (filter P t) + (if P (f x) then 1 else 0)"
  using assms
proof (induction t)
  case (Cons a t)
  have same: "update_where (\<lambda>r. r = x) f t = t" if "a = x"
    using Cons.prems that by (intro update_where_none) auto
  show ?case
  proof (cases "a = x")
    case True
    then show ?thesis using same [OF True] by (simp add: update_where_def)
  next
    case False
    then have head: "update_where (\<lambda>r. r = x) f (a # t) = a # update_where (\<lambda>r. r = x) f t"
      by (simp add: update_where_def)
    from Cons have "length (filter P (update_where (\<lambda>r. r = x) f t)) \<le> length (filter P t) + (if P (f x) then 1 else 0)"
      by simp
    then show ?thesis unfolding head by (cases "P a") simp_all
  qed
qed (simp add: update_where_def)

lemma length_filter_mono: "(\<And>x. P x \<Longrightarrow> Q x) \<Longrightarrow> length (filter P xs) \<le> length (filter Q xs)"
  by (induction xs) (auto intro: le_SucI)

section \<open>Approvals in a window\<close>

definition approved_within :: "string \<Rightarrow> string \<Rightarrow> int \<Rightarrow> int \<Rightarrow> board_intent \<Rightarrow> bool" where
  "approved_within room key lo hi r \<longleftrightarrow>
     bi_room r = room \<and> bi_key r = Some key \<and> bi_auto r \<and>
     (case bi_decided_at r of None \<Rightarrow> False | Some d \<Rightarrow> lo < d \<and> d \<le> hi)"

definition rate_ok :: "board_intent list \<Rightarrow> bool" where
  "rate_ok t \<longleftrightarrow>
     (\<forall>r \<in> set t. bi_auto r \<longrightarrow> bi_status r \<noteq> BiPending) \<and>
     (\<forall>room key hi. length (filter (approved_within room key (hi - intent_auto_approve_window) hi) t)
        \<le> intent_auto_approve_max)"

lemma keep_auto_decided:
  assumes "intents_keep t t'" "\<forall>r \<in> set t. bi_auto r \<longrightarrow> bi_status r \<noteq> BiPending"
  shows "\<forall>r \<in> set t'. bi_auto r \<longrightarrow> bi_status r \<noteq> BiPending"
proof -
  obtain old new where o: "t' = old @ new" "list_all2 intent_keeps t old" "list_all (\<lambda>r. \<not> bi_auto r) new"
    using assms(1) by (auto simp: intents_keep_def rows_change_def)
  have "bi_status b \<noteq> BiPending" if b: "b \<in> set old" "bi_auto b" for b
  proof -
    obtain i where "i < length old" "b = old ! i" using b(1) by (auto simp: in_set_conv_nth)
    with o(2) have "t ! i \<in> set t" "intent_keeps (t ! i) b" by (auto dest: list_all2_nthD2 list_all2_lengthD)
    with assms(2) b(2) show ?thesis by (auto simp: keeps_defs)
  qed
  with o show ?thesis by (auto simp: list_all_iff)
qed

lemma keeps_within:
  "intent_keeps a b \<Longrightarrow> (bi_auto a \<Longrightarrow> bi_status a \<noteq> BiPending) \<Longrightarrow>
     approved_within room key lo hi b = approved_within room key lo hi a"
  by (auto simp: approved_within_def keeps_defs)

lemma keeps_since:
  "intent_keeps a b \<Longrightarrow> (bi_auto a \<Longrightarrow> bi_status a \<noteq> BiPending) \<Longrightarrow>
     auto_approved_since room key since b = auto_approved_since room key since a"
  by (auto simp: auto_approved_since_def keeps_defs)

lemma keep_rate:
  assumes "intents_keep t t'" "rate_ok t"
  shows "rate_ok t'"
proof -
  have a: "\<forall>r \<in> set t. bi_auto r \<longrightarrow> bi_status r \<noteq> BiPending" using assms(2) by (simp add: rate_ok_def)
  have "length (filter (approved_within room key lo hi) t') = length (filter (approved_within room key lo hi) t)"
    for room key lo hi
    by (rule keep_count [OF assms(1) a]) (auto simp: approved_within_def keeps_within [unfolded approved_within_def])
  then show ?thesis using assms keep_auto_decided [OF assms(1) a] by (simp add: rate_ok_def)
qed

section \<open>Approving the creation of a task\<close>

lemma approve_decides:
  assumes "approve_board_intent pf token room intent by reason now t = (Some (i, tok), t')"
  obtains e where "e \<in> set t" "the_intent room intent e" "bi_status e = BiPending"
    "i \<in> set t'" "i = approved_row pf tok by reason now e" "tok = token" "the_intent room intent i"
    "bi_status i = BiApproved" "bi_decided_at i = Some now" "bi_token_hash i = Some (hash_token pf token)"
    "not_expired now i"
proof -
  let ?s = "snd (expire_board_intents (Some room) now t)"
  let ?p = "decidable room intent now" and ?f = "approved_row pf token by reason now"
  from assms have a: "map_option (\<lambda>r. (r, token)) (returning_first ?p ?f ?s) = Some (i, tok)" "t' = update_where ?p ?f ?s"
    unfolding approve_board_intent_def Let_def prod.inject by (blast, blast)
  from a(1) have r: "returning_first ?p ?f ?s = Some i" "tok = token"
    by (cases "returning_first ?p ?f ?s"; simp)+
  from r(1) obtain x where "List.find ?p ?s = Some x" "i = ?f x"
    unfolding returning_first_def by (cases "List.find ?p ?s") simp_all
  with a(2) r(2) have x: "List.find ?p ?s = Some x" "i = ?f x" "tok = token" "t' = update_where ?p ?f ?s"
    by blast+
  then have d: "x \<in> set ?s" "decidable room intent now x" by (auto dest: find_SomeD)
  have "x \<in> set t"
  proof -
    from d(1) have "x \<in> (\<lambda>r. if expiry_due (Some room) now r then expired_row now r else r) ` set t"
      by (simp add: expire_board_intents_def update_where_def)
    then obtain r where "r \<in> set t" "x = (if expiry_due (Some room) now r then expired_row now r else r)" by blast
    moreover have "x \<noteq> expired_row now r" for r
    proof
      assume "x = expired_row now r"
      then have "bi_status x = BiExpired" by (simp add: expired_row_def)
      with d(2) show False by (simp add: decidable_def)
    qed
    ultimately show ?thesis by (cases "expiry_due (Some room) now r") simp_all
  qed
  moreover have "i \<in> set t'"
    using update_where_mem [OF d(1), of "decidable room intent now" "approved_row pf token by reason now"] d(2) x by simp
  ultimately show ?thesis
    using x d(2) by (intro that [of x])
      (auto simp: decidable_def approved_row_def the_intent_def not_expired_def board_intent_approval_ttl_def)
qed

text \<open>The row that was approved stays in the table with its decision.\<close>

lemma approve_task_create_decides:
  assumes "approve_task_create_board_intent pf token room intent by reason now d = Inr (Some (j, tok, row), d')"
    "intents_wf (td_intents d)"
  obtains x where "x \<in> set (td_intents d')" "the_intent room intent x" "bi_status x \<noteq> BiPending"
    "bi_decided_at x = Some now" "intents_keep (td_intents d) (td_intents d')" "intents_wf (td_intents d')"
  using assms(1)
proof (cases rule: approve_task_create_cases)
  case (approved existing i t title description source row')
  from approved(3) have a: "i \<in> set t" "the_intent room intent i" "bi_status i = BiApproved" "bi_decided_at i = Some now"
    by (auto elim: approve_decides)
  have "intents_wf t" using approve_change [of "td_intents d" pf token room intent "by" reason now] approved(3) assms(2)
    by (simp add: intent_change_def)
  then have k: "intents_keep t (td_intents d')" "intents_wf (td_intents d')"
    using insert_task_row_change [OF approved(5)] by (auto simp: task_change_def intent_change_def)
  obtain x where x: "x \<in> set (td_intents d')" "intent_keeps i x"
    using k(1) a(1) unfolding intents_keep_def by (auto elim: rows_change_mem)
  have keep: "intents_keep (td_intents d) (td_intents d')"
    using approve_task_create_change [OF assms(1)] assms(2) by (simp add: task_change_def intent_change_def)
  show ?thesis by (rule that [OF x(1) _ _ _ keep k(2)]) (use x(2) a in \<open>auto simp: keeps_defs the_intent_def\<close>)
qed simp_all

lemma auto_approval_rate_step:
  assumes "auto_approve_hook pf token room intent key check now db = Inr (row, db')" "check \<le> now"
    "intents_wf (bd_intents db)" "rate_ok (bd_intents db)"
    "\<exists>i \<in> set (bd_intents db). the_intent room intent i \<and> bi_key i = Some key"
  shows "rate_ok (bd_intents db')"
  using assms(1)
proof (cases rule: auto_approve_hook_Inr)
  case (1 t j tok row0 tdb ts)
  define u where "u = td_intents tdb"
  have c: "intents_keep (bd_intents db) t" "intents_wf t"
    using claim_change [of "bd_intents db" room intent check] 1(1) assms(3) by (auto simp: intent_change_def)
  obtain x where x: "x \<in> set u" "the_intent room intent x" "bi_status x \<noteq> BiPending" "bi_decided_at x = Some now"
    and k: "intents_keep t u" "intents_wf u"
    using approve_task_create_decides [OF 1(3)] c(2) unfolding u_def by (metis task_db.select_convs(2) task_db.update_convs(2)
      task_db.surjective)
  have tu: "rate_ok t" "rate_ok u" using keep_rate c(1) k(1) assms(4) by blast+
  have final: "bd_intents db' = mark_board_intent_auto_approved room intent now u"
    by (simp add: 1(6) u_def)
  let ?f = "\<lambda>r. r\<lparr>bi_auto := True, bi_decided_at := coalesce (bi_decided_at r) (Some now)\<rparr>"
  have one: "mark_board_intent_auto_approved room intent now u = update_where (\<lambda>r. r = x) ?f u"
  proof -
    have "the_intent room intent r \<longleftrightarrow> r = x" if "r \<in> set u" for r
      using x(2) intents_wf_key [OF k(2) that x(1)] by (auto simp: the_intent_def)
    then show ?thesis unfolding mark_board_intent_auto_approved_def update_where_def by (intro map_cong refl) simp
  qed
  have recent: "length (filter (auto_approved_since room key (check - intent_auto_approve_window)) u)
      < intent_auto_approve_max"
  proof -
    have "length (filter (auto_approved_since room key s) u) = length (filter (auto_approved_since room key s) t)" for s
      by (rule keep_count [OF k(1)]) (use tu in \<open>auto simp: rate_ok_def auto_approved_since_def keeps_since [unfolded auto_approved_since_def]\<close>)
    moreover have "count_recent_auto_approved room key intent_auto_approve_window check t < intent_auto_approve_max"
      using 1(2) by (simp add: assert_auto_approval_eligibility_def bind_result_Inr guard_result_Inr)
    ultimately show ?thesis by (simp add: count_recent_auto_approved_def)
  qed
  have key: "bi_room x = room" "bi_key x = Some key"
  proof -
    obtain i where i: "i \<in> set (bd_intents db)" "the_intent room intent i" "bi_key i = Some key" using assms(5) by blast
    then obtain y where y: "y \<in> set u" "intent_keeps i y"
      using intents_keep_trans [OF c(1) k(1)] unfolding intents_keep_def by (auto elim: rows_change_mem)
    then have "y = x" using i x intents_wf_key [OF k(2) y(1) x(1)] by (auto simp: keeps_defs the_intent_def)
    with y(2) i(3) x(2) show "bi_room x = room" "bi_key x = Some key" by (auto simp: keeps_defs the_intent_def)
  qed
  have "length (filter (approved_within rm ky (hi - intent_auto_approve_window) hi) (bd_intents db'))
      \<le> intent_auto_approve_max" for rm ky hi
  proof -
    let ?P = "approved_within rm ky (hi - intent_auto_approve_window) hi"
    have le: "length (filter ?P (bd_intents db')) \<le> length (filter ?P u) + (if ?P (?f x) then 1 else 0)"
      unfolding final one by (rule count_update_one [OF intents_wf_distinct [OF k(2)]])
    show ?thesis
    proof (cases "?P (?f x)")
      case False
      then show ?thesis using le tu(2) by (auto simp: rate_ok_def intro: order_trans)
    next
      case True
      then have p: "rm = room" "ky = key" "now \<le> hi" using x(4) key by (auto simp: approved_within_def)
      have "length (filter ?P u) \<le> length (filter (auto_approved_since room key (check - intent_auto_approve_window)) u)"
        using p assms(2) by (intro length_filter_mono) (auto simp: approved_within_def auto_approved_since_def split: option.splits)
      with recent le True show ?thesis by simp
    qed
  qed
  moreover have "\<forall>r \<in> set (bd_intents db'). bi_auto r \<longrightarrow> bi_status r \<noteq> BiPending"
    unfolding final one using tu(2) x(3) by (auto simp: rate_ok_def set_update_where)
  ultimately show ?thesis unfolding rate_ok_def by blast
qed

lemma board_step_rate:
  assumes "board_step pf up db db'" "intents_wf (bd_intents db)" "rate_ok (bd_intents db)"
  shows "rate_ok (bd_intents db')"
  using assms(1)
proof (cases rule: board_step_cases)
  case change
  then show ?thesis using assms keep_rate by (auto simp: task_change_def intent_change_def)
next
  case (automatic token room intent key check now r)
  from automatic(1) show ?thesis
  proof (cases rule: auto_approve_cases)
    case kept
    with assms(3) show ?thesis by simp
  next
    case (approved row)
    then show ?thesis using automatic(2,3) assms(2,3) by (intro auto_approval_rate_step [OF approved(3)]) auto
  qed
qed

text \<open>C12: In no run and no window of an hour does the sweep approve more than five intents of one proposer in one
  room by itself, however the sweeps of several servers interleave.\<close>

theorem auto_approvals_limited:
  assumes "(board_step pf up)\<^sup>*\<^sup>* db db'" "intents_wf (bd_intents db)" "\<forall>r \<in> set (bd_intents db). \<not> bi_auto r"
  shows "length (filter (approved_within room key (hi - intent_auto_approve_window) hi) (bd_intents db'))
    \<le> intent_auto_approve_max"
proof -
  have "filter (approved_within rm ky lo h) (bd_intents db) = []" for rm ky lo h
    using assms(3) by (auto simp: filter_empty_conv approved_within_def)
  then have start: "rate_ok (bd_intents db)" using assms(3) by (simp add: rate_ok_def)
  have "intents_wf (bd_intents db') \<and> rate_ok (bd_intents db')"
    using assms(1)
  proof (induction rule: rtranclp_induct)
    case base
    then show ?case using assms(2) start by simp
  next
    case (step y z)
    then show ?case
      using board_step_rate board_step_progress [OF step(2)] by (auto simp: task_progress_def intent_progress_def)
  qed
  then show ?thesis by (auto simp: rate_ok_def)
qed

section \<open>The effect of an approval\<close>

lemma insert_task_row_Inr:
  assumes "insert_task_row pf room inp now later d = Inr (row, d')" "ti_approval inp = Some c" "cn_action c = ActCreate"
    "cn_intent c = Some intent" "intent \<noteq> []"
  obtains r t number seqs where
    "consume_board_intent_approval pf c now later (td_intents d) = (Inr r, t)"
    "next_room_scoped_number ''tasks'' room (td_sequences d) = (number, seqs)"
    "row = new_task_row room inp number now" "\<forall>x \<in> set (td_tasks d). \<not> task_conflict row x"
    "d' = d\<lparr>td_intents := snd (mark_board_intent_task_result room intent (format_task_id number) later t),
       td_tasks := td_tasks d @ [row], td_sequences := seqs\<rparr>"
proof -
  from assms(1) obtain d1 where d1: "consume_in pf (Some c) now later d = Inr d1"
    by (auto simp: insert_task_row_def assms(2) split: sum.splits)
  then obtain r t where r: "consume_board_intent_approval pf c now later (td_intents d) = (Inr r, t)"
    "d1 = d\<lparr>td_intents := t\<rparr>"
    by (auto simp: consume_in_def assert_consume_board_intent_approval_def split: sum.splits prod.splits)
  obtain number seqs where n: "next_room_scoped_number ''tasks'' room (td_sequences d) = (number, seqs)"
    by (cases "next_room_scoped_number ''tasks'' room (td_sequences d)")
  from assms d1 r n show ?thesis
    by (intro that [OF r(1) n])
      (auto simp: insert_task_row_def Let_def insert_task_def split: option.splits if_splits)
qed

lemma trimmed_id: "js_trim intent = intent \<Longrightarrow> intent \<noteq> [] \<Longrightarrow> trimmed_or_null (Some intent) = Some intent"
  by (simp add: trimmed_or_null_def)

lemma approve_task_create_body:
  assumes "approve_task_create_board_intent pf token room intent decider reason now d = Inr (Some (j, tok, row), d')"
    "intents_wf (td_intents d)" "js_trim intent = intent" "intent \<noteq> []"
  shows "\<exists>e title description source number. e \<in> set (td_intents d) \<and> the_intent room intent e \<and>
      bi_status e = BiPending \<and> not_expired now e \<and> bi_action e = ActCreate \<and>
      normalize_task_create_board_intent_payload (bi_payload e) = Some (title, description, source) \<and>
      row = new_task_row room \<lparr>ti_title = title, ti_created_by = keep_or decider (bi_label e),
        ti_description = description, ti_source_message = source, ti_approval = None,
        ti_client_id = Some (''board-intent:'' @ intent)\<rparr> number now \<and>
      number = fst (next_room_scoped_number ''tasks'' room (td_sequences d)) \<and>
      td_tasks d' = td_tasks d @ [row] \<and> j \<in> set (td_intents d') \<and> the_intent room intent j \<and>
      bi_status j = BiUsed \<and> bi_task j = Some (format_task_id number) \<and> bi_decision_by j = Some decider"
  using assms(1)
proof (cases rule: approve_task_create_cases)
  case (approved existing i t title description source row')
  from approved(3) obtain e where e: "e \<in> set (td_intents d)" "the_intent room intent e" "bi_status e = BiPending"
    and i: "i \<in> set t" "i = approved_row pf token decider reason now e" "the_intent room intent i" "bi_status i = BiApproved"
    by (auto elim: approve_decides)
  have wft: "intents_wf t" using approve_change [of "td_intents d" pf token room intent decider reason now] approved(3) assms(2)
    by (simp add: intent_change_def)
  have fresh: "not_expired now e"
  proof (rule ccontr)
    assume "\<not> not_expired now e"
    then have "expiry_due (Some room) now e" using e by (auto simp: expiry_due_def the_intent_def)
    then have "expired_row now e \<in> set (snd (expire_board_intents (Some room) now (td_intents d)))"
      using update_where_mem [OF e(1), of "expiry_due (Some room) now" "expired_row now"]
      by (simp add: expire_board_intents_def)
    then have gone: "expired_row now e \<in> set t"
      using approved(3) update_where_mem [of "expired_row now e" _ "decidable room intent now"
          "approved_row pf token decider reason now"]
      by (auto simp: approve_board_intent_def Let_def decidable_def expired_row_def)
    have "expired_row now e = i"
      using intents_wf_key [OF wft gone i(1)] e(2) i(3) by (auto simp: expired_row_def the_intent_def)
    moreover have "bi_status (expired_row now e) = BiExpired" by (simp add: expired_row_def)
    ultimately show False using i(4) by simp
  qed
  have id: "bi_id i = intent" "bi_room i = room" using i(3) by (simp_all add: the_intent_def)
  let ?c = "\<lparr>cn_room = room, cn_action = ActCreate, cn_payload = bi_payload i, cn_intent = Some (bi_id i),
      cn_token = Some token, cn_worker = None\<rparr>"
  obtain r u number seqs where u: "consume_board_intent_approval pf ?c now now t = (Inr r, u)"
    "next_room_scoped_number ''tasks'' room (td_sequences d) = (number, seqs)"
    "row' = new_task_row room \<lparr>ti_title = title, ti_created_by = (case bi_label i of None \<Rightarrow> decider | Some l \<Rightarrow> l),
          ti_description = description, ti_source_message = source, ti_approval = Some ?c, ti_client_id = None\<rparr> number now"
    "d' = d\<lparr>td_intents := snd (mark_board_intent_task_result room (bi_id i) (format_task_id number) now u),
       td_tasks := td_tasks d @ [row'], td_sequences := seqs\<rparr>"
    using approved(5) by (rule insert_task_row_Inr [where c = ?c and intent = "bi_id i"]) (use id assms(4) in auto)
  from u(1) order_refl obtain cid x where x: "names_approval ?c = Some cid" "x \<in> set t" "consumable pf ?c cid now x"
      "r = used_row now x"
    and u': "u = update_where (consumable pf ?c cid now) (used_row now) t" by (rule consume_Inr)
  have "cid = intent" using x(1) id trimmed_id [OF assms(3,4)] by (simp add: names_approval_def cn_intent_id_def split: if_splits)
  then have "x = i" using x intents_wf_key [OF wft x(2) i(1)] id by (simp add: consumable_def the_intent_def)
  then have used: "used_row now i \<in> set u"
    unfolding u' using update_where_mem [OF x(2), of "consumable pf ?c cid now" "used_row now"] x(3) by simp
  define k where "k = (used_row now i)\<lparr>bi_task := Some (format_task_id number), bi_updated_at := now\<rparr>"
  have k: "k \<in> set (td_intents d')"
    using update_where_mem [OF used, of "the_intent room (bi_id i)"
        "\<lambda>r. r\<lparr>bi_task := Some (format_task_id number), bi_updated_at := now\<rparr>"] i(3)
    by (simp add: u(4) mark_board_intent_task_result_def Let_def k_def used_row_def the_intent_def id)
  have wf': "intents_wf (td_intents d')"
    using approve_task_create_change [OF assms(1)] assms(2) by (simp add: task_change_def intent_change_def)
  have kid: "the_intent room intent k" using i(3) by (simp add: k_def used_row_def the_intent_def)
  obtain g where g: "get_board_intent room (bi_id i) (td_intents d') = Some g"
    using select_first_Some_ex [OF k, of "the_intent room intent"] kid by (auto simp: get_board_intent_def id)
  then have "g \<in> set (td_intents d')" "the_intent room intent g"
    by (auto simp: get_board_intent_def id dest: select_first_SomeD)
  then have "g = k" using intents_wf_key [OF wf' _ k] kid by (simp add: the_intent_def)
  then have j: "j = k" "row = row'" using approved(6) g by auto
  have act: "bi_action e = ActCreate" "bi_payload i = bi_payload e" "bi_label i = bi_label e"
    using x(3) \<open>x = i\<close> by (simp_all add: consumable_def i(2) approved_row_def)
  have row: "row' = new_task_row room \<lparr>ti_title = title, ti_created_by = keep_or decider (bi_label e),
        ti_description = description, ti_source_message = source, ti_approval = None,
        ti_client_id = Some (''board-intent:'' @ intent)\<rparr> number now"
    using assms(4) by (simp add: u(3) new_task_row_def task_client_id_def id act keep_or_def)
  have dec: "bi_status k = BiUsed" "bi_task k = Some (format_task_id number)" "bi_decision_by k = Some decider"
    by (simp_all add: k_def used_row_def i(2) approved_row_def)
  show ?thesis
    using e fresh act approved(4) row u(2,4) j k kid dec
    by (intro exI [of _ e] exI [of _ title] exI [of _ description] exI [of _ source] exI [of _ number]) simp
qed simp_all

text \<open>Approving the creation of a task turns a pending, unexpired intent into a used one that names the task,
  and appends exactly one proposed task, with the title and the texts of the payload, the proposer as its
  creator and the next number of the room.\<close>

theorem approve_task_create_effect:
  assumes "approve_task_create_board_intent pf token room intent decider reason now d = Inr (Some (j, tok, row), d')"
    "intents_wf (td_intents d)" "js_trim intent = intent" "intent \<noteq> []"
  shows "\<exists>e title description source number. e \<in> set (td_intents d) \<and> the_intent room intent e \<and>
      bi_status e = BiPending \<and> not_expired now e \<and> bi_action e = ActCreate \<and>
      normalize_task_create_board_intent_payload (bi_payload e) = Some (title, description, source) \<and>
      row = new_task_row room \<lparr>ti_title = title, ti_created_by = keep_or decider (bi_label e),
        ti_description = description, ti_source_message = source, ti_approval = None,
        ti_client_id = Some (''board-intent:'' @ intent)\<rparr> number now \<and>
      number = fst (next_room_scoped_number ''tasks'' room (td_sequences d)) \<and>
      td_tasks d' = td_tasks d @ [row] \<and> j \<in> set (td_intents d') \<and> the_intent room intent j \<and>
      bi_status j = BiUsed \<and> bi_task j = Some (format_task_id number) \<and> bi_decision_by j = Some decider"
  using assms by (rule approve_task_create_body)

definition demo_task_db :: task_db where
  "demo_task_db = bd_tasks demo_board"

lemma approve_task_create_effect_witness:
  "\<exists>j tok row d'. approve_task_create_board_intent demo_platform ''secret'' ''room'' ''bi_1'' ''admin'' None 10 demo_task_db =
     Inr (Some (j, tok, row), d') \<and> td_tasks d' = [row] \<and> bi_status j = BiUsed"
proof -
  let ?a = "approve_task_create_board_intent demo_platform ''secret'' ''room'' ''bi_1'' ''admin'' None 10 demo_task_db"
  have "(case ?a of Inl _ \<Rightarrow> None | Inr (r, _) \<Rightarrow> map_option (\<lambda>(_, _, row). tr_number row) r) = Some 1" by code_simp
  then obtain j tok row d' where a: "?a = Inr (Some (j, tok, row), d')"
    by (auto split: sum.splits prod.splits)
  have wf: "intents_wf (td_intents demo_task_db)" using demo_pending_wf by (simp add: demo_task_db_def demo_board_def)
  have "td_tasks demo_task_db = []" by (simp add: demo_task_db_def demo_board_def)
  with approve_task_create_effect [OF a wf] have "td_tasks d' = [row] \<and> bi_status j = BiUsed"
    by (auto simp: js_trim_def js_space_def)
  with a show ?thesis by blast
qed

section \<open>Automatic approval\<close>

lemma mode_roundtrip: "normalize_board_manager_mode (Some (manager_mode_text m)) = m"
proof (cases m)
  case ModeOff
  have "normalize_board_manager_mode (Some (manager_mode_text ModeOff)) = ModeOff" by code_simp
  with ModeOff show ?thesis by simp
next
  case ManagerOptional
  have "normalize_board_manager_mode (Some (manager_mode_text ManagerOptional)) = ManagerOptional" by code_simp
  with ManagerOptional show ?thesis by simp
next
  case IntentsRequired
  have "normalize_board_manager_mode (Some (manager_mode_text IntentsRequired)) = IntentsRequired" by code_simp
  with IntentsRequired show ?thesis by simp
qed

text \<open>C13: An automatic approval happens only while the room takes approvals as optional and has no reachable
  manager; it appends one task that is ready to be claimed, uses the intent up, marks it, and posts one message.\<close>

theorem auto_approval_effect:
  assumes "auto_approve_intent pf token room intent key check now db = (Inr (Some row), db')"
    "intents_wf (bd_intents db)" "js_trim intent = intent" "intent \<noteq> []"
  shows "st_mode (get_room_board_settings room check (bd_settings db)) = ManagerOptional \<and>
    (case select_first (managing (sessions (td_coord (bd_tasks db))) room) (bd_managers db) of
       None \<Rightarrow> True | Some m \<Rightarrow> \<not> manager_reachable room m check (bd_deliveries db)) \<and>
    (\<exists>n. td_tasks (bd_tasks db') = update_where (\<lambda>r. the_task room n r \<and> tr_status r = Proposed)
         (\<lambda>r. r\<lparr>tr_status := Accepted, tr_updated_at := now\<rparr>)
         (td_tasks (bd_tasks db) @ [row\<lparr>tr_status := Proposed\<rparr>]) \<and> tr_number row = n \<and> tr_room row = room) \<and>
    (\<exists>j \<in> set (bd_intents db'). the_intent room intent j \<and> bi_status j = BiUsed \<and> bi_auto j \<and>
       bi_task j = Some (format_task_id (tr_number row))) \<and>
    bd_messages db' = bd_messages db @ [(room, escalation_client_id intent)]"
proof -
  let ?db = "db\<lparr>bd_messages := bd_messages db @ [(room, escalation_client_id intent)]\<rparr>"
  from assms(1) have h: "auto_approve_hook pf token room intent key check now ?db = Inr (row, db')"
    by (cases rule: auto_approve_cases) auto
  then show ?thesis
  proof (cases rule: auto_approve_hook_Inr)
    case (1 t i tok row0 tdb ts)
    have wft: "intents_wf t"
      using claim_change [of "bd_intents db" room intent check] 1(1) assms(2) by (auto simp: intent_change_def)
    let ?d = "(bd_tasks ?db)\<lparr>td_intents := t\<rparr>"
    from approve_task_create_change [OF 1(3)] wft have wfu: "intents_wf (td_intents tdb)"
      by (simp add: task_change_def intent_change_def)
    obtain number where row0: "tr_number row0 = number" "tr_room row0 = room" "tr_status row0 = Proposed"
      and tasks: "td_tasks tdb = td_tasks (bd_tasks db) @ [row0]"
      and i: "i \<in> set (td_intents tdb)" "the_intent room intent i" "bi_status i = BiUsed"
        "bi_task i = Some (format_task_id number)"
      using approve_task_create_body [OF 1(3) _ assms(3,4)] wft by (auto simp: new_task_row_def)
    from 1(4) obtain n where n: "parse_task_id (format_task_id number) = Some n"
      and ts: "ts = update_where (\<lambda>r. the_task room n r \<and> tr_status r = Proposed)
        (\<lambda>r. r\<lparr>tr_status := Accepted, tr_updated_at := now\<rparr>) (td_tasks tdb)"
      by (auto simp: accept_proposed_task_def row0 Let_def split: option.splits)
    have nn: "n = number" using n by (simp add: parse_format_task_id split: if_splits)
    have undo: "row\<lparr>tr_status := Proposed\<rparr> = row0" using row0(3) by (cases row0) (simp add: 1(5))
    have "(\<lambda>r. r\<lparr>bi_auto := True, bi_decided_at := coalesce (bi_decided_at r) (Some now)\<rparr>) i \<in> set (bd_intents db')"
      using update_where_mem [OF i(1), of "the_intent room intent"
          "\<lambda>r. r\<lparr>bi_auto := True, bi_decided_at := coalesce (bi_decided_at r) (Some now)\<rparr>"] i(2)
      by (simp add: 1(6) mark_board_intent_auto_approved_def)
    then have marked: "\<exists>j \<in> set (bd_intents db'). the_intent room intent j \<and> bi_status j = BiUsed \<and> bi_auto j \<and>
        bi_task j = Some (format_task_id (tr_number row))"
      by (rule bexI [rotated]) (use i row0 in \<open>simp add: the_intent_def 1(5)\<close>)
    have elig: "normalize_board_manager_mode (map_option (manager_mode_text \<circ> st_mode)
         (select_first (\<lambda>s. st_room s = room) (bd_settings db))) = ManagerOptional"
      "case select_first (managing (sessions (td_coord (bd_tasks db))) room) (bd_managers db) of
         None \<Rightarrow> True | Some m \<Rightarrow> \<not> manager_reachable room m check (bd_deliveries db)"
      using 1(2) by (simp_all add: with_intents_def assert_auto_approval_eligibility_def bind_result_Inr guard_result_Inr cong: option.case_cong)
    then have "st_mode (get_room_board_settings room check (bd_settings db)) = ManagerOptional"
      by (auto simp: get_room_board_settings_def default_settings_def default_board_manager_mode_def mode_roundtrip
          split: option.splits)
    with elig(2) marked tasks ts nn row0 show ?thesis unfolding undo
      by (simp add: 1(5,6))
  qed
qed

lemma auto_approval_effect_witness:
  "\<exists>row db'. auto_approve_intent demo_platform ''secret'' ''room'' ''bi_1'' ''key'' 600001 600002 demo_board =
     (Inr (Some row), db') \<and> bd_messages db' = [(''room'', ''board_intent_escalation:bi_1'')]"
proof -
  let ?a = "auto_approve_intent demo_platform ''secret'' ''room'' ''bi_1'' ''key'' 600001 600002 demo_board"
  have "(case fst ?a of Inl _ \<Rightarrow> None | Inr r \<Rightarrow> map_option tr_number r) = Some 1" by code_simp
  then obtain row db' where a: "?a = (Inr (Some row), db')"
    by (cases ?a) (auto split: sum.splits)
  have wf: "intents_wf (bd_intents demo_board)" using demo_pending_wf by (simp add: demo_board_def)
  from auto_approval_effect [OF a wf]
  have "bd_messages db' = bd_messages demo_board @ [(''room'', escalation_client_id ''bi_1'')]"
    by (simp add: js_trim_def js_space_def)
  with a show ?thesis by (simp add: demo_board_def escalation_client_id_def)
qed

lemma auto_approvals_limited_witness:
  "length (filter (approved_within ''room'' ''key'' 0 intent_auto_approve_window)
     (bd_intents (snd (auto_approve_intent demo_platform ''secret'' ''room'' ''bi_1'' ''key'' 600001 600002 demo_board)))) \<le> 5"
proof -
  let ?a = "auto_approve_intent demo_platform ''secret'' ''room'' ''bi_1'' ''key'' 600001 600002 demo_board"
  have "\<exists>i \<in> set (bd_intents demo_board). the_intent ''room'' ''bi_1'' i \<and> bi_key i = Some ''key''" by code_simp
  then have "board_step demo_platform no_urls demo_board (snd ?a)"
    by (intro board_step.auto_approved [OF prod.collapse [symmetric]]) auto
  then have "(board_step demo_platform no_urls)\<^sup>*\<^sup>* demo_board (snd ?a)" by blast
  moreover have "intents_wf (bd_intents demo_board)" using demo_pending_wf by (simp add: demo_board_def)
  moreover have "\<forall>r \<in> set (bd_intents demo_board). \<not> bi_auto r" by code_simp
  ultimately show ?thesis
    using auto_approvals_limited [of demo_platform no_urls demo_board "snd ?a" "''room''" "''key''" intent_auto_approve_window]
    by (simp add: intent_auto_approve_max_def)
qed

section \<open>One escalation\<close>

lemma board_step_messages: "board_step pf up db db' \<Longrightarrow> set (bd_messages db) \<subseteq> set (bd_messages db')"
proof (induction rule: board_step.induct)
  case (auto_approved token room intent key check now db ar db')
  from auto_approved(1) show ?case
  proof (cases rule: auto_approve_cases)
    case (approved row)
    from approved(3) show ?thesis by (cases rule: auto_approve_hook_Inr) auto
  qed simp
next
  case (notified room intent now db nr db')
  obtain x db1 where e: "emit_project_message room (escalation_client_id intent) (notify_hook room intent now) db = (x, db1)"
    by fastforce
  with notified have "db' = db1" by (auto simp: notify_humans_def elim: quiet_cases)
  with e show ?case
    by (cases rule: emit_cases) (auto simp: notify_hook_def bind_result_Inr split: prod.splits)
next
  case (failover i room dead claimed successor now signals db fr db')
  then show ?case by (cases rule: failover_cases) (auto elim: failover_hook_Inr)
qed auto

text \<open>An intent is escalated at most once: after an automatic approval or a notice to the humans of a room, every
  later attempt to do either posts nothing and changes nothing.\<close>

theorem escalated_once:
  assumes "fst (auto_approve_intent pf token room intent key check now db) \<notin> range Inl \<union> {Inr None} \<and>
      db1 = snd (auto_approve_intent pf token room intent key check now db) \<or>
      fst (notify_humans room intent now db) = Inr (Some ()) \<and> db1 = snd (notify_humans room intent now db)"
    and "(board_step pf up)\<^sup>*\<^sup>* db1 db2"
  shows "auto_approve_intent pf token2 room intent key2 check2 now2 db2 = (Inr None, db2) \<and>
    notify_humans room intent now2 db2 = (Inr None, db2)"
proof -
  have "(room, escalation_client_id intent) \<in> set (bd_messages db1)"
    using assms(1)
  proof
    assume a: "fst (auto_approve_intent pf token room intent key check now db) \<notin> range Inl \<union> {Inr None} \<and>
      db1 = snd (auto_approve_intent pf token room intent key check now db)"
    then obtain row where "auto_approve_intent pf token room intent key check now db = (Inr (Some row), db1)"
      by (cases "auto_approve_intent pf token room intent key check now db"; cases "fst (auto_approve_intent pf token
        room intent key check now db)") auto
    then show ?thesis
    proof (cases rule: auto_approve_cases)
      case (approved r)
      from approved(3) show ?thesis by (cases rule: auto_approve_hook_Inr) auto
    next
      case kept
      then show ?thesis using kept(2) [of row] by blast
    qed
  next
    assume "fst (notify_humans room intent now db) = Inr (Some ()) \<and> db1 = snd (notify_humans room intent now db)"
    then have n: "notify_humans room intent now db = (Inr (Some ()), db1)" by (metis prod.collapse)
    obtain x db3 where e: "emit_project_message room (escalation_client_id intent) (notify_hook room intent now) db = (x, db3)"
      by fastforce
    with n have "db1 = db3" "x = Inr (Some ())" by (auto simp: notify_humans_def elim: quiet_cases)
    with e show ?thesis
      by (cases rule: emit_cases) (auto simp: notify_hook_def bind_result_Inr split: prod.splits)
  qed
  moreover have "set (bd_messages db1) \<subseteq> set (bd_messages db2)"
    using assms(2) by (induction rule: rtranclp_induct) (auto dest: board_step_messages)
  ultimately have "(room, escalation_client_id intent) \<in> set (bd_messages db2)" by blast
  then show ?thesis
    by (simp add: auto_approve_intent_def notify_humans_def emit_project_message_def transaction_def quiet_errors_def)
qed

lemma escalated_once_witness:
  "auto_approve_intent demo_platform ''secret'' ''room'' ''bi_1'' ''key'' 600003 600004
     (snd (notify_humans ''room'' ''bi_1'' 600001 demo_board)) =
   (Inr None, snd (notify_humans ''room'' ''bi_1'' 600001 demo_board))"
proof -
  have "(case fst (notify_humans ''room'' ''bi_1'' 600001 demo_board) of Inl _ \<Rightarrow> None | Inr r \<Rightarrow> r) = Some ()" by code_simp
  then have "fst (notify_humans ''room'' ''bi_1'' 600001 demo_board) = Inr (Some ())" by (auto split: sum.splits)
  then show ?thesis using escalated_once [of demo_platform] rtranclp.rtrancl_refl by blast
qed

end
