(* ===== verification/TaskGuarantees.thy ===== *)
theory TaskGuarantees
  imports AutoApproval
begin

text \<open>
  What holds of tasks: identifiers, the exclusion of rival claims and of workers that have lost their lease,
  progress reports against the stored row, the release of a work lease, and what an update without a fence does.
\<close>

section \<open>Identifiers\<close>

text \<open>A text is a task identifier exactly when it is the text that the board prints for a positive number of the
  database's integer type, and it is read as that number.\<close>

theorem task_id_roundtrip:
  "parse_task_id s = Some n \<longleftrightarrow> s = format_task_id n \<and> 0 < n \<and> n \<le> postgres_integer_max"
  using parse_task_id_Some [of s n] parse_format_task_id [of n] by auto

section \<open>The cases of an update\<close>

lemma update_in_transaction_cases:
  assumes "update_in_transaction up pf i room task n u uo seen now d = Inr (r, d')"
  obtains (retry) row where "fence_phase up room task n u uo seen now d = Inr (Some row)" "r = Some row" "d' = d"
  | (written) d1 d2 d3 where "fence_phase up room task n u uo seen now d = Inr None"
      "claim_phase room task n u uo seen d = Inr ()" "consume_in pf (uo_approval uo) now now d = Inr d1"
      "write_task_update up room n u seen now d1 = Inr (r, d2)"
      "write_work_lease i room task (uo_lease uo) now d2 = Inr d3"
      "d' = (if uo_fence uo = None then d3 else write_artifact_side_effects up room task u uo seen now d3)"
proof -
  from assms obtain x where x: "fence_phase up room task n u uo seen now d = Inr x"
    by (auto simp: update_in_transaction_def bind_result_Inr)
  show ?thesis
  proof (cases x)
    case (Some row)
    with assms x show ?thesis by (intro retry) (auto simp: update_in_transaction_def)
  next
    case None
    with assms x show ?thesis
      by (auto simp: update_in_transaction_def bind_result_Inr intro: written)
  qed
qed

lemma update_task_write_cases:
  assumes "update_task_write up pf i room task u uo seen now d = (r, d')"
  obtains (refused) e where "r = Inl e" "d' = d"
  | (malformed) "parse_task_id task = None" "r = Inr None" "d' = d"
  | (guarded) n x d1 where "parse_task_id task = Some n" "update_checks up room task u uo seen = Inr ()"
      "update_in_transaction up pf i room task n u uo seen now d = Inr (x, d1)" "r = Inr x"
      "d' = (if uo_fence uo = None then write_artifact_side_effects up room task u uo seen now d1 else d1)"
  | (plain) n x d1 where "parse_task_id task = Some n" "update_checks up room task u uo seen = Inr ()"
      "uo_approval uo = None" "uo_lease uo = None" "uo_fence uo = None"
      "write_task_update up room n u seen now d = Inr (x, d1)" "r = Inr x"
      "d' = write_artifact_side_effects up room task u uo seen now d1"
proof (cases "update_checks up room task u uo seen")
  case (Inl e)
  with assms show ?thesis by (intro refused) (auto simp: update_task_write_def)
next
  case ok: (Inr v)
  show ?thesis
  proof (cases "parse_task_id task")
    case None
    with assms ok show ?thesis by (intro malformed) (auto simp: update_task_write_def)
  next
    case n: (Some n)
    show ?thesis
    proof (cases "uo_approval uo \<noteq> None \<or> uo_lease uo \<noteq> None \<or> uo_fence uo \<noteq> None")
      case True
      obtain y d1 where t: "transaction (update_in_transaction up pf i room task n u uo seen now) d = (y, d1)"
        by fastforce
      from t show ?thesis
      proof (cases rule: transaction_cases)
        case (rolled_back e)
        with assms ok n True t show ?thesis by (intro refused) (auto simp: update_task_write_def)
      next
        case (committed x)
        from assms ok n True t committed(1)
        have "(r, d') = (Inr x, if uo_fence uo = None then write_artifact_side_effects up room task u uo seen now d1 else d1)"
          by (simp add: update_task_write_def)
        with ok n committed(2) show ?thesis by (intro guarded [of n x d1]) auto
      qed
    next
      case False
      show ?thesis
      proof (cases "write_task_update up room n u seen now d")
        case (Inl e)
        with assms ok n False show ?thesis by (intro refused) (auto simp: update_task_write_def)
      next
        case (Inr p)
        obtain x d1 where p: "p = (x, d1)" by (cases p)
        from assms ok n False Inr p have "(r, d') = (Inr x, write_artifact_side_effects up room task u uo seen now d1)"
          by (simp add: update_task_write_def)
        with ok n False Inr p show ?thesis by (intro plain [of n x d1]) auto
      qed
    qed
  qed
qed

lemma fence_phase_fence:
  assumes "fence_phase up room task n u uo seen now d = Inr x" "uo_fence uo = Some f"
  obtains held where "held \<in> set (leases (td_coord d))" "fence_row f held"
  using assms
  by (auto simp: fence_phase_def bind_result_Inr require_Inr acquire_lease_fence_def dest!: select_first_SomeD)

section \<open>A worker that lost its lease\<close>

text \<open>C3: Once a known fence is rejected, an update of a task under it never succeeds again and changes nothing, however
  the board goes on and whatever row the update has read.\<close>

theorem stale_holder_cannot_write:
  assumes "board_fence_known db f" "\<not> board_fence_holds db f" "(board_step pf up)\<^sup>*\<^sup>* db db'" "uo_fence uo = Some f"
  shows "snd (update_task_write up pf i room task u uo seen now (bd_tasks db')) = bd_tasks db' \<and>
    (\<nexists>row. fst (update_task_write up pf i room task u uo seen now (bd_tasks db')) = Inr (Some row))"
proof -
  have lost: "\<not> board_fence_holds db' f" using board_fence.lost_forever assms(1-3) by blast
  obtain r d' where w: "update_task_write up pf i room task u uo seen now (bd_tasks db') = (r, d')" by fastforce
  then show ?thesis
  proof (cases rule: update_task_write_cases)
    case (guarded n x d1)
    from guarded(3) obtain y where "fence_phase up room task n u uo seen now (bd_tasks db') = Inr y"
      by (auto simp: update_in_transaction_def bind_result_Inr)
    then obtain held where "held \<in> set (leases (td_coord (bd_tasks db')))" "fence_row f held"
      using assms(4) by (rule fence_phase_fence)
    with lost show ?thesis by (auto simp: board_fence_holds_def fence_holds_iff)
  qed (use w assms(4) in auto)
qed

section \<open>Claims\<close>

definition active_work :: "string \<Rightarrow> string \<Rightarrow> task_lease \<Rightarrow> bool" where
  "active_work room task l \<longleftrightarrow> tl_room l = room \<and> tl_task l = task \<and> tl_kind l = Work \<and> tl_status l = Active"

lemma write_task_update_Inr:
  assumes "write_task_update up room n u seen now d = Inr (r, d')"
  obtains (gone) "r = None" "d' = d" "up_expected u = None" "\<forall>x \<in> set (td_tasks d). \<not> the_task room n x"
  | (written) x where "x \<in> set (td_tasks d)" "the_task room n x" "expected_content u x"
      "r = Some (updated_task up u seen now x)"
      "d' = d\<lparr>td_tasks := update_where (\<lambda>r. the_task room n r \<and> expected_content u r) (updated_task up u seen now) (td_tasks d)\<rparr>"
proof (cases "List.find (\<lambda>r. the_task room n r \<and> expected_content u r) (td_tasks d)")
  case None
  with assms have "up_expected u = None" "r = None" "d' = d"
    by (auto simp: write_task_update_def returning_first_def Let_def split: if_splits)
  moreover have "\<forall>x \<in> set (td_tasks d). \<not> the_task room n x"
    using find_NoneD [OF None] calculation(1) by (auto simp: expected_content_def)
  ultimately show ?thesis using gone by blast
next
  case (Some x)
  with assms find_SomeD [OF Some] show ?thesis
    by (intro written [of x]) (auto simp: write_task_update_def returning_first_def Let_def)
qed

lemma write_work_lease_Inr:
  assumes "write_work_lease i room task (Some l) now d = Inr d'"
  shows "leases (td_coord d') = leases (td_coord d) @
      [create_task_lease_row i (l\<lparr>li_room := room, li_task := task, li_kind := Work\<rparr>) now]"
    "i \<notin> tl_id ` set (leases (td_coord d))" "td_tasks d' = td_tasks d" "td_intents d' = td_intents d"
  using assms
  by (auto simp: write_work_lease_def insert_lease_def lease_conflict_def create_task_lease_row_def
      split: option.splits if_splits)

text \<open>The artifacts that follow an update leave the identity and the state of the leases.\<close>

lemma side_effects_active_work:
  "map tl_id (filter (active_work rm tk) (leases (td_coord (write_artifact_side_effects up room task u uo seen now d)))) =
   map tl_id (filter (active_work rm tk) (leases (td_coord d)))"
proof -
  have "map tl_id (filter (active_work rm tk) (leases (snd (update_task_lease_workflow_refs room l b v now c)))) =
      map tl_id (filter (active_work rm tk) (leases c))" for l b v c
  proof -
    have "map tl_id (filter (active_work rm tk) (update_where p (\<lambda>r. r\<lparr>tl_branch := g r, tl_pr_url := h r, tl_updated_at := now\<rparr>) t)) =
        map tl_id (filter (active_work rm tk) t)" for p g h t
      by (induction t) (auto simp: update_where_def active_work_def)
    then show ?thesis by (simp add: update_task_lease_workflow_refs_def Let_def)
  qed
  then show ?thesis by (simp add: write_artifact_side_effects_def Let_def split: option.splits)
qed

lemma claim_refused:
  assumes "\<exists>x \<in> set (leases (td_coord d)). active_work room task x" "uo_lease uo \<noteq> None" "parse_task_id task = Some n"
  shows "\<exists>e. update_task_write up pf i room task u uo seen now d = (Inl e, d)"
proof -
  obtain r d' where w: "update_task_write up pf i room task u uo seen now d = (r, d')" by fastforce
  then show ?thesis
  proof (cases rule: update_task_write_cases)
    case (guarded m x d1)
    from guarded(3) show ?thesis
    proof (cases rule: update_in_transaction_cases)
      case (retry row)
      with assms(2) show ?thesis
        by (auto simp: fence_phase_def progress_retry_eligible_def bind_result_Inr split: option.splits if_splits)
    next
      case (written d2 d3 d4)
      with assms(1,2) show ?thesis by (auto simp: claim_phase_def guard_result_Inr active_work_def split: if_splits)
    qed
  qed (use w assms in auto)
qed

lemma claim_effect:
  assumes "update_task_write up pf i room task u uo seen now d = (Inr r, d')" "uo_lease uo = Some l" "parse_task_id task = Some n"
  shows "\<exists>current. get_task_row_by_id room task (td_tasks d) = Some current \<and> same_snapshot current seen"
    "up_status u = Some Assigned \<Longrightarrow> tr_status seen = Accepted \<or> retrying_own_claim u uo seen"
    "filter (active_work room task) (leases (td_coord d)) = []"
    "map tl_id (filter (active_work room task) (leases (td_coord d'))) = [i]"
proof -
  from assms(1) have "(\<exists>current. get_task_row_by_id room task (td_tasks d) = Some current \<and> same_snapshot current seen) \<and>
    (up_status u = Some Assigned \<longrightarrow> tr_status seen = Accepted \<or> retrying_own_claim u uo seen) \<and>
    filter (active_work room task) (leases (td_coord d)) = [] \<and>
    map tl_id (filter (active_work room task) (leases (td_coord d'))) = [i]"
  proof (cases rule: update_task_write_cases)
    case (guarded m x d1)
    from guarded(3) show ?thesis
    proof (cases rule: update_in_transaction_cases)
      case (retry row)
      with assms(2) show ?thesis
        by (auto simp: fence_phase_def progress_retry_eligible_def bind_result_Inr split: option.splits if_splits)
    next
      case (written d2 d3 d4)
      have "filter (active_work room task) (leases (td_coord d)) = []"
        using written(2) assms(2) by (auto simp: claim_phase_def guard_result_Inr active_work_def filter_empty_conv)
      moreover have "td_coord d3 = td_coord d"
        using written(4) consume_in_change(3) [OF written(3)] by (cases rule: write_task_update_Inr) auto
      ultimately have "map tl_id (filter (active_work room task) (leases (td_coord d4))) = [i]"
        using write_work_lease_Inr(1) [of i room task l now d3 d4] written(5) assms(2)
        by (simp add: active_work_def create_task_lease_row_def)
      then have "map tl_id (filter (active_work room task) (leases (td_coord d'))) = [i]"
        using guarded(5) written(6) side_effects_active_work by (simp split: if_splits)
      moreover have "\<exists>current. get_task_row_by_id room task (td_tasks d) = Some current \<and> same_snapshot current seen"
        using written(2) guarded(1) assms(2)
        by (auto simp: claim_phase_def guard_result_Inr get_task_row_by_id_def split: option.splits)
      moreover have "up_status u = Some Assigned \<longrightarrow> tr_status seen = Accepted \<or> retrying_own_claim u uo seen"
        using guarded(2) assms(2) by (auto simp: update_checks_def bind_result_Inr guard_result_Inr)
      ultimately show ?thesis using \<open>filter (active_work room task) (leases (td_coord d)) = []\<close> by blast
    qed
  qed (use assms in auto)
  then show "\<exists>current. get_task_row_by_id room task (td_tasks d) = Some current \<and> same_snapshot current seen"
    "up_status u = Some Assigned \<Longrightarrow> tr_status seen = Accepted \<or> retrying_own_claim u uo seen"
    "filter (active_work room task) (leases (td_coord d)) = []"
    "map tl_id (filter (active_work room task) (leases (td_coord d'))) = [i]"
    by blast+
qed

text \<open>C4: A claim goes through only when the task is as it was read, no work lease of it is active and it was
  accepted (or the claim is repeated by its assignee); afterwards exactly one work lease of the task is active,
  the new one, and every rival claim fails without a change.\<close>

theorem claim_is_exclusive:
  assumes "update_task_write up pf i room task u uo seen now d = (Inr (Some row), d')" "uo_lease uo = Some l"
    "uo_lease uo2 \<noteq> None"
  shows "(\<exists>current. get_task_row_by_id room task (td_tasks d) = Some current \<and> same_snapshot current seen) \<and>
    (up_status u = Some Assigned \<longrightarrow> tr_status seen = Accepted \<or> retrying_own_claim u uo seen) \<and>
    filter (active_work room task) (leases (td_coord d)) = [] \<and>
    map tl_id (filter (active_work room task) (leases (td_coord d'))) = [i] \<and>
    (\<exists>e. update_task_write up pf i2 room task u2 uo2 seen2 now2 d' = (Inl e, d'))"
proof -
  from assms(1) obtain n where n: "parse_task_id task = Some n"
    by (cases rule: update_task_write_cases) auto
  note c = claim_effect [OF assms(1,2) n]
  have "filter (active_work room task) (leases (td_coord d')) \<noteq> []" using c(4) by auto
  then have "\<exists>x \<in> set (leases (td_coord d')). active_work room task x" by (simp add: filter_empty_conv)
  with c claim_refused assms(3) n show ?thesis by metis
qed

section \<open>A small task board\<close>

definition demo_task :: "task_status \<Rightarrow> task_row" where
  "demo_task s = \<lparr>tr_room = ''room'', tr_number = 1, tr_title = ''Fix it'', tr_description = None, tr_status = s,
     tr_assignee = None, tr_assignee_key = None, tr_created_by = ''agent'', tr_source_message = None,
     tr_client_id = None, tr_pr_url = None, tr_artifacts = [], tr_created_at = 0, tr_updated_at = 5\<rparr>"

definition demo_tasks :: "task_row list \<Rightarrow> task_db" where
  "demo_tasks ts = \<lparr>td_coord = demo_coord, td_intents = [], td_tasks = ts, td_sequences = [],
     td_artifacts = \<lparr>at_artifacts = [], at_links = []\<rparr>\<rparr>"

definition demo_lease_input :: lease_input where
  "demo_lease_input = \<lparr>li_room = [], li_task = [], li_kind = Work, li_agent_key = ''key'', li_label = ''agent'',
     li_created_by = ''agent'', li_instance = None, li_session = Some ''new'', li_branch = None, li_pr_url = None,
     li_output = None, li_expires_at = None\<rparr>"

definition status_update :: "task_status \<Rightarrow> task_update" where
  "status_update s = \<lparr>up_title = None, up_description = None, up_expected = None, up_status = Some s,
     up_assignee = None, up_assignee_key = None, up_pr_url = None, up_artifacts = None\<rparr>"

definition claim_update :: task_update where
  "claim_update = (status_update Assigned)\<lparr>up_assignee := Some (Some ''agent''), up_assignee_key := Some (Some ''key'')\<rparr>"

definition claim_options :: update_options where
  "claim_options = \<lparr>uo_approval = None, uo_lease = Some demo_lease_input, uo_fence = None\<rparr>"

definition no_options :: update_options where
  "no_options = \<lparr>uo_approval = None, uo_lease = None, uo_fence = None\<rparr>"

definition demo_claimed :: task_db where
  "demo_claimed = snd (update_task_write no_urls demo_platform ''lease'' ''room'' ''task_1'' claim_update claim_options
     (demo_task Accepted) 10 (demo_tasks [demo_task Accepted]))"

lemma claim_is_exclusive_witness:
  "\<exists>e. update_task_write no_urls demo_platform ''rival'' ''room'' ''task_1'' claim_update claim_options
     (demo_task Accepted) 11 demo_claimed = (Inl e, demo_claimed)"
proof -
  let ?a = "update_task_write no_urls demo_platform ''lease'' ''room'' ''task_1'' claim_update claim_options
     (demo_task Accepted) 10 (demo_tasks [demo_task Accepted])"
  have "(case fst ?a of Inl _ \<Rightarrow> None | Inr r \<Rightarrow> map_option tr_number r) = Some 1" by code_simp
  then obtain row where "fst ?a = Inr (Some row)" by (auto split: sum.splits)
  then have "?a = (Inr (Some row), demo_claimed)" unfolding demo_claimed_def by (metis prod.collapse)
  from claim_is_exclusive [OF this, of demo_lease_input claim_options] show ?thesis
    by (simp add: claim_options_def)
qed

definition demo_work_fence :: lease_fence where
  "demo_work_fence = \<lparr>lf_lease = ''lease'', lf_room = ''room'', lf_task = ''task_1'', lf_kind = Work, lf_epoch = 0,
     lf_session = ''gone''\<rparr>"

definition fenced_options :: "lease_fence \<Rightarrow> update_options" where
  "fenced_options f = \<lparr>uo_approval = None, uo_lease = None, uo_fence = Some f\<rparr>"

definition demo_claimed_board :: board_db where
  "demo_claimed_board = demo_board\<lparr>bd_tasks := demo_claimed\<rparr>"

lemma stale_holder_cannot_write_witness:
  "snd (update_task_write no_urls demo_platform ''x'' ''room'' ''task_1'' (status_update InProgress) (fenced_options demo_work_fence)
     (demo_task Assigned) 12 demo_claimed) = demo_claimed"
proof -
  have "leases_wf (leases (td_coord demo_claimed))" by code_simp
  moreover have "\<exists>r \<in> set (leases (td_coord demo_claimed)). tl_id r = lf_lease demo_work_fence \<and> lf_epoch demo_work_fence \<le> tl_epoch r"
    by code_simp
  ultimately have known: "board_fence_known demo_claimed_board demo_work_fence"
    by (simp add: board_fence_known_def fence_known_def demo_claimed_board_def)
  have "acquire_lease_fence demo_work_fence (td_coord demo_claimed) = None" by code_simp
  then have lost: "\<not> board_fence_holds demo_claimed_board demo_work_fence"
    by (simp add: board_fence_holds_def fence_holds_def demo_claimed_board_def)
  have "uo_fence (fenced_options demo_work_fence) = Some demo_work_fence" by (simp add: fenced_options_def)
  from stale_holder_cannot_write [OF known lost rtranclp.rtrancl_refl this] show ?thesis
    by (simp add: demo_claimed_board_def)
qed

section \<open>Progress reports\<close>

text \<open>C9: A progress report of a worker goes through only under its work lease; a repeated report returns the stored
  task and changes nothing, and any other one is checked against the task as it is stored, not against an
  earlier read.\<close>

theorem progress_checked_against_stored_task:
  assumes "update_task_write up pf i room task u uo seen now d = (Inr (Some row), d')"
    "progress_retry_eligible room task uo" "up_status u = Some s" "s \<in> {InProgress, InReview}"
  shows "\<exists>f held current. uo_fence uo = Some f \<and> held \<in> set (leases (td_coord d)) \<and> fence_row f held \<and>
    get_task_row_by_id room task (td_tasks d) = Some current \<and> tr_status row = s \<and>
    (row = current \<and> d' = d \<or>
     is_valid_task_transition (tr_status current) s \<and> same_snapshot current seen \<and> tr_updated_at row = now)"
proof -
  from assms(2) obtain f where f: "uo_fence uo = Some f" "uo_lease uo = None"
    by (auto simp: progress_retry_eligible_def split: option.splits)
  from assms(1) show ?thesis
  proof (cases rule: update_task_write_cases)
    case (guarded n x d1)
    from guarded(3) obtain y where y: "fence_phase up room task n u uo seen now d = Inr y"
      by (auto simp: update_in_transaction_def bind_result_Inr)
    then obtain held where held: "held \<in> set (leases (td_coord d))" "fence_row f held"
      using f(1) by (rule fence_phase_fence)
    from y obtain current where c: "select_first (the_task room n) (td_tasks d) = Some current"
      using f assms(2-4) by (auto simp: fence_phase_def bind_result_Inr require_Inr)
    then have g: "get_task_row_by_id room task (td_tasks d) = Some current"
      using guarded(1) by (simp add: get_task_row_by_id_def)
    have t: "is_valid_task_transition (tr_status seen) s \<or> is_exact_progress_retry up room task u uo seen"
      using guarded(2) assms(3,4)
      by (auto simp: update_checks_def bind_result_Inr guard_result_Inr retrying_own_claim_def)
    from guarded(3) show ?thesis
    proof (cases rule: update_in_transaction_cases)
      case (retry r)
      then have "is_exact_progress_retry up room task u uo current" "r = current"
        using f assms(2-4) c by (auto simp: fence_phase_def bind_result_Inr require_Inr guard_result_Inr split: if_splits)
      then have "row = current" "tr_status current = s" "d' = d"
        using retry guarded(4,5) f assms(3) by (auto simp: is_exact_progress_retry_def)
      with f(1) held g show ?thesis by blast
    next
      case (written d2 d3 d4)
      from written(1) have w: "\<not> is_exact_progress_retry up room task u uo seen" "same_snapshot current seen"
        using f assms(2-4) c by (auto simp: fence_phase_def bind_result_Inr require_Inr guard_result_Inr split: if_splits)
      from written(4) have "tr_status row = s" "tr_updated_at row = now"
        using guarded(4) assms(3)
        by (cases rule: write_task_update_Inr; simp add: updated_task_def split: prod.splits)+
      moreover have "is_valid_task_transition (tr_status current) s" using t w by (simp add: same_snapshot_def)
      ultimately show ?thesis using f(1) held g w(2) by blast
    qed
  qed (use assms f in auto)
qed

lemma progress_checked_against_stored_task_witness:
  "\<exists>row d'. update_task_write no_urls demo_platform ''x'' ''room'' ''task_1'' (status_update InProgress)
       (fenced_options (demo_work_fence\<lparr>lf_session := ''new''\<rparr>)) (hd (td_tasks demo_claimed)) 12 demo_claimed = (Inr (Some row), d') \<and>
     tr_status row = InProgress \<and> tr_updated_at row = 12"
proof -
  let ?uo = "fenced_options (demo_work_fence\<lparr>lf_session := ''new''\<rparr>)"
  let ?a = "update_task_write no_urls demo_platform ''x'' ''room'' ''task_1'' (status_update InProgress)
       ?uo (hd (td_tasks demo_claimed)) 12 demo_claimed"
  have "(case fst ?a of Inl _ \<Rightarrow> None | Inr r \<Rightarrow> map_option tr_updated_at r) = Some 12" by code_simp
  then obtain row d' where a: "?a = (Inr (Some row), d')" and r: "tr_updated_at row = 12"
    by (cases ?a) (auto split: sum.splits)
  have "progress_retry_eligible ''room'' ''task_1'' ?uo" by code_simp
  moreover have "up_status (status_update InProgress) = Some InProgress" by (simp add: status_update_def)
  ultimately have "tr_status row = InProgress" using progress_checked_against_stored_task [OF a] by blast
  with a r show ?thesis by blast
qed

section \<open>Updates without a fence\<close>

text \<open>C18: An update without a fence, a claim or an approval is checked only against the row that it has read: it sets
  the new status whatever the stored one is, and with a new pull request it writes the artifacts of the read row
  over the stored ones.\<close>

theorem unfenced_update_trusts_its_read:
  assumes "uo_approval uo = None" "uo_lease uo = None" "uo_fence uo = None"
    "update_checks up room task u uo seen = Inr ()" "get_task_row_by_id room task (td_tasks d) = Some current"
    "up_expected u = None"
  shows "\<exists>row. fst (update_task_write up pf i room task u uo seen now d) = Inr (Some row) \<and>
    tr_status row = keep_or (tr_status current) (up_status u) \<and>
    tr_artifacts row = (if writes_workflow u then new_workflow_artifacts up u seen else tr_artifacts current)"
proof -
  from assms(5) obtain n where n: "parse_task_id task = Some n" "select_first (the_task room n) (td_tasks d) = Some current"
    by (auto simp: get_task_row_by_id_def split: option.splits)
  have "write_task_update up room n u seen now d = Inr (Some (updated_task up u seen now current),
     d\<lparr>td_tasks := update_where (the_task room n) (updated_task up u seen now) (td_tasks d)\<rparr>)"
    using n(2) assms(6)
    by (simp add: write_task_update_def expected_content_def returning_first_def select_first_def Let_def)
  then have "fst (update_task_write up pf i room task u uo seen now d) = Inr (Some (updated_task up u seen now current))"
    using assms(1-4) n(1) by (simp add: update_task_write_def)
  then show ?thesis by (auto simp: updated_task_def split: prod.splits)
qed

lemma unfenced_update_trusts_its_read_witness:
  "\<exists>row. fst (update_task_write no_urls demo_platform ''x'' ''room'' ''task_1'' (status_update InProgress) no_options
     (demo_task InReview) 9 (demo_tasks [demo_task TaskDone])) = Inr (Some row) \<and> tr_status row = InProgress \<and>
   \<not> is_valid_task_transition TaskDone InProgress"
proof -
  have "update_checks no_urls ''room'' ''task_1'' (status_update InProgress) no_options (demo_task InReview) = Inr ()"
    by code_simp
  moreover have "get_task_row_by_id ''room'' ''task_1'' (td_tasks (demo_tasks [demo_task TaskDone])) = Some (demo_task TaskDone)"
    by code_simp
  moreover have "\<not> is_valid_task_transition TaskDone InProgress" by code_simp
  ultimately show ?thesis
    using unfenced_update_trusts_its_read [of no_options no_urls "''room''" "''task_1''" "status_update InProgress"
        "demo_task InReview" "demo_tasks [demo_task TaskDone]" "demo_task TaskDone" demo_platform "''x''" 9]
    by (auto simp: no_options_def status_update_def keep_or_def)
qed

section \<open>Releasing and handing over a work lease\<close>

lemma swept_active:
  assumes "r \<in> set (expire_stale_task_leases room now t)" "tl_status r = Active"
  shows "r \<in> set t"
  using assms by (auto simp: expire_stale_task_leases_def set_update_where split: if_splits)

lemma active_work_unique:
  assumes "leases_wf t" "a \<in> set t" "b \<in> set t" "active_work room task a" "active_work room task b"
  shows "a = b"
proof -
  have "lease_conflict a b" using assms(4,5) by (simp add: lease_conflict_def active_work_def)
  then have "tl_id a = tl_id b" using assms(1-3) unfolding leases_wf_def by blast
  then show ?thesis using leases_wf_key assms(1-3) by blast
qed

lemma disposed_active:
  assumes "leases_wf t" "old \<in> set t" "disposed_lease a now old"
  shows "filter (active_work (la_room a) (la_task a)) (update_where (disposed_lease a now) (disposed_row a now) t) = []"
    "\<forall>r \<in> set (update_where (disposed_lease a now) (disposed_row a now) t). tl_id r = la_lease a \<longrightarrow> tl_status r \<noteq> Active"
proof -
  have old: "active_work (la_room a) (la_task a) old" "tl_id old = la_lease a"
    using assms(3) by (auto simp: disposed_lease_def active_work_def)
  have d: "disposed_lease a now x" if "x \<in> set t" "active_work (la_room a) (la_task a) x \<or> tl_id x = la_lease a" for x
  proof -
    have "x = old"
      using that active_work_unique [OF assms(1) that(1) assms(2)] leases_wf_key [OF assms(1) that(1) assms(2)] old by auto
    with assms(3) show ?thesis by simp
  qed
  show "filter (active_work (la_room a) (la_task a)) (update_where (disposed_lease a now) (disposed_row a now) t) = []"
    using d by (auto simp: filter_empty_conv set_update_where active_work_def disposed_row_def)
  show "\<forall>r \<in> set (update_where (disposed_lease a now) (disposed_row a now) t). tl_id r = la_lease a \<longrightarrow> tl_status r \<noteq> Active"
    using d by (auto simp: set_update_where disposed_row_def)
qed

lemma lease_action_cases:
  assumes "apply_task_work_lease_action pf i a now ds d = (Inr (Inr res), d')"
  obtains seen old d2 d3 where
    "get_task_row_by_id (la_room a) (la_task a) (td_tasks d) = Some seen"
    "old \<in> set (expire_stale_task_leases (la_room a) now (leases (td_coord d)))" "disposed_lease a now old"
    "lr_released res = disposed_row a now old"
    "leases (td_coord d2) = update_where (disposed_lease a now) (disposed_row a now)
       (expire_stale_task_leases (la_room a) now (leases (td_coord d)))"
    "td_tasks d2 = update_where (the_task (la_room a) (tr_number seen)) (assigned_task seen (la_patch a) now) (td_tasks d)"
    "td_intents d2 = td_intents d"
    "consume_in pf (la_approval a) now now d2 = Inr d3"
    "write_work_lease i (la_room a) (la_task a) (la_new a) now d3 = Inr d'"
proof -
  from assms have b: "lease_action_body pf i a now ds d = Inr (Inr res, d')"
    unfolding apply_task_work_lease_action_def by (cases rule: transaction_cases) auto
  then obtain seen where seen: "get_task_row_by_id (la_room a) (la_task a) (td_tasks d) = Some seen"
    by (auto simp: lease_action_body_def split: option.splits)
  let ?swept = "expire_stale_task_leases (la_room a) now (leases (td_coord d))"
  let ?d1 = "d\<lparr>td_coord := (td_coord d)\<lparr>leases := ?swept\<rparr>\<rparr>"
  let ?d2 = "?d1\<lparr>td_coord := (td_coord ?d1)\<lparr>leases := update_where (disposed_lease a now) (disposed_row a now) ?swept\<rparr>,
      td_tasks := update_where (the_task (la_room a) (tr_number seen)) (assigned_task seen (la_patch a) now) (td_tasks ?d1)\<rparr>"
  from b seen obtain rel where rel: "returning_first (disposed_lease a now) (disposed_row a now) ?swept = Some rel"
    by (auto simp: lease_action_body_def Let_def split: if_splits option.splits)
  then obtain old where old: "old \<in> set ?swept" "disposed_lease a now old" "rel = disposed_row a now old"
    by (auto simp: returning_first_def dest: find_SomeD)
  have ok: "\<not> (case la_new a of None \<Rightarrow> False
      | Some l \<Rightarrow> truthy (li_session l) \<and> \<not> target_reachable (la_room a) (the (li_session l)) now ds)" (is "\<not> ?away")
  proof
    assume ?away
    with b seen show False by (simp add: lease_action_body_def)
  qed
  let ?rest = "bind_result (consume_in pf (la_approval a) now now ?d2) (\<lambda>db3.
     bind_result (write_work_lease i (la_room a) (la_task a) (la_new a) now db3) (\<lambda>db4.
     Inr (Inr \<lparr>lr_task = assigned_task seen (la_patch a) now seen, lr_released = rel,
       lr_new = map_option (\<lambda>l. create_task_lease_row i (l\<lparr>li_room := la_room a, li_task := la_task a, li_kind := Work\<rparr>) now)
         (la_new a)\<rparr>, db4)))"
  have eq: "lease_action_body pf i a now ds d = ?rest"
    unfolding lease_action_body_def seen option.case if_not_P [OF ok] Let_def rel ..
  from trans [OF eq [symmetric] b] obtain d3 where d3: "consume_in pf (la_approval a) now now ?d2 = Inr d3"
    "write_work_lease i (la_room a) (la_task a) (la_new a) now d3 = Inr d'" "lr_released res = rel"
    unfolding bind_result_Inr sum.inject prod.inject by force
  show ?thesis by (rule that [OF seen old(1,2) _ _ _ _ d3(1,2)]) (use d3(3) old(3) in simp_all)
qed

text \<open>C8: Releasing, revoking or handing over a work lease ends exactly an active work lease of the task: its holder's
  fence is rejected from then on in every run, the task gets the assignment of the action, and afterwards only the
  successor's lease, if there is one, is an active work lease of the task.\<close>

theorem lease_action_effect:
  assumes "apply_task_work_lease_action pf i a now ds (bd_tasks db) = (Inr (Inr res), d')"
    "leases_wf (leases (td_coord (bd_tasks db)))" "lf_lease f = la_lease a" "lf_epoch f \<le> tl_epoch (lr_released res)"
    "(board_step pf up)\<^sup>*\<^sup>* (db\<lparr>bd_tasks := d'\<rparr>) db2"
  shows "(\<exists>old. old \<in> set (leases (td_coord (bd_tasks db))) \<and> active_work (la_room a) (la_task a) old \<and>
      tl_id old = la_lease a \<and> lr_released res = disposed_row a now old) \<and>
    (\<exists>seen. get_task_row_by_id (la_room a) (la_task a) (td_tasks (bd_tasks db)) = Some seen \<and>
      td_tasks d' = update_where (the_task (la_room a) (tr_number seen)) (assigned_task seen (la_patch a) now) (td_tasks (bd_tasks db))) \<and>
    map tl_id (filter (active_work (la_room a) (la_task a)) (leases (td_coord d'))) = (if la_new a = None then [] else [i]) \<and>
    \<not> board_fence_holds db2 f"
  using assms(1)
proof (cases rule: lease_action_cases)
  case (1 seen old d2 d3)
  let ?swept = "expire_stale_task_leases (la_room a) now (leases (td_coord (bd_tasks db)))"
  have wf: "leases_wf ?swept" using assms(2) expire_wf by blast
  note gone = disposed_active [OF wf 1(2,3)]
  have old: "old \<in> set (leases (td_coord (bd_tasks db)))" "active_work (la_room a) (la_task a) old" "tl_id old = la_lease a"
    using swept_active [OF 1(2)] 1(3) by (auto simp: disposed_lease_def active_work_def)
  have d3: "leases (td_coord d3) = update_where (disposed_lease a now) (disposed_row a now) ?swept" "td_tasks d3 = td_tasks d2"
    using consume_in_change(2,3) [OF 1(8)] 1(5) by simp_all
  have row: "disposed_row a now old \<in> set (leases (td_coord d3))"
    unfolding d3 using update_where_mem [OF 1(2), of "disposed_lease a now" "disposed_row a now"] 1(3) by simp
  have fin: "map tl_id (filter (active_work (la_room a) (la_task a)) (leases (td_coord d'))) = (if la_new a = None then [] else [i]) \<and>
      td_tasks d' = td_tasks d2 \<and> set (leases (td_coord d3)) \<subseteq> set (leases (td_coord d')) \<and>
      (\<forall>r \<in> set (leases (td_coord d')). tl_id r = la_lease a \<longrightarrow> tl_status r \<noteq> Active)"
  proof (cases "la_new a")
    case None
    with 1(9) have "d' = d3" by (simp add: write_work_lease_def)
    with None gone d3 show ?thesis by simp
  next
    case (Some l)
    with 1(9) have w: "write_work_lease i (la_room a) (la_task a) (Some l) now d3 = Inr d'" by simp
    have "la_lease a \<in> tl_id ` set (leases (td_coord d3))" using row old(3) by (force simp: disposed_row_def)
    then have "i \<noteq> la_lease a" using write_work_lease_Inr(2) [OF w] by blast
    with Some write_work_lease_Inr [OF w] gone d3 show ?thesis
      by (auto simp: active_work_def create_task_lease_row_def)
  qed
  have wf': "leases_wf (leases (td_coord d'))"
    using lease_action_change [OF assms(1)] assms(2) by (simp add: task_change_def coord_change_def)
  let ?db1 = "db\<lparr>bd_tasks := d'\<rparr>"
  have "board_fence_known ?db1 f"
    unfolding board_fence_known_def fence_known_def
    using wf' fin row assms(3,4) 1(4) old(3) by (auto intro!: bexI [of _ "disposed_row a now old"] simp: disposed_row_def)
  moreover have "\<not> board_fence_holds ?db1 f"
    using fin assms(3) by (auto simp: board_fence_holds_def fence_holds_iff fence_row_def)
  ultimately have "\<not> board_fence_holds db2 f" using board_fence.lost_forever assms(5) by blast
  with fin old 1(1,4,6) show ?thesis by auto
qed

definition demo_release :: lease_action where
  "demo_release = \<lparr>la_room = ''room'', la_task = ''task_1'', la_lease = ''lease'', la_epoch = Some 0, la_revoke = False,
     la_reason = None, la_patch = \<lparr>tp_status = Some Accepted, tp_assignee = Some None, tp_assignee_key = None\<rparr>,
     la_approval = None, la_new = None\<rparr>"

lemma lease_action_effect_witness:
  "\<exists>res d'. apply_task_work_lease_action demo_platform ''x'' demo_release 20 [] demo_claimed = (Inr (Inr res), d') \<and>
     \<not> fence_holds (td_coord d') (demo_work_fence\<lparr>lf_session := ''new''\<rparr>)"
proof -
  let ?a = "apply_task_work_lease_action demo_platform ''x'' demo_release 20 [] demo_claimed"
  have "(case fst ?a of Inl _ \<Rightarrow> None | Inr (Inl _) \<Rightarrow> None | Inr (Inr res) \<Rightarrow> Some (tl_epoch (lr_released res))) = Some 0"
    by code_simp
  then obtain res d' where a: "?a = (Inr (Inr res), d')" and e: "tl_epoch (lr_released res) = 0"
    by (cases ?a) (auto split: sum.splits)
  have b: "apply_task_work_lease_action demo_platform ''x'' demo_release 20 [] (bd_tasks demo_claimed_board) = (Inr (Inr res), d')"
    using a by (simp add: demo_claimed_board_def)
  have w: "leases_wf (leases (td_coord (bd_tasks demo_claimed_board)))" unfolding demo_claimed_board_def by code_simp
  have "\<not> board_fence_holds (demo_claimed_board\<lparr>bd_tasks := d'\<rparr>) (demo_work_fence\<lparr>lf_session := ''new''\<rparr>)"
    using lease_action_effect [of demo_platform "''x''" demo_release 20 "[]" demo_claimed_board res d' "demo_work_fence\<lparr>lf_session := ''new''\<rparr>" no_urls, OF b w _ _ rtranclp.rtrancl_refl] e
    by (simp add: demo_work_fence_def demo_release_def)
  with a show ?thesis by (auto simp: board_fence_holds_def)
qed

section \<open>Replacing a Board Manager\<close>

lemma promote_Inr:
  assumes "promote_board_manager i room session b True start now signals ss ds t = Inr (Some p, t')"
  obtains x where "x \<in> set ss" "live_worker room session x"
    "p = assignment_row i room x (signals x) (infer_board_manager_runtime_source (signals x)) b now"
    "\<exists>d \<in> set ds. ds_room d = room \<and> ds_session d = Some session \<and> ds_worker d \<and> is_delivery_reachable d start"
    "t' = t @ [p]" "\<forall>m \<in> set t. \<not> assignment_conflict p m"
  using assms
  by (auto simp: promote_board_manager_def insert_assignment_def Let_def
      split: option.splits if_splits dest!: select_first_SomeD)


definition demo_signals :: "agent_session \<Rightarrow> session_signals" where
  "demo_signals x = \<lparr>sg_runtime = ''codex'', sg_ide = None, sg_liveness = None, sg_bridge = None, sg_last_seen = 90\<rparr>"

definition demo_manager :: manager_assignment where
  "demo_manager = (assignment_row ''m1'' ''room'' (demo_session ''old'' 5 None) (demo_signals (demo_session ''old'' 5 None))
     DesktopManaged ''admin'' 6)\<lparr>ma_check_at := Some 50\<rparr>"

definition demo_delivery_row :: delivery_session where
  "demo_delivery_row = \<lparr>ds_room = ''room'', ds_key = ''agent_session:new'', ds_session = Some ''new'', ds_worker = True,
     ds_connections = 1, ds_updated_at = 95, ds_grace = None, ds_disconnected_at = None\<rparr>"

definition demo_offline_board :: board_db where
  "demo_offline_board = demo_board\<lparr>bd_managers := [demo_manager], bd_deliveries := [demo_delivery_row],
     bd_tasks := (bd_tasks demo_board)\<lparr>td_coord := demo_coord\<lparr>sessions :=
       [demo_session ''old'' 5 (Some 60), demo_session ''new'' 20 None]\<rparr>\<rparr>\<rparr>"


section \<open>Links of artifacts\<close>

lemma link_not_manual:
  "\<forall>l \<in> set (link_room_shared_artifact_to_task room key task TaskArtifact now t). the_link room key task l \<longrightarrow> al_source l = TaskArtifact"
  by (auto simp: link_room_shared_artifact_to_task_def Let_def set_update_where the_link_def)

lemma upsert_key:
  "sa_key (fst (upsert_room_shared_artifact room a nd source now t)) = build_room_shared_artifact_identity_key a"
proof (cases "select_first (the_artifact room (build_room_shared_artifact_identity_key a)) t")
  case None
  obtain m src where "preserve_manual a source None = (m, src)" by fastforce
  with None show ?thesis by (simp add: upsert_room_shared_artifact_def Let_def)
next
  case (Some r)
  obtain m src where "preserve_manual a source (Some r) = (m, src)" by fastforce
  moreover have "sa_key r = build_room_shared_artifact_identity_key a"
    using select_first_SomeD [OF Some] by (simp add: the_artifact_def)
  ultimately show ?thesis using Some by (simp add: upsert_room_shared_artifact_def Let_def)
qed

text \<open>Once a task has listed an artifact, its link to the artifact is the task's own, also when it was made by hand
  before: as soon as the task no longer lists the artifact, the link is gone.\<close>

theorem listed_link_is_lost:
  "\<forall>l. l \<in> set (at_links (snd (sync_room_shared_artifacts_for_task room task [] TaskArtifact later
       (snd (sync_room_shared_artifacts_for_task room task [a] TaskArtifact now t))))) \<longrightarrow>
     \<not> the_link room (build_room_shared_artifact_identity_key a) task l"
proof -
  obtain row as where u: "upsert_room_shared_artifact room a False TaskArtifact now (at_artifacts t) = (row, as)"
    by fastforce
  then have k: "sa_key row = build_room_shared_artifact_identity_key a"
    using upsert_key [of room a False TaskArtifact now "at_artifacts t"] by simp
  then have links: "set (at_links (snd (sync_room_shared_artifacts_for_task room task [a] TaskArtifact now t))) \<subseteq>
      set (link_room_shared_artifact_to_task room (build_room_shared_artifact_identity_key a) task TaskArtifact now (at_links t))"
    using u by (simp add: sync_room_shared_artifacts_for_task_def publish_and_link_def filter_is_subset)
  have "al_source l = TaskArtifact"
    if "l \<in> set (at_links (snd (sync_room_shared_artifacts_for_task room task [a] TaskArtifact now t)))"
      "the_link room (build_room_shared_artifact_identity_key a) task l" for l
    using that links link_not_manual by blast
  then show ?thesis
    by (auto simp: sync_room_shared_artifacts_for_task_def [of room task "[]"] the_link_def)
qed

definition demo_artifact :: artifact where
  "demo_artifact = \<lparr>ar_provider = Github, ar_kind = Branch, ar_id = None, ar_number = None, ar_title = None,
     ar_url = None, ar_ref = Some ''main'', ar_state = None, ar_detail = None\<rparr>"

definition demo_linked :: artifact_tables where
  "demo_linked = snd (publish_and_link ''room'' ''task_1'' ManualSource 1 False demo_artifact
     \<lparr>at_artifacts = [], at_links = []\<rparr>)"

lemma listed_link_is_lost_witness:
  "length (at_links demo_linked) = 1 \<and>
   (let t = snd (sync_room_shared_artifacts_for_task ''room'' ''task_1'' [] TaskArtifact 3
       (snd (sync_room_shared_artifacts_for_task ''room'' ''task_1'' [demo_artifact] TaskArtifact 2 demo_linked)))
    in find (the_link ''room'' (build_room_shared_artifact_identity_key demo_artifact) ''task_1'') (at_links t) = None)"
proof -
  have "length (at_links demo_linked) = 1" by code_simp
  then show ?thesis
    using listed_link_is_lost [of "''room''" "''task_1''" 3 demo_artifact 2 demo_linked]
    by (auto simp: find_None_iff Let_def)
qed

end
