(* ===== verification/BoardSweeps.thy ===== *)
theory BoardSweeps
  imports TaskGuarantees
begin

text \<open>
  The escalation sweep as a whole: a pass over the due intents is a run of the steps of \<open>BoardRuns\<close>, so what
  holds of every run holds of every pass.
\<close>

section \<open>Candidates\<close>

definition candidate_known :: "board_db \<Rightarrow> escalation_candidate \<Rightarrow> bool" where
  "candidate_known db e \<longleftrightarrow>
     (\<exists>r \<in> set (bd_intents db). the_intent (bi_room (ec_intent e)) (bi_id (ec_intent e)) r \<and> bi_key r = bi_key (ec_intent e))"

lemma candidates_known:
  assumes "list_escalation_candidates now limit locked st t = (cs, t2)" "e \<in> set cs" "bd_intents db = t2"
  shows "candidate_known db e"
proof -
  have "ec_intent e \<in> set t2"
    using assms(1,2) by (auto simp: list_escalation_candidates_def Let_def)
  with assms(3) show ?thesis unfolding candidate_known_def by (auto simp: the_intent_def)
qed

lemma candidate_known_run:
  assumes "candidate_known db e" "(board_step pf up)\<^sup>*\<^sup>* db db'" "intents_wf (bd_intents db)"
  shows "candidate_known db' e"
proof -
  obtain r where r: "r \<in> set (bd_intents db)" "the_intent (bi_room (ec_intent e)) (bi_id (ec_intent e)) r"
    "bi_key r = bi_key (ec_intent e)"
    using assms(1) by (auto simp: candidate_known_def)
  have "intents_evolve (bd_intents db) (bd_intents db')"
    using board_run_progress [OF assms(2)] assms(3) by (auto simp: task_progress_def intent_progress_def)
  then obtain r' where "r' \<in> set (bd_intents db')" "intent_evolves r r'"
    using r(1) unfolding intents_evolve_def by (elim rows_change_mem)
  with r show ?thesis by (auto simp: candidate_known_def the_intent_def intent_evolves_def)
qed

section \<open>One intent\<close>

lemma sweep_intent_run:
  assumes "sweep_intent pf tokens clock reachable now e summary db = (r, db')" "candidate_known db e"
    "fst (clock (bi_id (ec_intent e))) \<le> snd (clock (bi_id (ec_intent e)))"
  shows "(board_step pf up)\<^sup>*\<^sup>* db db'"
proof -
  let ?i = "ec_intent e"
  obtain check later where c: "clock (bi_id ?i) = (check, later)" by fastforce
  show ?thesis
  proof (cases "bi_room ?i \<in> reachable")
    case True
    with assms(1) c have "db' = db \<or> (\<exists>k. db' = with_intents (reschedule_escalation_candidate (bi_id ?i) k
        (Some (now + intent_escalation_after))) db)"
      by (auto simp: sweep_intent_def Let_def split: option.splits)
    then show ?thesis using board_step.rescheduled by blast
  next
    case False
    let ?n = "if truthy (bi_key ?i) then count_recent_auto_approved (bi_room ?i) (the (bi_key ?i)) intent_auto_approve_window
        check (bd_intents db) else intent_auto_approve_max"
    show ?thesis
    proof (cases "select_intent_escalation_action (bi_action ?i) (ec_mode e) ?n")
      case AutoApprove
      then have "truthy (bi_key ?i)"
        by (auto simp: select_intent_escalation_action_def split: if_splits)
      then obtain k where k: "bi_key ?i = Some k" by (auto simp: truthy_iff)
      obtain x db1 where x: "auto_approve_intent pf (tokens (bi_id ?i)) (bi_room ?i) (bi_id ?i) k check later db = (x, db1)"
        by fastforce
      from assms(2) k have "\<exists>i \<in> set (bd_intents db). the_intent (bi_room ?i) (bi_id ?i) i \<and> bi_key i = Some k"
        by (auto simp: candidate_known_def)
      with x assms(3) c have "board_step pf up db db1" by (intro board_step.auto_approved) auto
      moreover have "db' = db1"
        using assms(1) c False AutoApprove k x by (auto simp: sweep_intent_def Let_def split: sum.splits)
      ultimately show ?thesis by blast
    next
      case NotifyHumans
      obtain x db1 where x: "notify_humans (bi_room ?i) (bi_id ?i) check db = (x, db1)" by fastforce
      then have "board_step pf up db db1" by (rule board_step.notified)
      moreover have "db' = db1"
        using assms(1) c False NotifyHumans x by (auto simp: sweep_intent_def Let_def split: sum.splits)
      ultimately show ?thesis by blast
    qed
  qed
qed

lemma sweep_intents_run:
  assumes "sweep_intents pf tokens clock reachable now es summary failed db = (r, db')"
    "\<forall>e \<in> set es. candidate_known db e" "\<forall>x. fst (clock x) \<le> snd (clock x)" "intents_wf (bd_intents db)"
  shows "(board_step pf up)\<^sup>*\<^sup>* db db'"
  using assms
proof (induction es arbitrary: summary failed db)
  case (Cons e es)
  obtain x db1 where x: "sweep_intent pf tokens clock reachable now e summary db = (x, db1)" by fastforce
  have run: "(board_step pf up)\<^sup>*\<^sup>* db db1"
    using sweep_intent_run [OF x] Cons.prems by simp
  have known: "\<forall>e \<in> set es. candidate_known db1 e"
    using Cons.prems(2,4) candidate_known_run run by auto
  have wf: "intents_wf (bd_intents db1)"
    using board_run_progress [OF run] Cons.prems(4) by (auto simp: task_progress_def intent_progress_def)
  obtain s f where "sweep_intents pf tokens clock reachable now es s f db1 = (r, db')"
    using Cons.prems(1) x by (cases x) auto
  then have "(board_step pf up)\<^sup>*\<^sup>* db1 db'" using Cons.IH known Cons.prems(3) wf by blast
  with run show ?case by (rule rtranclp_trans)
qed simp

section \<open>A pass of the sweep\<close>

lemma sweep_once_run:
  assumes "intents_wf (bd_intents db)" "\<forall>x. fst (clock x) \<le> snd (clock x)"
  shows "(board_step pf up)\<^sup>*\<^sup>* db (snd (sweep_once pf tokens clock locked now db))"
proof -
  obtain cs t where c: "list_escalation_candidates now (Some 100) locked (bd_settings db) (bd_intents db) = (cs, t)"
    by fastforce
  let ?db1 = "with_intents (\<lambda>_. t) db"
  have one: "board_step pf up db ?db1" using c by (rule board_step.selected)
  have known: "\<forall>e \<in> set cs. candidate_known ?db1 e"
  proof
    fix e
    assume "e \<in> set cs"
    with c show "candidate_known ?db1 e" by (rule candidates_known) (simp add: with_intents_def)
  qed
  have wf: "intents_wf (bd_intents ?db1)"
    using board_step_progress [OF one] assms(1) by (auto simp: task_progress_def intent_progress_def)
  let ?reach = "set (filter (\<lambda>room. room_has_reachable_manager room now ?db1) (remdups (map (bi_room \<circ> ec_intent) cs)))"
  obtain s f db2 where s: "sweep_intents pf tokens clock ?reach now cs \<lparr>sw_auto_approved = 0, sw_notified = 0\<rparr> [] ?db1 = ((s, f), db2)"
    by (metis prod.collapse)
  have "(board_step pf up)\<^sup>*\<^sup>* ?db1 db2" by (rule sweep_intents_run [OF s known assms(2) wf])
  moreover have "snd (sweep_once pf tokens clock locked now db) = db2"
    using s by (simp add: sweep_once_def c Let_def)
  ultimately show ?thesis using one by (simp add: converse_rtranclp_into_rtranclp)
qed

text \<open>C17: A whole pass of the escalation sweep, with every error of a single intent contained, is a run of the board's
  steps, so it never breaks the unique pending intents and moves every intent only along its life cycle.\<close>

theorem sweep_is_run:
  assumes "intents_wf (bd_intents db)" "\<forall>x. fst (clock x) \<le> snd (clock x)"
  shows "(board_step pf up)\<^sup>*\<^sup>* db (snd (sweep_once pf tokens clock locked now db)) \<and>
    intents_wf (bd_intents (snd (sweep_once pf tokens clock locked now db))) \<and>
    intents_evolve (bd_intents db) (bd_intents (snd (sweep_once pf tokens clock locked now db)))"
proof -
  note run = sweep_once_run [OF assms, of pf up tokens locked now]
  from board_run_progress [OF run] assms(1) run show ?thesis
    by (auto simp: task_progress_def intent_progress_def)
qed

lemma sweep_is_run_witness:
  "(board_step demo_platform no_urls)\<^sup>*\<^sup>* demo_board
     (snd (sweep_once demo_platform (\<lambda>_. ''secret'') (\<lambda>_. (600001, 600002)) {} 600001 demo_board)) \<and>
   map bi_status (bd_intents (snd (sweep_once demo_platform (\<lambda>_. ''secret'') (\<lambda>_. (600001, 600002)) {} 600001 demo_board))) = [BiUsed]"
proof -
  have "map bi_status (bd_intents (snd (sweep_once demo_platform (\<lambda>_. ''secret'') (\<lambda>_. (600001, 600002)) {} 600001 demo_board))) = [BiUsed]"
    by code_simp
  moreover have "intents_wf (bd_intents demo_board)" using demo_pending_wf by (simp add: demo_board_def)
  ultimately show ?thesis using sweep_is_run [of demo_board "\<lambda>_. (600001, 600002)" demo_platform no_urls] by simp
qed

end
