(* ===== verification/ClaimGuarantees.thy ===== *)
theory ClaimGuarantees
  imports BoardSweeps
begin

text \<open>
  What an approved claim has established: the workers that it locked, the proposer and the manager whose authority
  it checked, and the intent, the task and the lease that it wrote.
\<close>

section \<open>The workers\<close>

definition grant_covers :: "string \<Rightarrow> int \<Rightarrow> coord_db \<Rightarrow> string \<Rightarrow> bool" where
  "grant_covers room now c i \<longleftrightarrow>
     (\<exists>g \<in> set (grants c). hg_id g = i \<and> hg_revoked_at g = None \<and> now < hg_expires_at g) \<and>
     (\<exists>g \<in> set (grants c). hg_id g = i \<and> room \<in> set (hg_rooms g))"

text \<open>A session of the worker that is live in the room, under a grant that covers it if it has one.\<close>

definition claim_session :: "string \<Rightarrow> int \<Rightarrow> coord_db \<Rightarrow> worker_ref \<Rightarrow> agent_session \<Rightarrow> bool" where
  "claim_session room now c w x \<longleftrightarrow>
     as_id x = wk_session w \<and> as_agent_key x = wk_key w \<and> as_instance x = wk_instance w \<and>
     as_room x = room \<and> as_worker x \<and> as_ended_at x = None \<and>
     (case as_grant x of None \<Rightarrow> True | Some i \<Rightarrow> i = [] \<or> grant_covers room now c i)"

lemma lock_grants_Inr:
  assumes "lock_grants room observed now c is e = Inr e'" "i \<in> set is" "x \<in> set observed" "as_grant x = Some i"
  shows "grant_covers room now c i"
  using assms
proof (induction "is" arbitrary: e)
  case (Cons k ks)
  from Cons.prems(1) obtain g where g: "select_first (\<lambda>g. hg_id g = k) (grants c) = Some g"
    "assert_supervisor_grant_fence \<lparr>gf_grant = k, gf_generation = hg_generation g, gf_token_version = hg_token_version g\<rparr> now c"
    "\<forall>x \<in> set observed. as_grant x = Some k \<longrightarrow> room \<in> set (hg_rooms g)"
    "lock_grants room observed now c ks (earlier e (hg_expires_at g)) = Inr e'"
    by (auto simp: bind_result_Inr require_Inr guard_result_Inr)
  show ?case
  proof (cases "i = k")
    case True
    from g(2) obtain h where "h \<in> set (grants c)" "hg_id h = k" "hg_revoked_at h = None" "now < hg_expires_at h"
      by (auto simp: assert_supervisor_grant_fence_def dest: select_first_SomeD)
    with g(1,3) Cons.prems(3,4) True show ?thesis
      by (auto simp: grant_covers_def dest: select_first_SomeD)
  qed (use Cons g(4) in auto)
qed simp

lemma lock_workers_Inr:
  assumes "lock_workers room ws seen now c = Inr (ss, e)" "w \<in> set ws" "select_first (\<lambda>x. as_id x = wk_session w) ss = Some x"
  shows "x \<in> set (sessions c)" "claim_session room now c w x"
proof -
  let ?ids = "map wk_session ws"
  let ?observed = "filter (\<lambda>x. as_id x \<in> set ?ids) seen"
  from assms(1) have l: "lock_grants room ?observed now c
      (filter (\<lambda>i. i \<noteq> []) (sort (remdups (List.map_filter as_grant ?observed)))) None = Inr e"
    and ss: "ss = filter (\<lambda>x. as_id x \<in> set ?ids) (sessions c)"
    and cur: "\<forall>w \<in> set ws. worker_current room ?observed ss w"
    by (auto simp: lock_workers_def Let_def bind_result_Inr guard_result_Inr)
  from ss assms(3) show "x \<in> set (sessions c)" by (auto dest: select_first_SomeD)
  from cur assms(2,3) obtain before where b: "select_first (\<lambda>x. as_id x = wk_session w) ?observed = Some before"
    "as_ended_at x = None" "as_worker x" "as_room x = room" "as_agent_key x = wk_key w" "as_instance x = wk_instance w"
    "as_grant x = as_grant before"
    by (fastforce simp: worker_current_def split: option.splits)
  have "i = [] \<or> grant_covers room now c i" if i: "as_grant x = Some i" for i
  proof (cases "i = []")
    case False
    have m: "before \<in> set ?observed" "as_grant before = Some i"
      using b(1,7) i by (auto dest: select_first_SomeD)
    then have "i \<in> set (List.map_filter as_grant ?observed)" by (force simp: List.map_filter_def)
    with False have "i \<in> set (filter (\<lambda>i. i \<noteq> []) (sort (remdups (List.map_filter as_grant ?observed))))" by simp
    from lock_grants_Inr [OF l this m] show ?thesis ..
  qed simp
  with b assms(3) show "claim_session room now c w x"
    by (auto simp: claim_session_def dest: select_first_SomeD split: option.splits)
qed

text \<open>The proposer's authority, and the manager's.\<close>

definition proposer_entitled :: "string \<Rightarrow> board_intent \<Rightarrow> int \<Rightarrow> coord_db \<Rightarrow> bool" where
  "proposer_entitled room i now c \<longleftrightarrow>
     (\<exists>x \<in> set (sessions c). claim_session room now c (claim_worker i) x \<and> bi_label i = Some (as_label x) \<and>
       (bi_auth i = Some BearerAuth \<longrightarrow>
         (\<exists>b \<in> set (bearers c). sb_session b = as_id x \<and> sb_room b = room \<and> sb_revoked_at b = None \<and> now < sb_expires_at b \<and>
            sb_grant b = as_grant x \<and> self_write \<in> set (sb_capabilities b))))"

definition manager_entitled :: "string \<Rightarrow> claim_manager \<Rightarrow> int \<Rightarrow> coord_db \<Rightarrow> manager_assignment list \<Rightarrow> bool" where
  "manager_entitled room cm now c ms \<longleftrightarrow>
     (\<exists>x \<in> set (sessions c). claim_session room now c (cm_worker cm) x \<and> (\<exists>m \<in> set ms. manages room x m) \<and>
       (case cm_credential cm of
          TokenFence hash \<Rightarrow> as_token_hash x = hash
        | BearerFence i generation \<Rightarrow>
            \<exists>b \<in> set (bearers c). sb_session b = as_id x \<and> sb_id b = i \<and> sb_generation b = generation \<and>
              sb_revoked_at b = None \<and> now < sb_expires_at b \<and> sb_grant b = as_grant x \<and>
              self_write \<in> set (sb_capabilities b)))"

lemma newest_bearer_Some:
  assumes "newest_bearer room session t = Some b"
  shows "b \<in> set t" "sb_session b = session" "sb_room b = room" "sb_revoked_at b = None"
proof -
  let ?p = "\<lambda>b. sb_session b = session \<and> sb_room b = room \<and> sb_revoked_at b = None"
  from assms obtain bs where "sort_key (\<lambda>b. - sb_generation b) (filter ?p t) = b # bs"
    by (auto simp: newest_bearer_def split: list.splits)
  then have "b \<in> set (sort_key (\<lambda>b. - sb_generation b) (filter ?p t))" by (simp only: list.set_intros)
  then show "b \<in> set t" "sb_session b = session" "sb_room b = room" "sb_revoked_at b = None" by auto
qed

lemma claim_authority_Inr:
  assumes "claim_authority room i manager seen ms now c = Inr e"
  shows "proposer_entitled room i now c" "\<And>cm. manager = Some cm \<Longrightarrow> manager_entitled room cm now c ms"
proof -
  let ?w = "claim_worker i"
  let ?ws = "case manager of None \<Rightarrow> [?w] | Some cm \<Rightarrow> [?w, cm_worker cm]"
  from assms obtain ss e0 e1 where l: "lock_workers room ?ws seen now c = Inr (ss, e0)"
    and p: "check_proposer room i ?w ss e0 now c = Inr e1"
    and m: "case manager of None \<Rightarrow> True | Some cm \<Rightarrow> check_manager room cm ss e1 now c ms = Inr e"
    by (auto simp: claim_authority_def Let_def bind_result_Inr split: option.splits)
  have w: "?w \<in> set ?ws" by (simp split: option.splits)
  from p obtain x where x: "select_first (\<lambda>x. as_id x = wk_session ?w) ss = Some x" "Some (as_label x) = bi_label i"
    and b: "bi_auth i = Some BearerAuth \<longrightarrow> (\<exists>b. newest_bearer room (wk_session ?w) (bearers c) = Some b \<and>
      now < sb_expires_at b \<and> sb_grant b = as_grant x \<and> self_write \<in> set (sb_capabilities b))"
    by (auto simp: check_proposer_def bind_result_Inr require_Inr guard_result_Inr split: if_splits)
  have "as_id x = wk_session ?w" using x(1) by (auto dest: select_first_SomeD)
  with lock_workers_Inr [OF l w x(1)] x(2) b show "proposer_entitled room i now c"
    unfolding proposer_entitled_def by (metis newest_bearer_Some)
  fix cm
  assume cm: "manager = Some cm"
  with m have m: "check_manager room cm ss e1 now c ms = Inr e" by simp
  then obtain y where y: "select_first (\<lambda>x. as_id x = wk_session (cm_worker cm)) ss = Some y" "\<exists>m \<in> set ms. manages room y m"
    by (auto simp: check_manager_def bind_result_Inr require_Inr guard_result_Inr)
  have "cm_worker cm \<in> set ?ws" using cm by simp
  note live = lock_workers_Inr [OF l this y(1)]
  from m y(1) have "case cm_credential cm of
          TokenFence hash \<Rightarrow> as_token_hash y = hash
        | BearerFence i generation \<Rightarrow>
            \<exists>b \<in> set (bearers c). sb_session b = as_id y \<and> sb_id b = i \<and> sb_generation b = generation \<and>
              sb_revoked_at b = None \<and> now < sb_expires_at b \<and> sb_grant b = as_grant y \<and>
              self_write \<in> set (sb_capabilities b)"
    by (auto simp: check_manager_def bind_result_Inr require_Inr guard_result_Inr dest!: select_first_SomeD
        split: credential_fence.splits)
  with live y(2) show "manager_entitled room cm now c ms" unfolding manager_entitled_def by blast
qed

section \<open>What is written\<close>

lemma claim_update_no_artifacts [simp]: "\<not> writes_workflow (claim_update_of i)"
  by (simp add: writes_workflow_def claim_update_of_def)

lemma claim_side_effects [simp]: "write_artifact_side_effects up room task (claim_update_of i) uo seen now d = d"
  by (simp add: write_artifact_side_effects_def)

lemma claim_updated_row:
  "tr_status (updated_task up (claim_update_of i) seen now x) = Assigned"
  "tr_assignee (updated_task up (claim_update_of i) seen now x) = bi_label i"
  "tr_assignee_key (updated_task up (claim_update_of i) seen now x) = bi_key i"
  by (auto simp: updated_task_def claim_update_of_def keep_or_def resolve_task_assignment_state_def update_patch_def)

lemma claim_update_Inr:
  assumes "update_task up pf j room task (claim_update_of i) (claim_update_options i w room task fence t) now d = (Inr (Some row), d')"
  obtains seen d1 x where "consume_in pf (Some (claim_approval_of i w room)) now now d = Inr d1"
    "row = updated_task up (claim_update_of i) seen now x" "td_intents d' = td_intents d1"
    "leases (td_coord d') = leases (td_coord d) @ (if fence = None
       then [create_task_lease_row j ((claim_lease_of i w task t)\<lparr>li_room := room, li_task := task, li_kind := Work\<rparr>) now] else [])"
    "fence = None \<Longrightarrow> filter (active_work room task) (leases (td_coord d)) = []"
proof -
  let ?uo = "claim_update_options i w room task fence t"
  have uo: "uo_approval ?uo = Some (claim_approval_of i w room)" "uo_fence ?uo = fence"
    "uo_lease ?uo = (if fence = None then Some (claim_lease_of i w task t) else None)"
    by (simp_all add: claim_update_options_def)
  have new: "\<not> progress_retry_eligible room task ?uo" by (simp add: progress_retry_eligible_def uo)
  from assms obtain seen where s: "update_task_write up pf j room task (claim_update_of i) ?uo seen now d = (Inr (Some row), d')"
    by (auto simp: update_task_def split: option.splits)
  then show ?thesis
  proof (cases rule: update_task_write_cases)
    case (guarded n x d1)
    have d': "d' = d1" and x: "x = Some row" using guarded(4,5) by (simp_all split: if_splits)
    from guarded(3) show ?thesis
    proof (cases rule: update_in_transaction_cases)
      case (retry r)
      with new show ?thesis by (auto simp: fence_phase_def bind_result_Inr split: option.splits)
    next
      case (written d2 d3 d4)
      have coord: "td_coord d3 = td_coord d" and ints: "td_intents d3 = td_intents d2"
        using written(4) consume_in_change(3) [OF written(3)] by (auto elim!: write_task_update_Inr)
      from written(4) x obtain y where row: "row = updated_task up (claim_update_of i) seen now y"
        by (auto elim: write_task_update_Inr)
      have d1: "d1 = d4" using written(6) by (simp split: if_splits)
      have "leases (td_coord d4) = leases (td_coord d) @ (if fence = None
         then [create_task_lease_row j ((claim_lease_of i w task t)\<lparr>li_room := room, li_task := task, li_kind := Work\<rparr>) now] else []) \<and>
        td_intents d4 = td_intents d2"
      proof (cases "fence = None")
        case True
        have lease: "uo_lease ?uo = Some (claim_lease_of i w task t)" using uo(3) True by simp
        have "write_work_lease j room task (Some (claim_lease_of i w task t)) now d3 = Inr d4"
          using written(5) unfolding lease .
        from write_work_lease_Inr(1,4) [OF this] coord ints True show ?thesis by simp
      next
        case False
        with written(5) have "d4 = d3" by (simp add: uo write_work_lease_def)
        with coord ints False show ?thesis by simp
      qed
      moreover have "filter (active_work room task) (leases (td_coord d)) = []" if "fence = None"
      proof -
        have "uo_lease ?uo \<noteq> None" using uo(3) that by simp
        with written(2) show ?thesis by (auto simp: claim_phase_def guard_result_Inr active_work_def filter_empty_conv)
      qed
      ultimately show ?thesis using that [OF _ row, of d2] written(3) d' d1 by (simp add: uo)
    qed
  qed (use uo in auto)
qed

text \<open>The consumption uses the intent up, whatever its row was.\<close>

lemma claim_consumed:
  assumes "consume_in pf (Some (claim_approval_of i w room)) now now d = Inr d1" "intents_wf (td_intents d)"
    "js_trim (bi_id i) = bi_id i"
  shows "\<forall>x \<in> set (td_intents d1). the_intent room (bi_id i) x \<longrightarrow> bi_status x = BiUsed"
proof -
  let ?c = "claim_approval_of i w room"
  from assms(1) obtain r where a: "consume_board_intent_approval pf ?c now now (td_intents d) = (Inr r, td_intents d1)"
    by (auto simp: consume_in_def assert_consume_board_intent_approval_def split: sum.splits prod.splits)
  then obtain k row where c: "names_approval ?c = Some k" "row \<in> set (td_intents d)" "consumable pf ?c k now row"
    "td_intents d1 = update_where (consumable pf ?c k now) (used_row now) (td_intents d)"
    by (auto elim: consume_Inr)
  have k: "k = bi_id i" using c(1) assms(3)
    by (auto simp: names_approval_def cn_intent_id_def claim_approval_of_def trimmed_or_null_def Let_def split: if_splits)
  have same: "x = row" if "x \<in> set (td_intents d)" "the_intent room (bi_id i) x" for x
    using that c(2,3) k intents_wf_key [OF assms(2) that(1) c(2)] by (auto simp: consumable_def the_intent_def)
  show ?thesis
  proof (intro ballI impI)
    fix x
    assume "x \<in> set (td_intents d1)" "the_intent room (bi_id i) x"
    with c(3) same show "bi_status x = BiUsed"
      unfolding c(4) set_update_where by (auto simp: used_row_def the_intent_def)
  qed
qed

lemma claim_marked_status:
  assumes "\<forall>x \<in> set (td_intents d). the_intent room k x \<longrightarrow> bi_status x = BiUsed"
  shows "\<forall>x \<in> set (td_intents (claim_marked i room task now d)). the_intent room k x \<longrightarrow> bi_status x = BiUsed"
proof (cases "truthy (bi_task i)")
  case False
  let ?f = "\<lambda>r. r\<lparr>bi_task := Some task, bi_updated_at := now\<rparr>"
  from False have t: "td_intents (claim_marked i room task now d) = map (\<lambda>r. if the_intent room (bi_id i) r then ?f r else r) (td_intents d)"
    by (simp add: claim_marked_def mark_board_intent_task_result_def Let_def update_where_def)
  show ?thesis
    unfolding t
  proof (intro ballI impI)
    fix x
    assume "x \<in> set (map (\<lambda>r. if the_intent room (bi_id i) r then ?f r else r) (td_intents d))" "the_intent room k x"
    then obtain y where y: "y \<in> set (td_intents d)" "x = ?f y \<or> x = y" "the_intent room k x" by fastforce
    then have "bi_status x = bi_status y" "the_intent room k y" by (auto simp: the_intent_def)
    with assms y(1) show "bi_status x = BiUsed" by simp
  qed
qed (use assms in \<open>simp add: claim_marked_def\<close>)

lemma swept_coord_kept:
  "sessions (swept_coord rm k c) = sessions c" "grants (swept_coord rm k c) = grants c"
  "bearers (swept_coord rm k c) = bearers c"
  by (simp_all add: swept_coord_def)

lemma claim_grounds_swept [simp]:
  "proposer_entitled room i now (swept_coord rm k c) = proposer_entitled room i now c"
  "manager_entitled room cm now (swept_coord rm k c) ms = manager_entitled room cm now c ms"
  unfolding proposer_entitled_def manager_entitled_def claim_session_def grant_covers_def swept_coord_kept by (rule refl)+

lemma check_policy_unlocked:
  "check_policy i w task ls ks existing fence now = Inr () \<Longrightarrow> find_applicable_lock ks (Some task) = None"
  by (auto simp: check_policy_def evaluate_mutation_def bind_result_Inr guard_result_Inr split: option.splits)

lemma filter_single:
  assumes "distinct (map f xs)" "l \<in> set xs" "p l" "\<And>x. x \<in> set xs \<Longrightarrow> p x \<Longrightarrow> x = l"
  shows "filter p xs = [l]"
proof -
  obtain ys zs where xs: "xs = ys @ l # zs" using assms(2) by (auto dest: split_list)
  with assms(1) have "l \<notin> set ys" "l \<notin> set zs" by auto
  with assms(4) xs have "\<not> p x" if "x \<in> set ys \<union> set zs" for x
    using that by (metis Un_iff list.set_intros(2) set_append)
  then have "filter p ys = []" "filter p zs = []" by (auto simp: filter_empty_conv)
  with xs assms(3) show ?thesis by simp
qed

text \<open>The lease that a claim ends with, taken anew or kept under its fence.\<close>

lemma claim_lease:
  assumes "leases_wf t" "fence = own_work_fence room task w
      (select_first (\<lambda>l. tl_kind l = Work) (filter (\<lambda>l. tl_room l = room \<and> tl_task l = task \<and> tl_status l = Active) t))"
    "t' = t @ (if fence = None
       then [create_task_lease_row j ((claim_lease_of i w task r)\<lparr>li_room := room, li_task := task, li_kind := Work\<rparr>) now] else [])"
    "fence = None \<Longrightarrow> filter (active_work room task) t = []"
  shows "\<exists>l. filter (active_work room task) t' = [l] \<and> tl_session l = Some (wk_session w)"
proof (cases "fence = None")
  case True
  with assms(3,4) show ?thesis by (simp add: active_work_def create_task_lease_row_def claim_lease_of_def)
next
  case False
  with assms(2) obtain l where l: "select_first (\<lambda>l. tl_kind l = Work)
      (filter (\<lambda>l. tl_room l = room \<and> tl_task l = task \<and> tl_status l = Active) t) = Some l" "tl_session l = Some (wk_session w)"
    by (auto simp: own_work_fence_def split: option.splits if_splits)
  then have "l \<in> set t" "active_work room task l" by (auto simp: active_work_def dest: select_first_SomeD)
  moreover have "x = l" if "x \<in> set t" "active_work room task x" for x
    using active_work_unique assms(1) calculation that by blast
  ultimately have "filter (active_work room task) t = [l]"
    using assms(1) filter_single [of tl_id t l "active_work room task"] unfolding leases_wf_def by blast
  moreover have "t' = t" using False assms(3) by simp
  ultimately show ?thesis using l(2) by blast
qed

lemma claim_used:
  assumes "claim_writes up pf k token room decider reason i w task fence t now d = Inr ((Some j, Some row), d')"
    "intents_wf (td_intents d)" "js_trim (bi_id i) = bi_id i"
  shows "bi_status j = BiUsed" "tr_status row = Assigned" "tr_assignee row = bi_label i" "tr_assignee_key row = bi_key i"
    "leases (td_coord d') = leases (td_coord d) @ (if fence = None
       then [create_task_lease_row k ((claim_lease_of i w task t)\<lparr>li_room := room, li_task := task, li_kind := Work\<rparr>) now] else [])"
    "fence = None \<Longrightarrow> filter (active_work room task) (leases (td_coord d)) = []"
proof -
  from assms(1) obtain d1 d2 where c: "claim_consent pf token room decider reason (bi_id i) now d = Inr d1"
    and u: "update_task up pf k room task (claim_update_of i) (claim_update_options i w room task fence t) now d1 = (Inr (Some row), d2)"
    and d': "d' = claim_marked i room task now d2" and j: "get_board_intent room (bi_id i) (td_intents d') = Some j"
    by (rule claim_writes_Inr) simp
  have coord: "td_coord d1 = td_coord d"
    using c by (auto simp: claim_consent_def split: option.splits if_splits prod.splits)
  have marked: "td_coord d' = td_coord d2" unfolding d' claim_marked_def by simp
  have wf: "intents_wf (td_intents d1)"
    using task_change_progress [OF claim_consent_change [OF c]] assms(2) by (auto simp: task_progress_def intent_progress_def)
  from u obtain seen d3 x where x: "consume_in pf (Some (claim_approval_of i w room)) now now d1 = Inr d3"
    "row = updated_task up (claim_update_of i) seen now x" "td_intents d2 = td_intents d3"
    "leases (td_coord d2) = leases (td_coord d1) @ (if fence = None
       then [create_task_lease_row k ((claim_lease_of i w task t)\<lparr>li_room := room, li_task := task, li_kind := Work\<rparr>) now] else [])"
    "fence = None \<Longrightarrow> filter (active_work room task) (leases (td_coord d1)) = []"
    by (rule claim_update_Inr) blast
  have "\<forall>y \<in> set (td_intents d2). the_intent room (bi_id i) y \<longrightarrow> bi_status y = BiUsed"
    using claim_consumed [OF x(1) wf assms(3)] x(3) by simp
  then have "\<forall>y \<in> set (td_intents d'). the_intent room (bi_id i) y \<longrightarrow> bi_status y = BiUsed"
    unfolding d' by (rule claim_marked_status)
  with j show "bi_status j = BiUsed" by (auto simp: get_board_intent_def dest: select_first_SomeD)
  show "tr_status row = Assigned" "tr_assignee row = bi_label i" "tr_assignee_key row = bi_key i"
    unfolding x(2) by (rule claim_updated_row)+
  show "leases (td_coord d') = leases (td_coord d) @ (if fence = None
       then [create_task_lease_row k ((claim_lease_of i w task t)\<lparr>li_room := room, li_task := task, li_kind := Work\<rparr>) now] else [])"
    using x(4) marked coord by simp
  show "filter (active_work room task) (leases (td_coord d)) = []" if "fence = None"
    using x(5) [OF that] coord by simp
qed

text \<open>C5: An approved claim that had not been used makes its proposer the assignee of a task that was accepted (or
  already the proposer's), uses the intent up and leaves exactly one active work lease of the task, bound to the
  proposer's session; no lock applied, and the proposer, and the manager if a worker approved, held live sessions,
  current grants, credentials and, for the manager, the active assignment.\<close>

theorem claim_approval_effect:
  assumes "approve_task_claim_board_intent up pf k token room decider reason manager (Some i) seen locks ms now d =
      (Inr (Some (Some j, Some row)), d')"
    "bi_status i \<noteq> BiUsed" "\<forall>x \<in> set (td_intents d). the_intent room (bi_id i) x \<longrightarrow> bi_status x \<noteq> BiUsed"
    "intents_wf (td_intents d)" "leases_wf (leases (td_coord d))" "js_trim (bi_id i) = bi_id i"
  shows "bi_status j = BiUsed \<and> tr_status row = Assigned \<and> tr_assignee row = bi_label i \<and> tr_assignee_key row = bi_key i \<and>
    (\<exists>task t. claim_task_id i = Some task \<and> get_task_row_by_id room task (td_tasks d) = Some t \<and> claimable i t \<and>
       find_applicable_lock (room_locks room locks) (Some task) = None \<and>
       (\<exists>l. filter (active_work room task) (leases (td_coord d')) = [l] \<and> tl_session l = bi_session i)) \<and>
    proposer_entitled room i now (td_coord d) \<and>
    (\<forall>cm. manager = Some cm \<longrightarrow> manager_entitled room cm now (td_coord d) ms)"
  using assms(1)
proof (cases rule: approve_claim_cases)
  case kept
  with assms(2) show ?thesis by blast
next
  case (locked i0 task n x)
  have i0: "i0 = i" and x: "x = (Some j, Some row)" using locked(1,7) by simp_all
  from locked(8) [unfolded i0 x] show ?thesis
  proof (cases rule: claim_under_locks_cases)
    case (receipt y)
    then show ?thesis using assms(3) by (auto simp: get_board_intent_def dest: select_first_SomeD)
  next
    case (claimed expires t existing fence)
    let ?d1 = "d\<lparr>td_coord := swept_coord room now (td_coord d)\<rparr>"
    have "intents_wf (td_intents ?d1)" using assms(4) by simp
    note used = claim_used [OF claimed(8) this assms(6)]
    have wf: "leases_wf (leases (swept_coord room now (td_coord d)))"
      using assms(5) by (simp add: swept_coord_def expire_wf)
    have "\<exists>l. filter (active_work room task) (leases (td_coord d')) = [l] \<and> tl_session l = Some (wk_session (claim_worker i))"
      by (rule claim_lease [OF wf claimed(2) [unfolded claimed(1)]]) (use used in simp_all)
    moreover have "bi_session i = Some (wk_session (claim_worker i))"
      using locked(6) i0 by (auto simp: exact_claim_def truthy_iff claim_worker_def)
    moreover have "get_task_row_by_id room task (td_tasks d) = Some t"
      using locked(5) claimed(4) by (simp add: get_task_row_by_id_def)
    ultimately show ?thesis
      using used(1-4) locked(4) i0 claimed(5) check_policy_unlocked [OF claimed(6)] claim_authority_Inr [OF claimed(3)]
      by (auto simp del: claimed)
  qed
qed

definition demo_claim_input :: intent_input where
  "demo_claim_input = \<lparr>ni_room = ''room'', ni_action = ActClaim,
     ni_payload = payload_for_task_mutation ''task_1'' (Some ''assigned'') (Some ''agent'') (Some ''key'') None, ni_task = None,
     ni_label = Some ''agent'', ni_key = Some ''key'', ni_instance = None, ni_session = Some ''new'',
     ni_auth = Some SessionTokenAuth, ni_expires_at = None\<rparr>"

definition demo_claim_intents :: "board_intent list" where
  "demo_claim_intents = snd (create_board_intent demo_platform ''bi_1'' demo_claim_input 0 [])"

definition demo_boss :: agent_session where
  "demo_boss = demo_session ''boss'' 5 None"

definition demo_claim_db :: task_db where
  "demo_claim_db = (demo_tasks [demo_task Accepted])\<lparr>td_intents := demo_claim_intents,
     td_coord := demo_coord\<lparr>sessions := [demo_session ''new'' 20 None, demo_boss]\<rparr>\<rparr>"

definition demo_approver :: claim_manager where
  "demo_approver = \<lparr>cm_worker = \<lparr>wk_session = ''boss'', wk_key = ''key'', wk_instance = None\<rparr>, cm_credential = TokenFence ''hash''\<rparr>"

definition demo_approval :: "(claim_error + (board_intent option \<times> task_row option) option) \<times> task_db" where
  "demo_approval = approve_task_claim_board_intent no_urls demo_platform ''lease'' ''secret'' ''room'' ''boss'' None
     (Some demo_approver) (Some (hd demo_claim_intents)) (sessions (td_coord demo_claim_db)) []
     [assignment_row ''m1'' ''room'' demo_boss (demo_signals demo_boss) DesktopManaged ''admin'' 6] 10 demo_claim_db"

lemma claim_approval_effect_witness:
  "\<exists>j row. fst demo_approval = Inr (Some (Some j, Some row)) \<and> bi_status j = BiUsed \<and> tr_assignee row = Some ''agent'' \<and>
     manager_entitled ''room'' demo_approver 10 (td_coord demo_claim_db)
       [assignment_row ''m1'' ''room'' demo_boss (demo_signals demo_boss) DesktopManaged ''admin'' 6]"
proof -
  have "(case fst demo_approval of Inr (Some (Some j, Some row)) \<Rightarrow> Some (tr_number row) | _ \<Rightarrow> None) = Some 1" by code_simp
  then obtain j row where r: "fst demo_approval = Inr (Some (Some j, Some row))"
    by (auto split: sum.splits option.splits)
  have label: "bi_label (hd demo_claim_intents) = Some ''agent''" by code_simp
  have unused: "bi_status (hd demo_claim_intents) \<noteq> BiUsed" by code_simp
  have "list_all (\<lambda>x. bi_status x \<noteq> BiUsed) (td_intents demo_claim_db)" by code_simp
  then have all: "\<forall>x \<in> set (td_intents demo_claim_db). the_intent ''room'' (bi_id (hd demo_claim_intents)) x \<longrightarrow> bi_status x \<noteq> BiUsed"
    by (simp add: list_all_iff)
  have iwf: "intents_wf (td_intents demo_claim_db)" by code_simp
  have lwf: "leases_wf (leases (td_coord demo_claim_db))" by code_simp
  have trim: "js_trim (bi_id (hd demo_claim_intents)) = bi_id (hd demo_claim_intents)" by code_simp
  from r have "demo_approval = (Inr (Some (Some j, Some row)), snd demo_approval)" by (metis prod.collapse)
  from claim_approval_effect [OF this [unfolded demo_approval_def] unused all iwf lwf trim] r label show ?thesis by auto
qed

end
