(* ===== verification/ManagerSweep.thy ===== *)
theory ManagerSweep
  imports IntentEscalation "HOL-Library.AList"
begin

text \<open>
  The sweep that reacts to a Board Manager that went away, \<^verbatim>\<open>src/api/rooms/board-manager-failover-sweep.ts\<close>
  with the due claim of \<^verbatim>\<open>src/api/db/coordination/board-manager-failover.ts\<close> and the dependencies that
  \<^verbatim>\<open>src/api/server/liveness.ts\<close> passes to it. Times are milliseconds; \<open>time_text\<close> writes a time as text.
\<close>

section \<open>Claiming the assignments that are due\<close>

datatype connection_state = LiveConnection | GraceConnection | NoConnection

definition connection_state_at :: "int \<Rightarrow> delivery_session option \<Rightarrow> connection_state" where
  "connection_state_at now delivery =
     (case delivery of
        None \<Rightarrow> NoConnection
      | Some d \<Rightarrow>
          if 0 < ds_connections d \<and> now - active_agent_delivery_window \<le> ds_updated_at d then LiveConnection
          else if (case ds_grace d of None \<Rightarrow> False | Some e \<Rightarrow> now \<le> e) then GraceConnection
          else NoConnection)"

fun connection_rank :: "connection_state \<Rightarrow> nat" where
  "connection_rank LiveConnection = 0"
| "connection_rank GraceConnection = 1"
| "connection_rank NoConnection = 2"

definition delivery_of :: "string \<Rightarrow> string \<Rightarrow> delivery_session list \<Rightarrow> delivery_session option" where
  "delivery_of room session ds = select_first (\<lambda>d. ds_room d = room \<and> ds_key d = agent_delivery_key session) ds"

text \<open>The workers of a room, the best connected and last seen first.\<close>

definition ranked_workers ::
  "string \<Rightarrow> int \<Rightarrow> (agent_session \<Rightarrow> session_signals) \<Rightarrow> agent_session list \<Rightarrow> delivery_session list
   \<Rightarrow> (agent_session \<times> connection_state) list" where
  "ranked_workers room now signals ss ds =
     (let state = (\<lambda>x. connection_state_at now (delivery_of room (as_id x) ds));
          workers = filter (\<lambda>x. as_room x = room \<and> as_worker x \<and> as_ended_at x = None) ss;
          ranked = sort_key (\<lambda>x. connection_rank (state x)) (sort_key (\<lambda>x. - sg_last_seen (signals x)) (sort_key as_id workers))
      in map (\<lambda>x. (x, state x)) (take 20 ranked))"

record manager_candidate =
  mc_assignment :: manager_assignment
  mc_ended_at :: "int option"
  mc_claimed :: "int option"
  mc_mode :: failover_mode
  mc_delivery :: "(delivery_session \<times> bool) option"
  mc_successors :: "(agent_session \<times> connection_state) list"

text \<open>The delivery of a manager that the ranking found unconnected counts as closed.\<close>

definition effective_delivery ::
  "string \<Rightarrow> (agent_session \<times> connection_state) list \<Rightarrow> delivery_session \<Rightarrow> delivery_session" where
  "effective_delivery session ranked d =
     (if \<exists>(x, s) \<in> set ranked. as_id x = session \<and> s = NoConnection
      then d\<lparr>ds_connections := 0, ds_grace := None\<rparr> else d)"

definition manager_session :: "manager_assignment \<Rightarrow> agent_session list \<Rightarrow> agent_session option" where
  "manager_session m ss = select_first (\<lambda>x. as_room x = ma_room m \<and> as_id x = ma_session m) ss"

definition candidate_of ::
  "int \<Rightarrow> int \<Rightarrow> (agent_session \<Rightarrow> session_signals) \<Rightarrow> board_db \<Rightarrow> manager_assignment \<Rightarrow> manager_candidate" where
  "candidate_of now retry signals db m =
     (let coord = td_coord (bd_tasks db);
          x = manager_session m (sessions coord);
          ranked = ranked_workers (ma_room m) now signals (sessions coord) (bd_deliveries db)
      in \<lparr>mc_assignment = m, mc_ended_at = Option.bind x as_ended_at, mc_claimed = Some retry,
          mc_mode = normalize_board_manager_failover_mode (map_option (failover_mode_text \<circ> st_failover)
            (select_first (\<lambda>s. st_room s = ma_room m) (bd_settings db))),
          mc_delivery = map_option (\<lambda>d. (effective_delivery (ma_session m) ranked d,
              case x of None \<Rightarrow> False | Some x \<Rightarrow> supervised (grants coord) x now))
            (delivery_of (ma_room m) (ma_session m) (bd_deliveries db)),
          mc_successors = ranked\<rparr>)"

definition assignment_due :: "int \<Rightarrow> manager_assignment \<Rightarrow> bool" where
  "assignment_due now m \<longleftrightarrow>
     ma_status m = ActiveManager \<and> (case ma_check_at m of None \<Rightarrow> False | Some c \<Rightarrow> c \<le> now)"

definition list_active_board_manager_assignments ::
  "int \<Rightarrow> int option \<Rightarrow> string set \<Rightarrow> (agent_session \<Rightarrow> session_signals) \<Rightarrow> board_db
   \<Rightarrow> manager_candidate list \<times> board_db" where
  "list_active_board_manager_assignments now limit locked signals db =
     (let bound = nat (min (max (case limit of None \<Rightarrow> 100 | Some n \<Rightarrow> n) 1) 500);
          due = map ma_id (take bound (sort_key (\<lambda>m. the (ma_check_at m)) (sort_key ma_id
            (filter (\<lambda>m. assignment_due now m \<and> ma_id m \<notin> locked) (bd_managers db)))));
          retry = now + 60000;
          ms = update_where (\<lambda>m. ma_id m \<in> set due) (\<lambda>m. m\<lparr>ma_check_at := Some retry\<rparr>) (bd_managers db);
          db' = db\<lparr>bd_managers := ms\<rparr>
      in (map (candidate_of now retry signals db') (filter (\<lambda>m. ma_status m = ActiveManager \<and> ma_id m \<in> set due) ms), db'))"

definition reschedule_active_board_manager_assignment ::
  "string \<Rightarrow> int \<Rightarrow> int option \<Rightarrow> manager_assignment list \<Rightarrow> manager_assignment list" where
  "reschedule_active_board_manager_assignment assignment claimed next_check t =
     update_where (\<lambda>m. ma_id m = assignment \<and> ma_status m = ActiveManager \<and> ma_check_at m = Some claimed)
       (\<lambda>m. m\<lparr>ma_check_at := next_check\<rparr>) t"

section \<open>The verdict\<close>

definition manager_failover_after :: int where
  "manager_failover_after = 5 * 60 * 1000"

definition manager_offline_cooldown :: int where
  "manager_offline_cooldown = 30 * 60 * 1000"

definition delivery_last_seen :: "delivery_session \<Rightarrow> int" where
  "delivery_last_seen d = (case ds_disconnected_at d of None \<Rightarrow> ds_updated_at d | Some t \<Rightarrow> t)"

text \<open>The epoch of the outage, or \<open>None\<close> for a manager that is alive. A missing delivery is no evidence.\<close>

definition evaluate_board_manager_death ::
  "int \<Rightarrow> int option \<Rightarrow> (delivery_session \<times> bool) option \<Rightarrow> int \<Rightarrow> int option" where
  "evaluate_board_manager_death created ended delivery now =
     (case ended of
        Some e \<Rightarrow> Some e
      | None \<Rightarrow>
          (case delivery of
             None \<Rightarrow> None
           | Some (d, managed) \<Rightarrow>
               if managed then None
               else if is_delivery_reachable d now then None
               else if now - max (delivery_last_seen d) created < manager_failover_after then None
               else Some (delivery_last_seen d)))"

definition pick_successor ::
  "manager_assignment \<Rightarrow> (agent_session \<times> connection_state) list \<Rightarrow> agent_session option" where
  "pick_successor m entries =
     (let pick = (\<lambda>s. List.find (\<lambda>(x, state). as_id x \<noteq> ma_session m \<and> state = s) entries)
      in case pick LiveConnection of
           Some (x, _) \<Rightarrow> Some x
         | None \<Rightarrow> map_option fst (pick GraceConnection))"

section \<open>The sweep\<close>

record failover_summary =
  fs_announced :: nat
  fs_failovers :: nat
  fs_errors :: nat

type_synonym cooldowns = "(string \<times> int) list"

definition prune_announcements :: "int \<Rightarrow> cooldowns \<Rightarrow> cooldowns" where
  "prune_announcements now cs = filter (\<lambda>(k, t). now - t \<le> manager_offline_cooldown) cs"

definition post_room_message :: "string \<Rightarrow> string \<Rightarrow> board_db \<Rightarrow> board_db" where
  "post_room_message room client db =
     snd (emit_project_message room client (\<lambda>db'. (Inr ((), db') :: unit + unit \<times> board_db)) db)"

definition announce_offline_only ::
  "(int \<Rightarrow> string) \<Rightarrow> manager_assignment \<Rightarrow> int \<Rightarrow> int \<Rightarrow> failover_summary \<Rightarrow> cooldowns \<Rightarrow> board_db
   \<Rightarrow> failover_summary \<times> cooldowns \<times> board_db" where
  "announce_offline_only time_text m epoch now summary cs db =
     (let cs' = prune_announcements now cs;
          key = ma_room m @ '':'' @ ma_id m @ '':'' @ time_text epoch
      in if (case map_of cs' key of None \<Rightarrow> False | Some t \<Rightarrow> t \<noteq> 0 \<and> now - t < manager_offline_cooldown)
         then (summary, cs', db)
         else (summary\<lparr>fs_announced := fs_announced summary + 1\<rparr>, AList.update key now cs',
               post_room_message (ma_room m) (''board_manager_offline:'' @ ma_id m @ '':'' @ time_text epoch) db))"

definition next_manager_check :: "manager_candidate \<Rightarrow> int option \<Rightarrow> board_db \<Rightarrow> board_db" where
  "next_manager_check entry next_check db =
     (case mc_claimed entry of
        None \<Rightarrow> db
      | Some c \<Rightarrow> db\<lparr>bd_managers := reschedule_active_board_manager_assignment (ma_id (mc_assignment entry)) c next_check
                              (bd_managers db)\<rparr>)"

text \<open>What follows a failover: the new manager is told of the pending intents.\<close>

definition hand_over_intents :: "string \<Rightarrow> string \<Rightarrow> int \<Rightarrow> board_db \<Rightarrow> board_db" where
  "hand_over_intents room assignment now db =
     (let (n, t) = count_board_intents room (Some ''pending'') now (bd_intents db);
          db1 = with_intents (\<lambda>_. t) db
      in if 0 < n then post_room_message room (''board_manager_failover:'' @ assignment @ '':intents'') db1 else db1)"

text \<open>\<open>clock\<close> gives the time of the transaction and the later one of the count, by the assignment's identifier.\<close>

definition sweep_assignment ::
  "(int \<Rightarrow> string) \<Rightarrow> (string \<Rightarrow> string) \<Rightarrow> (string \<Rightarrow> int \<times> int) \<Rightarrow> (agent_session \<Rightarrow> session_signals) \<Rightarrow> int \<Rightarrow> manager_candidate
   \<Rightarrow> failover_summary \<Rightarrow> cooldowns \<Rightarrow> board_db \<Rightarrow> (failover_error + failover_summary) \<times> cooldowns \<times> board_db" where
  "sweep_assignment time_text new_ids clock signals now entry summary cs db =
     (let m = mc_assignment entry; room = ma_room m in
      if mc_mode entry = FailoverOff then (Inr summary, cs, next_manager_check entry None db)
      else
      (case evaluate_board_manager_death (ma_created_at m) (mc_ended_at entry) (mc_delivery entry) now of
         None \<Rightarrow>
           (let seen = (case mc_delivery entry of None \<Rightarrow> ma_created_at m | Some (d, _) \<Rightarrow> ds_updated_at d)
            in (Inr summary, cs, next_manager_check entry (Some (max (now + 60000) (seen + manager_failover_after))) db))
       | Some epoch \<Rightarrow>
           (case pick_successor m (mc_successors entry) of
              Some x \<Rightarrow>
                if mc_mode entry = FailoverAnnounce
                then (let (s, cs', db') = announce_offline_only time_text m epoch now summary cs db
                      in (Inr s, cs', next_manager_check entry (Some (now + manager_offline_cooldown)) db'))
                else (case announce_failover (new_ids (ma_id m)) room (ma_id m) (mc_claimed entry) (as_id x)
                             (fst (clock (ma_id m))) signals db of
                        (Inl e, db') \<Rightarrow> (Inl e, cs, db')
                      | (Inr None, db') \<Rightarrow> (Inr summary, cs, db')
                      | (Inr (Some _), db') \<Rightarrow>
                          (Inr (summary\<lparr>fs_failovers := fs_failovers summary + 1\<rparr>), cs,
                           hand_over_intents room (ma_id m) (snd (clock (ma_id m))) db'))
            | None \<Rightarrow>
                (let (s, cs', db') = announce_offline_only time_text m epoch now summary cs db
                 in (Inr s, cs', next_manager_check entry (Some (now + manager_offline_cooldown)) db')))))"

fun sweep_assignments ::
  "(int \<Rightarrow> string) \<Rightarrow> (string \<Rightarrow> string) \<Rightarrow> (string \<Rightarrow> int \<times> int) \<Rightarrow> (agent_session \<Rightarrow> session_signals) \<Rightarrow> int
   \<Rightarrow> manager_candidate list \<Rightarrow> failover_summary \<Rightarrow> cooldowns \<Rightarrow> board_db \<Rightarrow> failover_summary \<times> cooldowns \<times> board_db" where
  "sweep_assignments time_text new_ids clock signals now [] summary cs db = (summary, cs, db)"
| "sweep_assignments time_text new_ids clock signals now (e # es) summary cs db =
     (case sweep_assignment time_text new_ids clock signals now e summary cs db of
        (Inl _, cs', db') \<Rightarrow> sweep_assignments time_text new_ids clock signals now es
           (summary\<lparr>fs_errors := fs_errors summary + 1\<rparr>) cs' db'
      | (Inr summary', cs', db') \<Rightarrow> sweep_assignments time_text new_ids clock signals now es summary' cs' db')"

definition failover_sweep_once ::
  "(int \<Rightarrow> string) \<Rightarrow> (string \<Rightarrow> string) \<Rightarrow> (string \<Rightarrow> int \<times> int) \<Rightarrow> (agent_session \<Rightarrow> session_signals) \<Rightarrow> string set \<Rightarrow> int
   \<Rightarrow> cooldowns \<Rightarrow> board_db \<Rightarrow> failover_summary \<times> cooldowns \<times> board_db" where
  "failover_sweep_once time_text new_ids clock signals locked now cs db =
     (let (es, db1) = list_active_board_manager_assignments now (Some 100) locked signals db
      in sweep_assignments time_text new_ids clock signals now es \<lparr>fs_announced = 0, fs_failovers = 0, fs_errors = 0\<rparr> cs db1)"

end
