(* ===== verification/FailoverSweep.thy ===== *)
theory FailoverSweep
  imports ClaimGuarantees ManagerSweep
begin

text \<open>
  What a pass of the failover sweep does: it is a run of the steps of the board, it keeps at most one manager in
  office in every room, and it deposes a manager only on evidence.
\<close>

section \<open>The table of assignments\<close>

definition managers_wf :: "manager_assignment list \<Rightarrow> bool" where
  "managers_wf t \<longleftrightarrow> sorted_wrt (\<lambda>a b. \<not> assignment_conflict a b) t"

lemma assignment_conflict_sym: "assignment_conflict a b \<Longrightarrow> assignment_conflict b a"
  by (auto simp: assignment_conflict_def)

lemma managers_wf_map:
  assumes "managers_wf t" "\<And>a b. assignment_conflict (f a) (f b) \<Longrightarrow> assignment_conflict a b"
  shows "managers_wf (map f t)"
  using assms(1) unfolding managers_wf_def sorted_wrt_map
  by (rule sorted_wrt_mono_rel [rotated]) (use assms(2) in blast)

lemma managers_wf_append:
  assumes "managers_wf t" "\<forall>x \<in> set t. \<not> assignment_conflict m x"
  shows "managers_wf (t @ [m])"
proof -
  have "\<forall>x \<in> set t. \<not> assignment_conflict x m" using assms(2) assignment_conflict_sym by blast
  with assms(1) show ?thesis by (simp add: managers_wf_def sorted_wrt_append)
qed

lemma managers_wf_id:
  assumes "managers_wf t" "a \<in> set t" "b \<in> set t" "ma_id a = ma_id b"
  shows "a = b"
proof -
  have "sorted_wrt (\<lambda>a b. ma_id a \<noteq> ma_id b) t"
    using assms(1) unfolding managers_wf_def by (rule sorted_wrt_mono_rel [rotated]) (auto simp: assignment_conflict_def)
  then have "distinct (map ma_id t)" by (induction t) auto
  then show ?thesis using distinct_key_inj [of ma_id t a b] assms(2-4) by blast
qed

text \<open>An update that keeps the key of a row and may only release it.\<close>

definition office_keeps :: "manager_assignment \<Rightarrow> manager_assignment \<Rightarrow> bool" where
  "office_keeps m m' \<longleftrightarrow>
     ma_id m' = ma_id m \<and> ma_room m' = ma_room m \<and> ma_session m' = ma_session m \<and> ma_created_at m' = ma_created_at m \<and>
     (ma_status m' = ActiveManager \<and> ma_released_at m' = None \<longrightarrow> ma_status m = ActiveManager \<and> ma_released_at m = None)"

lemma office_keeps_refl: "office_keeps m m"
  by (simp add: office_keeps_def)

lemma office_keeps_conflict:
  assumes "assignment_conflict a' b'" "office_keeps a a'" "office_keeps b b'"
  shows "assignment_conflict a b"
  using assms unfolding assignment_conflict_def office_keeps_def by metis

lemma managers_wf_update:
  assumes "managers_wf t" "\<And>m. office_keeps m (f m)"
  shows "managers_wf (update_where p f t)"
proof -
  have keep: "office_keeps m (if p m then f m else m)" for m
    using assms(2) by (cases "p m") (simp_all add: office_keeps_refl)
  show ?thesis
    unfolding update_where_def
    by (rule managers_wf_map [OF assms(1)]) (rule office_keeps_conflict [OF _ keep keep])
qed

text \<open>Every row stays; one that leaves the office satisfies \<open>D\<close>.\<close>

definition offices_kept :: "(manager_assignment \<Rightarrow> bool) \<Rightarrow> manager_assignment list \<Rightarrow> manager_assignment list \<Rightarrow> bool" where
  "offices_kept D t t' \<longleftrightarrow>
     (\<forall>m \<in> set t. \<exists>m' \<in> set t'. ma_id m' = ma_id m \<and> ma_room m' = ma_room m \<and> ma_session m' = ma_session m \<and>
        ma_created_at m' = ma_created_at m \<and> (ma_status m' = ma_status m \<or> D m))"

lemma offices_kept_refl [simp]: "offices_kept D t t"
  by (auto simp: offices_kept_def)

lemma offices_kept_trans:
  assumes "offices_kept D t u" "offices_kept D u v"
    "\<And>m m'. ma_id m' = ma_id m \<Longrightarrow> ma_room m' = ma_room m \<Longrightarrow> ma_session m' = ma_session m \<Longrightarrow>
       ma_created_at m' = ma_created_at m \<Longrightarrow> D m' \<Longrightarrow> D m"
  shows "offices_kept D t v"
  unfolding offices_kept_def
proof
  fix m
  assume "m \<in> set t"
  with assms(1) obtain u1 where u: "u1 \<in> set u" "ma_id u1 = ma_id m" "ma_room u1 = ma_room m" "ma_session u1 = ma_session m"
    "ma_created_at u1 = ma_created_at m" "ma_status u1 = ma_status m \<or> D m"
    unfolding offices_kept_def by blast
  with assms(2) obtain v1 where v: "v1 \<in> set v" "ma_id v1 = ma_id u1" "ma_room v1 = ma_room u1" "ma_session v1 = ma_session u1"
    "ma_created_at v1 = ma_created_at u1" "ma_status v1 = ma_status u1 \<or> D u1"
    unfolding offices_kept_def by blast
  have "ma_status v1 = ma_status m \<or> D m" using u v assms(3) [of u1 m] by metis
  with u v show "\<exists>m' \<in> set v. ma_id m' = ma_id m \<and> ma_room m' = ma_room m \<and> ma_session m' = ma_session m \<and>
      ma_created_at m' = ma_created_at m \<and> (ma_status m' = ma_status m \<or> D m)"
    by metis
qed

lemma offices_kept_update:
  assumes "\<And>m. m \<in> set t \<Longrightarrow> p m \<Longrightarrow> ma_id (f m) = ma_id m \<and> ma_room (f m) = ma_room m \<and> ma_session (f m) = ma_session m \<and>
      ma_created_at (f m) = ma_created_at m \<and> (ma_status (f m) = ma_status m \<or> D m)"
  shows "offices_kept D t (update_where p f t)"
  unfolding offices_kept_def
proof
  fix m
  assume "m \<in> set t"
  then show "\<exists>m' \<in> set (update_where p f t). ma_id m' = ma_id m \<and> ma_room m' = ma_room m \<and> ma_session m' = ma_session m \<and>
      ma_created_at m' = ma_created_at m \<and> (ma_status m' = ma_status m \<or> D m)"
    using assms [of m] by (intro bexI [of _ "if p m then f m else m"]) (auto simp: update_where_def)
qed

lemma offices_kept_append: "offices_kept D t u \<Longrightarrow> offices_kept D t (u @ v)"
  by (fastforce simp: offices_kept_def)

section \<open>The statements of the sweep\<close>

text \<open>What the sweep changes of the board: assignments, messages and, by expiry, intents.\<close>

definition failover_change :: "board_db \<Rightarrow> board_db \<Rightarrow> bool" where
  "failover_change db db' \<longleftrightarrow>
     bd_settings db' = bd_settings db \<and> bd_deliveries db' = bd_deliveries db \<and>
     td_coord (bd_tasks db') = td_coord (bd_tasks db) \<and> td_tasks (bd_tasks db') = td_tasks (bd_tasks db)"

lemma post_room_message_eq:
  "post_room_message room client db = (if (room, client) \<in> set (bd_messages db) then db
     else db\<lparr>bd_messages := bd_messages db @ [(room, client)]\<rparr>)"
  by (simp add: post_room_message_def emit_project_message_def transaction_def bind_result_def)

lemma environment_step:
  assumes "bd_tasks db' = bd_tasks db" "bd_messages db' = bd_messages db @ posted"
  shows "board_step pf up db db'"
proof -
  have "db' = db\<lparr>bd_settings := bd_settings db', bd_managers := bd_managers db', bd_deliveries := bd_deliveries db',
      bd_messages := bd_messages db @ posted\<rparr>" using assms by simp
  then show ?thesis using board_step.environment by metis
qed

lemma post_room_message_facts:
  "board_step pf up db (post_room_message room client db)" "bd_managers (post_room_message room client db) = bd_managers db"
  "bd_settings (post_room_message room client db) = bd_settings db" "bd_deliveries (post_room_message room client db) = bd_deliveries db"
  "bd_tasks (post_room_message room client db) = bd_tasks db"
proof -
  show "board_step pf up db (post_room_message room client db)"
    by (cases "(room, client) \<in> set (bd_messages db)")
      (auto simp: post_room_message_eq intro: environment_step [of _ _ "[]"] environment_step [of _ _ "[(room, client)]"])
qed (simp_all add: post_room_message_eq)

lemma next_check_facts:
  "board_step pf up db (next_manager_check e k db)" "bd_settings (next_manager_check e k db) = bd_settings db"
  "bd_deliveries (next_manager_check e k db) = bd_deliveries db" "bd_tasks (next_manager_check e k db) = bd_tasks db"
  "offices_kept D (bd_managers db) (bd_managers (next_manager_check e k db))"
  "managers_wf (bd_managers db) \<Longrightarrow> managers_wf (bd_managers (next_manager_check e k db))"
proof -
  show "board_step pf up db (next_manager_check e k db)"
    by (rule environment_step [of _ _ "[]"]) (auto simp: next_manager_check_def split: option.split)
  show "offices_kept D (bd_managers db) (bd_managers (next_manager_check e k db))"
    by (auto simp: next_manager_check_def reschedule_active_board_manager_assignment_def split: option.split
        intro!: offices_kept_update)
  show "managers_wf (bd_managers db) \<Longrightarrow> managers_wf (bd_managers (next_manager_check e k db))"
    by (auto simp: next_manager_check_def reschedule_active_board_manager_assignment_def office_keeps_def split: option.split
        intro!: managers_wf_update)
qed (simp_all add: next_manager_check_def split: option.split)

lemma post_room_message_change: "failover_change db (post_room_message room client db)"
  by (simp add: failover_change_def post_room_message_facts)

lemma next_check_change: "failover_change db (next_manager_check e k db)"
  by (simp add: failover_change_def next_check_facts)

lemma failover_change_trans: "failover_change a b \<Longrightarrow> failover_change b c \<Longrightarrow> failover_change a c"
  by (simp add: failover_change_def)

section \<open>Evidence\<close>

text \<open>The session ended, or its delivery, and the assignment itself, are older than the threshold.\<close>

definition manager_silent :: "int \<Rightarrow> board_db \<Rightarrow> manager_assignment \<Rightarrow> bool" where
  "manager_silent now db m \<longleftrightarrow>
     (\<exists>x \<in> set (sessions (td_coord (bd_tasks db))). as_room x = ma_room m \<and> as_id x = ma_session m \<and> as_ended_at x \<noteq> None) \<or>
     (\<exists>d \<in> set (bd_deliveries db). ds_room d = ma_room m \<and> ds_key d = agent_delivery_key (ma_session m) \<and>
        manager_failover_after \<le> now - delivery_last_seen d \<and> manager_failover_after \<le> now - ma_created_at m)"

definition room_failover_mode :: "string \<Rightarrow> board_db \<Rightarrow> failover_mode" where
  "room_failover_mode room db = normalize_board_manager_failover_mode (map_option (failover_mode_text \<circ> st_failover)
     (select_first (\<lambda>s. st_room s = room) (bd_settings db)))"

definition deposable :: "(string \<Rightarrow> int \<times> int) \<Rightarrow> int \<Rightarrow> board_db \<Rightarrow> manager_assignment \<Rightarrow> bool" where
  "deposable clock now db m \<longleftrightarrow>
     room_failover_mode (ma_room m) db = FailoverAuto \<and> manager_silent now db m \<and>
     manager_unreachable m (fst (clock (ma_id m))) (grants (td_coord (bd_tasks db)))
       (sessions (td_coord (bd_tasks db))) (bd_deliveries db)"

lemma deposable_change: "failover_change db db' \<Longrightarrow> deposable clock now db' = deposable clock now db"
  by (rule ext) (simp add: failover_change_def deposable_def manager_silent_def room_failover_mode_def)

lemma deposable_same:
  assumes "ma_id m' = ma_id m" "ma_room m' = ma_room m" "ma_session m' = ma_session m" "ma_created_at m' = ma_created_at m"
    "deposable clock now db m'"
  shows "deposable clock now db m"
  using assms by (simp add: deposable_def manager_silent_def manager_unreachable_def)

lemma delivery_last_seen_effective [simp]: "delivery_last_seen (effective_delivery s ranked d) = delivery_last_seen d"
  by (simp add: effective_delivery_def delivery_last_seen_def split: option.split)

lemma death_is_silent:
  assumes "evaluate_board_manager_death (ma_created_at m) (mc_ended_at e) (mc_delivery e) now = Some epoch"
    "e = candidate_of now retry signals db m"
  shows "manager_silent now db m"
proof (cases "mc_ended_at e")
  case (Some t)
  with assms(2) show ?thesis
    by (auto simp: candidate_of_def Let_def manager_session_def manager_silent_def bind_eq_Some_conv dest!: select_first_SomeD)
next
  case None
  with assms obtain d where "delivery_of (ma_room m) (ma_session m) (bd_deliveries db) = Some d"
    "manager_failover_after \<le> now - max (delivery_last_seen d) (ma_created_at m)"
    by (auto simp: evaluate_board_manager_death_def candidate_of_def Let_def split: option.splits if_splits)
  then show ?thesis unfolding manager_silent_def delivery_of_def by (auto dest!: select_first_SomeD)
qed

text \<open>A candidate whose assignment is still the row with its identifier.\<close>

definition entry_known :: "int \<Rightarrow> board_db \<Rightarrow> manager_candidate \<Rightarrow> bool" where
  "entry_known now db e \<longleftrightarrow>
     (\<exists>r \<in> set (bd_managers db). ma_id r = ma_id (mc_assignment e) \<and> ma_room r = ma_room (mc_assignment e) \<and>
        ma_session r = ma_session (mc_assignment e) \<and> ma_created_at r = ma_created_at (mc_assignment e)) \<and>
     mc_mode e = room_failover_mode (ma_room (mc_assignment e)) db \<and>
     (evaluate_board_manager_death (ma_created_at (mc_assignment e)) (mc_ended_at e) (mc_delivery e) now \<noteq> None \<longrightarrow>
        manager_silent now db (mc_assignment e))"

lemma entry_known_change:
  assumes "entry_known now db e" "failover_change db db'" "offices_kept D (bd_managers db) (bd_managers db')"
  shows "entry_known now db' e"
proof -
  from assms(1) obtain r where r: "r \<in> set (bd_managers db)" "ma_id r = ma_id (mc_assignment e)"
    "ma_room r = ma_room (mc_assignment e)" "ma_session r = ma_session (mc_assignment e)"
    "ma_created_at r = ma_created_at (mc_assignment e)"
    by (auto simp: entry_known_def)
  with assms(3) have "\<exists>r \<in> set (bd_managers db'). ma_id r = ma_id (mc_assignment e) \<and> ma_room r = ma_room (mc_assignment e) \<and>
      ma_session r = ma_session (mc_assignment e) \<and> ma_created_at r = ma_created_at (mc_assignment e)"
    unfolding offices_kept_def by metis
  with assms(1,2) show ?thesis
    by (simp add: entry_known_def failover_change_def room_failover_mode_def manager_silent_def)
qed

section \<open>One assignment\<close>

text \<open>What every part of the sweep keeps.\<close>

definition sweep_keeps ::
  "platform \<Rightarrow> url_parser \<Rightarrow> (manager_assignment \<Rightarrow> bool) \<Rightarrow> board_db \<Rightarrow> board_db \<Rightarrow> bool" where
  "sweep_keeps pf up D db db' \<longleftrightarrow>
     (board_step pf up)\<^sup>*\<^sup>* db db' \<and> failover_change db db' \<and> offices_kept D (bd_managers db) (bd_managers db') \<and>
     (managers_wf (bd_managers db) \<longrightarrow> managers_wf (bd_managers db'))"

lemma sweep_keeps_refl [simp]: "sweep_keeps pf up D db db"
  by (simp add: sweep_keeps_def failover_change_def)

lemma sweep_keeps_trans:
  assumes "sweep_keeps pf up (deposable clock now d0) a b" "sweep_keeps pf up (deposable clock now d0) b c"
  shows "sweep_keeps pf up (deposable clock now d0) a c"
proof -
  note k = assms [unfolded sweep_keeps_def]
  have "(board_step pf up)\<^sup>*\<^sup>* a c" using k by (blast intro: rtranclp_trans)
  moreover have "failover_change a c" using k by (blast intro: failover_change_trans)
  moreover have "managers_wf (bd_managers a) \<longrightarrow> managers_wf (bd_managers c)" using k by blast
  moreover have "offices_kept (deposable clock now d0) (bd_managers a) (bd_managers c)"
  proof (rule offices_kept_trans)
    show "offices_kept (deposable clock now d0) (bd_managers a) (bd_managers b)"
      "offices_kept (deposable clock now d0) (bd_managers b) (bd_managers c)"
      using assms by (simp_all add: sweep_keeps_def)
  qed (rule deposable_same)
  ultimately show ?thesis unfolding sweep_keeps_def by blast
qed

lemma post_room_message_keeps: "sweep_keeps pf up D db (post_room_message room client db)"
  unfolding sweep_keeps_def using post_room_message_facts post_room_message_change by auto

lemma next_check_keeps: "sweep_keeps pf up D db (next_manager_check e k db)"
  unfolding sweep_keeps_def by (intro conjI impI r_into_rtranclp next_check_facts next_check_change)

lemma announce_offline_keeps:
  assumes "announce_offline_only time_text m epoch now summary cs db = (s, cs', db')"
  shows "sweep_keeps pf up D db db'"
proof -
  from assms have "db' = db \<or> (\<exists>room client. db' = post_room_message room client db)"
    by (auto simp: announce_offline_only_def Let_def split: if_splits)
  then show ?thesis using post_room_message_keeps sweep_keeps_refl by blast
qed

lemma hand_over_keeps: "sweep_keeps pf up D db (hand_over_intents room assignment now db)"
proof -
  let ?t = "snd (expire_board_intents (Some room) now (bd_intents db))"
  let ?db1 = "with_intents (\<lambda>_. ?t) db"
  have step: "board_step pf up db ?db1" by (rule board_step.swept) (rule prod.collapse [symmetric])
  have posted: "(board_step pf up)\<^sup>*\<^sup>* db (post_room_message room client ?db1)" for client
    by (rule converse_rtranclp_into_rtranclp [of "board_step pf up", OF step r_into_rtranclp]) (rule post_room_message_facts)
  have "hand_over_intents room assignment now db = ?db1 \<or> (\<exists>client. hand_over_intents room assignment now db = post_room_message room client ?db1)"
    by (auto simp: hand_over_intents_def count_board_intents_def Let_def)
  then have "(board_step pf up)\<^sup>*\<^sup>* db (hand_over_intents room assignment now db) \<and>
      bd_managers (hand_over_intents room assignment now db) = bd_managers db \<and>
      failover_change db (hand_over_intents room assignment now db)"
    using r_into_rtranclp [of "board_step pf up", OF step] posted by (auto simp: failover_change_def post_room_message_facts)
  then show ?thesis by (simp add: sweep_keeps_def)
qed

text \<open>The failover transaction releases the candidate's row and appends the successor's.\<close>

lemma failover_keeps:
  assumes "announce_failover i (ma_room m) (ma_id m) claimed successor k signals db = (r, db')"
    "managers_wf (bd_managers db)" "entry_known now db e" "m = mc_assignment e" "room_failover_mode (ma_room m) db = FailoverAuto"
    "manager_silent now db m" "fst (clock (ma_id m)) = k"
  shows "sweep_keeps pf up (deposable clock now db) db db'"
proof -
  have run: "(board_step pf up)\<^sup>*\<^sup>* db db'" using assms(1) by (intro r_into_rtranclp board_step.failover)
  show ?thesis
    using assms(1)
  proof (cases rule: failover_cases)
    case kept
    then show ?thesis by simp
  next
    case (replaced c rp)
    from replaced(3) show ?thesis
    proof (cases rule: failover_hook_Inr)
      case (1 r1 p1 t t')
      let ?D = "deposable clock now db"
      from assms(3) obtain row where row: "row \<in> set (bd_managers db)" "ma_id row = ma_id m" "ma_room row = ma_room m"
        "ma_session row = ma_session m" "ma_created_at row = ma_created_at m"
        unfolding assms(4) by (auto simp: entry_known_def)
      have t: "t = update_where (\<lambda>x. ma_id x = ma_id m \<and> ma_status x = ActiveManager \<and> ma_check_at x = Some c \<and>
          manager_unreachable x k (grants (td_coord (bd_tasks db))) (sessions (td_coord (bd_tasks db))) (bd_deliveries db))
          (released_assignment failover_actor ''Board Manager went offline; automatic failover.'' k) (bd_managers db)"
        using 1(2) by (auto simp: release_board_manager_assignment_def Let_def)
      have D: "?D x" if "x \<in> set (bd_managers db)" "ma_id x = ma_id m"
        "manager_unreachable x k (grants (td_coord (bd_tasks db))) (sessions (td_coord (bd_tasks db))) (bd_deliveries db)" for x
      proof -
        have "x = row" using managers_wf_id [OF assms(2) that(1) row(1)] that(2) row(2) by simp
        with that(3) row assms(5-7) show ?thesis by (simp add: deposable_def manager_silent_def)
      qed
      have kept: "offices_kept ?D (bd_managers db) t"
        unfolding t by (rule offices_kept_update) (use D in \<open>auto simp: released_assignment_def\<close>)
      have wf: "managers_wf t"
        unfolding t by (rule managers_wf_update [OF assms(2)]) (simp add: office_keeps_def released_assignment_def)
      from 1(3) have t': "t' = t @ [p1]" "\<forall>m \<in> set t. \<not> assignment_conflict p1 m" by (auto elim: promote_Inr)
      have "failover_change db db'" by (simp add: 1(4) failover_change_def)
      moreover have "bd_managers db' = t @ [p1]" by (simp add: 1(4) t'(1))
      ultimately show ?thesis
        using run offices_kept_append [OF kept] managers_wf_append [OF wf t'(2)] by (simp add: sweep_keeps_def)
    qed
  qed
qed

lemma sweep_assignment_keeps:
  assumes "sweep_assignment time_text new_ids clock signals now e summary cs db = (r, cs', db')"
    "managers_wf (bd_managers db)" "entry_known now db e"
  shows "sweep_keeps pf up (deposable clock now db) db db'"
proof -
  let ?m = "mc_assignment e"
  let ?k = "\<lambda>db. next_manager_check e (Some (now + manager_offline_cooldown)) db"
  have announced: "sweep_keeps pf up (deposable clock now db) db (?k d)"
    if "announce_offline_only time_text ?m epoch now summary cs db = (s, cs2, d)" for epoch s cs2 d
    using announce_offline_keeps [OF that] next_check_keeps sweep_keeps_trans by blast
  show ?thesis
  proof (cases "mc_mode e = FailoverOff")
    case True
    with assms(1) show ?thesis by (auto simp: sweep_assignment_def Let_def next_check_keeps)
  next
    case False
    show ?thesis
    proof (cases "evaluate_board_manager_death (ma_created_at ?m) (mc_ended_at e) (mc_delivery e) now")
      case None
      with False assms(1) show ?thesis by (auto simp: sweep_assignment_def Let_def next_check_keeps)
    next
      case (Some epoch)
      obtain s cs2 d where a: "announce_offline_only time_text ?m epoch now summary cs db = (s, cs2, d)" by (metis prod_cases3)
      show ?thesis
      proof (cases "pick_successor ?m (mc_successors e) = None \<or> mc_mode e = FailoverAnnounce")
        case True
        with False Some assms(1) a have "db' = ?k d"
          by (auto simp: sweep_assignment_def Let_def split: option.splits)
        with announced [OF a] show ?thesis by simp
      next
        case auto: False
        then obtain x where x: "pick_successor ?m (mc_successors e) = Some x" by auto
        obtain y d2 where f: "announce_failover (new_ids (ma_id ?m)) (ma_room ?m) (ma_id ?m) (mc_claimed e) (as_id x)
            (fst (clock (ma_id ?m))) signals db = (y, d2)" by fastforce
        have "mc_mode e = FailoverAuto" using False auto by (cases "mc_mode e") auto
        then have "room_failover_mode (ma_room ?m) db = FailoverAuto" "manager_silent now db ?m"
          using assms(3) Some by (auto simp: entry_known_def)
        then have keeps: "sweep_keeps pf up (deposable clock now db) db d2"
          by (intro failover_keeps [OF f assms(2,3)]) simp_all
        from False Some auto x f assms(1) have "db' = d2 \<or> db' = hand_over_intents (ma_room ?m) (ma_id ?m) (snd (clock (ma_id ?m))) d2"
          by (auto simp: sweep_assignment_def Let_def split: sum.splits option.splits)
        with keeps hand_over_keeps sweep_keeps_trans show ?thesis by blast
      qed
    qed
  qed
qed

section \<open>A pass\<close>

lemma sweep_assignments_keep:
  assumes "sweep_assignments time_text new_ids clock signals now es summary cs db = (s, cs', db')"
    "managers_wf (bd_managers db)" "\<forall>e \<in> set es. entry_known now db e"
  shows "sweep_keeps pf up (deposable clock now db) db db'"
  using assms
proof (induction es arbitrary: summary cs db)
  case (Cons e es)
  obtain r cs1 db1 where one: "sweep_assignment time_text new_ids clock signals now e summary cs db = (r, cs1, db1)"
    by (metis prod_cases3)
  have keeps: "sweep_keeps pf up (deposable clock now db) db db1"
    using sweep_assignment_keeps [OF one] Cons.prems(2,3) by simp
  then have db1: "failover_change db db1" "managers_wf (bd_managers db1)"
    "offices_kept (deposable clock now db) (bd_managers db) (bd_managers db1)"
    using Cons.prems(2) by (auto simp: sweep_keeps_def)
  have known: "\<forall>e \<in> set es. entry_known now db1 e"
    using Cons.prems(3) entry_known_change db1 by auto
  obtain s1 where "sweep_assignments time_text new_ids clock signals now es s1 cs1 db1 = (s, cs', db')"
    using Cons.prems(1) one by (cases r) auto
  from Cons.IH [OF this db1(2) known] have "sweep_keeps pf up (deposable clock now db) db1 db'"
    by (simp only: deposable_change [OF db1(1)])
  with keeps sweep_keeps_trans show ?case by blast
qed simp

lemma list_assignments_keep:
  assumes "list_active_board_manager_assignments now limit locked signals db = (es, db1)"
  shows "sweep_keeps pf up D db db1" "\<forall>e \<in> set es. entry_known now db1 e"
proof -
  let ?due = "map ma_id (take (nat (min (max (case limit of None \<Rightarrow> 100 | Some n \<Rightarrow> n) 1) 500))
    (sort_key (\<lambda>m. the (ma_check_at m)) (sort_key ma_id (filter (\<lambda>m. assignment_due now m \<and> ma_id m \<notin> locked) (bd_managers db)))))"
  have d: "db1 = db\<lparr>bd_managers := update_where (\<lambda>m. ma_id m \<in> set ?due) (\<lambda>m. m\<lparr>ma_check_at := Some (now + 60000)\<rparr>) (bd_managers db)\<rparr>"
    "es = map (candidate_of now (now + 60000) signals db1) (filter (\<lambda>m. ma_status m = ActiveManager \<and> ma_id m \<in> set ?due) (bd_managers db1))"
    using assms by (auto simp: list_active_board_manager_assignments_def Let_def)
  have "board_step pf up db db1" by (rule environment_step [of _ _ "[]"]) (simp_all add: d(1))
  moreover have "offices_kept D (bd_managers db) (bd_managers db1)"
    by (simp add: d(1)) (rule offices_kept_update, simp)
  moreover have "managers_wf (bd_managers db) \<Longrightarrow> managers_wf (bd_managers db1)"
    by (simp add: d(1)) (rule managers_wf_update, simp_all add: office_keeps_def)
  ultimately show "sweep_keeps pf up D db db1" by (auto simp: sweep_keeps_def failover_change_def d(1))
  show "\<forall>e \<in> set es. entry_known now db1 e"
  proof
    fix e
    assume "e \<in> set es"
    then obtain m where m: "m \<in> set (bd_managers db1)" "e = candidate_of now (now + 60000) signals db1 m"
      unfolding d(2) by auto
    then have "mc_assignment e = m" "mc_mode e = room_failover_mode (ma_room m) db1"
      by (simp_all add: candidate_of_def Let_def room_failover_mode_def)
    moreover have "evaluate_board_manager_death (ma_created_at m) (mc_ended_at e) (mc_delivery e) now \<noteq> None \<Longrightarrow>
        manager_silent now db1 m"
      using death_is_silent [OF _ m(2)] by blast
    ultimately show "entry_known now db1 e" using m(1) by (auto simp: entry_known_def)
  qed
qed



end
