(* ===== verification/TaskEnforcement.thy ===== *)
theory TaskEnforcement
  imports ClaimApproval DuplicateWork
begin

text \<open>
  What a request that changes a task must pass before \<open>updateTask\<close>: the rules of ownership
  (\<^verbatim>\<open>src/api/tasks/ownership.ts\<close>), the kind of mutation it is (\<^verbatim>\<open>coordination-inputs.ts\<close>) and the enforcement
  of the coordination policy with the approval it needs (\<^verbatim>\<open>coordination-enforcement.ts\<close>). What the guard reads
  through its dependencies is an argument, so that other steps fit between a read and the write; the events
  it records, and the one write it makes itself, are in its outcome.
\<close>

section \<open>Ownership\<close>

datatype auth_kind = SessionAuth | OwnerToken | AgentSessionAuth | SupervisorGrantAuth | NoAuth

definition agent_owned_task_status :: "task_status \<Rightarrow> bool" where
  "agent_owned_task_status s \<longleftrightarrow> s \<in> {Assigned, InProgress, Blocked, InReview}"

definition requires_task_ownership_guard ::
  "auth_kind \<Rightarrow> task_status option \<Rightarrow> string option option \<Rightarrow> string option option \<Rightarrow> bool" where
  "requires_task_ownership_guard auth status assignee assignee_key \<longleftrightarrow>
     auth \<in> {OwnerToken, AgentSessionAuth} \<and>
     ((case status of None \<Rightarrow> False | Some s \<Rightarrow> agent_owned_task_status s) \<or> assignee \<noteq> None \<or> assignee_key \<noteq> None)"

datatype ownership_denial = NoActorLabel | NoActorKey | ClaimForAnother | ReassignAfterClaim | NotTheAssignee "task_status option"

text \<open>The value is the assignee's key that the guard adds to the update, if it adds one.\<close>

definition evaluate_task_ownership ::
  "auth_kind \<Rightarrow> string option \<Rightarrow> string option \<Rightarrow> task_update \<Rightarrow> string option \<Rightarrow> string option
   \<Rightarrow> ownership_denial + string option" where
  "evaluate_task_ownership auth assignee assignee_key u label key =
     (if \<not> requires_task_ownership_guard auth (up_status u) (up_assignee u) (up_assignee_key u) then Inr None
      else case (trimmed_or_null label, trimmed_or_null key) of
        (None, _) \<Rightarrow> Inl NoActorLabel
      | (Some _, None) \<Rightarrow> Inl NoActorKey
      | (Some l, Some k) \<Rightarrow>
          if up_status u = Some Assigned
          then (if trimmed_or_null (Option.bind (up_assignee u) id) = Some l \<and>
                   trimmed_or_null (Option.bind (up_assignee_key u) id) = Some k
                then Inr (Some k) else Inl ClaimForAnother)
          else if up_assignee u \<noteq> None \<or> up_assignee_key u \<noteq> None then Inl ReassignAfterClaim
          else if trimmed_or_null assignee_key = Some k then Inr None
          else if \<not> truthy assignee_key \<and> trimmed_or_null assignee = Some l then Inr (Some k)
          else Inl (NotTheAssignee (up_status u)))"

section \<open>The kind of a mutation\<close>

type_synonym mutation_class = "mutation \<times> lease_kind \<times> bool"

definition classify_task_coordination_mutation :: "task_update \<Rightarrow> mutation_class option" where
  "classify_task_coordination_mutation u =
     (if up_status u = Some Assigned then Some (TaskClaim, Work, True)
      else if up_status u = Some InReview then Some (TaskComplete, Work, False)
      else if up_pr_url u \<noteq> None \<or> up_artifacts u \<noteq> None then Some (WorkflowArtifactAttach, Work, False)
      else if up_status u \<in> {Some InProgress, Some Blocked} then Some (TaskUpdate, Work, False)
      else None)"

definition board_intent_action_for_mutation :: "task_update \<Rightarrow> intent_action option" where
  "board_intent_action_for_mutation u =
     (case up_status u of
        Some Assigned \<Rightarrow> Some ActClaim
      | Some Merged \<Rightarrow> Some ActClose | Some TaskDone \<Rightarrow> Some ActClose | Some Cancelled \<Rightarrow> Some ActClose
      | Some Accepted \<Rightarrow> Some ActOverride
      | _ \<Rightarrow> None)"

section \<open>Requests, reads and outcomes\<close>

record principal =
  pr_session :: string
  pr_key :: string
  pr_room :: string

record guard_input =
  gi_auth :: auth_kind
  gi_account :: "string option"
  gi_principal :: "principal option"
  gi_room :: string
  gi_task :: string
  gi_status :: task_status
  gi_title :: string
  gi_assignee :: "string option"
  gi_assignee_key :: "string option"
  gi_update :: task_update
  gi_forced :: "(mutation \<times> lease_kind) option"
  gi_label :: "string option"
  gi_key :: "string option"
  gi_instance :: "string option"
  gi_session :: "string option"
  gi_intent :: "string option"
  gi_token :: "string option"

text \<open>What the dependencies answer: the identity of a key with its owner, the leases and locks of the task, whether
  the room requires intents, and the verification of an approval.\<close>

record guard_reads =
  gr_identity :: "string \<Rightarrow> (string \<times> string) option"
  gr_leases :: "task_lease list"
  gr_locks :: "coord_lock list"
  gr_requires :: bool
  gr_verify :: "consumption \<Rightarrow> intent_denial + board_intent"
  gr_now :: int

datatype guard_denial =
    WorkLeaseRequired bool | InvalidActor | ActorKeyMissing | ActorKeyForeign | MissingTaskActor | ClaimStateConflict
  | IntentDenied intent_denial | PolicyDenial deny_code string | AdmissionLocked coord_lock | DuplicateWorkDenied string

datatype event_reason = ReasonText string | ReasonIntent intent_denial

record coordination_event =
  ce_room :: string
  ce_task :: "string option"
  ce_mutation :: mutation
  ce_allowed :: bool
  ce_label :: "string option"
  ce_key :: "string option"
  ce_instance :: "string option"
  ce_reason :: event_reason
  ce_lease :: "string option"
  ce_lock :: "string option"

text \<open>An admitted request carries the options of its update. \<open>go_bind\<close> is the pull request that the guard binds to
  a lease without a fence.\<close>

record guard_outcome =
  go_decision :: "guard_denial + update_options"
  go_events :: "coordination_event list"
  go_bind :: "(string \<times> string \<times> string) option"

definition allow_with :: "consumption option \<Rightarrow> lease_input option \<Rightarrow> lease_fence option \<Rightarrow> guard_denial + update_options" where
  "allow_with approval lease fence = Inr \<lparr>uo_approval = approval, uo_lease = lease, uo_fence = fence\<rparr>"

definition outcome :: "guard_denial + update_options \<Rightarrow> coordination_event list \<Rightarrow> guard_outcome" where
  "outcome d es = \<lparr>go_decision = d, go_events = es, go_bind = None\<rparr>"

section \<open>Parts of the guard\<close>

definition lease_fence_for :: "task_lease \<Rightarrow> lease_fence option" where
  "lease_fence_for l =
     (if tl_kind l \<noteq> Work \<or> tl_status l \<noteq> Active \<or> \<not> truthy (tl_session l) then None
      else Some \<lparr>lf_lease = tl_id l, lf_room = tl_room l, lf_task = tl_task l, lf_kind = Work, lf_epoch = tl_epoch l,
                 lf_session = the (tl_session l)\<rparr>)"

definition validate_owner_token_task_actor_key ::
  "auth_kind \<Rightarrow> string option \<Rightarrow> (string \<Rightarrow> (string \<times> string) option) \<Rightarrow> string option
   \<Rightarrow> guard_denial + string option" where
  "validate_owner_token_task_actor_key auth account identity key =
     (if auth \<noteq> OwnerToken then Inr key
      else if \<not> truthy key then Inl ActorKeyMissing
      else case identity (the key) of
             None \<Rightarrow> Inl ActorKeyForeign
           | Some (canonical, owner) \<Rightarrow> if Some owner = account then Inr (Some canonical) else Inl ActorKeyForeign)"

definition task_is_assigned_to_actor :: "string option \<Rightarrow> string option \<Rightarrow> string \<Rightarrow> string \<Rightarrow> bool" where
  "task_is_assigned_to_actor assignee assignee_key label key =
     (case trimmed_or_null assignee_key of
        Some k \<Rightarrow> k = key
      | None \<Rightarrow> trimmed_or_null assignee = Some label)"

definition enforce_board_intent ::
  "string \<Rightarrow> intent_action \<Rightarrow> json \<Rightarrow> string option \<Rightarrow> string option \<Rightarrow> string option \<Rightarrow> string option
   \<Rightarrow> (string \<times> string) option \<Rightarrow> guard_reads \<Rightarrow> guard_denial + consumption option" where
  "enforce_board_intent room action payload key session intent token worker r =
     (if \<not> truthy key \<and> \<not> truthy session then Inr None
      else if \<not> gr_requires r then Inr None
      else
       (let c = \<lparr>cn_room = room, cn_action = action, cn_payload = payload, cn_intent = intent, cn_token = token,
                 cn_worker = worker\<rparr>
        in case gr_verify r c of
             Inl e \<Rightarrow> Inl (IntentDenied e)
           | Inr i \<Rightarrow> Inr (if bi_id i = [] then None else Some (c\<lparr>cn_intent := Some (bi_id i)\<rparr>))))"

definition decision_event ::
  "guard_input \<Rightarrow> mutation \<Rightarrow> bool \<Rightarrow> string \<Rightarrow> string \<Rightarrow> event_reason \<Rightarrow> string option \<Rightarrow> string option \<Rightarrow> coordination_event" where
  "decision_event g m allowed label key reason lease lock =
     \<lparr>ce_room = gi_room g, ce_task = Some (gi_task g), ce_mutation = m, ce_allowed = allowed, ce_label = Some label,
      ce_key = Some key, ce_instance = gi_instance g, ce_reason = reason, ce_lease = lease, ce_lock = lock\<rparr>"

definition record_intent_denial :: "guard_input \<Rightarrow> mutation \<Rightarrow> string \<Rightarrow> string \<Rightarrow> guard_denial \<Rightarrow> guard_outcome" where
  "record_intent_denial g m label key e =
     outcome (Inl e) (case e of
        IntentDenied d \<Rightarrow> [decision_event g m False label key (ReasonIntent d) None None] | _ \<Rightarrow> [])"

definition prepare_work_lease_for_actor :: "guard_input \<Rightarrow> string \<Rightarrow> string \<Rightarrow> lease_input" where
  "prepare_work_lease_for_actor g label key =
     \<lparr>li_room = gi_room g, li_task = gi_task g, li_kind = Work, li_agent_key = key, li_label = label, li_created_by = label,
      li_instance = gi_instance g, li_session = (if truthy (gi_session g) then gi_session g else None),
      li_branch = Some (build_leased_branch_ref (gi_task g) key), li_pr_url = up_pr_url (gi_update g),
      li_output = Some (gi_title g), li_expires_at = None\<rparr>"

definition issue_work_lease ::
  "guard_input \<Rightarrow> mutation \<Rightarrow> string \<Rightarrow> string \<Rightarrow> guard_denial + consumption option \<Rightarrow> guard_outcome" where
  "issue_work_lease g m label key intent =
     (case intent of
        Inl e \<Rightarrow> record_intent_denial g m label key e
      | Inr approval \<Rightarrow>
          outcome (allow_with approval (Some (prepare_work_lease_for_actor g label key)) None)
            [decision_event g m True label key (ReasonText (''Allowed '' @ mutation_name m @
               ''; work lease will be issued with the task update.'')) None None])"

section \<open>Changing a task\<close>

definition guard_mutation :: "guard_input \<Rightarrow> mutation_class option" where
  "guard_mutation g =
     (case gi_forced g of
        Some (m, kind) \<Rightarrow> Some (m, kind, False)
      | None \<Rightarrow> classify_task_coordination_mutation (gi_update g))"

definition is_claim :: "guard_input \<Rightarrow> bool" where
  "is_claim g \<longleftrightarrow> (case guard_mutation g of None \<Rightarrow> False | Some (m, kind, claim) \<Rightarrow> claim)"

definition worker_claim :: "guard_input \<Rightarrow> bool" where
  "worker_claim g \<longleftrightarrow> gi_auth g = AgentSessionAuth \<and> is_claim g"

text \<open>A worker's change that needs the work lease: the current holder, fenced, or nobody.\<close>

definition enforce_worker_holder :: "guard_input \<Rightarrow> task_lease list \<Rightarrow> guard_denial + update_options" where
  "enforce_worker_holder g ls =
     (let active = List.find (\<lambda>l. tl_kind l = Work \<and> tl_status l = Active) ls;
          recoverable = (gi_status g = Assigned \<and> truthy (gi_label g) \<and> truthy (gi_key g) \<and>
            task_is_assigned_to_actor (gi_assignee g) (gi_assignee_key g) (the (gi_label g)) (the (gi_key g)) \<and> active = None)
      in case active of
           None \<Rightarrow> Inl (WorkLeaseRequired recoverable)
         | Some l \<Rightarrow>
             if \<not> truthy (gi_session g) \<or> tl_session l \<noteq> gi_session g then Inl (WorkLeaseRequired recoverable)
             else allow_with None None (Some \<lparr>lf_lease = tl_id l, lf_room = gi_room g, lf_task = gi_task g, lf_kind = Work,
                    lf_epoch = tl_epoch l, lf_session = the (tl_session l)\<rparr>))"

definition claims_own_identity :: "guard_input \<Rightarrow> bool" where
  "claims_own_identity g \<longleftrightarrow>
     truthy (gi_session g) \<and>
     (case gi_principal g of
        None \<Rightarrow> False
      | Some p \<Rightarrow> Some (pr_session p) = gi_session g \<and> Some (pr_key p) = gi_key g \<and> pr_room p = gi_room g)"

definition verified_actor_key :: "guard_input \<Rightarrow> guard_reads \<Rightarrow> string \<Rightarrow> guard_denial + string" where
  "verified_actor_key g r key =
     (if worker_claim g then Inr key
      else bind_result (validate_owner_token_task_actor_key (gi_auth g) (gi_account g) (gr_identity r) (Some key)) (\<lambda>k.
           if truthy k then Inr (the k) else Inl InvalidActor))"

definition guard_actor :: "guard_input \<Rightarrow> string \<Rightarrow> string \<Rightarrow> actor" where
  "guard_actor g label key = \<lparr>ca_label = Some label, ca_agent_key = Some key, ca_instance = gi_instance g,
     ca_session = gi_session g\<rparr>"

definition recovering_own_claim :: "guard_input \<Rightarrow> string \<Rightarrow> string \<Rightarrow> bool" where
  "recovering_own_claim g label key \<longleftrightarrow>
     worker_claim g \<and> gi_status g = Assigned \<and>
     task_is_assigned_to_actor (gi_assignee g) (gi_assignee_key g) label key"

definition guard_intent :: "guard_input \<Rightarrow> guard_reads \<Rightarrow> string \<Rightarrow> guard_denial + consumption option" where
  "guard_intent g r key =
     (case board_intent_action_for_mutation (gi_update g) of
        None \<Rightarrow> Inr None
      | Some action \<Rightarrow>
          (let u = gi_update g in
           enforce_board_intent (gi_room g) action
             (payload_for_task_mutation (gi_task g) (map_option task_status_text (up_status u))
               (Option.bind (up_assignee u) id) (Option.bind (up_assignee_key u) id) (up_pr_url u))
             (Some key) (gi_session g) (gi_intent g) (gi_token g)
             (if gi_auth g = AgentSessionAuth then map_option (\<lambda>p. (pr_session p, pr_key p)) (gi_principal g) else None) r))"

text \<open>The part for a coordinated principal whose actor is known.\<close>

definition enforce_coordinated ::
  "guard_input \<Rightarrow> guard_reads \<Rightarrow> mutation \<Rightarrow> lease_kind \<Rightarrow> bool \<Rightarrow> string \<Rightarrow> string \<Rightarrow> guard_outcome" where
  "enforce_coordinated g r m kind claim label key =
     (let recovering = recovering_own_claim g label key;
          decision = evaluate_mutation m (gi_task g) kind (guard_actor g label key) (gr_leases r) (gr_locks r) (gr_now r);
          intent = guard_intent g r key
      in
      if worker_claim g \<and> gi_status g \<noteq> Accepted \<and> \<not> recovering then outcome (Inl ClaimStateConflict) []
      else case decision of
        Allow l \<Rightarrow>
          if recovering \<and> tl_session l = gi_session g then outcome (allow_with None None (lease_fence_for l)) []
          else
          (case intent of
             Inl e \<Rightarrow> record_intent_denial g m label key e
           | Inr approval \<Rightarrow>
               (let fence = lease_fence_for l
                in \<lparr>go_decision = allow_with approval None fence,
                    go_events = [decision_event g m True label key (ReasonText (''Allowed '' @ mutation_name m @
                      '' with lease '' @ tl_id l @ ''.'')) (Some (tl_id l)) None],
                    go_bind = (if m = WorkflowArtifactAttach \<and> fence = None
                      then map_option (\<lambda>url. (gi_room g, tl_id l, url)) (up_pr_url (gi_update g)) else None)\<rparr>))
      | Deny code reason lock lease \<Rightarrow>
          if code = MissingLease \<and> claim \<and> (gi_status g = Accepted \<or> recovering) then issue_work_lease g m label key intent
          else if code = MissingLease \<and> \<not> claim \<and>
                  task_is_assigned_to_actor (gi_assignee g) (gi_assignee_key g) label key
          then issue_work_lease g m label key intent
          else outcome (Inl (PolicyDenial code reason))
                 [decision_event g m False label key (ReasonText reason) (map_option tl_id lease) (map_option lk_id lock)])"

definition enforce_task_coordination_mutation :: "guard_input \<Rightarrow> guard_reads \<Rightarrow> guard_outcome" where
  "enforce_task_coordination_mutation g r =
     (if gi_auth g = AgentSessionAuth \<and> \<not> worker_claim g
      then (case guard_mutation g of
              Some (m, Work, claim) \<Rightarrow> outcome (enforce_worker_holder g (gr_leases r)) []
            | _ \<Rightarrow> outcome (allow_with None None None) [])
      else if gi_auth g \<noteq> OwnerToken \<and> \<not> worker_claim g then outcome (allow_with None None None) []
      else if worker_claim g \<and> \<not> claims_own_identity g then outcome (Inl InvalidActor) []
      else case guard_mutation g of
        None \<Rightarrow> outcome (allow_with None None None) []
      | Some (m, kind, claim) \<Rightarrow>
          (case (trimmed_or_null (gi_label g), trimmed_or_null (gi_key g)) of
             (Some label, Some asked) \<Rightarrow>
               (case verified_actor_key g r asked of
                  Inl e \<Rightarrow> outcome (Inl e) []
                | Inr key \<Rightarrow> enforce_coordinated g r m kind claim label key)
           | _ \<Rightarrow> outcome (Inl MissingTaskActor) []))"

section \<open>Creating a task\<close>

record admission_input =
  ai_auth :: auth_kind
  ai_room :: string
  ai_title :: string
  ai_description :: "string option"
  ai_source_message :: "string option"
  ai_label :: "string option"
  ai_key :: "string option"
  ai_instance :: "string option"
  ai_session :: "string option"
  ai_intent :: "string option"
  ai_token :: "string option"

definition admission_event :: "admission_input \<Rightarrow> event_reason \<Rightarrow> string option \<Rightarrow> string option \<Rightarrow> coordination_event" where
  "admission_event a reason lease lock =
     \<lparr>ce_room = ai_room a, ce_task = None, ce_mutation = TaskAdmit, ce_allowed = False,
      ce_label = trimmed_or_null (ai_label a), ce_key = trimmed_or_null (ai_key a), ce_instance = ai_instance a,
      ce_reason = reason, ce_lease = lease, ce_lock = lock\<rparr>"

definition title_intent :: "string \<Rightarrow> work_intent" where
  "title_intent title = \<lparr>wi_source_message = None, wi_source_task = None, wi_branch = None, wi_pr_url = None,
     wi_output = Some title, wi_artifacts = []\<rparr>"

definition enforce_task_admission_preconditions ::
  "(string \<Rightarrow> (string \<times> string) option) \<Rightarrow> admission_input \<Rightarrow> guard_reads \<Rightarrow> coord_task list \<Rightarrow> focus_room list
   \<Rightarrow> guard_outcome" where
  "enforce_task_admission_preconditions url_parse a r tasks rooms =
     (case find_applicable_lock (gr_locks r) None of
        Some k \<Rightarrow> outcome (Inl (AdmissionLocked k))
          [admission_event a (ReasonText (''Task admission is blocked by '' @ lock_reason_name (lk_reason k) @ '' lock '' @
             lk_id k @ ''.'')) None (Some (lk_id k))]
      | None \<Rightarrow>
          (case evaluate_admission url_parse (title_intent (ai_title a)) tasks rooms (gr_leases r) (gr_now r) of
             RouteToReview reason d \<Rightarrow> outcome (Inl (DuplicateWorkDenied reason))
               [admission_event a (ReasonText reason) (map_option tl_id (dm_lease d)) None]
           | Admit \<Rightarrow> outcome (allow_with None None None) []))"

definition enforce_task_admission_coordination ::
  "(string \<Rightarrow> (string \<times> string) option) \<Rightarrow> admission_input \<Rightarrow> guard_reads \<Rightarrow> coord_task list \<Rightarrow> focus_room list
   \<Rightarrow> guard_outcome" where
  "enforce_task_admission_coordination url_parse a r tasks rooms =
     (if ai_auth a \<noteq> OwnerToken then outcome (allow_with None None None) []
      else
       (let pre = enforce_task_admission_preconditions url_parse a r tasks rooms
        in case go_decision pre of
             Inl e \<Rightarrow> pre
           | Inr _ \<Rightarrow>
               (case enforce_board_intent (ai_room a) ActCreate
                       (payload_for_task_create (ai_title a) (ai_description a) (ai_source_message a))
                       (trimmed_or_null (ai_key a)) (ai_session a) (ai_intent a) (ai_token a) None r of
                  Inl e \<Rightarrow> outcome (Inl e) (case e of
                     IntentDenied d \<Rightarrow> [admission_event a (ReasonIntent d) None None] | _ \<Rightarrow> [])
                | Inr approval \<Rightarrow> outcome (allow_with approval None None) [])))"

end
