(* ===== verification/TaskGuards.thy ===== *)
theory TaskGuards
  imports TaskGuarantees TaskEnforcement
begin

text \<open>
  What a request has shown when the guard of \<open>TaskEnforcement\<close> lets it through, and that a worker's change is
  written only under the lease that the guard has seen.
\<close>

section \<open>The cases of the guard\<close>

lemma outcome_decision [simp]: "go_decision (outcome d es) = d"
  by (simp add: outcome_def)

lemma intent_denial_decision [simp]: "go_decision (record_intent_denial g m label key e) = Inl e"
  by (simp add: record_intent_denial_def)

lemma issue_work_lease_Inr:
  "go_decision (issue_work_lease g m label key intent) = Inr uo \<longleftrightarrow>
     (\<exists>approval. intent = Inr approval \<and>
        uo = \<lparr>uo_approval = approval, uo_lease = Some (prepare_work_lease_for_actor g label key), uo_fence = None\<rparr>)"
  by (auto simp: issue_work_lease_def allow_with_def split: sum.splits)

lemma evaluate_mutation_MissingLease:
  assumes "evaluate_mutation m task kind a ls ks now = Deny MissingLease s k l"
  shows "find_applicable_lock ks (Some task) = None"
    "\<forall>x \<in> set ls. \<not> (tl_task x = task \<and> tl_kind x = kind \<and> is_active_lease now x)"
proof -
  show "find_applicable_lock ks (Some task) = None"
    using assms by (auto simp: evaluate_mutation_def split: option.splits)
  show "\<forall>x \<in> set ls. \<not> (tl_task x = task \<and> tl_kind x = kind \<and> is_active_lease now x)"
    using mutation_denial_code [where m = m and task = task and kind = kind and a = a and ls = ls and ks = ks and now = now] assms by auto
qed

text \<open>How an approval is obtained: it was verified for this room, action and worker, unless none is required.\<close>

definition approval_obtained :: "guard_input \<Rightarrow> guard_reads \<Rightarrow> consumption option \<Rightarrow> bool" where
  "approval_obtained g r approval \<longleftrightarrow>
     (case board_intent_action_for_mutation (gi_update g) of
        None \<Rightarrow> approval = None
      | Some action \<Rightarrow>
          if gr_requires r
          then (\<exists>c i. gr_verify r c = Inr i \<and> cn_room c = gi_room g \<and> cn_action c = action \<and>
                  approval = (if bi_id i = [] then None else Some (c\<lparr>cn_intent := Some (bi_id i)\<rparr>)))
          else approval = None)"

lemma guard_intent_Inr:
  assumes "guard_intent g r key = Inr approval" "key \<noteq> []"
  shows "approval_obtained g r approval"
proof (cases "board_intent_action_for_mutation (gi_update g)")
  case None
  with assms(1) show ?thesis by (simp add: guard_intent_def approval_obtained_def)
next
  case (Some action)
  let ?c = "\<lparr>cn_room = gi_room g, cn_action = action,
    cn_payload = payload_for_task_mutation (gi_task g) (map_option task_status_text (up_status (gi_update g)))
      (Option.bind (up_assignee (gi_update g)) id) (Option.bind (up_assignee_key (gi_update g)) id) (up_pr_url (gi_update g)),
    cn_intent = gi_intent g, cn_token = gi_token g,
    cn_worker = (if gi_auth g = AgentSessionAuth then map_option (\<lambda>p. (pr_session p, pr_key p)) (gi_principal g) else None)\<rparr>"
  show ?thesis
  proof (cases "gr_requires r")
    case False
    with assms(1) Some show ?thesis
      by (simp add: guard_intent_def approval_obtained_def enforce_board_intent_def Let_def split: if_splits)
  next
    case True
    with assms Some obtain i where "gr_verify r ?c = Inr i"
      "approval = (if bi_id i = [] then None else Some (?c\<lparr>cn_intent := Some (bi_id i)\<rparr>))"
      by (auto simp: guard_intent_def enforce_board_intent_def Let_def truthy_iff split: sum.splits if_splits)
    with Some True show ?thesis
      unfolding approval_obtained_def by (auto intro!: exI [of _ ?c] exI [of _ i])
  qed
qed

lemma enforce_coordinated_Inr:
  assumes "go_decision (enforce_coordinated g r m kind claim label key) = Inr uo"
  obtains (held) l where "evaluate_mutation m (gi_task g) kind (guard_actor g label key) (gr_leases r) (gr_locks r) (gr_now r) = Allow l"
      "uo_lease uo = None" "uo_fence uo = lease_fence_for l"
      "guard_intent g r key = Inr (uo_approval uo) \<or> (recovering_own_claim g label key \<and> uo_approval uo = None)"
  | (issued) s k l where "evaluate_mutation m (gi_task g) kind (guard_actor g label key) (gr_leases r) (gr_locks r) (gr_now r) =
        Deny MissingLease s k l"
      "uo_lease uo = Some (prepare_work_lease_for_actor g label key)" "uo_fence uo = None" "guard_intent g r key = Inr (uo_approval uo)"
      "if claim then gi_status g = Accepted \<or> recovering_own_claim g label key
       else task_is_assigned_to_actor (gi_assignee g) (gi_assignee_key g) label key"
proof (cases "evaluate_mutation m (gi_task g) kind (guard_actor g label key) (gr_leases r) (gr_locks r) (gr_now r)")
  case (Allow l)
  with assms show ?thesis
    by (intro held [of l]) (auto simp: enforce_coordinated_def Let_def allow_with_def split: if_splits sum.splits)
next
  case (Deny code s k l)
  have "code = MissingLease"
    using assms Deny by (auto simp: enforce_coordinated_def Let_def split: if_splits)
  with assms Deny show ?thesis
    by (intro issued [of s k l]) (auto simp: enforce_coordinated_def Let_def issue_work_lease_Inr split: if_splits)
qed

section \<open>What a coordinated change has shown\<close>

definition actor_verified :: "guard_input \<Rightarrow> guard_reads \<Rightarrow> string \<Rightarrow> bool" where
  "actor_verified g r key \<longleftrightarrow>
     (if worker_claim g then claims_own_identity g \<and> trimmed_or_null (gi_key g) = Some key
      else \<exists>asked owner. trimmed_or_null (gi_key g) = Some asked \<and> gr_identity r asked = Some (key, owner) \<and>
             gi_account g = Some owner)"

lemma verified_actor_key_Inr:
  assumes "verified_actor_key g r asked = Inr key" "trimmed_or_null (gi_key g) = Some asked" "gi_auth g = OwnerToken \<or> worker_claim g"
    "worker_claim g \<Longrightarrow> claims_own_identity g"
  shows "actor_verified g r key" "key \<noteq> []"
proof -
  have "asked \<noteq> []" using assms(2) by (auto simp: trimmed_or_null_def split: option.splits if_splits)
  then show "actor_verified g r key" "key \<noteq> []"
    using assms
    by (auto simp: verified_actor_key_def actor_verified_def validate_owner_token_task_actor_key_def bind_result_Inr truthy_iff
        split: if_splits option.splits)
qed

lemma enforce_mutation_Inr:
  assumes "go_decision (enforce_task_coordination_mutation g r) = Inr uo" "guard_mutation g = Some (m, kind, claim)"
    "gi_auth g = OwnerToken \<or> worker_claim g"
  obtains label key where "trimmed_or_null (gi_label g) = Some label" "actor_verified g r key" "key \<noteq> []"
    "go_decision (enforce_coordinated g r m kind claim label key) = Inr uo"
proof -
  have own: "worker_claim g \<Longrightarrow> claims_own_identity g"
    using assms by (auto simp: enforce_task_coordination_mutation_def split: if_splits)
  have "\<not> (gi_auth g = AgentSessionAuth \<and> \<not> worker_claim g)" "\<not> (gi_auth g \<noteq> OwnerToken \<and> \<not> worker_claim g)"
    using assms(3) by auto
  with assms(1,2) own obtain label asked where l: "trimmed_or_null (gi_label g) = Some label" "trimmed_or_null (gi_key g) = Some asked"
    "go_decision (case verified_actor_key g r asked of Inl e \<Rightarrow> outcome (Inl e) []
       | Inr key \<Rightarrow> enforce_coordinated g r m kind claim label key) = Inr uo"
    by (simp add: enforce_task_coordination_mutation_def split: if_splits option.splits)
  then obtain key where k: "verified_actor_key g r asked = Inr key"
    "go_decision (enforce_coordinated g r m kind claim label key) = Inr uo"
    by (auto split: sum.splits)
  from verified_actor_key_Inr [OF k(1) l(2) assms(3) own] l(1) k(2) show ?thesis by (intro that)
qed


section \<open>A worker's change\<close>

lemma worker_holder_Inr:
  assumes "enforce_worker_holder g ls = Inr uo"
  obtains l f where "l \<in> set ls" "uo_fence uo = Some f" "lf_lease f = tl_id l" "lf_epoch f = tl_epoch l" "lf_room f = gi_room g"
    "lf_task f = gi_task g" "lf_kind f = Work" "gi_session g = Some (lf_session f)"
proof -
  from assms obtain l where l: "List.find (\<lambda>l. tl_kind l = Work \<and> tl_status l = Active) ls = Some l"
    "truthy (gi_session g)" "tl_session l = gi_session g"
    "uo = \<lparr>uo_approval = None, uo_lease = None, uo_fence = Some \<lparr>lf_lease = tl_id l, lf_room = gi_room g, lf_task = gi_task g,
       lf_kind = Work, lf_epoch = tl_epoch l, lf_session = the (tl_session l)\<rparr>\<rparr>"
    by (auto simp: enforce_worker_holder_def Let_def allow_with_def split: option.splits if_splits)
  with find_SomeD [OF l(1)] show ?thesis by (intro that [of l "the (uo_fence uo)"]) (auto simp: truthy_iff)
qed

text \<open>C7: A worker's change that needs the work lease, admitted over the leases the guard has read, is written only if
  that very lease, at the epoch the guard saw, is still active and still bound to the worker's session when it is
  written, whatever happened in between.\<close>

theorem worker_change_needs_current_lease:
  assumes "go_decision (enforce_task_coordination_mutation g r) = Inr uo" "gi_auth g = AgentSessionAuth"
    "guard_mutation g = Some (m, Work, False)"
    "update_task_write up pf i (gi_room g) task u uo seen now d = (Inr (Some row), d')"
  shows "\<exists>held \<in> set (leases (td_coord d)). tl_room held = gi_room g \<and> tl_task held = gi_task g \<and> tl_kind held = Work \<and>
    tl_status held = Active \<and> gi_session g \<noteq> None \<and> tl_session held = gi_session g \<and>
    (\<exists>l \<in> set (gr_leases r). tl_id l = tl_id held \<and> tl_epoch l = tl_epoch held)"
proof -
  have "\<not> worker_claim g" using assms(3) by (simp add: worker_claim_def is_claim_def)
  with assms(1-3) have "enforce_worker_holder g (gr_leases r) = Inr uo"
    by (simp add: enforce_task_coordination_mutation_def)
  then obtain l f where l: "l \<in> set (gr_leases r)" "uo_fence uo = Some f" "lf_lease f = tl_id l" "lf_epoch f = tl_epoch l"
    "lf_room f = gi_room g" "lf_task f = gi_task g" "lf_kind f = Work" "gi_session g = Some (lf_session f)"
    by (rule worker_holder_Inr)
  from assms(4) show ?thesis
  proof (cases rule: update_task_write_cases)
    case (guarded n x d1)
    from guarded(3) obtain y where "fence_phase up (gi_room g) task n u uo seen now d = Inr y"
      by (auto simp: update_in_transaction_def bind_result_Inr)
    then obtain held where "held \<in> set (leases (td_coord d))" "fence_row f held" using l(2) by (rule fence_phase_fence)
    with l show ?thesis by (intro bexI [of _ held]) (auto simp: fence_row_def)
  qed (use l(2) in auto)
qed

section \<open>Two requests\<close>

definition demo_request :: "auth_kind \<Rightarrow> task_status \<Rightarrow> task_update \<Rightarrow> guard_input" where
  "demo_request auth s u = \<lparr>gi_auth = auth, gi_account = Some ''owner'', gi_principal = None, gi_room = ''room'',
     gi_task = ''task_1'', gi_status = s, gi_title = ''Fix it'', gi_assignee = None, gi_assignee_key = None, gi_update = u,
     gi_forced = None, gi_label = Some '' agent'', gi_key = Some ''key'', gi_instance = None, gi_session = Some ''new'',
     gi_intent = None, gi_token = None\<rparr>"

definition demo_reads :: "task_lease list \<Rightarrow> guard_reads" where
  "demo_reads ls = \<lparr>gr_identity = (\<lambda>k. if k = ''key'' then Some (''key'', ''owner'') else None), gr_leases = ls, gr_locks = [],
     gr_requires = False, gr_verify = (\<lambda>_. Inl IntentRequired), gr_now = 9\<rparr>"


lemma worker_change_needs_current_lease_witness:
  "\<exists>held \<in> set (leases (td_coord demo_claimed)). tl_room held = ''room'' \<and> tl_status held = Active \<and> tl_session held = Some ''new'' \<and>
     tl_kind held = Work"
proof -
  let ?g = "demo_request AgentSessionAuth Assigned (status_update InProgress)"
  let ?r = "demo_reads (leases (td_coord demo_claimed))"
  let ?d = "go_decision (enforce_task_coordination_mutation ?g ?r)"
  let ?uo = "fenced_options (demo_work_fence\<lparr>lf_session := ''new''\<rparr>)"
  let ?a = "update_task_write no_urls demo_platform ''x'' (gi_room ?g) ''task_1'' (status_update InProgress) ?uo
     (hd (td_tasks demo_claimed)) 12 demo_claimed"
  have "?d = Inr ?uo" by code_simp
  moreover have "guard_mutation ?g = Some (TaskUpdate, Work, False)" by code_simp
  moreover have "gi_auth ?g = AgentSessionAuth" "gi_room ?g = ''room''" "gi_session ?g = Some ''new''"
    by (simp_all add: demo_request_def)
  moreover have "(case fst ?a of Inl _ \<Rightarrow> None | Inr r \<Rightarrow> map_option tr_status r) = Some InProgress" by code_simp
  then obtain row where "?a = (Inr (Some row), snd ?a)" by (cases ?a) (auto split: sum.splits)
  ultimately show ?thesis using worker_change_needs_current_lease [of ?g ?r ?uo] by metis
qed

end
