(* ===== verification/Spec2Isabelle.thy ===== *)
theory Spec2Isabelle
  imports LeaseSafety ArtifactInput DuplicateWork BudgetExtension ReconcilerRuns ExecutionHistory ExecutionDelivery
    CachedStore LedgerEvidence RentalAcceptance UsageIngest FailoverSweep TaskGuards
begin

text \<open>
  Verification of the coordination, rental and execution-evidence core of LetAgents.

  \<^bold>\<open>The program.\<close> LetAgents lets several coding agents share a room. Its API server keeps a board of
  tasks and decides who may work on what; its rental layer lends a provider's agent to a renter for a
  metered budget; the desktop daemon keeps supervised agents alive and records what their providers
  did. The development models the state machines behind these three parts. The three meet in the
  rows they share: a task lease belongs to an agent session, a host grant lets a supervisor move
  leases between sessions, a rental launch is a host grant with a worker session, and the daemon's
  journal is what a recovering supervisor trusts.

  \<^bold>\<open>Task coordination\<close> (\<^verbatim>\<open>src/api/db/coordination/\<close>, \<^verbatim>\<open>src/api/coordination-policy/\<close>,
  \<^verbatim>\<open>src/api/repo-workflow/\<close>, \<^verbatim>\<open>src/api/db/tasks.ts\<close>).
  \<^item> \<open>LeaseStore\<close>: the tables of leases, locks, sessions, grants and attestations as one record
    \<open>coord_db\<close>, and the statements of \<^verbatim>\<open>task-leases.ts\<close> and \<^verbatim>\<open>lease-rows.ts\<close>.
  \<^item> \<open>LeaseRebind\<close>: \<open>rebindTaskLease\<close> and the death attestations, \<^verbatim>\<open>lease-rebind.ts\<close>; \<open>LeaseFence\<close> and
    \<open>LeaseSafety\<close>: the step relation \<open>coord_step\<close>, its invariants, and the interface \<open>monotone_fence\<close>
    that the lease epoch, the grant generation and the action sequence of the reconciler implement.
  \<^item> \<open>CoordinationPolicy\<close> and \<open>DuplicateWork\<close>: the pure decisions over the rows that are read.
  \<^item> \<open>Artifacts\<close> and \<open>ArtifactInput\<close>: normalization, merging and validation of workflow artifacts;
    \<open>SharedArtifacts\<close>: the artifacts of a room and their links to tasks, \<^verbatim>\<open>room-shared-artifacts.ts\<close>.
  \<^item> \<open>TaskRecords\<close> and \<open>TaskUpdates\<close>: the rows and identifiers of tasks, their creation, \<open>updateTask\<close> with
    the fence, the claim and the approval it may carry, and the actions on a work lease
    (\<^verbatim>\<open>tasks.ts\<close>, \<^verbatim>\<open>work-lease-actions.ts\<close>). \<open>updateTask\<close> reads the task before its transaction, so its
    writing part \<open>update_task_write\<close> takes the row that was read, and other steps fit between.
  \<^item> \<open>BoardIntents\<close>, \<open>BoardManagers\<close>, \<open>IntentEscalation\<close>: requests for a board action with their approval
    and its consumption, the Board Manager that decides them and its failover, and the sweep that escalates
    what nobody decides (\<^verbatim>\<open>board-intent-lifecycle.ts\<close>, \<^verbatim>\<open>board-intent-approval.ts\<close>,
    \<^verbatim>\<open>board-intent-manager.ts\<close>, \<^verbatim>\<open>board-manager-failover.ts\<close>, \<^verbatim>\<open>board-intent-escalation.ts\<close>,
    \<^verbatim>\<open>board-intent-escalation-sweep.ts\<close> and the transactions of \<^verbatim>\<open>src/api/server/liveness.ts\<close>). The
    record \<open>board_db\<close> contains the task tables, and these contain \<open>coord_db\<close>.
  \<^item> \<open>ManagerSweep\<close>: the sweep that finds Board Managers that went away and their successors,
    \<^verbatim>\<open>board-manager-failover-sweep.ts\<close>; \<open>ClaimApproval\<close>: the approval of a claim, which checks the workers and
    their authority and assigns the task in one transaction, \<^verbatim>\<open>board-intent-claim.ts\<close>.
  \<^item> \<open>TaskEnforcement\<close>: the guards of a request before \<open>updateTask\<close> and before the creation of a task,
    \<^verbatim>\<open>src/api/tasks/\<close> (\<^verbatim>\<open>ownership.ts\<close>, \<^verbatim>\<open>coordination-inputs.ts\<close>, \<^verbatim>\<open>coordination-enforcement.ts\<close>). What a guard
    reads is an argument, and its outcome is the options of the update; \<open>TaskGuards\<close> shows what an admitted
    request has shown, and that a worker's write still needs the lease that the guard saw.
  \<^item> \<open>IntentSafety\<close> and \<open>BoardRuns\<close>: how every statement changes a row, and the step relation \<open>board_step\<close> of
    everything that writes intents, tasks and work leases, with a lease fence that is lost for ever.
    \<open>BoardGuarantees\<close>, \<open>AutoApproval\<close>, \<open>TaskGuarantees\<close>, \<open>BoardSweeps\<close>, \<open>ClaimGuarantees\<close>, \<open>FailoverSweep\<close>: the
    life cycle and the single use of an approval, the limit of automatic approvals, the exclusion of rival
    claims and of stale holders, what an approved claim has established, the replacement of a manager on
    evidence only, and that a whole sweep is a run of these steps.
  \<^item> This theory composes rebinding with the policy: the authority over the work moves.

  \<^bold>\<open>Rentals\<close> (\<^verbatim>\<open>src/api/rental/\<close>, \<^verbatim>\<open>src/shared/rental/\<close>, \<^verbatim>\<open>src/api/db/auth/\<close>).
  \<^item> \<open>Lrt\<close>, \<open>BudgetSentinel\<close>, \<open>BudgetLedger\<close>, \<open>BudgetExtension\<close>, \<open>UsageIngest\<close>: token arithmetic, the pure
    budget decisions, and the transactions that reserve, reconcile, extend and meter.
  \<^item> \<open>HostGrants\<close>: issuing, taking over, revoking and fencing of supervisor grants.
  \<^item> \<open>QuotaLease\<close>, \<open>LaneLeases\<close>: which rentals contend for a lane, and the leases on the session rows.
  \<^item> \<open>RentalRows\<close>, \<open>RentalAuthority\<close>, \<open>RentalSessions\<close>, \<open>RentalLaunch\<close>: the session rows and the
    handlers. A handler that reads before it writes is split there, so that other handlers can come
    between; the step relation of \<open>RentalLifecycle\<close> interleaves all writing parts with arbitrary earlier
    reads. \<open>LaneExclusion\<close>, \<open>RentalGuarantees\<close>, \<open>RentalInterleavings\<close>, \<open>RentalAcceptance\<close> state what
    holds under every interleaving, and where an interleaving escapes the fences of the code.

  \<^bold>\<open>Daemon\<close> (\<^verbatim>\<open>src/apps/desktop/daemon/\<close>).
  \<^item> \<open>Reconciler\<close>, \<open>ReconcilerRuns\<close>: restart policy, persisted bookkeeping, runner.
  \<^item> \<open>ExecutionReducer\<close>, \<open>ExecutionHistory\<close>, \<open>ExecutionDelivery\<close>: the projection of execution facts.
  \<^item> \<open>ExecutionRows\<close>, \<open>ExecutionJournal\<close>, \<open>ExecutionIngest\<close>, \<open>ExecutionReplay\<close>, \<open>ExecutionFencing\<close>,
    \<open>ExecutionStore\<close>, \<open>ExecutionProtocol\<close>: the journal, its step relation, and that what is published is the
    replay of what is stored.
  \<^item> \<open>ProjectionCache\<close>, \<open>CacheRefinement\<close>, \<open>CachedStore\<close>: the bounded cache in front of it, a refinement.
  \<^item> \<open>LifecycleLedger\<close>, \<open>LedgerEvidence\<close>: the comparison of two independent observers.

  \<^bold>\<open>Conventions.\<close> A table is a list of rows; \<open>update_where\<close>, \<open>filter\<close> and \<open>find\<close> are its statements, in
  \<open>Prelude\<close>, and a \<open>SELECT\<close> without an order gives table order. A transaction is one function from the
  tables to a result and the tables; an exception that leaves it gives the tables back unchanged. A
  result is a sum, \<open>Inl\<close> the error. A query that the code issues outside a transaction is a function of
  its own, so that steps of other connections fit between. Timestamps are milliseconds. Identifiers the
  code generates, the clock, and the token generators are arguments. Numbers that the source computes in
  binary floating point are exact rationals. Strings hold Latin-1 code units. A locale states a contract
  between components and is interpreted on the model's definitions. Where one handler reads the clock several
  times and the order matters, it takes several times (\<open>now\<close> and \<open>later\<close>, or \<open>check\<close> before \<open>now\<close>); the
  transactions of the board run under row and advisory locks and are steps. Rows that other transactions hold
  locked are an argument of a statement that skips them. Of a posted message only its room and its client
  identifier are kept, which decide whether it is posted again.

  \<^bold>\<open>Termination and bounds.\<close> No definition takes fuel: loops are structural, and the eviction loop of the
  cache recurses on the list it shortens. The journal is replayed in full; the source refuses a
  journal of more than 10000 rows, and so does the model (\<open>row_cap\<close>).

  \<^bold>\<open>Assumed of code that is not here.\<close> The platform URL parser is a parameter, and so are SHA-256, the
  rendering of a JSON scalar and the collation of keys (the record \<open>platform\<close>); nothing is assumed of them. The
  hash of a lane identity is taken to be injective. Foreign keys are used only where the code relies on the rejection.
  The database stamp is raised by every write of another connection, and such writers leave a well formed
  journal. Provider ports answer or throw per call.

  \<^bold>\<open>Not modelled.\<close> Of the components above: deletion of a room in \<open>coord_step\<close>; the atomicity of activity events
  with the transactions they follow (they are outside them in the code as well); malformed stored lease
  documents; failures of event publication; the insertion of a requested rental beyond a generic row; host
  registration; the views \<open>retainedMessageExecution\<close> and \<open>roomWorkSummary\<close>; schema creation, migrations and
  diagnostics. Whole parts: input and output (process start, sockets, HTTP, git worktrees), the user interfaces,
  provider adapters, the GitHub service, and the declarative schema beyond the indexes that the model
  states with its tables.

  \<^bold>\<open>Left aside.\<close> Parts that carry logic of their own but are not modelled: the HTTP routes, which parse a
  request and compose the guards and operations modelled here; the stalled-room and the presence sweeps, whose
  decisions rest on observations the model does not keep; the inbox of supervised agents and the recovery and
  approval journals of the daemon; and the patch gates of rental workspaces, which act on git worktrees.
\<close>

section \<open>Rebinding and the coordination policy\<close>

lemma rebound_lease:
  assumes "leases_wf (leases db)" "rebind_task_lease inp now db = (Inr lease, db')"
  shows "lease \<in> set (leases db')" "tl_session lease = Some (ri_to inp)" "tl_kind lease = Work"
    "tl_status lease = Active" "leases_wf (leases db')"
proof -
  from assms(2) obtain l new where v: "rebind_validate inp now db = Inr (l, new)"
    and lease: "lease = moved_lease new (tl_epoch l + 1) now l"
    and db': "leases db' = update_where (rebind_lease_row inp) (moved_lease new (tl_epoch l + 1) now) (leases db)"
    by (auto simp: rebind_task_lease_Inr)
  note l = rebind_validate_lease [OF v] and f = rebind_validate_Inr [OF v]
  show "lease \<in> set (leases db')"
    using update_where_mem [of l "leases db" "rebind_lease_row inp" "moved_lease new (tl_epoch l + 1) now"] l
    unfolding db' lease by simp
  show "tl_session lease = Some (ri_to inp)"
    using f by (auto simp: lease moved_lease_def rebind_authorised_def)
  show "tl_kind lease = Work" "tl_status lease = Active"
    using l f by (auto simp: lease moved_lease_def rebind_lease_row_def)
  show "leases_wf (leases db')" using rebind_wf [OF assms] .
qed

lemma active_lease_is_read:
  assumes "l \<in> set (leases db)" "is_active_lease now l" "tl_room l = room" "t = None \<or> t = Some (tl_task l)"
    and "get_active_task_leases room t now db = (rs, db')"
  shows "l \<in> set rs"
proof -
  have "l \<in> set (expire_stale_task_leases room now (leases db))"
    using assms(1,2)
    by (auto simp: expire_stale_task_leases_def is_active_lease_def set_update_where split: option.splits)
  then show ?thesis
    using assms(2-5) by (auto simp: get_active_task_leases_def Let_def is_active_lease_def split: option.splits if_splits)
qed

text \<open>C2: The policy sees a rebind at once: from the moment a work lease is rebound, no mutation of its
  task that needs the work lease is allowed to any session but the successor, whatever agent key,
  locks and later time, and the successor is allowed it while the lease has not expired and no lock
  applies.\<close>

theorem rebind_moves_work_authority:
  assumes "leases_wf (leases db)" "rebind_task_lease inp now db = (Inr lease, db')" "ri_to inp \<noteq> []"
    and "get_active_task_leases (tl_room lease) t now' db' = (rs, db'')" "t = None \<or> t = Some (tl_task lease)"
    and "is_active_lease now' lease"
  shows "(\<forall>l. evaluate_mutation m (tl_task lease) Work a rs ks now' = Allow l \<longrightarrow>
      l = lease \<and> ca_session a = Some (ri_to inp)) \<and>
    (ca_session a = Some (ri_to inp) \<and> ca_agent_key a = Some (tl_agent_key lease) \<and> tl_agent_key lease \<noteq> [] \<and>
       find_applicable_lock ks (Some (tl_task lease)) = None \<longrightarrow>
     evaluate_mutation m (tl_task lease) Work a rs ks now' = Allow lease)"
proof -
  note r = rebound_lease [OF assms(1,2)]
  have mem: "lease \<in> set rs" by (rule active_lease_is_read [OF r(1) assms(6) refl assms(5,4)])
  have unique: "l = lease" if "l \<in> set rs" "tl_kind l = Work" "tl_task l = tl_task lease" for l
    using one_active_work_lease [OF r(5) assms(4) mem r(3) that] .
  have matches: "lease_matches_actor lease a \<longleftrightarrow>
      ca_session a = Some (ri_to inp) \<and> ca_agent_key a = Some (tl_agent_key lease) \<and> tl_agent_key lease \<noteq> []"
    using r(2) assms(3) by (auto simp: lease_matches_actor_def truthy_iff)
  have "l = lease \<and> ca_session a = Some (ri_to inp)"
    if "List.find (holds_lease (tl_task lease) Work a now') rs = Some l" for l
    using find_SomeD [OF that] unique [of l] matches by (auto simp: holds_lease_def)
  moreover have "List.find (holds_lease (tl_task lease) Work a now') rs = Some lease"
    if "lease_matches_actor lease a"
  proof -
    have "holds_lease (tl_task lease) Work a now' lease"
      using that assms(6) r(3) by (simp add: holds_lease_def)
    then obtain l where l: "List.find (holds_lease (tl_task lease) Work a now') rs = Some l"
      using mem by (cases "List.find (holds_lease (tl_task lease) Work a now') rs") (auto dest: find_NoneD)
    then show ?thesis using calculation by blast
  qed
  ultimately show ?thesis unfolding evaluate_mutation_Allow matches by blast
qed

definition demo_actor :: "string \<Rightarrow> actor" where
  "demo_actor s = \<lparr>ca_label = None, ca_agent_key = Some ''key'', ca_instance = None, ca_session = Some s\<rparr>"

theorem rebind_moves_work_authority_witness:
  "\<not> (\<exists>l. evaluate_mutation TaskComplete ''task_1'' Work (demo_actor ''old'')
      (fst (get_active_task_leases ''room'' None 70 demo_rebound)) [] 70 = Allow l)"
proof -
  let ?new = "moved_lease (demo_session ''new'' 20 None) 1 60 demo_lease"
  have 1: "leases_wf (leases demo_attested)" by (rule demo_wf)
  have 2: "rebind_task_lease demo_rebind 60 demo_attested = (Inr ?new, demo_rebound)" by code_simp
  have 3: "get_active_task_leases ''room'' None 70 demo_rebound = ([?new], demo_rebound)" by code_simp
  have 4: "tl_room ?new = ''room''" "tl_task ?new = ''task_1''" "is_active_lease 70 ?new" "ri_to demo_rebind = ''new''"
    by code_simp+
  show ?thesis
    using rebind_moves_work_authority [OF 1 2, of None 70 "[?new]" demo_rebound TaskComplete "demo_actor ''old''" "[]"]
    by (simp add: 3 4 demo_actor_def)
qed

end
